(* ===== verification/Prelude.thy ===== *)
theory Prelude
  imports Main "HOL-Library.Word"
begin

text \<open>
  Shared vocabulary of the development: results of fallible Rust code, machine integers,
  decimal printing of unsigned integers, and the generic list lemmas the components use.

  A Rust function returning \<^verbatim>\<open>Result<T, E>\<close> is modelled by a function into
  \<open>('a, 'e) res\<close>: \<open>Ok\<close>, \<open>Err\<close>, or \<open>Panic\<close> where the source reaches
  \<^verbatim>\<open>panic!\<close>, \<^verbatim>\<open>unreachable!\<close> or an \<^verbatim>\<open>expect\<close>/\<^verbatim>\<open>unwrap\<close> that does
  not hold.  Panics are values so that their absence is something to prove.
\<close>

type_synonym u32 = "32 word"
type_synonym u64 = "64 word"
type_synonym i64 = int
type_synonym bytes = "char list"
type_synonym SystemTime = int
type_synonym StdDuration = nat

named_theorems machine_defs \<open>the handlers and adapters of a state machine\<close>

section \<open>Results\<close>

datatype ('a, 'e) res = Ok 'a | Err 'e | Panic

fun res_bind :: "('a, 'e) res \<Rightarrow> ('a \<Rightarrow> ('b, 'e) res) \<Rightarrow> ('b, 'e) res" where
  "res_bind (Ok a) f = f a"
| "res_bind (Err e) f = Err e"
| "res_bind Panic f = Panic"

fun res_map :: "('a \<Rightarrow> 'b) \<Rightarrow> ('a, 'e) res \<Rightarrow> ('b, 'e) res" where
  "res_map f (Ok a) = Ok (f a)"
| "res_map f (Err e) = Err e"
| "res_map f Panic = Panic"

fun is_ok :: "('a, 'e) res \<Rightarrow> bool" where
  "is_ok (Ok _) = True"
| "is_ok _ = False"

text \<open>
  The loop \<^verbatim>\<open>for x in xs { out.extend(f(x)?) }\<close>, which is also
  \<^verbatim>\<open>map(f).flatten_ok().try_collect()\<close>: the first error ends it.
\<close>

fun concat_res :: "('a \<Rightarrow> ('b list, 'e) res) \<Rightarrow> 'a list \<Rightarrow> ('b list, 'e) res" where
  "concat_res f [] = Ok []"
| "concat_res f (x # xs) = res_bind (f x) (\<lambda>ys. res_map (\<lambda>zs. ys @ zs) (concat_res f xs))"

lemma res_bind_Ok [simp]: "res_bind r Ok = r"
  by (cases r) auto

lemma res_bind_assoc: "res_bind (res_bind r f) g = res_bind r (\<lambda>v. res_bind (f v) g)"
  by (cases r) auto

lemma res_map_bind: "res_map f (res_bind r g) = res_bind r (\<lambda>v. res_map f (g v))"
  by (cases r) auto

lemma res_bind_eq_Ok: "res_bind r f = Ok b \<longleftrightarrow> (\<exists>a. r = Ok a \<and> f a = Ok b)"
  by (cases r) auto

lemma res_map_eq_Ok: "res_map f r = Ok b \<longleftrightarrow> (\<exists>a. r = Ok a \<and> b = f a)"
  by (cases r) auto

lemma res_map_eq_Err: "res_map f r = Err e \<longleftrightarrow> r = Err e"
  by (cases r) auto

lemma res_map_eq_Panic [simp]: "res_map f r = Panic \<longleftrightarrow> r = Panic"
  by (cases r) auto

lemma res_bind_not_Panic:
  "r \<noteq> Panic \<Longrightarrow> (\<And>a. r = Ok a \<Longrightarrow> f a \<noteq> Panic) \<Longrightarrow> res_bind r f \<noteq> Panic"
  by (cases r) auto

lemma res_bind_eq_Panic: "res_bind r f = Panic \<longleftrightarrow> r = Panic \<or> (\<exists>a. r = Ok a \<and> f a = Panic)"
  by (cases r) auto

lemma concat_res_not_Panic: "(\<And>x. x \<in> set xs \<Longrightarrow> f x \<noteq> Panic) \<Longrightarrow> concat_res f xs \<noteq> Panic"
  by (induction xs) (auto simp: res_bind_eq_Panic)

lemma concat_res_Ok_map:
  "(\<And>x. x \<in> set xs \<Longrightarrow> f x = Ok (g x)) \<Longrightarrow> concat_res f xs = Ok (concat (map g xs))"
  by (induction xs) auto

lemma concat_res_append:
  "concat_res f (xs @ ys) = res_bind (concat_res f xs) (\<lambda>as. res_map (\<lambda>bs. as @ bs) (concat_res f ys))"
proof (induction xs)
  case Nil
  show ?case by (cases "concat_res f ys") auto
next
  case (Cons x xs)
  then show ?case
    by (cases "f x"; cases "concat_res f xs"; cases "concat_res f ys") auto
qed

section \<open>Options\<close>

definition unwrap_or :: "'a option \<Rightarrow> 'a \<Rightarrow> 'a" where
  "unwrap_or x d = (case x of Some a \<Rightarrow> a | None \<Rightarrow> d)"

lemma unwrap_or_simps [simp]: "unwrap_or (Some a) d = a" "unwrap_or None d = d"
  by (simp_all add: unwrap_or_def)

definition ok_or :: "'a option \<Rightarrow> 'e \<Rightarrow> ('a, 'e) res" where
  "ok_or x e = (case x of Some a \<Rightarrow> Ok a | None \<Rightarrow> Err e)"

lemma ok_or_simps [simp]: "ok_or (Some a) e = Ok a" "ok_or None e = Err e"
  by (simp_all add: ok_or_def)

section \<open>Decimal printing\<close>

text \<open>\<^verbatim>\<open>u32::to_string\<close>: the decimal digits, most significant first, without leading zeros.\<close>

definition digit_char :: "nat \<Rightarrow> char" where
  "digit_char d = char_of (48 + d)"

fun nat_to_string :: "nat \<Rightarrow> string" where
  "nat_to_string n =
     (if n < 10 then [digit_char n] else nat_to_string (n div 10) @ [digit_char (n mod 10)])"

declare nat_to_string.simps [simp del]

definition u32_to_string :: "u32 \<Rightarrow> string" where
  "u32_to_string w = nat_to_string (unat w)"

fun digits_value :: "nat \<Rightarrow> string \<Rightarrow> nat" where
  "digits_value acc [] = acc"
| "digits_value acc (c # cs) = digits_value (10 * acc + (of_char c - 48)) cs"

lemma of_char_digit_char: "d < 10 \<Longrightarrow> of_char (digit_char d) = 48 + d"
  by (simp add: digit_char_def of_char_of take_bit_eq_mod)

lemma digits_value_append: "digits_value acc (xs @ ys) = digits_value (digits_value acc xs) ys"
  by (induction xs arbitrary: acc) auto

lemma digits_value_nat_to_string: "digits_value 0 (nat_to_string n) = n"
proof (induction n rule: nat_to_string.induct)
  case (1 n)
  show ?case
  proof (cases "n < 10")
    case True
    then show ?thesis by (simp add: nat_to_string.simps [of n] of_char_digit_char)
  next
    case False
    then show ?thesis
      by (simp add: nat_to_string.simps [of n] digits_value_append "1.IH" of_char_digit_char)
  qed
qed

lemma nat_to_string_inject [simp]: "nat_to_string m = nat_to_string n \<longleftrightarrow> m = n"
  by (metis digits_value_nat_to_string)

lemma u32_to_string_inject [simp]: "u32_to_string a = u32_to_string b \<longleftrightarrow> a = b"
  by (simp add: u32_to_string_def word_unat_eq_iff)

lemma u32_to_string_small: "unat w < 10 \<Longrightarrow> u32_to_string w = [digit_char (unat w)]"
  by (simp add: u32_to_string_def nat_to_string.simps [of "unat w"])

end
