(* ===== verification/Protos.thy ===== *)
theory Protos
  imports Prelude
begin

text \<open>
  The messages the workflow machines read and write, restricted to the fields the core code
  reads or sets, and the inherent methods the repository defines on them
  (\<^verbatim>\<open>crates/protos/src/protos/mod.rs\<close>, \<^verbatim>\<open>crates/sdk-core/src/protosext\<close>).

  Conventions.  Constructors of a protobuf enumeration or \<^verbatim>\<open>oneof\<close> carry a short prefix:
  \<open>E_\<close> for \<^verbatim>\<open>EventType\<close>, \<open>A_\<close> for history event attributes, \<open>C_\<close> for
  \<^verbatim>\<open>CommandType\<close>, \<open>CA_\<close> for command attributes, \<open>J_\<close> for activation jobs.
  An enumeration field holding a number no constructor has reads as the default constructor, as
  the generated getters do.  Fields that are only copied from one message to another are kept
  together in one \<open>_rest\<close> field.  A \<^verbatim>\<open>HashMap\<close> is a partial map.
\<close>

section \<open>Payloads, failures, durations\<close>

type_synonym Timestamp = "int \<times> int"
type_synonym ProstDuration = "int \<times> int"

record Payload =
  pl_metadata :: "string \<rightharpoonup> bytes"
  pl_data :: bytes
  pl_external_payloads :: "bytes list"

type_synonym Payloads = "Payload list"

definition Payload_default :: Payload where
  "Payload_default = \<lparr>pl_metadata = Map.empty, pl_data = [], pl_external_payloads = []\<rparr>"

datatype PayloadsToPayloadError = MoreThanOnePayload | NoPayload

text \<open>\<^verbatim>\<open>pop\<close> takes the last payload; it must have been the only one.\<close>

definition payloads_try_into :: "Payloads \<Rightarrow> (Payload, PayloadsToPayloadError) res" where
  "payloads_try_into v =
     (if v = [] then Err NoPayload
      else let p = last v; rest = butlast v
           in if rest = [] then Ok p else Err MoreThanOnePayload)"

datatype RetryState = RS_Unspecified | RS_InProgress | RS_NonRetryableFailure | RS_Timeout
  | RS_MaximumAttemptsReached | RS_RetryPolicyNotSet | RS_InternalServerError | RS_CancelRequested

datatype TimeoutType = TT_Unspecified | TT_StartToClose | TT_ScheduleToStart
  | TT_ScheduleToClose | TT_Heartbeat

record WorkflowExecution =
  we_workflow_id :: string
  we_run_id :: string

record NamespacedWorkflowExecution =
  nwe_namespace :: string
  nwe_workflow_id :: string
  nwe_run_id :: string

record ActivityFailureInfo =
  afi_identity :: string
  afi_activity_type :: "string option"
  afi_activity_id :: string
  afi_retry_state :: RetryState
  afi_started_event_id :: i64
  afi_scheduled_event_id :: i64

record ChildWorkflowExecutionFailureInfo =
  cfi_namespace :: string
  cfi_workflow_type :: "string option"
  cfi_initiated_event_id :: i64
  cfi_started_event_id :: i64
  cfi_retry_state :: RetryState
  cfi_workflow_execution :: "WorkflowExecution option"

record NexusOperationFailureInfo =
  nfi_scheduled_event_id :: i64
  nfi_endpoint :: string
  nfi_service :: string
  nfi_operation :: string
  nfi_operation_token :: string

record ApplicationFailureInfo =
  api_type :: string
  api_non_retryable :: bool
  api_next_retry_delay :: "ProstDuration option"
  api_rest :: bytes

datatype FailureInfo =
    FI_Application ApplicationFailureInfo
  | FI_Timeout TimeoutType "Payloads option"
  | FI_Canceled "Payloads option" string
  | FI_Terminated string
  | FI_Activity ActivityFailureInfo
  | FI_ChildWorkflowExecution ChildWorkflowExecutionFailureInfo
  | FI_NexusOperationExecution NexusOperationFailureInfo
  | FI_Other bytes

text \<open>
  \<open>f_rest\<close> stands for \<^verbatim>\<open>source\<close>, \<^verbatim>\<open>stack_trace\<close> and
  \<^verbatim>\<open>encoded_attributes\<close>, which no code here reads; \<open>[]\<close> is their default.
\<close>

datatype Failure = Failure (f_message: string) (f_cause: "Failure option")
  (f_info: "FailureInfo option") (f_rest: bytes)

definition Failure_default :: Failure where
  "Failure_default = Failure [] None None []"

section \<open>Enumerations\<close>

datatype (plugins only: code size) EventType = E_Unspecified
  | E_WorkflowExecutionStarted | E_WorkflowExecutionCompleted | E_WorkflowExecutionFailed
  | E_WorkflowExecutionTimedOut | E_WorkflowTaskScheduled | E_WorkflowTaskStarted
  | E_WorkflowTaskCompleted | E_WorkflowTaskTimedOut | E_WorkflowTaskFailed
  | E_ActivityTaskScheduled | E_ActivityTaskStarted | E_ActivityTaskCompleted
  | E_ActivityTaskFailed | E_ActivityTaskTimedOut | E_ActivityTaskCancelRequested
  | E_ActivityTaskCanceled | E_TimerStarted | E_TimerFired | E_TimerCanceled
  | E_WorkflowExecutionCancelRequested | E_WorkflowExecutionCanceled
  | E_RequestCancelExternalWorkflowExecutionInitiated
  | E_RequestCancelExternalWorkflowExecutionFailed
  | E_ExternalWorkflowExecutionCancelRequested | E_MarkerRecorded
  | E_WorkflowExecutionSignaled | E_WorkflowExecutionTerminated
  | E_WorkflowExecutionContinuedAsNew | E_StartChildWorkflowExecutionInitiated
  | E_StartChildWorkflowExecutionFailed | E_ChildWorkflowExecutionStarted
  | E_ChildWorkflowExecutionCompleted | E_ChildWorkflowExecutionFailed
  | E_ChildWorkflowExecutionCanceled | E_ChildWorkflowExecutionTimedOut
  | E_ChildWorkflowExecutionTerminated | E_SignalExternalWorkflowExecutionInitiated
  | E_SignalExternalWorkflowExecutionFailed | E_ExternalWorkflowExecutionSignaled
  | E_UpsertWorkflowSearchAttributes | E_WorkflowExecutionUpdateAccepted
  | E_WorkflowExecutionUpdateRejected | E_WorkflowExecutionUpdateCompleted
  | E_WorkflowPropertiesModifiedExternally | E_ActivityPropertiesModifiedExternally
  | E_WorkflowPropertiesModified | E_WorkflowExecutionUpdateAdmitted
  | E_NexusOperationScheduled | E_NexusOperationStarted | E_NexusOperationCompleted
  | E_NexusOperationFailed | E_NexusOperationCanceled | E_NexusOperationTimedOut
  | E_NexusOperationCancelRequested | E_WorkflowExecutionOptionsUpdated
  | E_NexusOperationCancelRequestCompleted | E_NexusOperationCancelRequestFailed
  | E_WorkflowExecutionPaused | E_WorkflowExecutionUnpaused
  | E_WorkflowExecutionTimeSkippingTransitioned

datatype (plugins only: code size) CommandType = C_Unspecified | C_ScheduleActivityTask
  | C_RequestCancelActivityTask | C_StartTimer | C_CompleteWorkflowExecution
  | C_FailWorkflowExecution | C_CancelTimer | C_CancelWorkflowExecution
  | C_RequestCancelExternalWorkflowExecution | C_RecordMarker
  | C_ContinueAsNewWorkflowExecution | C_StartChildWorkflowExecution
  | C_SignalExternalWorkflowExecution | C_UpsertWorkflowSearchAttributes | C_ProtocolMessage
  | C_ModifyWorkflowProperties | C_ScheduleNexusOperation | C_RequestCancelNexusOperation

datatype ActivityCancellationType = ACT_TryCancel | ACT_WaitCancellationCompleted | ACT_Abandon

datatype ChildWorkflowCancellationType = CCT_Abandon | CCT_TryCancel
  | CCT_WaitCancellationCompleted | CCT_WaitCancellationRequested

datatype NexusOperationCancellationType = NCT_WaitCancellationCompleted | NCT_Abandon
  | NCT_TryCancel | NCT_WaitCancellationRequested

datatype StartChildWorkflowExecutionFailedCause = SCF_Unspecified | SCF_WorkflowAlreadyExists
  | SCF_NamespaceNotFound | SCF_InvalidVersioningOverride

datatype SignalExternalWorkflowExecutionFailedCause = SEF_Unspecified
  | SEF_ExternalWorkflowExecutionNotFound | SEF_NamespaceNotFound | SEF_SignalCountLimitExceeded

datatype CancelExternalWorkflowExecutionFailedCause = CEF_Unspecified
  | CEF_ExternalWorkflowExecutionNotFound | CEF_NamespaceNotFound

text \<open>
  Of the forty causes only two are compared with; the others are told apart by their number.
\<close>

datatype WorkflowTaskFailedCause = WTF_ResetWorkflow
  | WTF_WorkflowPauseRequestedBeforeTaskStarted | WTF_Other nat

datatype VersioningIntent = VI_Unspecified | VI_Compatible | VI_Default

section \<open>History events\<close>

record UserMetadata =
  um_summary :: "Payload option"
  um_details :: "Payload option"

type_synonym EventGroupMarker = bytes

record UpdateMeta =
  upm_update_id :: string
  upm_identity :: string

record UpdateInput =
  upi_header :: "(string \<rightharpoonup> Payload) option"
  upi_name :: string
  upi_args :: "Payloads option"

record Request =
  rq_meta :: "UpdateMeta option"
  rq_input :: "UpdateInput option"
  rq_propagated_nexus_serialization_context :: bytes

record WorkflowTaskCompletedMetadata =
  wtm_core_used_flags :: "u32 list"
  wtm_lang_used_flags :: "u32 list"
  wtm_sdk_name :: string
  wtm_sdk_version :: string

record WorkerDeploymentVersion =
  wdv_deployment_name :: string
  wdv_build_id :: string

record WorkflowTaskCompletedEventAttributes =
  wtc_scheduled_event_id :: i64
  wtc_sdk_metadata :: "WorkflowTaskCompletedMetadata option"
  wtc_worker_version_build_id :: "string option"
  wtc_worker_deployment_name :: string
  wtc_worker_deployment_version :: string
  wtc_deployment_version :: "WorkerDeploymentVersion option"

record WorkflowTaskStartedEventAttributes =
  wts_scheduled_event_id :: i64
  wts_history_size_bytes :: i64
  wts_suggest_continue_as_new :: bool
  wts_suggest_continue_as_new_reasons :: "int list"
  wts_target_worker_deployment_version_changed :: bool

record WorkflowTaskFailedEventAttributes =
  wtf_scheduled_event_id :: i64
  wtf_cause :: "WorkflowTaskFailedCause option"
  wtf_new_run_id :: string

record WorkflowExecutionStartedEventAttributes =
  wes_original_execution_run_id :: string
  wes_workflow_task_timeout :: "ProstDuration option"
  wes_memo :: "(string \<times> Payload) list option"
  wes_search_attributes :: "(string \<times> Payload) list option"
  wes_retry_policy :: "bytes option"
  wes_rest :: bytes

record WorkflowExecutionSignaledEventAttributes =
  wsg_signal_name :: string
  wsg_input :: "Payloads option"
  wsg_identity :: string
  wsg_header :: "(string \<rightharpoonup> Payload) option"

record ActivityTaskScheduledEventAttributes =
  ats_activity_id :: string
  ats_activity_type :: "string option"

record ActivityTaskFailedEventAttributes =
  atf_scheduled_event_id :: i64
  atf_started_event_id :: i64
  atf_failure :: "Failure option"
  atf_identity :: string
  atf_retry_state :: RetryState

record ActivityTaskTimedOutEventAttributes =
  ato_scheduled_event_id :: i64
  ato_started_event_id :: i64
  ato_failure :: "Failure option"
  ato_retry_state :: RetryState

record ActivityTaskCanceledEventAttributes =
  atc_scheduled_event_id :: i64
  atc_started_event_id :: i64
  atc_details :: "Payloads option"
  atc_identity :: string

record MarkerRecordedEventAttributes =
  mr_marker_name :: string
  mr_details :: "string \<rightharpoonup> Payloads"
  mr_failure :: "Failure option"

record StartChildWorkflowExecutionInitiatedEventAttributes =
  sci_workflow_id :: string
  sci_workflow_type :: "string option"

record StartChildWorkflowExecutionFailedEventAttributes =
  scf_initiated_event_id :: i64
  scf_cause :: "StartChildWorkflowExecutionFailedCause option"

record ChildWorkflowExecutionStartedEventAttributes =
  cws_initiated_event_id :: i64
  cws_workflow_execution :: "WorkflowExecution option"

text \<open>
  The completed, failed, cancelled, timed out and terminated events of a child share the
  execution, the initiating and started event ids; each adds what the machine reads of it.
\<close>

record ChildWorkflowExecutionClosedEventAttributes =
  cwc_initiated_event_id :: i64
  cwc_started_event_id :: i64
  cwc_namespace :: string
  cwc_workflow_execution :: "WorkflowExecution option"
  cwc_workflow_type :: "string option"
  cwc_result :: "Payloads option"
  cwc_failure :: "Failure option"
  cwc_retry_state :: RetryState
  cwc_details :: "Payloads option"

record UpdateAcceptedEventAttributes =
  wua_protocol_instance_id :: string
  wua_accepted_request_message_id :: string
  wua_accepted_request_sequencing_event_id :: i64
  wua_accepted_request :: "Request option"

record NexusOperationScheduledEventAttributes =
  nos_endpoint :: string
  nos_service :: string
  nos_operation :: string

text \<open>
  \<open>A_Other t\<close> is the attributes message of event type \<open>t\<close>, for the types whose attributes
  the workflow machines never look into.
\<close>

datatype (plugins only: code size) Attributes =
    A_WorkflowExecutionStarted WorkflowExecutionStartedEventAttributes
  | A_WorkflowTaskScheduled int
  | A_WorkflowTaskStarted WorkflowTaskStartedEventAttributes
  | A_WorkflowTaskCompleted WorkflowTaskCompletedEventAttributes
  | A_WorkflowTaskTimedOut i64
  | A_WorkflowTaskFailed WorkflowTaskFailedEventAttributes
  | A_ActivityTaskScheduled ActivityTaskScheduledEventAttributes
  | A_ActivityTaskStarted i64
  | A_ActivityTaskCompleted i64 "Payloads option"
  | A_ActivityTaskFailed ActivityTaskFailedEventAttributes
  | A_ActivityTaskTimedOut ActivityTaskTimedOutEventAttributes
  | A_ActivityTaskCancelRequested i64
  | A_ActivityTaskCanceled ActivityTaskCanceledEventAttributes
  | A_TimerFired string i64
  | A_TimerCanceled string i64
  | A_WorkflowExecutionSignaled WorkflowExecutionSignaledEventAttributes
  | A_WorkflowExecutionCancelRequested string
  | A_RequestCancelExternalWorkflowExecutionFailed i64
      "CancelExternalWorkflowExecutionFailedCause option"
  | A_ExternalWorkflowExecutionCancelRequested i64
  | A_MarkerRecorded MarkerRecordedEventAttributes
  | A_StartChildWorkflowExecutionInitiated StartChildWorkflowExecutionInitiatedEventAttributes
  | A_StartChildWorkflowExecutionFailed StartChildWorkflowExecutionFailedEventAttributes
  | A_ChildWorkflowExecutionStarted ChildWorkflowExecutionStartedEventAttributes
  | A_ChildWorkflowExecutionCompleted ChildWorkflowExecutionClosedEventAttributes
  | A_ChildWorkflowExecutionFailed ChildWorkflowExecutionClosedEventAttributes
  | A_ChildWorkflowExecutionCanceled ChildWorkflowExecutionClosedEventAttributes
  | A_ChildWorkflowExecutionTimedOut ChildWorkflowExecutionClosedEventAttributes
  | A_ChildWorkflowExecutionTerminated ChildWorkflowExecutionClosedEventAttributes
  | A_SignalExternalWorkflowExecutionFailed i64
      "SignalExternalWorkflowExecutionFailedCause option"
  | A_ExternalWorkflowExecutionSignaled i64
  | A_UpsertWorkflowSearchAttributes "(string \<times> Payload) list option"
  | A_WorkflowExecutionUpdateAccepted UpdateAcceptedEventAttributes
  | A_WorkflowExecutionUpdateAdmitted "Request option"
  | A_NexusOperationScheduled NexusOperationScheduledEventAttributes
  | A_NexusOperationStarted i64 string string
  | A_NexusOperationCompleted i64 "Payload option"
  | A_NexusOperationFailed i64 "Failure option"
  | A_NexusOperationCanceled i64 "Failure option"
  | A_NexusOperationTimedOut i64 "Failure option"
  | A_NexusOperationCancelRequested i64
  | A_NexusOperationCancelRequestCompleted i64
  | A_NexusOperationCancelRequestFailed i64 "Failure option"
  | A_Other EventType

record HistoryEvent =
  he_event_id :: i64
  he_event_time :: "Timestamp option"
  he_event_type :: EventType
  he_worker_may_ignore :: bool
  he_attributes :: "Attributes option"

text \<open>\<^verbatim>\<open>Attributes::event_type\<close>.\<close>

fun Attributes_event_type :: "Attributes \<Rightarrow> EventType" where
  "Attributes_event_type (A_WorkflowExecutionStarted _) = E_WorkflowExecutionStarted"
| "Attributes_event_type (A_WorkflowTaskScheduled _) = E_WorkflowTaskScheduled"
| "Attributes_event_type (A_WorkflowTaskStarted _) = E_WorkflowTaskStarted"
| "Attributes_event_type (A_WorkflowTaskCompleted _) = E_WorkflowTaskCompleted"
| "Attributes_event_type (A_WorkflowTaskTimedOut _) = E_WorkflowTaskTimedOut"
| "Attributes_event_type (A_WorkflowTaskFailed _) = E_WorkflowTaskFailed"
| "Attributes_event_type (A_ActivityTaskScheduled _) = E_ActivityTaskScheduled"
| "Attributes_event_type (A_ActivityTaskStarted _) = E_ActivityTaskStarted"
| "Attributes_event_type (A_ActivityTaskCompleted _ _) = E_ActivityTaskCompleted"
| "Attributes_event_type (A_ActivityTaskFailed _) = E_ActivityTaskFailed"
| "Attributes_event_type (A_ActivityTaskTimedOut _) = E_ActivityTaskTimedOut"
| "Attributes_event_type (A_ActivityTaskCancelRequested _) = E_ActivityTaskCancelRequested"
| "Attributes_event_type (A_ActivityTaskCanceled _) = E_ActivityTaskCanceled"
| "Attributes_event_type (A_TimerFired _ _) = E_TimerFired"
| "Attributes_event_type (A_TimerCanceled _ _) = E_TimerCanceled"
| "Attributes_event_type (A_WorkflowExecutionSignaled _) = E_WorkflowExecutionSignaled"
| "Attributes_event_type (A_WorkflowExecutionCancelRequested _) =
     E_WorkflowExecutionCancelRequested"
| "Attributes_event_type (A_RequestCancelExternalWorkflowExecutionFailed _ _) =
     E_RequestCancelExternalWorkflowExecutionFailed"
| "Attributes_event_type (A_ExternalWorkflowExecutionCancelRequested _) =
     E_ExternalWorkflowExecutionCancelRequested"
| "Attributes_event_type (A_MarkerRecorded _) = E_MarkerRecorded"
| "Attributes_event_type (A_StartChildWorkflowExecutionInitiated _) =
     E_StartChildWorkflowExecutionInitiated"
| "Attributes_event_type (A_StartChildWorkflowExecutionFailed _) =
     E_StartChildWorkflowExecutionFailed"
| "Attributes_event_type (A_ChildWorkflowExecutionStarted _) = E_ChildWorkflowExecutionStarted"
| "Attributes_event_type (A_ChildWorkflowExecutionCompleted _) =
     E_ChildWorkflowExecutionCompleted"
| "Attributes_event_type (A_ChildWorkflowExecutionFailed _) = E_ChildWorkflowExecutionFailed"
| "Attributes_event_type (A_ChildWorkflowExecutionCanceled _) =
     E_ChildWorkflowExecutionCanceled"
| "Attributes_event_type (A_ChildWorkflowExecutionTimedOut _) =
     E_ChildWorkflowExecutionTimedOut"
| "Attributes_event_type (A_ChildWorkflowExecutionTerminated _) =
     E_ChildWorkflowExecutionTerminated"
| "Attributes_event_type (A_SignalExternalWorkflowExecutionFailed _ _) =
     E_SignalExternalWorkflowExecutionFailed"
| "Attributes_event_type (A_ExternalWorkflowExecutionSignaled _) =
     E_ExternalWorkflowExecutionSignaled"
| "Attributes_event_type (A_UpsertWorkflowSearchAttributes _) = E_UpsertWorkflowSearchAttributes"
| "Attributes_event_type (A_WorkflowExecutionUpdateAccepted _) =
     E_WorkflowExecutionUpdateAccepted"
| "Attributes_event_type (A_WorkflowExecutionUpdateAdmitted _) =
     E_WorkflowExecutionUpdateAdmitted"
| "Attributes_event_type (A_NexusOperationScheduled _) = E_NexusOperationScheduled"
| "Attributes_event_type (A_NexusOperationStarted _ _ _) = E_NexusOperationStarted"
| "Attributes_event_type (A_NexusOperationCompleted _ _) = E_NexusOperationCompleted"
| "Attributes_event_type (A_NexusOperationFailed _ _) = E_NexusOperationFailed"
| "Attributes_event_type (A_NexusOperationCanceled _ _) = E_NexusOperationCanceled"
| "Attributes_event_type (A_NexusOperationTimedOut _ _) = E_NexusOperationTimedOut"
| "Attributes_event_type (A_NexusOperationCancelRequested _) = E_NexusOperationCancelRequested"
| "Attributes_event_type (A_NexusOperationCancelRequestCompleted _) =
     E_NexusOperationCancelRequestCompleted"
| "Attributes_event_type (A_NexusOperationCancelRequestFailed _ _) =
     E_NexusOperationCancelRequestFailed"
| "Attributes_event_type (A_Other t) = t"

definition event_type_is_command :: "EventType \<Rightarrow> bool" where
  "event_type_is_command et \<longleftrightarrow> et \<in> {E_ActivityTaskScheduled, E_ActivityTaskCancelRequested,
     E_MarkerRecorded, E_RequestCancelExternalWorkflowExecutionInitiated,
     E_SignalExternalWorkflowExecutionInitiated, E_StartChildWorkflowExecutionInitiated,
     E_TimerCanceled, E_TimerStarted, E_UpsertWorkflowSearchAttributes,
     E_WorkflowPropertiesModified, E_NexusOperationScheduled, E_NexusOperationCancelRequested,
     E_WorkflowExecutionCanceled, E_WorkflowExecutionCompleted,
     E_WorkflowExecutionContinuedAsNew, E_WorkflowExecutionFailed,
     E_WorkflowExecutionUpdateAccepted, E_WorkflowExecutionUpdateRejected,
     E_WorkflowExecutionUpdateCompleted}"

definition is_command_event :: "HistoryEvent \<Rightarrow> bool" where
  "is_command_event e \<longleftrightarrow> event_type_is_command (he_event_type e)"

fun Attributes_initial_command_event_id :: "Attributes \<Rightarrow> i64 option" where
  "Attributes_initial_command_event_id (A_ActivityTaskStarted i) = Some i"
| "Attributes_initial_command_event_id (A_ActivityTaskCompleted i _) = Some i"
| "Attributes_initial_command_event_id (A_ActivityTaskFailed a) = Some (atf_scheduled_event_id a)"
| "Attributes_initial_command_event_id (A_ActivityTaskTimedOut a) =
     Some (ato_scheduled_event_id a)"
| "Attributes_initial_command_event_id (A_ActivityTaskCancelRequested i) = Some i"
| "Attributes_initial_command_event_id (A_ActivityTaskCanceled a) =
     Some (atc_scheduled_event_id a)"
| "Attributes_initial_command_event_id (A_TimerFired _ i) = Some i"
| "Attributes_initial_command_event_id (A_TimerCanceled _ i) = Some i"
| "Attributes_initial_command_event_id (A_RequestCancelExternalWorkflowExecutionFailed i _) =
     Some i"
| "Attributes_initial_command_event_id (A_ExternalWorkflowExecutionCancelRequested i) = Some i"
| "Attributes_initial_command_event_id (A_StartChildWorkflowExecutionFailed a) =
     Some (scf_initiated_event_id a)"
| "Attributes_initial_command_event_id (A_ChildWorkflowExecutionStarted a) =
     Some (cws_initiated_event_id a)"
| "Attributes_initial_command_event_id (A_ChildWorkflowExecutionCompleted a) =
     Some (cwc_initiated_event_id a)"
| "Attributes_initial_command_event_id (A_ChildWorkflowExecutionFailed a) =
     Some (cwc_initiated_event_id a)"
| "Attributes_initial_command_event_id (A_ChildWorkflowExecutionCanceled a) =
     Some (cwc_initiated_event_id a)"
| "Attributes_initial_command_event_id (A_ChildWorkflowExecutionTimedOut a) =
     Some (cwc_initiated_event_id a)"
| "Attributes_initial_command_event_id (A_ChildWorkflowExecutionTerminated a) =
     Some (cwc_initiated_event_id a)"
| "Attributes_initial_command_event_id (A_SignalExternalWorkflowExecutionFailed i _) = Some i"
| "Attributes_initial_command_event_id (A_ExternalWorkflowExecutionSignaled i) = Some i"
| "Attributes_initial_command_event_id (A_WorkflowTaskStarted a) =
     Some (wts_scheduled_event_id a)"
| "Attributes_initial_command_event_id (A_WorkflowTaskCompleted a) =
     Some (wtc_scheduled_event_id a)"
| "Attributes_initial_command_event_id (A_WorkflowTaskTimedOut i) = Some i"
| "Attributes_initial_command_event_id (A_WorkflowTaskFailed a) = Some (wtf_scheduled_event_id a)"
| "Attributes_initial_command_event_id (A_NexusOperationStarted i _ _) = Some i"
| "Attributes_initial_command_event_id (A_NexusOperationCompleted i _) = Some i"
| "Attributes_initial_command_event_id (A_NexusOperationFailed i _) = Some i"
| "Attributes_initial_command_event_id (A_NexusOperationTimedOut i _) = Some i"
| "Attributes_initial_command_event_id (A_NexusOperationCanceled i _) = Some i"
| "Attributes_initial_command_event_id (A_NexusOperationCancelRequested i) = Some i"
| "Attributes_initial_command_event_id (A_NexusOperationCancelRequestCompleted i) = Some i"
| "Attributes_initial_command_event_id (A_NexusOperationCancelRequestFailed i _) = Some i"
| "Attributes_initial_command_event_id _ = None"

definition get_initial_command_event_id :: "HistoryEvent \<Rightarrow> i64 option" where
  "get_initial_command_event_id e =
     Option.bind (he_attributes e) Attributes_initial_command_event_id"

definition get_protocol_instance_id :: "HistoryEvent \<Rightarrow> string option" where
  "get_protocol_instance_id e =
     (case he_attributes e of
        Some (A_WorkflowExecutionUpdateAccepted a) \<Rightarrow> Some (wua_protocol_instance_id a)
      | _ \<Rightarrow> None)"

definition is_final_wf_execution_event :: "HistoryEvent \<Rightarrow> bool" where
  "is_final_wf_execution_event e \<longleftrightarrow> he_event_type e \<in> {E_WorkflowExecutionCompleted,
     E_WorkflowExecutionCanceled, E_WorkflowExecutionFailed, E_WorkflowExecutionTimedOut,
     E_WorkflowExecutionContinuedAsNew, E_WorkflowExecutionTerminated}"

definition is_wft_closed_event :: "HistoryEvent \<Rightarrow> bool" where
  "is_wft_closed_event e \<longleftrightarrow>
     he_event_type e \<in> {E_WorkflowTaskCompleted, E_WorkflowTaskFailed, E_WorkflowTaskTimedOut}"

definition is_ignorable :: "HistoryEvent \<Rightarrow> bool" where
  "is_ignorable e =
     (if \<not> he_worker_may_ignore e then False
      else case he_attributes e of
        Some a \<Rightarrow> Attributes_event_type a \<in> {E_WorkflowExecutionOptionsUpdated,
          E_WorkflowExecutionPaused, E_WorkflowExecutionUnpaused,
          E_WorkflowExecutionTimeSkippingTransitioned}
      | None \<Rightarrow> he_worker_may_ignore e)"

end
