(* ===== verification/RetryLogic.thy ===== *)
theory RetryLogic
  imports Complex_Main Protos
begin

text \<open>
  Retry policies of local activities, \<^verbatim>\<open>crates/sdk-core/src/retry_logic.rs\<close>.

  A \<^verbatim>\<open>std::time::Duration\<close> is its number of nanoseconds.  An \<^verbatim>\<open>f64\<close> is a rational, an
  infinity or not a number; the model keeps the overflow to infinity at \<open>2 ^ 1024\<close> and the
  not-a-number results, and leaves out the rounding to 53 bits.  \<^verbatim>\<open>to_lowercase\<close> is the
  ASCII case mapping.  The conversions of \<^verbatim>\<open>prost_types::Duration\<close> to and from the standard
  type are parameters.
\<close>

section \<open>Durations and floats\<close>

definition nanos_per_sec :: nat where
  "nanos_per_sec = 1000000000"

definition Duration_from_secs :: "nat \<Rightarrow> StdDuration" where
  "Duration_from_secs s = s * nanos_per_sec"

definition Duration_MAX :: StdDuration where
  "Duration_MAX = 2 ^ 64 * nanos_per_sec - 1"

definition Duration_saturating_mul :: "StdDuration \<Rightarrow> nat \<Rightarrow> StdDuration" where
  "Duration_saturating_mul d k = min (d * k) Duration_MAX"

datatype f64 = F64 rat | F64_inf | F64_nan

definition f64_limit :: rat where
  "f64_limit = 2 ^ 1024"

definition f64_of_rat :: "rat \<Rightarrow> f64" where
  "f64_of_rat r = (if r < f64_limit then F64 r else F64_inf)"

fun f64_ge_1 :: "f64 \<Rightarrow> bool" where
  "f64_ge_1 (F64 r) \<longleftrightarrow> r \<ge> 1"
| "f64_ge_1 F64_inf \<longleftrightarrow> True"
| "f64_ge_1 F64_nan \<longleftrightarrow> False"

fun f64_powi :: "f64 \<Rightarrow> nat \<Rightarrow> f64" where
  "f64_powi (F64 r) n = f64_of_rat (r ^ n)"
| "f64_powi F64_inf n = (if n = 0 then F64 1 else F64_inf)"
| "f64_powi F64_nan n = (if n = 0 then F64 1 else F64_nan)"

text \<open>Multiplication by a non-negative finite number.\<close>

fun f64_mul_nonneg :: "f64 \<Rightarrow> rat \<Rightarrow> f64" where
  "f64_mul_nonneg (F64 r) s = f64_of_rat (r * s)"
| "f64_mul_nonneg F64_inf s = (if s = 0 then F64_nan else F64_inf)"
| "f64_mul_nonneg F64_nan _ = F64_nan"

definition as_secs_f64 :: "StdDuration \<Rightarrow> rat" where
  "as_secs_f64 d = of_nat d / of_nat nanos_per_sec"

text \<open>Rounds to the nearest nanosecond, to the even one half way; fails below 0 and from
  \<open>2 ^ 64\<close> seconds on.\<close>

definition round_half_even :: "rat \<Rightarrow> int" where
  "round_half_even r =
     (let f = \<lfloor>r\<rfloor>; d = r - of_int f
      in if d < 1 / 2 then f else if d > 1 / 2 then f + 1
         else if even f then f else f + 1)"

fun try_from_secs_f64 :: "f64 \<Rightarrow> StdDuration option" where
  "try_from_secs_f64 (F64 r) =
     (if r < 0 then None
      else let n = nat (round_half_even (r * of_nat nanos_per_sec))
           in if n \<le> Duration_MAX then Some n else None)"
| "try_from_secs_f64 F64_inf = None"
| "try_from_secs_f64 F64_nan = None"

section \<open>Policies\<close>

record RetryPolicy =
  rp_initial_interval :: "ProstDuration option"
  rp_backoff_coefficient :: f64
  rp_maximum_interval :: "ProstDuration option"
  rp_maximum_attempts :: int
  rp_non_retryable_error_types :: "string list"

definition RetryPolicy_default :: RetryPolicy where
  "RetryPolicy_default = \<lparr>rp_initial_interval = None, rp_backoff_coefficient = F64 0,
     rp_maximum_interval = None, rp_maximum_attempts = 0, rp_non_retryable_error_types = []\<rparr>"

record ValidatedRetryPolicy =
  vrp_initial_interval :: StdDuration
  vrp_backoff_coefficient :: f64
  vrp_maximum_interval :: StdDuration
  vrp_maximum_attempts :: u32
  vrp_non_retryable_error_types :: "string list"

definition i32_to_u32 :: "int \<Rightarrow> u32 option" where
  "i32_to_u32 i = (if 0 \<le> i then Some (word_of_int i) else None)"

definition from_proto_with_defaults ::
  "(ProstDuration \<Rightarrow> StdDuration option) \<Rightarrow> (StdDuration \<Rightarrow> ProstDuration option) \<Rightarrow>
   RetryPolicy \<Rightarrow> ValidatedRetryPolicy" where
  "from_proto_with_defaults to_std from_std retry_policy =
     (let initial_interval =
            unwrap_or (Option.bind (rp_initial_interval retry_policy) to_std)
              (Duration_from_secs 1);
          backoff_coefficient =
            (if f64_ge_1 (rp_backoff_coefficient retry_policy)
             then rp_backoff_coefficient retry_policy else F64 2);
          maximum_interval =
            (case Option.bind (rp_maximum_interval retry_policy) to_std of
               Some maximum_interval \<Rightarrow> max maximum_interval initial_interval
             | None \<Rightarrow>
                 let maximum_interval = Duration_saturating_mul initial_interval 100
                 in if from_std maximum_interval \<noteq> None then maximum_interval
                    else initial_interval)
      in \<lparr>vrp_initial_interval = initial_interval,
          vrp_backoff_coefficient = backoff_coefficient,
          vrp_maximum_interval = maximum_interval,
          vrp_maximum_attempts = unwrap_or (i32_to_u32 (rp_maximum_attempts retry_policy)) 0,
          vrp_non_retryable_error_types = rp_non_retryable_error_types retry_policy\<rparr>)"

definition char_to_lower :: "char \<Rightarrow> char" where
  "char_to_lower c = (let n = of_char c :: nat
     in if 65 \<le> n \<and> n \<le> 90 then char_of (n + 32) else c)"

definition to_lowercase :: "string \<Rightarrow> string" where
  "to_lowercase = map char_to_lower"

text \<open>\<^verbatim>\<open>backoff_coefficient.powi(attempt - 1)\<close> times the initial interval, capped.\<close>

definition backoff_delay :: "ValidatedRetryPolicy \<Rightarrow> u32 \<Rightarrow> StdDuration" where
  "backoff_delay self attempt_number =
     (case (if unat attempt_number < 2 ^ 31 then
              try_from_secs_f64
                (f64_mul_nonneg
                   (f64_powi (vrp_backoff_coefficient self) (unat attempt_number - 1))
                   (as_secs_f64 (vrp_initial_interval self)))
            else None) of
        Some interval \<Rightarrow> min interval (vrp_maximum_interval self)
      | None \<Rightarrow> vrp_maximum_interval self)"

definition should_retry ::
  "(ProstDuration \<Rightarrow> StdDuration option) \<Rightarrow> ValidatedRetryPolicy \<Rightarrow> u32 \<Rightarrow>
   ApplicationFailureInfo option \<Rightarrow> StdDuration option" where
  "should_retry to_std self attempt_number application_failure =
     (if vrp_maximum_attempts self > 0 \<and> attempt_number \<ge> vrp_maximum_attempts self then None
      else if (case application_failure of Some f \<Rightarrow> api_non_retryable f | None \<Rightarrow> False) then None
      else let err_type_str = (case application_failure of Some f \<Rightarrow> api_type f | None \<Rightarrow> [])
      in if \<exists>pat \<in> set (vrp_non_retryable_error_types self).
              to_lowercase err_type_str = to_lowercase pat then None
      else case Option.bind (Option.bind application_failure api_next_retry_delay) to_std of
        Some delay \<Rightarrow> Some delay
      | None \<Rightarrow>
          if attempt_number = 1 then Some (vrp_initial_interval self)
          else Some (backoff_delay self attempt_number))"

section \<open>Properties\<close>

text \<open>The invariants the documentation of \<^verbatim>\<open>ValidatedRetryPolicy\<close> promises; the third one,
  \<open>maximum_attempts \<ge> 0\<close>, is its type.\<close>

definition retry_policy_ok :: "ValidatedRetryPolicy \<Rightarrow> bool" where
  "retry_policy_ok p \<longleftrightarrow> vrp_initial_interval p \<le> vrp_maximum_interval p \<and>
     f64_ge_1 (vrp_backoff_coefficient p)"

definition f64_le :: "f64 \<Rightarrow> f64 \<Rightarrow> bool" where
  "f64_le x y = (case (x, y) of (F64 r, F64 s) \<Rightarrow> r \<le> s | (_, F64_inf) \<Rightarrow> x \<noteq> F64_nan | _ \<Rightarrow> False)"

lemma Duration_saturating_mul_ge:
  "d \<le> Duration_MAX \<Longrightarrow> 1 \<le> k \<Longrightarrow> d \<le> Duration_saturating_mul d k"
  by (simp add: Duration_saturating_mul_def)

lemma round_half_even_of_nat [simp]: "round_half_even (of_nat n) = int n"
  by (simp add: round_half_even_def)

lemma round_half_even_bounds:
  "\<lfloor>r\<rfloor> \<le> round_half_even r" "round_half_even r \<le> \<lfloor>r\<rfloor> + 1"
  by (auto simp: round_half_even_def Let_def)

lemma round_half_even_mono:
  assumes "r \<le> s" shows "round_half_even r \<le> round_half_even s"
proof (cases "\<lfloor>r\<rfloor> = \<lfloor>s\<rfloor>")
  case True
  then show ?thesis using assms by (auto simp: round_half_even_def Let_def)
next
  case False
  then have "\<lfloor>r\<rfloor> + 1 \<le> \<lfloor>s\<rfloor>" using floor_mono [OF assms] by linarith
  then show ?thesis using round_half_even_bounds [of r] round_half_even_bounds [of s] by linarith
qed

lemma f64_of_rat_mono: "r \<le> s \<Longrightarrow> f64_le (f64_of_rat r) (f64_of_rat s)"
  by (auto simp: f64_le_def f64_of_rat_def)

lemma f64_powi_ge_1: "f64_ge_1 c \<Longrightarrow> f64_ge_1 (f64_powi c n)"
  using one_le_power [of _ n] by (cases c) (auto simp: f64_of_rat_def)

lemma f64_powi_mono:
  assumes "f64_ge_1 c" "m \<le> n" shows "f64_le (f64_powi c m) (f64_powi c n)"
proof (cases c)
  case (F64 r)
  then show ?thesis using assms by (simp add: f64_of_rat_mono power_increasing)
qed (use assms in \<open>auto simp: f64_le_def\<close>)

lemma f64_mul_mono:
  assumes "f64_le x y" "0 < s" shows "f64_le (f64_mul_nonneg x s) (f64_mul_nonneg y s)"
proof -
  have *: "a \<le> b \<Longrightarrow> f64_le (f64_of_rat (a * s)) (f64_of_rat (b * s))" for a b
    using assms(2) by (intro f64_of_rat_mono) simp
  show ?thesis
  proof (cases x)
    case (F64 a)
    then show ?thesis using assms * by (cases y) (auto simp: f64_le_def f64_of_rat_def)
  qed (use assms in \<open>cases y; auto simp: f64_le_def\<close>)+
qed

lemma try_from_secs_mono:
  assumes "f64_le x y" "\<And>r. x = F64 r \<Longrightarrow> 0 \<le> r" "try_from_secs_f64 y = Some d"
  shows "\<exists>d' \<le> d. try_from_secs_f64 x = Some d'"
proof -
  obtain s where y: "y = F64 s" using assms(3) by (cases y) auto
  then obtain q where x: "x = F64 q" using assms(1) by (cases x) (auto simp: f64_le_def)
  have "q \<le> s" using assms(1) x y by (simp add: f64_le_def)
  then have "round_half_even (q * of_nat nanos_per_sec) \<le> round_half_even (s * of_nat nanos_per_sec)"
    by (intro round_half_even_mono) (simp add: mult_right_mono)
  then have "nat (round_half_even (q * of_nat nanos_per_sec))
             \<le> nat (round_half_even (s * of_nat nanos_per_sec))"
    by (rule nat_mono)
  then show ?thesis using assms(2,3) x y by (auto simp: Let_def not_less split: if_splits)
qed

lemma as_secs_f64_round_trip [simp]: "as_secs_f64 d * of_nat nanos_per_sec = of_nat d"
  by (simp add: as_secs_f64_def nanos_per_sec_def)

lemma as_secs_nonneg [simp]: "0 \<le> as_secs_f64 d"
  by (simp add: as_secs_f64_def)

lemma f64_mul_nonneg_F64: "f64_ge_1 c \<Longrightarrow> f64_mul_nonneg c s = F64 r \<Longrightarrow> 0 \<le> s \<Longrightarrow> s \<le> r"
  by (cases c) (auto simp: f64_of_rat_def mult_le_cancel_right1 split: if_splits)

lemma initial_le_backoff:
  assumes "f64_ge_1 c" "try_from_secs_f64 (f64_mul_nonneg c (as_secs_f64 d)) = Some e"
  shows "d \<le> e"
proof -
  obtain r where r: "f64_mul_nonneg c (as_secs_f64 d) = F64 r"
    using assms(2) by (cases "f64_mul_nonneg c (as_secs_f64 d)") auto
  then have "as_secs_f64 d \<le> r" using f64_mul_nonneg_F64 [OF assms(1)] by simp
  then have "as_secs_f64 d * of_nat nanos_per_sec \<le> r * of_nat nanos_per_sec"
    by (intro mult_right_mono) simp_all
  then have "int d \<le> round_half_even (r * of_nat nanos_per_sec)"
    using round_half_even_mono [of "of_nat d"] by simp
  then show ?thesis using assms(2) r by (auto simp: Let_def split: if_splits)
qed

lemma backoff_delay_bounds:
  assumes "retry_policy_ok p"
  shows "vrp_initial_interval p \<le> backoff_delay p n" "backoff_delay p n \<le> vrp_maximum_interval p"
  using assms initial_le_backoff [OF f64_powi_ge_1]
  by (auto simp: backoff_delay_def retry_policy_ok_def split: option.splits)

lemma backoff_delay_mono:
  assumes ok: "retry_policy_ok p" "0 < vrp_initial_interval p" and mn: "m \<le> n"
  shows "backoff_delay p m \<le> backoff_delay p n"
proof -
  let ?f = "\<lambda>k::u32. f64_mul_nonneg (f64_powi (vrp_backoff_coefficient p) (unat k - 1))
      (as_secs_f64 (vrp_initial_interval p))"
  have s: "0 < as_secs_f64 (vrp_initial_interval p)"
    using ok(2) by (simp add: as_secs_f64_def nanos_per_sec_def)
  have "unat m - 1 \<le> unat n - 1" using mn by (simp add: word_le_nat_alt diff_le_mono)
  then have le: "f64_le (?f m) (?f n)"
    using ok(1) s by (intro f64_mul_mono f64_powi_mono) (simp_all add: retry_policy_ok_def)
  have pos: "0 \<le> r" if "?f m = F64 r" for r
    using f64_mul_nonneg_F64 [OF f64_powi_ge_1 that] ok(1) s by (auto simp: retry_policy_ok_def)
  have "unat m \<le> unat n" using mn by (simp add: word_le_nat_alt)
  then show ?thesis
    using try_from_secs_mono [OF le pos]
    by (fastforce simp: backoff_delay_def split: option.splits if_splits)
qed


text \<open>A validated policy upholds its documented invariants: the maximum interval is at least
  the initial interval and the backoff coefficient is at least 1, whatever the policy received,
  given that converted durations are within the range of the standard duration type.\<close>

theorem from_proto_with_defaults_ok:
  assumes "\<And>d n. to_std d = Some n \<Longrightarrow> n \<le> Duration_MAX"
  shows "retry_policy_ok (from_proto_with_defaults to_std from_std rp)"
proof -
  let ?i = "unwrap_or (Option.bind (rp_initial_interval rp) to_std) (Duration_from_secs 1)"
  have "?i \<le> Duration_MAX"
    using assms by (cases "Option.bind (rp_initial_interval rp) to_std")
      (auto simp: bind_eq_Some_conv Duration_from_secs_def Duration_MAX_def nanos_per_sec_def)
  then show ?thesis
    using Duration_saturating_mul_ge [of ?i 100]
    by (auto simp: from_proto_with_defaults_def retry_policy_ok_def Let_def split: option.splits)
qed

theorem from_proto_with_defaults_ok_witness:
  "retry_policy_ok (from_proto_with_defaults
     (\<lambda>(s, n). if 0 \<le> s \<and> s < 100 then Some (nat s * nanos_per_sec) else None) (\<lambda>_. None)
     (RetryPolicy_default\<lparr>rp_maximum_interval := Some (3, 0)\<rparr>))"
  by (rule from_proto_with_defaults_ok)
    (auto simp: Duration_MAX_def nanos_per_sec_def split: if_splits)

text \<open>Without an explicit delay in the failure, every retry delay lies between the initial and
  the maximum interval of the policy, and it never shrinks from one attempt to a later one.\<close>

theorem should_retry_delay:
  assumes "retry_policy_ok p" "0 < vrp_initial_interval p"
    and "Option.bind (Option.bind failure api_next_retry_delay) to_std = None"
    and "should_retry to_std p m failure = Some d" "should_retry to_std p n failure = Some e"
    and "0 < m" "m \<le> n"
  shows "vrp_initial_interval p \<le> d \<and> d \<le> e \<and> e \<le> vrp_maximum_interval p"
proof -
  have *: "should_retry to_std p k failure = Some x \<Longrightarrow>
      x = (if k = 1 then vrp_initial_interval p else backoff_delay p k)" for k x
    using assms(3) by (auto simp: should_retry_def Let_def split: if_splits)
  have "n = 1 \<Longrightarrow> m = 1" using assms(6,7) by (simp add: word_le_nat_alt word_less_nat_alt word_unat_eq_iff)
  then show ?thesis
    using *[OF assms(4)] *[OF assms(5)] backoff_delay_bounds [OF assms(1)]
      backoff_delay_mono [OF assms(1,2,7)] assms(1)
    by (auto simp: retry_policy_ok_def split: if_splits)
qed

theorem should_retry_delay_witness:
  "let p = \<lparr>vrp_initial_interval = nanos_per_sec, vrp_backoff_coefficient = F64 2,
            vrp_maximum_interval = 5 * nanos_per_sec, vrp_maximum_attempts = 0,
            vrp_non_retryable_error_types = []\<rparr>
   in \<exists>d e. should_retry Map.empty p 1 None = Some d \<and> should_retry Map.empty p 7 None = Some e \<and>
        vrp_initial_interval p \<le> d \<and> d \<le> e \<and> e \<le> vrp_maximum_interval p"
  unfolding Let_def
  using should_retry_delay [of "\<lparr>vrp_initial_interval = nanos_per_sec, vrp_backoff_coefficient = F64 2,
            vrp_maximum_interval = 5 * nanos_per_sec, vrp_maximum_attempts = 0,
            vrp_non_retryable_error_types = []\<rparr>" None Map.empty 1 _ 7]
  by (auto simp: should_retry_def retry_policy_ok_def nanos_per_sec_def)

end
