(* ===== verification/Commands.thy ===== *)
theory Commands
  imports Protos
begin

text \<open>
  Commands.  The commands core sends to the server (\<^verbatim>\<open>temporal.api.command.v1.Command\<close>) with
  their conversions (\<^verbatim>\<open>crates/protos/src/protos/mod.rs\<close>), the commands the language side
  issues (\<^verbatim>\<open>WFCommandVariant\<close>), and the annotations that ride along on both
  (\<^verbatim>\<open>CommandAnnotations\<close> and \<^verbatim>\<open>ProtoCommandExt\<close> of
  \<^verbatim>\<open>crates/sdk-core/src/worker/workflow/mod.rs\<close>).

  A map whose emptiness or whose keys the code looks at is an association list of its entries.
\<close>

type_synonym PayloadMap = "(string \<times> Payload) list"

section \<open>Server commands\<close>

record ScheduleActivityTaskCommandAttributes =
  sat_activity_id :: string
  sat_activity_type :: "string option"
  sat_task_queue :: "string option"
  sat_request_eager_execution :: bool
  sat_use_workflow_build_id :: bool
  sat_rest :: bytes

record RequestCancelExternalCommandAttributes =
  rce_namespace :: string
  rce_workflow_id :: string
  rce_run_id :: string
  rce_child_workflow_only :: bool
  rce_reason :: string

record RecordMarkerCommandAttributes =
  rm_marker_name :: string
  rm_details :: "string \<rightharpoonup> Payloads"
  rm_failure :: "Failure option"

record ContinueAsNewCommandAttributes =
  can_workflow_type :: "string option"
  can_task_queue :: "string option"
  can_input :: "Payloads option"
  can_workflow_run_timeout :: "ProstDuration option"
  can_workflow_task_timeout :: "ProstDuration option"
  can_memo :: "PayloadMap option"
  can_header :: "PayloadMap option"
  can_retry_policy :: "bytes option"
  can_search_attributes :: "PayloadMap option"
  can_inherit_build_id :: bool
  can_rest :: bytes

record StartChildCommandAttributes =
  scc_namespace :: string
  scc_workflow_id :: string
  scc_workflow_type :: "string option"
  scc_task_queue :: "string option"
  scc_input :: "Payloads option"
  scc_inherit_build_id :: bool
  scc_rest :: bytes

record SignalExternalCommandAttributes =
  sec_namespace :: string
  sec_execution :: "WorkflowExecution option"
  sec_signal_name :: string
  sec_input :: "Payloads option"
  sec_header :: "PayloadMap option"
  sec_child_workflow_only :: bool

record ScheduleNexusOperationCommandAttributes =
  snc_endpoint :: string
  snc_service :: string
  snc_operation :: string
  snc_input :: "Payload option"
  snc_rest :: bytes

datatype (plugins only: code size) CommandAttributes =
    CA_ScheduleActivityTask ScheduleActivityTaskCommandAttributes
  | CA_StartTimer string "ProstDuration option"
  | CA_CompleteWorkflowExecution "Payloads option"
  | CA_FailWorkflowExecution "Failure option"
  | CA_RequestCancelActivityTask i64
  | CA_CancelTimer string
  | CA_CancelWorkflowExecution "Payloads option"
  | CA_RequestCancelExternalWorkflowExecution RequestCancelExternalCommandAttributes
  | CA_RecordMarker RecordMarkerCommandAttributes
  | CA_ContinueAsNewWorkflowExecution ContinueAsNewCommandAttributes
  | CA_StartChildWorkflowExecution StartChildCommandAttributes
  | CA_SignalExternalWorkflowExecution SignalExternalCommandAttributes
  | CA_UpsertWorkflowSearchAttributes "PayloadMap option"
  | CA_ProtocolMessage string
  | CA_ModifyWorkflowProperties "bytes option"
  | CA_ScheduleNexusOperation ScheduleNexusOperationCommandAttributes
  | CA_RequestCancelNexusOperation i64

record Command =
  cmd_command_type :: CommandType
  cmd_attributes :: CommandAttributes
  cmd_user_metadata :: "UserMetadata option"
  cmd_event_group_markers :: "EventGroupMarker list"

fun as_type :: "CommandAttributes \<Rightarrow> CommandType" where
  "as_type (CA_ScheduleActivityTask _) = C_ScheduleActivityTask"
| "as_type (CA_StartTimer _ _) = C_StartTimer"
| "as_type (CA_CompleteWorkflowExecution _) = C_CompleteWorkflowExecution"
| "as_type (CA_FailWorkflowExecution _) = C_FailWorkflowExecution"
| "as_type (CA_RequestCancelActivityTask _) = C_RequestCancelActivityTask"
| "as_type (CA_CancelTimer _) = C_CancelTimer"
| "as_type (CA_CancelWorkflowExecution _) = C_CancelWorkflowExecution"
| "as_type (CA_RequestCancelExternalWorkflowExecution _) =
     C_RequestCancelExternalWorkflowExecution"
| "as_type (CA_RecordMarker _) = C_RecordMarker"
| "as_type (CA_ContinueAsNewWorkflowExecution _) = C_ContinueAsNewWorkflowExecution"
| "as_type (CA_StartChildWorkflowExecution _) = C_StartChildWorkflowExecution"
| "as_type (CA_SignalExternalWorkflowExecution _) = C_SignalExternalWorkflowExecution"
| "as_type (CA_UpsertWorkflowSearchAttributes _) = C_UpsertWorkflowSearchAttributes"
| "as_type (CA_ProtocolMessage _) = C_ProtocolMessage"
| "as_type (CA_ModifyWorkflowProperties _) = C_ModifyWorkflowProperties"
| "as_type (CA_ScheduleNexusOperation _) = C_ScheduleNexusOperation"
| "as_type (CA_RequestCancelNexusOperation _) = C_RequestCancelNexusOperation"

text \<open>
  \<^verbatim>\<open>impl From<command::Attributes> for Command\<close>: eleven kinds are converted, the others hit
  \<^verbatim>\<open>unimplemented!()\<close>.
\<close>

definition Command_from_attributes :: "CommandAttributes \<Rightarrow> (Command, 'e) res" where
  "Command_from_attributes a =
     (if as_type a \<in> {C_StartTimer, C_CancelTimer, C_CompleteWorkflowExecution,
          C_FailWorkflowExecution, C_ScheduleActivityTask, C_RequestCancelActivityTask,
          C_ContinueAsNewWorkflowExecution, C_CancelWorkflowExecution, C_RecordMarker,
          C_ProtocolMessage, C_RequestCancelNexusOperation}
      then Ok \<lparr>cmd_command_type = as_type a, cmd_attributes = a, cmd_user_metadata = None,
               cmd_event_group_markers = []\<rparr>
      else Panic)"

definition into_payloads :: "Payload list \<Rightarrow> Payloads option" where
  "into_payloads ps = (if ps = [] then None else Some ps)"

section \<open>Annotations\<close>

record CommandAnnotations =
  ann_metadata :: "UserMetadata option"
  ann_event_group_markers :: "EventGroupMarker list"

definition CommandAnnotations_default :: CommandAnnotations where
  "CommandAnnotations_default = \<lparr>ann_metadata = None, ann_event_group_markers = []\<rparr>"

definition UserMetadata_default :: UserMetadata where
  "UserMetadata_default = \<lparr>um_summary = None, um_details = None\<rparr>"

definition override_with :: "CommandAnnotations \<Rightarrow> CommandAnnotations \<Rightarrow> CommandAnnotations" where
  "override_with self other =
     (let self = (case ann_metadata other of
            None \<Rightarrow> self
          | Some other_metadata \<Rightarrow>
              let metadata = unwrap_or (ann_metadata self) UserMetadata_default;
                  metadata = (case um_summary other_metadata of
                      Some s \<Rightarrow> metadata\<lparr>um_summary := Some s\<rparr> | None \<Rightarrow> metadata);
                  metadata = (case um_details other_metadata of
                      Some d \<Rightarrow> metadata\<lparr>um_details := Some d\<rparr> | None \<Rightarrow> metadata)
              in self\<lparr>ann_metadata := Some metadata\<rparr>)
      in if ann_event_group_markers other \<noteq> []
         then self\<lparr>ann_event_group_markers := ann_event_group_markers other\<rparr>
         else self)"

definition ProtoCommand_new :: "CommandAttributes \<Rightarrow> CommandAnnotations \<Rightarrow> Command" where
  "ProtoCommand_new attributes annotations =
     \<lparr>cmd_command_type = as_type attributes, cmd_attributes = attributes,
      cmd_user_metadata = ann_metadata annotations,
      cmd_event_group_markers = ann_event_group_markers annotations\<rparr>"

end
