(* ===== verification/Activation.thy ===== *)
theory Activation
  imports Commands RetryLogic
begin

text \<open>
  What goes back and forth between the state machines and the rest of core: the activation jobs
  sent to the language side, the language-side commands, local activity requests and results, the
  responses of a machine (\<^verbatim>\<open>MachineResponse\<close>), the errors (\<^verbatim>\<open>WFMachinesError\<close>), and the
  record of the third-party functions the modelled code calls.
\<close>

section \<open>Errors\<close>

text \<open>
  An error keeps its kind and which check raised it; the message text is not modelled.
\<close>

datatype ErrReason =
    UnexpectedCommandTransition | UnexpectedCommand | EventTransitionInvalid
  | CancelTransitionInvalid
  | EventNotHandled | MissingAttributes | MissingField | IdMismatch | TypeMismatch
  | ServiceMismatch | OperationMismatch | SeqMismatch | ResultMismatch | UnexpectedCompletion
  | UnknownCause | MarkerUnparsable | PayloadConversion | NoUpdateMeta | MessageEncoding
  | EmptyTarget | MissingMachine | WrongMachine | CommandMismatch | NoCommandForEvent
  | HistoryOrder | BadPatch | BadLocalActivity | TimeConversion | ProtocolMessage
  | StatefulEvent | LocalActivityState | OtherReason

datatype WFMachinesError = Nondeterminism ErrReason | Fatal ErrReason

type_synonym 'a result = "('a, WFMachinesError) res"

section \<open>Local activities\<close>

datatype LACloseTimeouts = ScheduleOnly StdDuration | StartOnly StdDuration
  | BothTimeouts StdDuration StdDuration

record ScheduleLocalActivity =
  sla_seq :: u32
  sla_activity_id :: string
  sla_activity_type :: string
  sla_attempt :: u32
  sla_original_schedule_time :: "Timestamp option"
  sla_headers :: PayloadMap
  sla_arguments :: "Payload list"
  sla_schedule_to_close_timeout :: "ProstDuration option"
  sla_schedule_to_start_timeout :: "ProstDuration option"
  sla_start_to_close_timeout :: "ProstDuration option"
  sla_retry_policy :: "RetryPolicy option"
  sla_local_retry_threshold :: "ProstDuration option"
  sla_cancellation_type :: "ActivityCancellationType option"
  sla_include_arguments_in_marker :: bool

record ValidScheduleLA =
  vla_seq :: u32
  vla_activity_id :: string
  vla_activity_type :: string
  vla_attempt :: u32
  vla_original_schedule_time :: "SystemTime option"
  vla_headers :: PayloadMap
  vla_arguments :: "Payload list"
  vla_schedule_to_start_timeout :: "StdDuration option"
  vla_close_timeouts :: LACloseTimeouts
  vla_retry_policy :: ValidatedRetryPolicy
  vla_local_retry_threshold :: StdDuration
  vla_cancellation_type :: ActivityCancellationType
  vla_include_arguments_in_marker :: bool
  vla_user_metadata :: "UserMetadata option"
  vla_event_group_markers :: "EventGroupMarker list"

text \<open>
  The payloads of \<^verbatim>\<open>Success\<close>, \<^verbatim>\<open>ActFail\<close> and \<^verbatim>\<open>Cancellation\<close> are their one
  relevant field.
\<close>

datatype LocalActivityExecutionResult =
    LA_Completed "Payload option"
  | LA_Failed "Failure option"
  | LA_TimedOut "Failure option"
  | LA_Cancelled "Failure option"

definition Cancellation_from_details :: "Payloads option \<Rightarrow> Failure option" where
  "Cancellation_from_details payload =
     Some (Failure ''Activity cancelled'' None (Some (FI_Canceled payload [])) [])"

definition empty_cancel :: LocalActivityExecutionResult where
  "empty_cancel = LA_Cancelled (Cancellation_from_details None)"

record LocalActivityMarkerData =
  lam_seq :: u32
  lam_attempt :: u32
  lam_activity_id :: string
  lam_activity_type :: string
  lam_complete_time :: "Timestamp option"
  lam_backoff :: "ProstDuration option"
  lam_original_schedule_time :: "Timestamp option"
  lam_activation_index :: "u64 option"

section \<open>Update protocol messages\<close>

datatype OutcomeValue = OV_Success Payloads | OV_Failure Failure

datatype UpdateMsg =
    UM_Accept string i64 "Request option"
  | UM_Reject string i64 "Request option" "Failure option"
  | UM_Response "UpdateMeta option" "OutcomeValue option"

record ProtocolMessage =
  pm_id :: string
  pm_protocol_instance_id :: string
  pm_body :: "(string \<times> bytes) option"

datatype SequencingId = SeqEventId i64 | SeqCommandIndex i64

section \<open>Third-party functions\<close>

text \<open>
  \<open>x_*_to_json\<close> and \<open>x_*_from_json\<close> are \<^verbatim>\<open>serde_json::to_string\<close> and
  \<^verbatim>\<open>serde_json::from_str\<close> at the types used; \<open>x_seed_hash\<close> is \<^verbatim>\<open>SipHasher13\<close>;
  the others are the conversions of \<^verbatim>\<open>prost_types\<close> and message encoding of \<^verbatim>\<open>prost\<close>.
  \<open>x_now\<close> is the reading of the system clock.
\<close>

record externals =
  x_to_system_time :: "Timestamp \<Rightarrow> SystemTime option"
  x_from_system_time :: "SystemTime \<Rightarrow> Timestamp"
  x_to_std_duration :: "ProstDuration \<Rightarrow> StdDuration option"
  x_from_std_duration :: "StdDuration \<Rightarrow> ProstDuration option"
  x_la_marker_to_json :: "LocalActivityMarkerData \<Rightarrow> string option"
  x_la_marker_from_json :: "string \<Rightarrow> LocalActivityMarkerData option"
  x_patch_to_json :: "string \<times> bool \<Rightarrow> string option"
  x_patch_from_json :: "string \<Rightarrow> (string \<times> bool) option"
  x_patch_ids_to_json :: "string list \<Rightarrow> string option"
  x_encode_update_msg :: "UpdateMsg \<Rightarrow> bytes option"
  x_seed_hash :: "string \<Rightarrow> u64"
  x_now :: SystemTime

text \<open>An instance for examples: times in nanoseconds, and codecs good enough for the values used.\<close>

definition sample_externals :: externals where
  "sample_externals = \<lparr>x_to_system_time = (\<lambda>(s, n). Some (s * 1000000000 + n)),
     x_from_system_time = (\<lambda>t. (t div 1000000000, t mod 1000000000)),
     x_to_std_duration =
       (\<lambda>(s, n). if 0 \<le> s \<and> 0 \<le> n then Some (nat (s * 1000000000 + n)) else None),
     x_from_std_duration = (\<lambda>d. Some (int d div 1000000000, int d mod 1000000000)),
     x_la_marker_to_json = (\<lambda>_. None), x_la_marker_from_json = (\<lambda>_. None),
     x_patch_to_json = (\<lambda>(s, b). Some ((if b then CHR ''t'' else CHR ''f'') # s)),
     x_patch_from_json = (\<lambda>s. case s of [] \<Rightarrow> None | c # s \<Rightarrow> Some (s, c = CHR ''t'')),
     x_patch_ids_to_json = (\<lambda>ids. Some (concat ids)), x_encode_update_msg = (\<lambda>_. Some []),
     x_seed_hash = (\<lambda>_. 0), x_now = 0\<rparr>"

section \<open>Activation jobs\<close>

datatype ActivityResolution =
    AR_Completed "Payload option"
  | AR_Failed "Failure option"
  | AR_Cancelled "Failure option"
  | AR_Backoff u32 "ProstDuration option" "Timestamp option"

datatype ChildStartStatus =
    CS_Succeeded string
  | CS_Failed string string StartChildWorkflowExecutionFailedCause
  | CS_Cancelled "Failure option"

datatype ChildWorkflowResult =
    CR_Completed "Payload option"
  | CR_Failed "Failure option"
  | CR_Cancelled "Failure option"

datatype NexusStartStatus =
    NS_OperationToken string
  | NS_StartedSync
  | NS_Failed Failure

datatype NexusOperationResult =
    NR_Completed Payload
  | NR_Failed Failure
  | NR_Cancelled Failure
  | NR_TimedOut Failure

record DoUpdate =
  du_id :: string
  du_protocol_instance_id :: string
  du_name :: string
  du_input :: "Payload list"
  du_headers :: "string \<rightharpoonup> Payload"
  du_meta :: "UpdateMeta option"
  du_run_validator :: bool
  du_propagated_nexus_serialization_context :: bytes

datatype EvictionReason =
    ER_Unspecified | ER_CacheFull | ER_CacheMiss | ER_Nondeterminism | ER_LangFail | ER_LangRequested
  | ER_TaskNotFound | ER_UnhandledCommand | ER_Fatal | ER_PaginationOrHistoryFetch
  | ER_WorkflowExecutionEnding

datatype (plugins only: code size) Job =
    J_InitializeWorkflow string u64 Timestamp WorkflowExecutionStartedEventAttributes
  | J_FireTimer u32
  | J_UpdateRandomSeed u64
  | J_CancelWorkflow string
  | J_SignalWorkflow WorkflowExecutionSignaledEventAttributes i64
  | J_ResolveActivity u32 ActivityResolution bool
  | J_NotifyHasPatch string
  | J_ResolveChildWorkflowExecutionStart u32 ChildStartStatus
  | J_ResolveChildWorkflowExecution u32 ChildWorkflowResult
  | J_ResolveSignalExternalWorkflow u32 "Failure option"
      SignalExternalWorkflowExecutionFailedCause
  | J_ResolveRequestCancelExternalWorkflow u32 "Failure option"
      CancelExternalWorkflowExecutionFailedCause
  | J_DoUpdate DoUpdate
  | J_ResolveNexusOperationStart u32 NexusStartStatus
  | J_ResolveNexusOperation u32 NexusOperationResult
  | J_QueryWorkflow string
  | J_RemoveFromCache string EvictionReason

fun is_local_activity_resolution :: "Job \<Rightarrow> bool" where
  "is_local_activity_resolution (J_ResolveActivity _ _ is_local) = is_local"
| "is_local_activity_resolution _ = False"

fun is_query_job :: "Job \<Rightarrow> bool" where
  "is_query_job (J_QueryWorkflow _) = True"
| "is_query_job _ = False"

text \<open>The jobs that deliver an update whose validator is to be run.\<close>

fun is_validated_update_job :: "Job \<Rightarrow> bool" where
  "is_validated_update_job (J_DoUpdate u) = du_run_validator u"
| "is_validated_update_job _ = False"

section \<open>Responses of a machine\<close>

datatype MachineResponse =
    PushWFJob Job
  | IssueNewCommand Command
  | IssueNewMessage ProtocolMessage
  | NewCoreOriginatedCommand CommandAttributes CommandAnnotations
  | TriggerWFTaskStarted i64 SystemTime
  | UpdateRunIdOnWorkflowReset string
  | QueueLocalActivity ValidScheduleLA
  | RequestCancelLocalActivity u32
  | AbandonLocalActivity u32
  | UpdateWFTime "SystemTime option"

section \<open>Commands of the language side\<close>

record ScheduleActivity =
  sa_seq :: u32
  sa_activity_id :: string
  sa_activity_type :: string
  sa_task_queue :: string
  sa_cancellation_type :: ActivityCancellationType
  sa_do_not_eagerly_execute :: bool
  sa_versioning_intent :: VersioningIntent
  sa_rest :: bytes

record StartChildWorkflowExecution =
  sce_seq :: u32
  sce_namespace :: string
  sce_workflow_id :: string
  sce_workflow_type :: string
  sce_task_queue :: string
  sce_input :: "Payload list"
  sce_cancellation_type :: ChildWorkflowCancellationType
  sce_versioning_intent :: VersioningIntent
  sce_rest :: bytes

record ContinueAsNewWorkflowExecution =
  cna_workflow_type :: string
  cna_task_queue :: string
  cna_arguments :: "Payload list"
  cna_workflow_run_timeout :: "ProstDuration option"
  cna_workflow_task_timeout :: "ProstDuration option"
  cna_memo :: PayloadMap
  cna_headers :: PayloadMap
  cna_search_attributes :: "PayloadMap option"
  cna_retry_policy :: "bytes option"
  cna_versioning_intent :: VersioningIntent
  cna_rest :: bytes

datatype SignalTarget = ST_ChildWorkflowId string | ST_WorkflowExecution NamespacedWorkflowExecution

record SignalExternalWorkflowExecution =
  sew_seq :: u32
  sew_target :: "SignalTarget option"
  sew_signal_name :: string
  sew_args :: "Payload list"
  sew_headers :: PayloadMap

record ScheduleNexusOperation =
  sno_seq :: u32
  sno_endpoint :: string
  sno_service :: string
  sno_operation :: string
  sno_input :: "Payload option"
  sno_cancellation_type :: NexusOperationCancellationType
  sno_rest :: bytes

datatype UpdateResponseKind = UR_Accepted | UR_Rejected Failure | UR_Completed Payload

datatype (plugins only: code size) WFCommandVariant =
    AddActivity ScheduleActivity
  | AddLocalActivity ScheduleLocalActivity
  | RequestCancelActivity u32
  | RequestCancelLocalActivityCmd u32
  | AddTimer u32 "ProstDuration option"
  | CancelTimer u32
  | CompleteWorkflow "Payload option"
  | FailWorkflow "Failure option"
  | QueryResponse string
  | ContinueAsNew ContinueAsNewWorkflowExecution
  | CancelWorkflow "Payloads option"
  | SetPatchMarker string bool
  | AddChildWorkflow StartChildWorkflowExecution
  | CancelChild u32 string
  | RequestCancelExternalWorkflow u32 "NamespacedWorkflowExecution option" string
  | SignalExternalWorkflow SignalExternalWorkflowExecution
  | CancelSignalWorkflow u32
  | UpsertSearchAttributes "PayloadMap option"
  | ModifyWorkflowProperties "bytes option"
  | UpdateResponse string "UpdateResponseKind option"
  | ScheduleNexusOperationCmd ScheduleNexusOperation
  | RequestCancelNexusOperation u32

record WFCommand =
  wfc_variant :: WFCommandVariant
  wfc_annotations :: CommandAnnotations

fun is_terminal :: "WFCommandVariant \<Rightarrow> bool" where
  "is_terminal (CompleteWorkflow _) = True"
| "is_terminal (FailWorkflow _) = True"
| "is_terminal (CancelWorkflow _) = True"
| "is_terminal (ContinueAsNew _) = True"
| "is_terminal _ = False"

section \<open>Events as the machines receive them\<close>

record HistEventData =
  hed_event :: HistoryEvent
  hed_replaying :: bool
  hed_current_task_is_last_in_history :: bool

record EventInfo =
  ei_event_id :: i64
  ei_event_type :: EventType

end
