(* ===== verification/InternalFlags.thy ===== *)
theory InternalFlags
  imports Protos
begin

text \<open>
  Internal flags, \<^verbatim>\<open>crates/sdk-core/src/internal_flags.rs\<close>: which history-altering behaviours a
  workflow task used, recorded in the metadata of its completion and read back on replay.

  A \<^verbatim>\<open>BTreeSet\<close> is its ascending list of elements; a \<^verbatim>\<open>HashSet\<close> is a list without
  repetitions, in an order the code does not fix.
\<close>

datatype CoreInternalFlags = IdAndTypeDeterminismChecks | UpsertSearchAttributeOnPatch
  | MoveTerminalCommands | NexusOperationDeterminismChecks | TooHigh

fun flag_as_u32 :: "CoreInternalFlags \<Rightarrow> u32" where
  "flag_as_u32 IdAndTypeDeterminismChecks = 1"
| "flag_as_u32 UpsertSearchAttributeOnPatch = 2"
| "flag_as_u32 MoveTerminalCommands = 3"
| "flag_as_u32 NexusOperationDeterminismChecks = 4"
| "flag_as_u32 TooHigh = 0xFFFFFFFF"

text \<open>The derived order is the order of the discriminants.\<close>

lemma flag_as_u32_inject [simp]: "flag_as_u32 a = flag_as_u32 b \<longleftrightarrow> a = b"
  by (cases a; cases b) simp_all

instantiation CoreInternalFlags :: linorder
begin

definition less_eq_CoreInternalFlags :: "CoreInternalFlags \<Rightarrow> CoreInternalFlags \<Rightarrow> bool" where
  "less_eq_CoreInternalFlags a b \<longleftrightarrow> flag_as_u32 a \<le> flag_as_u32 b"

definition less_CoreInternalFlags :: "CoreInternalFlags \<Rightarrow> CoreInternalFlags \<Rightarrow> bool" where
  "less_CoreInternalFlags a b \<longleftrightarrow> flag_as_u32 a < flag_as_u32 b"

instance
  by standard (auto simp: less_eq_CoreInternalFlags_def less_CoreInternalFlags_def less_le)

end

definition from_u32 :: "u32 \<Rightarrow> CoreInternalFlags" where
  "from_u32 v = (if v = 1 then IdAndTypeDeterminismChecks
     else if v = 2 then UpsertSearchAttributeOnPatch
     else if v = 3 then MoveTerminalCommands
     else if v = 4 then NexusOperationDeterminismChecks
     else TooHigh)"

definition all_flags :: "CoreInternalFlags list" where
  "all_flags = [IdAndTypeDeterminismChecks, UpsertSearchAttributeOnPatch, MoveTerminalCommands,
     NexusOperationDeterminismChecks, TooHigh]"

definition all_except_too_high :: "CoreInternalFlags list" where
  "all_except_too_high = filter (\<lambda>f. f \<noteq> TooHigh) all_flags"

record InternalFlags =
  can_write_sdk_metadata :: bool
  fl_core :: "CoreInternalFlags list"
  fl_lang :: "u32 list"
  core_since_last_complete :: "CoreInternalFlags list"
  lang_since_last_complete :: "u32 list"
  last_sdk_name :: string
  last_sdk_version :: string
  fl_sdk_name :: string
  fl_sdk_version :: string

definition btree_insert :: "'a::linorder \<Rightarrow> 'a list \<Rightarrow> 'a list" where
  "btree_insert x xs = (if x \<in> set xs then xs else insort x xs)"

definition btree_extend :: "'a::linorder list \<Rightarrow> 'a list \<Rightarrow> 'a list" where
  "btree_extend xs new = fold btree_insert new xs"

definition hash_extend :: "'a list \<Rightarrow> 'a list \<Rightarrow> 'a list" where
  "hash_extend xs new = fold List.insert new xs"

definition InternalFlags_new :: "bool \<Rightarrow> string \<Rightarrow> string \<Rightarrow> InternalFlags" where
  "InternalFlags_new sdk_metadata sdk_name sdk_version =
     \<lparr>can_write_sdk_metadata = sdk_metadata, fl_core = [], fl_lang = [],
      core_since_last_complete = [], lang_since_last_complete = [],
      last_sdk_name = [], last_sdk_version = [],
      fl_sdk_name = sdk_name, fl_sdk_version = sdk_version\<rparr>"

definition add_from_complete ::
  "WorkflowTaskCompletedEventAttributes \<Rightarrow> InternalFlags \<Rightarrow> InternalFlags" where
  "add_from_complete e self =
     (case wtc_sdk_metadata e of
        None \<Rightarrow> self
      | Some metadata \<Rightarrow>
          let self = self\<lparr>fl_core := btree_extend (fl_core self)
                             (map from_u32 (wtm_core_used_flags metadata)),
                          fl_lang := btree_extend (fl_lang self) (wtm_lang_used_flags metadata)\<rparr>;
              self = (if wtm_sdk_name metadata \<noteq> []
                      then self\<lparr>last_sdk_name := wtm_sdk_name metadata\<rparr> else self)
          in if wtm_sdk_version metadata \<noteq> []
             then self\<lparr>last_sdk_version := wtm_sdk_version metadata\<rparr> else self)"

definition add_lang_used :: "u32 list \<Rightarrow> InternalFlags \<Rightarrow> InternalFlags" where
  "add_lang_used flags self =
     (if can_write_sdk_metadata self
      then self\<lparr>lang_since_last_complete := hash_extend (lang_since_last_complete self) flags\<rparr>
      else self)"

definition try_use ::
  "CoreInternalFlags \<Rightarrow> bool \<Rightarrow> InternalFlags \<Rightarrow> bool \<times> InternalFlags" where
  "try_use flag should_record self =
     (if should_record then
        (if can_write_sdk_metadata self
         then (True, self\<lparr>core_since_last_complete :=
                            List.insert flag (core_since_last_complete self)\<rparr>)
         else (False, self))
      else (flag \<in> set (fl_core self), self))"

definition write_all_known :: "InternalFlags \<Rightarrow> InternalFlags" where
  "write_all_known self =
     (if can_write_sdk_metadata self
      then self\<lparr>core_since_last_complete :=
                  hash_extend (core_since_last_complete self) all_except_too_high\<rparr>
      else self)"

definition WorkflowTaskCompletedMetadata_default :: WorkflowTaskCompletedMetadata where
  "WorkflowTaskCompletedMetadata_default =
     \<lparr>wtm_core_used_flags = [], wtm_lang_used_flags = [], wtm_sdk_name = [], wtm_sdk_version = []\<rparr>"

definition gather_for_wft_complete ::
  "InternalFlags \<Rightarrow> WorkflowTaskCompletedMetadata \<times> InternalFlags" where
  "gather_for_wft_complete self =
     (if \<not> can_write_sdk_metadata self then (WorkflowTaskCompletedMetadata_default, self)
      else
        let core_newly_used = map flag_as_u32
              (filter (\<lambda>f. f \<notin> set (fl_core self)) (core_since_last_complete self));
            lang_newly_used =
              filter (\<lambda>f. f \<notin> set (fl_lang self)) (lang_since_last_complete self);
            self = self\<lparr>fl_core := btree_extend (fl_core self) (core_since_last_complete self),
                        fl_lang := btree_extend (fl_lang self) (lang_since_last_complete self)\<rparr>
        in (\<lparr>wtm_core_used_flags = core_newly_used, wtm_lang_used_flags = lang_newly_used,
             wtm_sdk_name = (if last_sdk_name self \<noteq> fl_sdk_name self
                             then fl_sdk_name self else []),
             wtm_sdk_version = (if last_sdk_version self \<noteq> fl_sdk_version self
                                then fl_sdk_version self else [])\<rparr>, self))"

definition all_lang :: "InternalFlags \<Rightarrow> u32 list" where
  "all_lang self = fl_lang self"

definition flags_last_sdk_version :: "InternalFlags \<Rightarrow> string option" where
  "flags_last_sdk_version self =
     (if last_sdk_version self \<noteq> [] then Some (last_sdk_version self) else None)"

section \<open>Lemmas\<close>

definition flags_wf :: "InternalFlags \<Rightarrow> bool" where
  "flags_wf fl \<longleftrightarrow> sorted (fl_core fl) \<and> distinct (fl_core fl) \<and>
     sorted (fl_lang fl) \<and> distinct (fl_lang fl) \<and>
     distinct (core_since_last_complete fl) \<and> distinct (lang_since_last_complete fl)"

lemma set_btree_insert [simp]: "set (btree_insert x xs) = insert x (set xs)"
  by (auto simp: btree_insert_def set_insort_key)

lemma set_btree_extend [simp]: "set (btree_extend xs new) = set xs \<union> set new"
  unfolding btree_extend_def by (induction new arbitrary: xs) auto

lemma btree_extend_wf:
  "sorted xs \<and> distinct xs \<Longrightarrow> sorted (btree_extend xs new) \<and> distinct (btree_extend xs new)"
  unfolding btree_extend_def
  by (induction new arbitrary: xs)
    (auto simp: btree_insert_def sorted_insort distinct_insort)

lemma set_hash_extend [simp]: "set (hash_extend xs new) = set xs \<union> set new"
  unfolding hash_extend_def by (induction new arbitrary: xs) auto

lemma distinct_hash_extend: "distinct xs \<Longrightarrow> distinct (hash_extend xs new)"
  unfolding hash_extend_def by (induction new arbitrary: xs) auto

lemma from_u32_as_u32 [simp]: "from_u32 (flag_as_u32 f) = f"
  by (cases f) (simp_all add: from_u32_def)

lemma can_write_try_use [simp]:
  "can_write_sdk_metadata (snd (try_use f r fl)) = can_write_sdk_metadata fl"
  by (simp add: try_use_def)

lemma fl_core_try_use [simp]: "fl_core (snd (try_use f r fl)) = fl_core fl"
  by (simp add: try_use_def)

text \<open>\<open>live_uses fs\<close>: every flag of \<open>fs\<close> is used in turn while executing, not replaying.\<close>

definition live_uses :: "CoreInternalFlags list \<Rightarrow> InternalFlags \<Rightarrow> InternalFlags" where
  "live_uses fs fl = fold (\<lambda>f s. snd (try_use f True s)) fs fl"

lemma live_uses_fields:
  "can_write_sdk_metadata fl \<Longrightarrow>
   can_write_sdk_metadata (live_uses fs fl) \<and> fl_core (live_uses fs fl) = fl_core fl \<and>
   set (core_since_last_complete (live_uses fs fl)) = set (core_since_last_complete fl) \<union> set fs"
  unfolding live_uses_def by (induction fs arbitrary: fl) (auto simp: try_use_def)

lemma gather_core:
  assumes "can_write_sdk_metadata fl" "gather_for_wft_complete fl = (md, fl')"
  shows "set (wtm_core_used_flags md) =
           flag_as_u32 ` (set (core_since_last_complete fl) - set (fl_core fl))"
    and "set (fl_core fl') = set (fl_core fl) \<union> set (core_since_last_complete fl)"
    and "set (wtm_lang_used_flags md) = set (lang_since_last_complete fl) - set (fl_lang fl)"
    and "set (fl_lang fl') = set (fl_lang fl) \<union> set (lang_since_last_complete fl)"
  using assms by (auto simp: gather_for_wft_complete_def Let_def)

lemma add_from_complete_core:
  "wtc_sdk_metadata e = Some md \<Longrightarrow>
   set (fl_core (add_from_complete e fl)) =
     set (fl_core fl) \<union> from_u32 ` set (wtm_core_used_flags md)"
  by (simp add: add_from_complete_def Let_def)

lemma flags_wf_ops:
  "flags_wf (InternalFlags_new c n v)"
  "flags_wf fl \<Longrightarrow> flags_wf (add_from_complete e fl)"
  "flags_wf fl \<Longrightarrow> flags_wf (add_lang_used ls fl)"
  "flags_wf fl \<Longrightarrow> flags_wf (snd (try_use f r fl))"
  "flags_wf fl \<Longrightarrow> flags_wf (write_all_known fl)"
  "flags_wf fl \<Longrightarrow> flags_wf (snd (gather_for_wft_complete fl))"
  using btree_extend_wf [of "fl_core fl"] btree_extend_wf [of "fl_lang fl"]
  by (auto simp: flags_wf_def InternalFlags_new_def add_from_complete_def add_lang_used_def
      try_use_def write_all_known_def gather_for_wft_complete_def Let_def distinct_hash_extend
      split: option.splits)

section \<open>Properties\<close>

text \<open>C23: flags survive the round trip through history.  A worker that uses the flags \<open>fs\<close> while
  executing a task reports them in the completion metadata; a worker that replays the history up
  to that completion, starting from the same known flags, gets \<^verbatim>\<open>true\<close> from
  \<^verbatim>\<open>try_use\<close> for exactly the flags known before or used during the task.\<close>

theorem flags_replay_agree:
  assumes "can_write_sdk_metadata fl" "set (fl_core re) = set (fl_core fl)"
    and "gather_for_wft_complete (live_uses fs fl) = (md, fl')"
    and "wtc_sdk_metadata e = Some md"
  shows "fst (try_use f False (add_from_complete e re)) \<longleftrightarrow>
           f \<in> set (fl_core fl) \<union> set (core_since_last_complete fl) \<union> set fs"
  using live_uses_fields [OF assms(1), of fs] assms(2)
    gather_core [OF _ assms(3)] add_from_complete_core [OF assms(4), of re]
  by (auto simp: try_use_def image_iff)

theorem flags_replay_agree_witness:
  "let fl = InternalFlags_new True ''sdk'' ''1.0'';
       (md, fl') = gather_for_wft_complete (live_uses [MoveTerminalCommands] fl);
       e = \<lparr>wtc_scheduled_event_id = 2, wtc_sdk_metadata = Some md,
         wtc_worker_version_build_id = None, wtc_worker_deployment_name = [],
         wtc_worker_deployment_version = [], wtc_deployment_version = None\<rparr>
   in fst (try_use MoveTerminalCommands False (add_from_complete e fl)) \<and>
      \<not> fst (try_use IdAndTypeDeterminismChecks False (add_from_complete e fl))"
  using flags_replay_agree [of "InternalFlags_new True ''sdk'' ''1.0''"
      "InternalFlags_new True ''sdk'' ''1.0''" "[MoveTerminalCommands]"]
  by (auto simp: InternalFlags_new_def Let_def split: prod.splits)

text \<open>a flag is reported once: after \<^verbatim>\<open>gather_for_wft_complete\<close> a second call reports no
  core and no language flag, however often it is called.\<close>

theorem gather_reports_once:
  "wtm_core_used_flags (fst (gather_for_wft_complete (snd (gather_for_wft_complete fl)))) = [] \<and>
   wtm_lang_used_flags (fst (gather_for_wft_complete (snd (gather_for_wft_complete fl)))) = []"
  by (simp add: gather_for_wft_complete_def Let_def WorkflowTaskCompletedMetadata_default_def
      filter_empty_conv)

end
