(* ===== verification/Fsm.thy ===== *)
theory Fsm
  imports Activation InternalFlags
begin

text \<open>
  State machines as the \<^verbatim>\<open>fsm!\<close> macro generates them (\<^verbatim>\<open>crates/macros/src/fsm_impl.rs\<close>,
  \<^verbatim>\<open>crates/common/src/fsm_trait.rs\<close>) and the layer that feeds them commands and history
  events (\<^verbatim>\<open>TemporalStateMachine\<close> of
  \<^verbatim>\<open>crates/sdk-core/src/worker/workflow/machines/mod.rs\<close>).

  A machine is its current state and its shared state.  The generated \<^verbatim>\<open>on_event\<close> takes the
  state out, calls the handler of the matching arm and puts the new state back.  When the handler
  fails nothing is put back: the machine stays without a state, every later event is an invalid
  transition, and reading the state panics.  The arms of a machine are a function from state,
  shared state and event to the handler's result, \<open>None\<close> where the \<^verbatim>\<open>fsm!\<close> block has no arm.
\<close>

section \<open>Generated machines\<close>

datatype ('cmd, 'st, 'e) TransitionResult = TrOk "'cmd list" 'st | TrErr 'e | TrPanic

datatype 'e MachineError = InvalidTransition | Underlying 'e

record ('st, 'sh) StateMachine =
  sm_state :: "'st option"
  sm_shared :: 'sh

type_synonym ('st, 'sh, 'ev, 'cmd) arms =
  "'st \<Rightarrow> 'sh \<Rightarrow> 'ev \<Rightarrow> (('cmd, 'st, WFMachinesError) TransitionResult \<times> 'sh) option"

definition from_parts :: "'st \<Rightarrow> 'sh \<Rightarrow> ('st, 'sh) StateMachine" where
  "from_parts st sh = \<lparr>sm_state = Some st, sm_shared = sh\<rparr>"

definition on_event ::
  "('st, 'sh, 'ev, 'cmd) arms \<Rightarrow> ('st, 'sh) StateMachine \<Rightarrow> 'ev \<Rightarrow>
   ('cmd list, WFMachinesError MachineError) res \<times> ('st, 'sh) StateMachine" where
  "on_event arms m event =
     (case sm_state m of
        None \<Rightarrow> (Err InvalidTransition, m)
      | Some st \<Rightarrow>
          (case arms st (sm_shared m) event of
             None \<Rightarrow> (Err InvalidTransition, m)
           | Some (TrOk cmds st', sh') \<Rightarrow> (Ok cmds, \<lparr>sm_state = Some st', sm_shared = sh'\<rparr>)
           | Some (TrErr e, sh') \<Rightarrow> (Err (Underlying e), \<lparr>sm_state = None, sm_shared = sh'\<rparr>)
           | Some (TrPanic, sh') \<Rightarrow> (Panic, \<lparr>sm_state = None, sm_shared = sh'\<rparr>)))"

text \<open>\<^verbatim>\<open>TransitionResult::commands\<close>, \<^verbatim>\<open>::default\<close> and \<^verbatim>\<open>::from\<close> at a destination.\<close>

abbreviation tr_commands :: "'cmd list \<Rightarrow> 'st \<Rightarrow> ('cmd, 'st, 'e) TransitionResult" where
  "tr_commands cmds dest \<equiv> TrOk cmds dest"

abbreviation tr_default :: "'st \<Rightarrow> ('cmd, 'st, 'e) TransitionResult" where
  "tr_default dest \<equiv> TrOk [] dest"

text \<open>An arm without a handler keeps the shared state.\<close>

abbreviation arm_default ::
  "'st \<Rightarrow> 'sh \<Rightarrow> (('cmd, 'st, 'e) TransitionResult \<times> 'sh) option" where
  "arm_default dest sh \<equiv> Some (TrOk [] dest, sh)"

abbreviation arm_pure ::
  "('cmd, 'st, 'e) TransitionResult \<Rightarrow> 'sh \<Rightarrow> (('cmd, 'st, 'e) TransitionResult \<times> 'sh) option" where
  "arm_pure tr sh \<equiv> Some (tr, sh)"

definition has_reached_final_state ::
  "('st \<Rightarrow> bool) \<Rightarrow> ('st, 'sh) StateMachine \<Rightarrow> (bool, 'e) res" where
  "has_reached_final_state is_final m =
     (case sm_state m of None \<Rightarrow> Panic | Some st \<Rightarrow> Ok (is_final st))"

section \<open>Feeding commands and events to a machine\<close>

text \<open>What \<^verbatim>\<open>TemporalStateMachine\<close> needs of a machine: its arms, the conversions of command
  types and history events into its events, and \<^verbatim>\<open>WFMachinesAdapter::adapt_response\<close>.\<close>

record ('st, 'sh, 'ev, 'cmd) machine_ops =
  op_arms :: "('st, 'sh, 'ev, 'cmd) arms"
  op_from_command :: "CommandType \<Rightarrow> 'ev option"
  op_from_event :: "HistEventData \<Rightarrow> 'ev result"
  op_adapt_response ::
    "('st, 'sh) StateMachine \<Rightarrow> 'cmd \<Rightarrow> EventInfo option \<Rightarrow> MachineResponse list result"

definition process_machine_commands ::
  "('st, 'sh, 'ev, 'cmd) machine_ops \<Rightarrow> ('st, 'sh) StateMachine \<Rightarrow> 'cmd list \<Rightarrow>
   EventInfo option \<Rightarrow> MachineResponse list result" where
  "process_machine_commands ops machine commands event_info =
     concat_res (\<lambda>cmd. op_adapt_response ops machine cmd event_info) commands"

text \<open>The error message of an invalid transition names the state, so a machine without one
  panics there.\<close>

definition invalid_transition_err ::
  "('st, 'sh) StateMachine \<Rightarrow> WFMachinesError \<Rightarrow> 'a result" where
  "invalid_transition_err m e = (if sm_state m = None then Panic else Err e)"

definition handle_command ::
  "('st, 'sh, 'ev, 'cmd) machine_ops \<Rightarrow> ('st, 'sh) StateMachine \<Rightarrow> CommandType \<Rightarrow>
   MachineResponse list result \<times> ('st, 'sh) StateMachine" where
  "handle_command ops m command_type =
     (case op_from_command ops command_type of
        Some converted_command \<Rightarrow>
          (case on_event (op_arms ops) m converted_command of
             (Ok c, m') \<Rightarrow> (process_machine_commands ops m' c None, m')
           | (Err InvalidTransition, m') \<Rightarrow>
               (invalid_transition_err m' (Nondeterminism UnexpectedCommandTransition), m')
           | (Err (Underlying e), m') \<Rightarrow> (Err e, m')
           | (Panic, m') \<Rightarrow> (Panic, m'))
      | None \<Rightarrow> (Err (Nondeterminism UnexpectedCommand), m))"

definition handle_event ::
  "('st, 'sh, 'ev, 'cmd) machine_ops \<Rightarrow> ('st, 'sh) StateMachine \<Rightarrow> HistEventData \<Rightarrow>
   MachineResponse list result \<times> ('st, 'sh) StateMachine" where
  "handle_event ops m event_dat =
     (let event_info = \<lparr>ei_event_id = he_event_id (hed_event event_dat),
                        ei_event_type = he_event_type (hed_event event_dat)\<rparr>
      in case op_from_event ops event_dat of
        Ok converted_event \<Rightarrow>
          (case on_event (op_arms ops) m converted_event of
             (Ok c, m') \<Rightarrow> (process_machine_commands ops m' c (Some event_info), m')
           | (Err InvalidTransition, m') \<Rightarrow>
               (invalid_transition_err m' (Fatal EventTransitionInvalid), m')
           | (Err (Underlying e), m') \<Rightarrow> (Err e, m')
           | (Panic, m') \<Rightarrow> (Panic, m'))
      | Err e \<Rightarrow> (Err e, m)
      | Panic \<Rightarrow> (Panic, m))"

text \<open>\<^verbatim>\<open>impl From<MachineError<WFMachinesError>> for WFMachinesError\<close>, applied by
  \<^verbatim>\<open>?\<close> to the result of a cancel method.\<close>

fun from_machine_error :: "WFMachinesError MachineError \<Rightarrow> WFMachinesError" where
  "from_machine_error InvalidTransition = Nondeterminism CancelTransitionInvalid"
| "from_machine_error (Underlying e) = e"

text \<open>An event raised by core itself, with the responses adapted from every command it produces:
  the shape of the cancel methods.\<close>

definition raise_event ::
  "('st, 'sh, 'ev, 'cmd) machine_ops \<Rightarrow> ('st, 'sh) StateMachine \<Rightarrow> 'ev \<Rightarrow>
   MachineResponse list result \<times> ('st, 'sh) StateMachine" where
  "raise_event ops m ev =
     (case on_event (op_arms ops) m ev of
        (Ok cmds, m') \<Rightarrow> (process_machine_commands ops m' cmds None, m')
      | (Err e, m') \<Rightarrow> (Err (from_machine_error e), m')
      | (Panic, m') \<Rightarrow> (Panic, m'))"

text \<open>\<^verbatim>\<open>on_event_mut(..).expect(..)\<close> in the constructors, and \<^verbatim>\<open>Vec::pop\<close>.\<close>

definition expect_event ::
  "('st, 'sh, 'ev, 'cmd) arms \<Rightarrow> ('st, 'sh) StateMachine \<Rightarrow> 'ev \<Rightarrow>
   ('cmd list \<times> ('st, 'sh) StateMachine) result" where
  "expect_event arms m ev =
     (case on_event arms m ev of (Ok cmds, m') \<Rightarrow> Ok (cmds, m') | _ \<Rightarrow> Panic)"

definition list_pop :: "'a list \<Rightarrow> 'a option" where
  "list_pop xs = (if xs = [] then None else Some (last xs))"

record 'm NewMachineWithCommand =
  nm_command :: CommandAttributes
  nm_machine :: 'm

text \<open>A history event with its id, type and attributes, seen in the last task of a replayed
  history.\<close>

definition plain_event :: "i64 \<Rightarrow> EventType \<Rightarrow> Attributes option \<Rightarrow> HistEventData" where
  "plain_event eid et attrs = \<lparr>hed_event = \<lparr>he_event_id = eid, he_event_time = None,
     he_event_type = et, he_worker_may_ignore = False, he_attributes = attrs\<rparr>,
     hed_replaying = True, hed_current_task_is_last_in_history = True\<rparr>"

lemma plain_event_simps [simp]:
  "he_event_id (hed_event (plain_event i t a)) = i"
  "he_event_type (hed_event (plain_event i t a)) = t"
  "he_attributes (hed_event (plain_event i t a)) = a"
  "he_event_time (hed_event (plain_event i t a)) = None"
  "hed_replaying (plain_event i t a)"
  "hed_current_task_is_last_in_history (plain_event i t a)"
  by (simp_all add: plain_event_def)

section \<open>Laws of every generated machine\<close>

lemma on_event_poisoned [simp]:
  "sm_state m = None \<Longrightarrow> on_event arms m ev = (Err InvalidTransition, m)"
  by (simp add: on_event_def)

lemma on_event_invalid_unchanged:
  "on_event arms m ev = (Err InvalidTransition, m') \<Longrightarrow> m' = m"
  by (auto simp: on_event_def split: option.splits TransitionResult.splits)

lemma on_event_OkD:
  assumes "on_event arms m ev = (Ok cmds, m')"
  obtains st st' sh' where "sm_state m = Some st"
    "arms st (sm_shared m) ev = Some (TrOk cmds st', sh')"
    "m' = \<lparr>sm_state = Some st', sm_shared = sh'\<rparr>"
  using assms by (auto simp: on_event_def split: option.splits TransitionResult.splits)

lemma on_event_lost_state:
  assumes "on_event arms m ev = (r, m')" "sm_state m \<noteq> None"
  shows "sm_state m' = None \<longleftrightarrow> (r = Panic \<or> (\<exists>e. r = Err (Underlying e)))"
  using assms by (auto simp: on_event_def split: option.splits TransitionResult.splits)

lemma handle_event_poisoned:
  "sm_state m = None \<Longrightarrow> op_from_event ops d = Ok ev \<Longrightarrow> handle_event ops m d = (Panic, m)"
  by (simp add: handle_event_def invalid_transition_err_def)

lemma handle_command_poisoned:
  "sm_state m = None \<Longrightarrow> op_from_command ops ct = Some ev \<Longrightarrow>
   handle_command ops m ct = (Panic, m)"
  by (simp add: handle_command_def invalid_transition_err_def)

lemma handle_command_OkD:
  "handle_command ops m ct = (Ok rs, m') \<Longrightarrow>
   \<exists>ev cmds. op_from_command ops ct = Some ev \<and> on_event (op_arms ops) m ev = (Ok cmds, m') \<and>
     process_machine_commands ops m' cmds None = Ok rs"
  by (auto simp: handle_command_def invalid_transition_err_def
      split: option.splits prod.splits res.splits MachineError.splits if_splits)

lemma handle_command_PanicD:
  "fst (handle_command ops m ct) = Panic \<Longrightarrow>
   \<exists>ev cmds m'. op_from_command ops ct = Some ev \<and>
     (sm_state m = None \<or> on_event (op_arms ops) m ev = (Panic, m') \<or>
      on_event (op_arms ops) m ev = (Ok cmds, m') \<and>
      process_machine_commands ops m' cmds None = Panic)"
  by (auto simp: handle_command_def invalid_transition_err_def dest: on_event_invalid_unchanged
      split: option.splits prod.splits res.splits MachineError.splits if_splits)

lemma handle_event_OkD:
  "handle_event ops m d = (Ok rs, m') \<Longrightarrow>
   \<exists>ev cmds info. op_from_event ops d = Ok ev \<and> on_event (op_arms ops) m ev = (Ok cmds, m') \<and>
     process_machine_commands ops m' cmds info = Ok rs"
  by (auto simp: handle_event_def invalid_transition_err_def Let_def
      split: option.splits prod.splits res.splits MachineError.splits if_splits)

lemma handle_event_PanicD:
  "fst (handle_event ops m d) = Panic \<Longrightarrow>
   op_from_event ops d = Panic \<or>
   (\<exists>ev cmds m' info. op_from_event ops d = Ok ev \<and>
     (sm_state m = None \<or> on_event (op_arms ops) m ev = (Panic, m') \<or>
      on_event (op_arms ops) m ev = (Ok cmds, m') \<and>
      process_machine_commands ops m' cmds info = Panic))"
  by (auto simp: handle_event_def invalid_transition_err_def Let_def
      dest: on_event_invalid_unchanged
      split: option.splits prod.splits res.splits MachineError.splits if_splits)

lemma raise_event_OkD:
  "raise_event ops m ev = (Ok rs, m') \<Longrightarrow>
   \<exists>cmds. on_event (op_arms ops) m ev = (Ok cmds, m') \<and>
     process_machine_commands ops m' cmds None = Ok rs"
  by (auto simp: raise_event_def split: prod.splits res.splits)

lemma raise_event_PanicD:
  "fst (raise_event ops m ev) = Panic \<Longrightarrow>
   \<exists>cmds m'. on_event (op_arms ops) m ev = (Panic, m') \<or>
     on_event (op_arms ops) m ev = (Ok cmds, m') \<and>
     process_machine_commands ops m' cmds None = Panic"
  by (auto simp: raise_event_def split: prod.splits res.splits)

lemmas machine_step_defs = handle_command_def handle_event_def raise_event_def on_event_def
  process_machine_commands_def invalid_transition_err_def

section \<open>Interfaces\<close>

text \<open>\<^verbatim>\<open>is_final\<close> of the generated state enumeration holds of the states no arm starts from.\<close>

locale fsm_final =
  fixes arms :: "('st, 'sh, 'ev, 'cmd) arms" and is_final :: "'st \<Rightarrow> bool"
  assumes final_iff: "is_final st \<longleftrightarrow> (\<forall>sh ev. arms st sh ev = None)"
begin

lemma final_rejects:
  "sm_state m = Some st \<Longrightarrow> is_final st \<Longrightarrow> on_event arms m ev = (Err InvalidTransition, m)"
  by (simp add: on_event_def final_iff)

lemma not_final_if_moves:
  "sm_state m = Some st \<Longrightarrow> on_event arms m ev = (Ok cmds, m') \<Longrightarrow> \<not> is_final st"
  using final_rejects by fastforce

end

text \<open>A run feeds inputs to a machine until one of them does not succeed.\<close>

fun run_responses ::
  "('m \<Rightarrow> 'i \<Rightarrow> MachineResponse list result \<times> 'm) \<Rightarrow> 'm \<Rightarrow> 'i list \<Rightarrow> MachineResponse list" where
  "run_responses step m [] = []"
| "run_responses step m (i # is) =
     (case step m i of (Ok rs, m') \<Rightarrow> rs @ run_responses step m' is | _ \<Rightarrow> [])"

fun run_result ::
  "('m \<Rightarrow> 'i \<Rightarrow> MachineResponse list result \<times> 'm) \<Rightarrow> 'm \<Rightarrow> 'i list \<Rightarrow> 'm result" where
  "run_result step m [] = Ok m"
| "run_result step m (i # is) =
     (case step m i of
        (Ok rs, m') \<Rightarrow> run_result step m' is | (Err e, _) \<Rightarrow> Err e | (Panic, _) \<Rightarrow> Panic)"

text \<open>The contract of a machine: an invariant every successful step keeps and under which no step
  panics.\<close>

locale machine_contract =
  fixes step :: "'m \<Rightarrow> 'i \<Rightarrow> MachineResponse list result \<times> 'm" and inv :: "'m \<Rightarrow> bool"
  assumes inv_step: "inv m \<Longrightarrow> step m i = (Ok rs, m') \<Longrightarrow> inv m'"
    and step_no_panic: "inv m \<Longrightarrow> fst (step m i) \<noteq> Panic"
begin

lemma run_inv: "inv m \<Longrightarrow> run_result step m is = Ok m' \<Longrightarrow> inv m'"
  by (induction "is" arbitrary: m) (auto split: prod.splits res.splits intro: inv_step)

lemma run_no_panic: "inv m \<Longrightarrow> run_result step m is \<noteq> Panic"
proof (induction "is" arbitrary: m)
  case (Cons i "is")
  show ?case
    using Cons step_no_panic [OF Cons.prems, of i]
    by (auto split: prod.splits res.splits intro: inv_step dest: step_no_panic)
qed simp

end

text \<open>A machine that spends from a budget: what it emits, weighed by \<open>weight\<close>, is paid by a
  decrease of \<open>budget\<close>.  With a budget of 1 and the resolution jobs weighing 1, it resolves at
  most once in its life.\<close>

locale spending_machine = machine_contract step inv
  for step :: "'m \<Rightarrow> 'i \<Rightarrow> MachineResponse list result \<times> 'm" and inv :: "'m \<Rightarrow> bool" +
  fixes weight :: "MachineResponse \<Rightarrow> nat" and budget :: "'m \<Rightarrow> nat"
  assumes budget_step: "inv m \<Longrightarrow> step m i = (Ok rs, m') \<Longrightarrow>
      sum_list (map weight rs) + budget m' \<le> budget m"
begin

lemma run_spends: "inv m \<Longrightarrow> sum_list (map weight (run_responses step m is)) \<le> budget m"
proof (induction "is" arbitrary: m)
  case (Cons i "is")
  obtain r m' where step: "step m i = (r, m')" by fastforce
  show ?case
  proof (cases r)
    case (Ok rs)
    then have "inv m'" using step Cons.prems by (simp add: inv_step)
    then show ?thesis
      using Cons.IH [of m'] budget_step [OF Cons.prems, of i rs m'] step Ok by simp
  qed (use step in simp_all)
qed simp

end

text \<open>An exact account: nothing of the budget is lost.  Then what a run emitted and what is left
  always add up, so a machine whose budget has reached 0 has emitted all of it.\<close>

locale accounting_machine = machine_contract step inv
  for step :: "'m \<Rightarrow> 'i \<Rightarrow> MachineResponse list result \<times> 'm" and inv :: "'m \<Rightarrow> bool" +
  fixes weight :: "MachineResponse \<Rightarrow> nat" and budget :: "'m \<Rightarrow> nat"
  assumes account_step: "inv m \<Longrightarrow> step m i = (Ok rs, m') \<Longrightarrow>
      sum_list (map weight rs) + budget m' = budget m"
begin

lemma run_accounts:
  "inv m \<Longrightarrow> run_result step m is = Ok m' \<Longrightarrow>
   sum_list (map weight (run_responses step m is)) + budget m' = budget m"
proof (induction "is" arbitrary: m)
  case (Cons i "is")
  then obtain rs n where step: "step m i = (Ok rs, n)" "run_result step n is = Ok m'"
    by (auto split: prod.splits res.splits)
  then have "inv n" using Cons.prems by (simp add: inv_step)
  then show ?case
    using Cons.IH [of n] account_step [OF Cons.prems(1) step(1)] step by simp
qed simp

end

sublocale accounting_machine \<subseteq> spends: spending_machine step inv weight budget
  by unfold_locales (simp add: account_step)

text \<open>The laws of one machine's arms and adapter, from which the laws of the layer above follow.
  \<open>good\<close> is an invariant of state and shared state; \<open>allowed\<close> are the events that may be turned
  into responses by \<^verbatim>\<open>adapt_response\<close> (a machine may treat its own cancellation apart).  The
  weight of what a step emits and the budget left are related to the budget before by \<open>pays\<close>:
  \<open>\<le>\<close> where budget may be lost, \<open>=\<close> where every unit of it ends in an emission.\<close>

definition good_machine :: "('st \<Rightarrow> 'sh \<Rightarrow> bool) \<Rightarrow> ('st, 'sh) StateMachine \<Rightarrow> bool" where
  "good_machine good m = (case sm_state m of None \<Rightarrow> False | Some st \<Rightarrow> good st (sm_shared m))"

definition machine_budget :: "('st \<Rightarrow> 'sh \<Rightarrow> nat) \<Rightarrow> ('st, 'sh) StateMachine \<Rightarrow> nat" where
  "machine_budget budget m = (case sm_state m of None \<Rightarrow> 0 | Some st \<Rightarrow> budget st (sm_shared m))"

lemma good_machine_Some [simp]:
  "good_machine good \<lparr>sm_state = Some st, sm_shared = sh\<rparr> \<longleftrightarrow> good st sh"
  by (simp add: good_machine_def)

lemma machine_budget_Some [simp]:
  "machine_budget b \<lparr>sm_state = Some st, sm_shared = sh\<rparr> = b st sh"
  by (simp add: machine_budget_def)

lemma good_machineE:
  assumes "good_machine good m"
  obtains st sh where "m = \<lparr>sm_state = Some st, sm_shared = sh\<rparr>" "good st sh"
  using assms by (cases m) (auto simp: good_machine_def split: option.splits)

locale adapted_machine =
  fixes ops :: "('st, 'sh, 'ev, 'cmd) machine_ops" and good :: "'st \<Rightarrow> 'sh \<Rightarrow> bool"
    and allowed :: "'ev \<Rightarrow> bool" and weight :: "MachineResponse \<Rightarrow> nat"
    and budget :: "'st \<Rightarrow> 'sh \<Rightarrow> nat" and pays :: "nat \<Rightarrow> nat \<Rightarrow> bool"
  assumes arms_good:
      "good st sh \<Longrightarrow> allowed ev \<Longrightarrow> op_arms ops st sh ev = Some (TrOk cmds st', sh') \<Longrightarrow>
       good st' sh'"
    and arms_no_panic: "good st sh \<Longrightarrow> allowed ev \<Longrightarrow> op_arms ops st sh ev \<noteq> Some (TrPanic, sh')"
    and from_command_allowed: "op_from_command ops ct = Some ev \<Longrightarrow> allowed ev"
    and from_event_allowed: "op_from_event ops d = Ok ev \<Longrightarrow> allowed ev"
    and from_event_no_panic: "op_from_event ops d \<noteq> Panic"
    and adapt_no_panic:
      "good st sh \<Longrightarrow> allowed ev \<Longrightarrow> op_arms ops st sh ev = Some (TrOk cmds st', sh') \<Longrightarrow>
       c \<in> set cmds \<Longrightarrow>
       op_adapt_response ops \<lparr>sm_state = Some st', sm_shared = sh'\<rparr> c info \<noteq> Panic"
    and arms_spend:
      "good st sh \<Longrightarrow> allowed ev \<Longrightarrow> op_arms ops st sh ev = Some (TrOk cmds st', sh') \<Longrightarrow>
       concat_res (\<lambda>c. op_adapt_response ops \<lparr>sm_state = Some st', sm_shared = sh'\<rparr> c info) cmds
         = Ok rs \<Longrightarrow>
       pays (sum_list (map weight rs) + budget st' sh') (budget st sh)"
begin

lemma on_event_good:
  "good_machine good m \<Longrightarrow> allowed ev \<Longrightarrow> on_event (op_arms ops) m ev = (Ok cmds, m') \<Longrightarrow>
   good_machine good m'"
  by (auto elim!: on_event_OkD good_machineE intro: arms_good)

lemma on_event_no_panic:
  "good_machine good m \<Longrightarrow> allowed ev \<Longrightarrow> on_event (op_arms ops) m ev \<noteq> (Panic, m')"
  using arms_no_panic
  by (fastforce simp: on_event_def good_machine_def split: option.splits TransitionResult.splits)

lemma process_no_panic:
  "good_machine good m \<Longrightarrow> allowed ev \<Longrightarrow> on_event (op_arms ops) m ev = (Ok cmds, m') \<Longrightarrow>
   process_machine_commands ops m' cmds info \<noteq> Panic"
  unfolding process_machine_commands_def
  by (rule concat_res_not_Panic) (auto simp: good_machine_def elim!: on_event_OkD dest: adapt_no_panic)

lemma process_spend:
  "good_machine good m \<Longrightarrow> allowed ev \<Longrightarrow> on_event (op_arms ops) m ev = (Ok cmds, m') \<Longrightarrow>
   process_machine_commands ops m' cmds info = Ok rs \<Longrightarrow>
   pays (sum_list (map weight rs) + machine_budget budget m') (machine_budget budget m)"
  unfolding process_machine_commands_def
  by (auto simp: good_machine_def machine_budget_def elim!: on_event_OkD dest: arms_spend)

lemma good_not_poisoned: "good_machine good m \<Longrightarrow> sm_state m \<noteq> None"
  by (cases "sm_state m") (simp_all add: good_machine_def)

lemma handle_command_good:
  assumes "good_machine good m" "handle_command ops m ct = (Ok rs, m')"
  shows "good_machine good m' \<and>
    pays (sum_list (map weight rs) + machine_budget budget m') (machine_budget budget m)"
  using handle_command_OkD [OF assms(2)] assms(1)
  by (blast intro: on_event_good process_spend from_command_allowed)

lemma handle_command_no_panic:
  assumes "good_machine good m" shows "fst (handle_command ops m ct) \<noteq> Panic"
  using handle_command_PanicD [of ops m ct] good_not_poisoned [OF assms] on_event_no_panic [OF assms]
    process_no_panic [OF assms] from_command_allowed by blast

lemma handle_event_good:
  assumes "good_machine good m" "handle_event ops m d = (Ok rs, m')"
  shows "good_machine good m' \<and>
    pays (sum_list (map weight rs) + machine_budget budget m') (machine_budget budget m)"
  using handle_event_OkD [OF assms(2)] assms(1)
  by (blast intro: on_event_good process_spend from_event_allowed)

lemma handle_event_no_panic:
  assumes "good_machine good m" shows "fst (handle_event ops m d) \<noteq> Panic"
  using handle_event_PanicD [of ops m d] good_not_poisoned [OF assms] on_event_no_panic [OF assms]
    process_no_panic [OF assms] from_event_allowed from_event_no_panic by blast

lemma raise_event_good:
  assumes "good_machine good m" "allowed ev" "raise_event ops m ev = (Ok rs, m')"
  shows "good_machine good m' \<and>
    pays (sum_list (map weight rs) + machine_budget budget m') (machine_budget budget m)"
  using raise_event_OkD [OF assms(3)] assms(1,2) by (blast intro: on_event_good process_spend)

lemma raise_event_no_panic:
  assumes "good_machine good m" "allowed ev" shows "fst (raise_event ops m ev) \<noteq> Panic"
  using raise_event_PanicD [of ops m ev] on_event_no_panic [OF assms]
    process_no_panic [OF assms] by blast

end

text \<open>A machine driven from outside: commands, history events, and its own operations (cancelling,
  resolving, a change of the shared flags).\<close>

datatype 'c MachineInput = In_Command CommandType | In_Event HistEventData | In_Own 'c

fun drive ::
  "('st, 'sh, 'ev, 'cmd) machine_ops \<Rightarrow>
   (('st, 'sh) StateMachine \<Rightarrow> 'c \<Rightarrow> MachineResponse list result \<times> ('st, 'sh) StateMachine) \<Rightarrow>
   ('st, 'sh) StateMachine \<Rightarrow> 'c MachineInput \<Rightarrow>
   MachineResponse list result \<times> ('st, 'sh) StateMachine" where
  "drive ops own m (In_Command ct) = handle_command ops m ct"
| "drive ops own m (In_Event d) = handle_event ops m d"
| "drive ops own m (In_Own c) = own m c"

locale driven_machine = adapted_machine ops good allowed weight budget pays
  for ops :: "('st, 'sh, 'ev, 'cmd) machine_ops" and good allowed weight budget pays +
  fixes own :: "('st, 'sh) StateMachine \<Rightarrow> 'c \<Rightarrow>
      MachineResponse list result \<times> ('st, 'sh) StateMachine"
  assumes own_good: "good_machine good m \<Longrightarrow> own m c = (Ok rs, m') \<Longrightarrow>
      good_machine good m' \<and>
      pays (sum_list (map weight rs) + machine_budget budget m') (machine_budget budget m)"
    and own_no_panic: "good_machine good m \<Longrightarrow> fst (own m c) \<noteq> Panic"
begin

lemma drive_good:
  "good_machine good m \<Longrightarrow> drive ops own m i = (Ok rs, m') \<Longrightarrow>
   good_machine good m' \<and>
   pays (sum_list (map weight rs) + machine_budget budget m') (machine_budget budget m)"
  by (cases i) (auto dest: handle_command_good handle_event_good own_good)

lemma drive_no_panic: "good_machine good m \<Longrightarrow> fst (drive ops own m i) \<noteq> Panic"
  by (cases i) (simp_all add: handle_command_no_panic handle_event_no_panic own_no_panic)

end

sublocale driven_machine \<subseteq> contract: machine_contract "drive ops own" "good_machine good"
  using drive_good drive_no_panic by unfold_locales blast+

locale driven_spender = driven_machine ops good allowed weight budget "(\<le>)" own
  for ops :: "('st, 'sh, 'ev, 'cmd) machine_ops" and good allowed weight budget
    and own :: "('st, 'sh) StateMachine \<Rightarrow> 'c \<Rightarrow>
      MachineResponse list result \<times> ('st, 'sh) StateMachine"

sublocale driven_spender \<subseteq>
  spender: spending_machine "drive ops own" "good_machine good" weight "machine_budget budget"
  using drive_good by unfold_locales blast

locale driven_accountant = driven_machine ops good allowed weight budget "(=)" own
  for ops :: "('st, 'sh, 'ev, 'cmd) machine_ops" and good allowed weight budget
    and own :: "('st, 'sh) StateMachine \<Rightarrow> 'c \<Rightarrow>
      MachineResponse list result \<times> ('st, 'sh) StateMachine"

sublocale driven_accountant \<subseteq>
  account: accounting_machine "drive ops own" "good_machine good" weight "machine_budget budget"
  using drive_good by unfold_locales blast

end
