(* ===== verification/TimerMachine.thy ===== *)
theory TimerMachine
  imports Fsm
begin

text \<open>
  Timers, \<^verbatim>\<open>crates/sdk-core/src/worker/workflow/machines/timer_state_machine.rs\<close>: the states, the
  shared state, one definition per handler, the arms of the \<^verbatim>\<open>fsm!\<close> block, the conversions, and
  creation and cancellation.
\<close>

section \<open>Model\<close>

datatype TimerState = Timer_Created | Timer_StartCommandCreated | Timer_StartCommandRecorded
  | Timer_CancelTimerCommandCreated | Timer_CancelTimerCommandSent | Timer_Canceled | Timer_Fired

datatype TimerEvent = TimerEv_Schedule | TimerEv_CommandStartTimer | TimerEv_TimerStarted i64
  | TimerEv_Cancel | TimerEv_TimerFired string i64 | TimerEv_CommandCancelTimer
  | TimerEv_TimerCanceled

datatype TimerMachineCommand = TimerCmd_Complete | TimerCmd_IssueCancelCmd CommandAttributes

record StartTimer =
  stm_seq :: u32
  stm_start_to_fire_timeout :: "ProstDuration option"

record TimerShared =
  tsh_attrs :: StartTimer
  tsh_cancelled_before_sent :: bool
  tsh_annotations :: CommandAnnotations

type_synonym TimerMachine = "(TimerState, TimerShared) StateMachine"

definition StartTimer_into :: "StartTimer \<Rightarrow> CommandAttributes" where
  "StartTimer_into s = CA_StartTimer (u32_to_string (stm_seq s)) (stm_start_to_fire_timeout s)"

definition CancelTimer_into :: "u32 \<Rightarrow> CommandAttributes" where
  "CancelTimer_into seq = CA_CancelTimer (u32_to_string seq)"

definition timer_StartCommandCreated_on_cancel ::
  "TimerShared \<Rightarrow> (TimerMachineCommand, TimerState, WFMachinesError) TransitionResult \<times> TimerShared"
where
  "timer_StartCommandCreated_on_cancel dat =
     (tr_default Timer_Canceled, dat\<lparr>tsh_cancelled_before_sent := True\<rparr>)"

definition timer_StartCommandRecorded_on_timer_fired ::
  "TimerShared \<Rightarrow> string \<Rightarrow>
   (TimerMachineCommand, TimerState, WFMachinesError) TransitionResult \<times> TimerShared" where
  "timer_StartCommandRecorded_on_timer_fired dat timer_id =
     (if u32_to_string (stm_seq (tsh_attrs dat)) = timer_id
      then TrOk [TimerCmd_Complete] Timer_Fired
      else TrErr (Nondeterminism IdMismatch), dat)"

definition timer_StartCommandRecorded_on_cancel ::
  "TimerShared \<Rightarrow> (TimerMachineCommand, TimerState, WFMachinesError) TransitionResult \<times> TimerShared"
where
  "timer_StartCommandRecorded_on_cancel dat =
     (TrOk [TimerCmd_IssueCancelCmd (CancelTimer_into (stm_seq (tsh_attrs dat)))]
        Timer_CancelTimerCommandCreated, dat)"

definition timer_arms :: "(TimerState, TimerShared, TimerEvent, TimerMachineCommand) arms" where
  "timer_arms st sh ev =
     (case st of
        Timer_Created \<Rightarrow>
          (case ev of TimerEv_Schedule \<Rightarrow> arm_default Timer_StartCommandCreated sh | _ \<Rightarrow> None)
      | Timer_StartCommandCreated \<Rightarrow>
          (case ev of
             TimerEv_CommandStartTimer \<Rightarrow> arm_default Timer_StartCommandCreated sh
           | TimerEv_TimerStarted _ \<Rightarrow> arm_default Timer_StartCommandRecorded sh
           | TimerEv_Cancel \<Rightarrow> Some (timer_StartCommandCreated_on_cancel sh)
           | _ \<Rightarrow> None)
      | Timer_StartCommandRecorded \<Rightarrow>
          (case ev of
             TimerEv_TimerFired timer_id _ \<Rightarrow>
               Some (timer_StartCommandRecorded_on_timer_fired sh timer_id)
           | TimerEv_Cancel \<Rightarrow> Some (timer_StartCommandRecorded_on_cancel sh)
           | _ \<Rightarrow> None)
      | Timer_CancelTimerCommandCreated \<Rightarrow>
          (case ev of
             TimerEv_Cancel \<Rightarrow> arm_default Timer_CancelTimerCommandCreated sh
           | TimerEv_CommandCancelTimer \<Rightarrow> arm_default Timer_CancelTimerCommandSent sh
           | _ \<Rightarrow> None)
      | Timer_CancelTimerCommandSent \<Rightarrow>
          (case ev of TimerEv_TimerCanceled \<Rightarrow> arm_default Timer_Canceled sh | _ \<Rightarrow> None)
      | Timer_Canceled \<Rightarrow>
          (case ev of TimerEv_Cancel \<Rightarrow> arm_default Timer_Canceled sh | _ \<Rightarrow> None)
      | Timer_Fired \<Rightarrow>
          (case ev of TimerEv_Cancel \<Rightarrow> arm_default Timer_Fired sh | _ \<Rightarrow> None))"

definition timer_from_command :: "CommandType \<Rightarrow> TimerEvent option" where
  "timer_from_command c =
     (if c = C_StartTimer then Some TimerEv_CommandStartTimer
      else if c = C_CancelTimer then Some TimerEv_CommandCancelTimer
      else None)"

definition timer_from_event :: "HistEventData \<Rightarrow> TimerEvent result" where
  "timer_from_event d =
     (let e = hed_event d
      in if he_event_type e = E_TimerStarted then Ok (TimerEv_TimerStarted (he_event_id e))
         else if he_event_type e = E_TimerCanceled then Ok TimerEv_TimerCanceled
         else if he_event_type e = E_TimerFired then
           (case he_attributes e of
              Some (A_TimerFired timer_id started) \<Rightarrow> Ok (TimerEv_TimerFired timer_id started)
            | _ \<Rightarrow> Err (Fatal MissingAttributes))
         else Err (Nondeterminism EventNotHandled))"

fun timer_adapt_response ::
  "TimerMachine \<Rightarrow> TimerMachineCommand \<Rightarrow> EventInfo option \<Rightarrow> MachineResponse list result" where
  "timer_adapt_response m TimerCmd_Complete _ =
     Ok [PushWFJob (J_FireTimer (stm_seq (tsh_attrs (sm_shared m))))]"
| "timer_adapt_response m (TimerCmd_IssueCancelCmd c) _ =
     Ok [IssueNewCommand (ProtoCommand_new c (tsh_annotations (sm_shared m)))]"

definition timer_ops ::
  "(TimerState, TimerShared, TimerEvent, TimerMachineCommand) machine_ops" where
  "timer_ops = \<lparr>op_arms = timer_arms, op_from_command = timer_from_command,
     op_from_event = timer_from_event, op_adapt_response = timer_adapt_response\<rparr>"

definition timer_new :: "StartTimer \<Rightarrow> CommandAnnotations \<Rightarrow> TimerMachine" where
  "timer_new attribs annotations =
     from_parts Timer_Created \<lparr>tsh_attrs = attribs, tsh_cancelled_before_sent = False,
       tsh_annotations = annotations\<rparr>"

definition timer_new_scheduled ::
  "StartTimer \<Rightarrow> CommandAnnotations \<Rightarrow> (TimerMachine \<times> CommandAttributes) result" where
  "timer_new_scheduled attribs annotations =
     (case expect_event timer_arms (timer_new attribs annotations) TimerEv_Schedule of
        Ok (_, s) \<Rightarrow> Ok (s, StartTimer_into (tsh_attrs (sm_shared s)))
      | _ \<Rightarrow> Panic)"

definition new_timer ::
  "StartTimer \<Rightarrow> CommandAnnotations \<Rightarrow> (TimerMachine NewMachineWithCommand) result" where
  "new_timer attribs annotations =
     res_map (\<lambda>(timer, add_cmd). \<lparr>nm_command = add_cmd, nm_machine = timer\<rparr>)
       (timer_new_scheduled attribs annotations)"

definition timer_cancel ::
  "TimerMachine \<Rightarrow> CommandAnnotations \<Rightarrow> MachineResponse list result \<times> TimerMachine" where
  "timer_cancel self annotations =
     (let sh = sm_shared self;
          self = self\<lparr>sm_shared :=
            sh\<lparr>tsh_annotations := override_with (tsh_annotations sh) annotations\<rparr>\<rparr>
      in case on_event timer_arms self TimerEv_Cancel of
           (Ok cmds, self) \<Rightarrow>
             (case list_pop cmds of
                Some (TimerCmd_IssueCancelCmd cmd) \<Rightarrow>
                  Ok [IssueNewCommand (ProtoCommand_new cmd (tsh_annotations (sm_shared self)))]
              | None \<Rightarrow> Ok []
              | _ \<Rightarrow> Panic, self)
         | (Err e, self) \<Rightarrow> (Err (from_machine_error e), self)
         | (Panic, self) \<Rightarrow> (Panic, self))"

definition timer_was_cancelled_before_sent :: "TimerMachine \<Rightarrow> bool" where
  "timer_was_cancelled_before_sent m = tsh_cancelled_before_sent (sm_shared m)"

text \<open>No state of a timer is final: the block ignores cancellations in \<^verbatim>\<open>Canceled\<close> and
  \<^verbatim>\<open>Fired\<close>, so every state has an arm.\<close>

definition timer_is_final :: "TimerState \<Rightarrow> bool" where
  "timer_is_final st = False"

section \<open>Runs of a timer\<close>

abbreviation timer_step ::
  "TimerMachine \<Rightarrow> CommandAnnotations MachineInput \<Rightarrow> MachineResponse list result \<times> TimerMachine" where
  "timer_step \<equiv> drive timer_ops timer_cancel"

fun fire_weight :: "MachineResponse \<Rightarrow> nat" where
  "fire_weight (PushWFJob (J_FireTimer _)) = 1"
| "fire_weight _ = 0"

definition timer_good :: "u32 \<Rightarrow> TimerState \<Rightarrow> TimerShared \<Rightarrow> bool" where
  "timer_good seq st sh \<longleftrightarrow> stm_seq (tsh_attrs sh) = seq \<and>
     (tsh_cancelled_before_sent sh \<longrightarrow> st = Timer_Canceled)"

definition timer_may_fire :: "TimerState \<Rightarrow> TimerShared \<Rightarrow> nat" where
  "timer_may_fire st sh =
     (if st \<in> {Timer_Created, Timer_StartCommandCreated, Timer_StartCommandRecorded} then 1 else 0)"

lemmas timer_defs = timer_arms_def timer_from_command_def timer_from_event_def timer_ops_def
  timer_StartCommandCreated_on_cancel_def timer_StartCommandRecorded_on_timer_fired_def
  timer_StartCommandRecorded_on_cancel_def timer_cancel_def

lemma timer_not_final: "\<exists>ev. timer_arms st sh ev \<noteq> None"
  by (cases st) (auto simp: timer_defs intro: exI [of _ TimerEv_Schedule] exI [of _ TimerEv_Cancel]
      exI [of _ TimerEv_TimerCanceled])

interpretation timer_fsm: fsm_final timer_arms timer_is_final
  using timer_not_final by unfold_locales (auto simp: timer_is_final_def)

interpretation timer_laws: adapted_machine timer_ops "timer_good seq" "\<lambda>_. True" fire_weight
  timer_may_fire "(\<le>)" for seq
  by unfold_locales
    (auto simp: timer_defs timer_good_def timer_may_fire_def Let_def
      split: TimerState.splits TimerEvent.splits if_splits option.splits Attributes.splits)

lemma timer_cancel_good:
  assumes "good_machine (timer_good seq) m" "timer_cancel m ann = (Ok rs, m')"
  shows "good_machine (timer_good seq) m' \<and> machine_budget timer_may_fire m' = 0 \<and>
    sum_list (map fire_weight rs) + machine_budget timer_may_fire m'
      \<le> machine_budget timer_may_fire m"
  using assms
  by (auto elim!: good_machineE on_event_OkD
      simp: timer_defs timer_good_def timer_may_fire_def Let_def list_pop_def
      split: prod.splits res.splits TimerState.splits option.splits TimerMachineCommand.splits)

lemma timer_cancel_no_panic:
  "good_machine (timer_good seq) m \<Longrightarrow> fst (timer_cancel m ann) \<noteq> Panic"
  by (auto elim!: good_machineE
      simp: timer_defs on_event_def Let_def list_pop_def split: TimerState.splits)

interpretation timer: driven_spender timer_ops "timer_good seq" "\<lambda>_. True" fire_weight
  timer_may_fire timer_cancel for seq
  using timer_cancel_good timer_cancel_no_panic by unfold_locales blast+

lemma new_timer_Ok [simp]:
  "new_timer attribs ann = Ok \<lparr>nm_command = StartTimer_into attribs,
     nm_machine = \<lparr>sm_state = Some Timer_StartCommandCreated,
       sm_shared = \<lparr>tsh_attrs = attribs, tsh_cancelled_before_sent = False,
                    tsh_annotations = ann\<rparr>\<rparr>\<rparr>"
  by (simp add: new_timer_def timer_new_scheduled_def expect_event_def timer_new_def from_parts_def
      on_event_def timer_arms_def)

section \<open>Properties\<close>

text \<open>C15: a timer fires at most once.  Whatever commands, history events and cancellations a newly
  scheduled timer is fed, in any order and any number, it asks for at most one firing.\<close>

theorem timer_fires_at_most_once:
  assumes "new_timer attribs ann = Ok nm"
  shows "sum_list (map fire_weight (run_responses timer_step (nm_machine nm) inputs)) \<le> 1"
proof -
  have "good_machine (timer_good (stm_seq attribs)) (nm_machine nm)"
    using assms by (auto simp: timer_good_def)
  from timer.spender.run_spends [OF this, of inputs] show ?thesis
    using assms by (auto simp: timer_may_fire_def)
qed

theorem timer_fires_at_most_once_witness:
  "\<exists>nm. new_timer \<lparr>stm_seq = 1, stm_start_to_fire_timeout = None\<rparr> CommandAnnotations_default = Ok nm \<and>
     sum_list (map fire_weight (run_responses timer_step (nm_machine nm)
       [In_Event (plain_event 5 E_TimerStarted None),
        In_Event (plain_event 6 E_TimerFired (Some (A_TimerFired (u32_to_string 1) 5))),
        In_Own CommandAnnotations_default])) \<le> 1"
  by (intro exI conjI, rule new_timer_Ok, rule timer_fires_at_most_once, rule new_timer_Ok)

text \<open>A cancelled timer never fires, and no input makes it panic.  After a successful
  cancellation of a newly scheduled timer that went through any run of inputs, no further run
  produces a firing, and no run of a timer ends in a panic.\<close>

theorem timer_cancelled_never_fires:
  assumes "new_timer attribs ann = Ok nm"
    and "run_result timer_step (nm_machine nm) before = Ok m"
    and "timer_cancel m ann' = (Ok rs, m')"
  shows "sum_list (map fire_weight (run_responses timer_step m' after)) = 0 \<and>
         run_result timer_step m' after \<noteq> Panic"
proof -
  have "good_machine (timer_good (stm_seq attribs)) (nm_machine nm)"
    using assms(1) by (auto simp: timer_good_def)
  then have "good_machine (timer_good (stm_seq attribs)) m"
    using assms(2) by (rule timer.contract.run_inv)
  then have "good_machine (timer_good (stm_seq attribs)) m'" "machine_budget timer_may_fire m' = 0"
    using timer_cancel_good assms(3) by blast+
  then show ?thesis
    using timer.spender.run_spends [of "stm_seq attribs" m' after]
      timer.contract.run_no_panic [of "stm_seq attribs" m' after] by simp
qed

theorem timer_cancelled_never_fires_witness:
  "\<exists>nm m rs m'. new_timer \<lparr>stm_seq = 1, stm_start_to_fire_timeout = None\<rparr>
        CommandAnnotations_default = Ok nm \<and>
     run_result timer_step (nm_machine nm) [In_Event (plain_event 5 E_TimerStarted None)]
       = Ok m \<and>
     timer_cancel m CommandAnnotations_default = (Ok rs, m') \<and> rs \<noteq> [] \<and>
     sum_list (map fire_weight (run_responses timer_step m'
       [In_Event (plain_event 6 E_TimerFired (Some (A_TimerFired (u32_to_string 1) 5)))])) = 0"
proof -
  let ?new = "new_timer \<lparr>stm_seq = 1, stm_start_to_fire_timeout = None\<rparr> CommandAnnotations_default"
  obtain nm where nm: "?new = Ok nm" by simp
  let ?sh = "sm_shared (nm_machine nm)"
  have run: "run_result timer_step (nm_machine nm) [In_Event (plain_event 5 E_TimerStarted None)]
      = Ok \<lparr>sm_state = Some Timer_StartCommandRecorded, sm_shared = ?sh\<rparr>"
    using nm by (auto simp: machine_step_defs timer_defs)
  obtain rs m' where cancel: "timer_cancel \<lparr>sm_state = Some Timer_StartCommandRecorded,
      sm_shared = ?sh\<rparr> CommandAnnotations_default = (Ok rs, m')" and "rs \<noteq> []"
    by (simp add: timer_defs on_event_def list_pop_def Let_def)
  with nm run timer_cancelled_never_fires [OF nm run cancel] show ?thesis by blast
qed

text \<open>A timer-fired event completes the timer whose id it carries and no other.  With the id of
  the timer's own sequence number the machine asks for its firing; with the id of any other
  sequence number it reports nondeterminism.\<close>

theorem timer_fired_matches_id:
  assumes "sm_state m = Some Timer_StartCommandRecorded"
    and "he_event_type (hed_event d) = E_TimerFired"
    and "he_attributes (hed_event d) = Some (A_TimerFired (u32_to_string seq) started)"
  shows "fst (handle_event timer_ops m d) =
    (if seq = stm_seq (tsh_attrs (sm_shared m)) then Ok [PushWFJob (J_FireTimer seq)]
     else Err (Nondeterminism IdMismatch))"
  using assms by (auto simp: machine_step_defs timer_defs Let_def)

theorem timer_fired_matches_id_witness:
  "let m = \<lparr>sm_state = Some Timer_StartCommandRecorded, sm_shared =
       \<lparr>tsh_attrs = \<lparr>stm_seq = 7, stm_start_to_fire_timeout = None\<rparr>,
        tsh_cancelled_before_sent = False, tsh_annotations = CommandAnnotations_default\<rparr>\<rparr>
   in fst (handle_event timer_ops m
         (plain_event 6 E_TimerFired (Some (A_TimerFired (u32_to_string 7) 5)))) =
        Ok [PushWFJob (J_FireTimer 7)] \<and>
      fst (handle_event timer_ops m
         (plain_event 6 E_TimerFired (Some (A_TimerFired (u32_to_string 8) 5)))) =
        Err (Nondeterminism IdMismatch)"
  by (simp add: timer_fired_matches_id)

text \<open>what cancelling a timer sends.  Before the start command is recorded nothing is sent and
  the start command is withdrawn; once it is recorded exactly one cancel command goes out, naming
  the timer of the start command and carrying the timer's annotations overridden by those of the
  cancellation.\<close>

theorem timer_cancel_sends:
  assumes "sm_state m = Some st" "st \<in> {Timer_StartCommandCreated, Timer_StartCommandRecorded}"
  shows "let sh = sm_shared m; ann = override_with (tsh_annotations sh) extra;
             (r, m') = timer_cancel m extra
         in if st = Timer_StartCommandCreated
            then r = Ok [] \<and> timer_was_cancelled_before_sent m'
            else r = Ok [IssueNewCommand \<lparr>cmd_command_type = C_CancelTimer,
                   cmd_attributes = CA_CancelTimer (u32_to_string (stm_seq (tsh_attrs sh))),
                   cmd_user_metadata = ann_metadata ann,
                   cmd_event_group_markers = ann_event_group_markers ann\<rparr>] \<and>
                 timer_was_cancelled_before_sent m' = timer_was_cancelled_before_sent m"
  using assms
  by (auto simp: timer_defs on_event_def Let_def list_pop_def timer_was_cancelled_before_sent_def
      ProtoCommand_new_def CancelTimer_into_def)

theorem timer_cancel_sends_witness:
  "let m = \<lparr>sm_state = Some Timer_StartCommandCreated, sm_shared =
       \<lparr>tsh_attrs = \<lparr>stm_seq = 7, stm_start_to_fire_timeout = None\<rparr>,
        tsh_cancelled_before_sent = False, tsh_annotations = CommandAnnotations_default\<rparr>\<rparr>
   in fst (timer_cancel m CommandAnnotations_default) = Ok []"
  using timer_cancel_sends [of "\<lparr>sm_state = Some Timer_StartCommandCreated, sm_shared =
       \<lparr>tsh_attrs = \<lparr>stm_seq = 7, stm_start_to_fire_timeout = None\<rparr>,
        tsh_cancelled_before_sent = False, tsh_annotations = CommandAnnotations_default\<rparr>\<rparr>"
      Timer_StartCommandCreated CommandAnnotations_default]
  by (auto simp: Let_def split: prod.splits)

end
