(* ===== verification/ActivityMachine.thy ===== *)
theory ActivityMachine
  imports Fsm
begin

text \<open>
  Activities, \<^verbatim>\<open>crates/sdk-core/src/worker/workflow/machines/activity_state_machine.rs\<close>.

  The \<^verbatim>\<open>InternalFlagsRef\<close> of the shared state points to the flags of the whole run; here it is
  a copy of them, which other machines may change between two steps.
\<close>

section \<open>Model\<close>

datatype ActivityState = Act_Created | Act_ScheduleCommandCreated | Act_ScheduledEventRecorded
  | Act_Started | Act_ScheduledActivityCancelCommandCreated
  | Act_ScheduledActivityCancelEventRecorded | Act_StartedActivityCancelCommandCreated
  | Act_StartedActivityCancelEventRecorded | Act_Completed | Act_Failed | Act_TimedOut | Act_Canceled

record ActTaskScheduledData =
  asd_event_id :: i64
  asd_act_type :: string
  asd_act_id :: string
  asd_last_task_in_history :: bool

datatype ActivityEvent = ActEv_Schedule | ActEv_CommandScheduleActivityTask
  | ActEv_ActivityTaskScheduled ActTaskScheduledData | ActEv_Cancel | ActEv_Abandon
  | ActEv_ActivityTaskStarted i64
  | ActEv_ActivityTaskTimedOut ActivityTaskTimedOutEventAttributes
  | ActEv_ActivityTaskCompleted "Payloads option"
  | ActEv_ActivityTaskFailed ActivityTaskFailedEventAttributes
  | ActEv_CommandRequestCancelActivityTask | ActEv_ActivityTaskCancelRequested
  | ActEv_ActivityTaskCanceled ActivityTaskCanceledEventAttributes

datatype ActivityMachineCommand =
    ActCmd_Complete "Payloads option"
  | ActCmd_Fail Failure
  | ActCmd_Cancel "ActivityTaskCanceledEventAttributes option"
  | ActCmd_RequestCancellation Command

record ActivityShared =
  ash_scheduled_event_id :: i64
  ash_started_event_id :: i64
  ash_attrs :: ScheduleActivity
  ash_cancellation_type :: ActivityCancellationType
  ash_cancelled_before_sent :: bool
  ash_internal_flags :: InternalFlags
  ash_annotations :: CommandAnnotations

type_synonym ActivityMachine = "(ActivityState, ActivityShared) StateMachine"
type_synonym ActivityTransition =
  "(ActivityMachineCommand, ActivityState, WFMachinesError) TransitionResult"

definition activity_fail_info ::
  "string \<Rightarrow> string \<Rightarrow> string option \<Rightarrow> RetryState \<Rightarrow> i64 \<Rightarrow> i64 \<Rightarrow> FailureInfo" where
  "activity_fail_info act_type act_id identity retry_state started_event_id scheduled_event_id =
     FI_Activity \<lparr>afi_identity = unwrap_or identity [], afi_activity_type = Some act_type,
       afi_activity_id = act_id, afi_retry_state = retry_state,
       afi_started_event_id = started_event_id, afi_scheduled_event_id = scheduled_event_id\<rparr>"

definition act_new_failure :: "ActivityShared \<Rightarrow> ActivityTaskFailedEventAttributes \<Rightarrow> Failure" where
  "act_new_failure dat attrs =
     Failure ''Activity task failed'' (atf_failure attrs)
       (Some (activity_fail_info (sa_activity_type (ash_attrs dat)) (sa_activity_id (ash_attrs dat))
          (Some (atf_identity attrs)) (atf_retry_state attrs) (atf_started_event_id attrs)
          (atf_scheduled_event_id attrs))) []"

definition act_new_timeout_failure ::
  "ActivityShared \<Rightarrow> ActivityTaskTimedOutEventAttributes \<Rightarrow> Failure" where
  "act_new_timeout_failure dat attrs =
     Failure ''Activity task timed out'' (ato_failure attrs)
       (Some (activity_fail_info (sa_activity_type (ash_attrs dat)) (sa_activity_id (ash_attrs dat))
          None (ato_retry_state attrs) (ato_started_event_id attrs)
          (ato_scheduled_event_id attrs))) []"

definition act_new_cancel_failure ::
  "ActivityShared \<Rightarrow> ActivityTaskCanceledEventAttributes \<Rightarrow> Failure" where
  "act_new_cancel_failure dat attrs =
     Failure ''Activity cancelled''
       (Some (Failure [] None (Some (FI_Canceled (atc_details attrs) [])) []))
       (Some (activity_fail_info (sa_activity_type (ash_attrs dat)) (sa_activity_id (ash_attrs dat))
          (Some (atc_identity attrs)) RS_CancelRequested (atc_started_event_id attrs)
          (atc_scheduled_event_id attrs))) []"

definition act_notify_timed_out ::
  "ActivityShared \<Rightarrow> ActivityTaskTimedOutEventAttributes \<Rightarrow> ActivityTransition" where
  "act_notify_timed_out dat attrs =
     tr_commands [ActCmd_Fail (act_new_timeout_failure dat attrs)] Act_TimedOut"

definition act_notify_cancelled ::
  "ActivityTaskCanceledEventAttributes option \<Rightarrow> ActivityTransition" where
  "act_notify_cancelled canceled_event = tr_commands [ActCmd_Cancel canceled_event] Act_Canceled"

text \<open>The \<^verbatim>\<open>Abandon\<close> branch is \<^verbatim>\<open>unreachable!\<close>.  \<open>dest\<close> is the default of the
  destination type.\<close>

definition act_notify_if_not_already_cancelled ::
  "ActivityShared \<Rightarrow> (ActivityShared \<Rightarrow> ActivityTransition) \<Rightarrow> ActivityState \<Rightarrow> ActivityTransition" where
  "act_notify_if_not_already_cancelled dat notifier dest =
     (case ash_cancellation_type dat of
        ACT_TryCancel \<Rightarrow> tr_default dest
      | ACT_WaitCancellationCompleted \<Rightarrow> notifier dat
      | ACT_Abandon \<Rightarrow> TrPanic)"

definition act_create_request_cancel ::
  "ActivityShared \<Rightarrow> ActivityState \<Rightarrow> ActivityTransition" where
  "act_create_request_cancel dat next_state =
     TrOk [ActCmd_RequestCancellation
             (ProtoCommand_new (CA_RequestCancelActivityTask (ash_scheduled_event_id dat))
                (ash_annotations dat))] next_state"

definition act_ScheduleCommandCreated_on_activity_task_scheduled ::
  "ActivityShared \<Rightarrow> ActTaskScheduledData \<Rightarrow> ActivityTransition \<times> ActivityShared" where
  "act_ScheduleCommandCreated_on_activity_task_scheduled dat sched_dat =
     (let (use, flags) = try_use IdAndTypeDeterminismChecks (asd_last_task_in_history sched_dat)
                           (ash_internal_flags dat);
          dat = dat\<lparr>ash_internal_flags := flags\<rparr>
      in if use \<and> asd_act_id sched_dat \<noteq> sa_activity_id (ash_attrs dat)
         then (TrErr (Nondeterminism IdMismatch), dat)
         else if use \<and> asd_act_type sched_dat \<noteq> sa_activity_type (ash_attrs dat)
         then (TrErr (Nondeterminism TypeMismatch), dat)
         else (tr_default Act_ScheduledEventRecorded,
               dat\<lparr>ash_scheduled_event_id := asd_event_id sched_dat\<rparr>))"

text \<open>With \<^verbatim>\<open>Abandon\<close> a release build logs and goes on without a command.\<close>

definition act_ScheduleCommandCreated_on_canceled ::
  "ActivityShared \<Rightarrow> ActivityTransition \<times> ActivityShared" where
  "act_ScheduleCommandCreated_on_canceled dat =
     (let dat = dat\<lparr>ash_cancelled_before_sent := True\<rparr>
      in (case ash_cancellation_type dat of
            ACT_Abandon \<Rightarrow> tr_default Act_Canceled
          | _ \<Rightarrow> act_notify_cancelled None, dat))"

definition act_ScheduleCommandCreated_on_abandoned ::
  "ActivityShared \<Rightarrow> ActivityTransition \<times> ActivityShared" where
  "act_ScheduleCommandCreated_on_abandoned dat =
     (act_notify_cancelled None, dat\<lparr>ash_cancelled_before_sent := True\<rparr>)"

definition act_ScheduledEventRecorded_on_task_started ::
  "ActivityShared \<Rightarrow> i64 \<Rightarrow> ActivityTransition \<times> ActivityShared" where
  "act_ScheduledEventRecorded_on_task_started dat started_event_id =
     (tr_default Act_Started, dat\<lparr>ash_started_event_id := started_event_id\<rparr>)"

definition act_Canceled_ignore_if_abandoned :: "ActivityShared \<Rightarrow> ActivityTransition" where
  "act_Canceled_ignore_if_abandoned dat =
     (if ash_cancellation_type dat = ACT_Abandon then tr_default Act_Canceled
      else TrErr (Nondeterminism UnexpectedCompletion))"

definition act_arms ::
  "(ActivityState, ActivityShared, ActivityEvent, ActivityMachineCommand) arms" where
  "act_arms st sh ev =
     (case st of
        Act_Created \<Rightarrow>
          (case ev of ActEv_Schedule \<Rightarrow> arm_default Act_ScheduleCommandCreated sh | _ \<Rightarrow> None)
      | Act_ScheduleCommandCreated \<Rightarrow>
          (case ev of
             ActEv_CommandScheduleActivityTask \<Rightarrow> arm_default Act_ScheduleCommandCreated sh
           | ActEv_ActivityTaskScheduled d \<Rightarrow>
               Some (act_ScheduleCommandCreated_on_activity_task_scheduled sh d)
           | ActEv_Cancel \<Rightarrow> Some (act_ScheduleCommandCreated_on_canceled sh)
           | ActEv_Abandon \<Rightarrow> Some (act_ScheduleCommandCreated_on_abandoned sh)
           | _ \<Rightarrow> None)
      | Act_ScheduledEventRecorded \<Rightarrow>
          (case ev of
             ActEv_ActivityTaskStarted i \<Rightarrow> Some (act_ScheduledEventRecorded_on_task_started sh i)
           | ActEv_ActivityTaskTimedOut a \<Rightarrow> arm_pure (act_notify_timed_out sh a) sh
           | ActEv_Cancel \<Rightarrow>
               arm_pure (act_create_request_cancel sh Act_ScheduledActivityCancelCommandCreated) sh
           | ActEv_Abandon \<Rightarrow> arm_pure (act_notify_cancelled None) sh
           | _ \<Rightarrow> None)
      | Act_Started \<Rightarrow>
          (case ev of
             ActEv_ActivityTaskCompleted r \<Rightarrow> arm_pure (TrOk [ActCmd_Complete r] Act_Completed) sh
           | ActEv_ActivityTaskFailed a \<Rightarrow>
               arm_pure (TrOk [ActCmd_Fail (act_new_failure sh a)] Act_Failed) sh
           | ActEv_ActivityTaskTimedOut a \<Rightarrow> arm_pure (act_notify_timed_out sh a) sh
           | ActEv_Cancel \<Rightarrow>
               arm_pure (act_create_request_cancel sh Act_StartedActivityCancelCommandCreated) sh
           | ActEv_Abandon \<Rightarrow> arm_pure (act_notify_cancelled None) sh
           | _ \<Rightarrow> None)
      | Act_ScheduledActivityCancelCommandCreated \<Rightarrow>
          (case ev of
             ActEv_CommandRequestCancelActivityTask \<Rightarrow>
               arm_default Act_ScheduledActivityCancelCommandCreated sh
           | ActEv_ActivityTaskCancelRequested \<Rightarrow>
               arm_default Act_ScheduledActivityCancelEventRecorded sh
           | _ \<Rightarrow> None)
      | Act_ScheduledActivityCancelEventRecorded \<Rightarrow>
          (case ev of
             ActEv_ActivityTaskCanceled a \<Rightarrow>
               arm_pure (act_notify_if_not_already_cancelled sh
                 (\<lambda>_. act_notify_cancelled (Some a)) Act_Canceled) sh
           | ActEv_ActivityTaskStarted _ \<Rightarrow> arm_default Act_StartedActivityCancelEventRecorded sh
           | ActEv_ActivityTaskTimedOut a \<Rightarrow>
               arm_pure (act_notify_if_not_already_cancelled sh
                 (\<lambda>dat. act_notify_timed_out dat a) Act_TimedOut) sh
           | _ \<Rightarrow> None)
      | Act_StartedActivityCancelCommandCreated \<Rightarrow>
          (case ev of
             ActEv_CommandRequestCancelActivityTask \<Rightarrow>
               arm_default Act_StartedActivityCancelCommandCreated sh
           | ActEv_ActivityTaskCancelRequested \<Rightarrow>
               arm_default Act_StartedActivityCancelEventRecorded sh
           | _ \<Rightarrow> None)
      | Act_StartedActivityCancelEventRecorded \<Rightarrow>
          (case ev of
             ActEv_ActivityTaskFailed a \<Rightarrow>
               arm_pure (act_notify_if_not_already_cancelled sh
                 (\<lambda>dat. tr_commands [ActCmd_Fail (act_new_failure dat a)] Act_Failed) Act_Failed) sh
           | ActEv_ActivityTaskCompleted r \<Rightarrow>
               arm_pure (act_notify_if_not_already_cancelled sh
                 (\<lambda>_. tr_commands [ActCmd_Complete r] Act_Completed) Act_Completed) sh
           | ActEv_ActivityTaskTimedOut a \<Rightarrow>
               arm_pure (act_notify_if_not_already_cancelled sh
                 (\<lambda>dat. act_notify_timed_out dat a) Act_TimedOut) sh
           | ActEv_ActivityTaskCanceled a \<Rightarrow>
               arm_pure (act_notify_if_not_already_cancelled sh
                 (\<lambda>_. act_notify_cancelled (Some a)) Act_Canceled) sh
           | _ \<Rightarrow> None)
      | Act_Canceled \<Rightarrow>
          (case ev of
             ActEv_ActivityTaskStarted _ \<Rightarrow> arm_pure (act_Canceled_ignore_if_abandoned sh) sh
           | ActEv_ActivityTaskCompleted _ \<Rightarrow> arm_pure (act_Canceled_ignore_if_abandoned sh) sh
           | _ \<Rightarrow> None)
      | Act_Completed \<Rightarrow> None
      | Act_Failed \<Rightarrow> None
      | Act_TimedOut \<Rightarrow> None)"

definition act_is_final :: "ActivityState \<Rightarrow> bool" where
  "act_is_final st \<longleftrightarrow> st \<in> {Act_Completed, Act_Failed, Act_TimedOut}"

definition act_from_command :: "CommandType \<Rightarrow> ActivityEvent option" where
  "act_from_command c =
     (if c = C_ScheduleActivityTask then Some ActEv_CommandScheduleActivityTask
      else if c = C_RequestCancelActivityTask then Some ActEv_CommandRequestCancelActivityTask
      else None)"

definition act_from_event :: "HistEventData \<Rightarrow> ActivityEvent result" where
  "act_from_event d =
     (let e = hed_event d; et = he_event_type e
      in if et = E_ActivityTaskScheduled then
           (case he_attributes e of
              Some (A_ActivityTaskScheduled attrs) \<Rightarrow>
                Ok (ActEv_ActivityTaskScheduled
                      \<lparr>asd_event_id = he_event_id e,
                       asd_act_type = unwrap_or (ats_activity_type attrs) [],
                       asd_act_id = ats_activity_id attrs,
                       asd_last_task_in_history = hed_current_task_is_last_in_history d\<rparr>)
            | _ \<Rightarrow> Err (Fatal MissingAttributes))
         else if et = E_ActivityTaskStarted then Ok (ActEv_ActivityTaskStarted (he_event_id e))
         else if et = E_ActivityTaskCompleted then
           (case he_attributes e of
              Some (A_ActivityTaskCompleted _ r) \<Rightarrow> Ok (ActEv_ActivityTaskCompleted r)
            | _ \<Rightarrow> Err (Fatal MissingAttributes))
         else if et = E_ActivityTaskFailed then
           (case he_attributes e of
              Some (A_ActivityTaskFailed attrs) \<Rightarrow> Ok (ActEv_ActivityTaskFailed attrs)
            | _ \<Rightarrow> Err (Fatal MissingAttributes))
         else if et = E_ActivityTaskTimedOut then
           (case he_attributes e of
              Some (A_ActivityTaskTimedOut attrs) \<Rightarrow> Ok (ActEv_ActivityTaskTimedOut attrs)
            | _ \<Rightarrow> Err (Fatal MissingAttributes))
         else if et = E_ActivityTaskCancelRequested then Ok ActEv_ActivityTaskCancelRequested
         else if et = E_ActivityTaskCanceled then
           (case he_attributes e of
              Some (A_ActivityTaskCanceled attrs) \<Rightarrow> Ok (ActEv_ActivityTaskCanceled attrs)
            | _ \<Rightarrow> Err (Fatal MissingAttributes))
         else Err (Nondeterminism EventNotHandled))"

text \<open>\<^verbatim>\<open>convert_payloads\<close>, the same in the activity and the child workflow machine.\<close>

definition convert_payloads :: "Payloads option \<Rightarrow> Payload option result" where
  "convert_payloads result =
     (case result of
        None \<Rightarrow> Ok None
      | Some ps \<Rightarrow> (case payloads_try_into ps of
                     Ok p \<Rightarrow> Ok (Some p) | _ \<Rightarrow> Err (Fatal PayloadConversion)))"

definition ActivityTaskCanceled_default :: ActivityTaskCanceledEventAttributes where
  "ActivityTaskCanceled_default = \<lparr>atc_scheduled_event_id = 0, atc_started_event_id = 0,
     atc_details = None, atc_identity = []\<rparr>"

definition act_create_cancelation_resolve ::
  "ActivityShared \<Rightarrow> ActivityTaskCanceledEventAttributes option \<Rightarrow> Job" where
  "act_create_cancelation_resolve sh attrs =
     J_ResolveActivity (sa_seq (ash_attrs sh))
       (AR_Cancelled (Some (act_new_cancel_failure sh
          (unwrap_or attrs ActivityTaskCanceled_default)))) False"

definition act_machine_responses_from_cancel_request ::
  "ActivityShared \<Rightarrow> Command \<Rightarrow> MachineResponse list" where
  "act_machine_responses_from_cancel_request sh cancel_cmd =
     [IssueNewCommand cancel_cmd] @
     (if ash_cancellation_type sh \<noteq> ACT_WaitCancellationCompleted
      then [PushWFJob (act_create_cancelation_resolve sh None)] else [])"

fun act_adapt_response ::
  "ActivityMachine \<Rightarrow> ActivityMachineCommand \<Rightarrow> EventInfo option \<Rightarrow> MachineResponse list result" where
  "act_adapt_response m (ActCmd_Complete r) _ =
     res_map (\<lambda>p. [PushWFJob (J_ResolveActivity (sa_seq (ash_attrs (sm_shared m)))
                     (AR_Completed p) False)]) (convert_payloads r)"
| "act_adapt_response m (ActCmd_Fail failure) _ =
     Ok [PushWFJob (J_ResolveActivity (sa_seq (ash_attrs (sm_shared m)))
           (AR_Failed (Some failure)) False)]"
| "act_adapt_response m (ActCmd_RequestCancellation c) _ =
     Ok (act_machine_responses_from_cancel_request (sm_shared m) c)"
| "act_adapt_response m (ActCmd_Cancel attrs) _ =
     Ok [PushWFJob (act_create_cancelation_resolve (sm_shared m) attrs)]"

definition act_ops ::
  "(ActivityState, ActivityShared, ActivityEvent, ActivityMachineCommand) machine_ops" where
  "act_ops = \<lparr>op_arms = act_arms, op_from_command = act_from_command,
     op_from_event = act_from_event, op_adapt_response = act_adapt_response\<rparr>"

definition schedule_activity_cmd_to_api :: "ScheduleActivity \<Rightarrow> bool \<Rightarrow> CommandAttributes" where
  "schedule_activity_cmd_to_api s use_workflow_build_id =
     CA_ScheduleActivityTask
       \<lparr>sat_activity_id = sa_activity_id s, sat_activity_type = Some (sa_activity_type s),
        sat_task_queue = Some (sa_task_queue s),
        sat_request_eager_execution = (\<not> sa_do_not_eagerly_execute s),
        sat_use_workflow_build_id = use_workflow_build_id, sat_rest = sa_rest s\<rparr>"

definition act_new_scheduled ::
  "ScheduleActivity \<Rightarrow> InternalFlags \<Rightarrow> bool \<Rightarrow> CommandAnnotations \<Rightarrow>
   (ActivityMachine NewMachineWithCommand) result" where
  "act_new_scheduled attrs internal_flags use_compatible_version annotations =
     (case expect_event act_arms (from_parts Act_Created
             \<lparr>ash_scheduled_event_id = 0, ash_started_event_id = 0, ash_attrs = attrs,
              ash_cancellation_type = sa_cancellation_type attrs,
              ash_cancelled_before_sent = False, ash_internal_flags = internal_flags,
              ash_annotations = annotations\<rparr>) ActEv_Schedule of
        Ok (_, s) \<Rightarrow> Ok \<lparr>nm_command = schedule_activity_cmd_to_api (ash_attrs (sm_shared s))
                                       use_compatible_version, nm_machine = s\<rparr>
      | _ \<Rightarrow> Panic)"

text \<open>One response list per command; anything but a cancellation panics.\<close>

fun act_cancel_response :: "ActivityShared \<Rightarrow> ActivityMachineCommand \<Rightarrow> MachineResponse list result"
where
  "act_cancel_response sh (ActCmd_RequestCancellation cmd) =
     Ok (act_machine_responses_from_cancel_request sh cmd)"
| "act_cancel_response sh (ActCmd_Cancel details) =
     Ok [PushWFJob (act_create_cancelation_resolve sh details)]"
| "act_cancel_response sh _ = Panic"

definition act_cancel ::
  "ActivityMachine \<Rightarrow> CommandAnnotations \<Rightarrow> MachineResponse list result \<times> ActivityMachine" where
  "act_cancel self annotations =
     (let sh = sm_shared self;
          self = self\<lparr>sm_shared :=
            sh\<lparr>ash_annotations := override_with (ash_annotations sh) annotations\<rparr>\<rparr>
      in case sm_state self of
           None \<Rightarrow> (Panic, self)
         | Some st \<Rightarrow>
             if st \<in> {Act_Completed, Act_Canceled, Act_Failed, Act_TimedOut} then (Ok [], self)
             else
               let event = (case ash_cancellation_type (sm_shared self) of
                              ACT_Abandon \<Rightarrow> ActEv_Abandon | _ \<Rightarrow> ActEv_Cancel)
               in case on_event act_arms self event of
                    (Ok cmds, self) \<Rightarrow> (concat_res (act_cancel_response (sm_shared self)) cmds, self)
                  | (Err e, self) \<Rightarrow> (Err (from_machine_error e), self)
                  | (Panic, self) \<Rightarrow> (Panic, self))"

definition act_was_cancelled_before_sent :: "ActivityMachine \<Rightarrow> bool" where
  "act_was_cancelled_before_sent m = ash_cancelled_before_sent (sm_shared m)"

section \<open>Runs of an activity\<close>

datatype ActivityOwn = Act_do_cancel CommandAnnotations | Act_set_flags InternalFlags

fun act_own ::
  "ActivityMachine \<Rightarrow> ActivityOwn \<Rightarrow> MachineResponse list result \<times> ActivityMachine" where
  "act_own m (Act_do_cancel ann) = act_cancel m ann"
| "act_own m (Act_set_flags fl) =
     (Ok [], m\<lparr>sm_shared := (sm_shared m)\<lparr>ash_internal_flags := fl\<rparr>\<rparr>)"

abbreviation act_step ::
  "ActivityMachine \<Rightarrow> ActivityOwn MachineInput \<Rightarrow> MachineResponse list result \<times> ActivityMachine" where
  "act_step \<equiv> drive act_ops act_own"

fun resolve_activity_weight :: "MachineResponse \<Rightarrow> nat" where
  "resolve_activity_weight (PushWFJob (J_ResolveActivity _ _ _)) = 1"
| "resolve_activity_weight _ = 0"

definition act_cancelling :: "ActivityState set" where
  "act_cancelling = {Act_ScheduledActivityCancelCommandCreated,
     Act_ScheduledActivityCancelEventRecorded, Act_StartedActivityCancelCommandCreated,
     Act_StartedActivityCancelEventRecorded}"

definition act_closed :: "ActivityState set" where
  "act_closed = {Act_Completed, Act_Failed, Act_TimedOut, Act_Canceled}"

definition act_good ::
  "u32 \<Rightarrow> ActivityCancellationType \<Rightarrow> ActivityState \<Rightarrow> ActivityShared \<Rightarrow> bool" where
  "act_good seq ct st sh \<longleftrightarrow> sa_seq (ash_attrs sh) = seq \<and> ash_cancellation_type sh = ct \<and>
     (ct = ACT_Abandon \<longrightarrow> st \<notin> act_cancelling) \<and>
     (ash_cancelled_before_sent sh \<longrightarrow> st = Act_Canceled)"

text \<open>What is still owed to the language side: one resolution, until the activity is closed or a
  try-cancel has been answered.\<close>

definition act_owes :: "ActivityState \<Rightarrow> ActivityShared \<Rightarrow> nat" where
  "act_owes st sh =
     (if st \<in> act_closed \<or> st \<in> act_cancelling \<and> ash_cancellation_type sh = ACT_TryCancel
      then 0 else 1)"

definition sample_activity :: "ActivityCancellationType \<Rightarrow> ScheduleActivity" where
  "sample_activity ct = \<lparr>sa_seq = 1, sa_activity_id = ''a'', sa_activity_type = ''t'',
     sa_task_queue = ''q'', sa_cancellation_type = ct, sa_do_not_eagerly_execute = False,
     sa_versioning_intent = VI_Unspecified, sa_rest = []\<rparr>"

definition sample_act_shared :: "ActivityCancellationType \<Rightarrow> ActivityShared" where
  "sample_act_shared ct = \<lparr>ash_scheduled_event_id = 5, ash_started_event_id = 0,
     ash_attrs = sample_activity ct, ash_cancellation_type = ct, ash_cancelled_before_sent = False,
     ash_internal_flags = InternalFlags_new True [] [],
     ash_annotations = CommandAnnotations_default\<rparr>"

lemmas act_defs = act_arms_def act_from_command_def act_from_event_def act_ops_def
  act_ScheduleCommandCreated_on_activity_task_scheduled_def
  act_ScheduleCommandCreated_on_canceled_def act_ScheduleCommandCreated_on_abandoned_def
  act_ScheduledEventRecorded_on_task_started_def act_Canceled_ignore_if_abandoned_def
  act_notify_cancelled_def act_notify_timed_out_def act_notify_if_not_already_cancelled_def
  act_create_request_cancel_def act_machine_responses_from_cancel_request_def
  act_create_cancelation_resolve_def

lemmas act_run_defs = act_good_def act_owes_def act_cancelling_def act_closed_def

lemma convert_payloads_not_Panic [simp]: "convert_payloads r \<noteq> Panic"
  by (auto simp: convert_payloads_def split: option.splits res.splits)

lemma cancellation_type_cases:
  "ct \<noteq> ACT_Abandon \<Longrightarrow> ct \<noteq> ACT_TryCancel \<Longrightarrow> ct = ACT_WaitCancellationCompleted"
  by (cases ct) simp_all

lemma act_not_final: "\<not> act_is_final st \<Longrightarrow> \<exists>ev. act_arms st sh ev \<noteq> None"
  by (cases st) (auto simp: act_is_final_def act_arms_def intro: exI [of _ ActEv_Schedule]
      exI [of _ ActEv_Cancel] exI [of _ ActEv_ActivityTaskCancelRequested]
      exI [of _ "ActEv_ActivityTaskStarted 0"] exI [of _ "ActEv_ActivityTaskCompleted None"])

interpretation act_fsm: fsm_final act_arms act_is_final
proof
  fix st
  have "act_is_final st \<Longrightarrow> act_arms st sh ev = None" for sh ev
    by (auto simp: act_is_final_def act_arms_def)
  then show "act_is_final st \<longleftrightarrow> (\<forall>sh ev. act_arms st sh ev = None)"
    using act_not_final [of st] by metis
qed

interpretation act_laws: adapted_machine act_ops "act_good seq ct" "\<lambda>ev. ct = ACT_Abandon \<longrightarrow> ev \<noteq> ActEv_Cancel"
  resolve_activity_weight act_owes "(=)" for seq ct
  by unfold_locales
    (auto simp: act_defs act_run_defs Let_def res_map_eq_Ok split_beta
      split: ActivityState.splits ActivityEvent.splits ActivityCancellationType.splits
        if_splits option.splits Attributes.splits dest: cancellation_type_cases)

lemma act_cancel_good:
  assumes "good_machine (act_good seq ct) m"
  shows "fst (act_cancel m ann) \<noteq> Panic"
    and "act_cancel m ann = (Ok rs, m') \<Longrightarrow> good_machine (act_good seq ct) m' \<and>
      sum_list (map resolve_activity_weight rs) + machine_budget act_owes m'
        = machine_budget act_owes m"
  using assms
  by (auto elim!: good_machineE
      simp: act_cancel_def act_defs act_run_defs on_event_def Let_def
      split: ActivityState.splits ActivityCancellationType.splits if_splits
      dest: cancellation_type_cases)

lemma act_own_good:
  assumes "good_machine (act_good seq ct) m"
  shows "fst (act_own m c) \<noteq> Panic"
    and "act_own m c = (Ok rs, m') \<Longrightarrow> good_machine (act_good seq ct) m' \<and>
      sum_list (map resolve_activity_weight rs) + machine_budget act_owes m'
        = machine_budget act_owes m"
  using act_cancel_good [OF assms] assms
  by (cases c; auto elim!: good_machineE simp: act_good_def act_owes_def)+

interpretation act: driven_accountant act_ops "act_good seq ct"
  "\<lambda>ev. ct = ACT_Abandon \<longrightarrow> ev \<noteq> ActEv_Cancel" resolve_activity_weight act_owes act_own for seq ct
  using act_own_good by unfold_locales blast+

lemma act_new_scheduled_Ok [simp]:
  "act_new_scheduled attrs fl uc ann = Ok
     \<lparr>nm_command = schedule_activity_cmd_to_api attrs uc,
      nm_machine = \<lparr>sm_state = Some Act_ScheduleCommandCreated, sm_shared =
        \<lparr>ash_scheduled_event_id = 0, ash_started_event_id = 0, ash_attrs = attrs,
         ash_cancellation_type = sa_cancellation_type attrs, ash_cancelled_before_sent = False,
         ash_internal_flags = fl, ash_annotations = ann\<rparr>\<rparr>\<rparr>"
  by (simp add: act_new_scheduled_def expect_event_def from_parts_def on_event_def act_arms_def)

lemma act_new_good:
  "act_new_scheduled attrs fl uc ann = Ok nm \<Longrightarrow>
   good_machine (act_good (sa_seq attrs) (sa_cancellation_type attrs)) (nm_machine nm) \<and>
   machine_budget act_owes (nm_machine nm) = 1"
  by (auto simp: act_run_defs)

section \<open>Properties\<close>

text \<open>C19: an activity is resolved exactly once.  Along any run of commands, history events,
  cancellations and flag changes from its scheduling, the language side gets at most one resolution
  of the activity, and once the activity is completed, failed, timed out or cancelled it has got
  exactly one.\<close>

theorem activity_resolves_exactly_once:
  assumes "act_new_scheduled attrs fl uc ann = Ok nm"
    and "run_result act_step (nm_machine nm) inputs = Ok m"
  shows "sum_list (map resolve_activity_weight (run_responses act_step (nm_machine nm) inputs)) \<le> 1 \<and>
    (\<forall>st \<in> act_closed. sm_state m = Some st \<longrightarrow>
       sum_list (map resolve_activity_weight (run_responses act_step (nm_machine nm) inputs)) = 1)"
proof -
  note new = act_new_good [OF assms(1)]
  have sum: "sum_list (map resolve_activity_weight (run_responses act_step (nm_machine nm) inputs)) +
      machine_budget act_owes m = 1"
    using act.account.run_accounts [OF _ assms(2)] new by metis
  moreover have "\<forall>st \<in> act_closed. sm_state m = Some st \<longrightarrow> machine_budget act_owes m = 0"
    by (simp add: machine_budget_def act_owes_def)
  ultimately show ?thesis by auto
qed

theorem activity_resolves_exactly_once_witness:
  "\<exists>nm m. act_new_scheduled (sample_activity ACT_TryCancel) (InternalFlags_new True [] []) False
        CommandAnnotations_default = Ok nm \<and>
     run_result act_step (nm_machine nm) [In_Own (Act_do_cancel CommandAnnotations_default)] = Ok m \<and>
     sm_state m = Some Act_Canceled \<and>
     sum_list (map resolve_activity_weight (run_responses act_step (nm_machine nm)
       [In_Own (Act_do_cancel CommandAnnotations_default)])) = 1"
proof -
  obtain nm where nm: "act_new_scheduled (sample_activity ACT_TryCancel)
      (InternalFlags_new True [] []) False CommandAnnotations_default = Ok nm" by simp
  obtain m where m: "run_result act_step (nm_machine nm) [In_Own (Act_do_cancel CommandAnnotations_default)]
      = Ok m" "sm_state m = Some Act_Canceled"
    using nm by (auto simp: act_cancel_def act_defs on_event_def sample_activity_def)
  show ?thesis
    using nm m activity_resolves_exactly_once [OF nm m(1)] by (auto simp: act_closed_def)
qed

text \<open>The branch the code marks \<^verbatim>\<open>unreachable!\<close> (a cancelled activity of type Abandon whose
  cancellation is still in progress) is never reached, nor any other panic: no run of a scheduled
  activity panics.\<close>

theorem activity_never_panics:
  assumes "act_new_scheduled attrs fl uc ann = Ok nm"
  shows "run_result act_step (nm_machine nm) inputs \<noteq> Panic"
  using act.contract.run_no_panic act_new_good [OF assms] by blast

theorem activity_never_panics_witness:
  "\<exists>nm. act_new_scheduled (sample_activity ACT_Abandon) (InternalFlags_new True [] []) False
        CommandAnnotations_default = Ok nm \<and>
     run_result act_step (nm_machine nm)
       [In_Event (plain_event 5 E_ActivityTaskScheduled
          (Some (A_ActivityTaskScheduled \<lparr>ats_activity_id = ''a'', ats_activity_type = Some ''t''\<rparr>))),
        In_Own (Act_do_cancel CommandAnnotations_default),
        In_Event (plain_event 6 E_ActivityTaskStarted None)] \<noteq> Panic"
  by (intro exI conjI, rule act_new_scheduled_Ok, rule activity_never_panics,
      rule act_new_scheduled_Ok)

text \<open>What cancelling a scheduled or started activity does, by cancellation type: a try-cancel
  asks the server to cancel and resolves at once; wait-cancellation-completed only asks the server;
  abandon asks nothing of the server and resolves at once.  The request names the scheduled event
  and carries the activity's annotations overridden by those of the cancellation.\<close>

theorem activity_cancel_by_type:
  assumes "sm_state m = Some st" "st \<in> {Act_ScheduledEventRecorded, Act_Started}"
  shows "let sh = (sm_shared m)\<lparr>ash_annotations := override_with (ash_annotations (sm_shared m)) ann\<rparr>;
             request = IssueNewCommand (ProtoCommand_new
               (CA_RequestCancelActivityTask (ash_scheduled_event_id sh)) (ash_annotations sh));
             resolve = PushWFJob (J_ResolveActivity (sa_seq (ash_attrs sh))
               (AR_Cancelled (Some (act_new_cancel_failure sh ActivityTaskCanceled_default))) False)
         in fst (act_cancel m ann) = Ok (case ash_cancellation_type sh of
              ACT_TryCancel \<Rightarrow> [request, resolve]
            | ACT_WaitCancellationCompleted \<Rightarrow> [request]
            | ACT_Abandon \<Rightarrow> [resolve])"
  using assms
  by (auto simp: act_cancel_def act_defs on_event_def Let_def unwrap_or_def
      split: ActivityCancellationType.splits)

theorem activity_cancel_by_type_witness:
  "fst (act_cancel \<lparr>sm_state = Some Act_Started,
       sm_shared = sample_act_shared ACT_WaitCancellationCompleted\<rparr> CommandAnnotations_default) =
   Ok [IssueNewCommand (ProtoCommand_new (CA_RequestCancelActivityTask 5)
         (override_with CommandAnnotations_default CommandAnnotations_default))]"
  using activity_cancel_by_type [of "\<lparr>sm_state = Some Act_Started,
       sm_shared = sample_act_shared ACT_WaitCancellationCompleted\<rparr>" Act_Started
       CommandAnnotations_default]
  by (simp add: sample_act_shared_def Let_def)

text \<open>The determinism check of a scheduled event.  When the flag for the check may be used, an
  activity whose id or type differs from the recorded one is reported as nondeterminism, and one
  that agrees is accepted and remembers the event id; when it may not be used, any is accepted.\<close>

theorem activity_scheduled_check:
  assumes "sm_state m = Some Act_ScheduleCommandCreated"
    and "he_event_type (hed_event d) = E_ActivityTaskScheduled"
    and "he_attributes (hed_event d) = Some (A_ActivityTaskScheduled a)"
  shows "let sh = sm_shared m;
             checked = fst (try_use IdAndTypeDeterminismChecks
               (hed_current_task_is_last_in_history d) (ash_internal_flags sh));
             (r, m') = handle_event act_ops m d
         in if checked \<and> ats_activity_id a \<noteq> sa_activity_id (ash_attrs sh)
            then r = Err (Nondeterminism IdMismatch)
            else if checked \<and> unwrap_or (ats_activity_type a) [] \<noteq> sa_activity_type (ash_attrs sh)
            then r = Err (Nondeterminism TypeMismatch)
            else r = Ok [] \<and> sm_state m' = Some Act_ScheduledEventRecorded \<and>
                 ash_scheduled_event_id (sm_shared m') = he_event_id (hed_event d)"
  using assms by (auto simp: machine_step_defs act_defs Let_def split_beta)

theorem activity_scheduled_check_witness:
  "fst (handle_event act_ops \<lparr>sm_state = Some Act_ScheduleCommandCreated,
        sm_shared = sample_act_shared ACT_TryCancel\<rparr>
        (plain_event 5 E_ActivityTaskScheduled
          (Some (A_ActivityTaskScheduled \<lparr>ats_activity_id = ''b'', ats_activity_type = Some ''t''\<rparr>)))) =
   Err (Nondeterminism IdMismatch)"
  using activity_scheduled_check [of "\<lparr>sm_state = Some Act_ScheduleCommandCreated,
        sm_shared = sample_act_shared ACT_TryCancel\<rparr>"
       "plain_event 5 E_ActivityTaskScheduled
          (Some (A_ActivityTaskScheduled \<lparr>ats_activity_id = ''b'', ats_activity_type = Some ''t''\<rparr>))"
       "\<lparr>ats_activity_id = ''b'', ats_activity_type = Some ''t''\<rparr>"]
  by (auto simp: try_use_def InternalFlags_new_def sample_activity_def sample_act_shared_def Let_def
      split: prod.splits)

end
