(* ===== verification/ChildWorkflowMachine.thy ===== *)
theory ChildWorkflowMachine
  imports Fsm
begin

text \<open>
  Child workflows, \<^verbatim>\<open>crates/sdk-core/src/worker/workflow/machines/child_workflow_state_machine.rs\<close>.
  A child is resolved in two steps: its start (succeeded, failed or cancelled) and, once started,
  its result.
\<close>

section \<open>Model\<close>

datatype ChildState = Child_Created | Child_StartCommandCreated | Child_StartEventRecorded
  | Child_Started | Child_StartFailed | Child_Completed | Child_Failed | Child_TimedOut
  | Child_Cancelled bool | Child_Terminated

record ChildWorkflowInitiatedData =
  cid_event_id :: i64
  cid_wf_type :: string
  cid_wf_id :: string
  cid_last_task_in_history :: bool

record ChildWorkflowExecutionStartedEvent =
  cse_workflow_execution :: WorkflowExecution
  cse_started_event_id :: i64

datatype ChildEvent = ChildEv_Schedule | ChildEv_CommandStartChildWorkflowExecution
  | ChildEv_StartChildWorkflowExecutionInitiated ChildWorkflowInitiatedData
  | ChildEv_Cancel string
  | ChildEv_ChildWorkflowExecutionStarted ChildWorkflowExecutionStartedEvent
  | ChildEv_StartChildWorkflowExecutionFailed StartChildWorkflowExecutionFailedCause
  | ChildEv_CommandRequestCancelExternalWorkflowExecution
  | ChildEv_ChildWorkflowExecutionCompleted "Payloads option"
  | ChildEv_ChildWorkflowExecutionFailed ChildWorkflowExecutionClosedEventAttributes
  | ChildEv_ChildWorkflowExecutionTimedOut RetryState
  | ChildEv_ChildWorkflowExecutionCancelled
  | ChildEv_ChildWorkflowExecutionTerminated

datatype ChildWorkflowCommand =
    ChildCmd_Start WorkflowExecution
  | ChildCmd_Complete "Payloads option"
  | ChildCmd_Fail Failure
  | ChildCmd_Cancel
  | ChildCmd_StartFail StartChildWorkflowExecutionFailedCause
  | ChildCmd_StartCancel Failure
  | ChildCmd_IssueCancelAfterStarted string

record ChildShared =
  csh_initiated_event_id :: i64
  csh_started_event_id :: i64
  csh_lang_sequence_number :: u32
  csh_namespace :: string
  csh_workflow_id :: string
  csh_run_id :: string
  csh_workflow_type :: string
  csh_cancelled_before_sent :: bool
  csh_cancel_type :: ChildWorkflowCancellationType
  csh_internal_flags :: InternalFlags
  csh_annotations :: CommandAnnotations

type_synonym ChildWorkflowMachine = "(ChildState, ChildShared) StateMachine"
type_synonym ChildTransition = "(ChildWorkflowCommand, ChildState, WFMachinesError) TransitionResult"

definition resolves_immediately_on_cancel :: "ChildShared \<Rightarrow> bool" where
  "resolves_immediately_on_cancel sh \<longleftrightarrow> csh_cancel_type sh \<in> {CCT_Abandon, CCT_TryCancel}"

definition child_failure_info_from_state :: "ChildShared \<Rightarrow> RetryState \<Rightarrow> FailureInfo option" where
  "child_failure_info_from_state state retry_state =
     Some (FI_ChildWorkflowExecution
       \<lparr>cfi_namespace = csh_namespace state, cfi_workflow_type = Some (csh_workflow_type state),
        cfi_initiated_event_id = csh_initiated_event_id state,
        cfi_started_event_id = csh_started_event_id state, cfi_retry_state = retry_state,
        cfi_workflow_execution = Some \<lparr>we_workflow_id = csh_workflow_id state,
                                       we_run_id = csh_run_id state\<rparr>\<rparr>)"

definition bare_cancel_failure :: Failure where
  "bare_cancel_failure = Failure [] None (Some (FI_Canceled None [])) []"

definition child_Cancelled_on_cancelled :: "bool \<Rightarrow> ChildTransition" where
  "child_Cancelled_on_cancelled seen_cancelled_event =
     (if seen_cancelled_event then TrErr (Fatal UnexpectedCompletion)
      else TrOk [] (Child_Cancelled True))"

text \<open>The four handlers of late completions, failures, timeouts and terminations have the same
  body.\<close>

definition child_Cancelled_on_late_close :: "bool \<Rightarrow> ChildShared \<Rightarrow> ChildTransition" where
  "child_Cancelled_on_late_close seen state =
     (if \<not> resolves_immediately_on_cancel state then TrErr (Nondeterminism UnexpectedCompletion)
      else TrOk [] (Child_Cancelled seen))"

definition child_StartCommandCreated_on_initiated ::
  "ChildShared \<Rightarrow> ChildWorkflowInitiatedData \<Rightarrow> ChildTransition \<times> ChildShared" where
  "child_StartCommandCreated_on_initiated state event_dat =
     (let (use, flags) = try_use IdAndTypeDeterminismChecks (cid_last_task_in_history event_dat)
                           (csh_internal_flags state);
          state = state\<lparr>csh_internal_flags := flags\<rparr>
      in if use \<and> cid_wf_id event_dat \<noteq> csh_workflow_id state
         then (TrErr (Nondeterminism IdMismatch), state)
         else if use \<and> cid_wf_type event_dat \<noteq> csh_workflow_type state
         then (TrErr (Nondeterminism TypeMismatch), state)
         else (tr_default Child_StartEventRecorded,
               state\<lparr>csh_initiated_event_id := cid_event_id event_dat\<rparr>))"

definition child_StartCommandCreated_on_cancelled ::
  "ChildShared \<Rightarrow> string \<Rightarrow> ChildTransition \<times> ChildShared" where
  "child_StartCommandCreated_on_cancelled state reason =
     (let state = state\<lparr>csh_cancelled_before_sent := True\<rparr>
      in (tr_commands [ChildCmd_StartCancel (Failure
            (''Child Workflow Execution cancelled before scheduled: '' @ reason)
            (Some bare_cancel_failure)
            (child_failure_info_from_state state RS_NonRetryableFailure) [])]
            (Child_Cancelled False), state))"

definition child_StartEventRecorded_on_started ::
  "ChildShared \<Rightarrow> ChildWorkflowExecutionStartedEvent \<Rightarrow> ChildTransition \<times> ChildShared" where
  "child_StartEventRecorded_on_started state event =
     (tr_commands [ChildCmd_Start (cse_workflow_execution event)] Child_Started,
      state\<lparr>csh_started_event_id := cse_started_event_id event,
            csh_run_id := we_run_id (cse_workflow_execution event)\<rparr>)"

text \<open>\<^verbatim>\<open>on_cancelled\<close> of \<^verbatim>\<open>StartEventRecorded\<close> and of \<^verbatim>\<open>Started\<close>, which differ in the
  state they stay in.\<close>

definition child_on_cancelled :: "ChildState \<Rightarrow> ChildShared \<Rightarrow> string \<Rightarrow> ChildTransition" where
  "child_on_cancelled stay state reason =
     TrOk [ChildCmd_IssueCancelAfterStarted reason]
       (if resolves_immediately_on_cancel state then Child_Cancelled False else stay)"

definition child_Started_on_failed ::
  "ChildShared \<Rightarrow> ChildWorkflowExecutionClosedEventAttributes \<Rightarrow> ChildTransition" where
  "child_Started_on_failed state attrs =
     TrOk [ChildCmd_Fail (Failure ''Child Workflow execution failed'' (cwc_failure attrs)
             (child_failure_info_from_state state (cwc_retry_state attrs)) [])] Child_Failed"

definition child_Started_on_timed_out :: "ChildShared \<Rightarrow> RetryState \<Rightarrow> ChildTransition" where
  "child_Started_on_timed_out state retry_state =
     TrOk [ChildCmd_Fail (Failure ''Child Workflow execution timed out''
             (Some (Failure ''Timed out'' None (Some (FI_Timeout TT_StartToClose None)) []))
             (child_failure_info_from_state state retry_state) [])] Child_TimedOut"

definition child_Started_on_terminated :: "ChildShared \<Rightarrow> ChildTransition" where
  "child_Started_on_terminated state =
     TrOk [ChildCmd_Fail (Failure ''Child Workflow execution terminated''
             (Some (Failure ''Terminated'' None (Some (FI_Terminated [])) []))
             (child_failure_info_from_state state RS_NonRetryableFailure) [])] Child_Terminated"

definition child_arms :: "(ChildState, ChildShared, ChildEvent, ChildWorkflowCommand) arms" where
  "child_arms st sh ev =
     (case st of
        Child_Created \<Rightarrow>
          (case ev of ChildEv_Schedule \<Rightarrow> arm_default Child_StartCommandCreated sh | _ \<Rightarrow> None)
      | Child_StartCommandCreated \<Rightarrow>
          (case ev of
             ChildEv_CommandStartChildWorkflowExecution \<Rightarrow> arm_default Child_StartCommandCreated sh
           | ChildEv_StartChildWorkflowExecutionInitiated d \<Rightarrow>
               Some (child_StartCommandCreated_on_initiated sh d)
           | ChildEv_Cancel reason \<Rightarrow> Some (child_StartCommandCreated_on_cancelled sh reason)
           | _ \<Rightarrow> None)
      | Child_StartEventRecorded \<Rightarrow>
          (case ev of
             ChildEv_ChildWorkflowExecutionStarted e \<Rightarrow>
               Some (child_StartEventRecorded_on_started sh e)
           | ChildEv_StartChildWorkflowExecutionFailed cause \<Rightarrow>
               arm_pure (TrOk [ChildCmd_StartFail cause] Child_StartFailed) sh
           | ChildEv_Cancel reason \<Rightarrow>
               arm_pure (child_on_cancelled Child_StartEventRecorded sh reason) sh
           | ChildEv_CommandRequestCancelExternalWorkflowExecution \<Rightarrow>
               arm_default Child_StartEventRecorded sh
           | _ \<Rightarrow> None)
      | Child_Started \<Rightarrow>
          (case ev of
             ChildEv_ChildWorkflowExecutionCompleted r \<Rightarrow>
               arm_pure (TrOk [ChildCmd_Complete r] Child_Completed) sh
           | ChildEv_ChildWorkflowExecutionFailed a \<Rightarrow> arm_pure (child_Started_on_failed sh a) sh
           | ChildEv_ChildWorkflowExecutionTimedOut rs \<Rightarrow>
               arm_pure (child_Started_on_timed_out sh rs) sh
           | ChildEv_ChildWorkflowExecutionCancelled \<Rightarrow>
               arm_pure (TrOk [ChildCmd_Cancel] (Child_Cancelled True)) sh
           | ChildEv_ChildWorkflowExecutionTerminated \<Rightarrow>
               arm_pure (child_Started_on_terminated sh) sh
           | ChildEv_Cancel reason \<Rightarrow> arm_pure (child_on_cancelled Child_Started sh reason) sh
           | ChildEv_CommandRequestCancelExternalWorkflowExecution \<Rightarrow> arm_default Child_Started sh
           | _ \<Rightarrow> None)
      | Child_Cancelled seen \<Rightarrow>
          (case ev of
             ChildEv_Cancel _ \<Rightarrow> arm_default (Child_Cancelled seen) sh
           | ChildEv_ChildWorkflowExecutionStarted _ \<Rightarrow> arm_default (Child_Cancelled seen) sh
           | ChildEv_StartChildWorkflowExecutionFailed _ \<Rightarrow> arm_default (Child_Cancelled seen) sh
           | ChildEv_CommandRequestCancelExternalWorkflowExecution \<Rightarrow>
               arm_default (Child_Cancelled seen) sh
           | ChildEv_ChildWorkflowExecutionCancelled \<Rightarrow>
               arm_pure (child_Cancelled_on_cancelled seen) sh
           | ChildEv_ChildWorkflowExecutionCompleted _ \<Rightarrow>
               arm_pure (child_Cancelled_on_late_close seen sh) sh
           | ChildEv_ChildWorkflowExecutionFailed _ \<Rightarrow>
               arm_pure (child_Cancelled_on_late_close seen sh) sh
           | ChildEv_ChildWorkflowExecutionTimedOut _ \<Rightarrow>
               arm_pure (child_Cancelled_on_late_close seen sh) sh
           | ChildEv_ChildWorkflowExecutionTerminated \<Rightarrow>
               arm_pure (child_Cancelled_on_late_close seen sh) sh
           | _ \<Rightarrow> None)
      | Child_Failed \<Rightarrow> (case ev of ChildEv_Cancel _ \<Rightarrow> arm_default Child_Failed sh | _ \<Rightarrow> None)
      | Child_StartFailed \<Rightarrow>
          (case ev of ChildEv_Cancel _ \<Rightarrow> arm_default Child_StartFailed sh | _ \<Rightarrow> None)
      | Child_TimedOut \<Rightarrow> (case ev of ChildEv_Cancel _ \<Rightarrow> arm_default Child_TimedOut sh | _ \<Rightarrow> None)
      | Child_Completed \<Rightarrow>
          (case ev of ChildEv_Cancel _ \<Rightarrow> arm_default Child_Completed sh | _ \<Rightarrow> None)
      | Child_Terminated \<Rightarrow> None)"

definition child_is_final :: "ChildState \<Rightarrow> bool" where
  "child_is_final st \<longleftrightarrow> st = Child_Terminated"

definition child_from_command :: "CommandType \<Rightarrow> ChildEvent option" where
  "child_from_command c =
     (if c = C_StartChildWorkflowExecution then Some ChildEv_CommandStartChildWorkflowExecution
      else if c = C_RequestCancelExternalWorkflowExecution
      then Some ChildEv_CommandRequestCancelExternalWorkflowExecution
      else None)"

definition child_from_event :: "HistEventData \<Rightarrow> ChildEvent result" where
  "child_from_event d =
     (let e = hed_event d; et = he_event_type e
      in if et = E_StartChildWorkflowExecutionInitiated then
           (case he_attributes e of
              Some (A_StartChildWorkflowExecutionInitiated attrs) \<Rightarrow>
                Ok (ChildEv_StartChildWorkflowExecutionInitiated
                      \<lparr>cid_event_id = he_event_id e,
                       cid_wf_type = unwrap_or (sci_workflow_type attrs) [],
                       cid_wf_id = sci_workflow_id attrs,
                       cid_last_task_in_history = hed_current_task_is_last_in_history d\<rparr>)
            | _ \<Rightarrow> Err (Fatal MissingAttributes))
         else if et = E_StartChildWorkflowExecutionFailed then
           (case he_attributes e of
              Some (A_StartChildWorkflowExecutionFailed attrs) \<Rightarrow>
                (case scf_cause attrs of
                   Some cause \<Rightarrow> Ok (ChildEv_StartChildWorkflowExecutionFailed cause)
                 | None \<Rightarrow> Err (Fatal UnknownCause))
            | _ \<Rightarrow> Err (Fatal MissingAttributes))
         else if et = E_ChildWorkflowExecutionStarted then
           (case he_attributes e of
              Some (A_ChildWorkflowExecutionStarted attrs) \<Rightarrow>
                (case cws_workflow_execution attrs of
                   Some we \<Rightarrow> Ok (ChildEv_ChildWorkflowExecutionStarted
                                   \<lparr>cse_workflow_execution = we,
                                    cse_started_event_id = he_event_id e\<rparr>)
                 | None \<Rightarrow> Err (Fatal MissingAttributes))
            | _ \<Rightarrow> Err (Fatal MissingAttributes))
         else if et = E_ChildWorkflowExecutionCompleted then
           (case he_attributes e of
              Some (A_ChildWorkflowExecutionCompleted attrs) \<Rightarrow>
                Ok (ChildEv_ChildWorkflowExecutionCompleted (cwc_result attrs))
            | _ \<Rightarrow> Err (Fatal MissingAttributes))
         else if et = E_ChildWorkflowExecutionFailed then
           (case he_attributes e of
              Some (A_ChildWorkflowExecutionFailed attrs) \<Rightarrow>
                Ok (ChildEv_ChildWorkflowExecutionFailed attrs)
            | _ \<Rightarrow> Err (Fatal MissingAttributes))
         else if et = E_ChildWorkflowExecutionTimedOut then
           (case he_attributes e of
              Some (A_ChildWorkflowExecutionTimedOut attrs) \<Rightarrow>
                Ok (ChildEv_ChildWorkflowExecutionTimedOut (cwc_retry_state attrs))
            | _ \<Rightarrow> Err (Fatal MissingAttributes))
         else if et = E_ChildWorkflowExecutionTerminated
         then Ok ChildEv_ChildWorkflowExecutionTerminated
         else if et = E_ChildWorkflowExecutionCanceled
         then Ok ChildEv_ChildWorkflowExecutionCancelled
         else Err (Nondeterminism EventNotHandled))"

definition child_convert_payloads :: "Payloads option \<Rightarrow> Payload option result" where
  "child_convert_payloads result =
     (case result of
        None \<Rightarrow> Ok None
      | Some ps \<Rightarrow> (case payloads_try_into ps of
                     Ok p \<Rightarrow> Ok (Some p) | _ \<Rightarrow> Err (Fatal PayloadConversion)))"

definition child_resolve_cancelled_msg :: "ChildShared \<Rightarrow> Job" where
  "child_resolve_cancelled_msg sh =
     J_ResolveChildWorkflowExecution (csh_lang_sequence_number sh)
       (CR_Cancelled (Some (Failure ''Child Workflow execution cancelled''
          (Some bare_cancel_failure)
          (child_failure_info_from_state sh RS_NonRetryableFailure) [])))"

definition child_issue_cancel :: "ChildShared \<Rightarrow> string \<Rightarrow> MachineResponse list" where
  "child_issue_cancel sh reason =
     (if csh_cancel_type sh \<noteq> CCT_Abandon
      then [NewCoreOriginatedCommand
              (CA_RequestCancelExternalWorkflowExecution
                 \<lparr>rce_namespace = csh_namespace sh, rce_workflow_id = csh_workflow_id sh,
                  rce_run_id = csh_run_id sh, rce_child_workflow_only = True,
                  rce_reason = reason\<rparr>)
              (csh_annotations sh)]
      else []) @
     (if resolves_immediately_on_cancel sh then [PushWFJob (child_resolve_cancelled_msg sh)] else [])"

fun child_adapt_response ::
  "ChildWorkflowMachine \<Rightarrow> ChildWorkflowCommand \<Rightarrow> EventInfo option \<Rightarrow> MachineResponse list result" where
  "child_adapt_response m (ChildCmd_Start we) _ =
     Ok [PushWFJob (J_ResolveChildWorkflowExecutionStart (csh_lang_sequence_number (sm_shared m))
           (CS_Succeeded (we_run_id we)))]"
| "child_adapt_response m (ChildCmd_StartFail cause) _ =
     Ok [PushWFJob (J_ResolveChildWorkflowExecutionStart (csh_lang_sequence_number (sm_shared m))
           (CS_Failed (csh_workflow_id (sm_shared m)) (csh_workflow_type (sm_shared m)) cause))]"
| "child_adapt_response m (ChildCmd_StartCancel failure) _ =
     Ok [PushWFJob (J_ResolveChildWorkflowExecutionStart (csh_lang_sequence_number (sm_shared m))
           (CS_Cancelled (Some failure)))]"
| "child_adapt_response m (ChildCmd_Complete r) _ =
     res_map (\<lambda>p. [PushWFJob (J_ResolveChildWorkflowExecution
                     (csh_lang_sequence_number (sm_shared m)) (CR_Completed p))])
       (child_convert_payloads r)"
| "child_adapt_response m (ChildCmd_Fail failure) _ =
     Ok [PushWFJob (J_ResolveChildWorkflowExecution (csh_lang_sequence_number (sm_shared m))
           (CR_Failed (Some failure)))]"
| "child_adapt_response m ChildCmd_Cancel _ =
     Ok [PushWFJob (child_resolve_cancelled_msg (sm_shared m))]"
| "child_adapt_response m (ChildCmd_IssueCancelAfterStarted reason) _ =
     Ok (child_issue_cancel (sm_shared m) reason)"

definition child_ops ::
  "(ChildState, ChildShared, ChildEvent, ChildWorkflowCommand) machine_ops" where
  "child_ops = \<lparr>op_arms = child_arms, op_from_command = child_from_command,
     op_from_event = child_from_event, op_adapt_response = child_adapt_response\<rparr>"

definition start_child_workflow_cmd_to_api ::
  "StartChildWorkflowExecution \<Rightarrow> bool \<Rightarrow> CommandAttributes" where
  "start_child_workflow_cmd_to_api s inherit_build_id =
     CA_StartChildWorkflowExecution
       \<lparr>scc_namespace = sce_namespace s, scc_workflow_id = sce_workflow_id s,
        scc_workflow_type = Some (sce_workflow_type s), scc_task_queue = Some (sce_task_queue s),
        scc_input = into_payloads (sce_input s), scc_inherit_build_id = inherit_build_id,
        scc_rest = sce_rest s\<rparr>"

definition child_new_scheduled ::
  "StartChildWorkflowExecution \<Rightarrow> InternalFlags \<Rightarrow> bool \<Rightarrow> CommandAnnotations \<Rightarrow>
   (ChildWorkflowMachine NewMachineWithCommand) result" where
  "child_new_scheduled attribs internal_flags use_compatible_version annotations =
     (case expect_event child_arms (from_parts Child_Created
             \<lparr>csh_initiated_event_id = 0, csh_started_event_id = 0,
              csh_lang_sequence_number = sce_seq attribs, csh_namespace = sce_namespace attribs,
              csh_workflow_id = sce_workflow_id attribs, csh_run_id = [],
              csh_workflow_type = sce_workflow_type attribs, csh_cancelled_before_sent = False,
              csh_cancel_type = sce_cancellation_type attribs,
              csh_internal_flags = internal_flags, csh_annotations = annotations\<rparr>)
             ChildEv_Schedule of
        Ok (_, s) \<Rightarrow> Ok \<lparr>nm_command = start_child_workflow_cmd_to_api attribs use_compatible_version,
                        nm_machine = s\<rparr>
      | _ \<Rightarrow> Panic)"

fun child_cancel_response ::
  "ChildWorkflowMachine \<Rightarrow> ChildWorkflowCommand \<Rightarrow> MachineResponse list result" where
  "child_cancel_response m (ChildCmd_StartCancel f) =
     child_adapt_response m (ChildCmd_StartCancel f) None"
| "child_cancel_response m (ChildCmd_IssueCancelAfterStarted r) =
     child_adapt_response m (ChildCmd_IssueCancelAfterStarted r) None"
| "child_cancel_response m _ = Panic"

definition child_cancel ::
  "ChildWorkflowMachine \<Rightarrow> string \<Rightarrow> CommandAnnotations \<Rightarrow>
   MachineResponse list result \<times> ChildWorkflowMachine" where
  "child_cancel self reason annotations =
     (let sh = sm_shared self;
          self = self\<lparr>sm_shared :=
            sh\<lparr>csh_annotations := override_with (csh_annotations sh) annotations\<rparr>\<rparr>
      in case on_event child_arms self (ChildEv_Cancel reason) of
           (Ok cmds, self) \<Rightarrow> (concat_res (child_cancel_response self) cmds, self)
         | (Err e, self) \<Rightarrow> (Err (from_machine_error e), self)
         | (Panic, self) \<Rightarrow> (Panic, self))"

definition child_was_cancelled_before_sent :: "ChildWorkflowMachine \<Rightarrow> bool" where
  "child_was_cancelled_before_sent m = csh_cancelled_before_sent (sm_shared m)"

section \<open>Runs of a child workflow\<close>

datatype ChildOwn = Child_do_cancel string CommandAnnotations | Child_set_flags InternalFlags

fun child_own ::
  "ChildWorkflowMachine \<Rightarrow> ChildOwn \<Rightarrow> MachineResponse list result \<times> ChildWorkflowMachine" where
  "child_own m (Child_do_cancel reason ann) = child_cancel m reason ann"
| "child_own m (Child_set_flags fl) =
     (Ok [], m\<lparr>sm_shared := (sm_shared m)\<lparr>csh_internal_flags := fl\<rparr>\<rparr>)"

abbreviation child_step ::
  "ChildWorkflowMachine \<Rightarrow> ChildOwn MachineInput \<Rightarrow>
   MachineResponse list result \<times> ChildWorkflowMachine" where
  "child_step \<equiv> drive child_ops child_own"

fun child_start_weight :: "MachineResponse \<Rightarrow> nat" where
  "child_start_weight (PushWFJob (J_ResolveChildWorkflowExecutionStart _ _)) = 1"
| "child_start_weight _ = 0"

fun child_result_weight :: "MachineResponse \<Rightarrow> nat" where
  "child_result_weight (PushWFJob (J_ResolveChildWorkflowExecution _ _)) = 1"
| "child_result_weight _ = 0"

definition child_good ::
  "u32 \<Rightarrow> ChildWorkflowCancellationType \<Rightarrow> ChildState \<Rightarrow> ChildShared \<Rightarrow> bool" where
  "child_good seq ct st sh \<longleftrightarrow> csh_lang_sequence_number sh = seq \<and> csh_cancel_type sh = ct \<and>
     (csh_cancelled_before_sent sh \<longrightarrow> (\<exists>seen. st = Child_Cancelled seen))"

definition child_start_open :: "ChildState \<Rightarrow> ChildShared \<Rightarrow> nat" where
  "child_start_open st sh =
     (if st \<in> {Child_Created, Child_StartCommandCreated, Child_StartEventRecorded} then 1 else 0)"

definition child_result_open :: "ChildState \<Rightarrow> ChildShared \<Rightarrow> nat" where
  "child_result_open st sh =
     (if st \<in> {Child_Created, Child_StartCommandCreated, Child_StartEventRecorded, Child_Started}
      then 1 else 0)"

lemmas child_defs = child_arms_def child_from_command_def child_from_event_def child_ops_def
  child_Cancelled_on_cancelled_def child_Cancelled_on_late_close_def
  child_StartCommandCreated_on_initiated_def child_StartCommandCreated_on_cancelled_def
  child_StartEventRecorded_on_started_def child_on_cancelled_def child_Started_on_failed_def
  child_Started_on_timed_out_def child_Started_on_terminated_def child_issue_cancel_def
  child_resolve_cancelled_msg_def resolves_immediately_on_cancel_def

lemmas child_run_defs = child_good_def child_start_open_def child_result_open_def

lemmas child_splits = ChildState.splits ChildEvent.splits if_splits option.splits
  Attributes.splits

lemma child_convert_payloads_not_Panic [simp]: "child_convert_payloads r \<noteq> Panic"
  by (auto simp: child_convert_payloads_def split: option.splits res.splits)

lemma child_not_final: "\<not> child_is_final st \<Longrightarrow> \<exists>ev. child_arms st sh ev \<noteq> None"
  by (cases st) (auto simp: child_is_final_def child_arms_def intro: exI [of _ ChildEv_Schedule]
      exI [of _ "ChildEv_Cancel []"])

interpretation child_fsm: fsm_final child_arms child_is_final
proof
  fix st
  have "child_is_final st \<Longrightarrow> child_arms st sh ev = None" for sh ev
    by (simp add: child_is_final_def child_arms_def)
  then show "child_is_final st \<longleftrightarrow> (\<forall>sh ev. child_arms st sh ev = None)"
    using child_not_final [of st] by metis
qed

interpretation child_start_laws: adapted_machine child_ops "child_good seq ct" "\<lambda>_. True"
  child_start_weight child_start_open "(\<le>)" for seq ct
  by unfold_locales
    (auto simp: child_defs child_run_defs Let_def res_map_eq_Ok split_beta split: child_splits)

interpretation child_result_laws: adapted_machine child_ops "child_good seq ct" "\<lambda>_. True"
  child_result_weight child_result_open "(\<le>)" for seq ct
  by unfold_locales
    (auto simp: child_defs child_run_defs Let_def res_map_eq_Ok split_beta split: child_splits)

lemma child_own_good:
  assumes "good_machine (child_good seq ct) m"
  shows "fst (child_own m c) \<noteq> Panic"
    and "child_own m c = (Ok rs, m') \<Longrightarrow> good_machine (child_good seq ct) m' \<and>
      sum_list (map child_start_weight rs) + machine_budget child_start_open m'
        \<le> machine_budget child_start_open m"
    and "child_own m c = (Ok rs, m') \<Longrightarrow> good_machine (child_good seq ct) m' \<and>
      sum_list (map child_result_weight rs) + machine_budget child_result_open m'
        \<le> machine_budget child_result_open m"
  using assms
  by (cases c; auto elim!: good_machineE
      simp: child_cancel_def child_defs child_run_defs on_event_def Let_def
      split: ChildState.splits if_splits)+

interpretation child_start: driven_spender child_ops "child_good seq ct" "\<lambda>_. True"
  child_start_weight child_start_open child_own for seq ct
  using child_own_good by unfold_locales blast+

interpretation child_result: driven_spender child_ops "child_good seq ct" "\<lambda>_. True"
  child_result_weight child_result_open child_own for seq ct
  using child_own_good by unfold_locales blast+

lemma child_new_scheduled_Ok [simp]:
  "child_new_scheduled attribs fl uc ann = Ok
     \<lparr>nm_command = start_child_workflow_cmd_to_api attribs uc,
      nm_machine = \<lparr>sm_state = Some Child_StartCommandCreated, sm_shared =
        \<lparr>csh_initiated_event_id = 0, csh_started_event_id = 0,
         csh_lang_sequence_number = sce_seq attribs, csh_namespace = sce_namespace attribs,
         csh_workflow_id = sce_workflow_id attribs, csh_run_id = [],
         csh_workflow_type = sce_workflow_type attribs, csh_cancelled_before_sent = False,
         csh_cancel_type = sce_cancellation_type attribs,
         csh_internal_flags = fl, csh_annotations = ann\<rparr>\<rparr>\<rparr>"
  by (simp add: child_new_scheduled_def expect_event_def from_parts_def on_event_def child_arms_def)

lemma child_new_good:
  "child_new_scheduled attribs fl uc ann = Ok nm \<Longrightarrow>
   good_machine (child_good (sce_seq attribs) (sce_cancellation_type attribs)) (nm_machine nm) \<and>
   machine_budget child_start_open (nm_machine nm) = 1 \<and>
   machine_budget child_result_open (nm_machine nm) = 1"
  by (auto simp: child_run_defs)

definition sample_child :: "ChildWorkflowCancellationType \<Rightarrow> StartChildWorkflowExecution" where
  "sample_child ct = \<lparr>sce_seq = 1, sce_namespace = ''n'', sce_workflow_id = ''w'',
     sce_workflow_type = ''t'', sce_task_queue = ''q'', sce_input = [],
     sce_cancellation_type = ct, sce_versioning_intent = VI_Unspecified, sce_rest = []\<rparr>"

section \<open>Properties\<close>

text \<open>A child workflow is resolved at most once in each of its two steps.  Along any run of
  commands, history events, cancellations and flag changes from its scheduling, the language side
  gets at most one resolution of the start and at most one resolution of the result, late events
  after a cancellation included, and nothing panics.\<close>

theorem child_resolves_at_most_once:
  assumes "child_new_scheduled attribs fl uc ann = Ok nm"
  shows "sum_list (map child_start_weight (run_responses child_step (nm_machine nm) inputs)) \<le> 1 \<and>
    sum_list (map child_result_weight (run_responses child_step (nm_machine nm) inputs)) \<le> 1 \<and>
    run_result child_step (nm_machine nm) inputs \<noteq> Panic"
  using child_new_good [OF assms]
    child_start.spender.run_spends [of "sce_seq attribs" "sce_cancellation_type attribs"]
    child_result.spender.run_spends [of "sce_seq attribs" "sce_cancellation_type attribs"]
    child_start.contract.run_no_panic [of "sce_seq attribs" "sce_cancellation_type attribs"]
  by metis

theorem child_resolves_at_most_once_witness:
  "\<exists>nm. child_new_scheduled (sample_child CCT_TryCancel) (InternalFlags_new True [] []) False
        CommandAnnotations_default = Ok nm \<and>
     sum_list (map child_result_weight (run_responses child_step (nm_machine nm)
       [In_Event (plain_event 5 E_StartChildWorkflowExecutionInitiated
          (Some (A_StartChildWorkflowExecutionInitiated
             \<lparr>sci_workflow_id = ''w'', sci_workflow_type = Some ''t''\<rparr>))),
        In_Own (Child_do_cancel ''why'' CommandAnnotations_default),
        In_Event (plain_event 9 E_ChildWorkflowExecutionTerminated None)])) \<le> 1"
  using child_resolves_at_most_once [OF child_new_scheduled_Ok] child_new_scheduled_Ok by blast

text \<open>What cancelling a child that is starting or running does, by cancellation type: abandon
  only resolves the child as cancelled; try-cancel sends a cancel request and resolves at once; the
  two waiting types only send the request.  The request is limited to the child, names the run id
  known so far and carries the overridden annotations.\<close>

theorem child_cancel_by_type:
  assumes "sm_state m = Some st" "st \<in> {Child_StartEventRecorded, Child_Started}"
  shows "let sh = (sm_shared m)\<lparr>csh_annotations := override_with (csh_annotations (sm_shared m)) ann\<rparr>;
             request = NewCoreOriginatedCommand (CA_RequestCancelExternalWorkflowExecution
               \<lparr>rce_namespace = csh_namespace sh, rce_workflow_id = csh_workflow_id sh,
                rce_run_id = csh_run_id sh, rce_child_workflow_only = True,
                rce_reason = reason\<rparr>) (csh_annotations sh);
             resolve = PushWFJob (child_resolve_cancelled_msg sh)
         in child_cancel m reason ann = (case csh_cancel_type sh of
              CCT_Abandon \<Rightarrow> (Ok [resolve],
                \<lparr>sm_state = Some (Child_Cancelled False), sm_shared = sh\<rparr>)
            | CCT_TryCancel \<Rightarrow> (Ok [request, resolve],
                \<lparr>sm_state = Some (Child_Cancelled False), sm_shared = sh\<rparr>)
            | _ \<Rightarrow> (Ok [request], \<lparr>sm_state = Some st, sm_shared = sh\<rparr>))"
  using assms
  by (auto simp: child_cancel_def child_arms_def child_on_cancelled_def child_issue_cancel_def
      resolves_immediately_on_cancel_def on_event_def Let_def
      split: ChildWorkflowCancellationType.splits)

theorem child_cancel_by_type_witness:
  "\<exists>nm m. child_new_scheduled (sample_child CCT_Abandon) (InternalFlags_new True [] []) False
        CommandAnnotations_default = Ok nm \<and>
     m = (nm_machine nm)\<lparr>sm_state := Some Child_Started\<rparr> \<and>
     fst (child_cancel m ''why'' CommandAnnotations_default) =
       Ok [PushWFJob (child_resolve_cancelled_msg ((sm_shared m)\<lparr>csh_annotations :=
            override_with CommandAnnotations_default CommandAnnotations_default\<rparr>))]"
proof -
  obtain nm where nm: "child_new_scheduled (sample_child CCT_Abandon) (InternalFlags_new True [] [])
      False CommandAnnotations_default = Ok nm" by simp
  with child_cancel_by_type [of "(nm_machine nm)\<lparr>sm_state := Some Child_Started\<rparr>" Child_Started
      CommandAnnotations_default "''why''"]
  show ?thesis by (auto simp: Let_def sample_child_def)
qed

end
