(* ===== verification/SignalExternalMachine.thy ===== *)
theory SignalExternalMachine
  imports Fsm
begin

text \<open>
  Signals to external workflows and requests to cancel them,
  \<^verbatim>\<open>signal_external_state_machine.rs\<close> and \<^verbatim>\<open>cancel_external_state_machine.rs\<close> of
  \<^verbatim>\<open>crates/sdk-core/src/worker/workflow/machines\<close>.
\<close>

section \<open>Signalling an external workflow\<close>

datatype SignalState = Signal_Created | Signal_SignalExternalCommandCreated
  | Signal_SignalExternalCommandRecorded | Signal_Cancelled | Signal_Signaled | Signal_Failed

datatype SignalEvent = SignalEv_Schedule | SignalEv_CommandSignalExternalWorkflowExecution
  | SignalEv_Cancel | SignalEv_SignalExternalWorkflowExecutionInitiated
  | SignalEv_ExternalWorkflowExecutionSignaled
  | SignalEv_SignalExternalWorkflowExecutionFailed SignalExternalWorkflowExecutionFailedCause

datatype SignalExternalCommand = SignalCmd_Signaled
  | SignalCmd_Failed SignalExternalWorkflowExecutionFailedCause | SignalCmd_Cancelled

record SignalShared =
  ssh_seq :: u32

type_synonym SignalExternalMachine = "(SignalState, SignalShared) StateMachine"

definition SIG_CANCEL_MSG :: string where
  "SIG_CANCEL_MSG = ''Signal was cancelled before being sent''"

definition signal_arms :: "(SignalState, SignalShared, SignalEvent, SignalExternalCommand) arms" where
  "signal_arms st sh ev =
     (case st of
        Signal_Created \<Rightarrow>
          (case ev of
             SignalEv_Schedule \<Rightarrow> arm_default Signal_SignalExternalCommandCreated sh | _ \<Rightarrow> None)
      | Signal_SignalExternalCommandCreated \<Rightarrow>
          (case ev of
             SignalEv_CommandSignalExternalWorkflowExecution \<Rightarrow>
               arm_default Signal_SignalExternalCommandCreated sh
           | SignalEv_Cancel \<Rightarrow> arm_pure (tr_commands [SignalCmd_Cancelled] Signal_Cancelled) sh
           | SignalEv_SignalExternalWorkflowExecutionInitiated \<Rightarrow>
               arm_default Signal_SignalExternalCommandRecorded sh
           | _ \<Rightarrow> None)
      | Signal_SignalExternalCommandRecorded \<Rightarrow>
          (case ev of
             SignalEv_Cancel \<Rightarrow> arm_default Signal_SignalExternalCommandRecorded sh
           | SignalEv_ExternalWorkflowExecutionSignaled \<Rightarrow>
               arm_pure (tr_commands [SignalCmd_Signaled] Signal_Signaled) sh
           | SignalEv_SignalExternalWorkflowExecutionFailed cause \<Rightarrow>
               arm_pure (tr_commands [SignalCmd_Failed cause] Signal_Failed) sh
           | _ \<Rightarrow> None)
      | Signal_Cancelled \<Rightarrow>
          (case ev of SignalEv_Cancel \<Rightarrow> arm_default Signal_Cancelled sh | _ \<Rightarrow> None)
      | Signal_Signaled \<Rightarrow>
          (case ev of SignalEv_Cancel \<Rightarrow> arm_default Signal_Signaled sh | _ \<Rightarrow> None)
      | Signal_Failed \<Rightarrow> None)"

definition signal_is_final :: "SignalState \<Rightarrow> bool" where
  "signal_is_final st \<longleftrightarrow> st = Signal_Failed"

definition signal_from_command :: "CommandType \<Rightarrow> SignalEvent option" where
  "signal_from_command c =
     (if c = C_SignalExternalWorkflowExecution
      then Some SignalEv_CommandSignalExternalWorkflowExecution else None)"

definition signal_from_event :: "HistEventData \<Rightarrow> SignalEvent result" where
  "signal_from_event d =
     (let e = hed_event d; et = he_event_type e
      in if et = E_ExternalWorkflowExecutionSignaled
         then Ok SignalEv_ExternalWorkflowExecutionSignaled
         else if et = E_SignalExternalWorkflowExecutionInitiated
         then Ok SignalEv_SignalExternalWorkflowExecutionInitiated
         else if et = E_SignalExternalWorkflowExecutionFailed then
           (case he_attributes e of
              Some (A_SignalExternalWorkflowExecutionFailed _ cause) \<Rightarrow>
                Ok (SignalEv_SignalExternalWorkflowExecutionFailed
                      (unwrap_or cause SEF_Unspecified))
            | _ \<Rightarrow> Err (Fatal MissingAttributes))
         else Err (Nondeterminism EventNotHandled))"

fun signal_failed_reason :: "SignalExternalWorkflowExecutionFailedCause \<Rightarrow> string" where
  "signal_failed_reason SEF_Unspecified = ''unknown''"
| "signal_failed_reason SEF_ExternalWorkflowExecutionNotFound = ''it was not found''"
| "signal_failed_reason SEF_NamespaceNotFound = ''it was not found''"
| "signal_failed_reason SEF_SignalCountLimitExceeded = ''The per-workflow signal limit was exceeded''"

fun signal_cause_to_string :: "SignalExternalWorkflowExecutionFailedCause \<Rightarrow> string" where
  "signal_cause_to_string SEF_Unspecified = ''Unspecified''"
| "signal_cause_to_string SEF_ExternalWorkflowExecutionNotFound =
     ''ExternalWorkflowExecutionNotFound''"
| "signal_cause_to_string SEF_NamespaceNotFound = ''NamespaceNotFound''"
| "signal_cause_to_string SEF_SignalCountLimitExceeded = ''SignalCountLimitExceeded''"

definition app_failure :: "string \<Rightarrow> string \<Rightarrow> Failure" where
  "app_failure message ty = Failure message None (Some (FI_Application
     \<lparr>api_type = ty, api_non_retryable = False, api_next_retry_delay = None, api_rest = []\<rparr>)) []"

fun signal_adapt_response ::
  "SignalExternalMachine \<Rightarrow> SignalExternalCommand \<Rightarrow> EventInfo option \<Rightarrow> MachineResponse list result"
where
  "signal_adapt_response m SignalCmd_Signaled _ =
     Ok [PushWFJob (J_ResolveSignalExternalWorkflow (ssh_seq (sm_shared m)) None SEF_Unspecified)]"
| "signal_adapt_response m (SignalCmd_Failed f) _ =
     Ok [PushWFJob (J_ResolveSignalExternalWorkflow (ssh_seq (sm_shared m))
           (Some (app_failure
             (''Unable to signal external workflow because '' @ signal_failed_reason f)
             (signal_cause_to_string f))) f)]"
| "signal_adapt_response m SignalCmd_Cancelled _ = Panic"

definition signal_ops ::
  "(SignalState, SignalShared, SignalEvent, SignalExternalCommand) machine_ops" where
  "signal_ops = \<lparr>op_arms = signal_arms, op_from_command = signal_from_command,
     op_from_event = signal_from_event, op_adapt_response = signal_adapt_response\<rparr>"

definition new_external_signal ::
  "SignalExternalWorkflowExecution \<Rightarrow> string \<Rightarrow>
   (SignalExternalMachine NewMachineWithCommand) result" where
  "new_external_signal attrs this_namespace =
     (case sew_target attrs of
        None \<Rightarrow> Err (Fatal EmptyTarget)
      | Some target \<Rightarrow>
          let (workflow_execution, only_child) = (case target of
                ST_ChildWorkflowId wfid \<Rightarrow>
                  (\<lparr>nwe_namespace = this_namespace, nwe_workflow_id = wfid, nwe_run_id = []\<rparr>, True)
              | ST_WorkflowExecution we \<Rightarrow> (we, False))
          in case expect_event signal_arms
                    (from_parts Signal_Created \<lparr>ssh_seq = sew_seq attrs\<rparr>) SignalEv_Schedule of
               Ok (_, s) \<Rightarrow> Ok
                 \<lparr>nm_command = CA_SignalExternalWorkflowExecution
                    \<lparr>sec_namespace = nwe_namespace workflow_execution,
                     sec_execution = Some \<lparr>we_workflow_id = nwe_workflow_id workflow_execution,
                                           we_run_id = nwe_run_id workflow_execution\<rparr>,
                     sec_signal_name = sew_signal_name attrs,
                     sec_input = into_payloads (sew_args attrs),
                     sec_header = (if sew_headers attrs = [] then None else Some (sew_headers attrs)),
                     sec_child_workflow_only = only_child\<rparr>,
                  nm_machine = s\<rparr>
             | _ \<Rightarrow> Panic)"

text \<open>\<^verbatim>\<open>res.first()\<close> decides; a first command other than \<^verbatim>\<open>Cancelled\<close> panics.\<close>

definition signal_cancel ::
  "SignalExternalMachine \<Rightarrow> MachineResponse list result \<times> SignalExternalMachine" where
  "signal_cancel self =
     (case on_event signal_arms self SignalEv_Cancel of
        (Ok cmds, self) \<Rightarrow>
          (case cmds of
             [] \<Rightarrow> Ok []
           | SignalCmd_Cancelled # _ \<Rightarrow>
               Ok [PushWFJob (J_ResolveSignalExternalWorkflow (ssh_seq (sm_shared self))
                     (Some (Failure SIG_CANCEL_MSG None (Some (FI_Canceled None [])) []))
                     SEF_Unspecified)]
           | _ \<Rightarrow> Panic, self)
      | (Err e, self) \<Rightarrow> (Err (from_machine_error e), self)
      | (Panic, self) \<Rightarrow> (Panic, self))"

definition signal_was_cancelled_before_sent :: "SignalExternalMachine \<Rightarrow> bool result" where
  "signal_was_cancelled_before_sent m =
     (case sm_state m of None \<Rightarrow> Panic | Some st \<Rightarrow> Ok (st = Signal_Cancelled))"

section \<open>Cancelling an external workflow\<close>

datatype CancelExternalState = CancelExt_Created | CancelExt_RequestCancelExternalCommandCreated
  | CancelExt_RequestCancelExternalCommandRecorded | CancelExt_CancelRequested
  | CancelExt_RequestCancelFailed

datatype CancelExternalEvent = CancelExtEv_Schedule
  | CancelExtEv_CommandRequestCancelExternalWorkflowExecution
  | CancelExtEv_RequestCancelExternalWorkflowExecutionInitiated
  | CancelExtEv_ExternalWorkflowExecutionCancelRequested
  | CancelExtEv_RequestCancelExternalWorkflowExecutionFailed
      CancelExternalWorkflowExecutionFailedCause

datatype CancelExternalCommand = CancelExtCmd_Requested
  | CancelExtCmd_Failed CancelExternalWorkflowExecutionFailedCause

record CancelExternalShared =
  ceh_seq :: u32

type_synonym CancelExternalMachine = "(CancelExternalState, CancelExternalShared) StateMachine"

definition cancel_external_arms ::
  "(CancelExternalState, CancelExternalShared, CancelExternalEvent, CancelExternalCommand) arms" where
  "cancel_external_arms st sh ev =
     (case st of
        CancelExt_Created \<Rightarrow>
          (case ev of
             CancelExtEv_Schedule \<Rightarrow>
               arm_default CancelExt_RequestCancelExternalCommandCreated sh
           | _ \<Rightarrow> None)
      | CancelExt_RequestCancelExternalCommandCreated \<Rightarrow>
          (case ev of
             CancelExtEv_CommandRequestCancelExternalWorkflowExecution \<Rightarrow>
               arm_default CancelExt_RequestCancelExternalCommandCreated sh
           | CancelExtEv_RequestCancelExternalWorkflowExecutionInitiated \<Rightarrow>
               arm_default CancelExt_RequestCancelExternalCommandRecorded sh
           | _ \<Rightarrow> None)
      | CancelExt_RequestCancelExternalCommandRecorded \<Rightarrow>
          (case ev of
             CancelExtEv_ExternalWorkflowExecutionCancelRequested \<Rightarrow>
               arm_pure (tr_commands [CancelExtCmd_Requested] CancelExt_CancelRequested) sh
           | CancelExtEv_RequestCancelExternalWorkflowExecutionFailed cause \<Rightarrow>
               arm_pure (tr_commands [CancelExtCmd_Failed cause] CancelExt_RequestCancelFailed) sh
           | _ \<Rightarrow> None)
      | CancelExt_CancelRequested \<Rightarrow> None
      | CancelExt_RequestCancelFailed \<Rightarrow> None)"

definition cancel_external_is_final :: "CancelExternalState \<Rightarrow> bool" where
  "cancel_external_is_final st \<longleftrightarrow>
     st \<in> {CancelExt_CancelRequested, CancelExt_RequestCancelFailed}"

definition cancel_external_from_command :: "CommandType \<Rightarrow> CancelExternalEvent option" where
  "cancel_external_from_command c =
     (if c = C_RequestCancelExternalWorkflowExecution
      then Some CancelExtEv_CommandRequestCancelExternalWorkflowExecution else None)"

definition cancel_external_from_event :: "HistEventData \<Rightarrow> CancelExternalEvent result" where
  "cancel_external_from_event d =
     (let e = hed_event d; et = he_event_type e
      in if et = E_ExternalWorkflowExecutionCancelRequested
         then Ok CancelExtEv_ExternalWorkflowExecutionCancelRequested
         else if et = E_RequestCancelExternalWorkflowExecutionInitiated
         then Ok CancelExtEv_RequestCancelExternalWorkflowExecutionInitiated
         else if et = E_RequestCancelExternalWorkflowExecutionFailed then
           (case he_attributes e of
              Some (A_RequestCancelExternalWorkflowExecutionFailed _ cause) \<Rightarrow>
                Ok (CancelExtEv_RequestCancelExternalWorkflowExecutionFailed
                      (unwrap_or cause CEF_Unspecified))
            | _ \<Rightarrow> Err (Fatal MissingAttributes))
         else Err (Nondeterminism EventNotHandled))"

fun cancel_external_failed_reason :: "CancelExternalWorkflowExecutionFailedCause \<Rightarrow> string" where
  "cancel_external_failed_reason CEF_Unspecified = ''unknown''"
| "cancel_external_failed_reason CEF_ExternalWorkflowExecutionNotFound = ''not found''"
| "cancel_external_failed_reason CEF_NamespaceNotFound = ''not found''"

fun cancel_external_cause_to_string :: "CancelExternalWorkflowExecutionFailedCause \<Rightarrow> string" where
  "cancel_external_cause_to_string CEF_Unspecified = ''Unspecified''"
| "cancel_external_cause_to_string CEF_ExternalWorkflowExecutionNotFound =
     ''ExternalWorkflowExecutionNotFound''"
| "cancel_external_cause_to_string CEF_NamespaceNotFound = ''NamespaceNotFound''"

fun cancel_external_adapt_response ::
  "CancelExternalMachine \<Rightarrow> CancelExternalCommand \<Rightarrow> EventInfo option \<Rightarrow> MachineResponse list result"
where
  "cancel_external_adapt_response m CancelExtCmd_Requested _ =
     Ok [PushWFJob (J_ResolveRequestCancelExternalWorkflow (ceh_seq (sm_shared m)) None
           CEF_Unspecified)]"
| "cancel_external_adapt_response m (CancelExtCmd_Failed f) _ =
     Ok [PushWFJob (J_ResolveRequestCancelExternalWorkflow (ceh_seq (sm_shared m))
           (Some (app_failure
             (''Unable to cancel external workflow because '' @ cancel_external_failed_reason f)
             (cancel_external_cause_to_string f))) f)]"

definition cancel_external_ops ::
  "(CancelExternalState, CancelExternalShared, CancelExternalEvent, CancelExternalCommand)
     machine_ops" where
  "cancel_external_ops = \<lparr>op_arms = cancel_external_arms,
     op_from_command = cancel_external_from_command,
     op_from_event = cancel_external_from_event,
     op_adapt_response = cancel_external_adapt_response\<rparr>"

definition new_external_cancel ::
  "u32 \<Rightarrow> NamespacedWorkflowExecution \<Rightarrow> bool \<Rightarrow> string \<Rightarrow>
   (CancelExternalMachine NewMachineWithCommand) result" where
  "new_external_cancel seq workflow_execution only_child reason =
     (case expect_event cancel_external_arms (from_parts CancelExt_Created \<lparr>ceh_seq = seq\<rparr>)
             CancelExtEv_Schedule of
        Ok (_, s) \<Rightarrow> Ok
          \<lparr>nm_command = CA_RequestCancelExternalWorkflowExecution
             \<lparr>rce_namespace = nwe_namespace workflow_execution,
              rce_workflow_id = nwe_workflow_id workflow_execution,
              rce_run_id = nwe_run_id workflow_execution,
              rce_child_workflow_only = only_child, rce_reason = reason\<rparr>,
           nm_machine = s\<rparr>
      | _ \<Rightarrow> Panic)"

section \<open>Runs\<close>

abbreviation signal_step ::
  "SignalExternalMachine \<Rightarrow> unit MachineInput \<Rightarrow> MachineResponse list result \<times> SignalExternalMachine"
where
  "signal_step \<equiv> drive signal_ops (\<lambda>m _. signal_cancel m)"

abbreviation cancel_external_step ::
  "CancelExternalMachine \<Rightarrow> unit MachineInput \<Rightarrow> MachineResponse list result \<times> CancelExternalMachine"
where
  "cancel_external_step \<equiv> drive cancel_external_ops (\<lambda>m _. (Ok [], m))"

fun resolve_signal_weight :: "MachineResponse \<Rightarrow> nat" where
  "resolve_signal_weight (PushWFJob (J_ResolveSignalExternalWorkflow _ _ _)) = 1"
| "resolve_signal_weight _ = 0"

fun resolve_cancel_external_weight :: "MachineResponse \<Rightarrow> nat" where
  "resolve_cancel_external_weight (PushWFJob (J_ResolveRequestCancelExternalWorkflow _ _ _)) = 1"
| "resolve_cancel_external_weight _ = 0"

definition signal_owes :: "SignalState \<Rightarrow> SignalShared \<Rightarrow> nat" where
  "signal_owes st sh = (if st \<in> {Signal_Cancelled, Signal_Signaled, Signal_Failed} then 0 else 1)"

definition cancel_external_owes :: "CancelExternalState \<Rightarrow> CancelExternalShared \<Rightarrow> nat" where
  "cancel_external_owes st sh = (if cancel_external_is_final st then 0 else 1)"

lemmas signal_defs = signal_arms_def signal_from_command_def signal_from_event_def signal_ops_def
  signal_owes_def

lemmas cancel_external_defs = cancel_external_arms_def cancel_external_from_command_def
  cancel_external_from_event_def cancel_external_ops_def cancel_external_owes_def
  cancel_external_is_final_def

lemma signal_not_final: "\<not> signal_is_final st \<Longrightarrow> \<exists>ev. signal_arms st sh ev \<noteq> None"
  by (cases st) (auto simp: signal_is_final_def signal_arms_def intro: exI [of _ SignalEv_Schedule]
      exI [of _ SignalEv_Cancel])

interpretation signal_fsm: fsm_final signal_arms signal_is_final
proof
  fix st
  have "signal_is_final st \<Longrightarrow> signal_arms st sh ev = None" for sh ev
    by (simp add: signal_is_final_def signal_arms_def)
  then show "signal_is_final st \<longleftrightarrow> (\<forall>sh ev. signal_arms st sh ev = None)"
    using signal_not_final [of st] by metis
qed

lemma cancel_external_not_final:
  "\<not> cancel_external_is_final st \<Longrightarrow> \<exists>ev. cancel_external_arms st sh ev \<noteq> None"
  by (cases st) (auto simp: cancel_external_defs intro: exI [of _ CancelExtEv_Schedule]
      exI [of _ CancelExtEv_CommandRequestCancelExternalWorkflowExecution]
      exI [of _ CancelExtEv_ExternalWorkflowExecutionCancelRequested])

interpretation cancel_external_fsm: fsm_final cancel_external_arms cancel_external_is_final
proof
  fix st
  have "cancel_external_is_final st \<Longrightarrow> cancel_external_arms st sh ev = None" for sh ev
    by (auto simp: cancel_external_is_final_def cancel_external_arms_def)
  then show "cancel_external_is_final st \<longleftrightarrow> (\<forall>sh ev. cancel_external_arms st sh ev = None)"
    using cancel_external_not_final [of st] by metis
qed

interpretation signal_laws: adapted_machine signal_ops "\<lambda>_ sh. ssh_seq sh = seq"
  "\<lambda>ev. ev \<noteq> SignalEv_Cancel" resolve_signal_weight signal_owes "(=)" for seq
  by unfold_locales
    (auto simp: signal_defs Let_def
      split: SignalState.splits SignalEvent.splits if_splits option.splits Attributes.splits)

lemma signal_cancel_good:
  assumes "good_machine (\<lambda>_ sh. ssh_seq sh = seq) m"
  shows "fst (signal_cancel m) \<noteq> Panic"
    and "signal_cancel m = (Ok rs, m') \<Longrightarrow> good_machine (\<lambda>_ sh. ssh_seq sh = seq) m' \<and>
      sum_list (map resolve_signal_weight rs) + machine_budget signal_owes m'
        = machine_budget signal_owes m"
  using assms
  by (auto elim!: good_machineE simp: signal_cancel_def signal_defs on_event_def
      split: SignalState.splits)

interpretation signal: driven_accountant signal_ops "\<lambda>_ sh. ssh_seq sh = seq"
  "\<lambda>ev. ev \<noteq> SignalEv_Cancel" resolve_signal_weight signal_owes "\<lambda>m _. signal_cancel m" for seq
  using signal_cancel_good by unfold_locales blast+

interpretation cancel_external_laws: adapted_machine cancel_external_ops "\<lambda>_ sh. ceh_seq sh = seq"
  "\<lambda>_. True" resolve_cancel_external_weight cancel_external_owes "(=)" for seq
  by unfold_locales
    (auto simp: cancel_external_defs Let_def
      split: CancelExternalState.splits CancelExternalEvent.splits if_splits option.splits
        Attributes.splits)

interpretation cancel_external: driven_accountant cancel_external_ops "\<lambda>_ sh. ceh_seq sh = seq"
  "\<lambda>_. True" resolve_cancel_external_weight cancel_external_owes "\<lambda>m _. (Ok [], m)" for seq
  by unfold_locales auto

lemma new_external_signal_Ok:
  "new_external_signal attrs ns = Ok nm \<Longrightarrow>
   nm_machine nm = \<lparr>sm_state = Some Signal_SignalExternalCommandCreated,
                    sm_shared = \<lparr>ssh_seq = sew_seq attrs\<rparr>\<rparr>"
  by (auto simp: new_external_signal_def expect_event_def from_parts_def on_event_def
      signal_arms_def Let_def split_beta split: option.splits)

lemma new_external_signal_not_Panic: "new_external_signal attrs ns \<noteq> Panic"
  by (auto simp: new_external_signal_def expect_event_def from_parts_def on_event_def
      signal_arms_def Let_def split_beta split: option.splits)

lemma new_external_cancel_Ok:
  "new_external_cancel seq we oc reason = Ok nm \<Longrightarrow>
   nm_machine nm = \<lparr>sm_state = Some CancelExt_RequestCancelExternalCommandCreated,
                    sm_shared = \<lparr>ceh_seq = seq\<rparr>\<rparr>"
  by (auto simp: new_external_cancel_def expect_event_def from_parts_def on_event_def
      cancel_external_arms_def)

section \<open>Properties\<close>

text \<open>A signal to an external workflow is resolved exactly once: at most one resolution along any
  run, exactly one once it has been signalled, has failed or was cancelled before being sent; and the
  panic in the adapter for its own cancellation is never reached.\<close>

theorem signal_resolves_exactly_once:
  assumes "new_external_signal attrs ns = Ok nm"
    and "run_result signal_step (nm_machine nm) inputs = Ok m"
  shows "sum_list (map resolve_signal_weight (run_responses signal_step (nm_machine nm) inputs)) =
    (if sm_state m \<in> {Some Signal_Cancelled, Some Signal_Signaled, Some Signal_Failed}
     then 1 else 0)"
  using new_external_signal_Ok [OF assms(1)]
    signal.account.run_accounts [of "sew_seq attrs" "nm_machine nm" inputs m]
    signal.contract.run_inv [of "sew_seq attrs" "nm_machine nm" inputs m] assms(2)
  by (auto simp: signal_owes_def machine_budget_def good_machine_def split: option.splits if_splits)

theorem signal_resolves_exactly_once_witness:
  "\<exists>nm m. new_external_signal \<lparr>sew_seq = 1, sew_target = Some (ST_ChildWorkflowId ''c''),
        sew_signal_name = ''s'', sew_args = [], sew_headers = []\<rparr> ''ns'' = Ok nm \<and>
     run_result signal_step (nm_machine nm) [In_Own ()] = Ok m \<and>
     sum_list (map resolve_signal_weight (run_responses signal_step (nm_machine nm) [In_Own ()])) = 1"
proof -
  let ?new = "new_external_signal \<lparr>sew_seq = 1, sew_target = Some (ST_ChildWorkflowId ''c''),
        sew_signal_name = ''s'', sew_args = [], sew_headers = []\<rparr> ''ns''"
  obtain nm where nm: "?new = Ok nm"
    by (simp add: new_external_signal_def expect_event_def from_parts_def on_event_def signal_arms_def)
  obtain m where m: "run_result signal_step (nm_machine nm) [In_Own ()] = Ok m"
      "sm_state m = Some Signal_Cancelled"
    using new_external_signal_Ok [OF nm] by (auto simp: signal_cancel_def signal_defs on_event_def)
  show ?thesis using nm m signal_resolves_exactly_once [OF nm m(1)] by auto
qed

text \<open>A request to cancel an external workflow is resolved exactly once: not before, and exactly
  once when it has reached a final state.\<close>

theorem cancel_external_resolves_exactly_once:
  assumes "new_external_cancel seq we only_child reason = Ok nm"
    and "run_result cancel_external_step (nm_machine nm) inputs = Ok m"
  shows "sum_list (map resolve_cancel_external_weight
           (run_responses cancel_external_step (nm_machine nm) inputs)) =
         (if has_reached_final_state cancel_external_is_final m =
             (Ok True :: bool result) then 1 else 0)"
  using new_external_cancel_Ok [OF assms(1)]
    cancel_external.account.run_accounts [of seq "nm_machine nm" inputs m]
    cancel_external.contract.run_inv [of seq "nm_machine nm" inputs m] assms(2)
  by (auto simp: cancel_external_owes_def machine_budget_def good_machine_def
      has_reached_final_state_def cancel_external_is_final_def split: option.splits if_splits)

theorem cancel_external_resolves_exactly_once_witness:
  "\<exists>nm m. new_external_cancel 1 \<lparr>nwe_namespace = ''n'', nwe_workflow_id = ''w'', nwe_run_id = ''r''\<rparr>
        False ''why'' = Ok nm \<and>
     run_result cancel_external_step (nm_machine nm)
       [In_Event (plain_event 5 E_RequestCancelExternalWorkflowExecutionInitiated None),
        In_Event (plain_event 6 E_ExternalWorkflowExecutionCancelRequested None)] = Ok m \<and>
     sum_list (map resolve_cancel_external_weight (run_responses cancel_external_step (nm_machine nm)
       [In_Event (plain_event 5 E_RequestCancelExternalWorkflowExecutionInitiated None),
        In_Event (plain_event 6 E_ExternalWorkflowExecutionCancelRequested None)])) = 1"
proof -
  let ?in = "[In_Event (plain_event 5 E_RequestCancelExternalWorkflowExecutionInitiated None),
        In_Event (plain_event 6 E_ExternalWorkflowExecutionCancelRequested None)]"
  obtain nm where nm: "new_external_cancel 1
      \<lparr>nwe_namespace = ''n'', nwe_workflow_id = ''w'', nwe_run_id = ''r''\<rparr> False ''why'' = Ok nm"
    by (simp add: new_external_cancel_def expect_event_def from_parts_def on_event_def
        cancel_external_arms_def)
  obtain m where m: "run_result cancel_external_step (nm_machine nm) ?in = Ok m"
      "sm_state m = Some CancelExt_CancelRequested"
    using new_external_cancel_Ok [OF nm] by (auto simp: machine_step_defs cancel_external_defs)
  show ?thesis
    using nm m cancel_external_resolves_exactly_once [OF nm m(1)]
    by (auto simp: has_reached_final_state_def cancel_external_is_final_def)
qed

end
