(* ===== verification/UpdateMachine.thy ===== *)
theory UpdateMachine
  imports Fsm
begin

text \<open>
  Workflow updates: the incoming protocol messages
  (\<^verbatim>\<open>crates/sdk-core/src/protosext/protocol_messages.rs\<close>) and the machine of one update
  (\<^verbatim>\<open>crates/sdk-core/src/worker/workflow/machines/update_state_machine.rs\<close>).

  The body of an outgoing message is its type URL and the bytes \<open>x_encode_update_msg\<close> makes of it.
\<close>

section \<open>Incoming protocol messages\<close>

text \<open>\<^verbatim>\<open>UpdateRequest\<close> is a request whose \<^verbatim>\<open>meta\<close> and \<^verbatim>\<open>input\<close> were found to be
  populated; its accessors panic otherwise.\<close>

type_synonym UpdateRequest = Request

record IncomingProtocolMessage =
  ipm_id :: string
  ipm_protocol_instance_id :: string
  ipm_sequencing_id :: "SequencingId option"
  ipm_body :: UpdateRequest

datatype ProtocolMessageError = NoInput | NoMeta | NoRequest | NotAnUpdateEvent

definition processable_after_event_id :: "IncomingProtocolMessage \<Rightarrow> i64 option" where
  "processable_after_event_id m =
     (case ipm_sequencing_id m of
        None \<Rightarrow> Some 0
      | Some (SeqEventId eid) \<Rightarrow> Some eid
      | Some (SeqCommandIndex _) \<Rightarrow> None)"

definition UpdateRequest_try_from :: "Request \<Rightarrow> (UpdateRequest, ProtocolMessageError) res" where
  "UpdateRequest_try_from r =
     (if rq_input r = None then Err NoInput
      else if rq_meta r = None then Err NoMeta
      else Ok r)"

definition IncomingProtocolMessage_try_from_event ::
  "HistoryEvent \<Rightarrow> (IncomingProtocolMessage, ProtocolMessageError) res" where
  "IncomingProtocolMessage_try_from_event event =
     (case he_attributes event of
        Some (A_WorkflowExecutionUpdateAdmitted request) \<Rightarrow>
          res_bind (ok_or request NoRequest) (\<lambda>request.
          res_bind (ok_or (rq_meta request) NoMeta) (\<lambda>meta.
          let protocol_instance_id = upm_update_id meta in
          res_bind (UpdateRequest_try_from request) (\<lambda>ur.
          Ok \<lparr>ipm_id = protocol_instance_id @ ''/request'',
              ipm_protocol_instance_id = protocol_instance_id,
              ipm_sequencing_id = Some (SeqEventId (he_event_id event)),
              ipm_body = ur\<rparr>)))
      | Some (A_WorkflowExecutionUpdateAccepted atts) \<Rightarrow>
          res_bind (ok_or (wua_accepted_request atts) NoRequest) (\<lambda>request.
          res_bind (UpdateRequest_try_from request) (\<lambda>ur.
          Ok \<lparr>ipm_id = wua_accepted_request_message_id atts,
              ipm_protocol_instance_id = wua_protocol_instance_id atts,
              ipm_sequencing_id = Some (SeqEventId (wua_accepted_request_sequencing_event_id atts)),
              ipm_body = ur\<rparr>))
      | _ \<Rightarrow> Err NotAnUpdateEvent)"

definition UpdateRequest_meta :: "UpdateRequest \<Rightarrow> UpdateMeta result" where
  "UpdateRequest_meta r = (case rq_meta r of Some m \<Rightarrow> Ok m | None \<Rightarrow> Panic)"

definition UpdateRequest_name :: "UpdateRequest \<Rightarrow> string result" where
  "UpdateRequest_name r = (case rq_input r of Some i \<Rightarrow> Ok (upi_name i) | None \<Rightarrow> Panic)"

definition UpdateRequest_headers :: "UpdateRequest \<Rightarrow> (string \<rightharpoonup> Payload) result" where
  "UpdateRequest_headers r =
     (case rq_input r of Some i \<Rightarrow> Ok (unwrap_or (upi_header i) Map.empty) | None \<Rightarrow> Panic)"

definition UpdateRequest_input :: "UpdateRequest \<Rightarrow> Payload list result" where
  "UpdateRequest_input r =
     (case rq_input r of Some i \<Rightarrow> Ok (unwrap_or (upi_args i) []) | None \<Rightarrow> Panic)"

section \<open>The machine\<close>

datatype UpdateState = Update_RequestInitiated Request | Update_Accepted
  | Update_AcceptCommandCreated | Update_AcceptCommandRecorded | Update_Completed
  | Update_CompletedCommandCreated | Update_CompletedCommandRecorded | Update_Rejected
  | Update_CompletedImmediately | Update_CompletedImmediatelyAcceptCreated
  | Update_CompletedImmediatelyCompleteCreated

datatype UpdateEvent = UpdateEv_Accept | UpdateEv_Reject Failure | UpdateEv_Complete Payload
  | UpdateEv_CommandProtocolMessage | UpdateEv_WorkflowExecutionUpdateAccepted
  | UpdateEv_WorkflowExecutionUpdateCompleted

datatype UpdateMachineCommand = UpdateCmd_Accept Request | UpdateCmd_Reject Request Failure
  | UpdateCmd_Complete Payload | UpdateCmd_Fail Failure

record UpdateShared =
  ush_message_id :: string
  ush_instance_id :: string
  ush_event_seq_id :: i64
  ush_meta :: UpdateMeta

type_synonym UpdateMachine = "(UpdateState, UpdateShared) StateMachine"

record NewUpdateMachine =
  num_machine :: UpdateMachine
  num_response :: MachineResponse

definition update_init ::
  "string \<Rightarrow> string \<Rightarrow> i64 \<Rightarrow> UpdateRequest \<Rightarrow> bool \<Rightarrow> NewUpdateMachine result" where
  "update_init message_id instance_id event_seq_id request replaying =
     res_bind (UpdateRequest_meta request) (\<lambda>meta.
     res_bind (UpdateRequest_name request) (\<lambda>name.
     res_bind (UpdateRequest_input request) (\<lambda>input.
     res_bind (UpdateRequest_headers request) (\<lambda>headers.
     Ok \<lparr>num_machine = from_parts (Update_RequestInitiated request)
           \<lparr>ush_message_id = message_id, ush_instance_id = instance_id,
            ush_event_seq_id = event_seq_id, ush_meta = meta\<rparr>,
         num_response = PushWFJob (J_DoUpdate
           \<lparr>du_id = upm_update_id meta, du_protocol_instance_id = instance_id, du_name = name,
            du_input = input, du_headers = headers, du_meta = Some meta,
            du_run_validator = (\<not> replaying),
            du_propagated_nexus_serialization_context =
              rq_propagated_nexus_serialization_context request\<rparr>)\<rparr>))))"

definition update_arms :: "(UpdateState, UpdateShared, UpdateEvent, UpdateMachineCommand) arms" where
  "update_arms st sh ev =
     (case st of
        Update_RequestInitiated original_request \<Rightarrow>
          (case ev of
             UpdateEv_Accept \<Rightarrow>
               arm_pure (tr_commands [UpdateCmd_Accept original_request] Update_Accepted) sh
           | UpdateEv_Reject fail \<Rightarrow>
               arm_pure (tr_commands [UpdateCmd_Reject original_request fail] Update_Rejected) sh
           | _ \<Rightarrow> None)
      | Update_Accepted \<Rightarrow>
          (case ev of
             UpdateEv_Complete p \<Rightarrow>
               arm_pure (tr_commands [UpdateCmd_Complete p] Update_CompletedImmediately) sh
           | UpdateEv_Reject f \<Rightarrow>
               arm_pure (tr_commands [UpdateCmd_Fail f] Update_CompletedImmediately) sh
           | UpdateEv_CommandProtocolMessage \<Rightarrow> arm_default Update_AcceptCommandCreated sh
           | _ \<Rightarrow> None)
      | Update_AcceptCommandCreated \<Rightarrow>
          (case ev of
             UpdateEv_WorkflowExecutionUpdateAccepted \<Rightarrow>
               arm_default Update_AcceptCommandRecorded sh
           | UpdateEv_Complete p \<Rightarrow>
               arm_pure (tr_commands [UpdateCmd_Complete p]
                 Update_CompletedImmediatelyAcceptCreated) sh
           | UpdateEv_Reject f \<Rightarrow>
               arm_pure (tr_commands [UpdateCmd_Fail f] Update_CompletedImmediatelyAcceptCreated) sh
           | _ \<Rightarrow> None)
      | Update_AcceptCommandRecorded \<Rightarrow>
          (case ev of
             UpdateEv_Complete p \<Rightarrow>
               arm_pure (tr_commands [UpdateCmd_Complete p] Update_Completed) sh
           | UpdateEv_Reject f \<Rightarrow> arm_pure (tr_commands [UpdateCmd_Fail f] Update_Completed) sh
           | _ \<Rightarrow> None)
      | Update_Completed \<Rightarrow>
          (case ev of
             UpdateEv_CommandProtocolMessage \<Rightarrow> arm_default Update_CompletedCommandCreated sh
           | _ \<Rightarrow> None)
      | Update_CompletedCommandCreated \<Rightarrow>
          (case ev of
             UpdateEv_WorkflowExecutionUpdateCompleted \<Rightarrow>
               arm_default Update_CompletedCommandRecorded sh
           | _ \<Rightarrow> None)
      | Update_CompletedImmediately \<Rightarrow>
          (case ev of
             UpdateEv_CommandProtocolMessage \<Rightarrow>
               arm_default Update_CompletedImmediatelyAcceptCreated sh
           | _ \<Rightarrow> None)
      | Update_CompletedImmediatelyAcceptCreated \<Rightarrow>
          (case ev of
             UpdateEv_CommandProtocolMessage \<Rightarrow>
               arm_default Update_CompletedImmediatelyCompleteCreated sh
           | _ \<Rightarrow> None)
      | Update_CompletedImmediatelyCompleteCreated \<Rightarrow>
          (case ev of
             UpdateEv_WorkflowExecutionUpdateAccepted \<Rightarrow>
               arm_default Update_CompletedCommandCreated sh
           | _ \<Rightarrow> None)
      | Update_CompletedCommandRecorded \<Rightarrow> None
      | Update_Rejected \<Rightarrow> None)"

definition update_is_final :: "UpdateState \<Rightarrow> bool" where
  "update_is_final st \<longleftrightarrow> st \<in> {Update_CompletedCommandRecorded, Update_Rejected}"

definition update_from_command :: "CommandType \<Rightarrow> UpdateEvent option" where
  "update_from_command c =
     (if c = C_ProtocolMessage then Some UpdateEv_CommandProtocolMessage else None)"

definition update_from_event :: "HistEventData \<Rightarrow> UpdateEvent result" where
  "update_from_event d =
     (let et = he_event_type (hed_event d)
      in if et = E_WorkflowExecutionUpdateAccepted
         then Ok UpdateEv_WorkflowExecutionUpdateAccepted
         else if et = E_WorkflowExecutionUpdateCompleted
         then Ok UpdateEv_WorkflowExecutionUpdateCompleted
         else Err (Nondeterminism EventNotHandled))"

fun update_msg_type_url :: "UpdateMsg \<Rightarrow> string" where
  "update_msg_type_url (UM_Accept _ _ _) = ''type.googleapis.com/temporal.api.update.v1.Acceptance''"
| "update_msg_type_url (UM_Reject _ _ _ _) = ''type.googleapis.com/temporal.api.update.v1.Rejection''"
| "update_msg_type_url (UM_Response _ _) = ''type.googleapis.com/temporal.api.update.v1.Response''"

definition pack_update_msg :: "externals \<Rightarrow> UpdateMsg \<Rightarrow> (string \<times> bytes) option" where
  "pack_update_msg X msg = map_option (\<lambda>b. (update_msg_type_url msg, b)) (x_encode_update_msg X msg)"

definition update_build_msg ::
  "externals \<Rightarrow> UpdateShared \<Rightarrow> string \<Rightarrow> UpdateMsg \<Rightarrow> MachineResponse result" where
  "update_build_msg X sh outgoing_id msg =
     (case pack_update_msg X msg of
        None \<Rightarrow> Err (Fatal MessageEncoding)
      | Some body \<Rightarrow> Ok (IssueNewMessage
          \<lparr>pm_id = outgoing_id, pm_protocol_instance_id = ush_instance_id sh,
           pm_body = Some body\<rparr>))"

definition update_build_command_msg ::
  "externals \<Rightarrow> UpdateShared \<Rightarrow> string \<Rightarrow> UpdateMsg \<Rightarrow> MachineResponse list result" where
  "update_build_command_msg X sh outgoing_id msg =
     res_bind (update_build_msg X sh outgoing_id msg) (\<lambda>m.
     res_bind (Command_from_attributes (CA_ProtocolMessage outgoing_id)) (\<lambda>c.
     Ok [m, IssueNewCommand c]))"

fun update_adapt_response ::
  "externals \<Rightarrow> UpdateMachine \<Rightarrow> UpdateMachineCommand \<Rightarrow> EventInfo option \<Rightarrow>
   MachineResponse list result" where
  "update_adapt_response X m (UpdateCmd_Accept orig) _ =
     update_build_command_msg X (sm_shared m) (ush_message_id (sm_shared m) @ ''/accept'')
       (UM_Accept (ush_message_id (sm_shared m)) (ush_event_seq_id (sm_shared m)) (Some orig))"
| "update_adapt_response X m (UpdateCmd_Reject orig fail) _ =
     res_map (\<lambda>r. [r]) (update_build_msg X (sm_shared m)
       (ush_message_id (sm_shared m) @ ''/reject'')
       (UM_Reject (ush_message_id (sm_shared m)) (ush_event_seq_id (sm_shared m)) (Some orig)
          (Some fail)))"
| "update_adapt_response X m (UpdateCmd_Complete p) _ =
     update_build_command_msg X (sm_shared m) (ush_message_id (sm_shared m) @ ''/complete'')
       (UM_Response (Some (ush_meta (sm_shared m))) (Some (OV_Success [p])))"
| "update_adapt_response X m (UpdateCmd_Fail f) _ =
     update_build_command_msg X (sm_shared m) (ush_message_id (sm_shared m) @ ''/complete'')
       (UM_Response (Some (ush_meta (sm_shared m))) (Some (OV_Failure f)))"

definition update_ops ::
  "externals \<Rightarrow> (UpdateState, UpdateShared, UpdateEvent, UpdateMachineCommand) machine_ops" where
  "update_ops X = \<lparr>op_arms = update_arms, op_from_command = update_from_command,
     op_from_event = update_from_event, op_adapt_response = update_adapt_response X\<rparr>"

definition update_handle_response ::
  "externals \<Rightarrow> UpdateMachine \<Rightarrow> UpdateResponseKind option \<Rightarrow>
   MachineResponse list result \<times> UpdateMachine" where
  "update_handle_response X self resp =
     (case resp of
        None \<Rightarrow> (Err (Fatal MissingField), self)
      | Some kind \<Rightarrow>
          (let event = (case kind of
                 UR_Accepted \<Rightarrow> UpdateEv_Accept
               | UR_Rejected f \<Rightarrow> UpdateEv_Reject f
               | UR_Completed p \<Rightarrow> UpdateEv_Complete p)
           in case on_event update_arms self event of
                (Ok cmds, self) \<Rightarrow>
                  (concat_res (\<lambda>c. update_adapt_response X self c None) cmds, self)
              | (Err InvalidTransition, self) \<Rightarrow>
                  (invalid_transition_err self (Nondeterminism EventTransitionInvalid), self)
              | (Err (Underlying e), self) \<Rightarrow> (Err e, self)
              | (Panic, self) \<Rightarrow> (Panic, self)))"

section \<open>Runs of an update\<close>

abbreviation update_step ::
  "externals \<Rightarrow> UpdateMachine \<Rightarrow> UpdateResponseKind option MachineInput \<Rightarrow>
   MachineResponse list result \<times> UpdateMachine" where
  "update_step X \<equiv> drive (update_ops X) (update_handle_response X)"

definition has_type_url :: "UpdateMsg \<Rightarrow> MachineResponse \<Rightarrow> bool" where
  "has_type_url msg r = (case r of
     IssueNewMessage p \<Rightarrow> (case pm_body p of
        Some (url, _) \<Rightarrow> url = update_msg_type_url msg | None \<Rightarrow> False)
   | _ \<Rightarrow> False)"

text \<open>Acceptances and rejections weigh 1 in the first, responses in the second.\<close>

definition update_verdict_weight :: "MachineResponse \<Rightarrow> nat" where
  "update_verdict_weight r =
     (if has_type_url (UM_Accept [] 0 None) r \<or> has_type_url (UM_Reject [] 0 None None) r
      then 1 else 0)"

definition update_response_weight :: "MachineResponse \<Rightarrow> nat" where
  "update_response_weight r = (if has_type_url (UM_Response None None) r then 1 else 0)"

definition update_verdict_open :: "UpdateState \<Rightarrow> UpdateShared \<Rightarrow> nat" where
  "update_verdict_open st sh = (case st of Update_RequestInitiated _ \<Rightarrow> 1 | _ \<Rightarrow> 0)"

definition update_response_open :: "UpdateState \<Rightarrow> UpdateShared \<Rightarrow> nat" where
  "update_response_open st sh =
     (case st of Update_RequestInitiated _ \<Rightarrow> 1 | Update_Accepted \<Rightarrow> 1
      | Update_AcceptCommandCreated \<Rightarrow> 1 | Update_AcceptCommandRecorded \<Rightarrow> 1 | _ \<Rightarrow> 0)"

lemmas update_defs = update_arms_def update_from_command_def update_from_event_def update_ops_def
  update_build_command_msg_def update_build_msg_def pack_update_msg_def Command_from_attributes_def

lemmas update_run_defs = update_verdict_weight_def update_response_weight_def has_type_url_def
  update_verdict_open_def update_response_open_def

lemmas update_splits = UpdateState.splits UpdateEvent.splits if_splits option.splits

lemma update_not_final: "\<not> update_is_final st \<Longrightarrow> \<exists>ev. update_arms st sh ev \<noteq> None"
  by (cases st) (auto simp: update_is_final_def update_arms_def intro: exI [of _ UpdateEv_Accept]
      exI [of _ "UpdateEv_Reject Failure_default"] exI [of _ UpdateEv_CommandProtocolMessage]
      exI [of _ UpdateEv_WorkflowExecutionUpdateAccepted]
      exI [of _ UpdateEv_WorkflowExecutionUpdateCompleted])

interpretation update_fsm: fsm_final update_arms update_is_final
proof
  fix st
  have "update_is_final st \<Longrightarrow> update_arms st sh ev = None" for sh ev
    by (auto simp: update_is_final_def update_arms_def)
  then show "update_is_final st \<longleftrightarrow> (\<forall>sh ev. update_arms st sh ev = None)"
    using update_not_final [of st] by metis
qed

interpretation update_verdict_laws: adapted_machine "update_ops X" "\<lambda>_ _. True" "\<lambda>_. True"
  update_verdict_weight update_verdict_open "(\<le>)" for X
  by unfold_locales
    (auto simp: update_defs update_run_defs Let_def split: update_splits)

interpretation update_response_laws: adapted_machine "update_ops X" "\<lambda>_ _. True" "\<lambda>_. True"
  update_response_weight update_response_open "(\<le>)" for X
  by unfold_locales
    (auto simp: update_defs update_run_defs Let_def split: update_splits)

lemma update_handle_response_raise:
  "update_handle_response X m resp =
     (case resp of
        None \<Rightarrow> (Err (Fatal MissingField), m)
      | Some kind \<Rightarrow>
          (let ev = (case kind of UR_Accepted \<Rightarrow> UpdateEv_Accept
                     | UR_Rejected f \<Rightarrow> UpdateEv_Reject f | UR_Completed p \<Rightarrow> UpdateEv_Complete p)
           in case on_event update_arms m ev of
                (Err InvalidTransition, m') \<Rightarrow>
                  (invalid_transition_err m' (Nondeterminism EventTransitionInvalid), m')
              | _ \<Rightarrow> raise_event (update_ops X) m ev))"
  by (auto simp: update_handle_response_def raise_event_def process_machine_commands_def
      update_ops_def Let_def split: option.splits prod.splits res.splits MachineError.splits)

lemma update_handle_response_OkD:
  "update_handle_response X m resp = (Ok rs, m') \<Longrightarrow>
   \<exists>ev. raise_event (update_ops X) m ev = (Ok rs, m')"
  by (auto simp: update_handle_response_raise invalid_transition_err_def Let_def
      split: option.splits prod.splits res.splits MachineError.splits if_splits)

lemma update_handle_response_no_panic:
  assumes "good_machine (\<lambda>_ _. True) m"
  shows "fst (update_handle_response X m resp) \<noteq> Panic"
proof -
  have "fst (raise_event (update_ops X) m ev) \<noteq> Panic" for ev
    using assms by (rule update_verdict_laws.raise_event_no_panic) simp
  then show ?thesis
    using assms by (auto simp: update_handle_response_raise invalid_transition_err_def Let_def
        good_machine_def dest: on_event_invalid_unchanged
        split: option.splits prod.splits res.splits MachineError.splits)
qed

interpretation update_verdict: driven_spender "update_ops X" "\<lambda>_ _. True" "\<lambda>_. True"
  update_verdict_weight update_verdict_open "update_handle_response X" for X
  by unfold_locales
    (blast dest: update_handle_response_OkD update_verdict_laws.raise_event_good
      | metis update_handle_response_no_panic)+

interpretation update_response: driven_spender "update_ops X" "\<lambda>_ _. True" "\<lambda>_. True"
  update_response_weight update_response_open "update_handle_response X" for X
  by unfold_locales
    (blast dest: update_handle_response_OkD update_response_laws.raise_event_good
      | metis update_handle_response_no_panic)+

lemma update_init_Ok:
  "update_init mid iid seq r replaying = Ok nm \<Longrightarrow>
   \<exists>sh. num_machine nm = \<lparr>sm_state = Some (Update_RequestInitiated r), sm_shared = sh\<rparr> \<and>
     ush_message_id sh = mid \<and> ush_instance_id sh = iid"
  by (auto simp: update_init_def res_bind_eq_Ok from_parts_def)

definition sample_request :: Request where
  "sample_request = \<lparr>rq_meta = Some \<lparr>upm_update_id = ''u'', upm_identity = ''me''\<rparr>,
     rq_input = Some \<lparr>upi_header = None, upi_name = ''n'', upi_args = None\<rparr>,
     rq_propagated_nexus_serialization_context = []\<rparr>"

definition update_lifecycles :: "Payload \<Rightarrow> UpdateResponseKind option MachineInput list list" where
  "update_lifecycles p =
     (let acc = In_Own (Some UR_Accepted); com = In_Own (Some (UR_Completed p));
          cmd = In_Command C_ProtocolMessage;
          ev_acc = In_Event (plain_event 8 E_WorkflowExecutionUpdateAccepted None);
          ev_com = In_Event (plain_event 9 E_WorkflowExecutionUpdateCompleted None)
      in [[acc, com, cmd, cmd, ev_acc, ev_com],
          [acc, cmd, com, cmd, ev_acc, ev_com],
          [acc, cmd, ev_acc, com, cmd, ev_com]])"

section \<open>Properties\<close>

text \<open>C22: an update is answered at most once in each of its two phases: along any run of responses
  from the language side, commands and history events, at most one acceptance or rejection and at
  most one response message go out, and nothing panics.\<close>

theorem update_answers_at_most_once:
  assumes "update_init mid iid seq r replaying = Ok nm"
  shows "sum_list (map update_verdict_weight
             (run_responses (update_step X) (num_machine nm) inputs)) \<le> 1 \<and>
         sum_list (map update_response_weight
             (run_responses (update_step X) (num_machine nm) inputs)) \<le> 1 \<and>
         run_result (update_step X) (num_machine nm) inputs \<noteq> Panic"
proof -
  have good: "good_machine (\<lambda>_ _. True) (num_machine nm)"
    "machine_budget update_verdict_open (num_machine nm) = 1"
    "machine_budget update_response_open (num_machine nm) = 1"
    using update_init_Ok [OF assms] by (auto simp: update_run_defs)
  show ?thesis
    using update_verdict.spender.run_spends [OF good(1), of X inputs]
      update_response.spender.run_spends [OF good(1), of X inputs]
      update_verdict.contract.run_no_panic [OF good(1), of X inputs] good(2,3) by simp
qed

theorem update_answers_at_most_once_witness:
  "\<exists>nm. update_init ''m'' ''i'' 3 sample_request False = Ok nm \<and>
     sum_list (map update_response_weight (run_responses (update_step sample_externals)
       (num_machine nm) [In_Own (Some UR_Accepted), In_Own (Some (UR_Completed Payload_default)),
          In_Own (Some (UR_Completed Payload_default))])) \<le> 1"
proof -
  obtain nm where "update_init ''m'' ''i'' 3 sample_request False = Ok nm"
    by (simp add: update_init_def UpdateRequest_meta_def UpdateRequest_name_def
        UpdateRequest_headers_def UpdateRequest_input_def sample_request_def)
  with update_answers_at_most_once [OF this] show ?thesis by blast
qed

text \<open>the accessors of an update request never panic on a message built from history: whenever
  an update-admitted or update-accepted event is turned into a protocol message, an update machine
  can be started from it.\<close>

theorem update_init_from_event:
  assumes "IncomingProtocolMessage_try_from_event e = Ok msg"
  shows "\<exists>nm. update_init (ipm_id msg) (ipm_protocol_instance_id msg) seq (ipm_body msg) replaying
           = Ok nm"
  using assms
  by (auto simp: IncomingProtocolMessage_try_from_event_def UpdateRequest_try_from_def
      res_bind_eq_Ok update_init_def UpdateRequest_meta_def UpdateRequest_name_def
      UpdateRequest_headers_def UpdateRequest_input_def Let_def
      split: option.splits Attributes.splits if_splits)

theorem update_init_from_event_witness:
  "\<exists>msg nm. IncomingProtocolMessage_try_from_event
       (hed_event (plain_event 7 E_WorkflowExecutionUpdateAdmitted
          (Some (A_WorkflowExecutionUpdateAdmitted (Some sample_request))))) = Ok msg \<and>
     ipm_id msg = ''u/request'' \<and> ipm_sequencing_id msg = Some (SeqEventId 7) \<and>
     update_init (ipm_id msg) (ipm_protocol_instance_id msg) 7 (ipm_body msg) True = Ok nm"
proof -
  obtain msg where msg: "IncomingProtocolMessage_try_from_event
       (hed_event (plain_event 7 E_WorkflowExecutionUpdateAdmitted
          (Some (A_WorkflowExecutionUpdateAdmitted (Some sample_request))))) = Ok msg"
      "ipm_id msg = ''u/request''" "ipm_sequencing_id msg = Some (SeqEventId 7)"
    by (simp add: IncomingProtocolMessage_try_from_event_def UpdateRequest_try_from_def
        sample_request_def Let_def)
  show ?thesis using update_init_from_event [OF msg(1)] msg by blast
qed

text \<open>However the language side interleaves its answers with the sending of the acceptance, an
  accepted and completed update ends recorded.  Completing in the activation that accepted it,
  after the acceptance command was created, or after the acceptance was recorded all lead from a
  fresh request to the final state, with one acceptance and one response sent.\<close>

theorem update_lifecycle_completes:
  assumes "update_init mid iid seq r replaying = Ok nm"
    and "\<And>msg. x_encode_update_msg X msg \<noteq> None"
    and "inputs \<in> set (update_lifecycles p)"
  shows "\<exists>m. run_result (update_step X) (num_machine nm) inputs = Ok m \<and>
     sm_state m = Some Update_CompletedCommandRecorded \<and>
     sum_list (map update_verdict_weight (run_responses (update_step X) (num_machine nm) inputs)) = 1 \<and>
     sum_list (map update_response_weight (run_responses (update_step X) (num_machine nm) inputs)) = 1"
proof -
  obtain sh where m: "num_machine nm = \<lparr>sm_state = Some (Update_RequestInitiated r), sm_shared = sh\<rparr>"
    using update_init_Ok [OF assms(1)] by blast
  define enc where "enc msg = the (x_encode_update_msg X msg)" for msg
  have enc: "x_encode_update_msg X msg = Some (enc msg)" for msg
    using assms(2) by (simp add: enc_def)
  show ?thesis
    using assms(3)
    by (auto simp: update_lifecycles_def m machine_step_defs update_defs update_run_defs enc Let_def
        update_handle_response_def)
qed

theorem update_lifecycle_completes_witness:
  "\<exists>nm m inputs. update_init ''m'' ''i'' 3 sample_request False = Ok nm \<and>
     inputs \<in> set (update_lifecycles Payload_default) \<and>
     run_result (update_step sample_externals) (num_machine nm) inputs = Ok m \<and>
     sm_state m = Some Update_CompletedCommandRecorded"
proof -
  obtain nm where nm: "update_init ''m'' ''i'' 3 sample_request False = Ok nm"
    by (simp add: update_init_def UpdateRequest_meta_def UpdateRequest_name_def
        UpdateRequest_headers_def UpdateRequest_input_def sample_request_def)
  have "hd (update_lifecycles Payload_default) \<in> set (update_lifecycles Payload_default)"
    by (simp add: update_lifecycles_def Let_def)
  with update_lifecycle_completes [OF nm, of sample_externals] nm show ?thesis
    by (fastforce simp: sample_externals_def)
qed

end
