(* ===== verification/NexusOperationMachine.thy ===== *)
theory NexusOperationMachine
  imports Fsm
begin

text \<open>
  Nexus operations, \<^verbatim>\<open>nexus_operation_state_machine.rs\<close> of
  \<^verbatim>\<open>crates/sdk-core/src/worker/workflow/machines\<close>.  Two promises are owed to the language
  side: how the start went, and how the operation ended.
\<close>

section \<open>The machine\<close>

datatype NexusState = Nex_ScheduleCommandCreated | Nex_ScheduledEventRecorded | Nex_Started
  | Nex_Completed | Nex_Failed | Nex_TimedOut | Nex_Cancelled

record NexusOpScheduledData =
  nsd_event_id :: i64
  nsd_service :: string
  nsd_operation :: string
  nsd_last_task_in_history :: bool

datatype NexusEvent = NexEv_CommandScheduleNexusOperation
  | NexEv_NexusOperationScheduled NexusOpScheduledData
  | NexEv_Cancel
  | NexEv_CommandRequestCancelNexusOperation
  | NexEv_NexusOperationCancelRequested
  | NexEv_NexusOperationCompleted "Payload option"
  | NexEv_NexusOperationFailed "Failure option"
  | NexEv_NexusOperationCanceled "Failure option"
  | NexEv_NexusOperationTimedOut "Failure option"
  | NexEv_NexusOperationStarted string
  | NexEv_NexusOperationCancelRequestCompleted
  | NexEv_NexusOperationCancelRequestFailed "Failure option"

datatype NexusOperationCommand = NexCmd_Start string | NexCmd_StartSync
  | NexCmd_FailBeforeStart Failure | NexCmd_Complete "Payload option" | NexCmd_Fail Failure
  | NexCmd_Cancel Failure | NexCmd_TimedOut Failure | NexCmd_IssueCancel

record NexusShared =
  nsh_lang_seq_num :: u32
  nsh_scheduled_event_id :: i64
  nsh_endpoint :: string
  nsh_service :: string
  nsh_operation :: string
  nsh_internal_flags :: InternalFlags
  nsh_cancelled_before_sent :: bool
  nsh_cancel_sent :: bool
  nsh_cancel_type :: NexusOperationCancellationType
  nsh_operation_token :: "string option"
  nsh_annotations :: CommandAnnotations

type_synonym NexusOperationMachine = "(NexusState, NexusShared) StateMachine"
type_synonym nexus_tr = "(NexusOperationCommand, NexusState, WFMachinesError) TransitionResult"

definition nexus_failure :: "NexusShared \<Rightarrow> string \<Rightarrow> Failure \<Rightarrow> Failure" where
  "nexus_failure self message cause =
     Failure message (Some cause) (Some (FI_NexusOperationExecution
       \<lparr>nfi_scheduled_event_id = nsh_scheduled_event_id self, nfi_endpoint = nsh_endpoint self,
        nfi_service = nsh_service self, nfi_operation = nsh_operation self,
        nfi_operation_token = unwrap_or (nsh_operation_token self) []\<rparr>)) []"

definition nexus_cancelled_failure :: "NexusShared \<Rightarrow> string \<Rightarrow> Failure" where
  "nexus_cancelled_failure self message =
     nexus_failure self message (Failure [] None (Some (FI_Canceled None [])) [])"

section \<open>Handlers\<close>

definition nexus_on_scheduled ::
  "NexusShared \<Rightarrow> NexusOpScheduledData \<Rightarrow> nexus_tr \<times> NexusShared" where
  "nexus_on_scheduled state event_dat =
     (let (use, flags) = try_use NexusOperationDeterminismChecks (nsd_last_task_in_history event_dat)
                           (nsh_internal_flags state);
          state = state\<lparr>nsh_internal_flags := flags\<rparr>
      in if use \<and> nsd_service event_dat \<noteq> nsh_service state
         then (TrErr (Nondeterminism ServiceMismatch), state)
         else if use \<and> nsd_operation event_dat \<noteq> nsh_operation state
         then (TrErr (Nondeterminism OperationMismatch), state)
         else (tr_default Nex_ScheduledEventRecorded,
               state\<lparr>nsh_scheduled_event_id := nsd_event_id event_dat\<rparr>))"

definition nexus_ScheduleCommandCreated_on_cancelled ::
  "NexusShared \<Rightarrow> nexus_tr \<times> NexusShared" where
  "nexus_ScheduleCommandCreated_on_cancelled state =
     (let state = state\<lparr>nsh_cancelled_before_sent := True\<rparr>
      in (tr_commands [NexCmd_FailBeforeStart
            (nexus_cancelled_failure state ''Nexus Operation cancelled before scheduled'')]
            Nex_Cancelled, state))"

definition nexus_ScheduledEventRecorded_on_issue_cancel ::
  "NexusShared \<Rightarrow> nexus_tr \<times> NexusShared" where
  "nexus_ScheduledEventRecorded_on_issue_cancel ss =
     (if \<not> nsh_cancel_sent ss
      then (tr_commands [NexCmd_IssueCancel] Nex_ScheduledEventRecorded,
            ss\<lparr>nsh_cancel_sent := True\<rparr>)
      else (tr_default Nex_ScheduledEventRecorded, ss))"

definition nexus_missing_failure :: "string \<Rightarrow> Failure option \<Rightarrow> Failure" where
  "nexus_missing_failure message f = unwrap_or f (Failure message None None [])"

definition nexus_failed_msg :: string where
  "nexus_failed_msg = ''Nexus operation failed but failure field was not populated''"

definition nexus_canceled_msg :: string where
  "nexus_canceled_msg = ''Nexus operation was cancelled but failure field was not populated''"

definition nexus_timed_out_msg :: string where
  "nexus_timed_out_msg = ''Nexus operation timed out but failure field was not populated''"

definition nexus_ScheduledEventRecorded_on_started ::
  "NexusShared \<Rightarrow> string \<Rightarrow> nexus_tr \<times> NexusShared" where
  "nexus_ScheduledEventRecorded_on_started ss token =
     (tr_commands [NexCmd_Start token] Nex_Started, ss\<lparr>nsh_operation_token := Some token\<rparr>)"

definition nexus_Started_on_issue_cancel :: "NexusShared \<Rightarrow> nexus_tr \<times> NexusShared" where
  "nexus_Started_on_issue_cancel ss =
     (if \<not> nsh_cancel_sent ss then
        let ss = ss\<lparr>nsh_cancel_sent := True\<rparr>;
            dest = (if nsh_cancel_type ss \<in> {NCT_Abandon, NCT_TryCancel}
                    then Nex_Cancelled else Nex_Started)
        in (tr_commands [NexCmd_IssueCancel] dest, ss)
      else (tr_default Nex_Started, ss))"

definition nexus_Started_on_cancel_request_completed ::
  "NexusShared \<Rightarrow> nexus_tr \<times> NexusShared" where
  "nexus_Started_on_cancel_request_completed ss =
     (if nsh_cancel_type ss = NCT_WaitCancellationRequested
      then (tr_commands [NexCmd_Cancel
              (nexus_cancelled_failure ss ''Nexus operation cancellation request completed'')]
              Nex_Cancelled, ss)
      else (tr_default Nex_Started, ss))"

definition nexus_Started_on_cancel_request_failed ::
  "NexusShared \<Rightarrow> Failure option \<Rightarrow> nexus_tr \<times> NexusShared" where
  "nexus_Started_on_cancel_request_failed ss fa =
     (if nsh_cancel_type ss = NCT_WaitCancellationRequested then
        let message = ''Nexus operation cancellation request failed''
        in (tr_commands [NexCmd_Fail (nexus_failure ss message (nexus_missing_failure message fa))]
              Nex_Started, ss)
      else (tr_default Nex_Started, ss))"

text \<open>\<^verbatim>\<open>Cancelled::on_completed\<close>, \<^verbatim>\<open>on_failed\<close> and \<^verbatim>\<open>on_timed_out\<close>, which share
  their body.\<close>

definition nexus_Cancelled_on_closed :: "NexusShared \<Rightarrow> nexus_tr \<times> NexusShared" where
  "nexus_Cancelled_on_closed ss =
     (if nsh_cancel_type ss = NCT_Abandon
      then (TrErr (Nondeterminism UnexpectedCompletion), ss)
      else (tr_default Nex_Cancelled, ss))"

definition nexus_arms :: "(NexusState, NexusShared, NexusEvent, NexusOperationCommand) arms" where
  "nexus_arms st sh ev =
     (case st of
        Nex_ScheduleCommandCreated \<Rightarrow>
          (case ev of
             NexEv_CommandScheduleNexusOperation \<Rightarrow> arm_default Nex_ScheduleCommandCreated sh
           | NexEv_NexusOperationScheduled d \<Rightarrow> Some (nexus_on_scheduled sh d)
           | NexEv_Cancel \<Rightarrow> Some (nexus_ScheduleCommandCreated_on_cancelled sh)
           | _ \<Rightarrow> None)
      | Nex_ScheduledEventRecorded \<Rightarrow>
          (case ev of
             NexEv_Cancel \<Rightarrow> Some (nexus_ScheduledEventRecorded_on_issue_cancel sh)
           | NexEv_CommandRequestCancelNexusOperation \<Rightarrow> arm_default Nex_ScheduledEventRecorded sh
           | NexEv_NexusOperationCancelRequested \<Rightarrow> arm_default Nex_ScheduledEventRecorded sh
           | NexEv_NexusOperationCompleted r \<Rightarrow>
               arm_pure (tr_commands [NexCmd_StartSync, NexCmd_Complete r] Nex_Completed) sh
           | NexEv_NexusOperationFailed f \<Rightarrow>
               arm_pure (tr_commands [NexCmd_FailBeforeStart
                 (nexus_missing_failure nexus_failed_msg f)] Nex_Failed) sh
           | NexEv_NexusOperationCanceled f \<Rightarrow>
               arm_pure (tr_commands [NexCmd_FailBeforeStart
                 (nexus_missing_failure nexus_canceled_msg f)] Nex_Cancelled) sh
           | NexEv_NexusOperationTimedOut f \<Rightarrow>
               arm_pure (tr_commands [NexCmd_FailBeforeStart
                 (nexus_missing_failure nexus_timed_out_msg f)] Nex_TimedOut) sh
           | NexEv_NexusOperationStarted token \<Rightarrow>
               Some (nexus_ScheduledEventRecorded_on_started sh token)
           | _ \<Rightarrow> None)
      | Nex_Started \<Rightarrow>
          (case ev of
             NexEv_Cancel \<Rightarrow> Some (nexus_Started_on_issue_cancel sh)
           | NexEv_CommandRequestCancelNexusOperation \<Rightarrow> arm_default Nex_Started sh
           | NexEv_NexusOperationCancelRequested \<Rightarrow> arm_default Nex_Started sh
           | NexEv_NexusOperationCompleted r \<Rightarrow>
               arm_pure (tr_commands [NexCmd_Complete r] Nex_Completed) sh
           | NexEv_NexusOperationFailed f \<Rightarrow>
               arm_pure (tr_commands [NexCmd_Fail
                 (nexus_missing_failure nexus_failed_msg f)] Nex_Failed) sh
           | NexEv_NexusOperationCanceled f \<Rightarrow>
               arm_pure (tr_commands [NexCmd_Cancel
                 (nexus_missing_failure nexus_canceled_msg f)] Nex_Cancelled) sh
           | NexEv_NexusOperationCancelRequestCompleted \<Rightarrow>
               Some (nexus_Started_on_cancel_request_completed sh)
           | NexEv_NexusOperationCancelRequestFailed f \<Rightarrow>
               Some (nexus_Started_on_cancel_request_failed sh f)
           | NexEv_NexusOperationTimedOut f \<Rightarrow>
               arm_pure (tr_commands [NexCmd_TimedOut
                 (nexus_missing_failure nexus_timed_out_msg f)] Nex_TimedOut) sh
           | _ \<Rightarrow> None)
      | Nex_Cancelled \<Rightarrow>
          (case ev of
             NexEv_Cancel \<Rightarrow> arm_default Nex_Cancelled sh
           | NexEv_CommandRequestCancelNexusOperation \<Rightarrow> arm_default Nex_Cancelled sh
           | NexEv_NexusOperationCancelRequested \<Rightarrow> arm_default Nex_Cancelled sh
           | NexEv_NexusOperationCompleted _ \<Rightarrow> Some (nexus_Cancelled_on_closed sh)
           | NexEv_NexusOperationFailed _ \<Rightarrow> Some (nexus_Cancelled_on_closed sh)
           | NexEv_NexusOperationTimedOut _ \<Rightarrow> Some (nexus_Cancelled_on_closed sh)
           | NexEv_NexusOperationCancelRequestCompleted \<Rightarrow> arm_default Nex_Cancelled sh
           | NexEv_NexusOperationCancelRequestFailed _ \<Rightarrow> arm_default Nex_Cancelled sh
           | NexEv_NexusOperationCanceled _ \<Rightarrow> arm_default Nex_Cancelled sh
           | _ \<Rightarrow> None)
      | Nex_Completed \<Rightarrow>
          (case ev of
             NexEv_Cancel \<Rightarrow> arm_default Nex_Completed sh
           | NexEv_NexusOperationCancelRequestCompleted \<Rightarrow> arm_default Nex_Completed sh
           | NexEv_NexusOperationCancelRequestFailed _ \<Rightarrow> arm_default Nex_Completed sh
           | _ \<Rightarrow> None)
      | Nex_Failed \<Rightarrow>
          (case ev of
             NexEv_Cancel \<Rightarrow> arm_default Nex_Failed sh
           | NexEv_NexusOperationCancelRequestCompleted \<Rightarrow> arm_default Nex_Failed sh
           | NexEv_NexusOperationCancelRequestFailed _ \<Rightarrow> arm_default Nex_Failed sh
           | _ \<Rightarrow> None)
      | Nex_TimedOut \<Rightarrow>
          (case ev of
             NexEv_Cancel \<Rightarrow> arm_default Nex_TimedOut sh
           | NexEv_NexusOperationCancelRequestCompleted \<Rightarrow> arm_default Nex_TimedOut sh
           | NexEv_NexusOperationCancelRequestFailed _ \<Rightarrow> arm_default Nex_TimedOut sh
           | _ \<Rightarrow> None))"

text \<open>Every state has an outgoing arm, so none is final.\<close>

definition nexus_is_final :: "NexusState \<Rightarrow> bool" where
  "nexus_is_final st = False"

definition nexus_from_command :: "CommandType \<Rightarrow> NexusEvent option" where
  "nexus_from_command c =
     (if c = C_ScheduleNexusOperation then Some NexEv_CommandScheduleNexusOperation
      else if c = C_RequestCancelNexusOperation then Some NexEv_CommandRequestCancelNexusOperation
      else None)"

definition nexus_from_event :: "HistEventData \<Rightarrow> NexusEvent result" where
  "nexus_from_event d =
     (let e = hed_event d; et = he_event_type e; attrs = he_attributes e;
          malformed = Err (Nondeterminism MissingAttributes)
      in if et = E_NexusOperationScheduled then
           (case attrs of
              Some (A_NexusOperationScheduled a) \<Rightarrow> Ok (NexEv_NexusOperationScheduled
                \<lparr>nsd_event_id = he_event_id e, nsd_service = nos_service a,
                 nsd_operation = nos_operation a,
                 nsd_last_task_in_history = hed_current_task_is_last_in_history d\<rparr>)
            | _ \<Rightarrow> malformed)
         else if et = E_NexusOperationStarted then
           (case attrs of
              Some (A_NexusOperationStarted _ _ token) \<Rightarrow> Ok (NexEv_NexusOperationStarted token)
            | _ \<Rightarrow> malformed)
         else if et = E_NexusOperationCompleted then
           (case attrs of
              Some (A_NexusOperationCompleted _ r) \<Rightarrow> Ok (NexEv_NexusOperationCompleted r)
            | _ \<Rightarrow> malformed)
         else if et = E_NexusOperationFailed then
           (case attrs of
              Some (A_NexusOperationFailed _ f) \<Rightarrow> Ok (NexEv_NexusOperationFailed f)
            | _ \<Rightarrow> malformed)
         else if et = E_NexusOperationCanceled then
           (case attrs of
              Some (A_NexusOperationCanceled _ f) \<Rightarrow> Ok (NexEv_NexusOperationCanceled f)
            | _ \<Rightarrow> malformed)
         else if et = E_NexusOperationTimedOut then
           (case attrs of
              Some (A_NexusOperationTimedOut _ f) \<Rightarrow> Ok (NexEv_NexusOperationTimedOut f)
            | _ \<Rightarrow> malformed)
         else if et = E_NexusOperationCancelRequested then Ok NexEv_NexusOperationCancelRequested
         else if et = E_NexusOperationCancelRequestCompleted then
           (case attrs of
              Some (A_NexusOperationCancelRequestCompleted _) \<Rightarrow>
                Ok NexEv_NexusOperationCancelRequestCompleted
            | _ \<Rightarrow> malformed)
         else if et = E_NexusOperationCancelRequestFailed then
           (case attrs of
              Some (A_NexusOperationCancelRequestFailed _ f) \<Rightarrow>
                Ok (NexEv_NexusOperationCancelRequestFailed f)
            | _ \<Rightarrow> malformed)
         else Err (Nondeterminism EventNotHandled))"

fun nexus_adapt_response ::
  "NexusOperationMachine \<Rightarrow> NexusOperationCommand \<Rightarrow> EventInfo option \<Rightarrow> MachineResponse list result"
where
  "nexus_adapt_response m NexCmd_StartSync _ =
     Ok [PushWFJob (J_ResolveNexusOperationStart (nsh_lang_seq_num (sm_shared m)) NS_StartedSync)]"
| "nexus_adapt_response m (NexCmd_Start token) _ =
     Ok [PushWFJob (J_ResolveNexusOperationStart (nsh_lang_seq_num (sm_shared m))
           (NS_OperationToken token))]"
| "nexus_adapt_response m (NexCmd_FailBeforeStart f) _ =
     Ok [PushWFJob (J_ResolveNexusOperationStart (nsh_lang_seq_num (sm_shared m)) (NS_Failed f))]"
| "nexus_adapt_response m (NexCmd_Complete c) _ =
     Ok [PushWFJob (J_ResolveNexusOperation (nsh_lang_seq_num (sm_shared m))
           (NR_Completed (unwrap_or c Payload_default)))]"
| "nexus_adapt_response m (NexCmd_Fail f) _ =
     Ok [PushWFJob (J_ResolveNexusOperation (nsh_lang_seq_num (sm_shared m)) (NR_Failed f))]"
| "nexus_adapt_response m (NexCmd_Cancel f) _ =
     Ok [PushWFJob (J_ResolveNexusOperation (nsh_lang_seq_num (sm_shared m)) (NR_Cancelled f))]"
| "nexus_adapt_response m (NexCmd_TimedOut f) _ =
     Ok [PushWFJob (J_ResolveNexusOperation (nsh_lang_seq_num (sm_shared m)) (NR_TimedOut f))]"
| "nexus_adapt_response m NexCmd_IssueCancel _ =
     (let sh = sm_shared m
      in Ok ((if nsh_cancel_type sh \<noteq> NCT_Abandon
              then [IssueNewCommand (ProtoCommand_new
                      (CA_RequestCancelNexusOperation (nsh_scheduled_event_id sh))
                      (nsh_annotations sh))]
              else []) @
             (if nsh_cancel_type sh \<in> {NCT_Abandon, NCT_TryCancel}
              then [PushWFJob (J_ResolveNexusOperation (nsh_lang_seq_num sh) (NR_Cancelled
                      (nexus_cancelled_failure sh ''Nexus operation cancelled after starting'')))]
              else [])))"

definition nexus_ops :: "(NexusState, NexusShared, NexusEvent, NexusOperationCommand) machine_ops"
where
  "nexus_ops = \<lparr>op_arms = nexus_arms, op_from_command = nexus_from_command,
     op_from_event = nexus_from_event, op_adapt_response = nexus_adapt_response\<rparr>"

definition schedule_nexus_to_api :: "ScheduleNexusOperation \<Rightarrow> CommandAttributes" where
  "schedule_nexus_to_api c = CA_ScheduleNexusOperation
     \<lparr>snc_endpoint = sno_endpoint c, snc_service = sno_service c, snc_operation = sno_operation c,
      snc_input = sno_input c, snc_rest = sno_rest c\<rparr>"

definition nexus_new_scheduled ::
  "ScheduleNexusOperation \<Rightarrow> InternalFlags \<Rightarrow> CommandAnnotations \<Rightarrow>
   NexusOperationMachine NewMachineWithCommand" where
  "nexus_new_scheduled attribs internal_flags annotations =
     (let s = from_parts Nex_ScheduleCommandCreated
            \<lparr>nsh_lang_seq_num = sno_seq attribs, nsh_scheduled_event_id = 0,
             nsh_endpoint = sno_endpoint attribs, nsh_service = sno_service attribs,
             nsh_operation = sno_operation attribs, nsh_internal_flags = internal_flags,
             nsh_cancelled_before_sent = False, nsh_cancel_sent = False,
             nsh_cancel_type = sno_cancellation_type attribs, nsh_operation_token = None,
             nsh_annotations = annotations\<rparr>
      in \<lparr>nm_command = schedule_nexus_to_api attribs, nm_machine = s\<rparr>)"

definition nexus_cancel ::
  "NexusOperationMachine \<Rightarrow> CommandAnnotations \<Rightarrow>
   MachineResponse list result \<times> NexusOperationMachine" where
  "nexus_cancel self annotations =
     (let sh = sm_shared self;
          self = self\<lparr>sm_shared :=
            sh\<lparr>nsh_annotations := override_with (nsh_annotations sh) annotations\<rparr>\<rparr>
      in raise_event nexus_ops self NexEv_Cancel)"

definition nexus_was_cancelled_before_sent :: "NexusOperationMachine \<Rightarrow> bool" where
  "nexus_was_cancelled_before_sent m = nsh_cancelled_before_sent (sm_shared m)"

section \<open>Runs of a Nexus operation\<close>

datatype NexusOwn = Nexus_do_cancel CommandAnnotations | Nexus_set_flags InternalFlags

fun nexus_own ::
  "NexusOperationMachine \<Rightarrow> NexusOwn \<Rightarrow> MachineResponse list result \<times> NexusOperationMachine" where
  "nexus_own m (Nexus_do_cancel ann) = nexus_cancel m ann"
| "nexus_own m (Nexus_set_flags fl) =
     (Ok [], m\<lparr>sm_shared := (sm_shared m)\<lparr>nsh_internal_flags := fl\<rparr>\<rparr>)"

abbreviation nexus_step ::
  "NexusOperationMachine \<Rightarrow> NexusOwn MachineInput \<Rightarrow>
   MachineResponse list result \<times> NexusOperationMachine" where
  "nexus_step \<equiv> drive nexus_ops nexus_own"

fun nexus_start_weight :: "MachineResponse \<Rightarrow> nat" where
  "nexus_start_weight (PushWFJob (J_ResolveNexusOperationStart _ _)) = 1"
| "nexus_start_weight _ = 0"

fun nexus_result_weight :: "MachineResponse \<Rightarrow> nat" where
  "nexus_result_weight (PushWFJob (J_ResolveNexusOperation _ _)) = 1"
| "nexus_result_weight _ = 0"

fun nexus_command_weight :: "MachineResponse \<Rightarrow> nat" where
  "nexus_command_weight (IssueNewCommand _) = 1"
| "nexus_command_weight _ = 0"

definition nexus_good ::
  "u32 \<Rightarrow> NexusOperationCancellationType \<Rightarrow> NexusState \<Rightarrow> NexusShared \<Rightarrow> bool" where
  "nexus_good seq ct st sh \<longleftrightarrow> nsh_lang_seq_num sh = seq \<and> nsh_cancel_type sh = ct \<and>
     (nsh_cancelled_before_sent sh \<longrightarrow> st = Nex_Cancelled \<and> \<not> nsh_cancel_sent sh) \<and>
     (st = Nex_ScheduleCommandCreated \<longrightarrow> \<not> nsh_cancel_sent sh)"

definition nexus_start_open :: "NexusState \<Rightarrow> NexusShared \<Rightarrow> nat" where
  "nexus_start_open st sh =
     (if st \<in> {Nex_ScheduleCommandCreated, Nex_ScheduledEventRecorded} then 1 else 0)"

text \<open>How often the end of the operation may still be reported.  A cancellation that resolves at
  once while the start is still open leaves the machine open, so that one more report may follow.\<close>

definition nexus_result_open :: "NexusState \<Rightarrow> NexusShared \<Rightarrow> nat" where
  "nexus_result_open st sh =
     (if st \<in> {Nex_ScheduleCommandCreated, Nex_ScheduledEventRecorded} then
        (if nsh_cancel_type sh \<in> {NCT_Abandon, NCT_TryCancel} \<and> \<not> nsh_cancel_sent sh then 2 else 1)
      else if st = Nex_Started then 1 else 0)"

definition nexus_command_open :: "NexusState \<Rightarrow> NexusShared \<Rightarrow> nat" where
  "nexus_command_open st sh =
     (if nsh_cancel_sent sh \<or> nsh_cancel_type sh = NCT_Abandon then 0 else 1)"

lemmas nexus_defs = nexus_arms_def nexus_from_command_def nexus_from_event_def nexus_ops_def
  nexus_on_scheduled_def nexus_ScheduleCommandCreated_on_cancelled_def
  nexus_ScheduledEventRecorded_on_issue_cancel_def nexus_ScheduledEventRecorded_on_started_def
  nexus_Started_on_issue_cancel_def nexus_Started_on_cancel_request_completed_def
  nexus_Started_on_cancel_request_failed_def nexus_Cancelled_on_closed_def

lemmas nexus_run_defs = nexus_good_def nexus_start_open_def nexus_result_open_def
  nexus_command_open_def

lemmas nexus_splits = NexusState.splits NexusEvent.splits if_splits option.splits
  Attributes.splits

interpretation nexus_fsm: fsm_final nexus_arms nexus_is_final
proof
  fix st
  have "\<exists>ev. nexus_arms st sh ev \<noteq> None" for sh
    by (rule exI [of _ NexEv_Cancel]) (simp add: nexus_arms_def split: NexusState.splits)
  then show "nexus_is_final st \<longleftrightarrow> (\<forall>sh ev. nexus_arms st sh ev = None)"
    by (auto simp: nexus_is_final_def)
qed

interpretation nexus_start_laws: adapted_machine nexus_ops "nexus_good seq ct" "\<lambda>_. True"
  nexus_start_weight nexus_start_open "(=)" for seq ct
  by unfold_locales (auto simp: nexus_defs nexus_run_defs Let_def split_beta split: nexus_splits)

interpretation nexus_result_laws: adapted_machine nexus_ops
  "\<lambda>st sh. ct \<noteq> NCT_WaitCancellationRequested \<and> nexus_good seq ct st sh" "\<lambda>_. True"
  nexus_result_weight nexus_result_open "(\<le>)" for seq ct
  by unfold_locales (auto simp: nexus_defs nexus_run_defs Let_def split_beta split: nexus_splits)

interpretation nexus_command_laws: adapted_machine nexus_ops "nexus_good seq ct" "\<lambda>_. True"
  nexus_command_weight nexus_command_open "(=)" for seq ct
  by unfold_locales (auto simp: nexus_defs nexus_run_defs Let_def split_beta split: nexus_splits)

text \<open>Annotations and flags play no part in the invariant and in what is still open.\<close>

definition nexus_annotate :: "NexusOperationMachine \<Rightarrow> CommandAnnotations \<Rightarrow> NexusOperationMachine"
where
  "nexus_annotate m ann = m\<lparr>sm_shared := (sm_shared m)
     \<lparr>nsh_annotations := override_with (nsh_annotations (sm_shared m)) ann\<rparr>\<rparr>"

lemma nexus_own_eqs:
  "nexus_own m (Nexus_do_cancel ann) = raise_event nexus_ops (nexus_annotate m ann) NexEv_Cancel"
  by (simp add: nexus_cancel_def nexus_annotate_def Let_def)

lemma nexus_annotate_keeps [simp]:
  "good_machine (nexus_good seq ct) (nexus_annotate m ann) = good_machine (nexus_good seq ct) m"
  "machine_budget nexus_start_open (nexus_annotate m ann) = machine_budget nexus_start_open m"
  "machine_budget nexus_result_open (nexus_annotate m ann) = machine_budget nexus_result_open m"
  "machine_budget nexus_command_open (nexus_annotate m ann) = machine_budget nexus_command_open m"
  by (auto simp: nexus_annotate_def good_machine_def machine_budget_def nexus_run_defs
      split: option.splits)

lemma nexus_set_flags_keeps:
  assumes "nexus_own m (Nexus_set_flags fl) = (r, m')"
  shows "r = Ok []" "good_machine (nexus_good seq ct) m' = good_machine (nexus_good seq ct) m"
    "machine_budget nexus_start_open m' = machine_budget nexus_start_open m"
    "machine_budget nexus_result_open m' = machine_budget nexus_result_open m"
    "machine_budget nexus_command_open m' = machine_budget nexus_command_open m"
  using assms
  by (auto simp: good_machine_def machine_budget_def nexus_run_defs split: option.splits)

lemma good_machine_conj:
  "good_machine (\<lambda>st sh. P \<and> good st sh) m \<longleftrightarrow> P \<and> good_machine good m"
  by (auto simp: good_machine_def split: option.splits)

lemma nexus_own_no_panic:
  assumes "good_machine (nexus_good seq ct) m"
  shows "fst (nexus_own m c) \<noteq> Panic"
proof (cases c)
  case (Nexus_do_cancel ann)
  then show ?thesis
    using nexus_start_laws.raise_event_no_panic [of seq ct "nexus_annotate m ann" NexEv_Cancel] assms
    by (simp add: nexus_own_eqs del: nexus_own.simps)
qed simp

lemma nexus_own_good:
  assumes "good_machine (nexus_good seq ct) m" "nexus_own m c = (Ok rs, m')"
  shows "good_machine (nexus_good seq ct) m' \<and>
      sum_list (map nexus_start_weight rs) + machine_budget nexus_start_open m'
        = machine_budget nexus_start_open m \<and>
      sum_list (map nexus_command_weight rs) + machine_budget nexus_command_open m'
        = machine_budget nexus_command_open m \<and>
      (ct \<noteq> NCT_WaitCancellationRequested \<longrightarrow>
       sum_list (map nexus_result_weight rs) + machine_budget nexus_result_open m'
         \<le> machine_budget nexus_result_open m)"
proof (cases c)
  case (Nexus_do_cancel ann)
  let ?n = "nexus_annotate m ann"
  have good: "good_machine (nexus_good seq ct) ?n" and
    raise: "raise_event nexus_ops ?n NexEv_Cancel = (Ok rs, m')"
    using assms Nexus_do_cancel by (simp_all add: nexus_own_eqs del: nexus_own.simps)
  show ?thesis
    using nexus_start_laws.raise_event_good [OF good _ raise]
      nexus_command_laws.raise_event_good [OF good _ raise]
      nexus_result_laws.raise_event_good [of ct seq ?n NexEv_Cancel, OF _ _ raise] good
    by (simp add: good_machine_conj)
next
  case (Nexus_set_flags fl)
  then have own: "nexus_own m (Nexus_set_flags fl) = (Ok rs, m')" using assms by simp
  show ?thesis using nexus_set_flags_keeps [OF own] assms(1) by simp
qed

interpretation nexus_start: driven_accountant nexus_ops "nexus_good seq ct" "\<lambda>_. True"
  nexus_start_weight nexus_start_open nexus_own for seq ct
  using nexus_own_good nexus_own_no_panic by unfold_locales blast+

interpretation nexus_result: driven_spender nexus_ops
  "\<lambda>st sh. ct \<noteq> NCT_WaitCancellationRequested \<and> nexus_good seq ct st sh" "\<lambda>_. True"
  nexus_result_weight nexus_result_open nexus_own for seq ct
  using nexus_own_good nexus_own_no_panic
  by (unfold_locales; simp only: good_machine_conj; blast)

interpretation nexus_command: driven_accountant nexus_ops "nexus_good seq ct" "\<lambda>_. True"
  nexus_command_weight nexus_command_open nexus_own for seq ct
  using nexus_own_good nexus_own_no_panic by unfold_locales blast+

lemma nexus_new_machine [simp]:
  "good_machine (nexus_good (sno_seq a) (sno_cancellation_type a)) (nm_machine (nexus_new_scheduled a fl ann))"
  "machine_budget nexus_start_open (nm_machine (nexus_new_scheduled a fl ann)) = 1"
  "machine_budget nexus_command_open (nm_machine (nexus_new_scheduled a fl ann)) =
     (if sno_cancellation_type a = NCT_Abandon then 0 else 1)"
  "machine_budget nexus_result_open (nm_machine (nexus_new_scheduled a fl ann)) =
     (if sno_cancellation_type a \<in> {NCT_Abandon, NCT_TryCancel} then 2 else 1)"
  by (auto simp: nexus_new_scheduled_def from_parts_def nexus_run_defs)

definition sample_nexus :: "NexusOperationCancellationType \<Rightarrow> ScheduleNexusOperation" where
  "sample_nexus ct = \<lparr>sno_seq = 1, sno_endpoint = ''e'', sno_service = ''s'',
     sno_operation = ''o'', sno_input = None, sno_cancellation_type = ct, sno_rest = []\<rparr>"

lemma sample_nexus_type [simp]: "sno_cancellation_type (sample_nexus ct) = ct"
  by (simp add: sample_nexus_def)

text \<open>The history of an operation that was scheduled, started, cancelled by the workflow, and then
  reported an end.\<close>

definition nexus_late_history ::
  "ScheduleNexusOperation \<Rightarrow> CommandAnnotations \<Rightarrow> HistEventData \<Rightarrow> NexusOwn MachineInput list" where
  "nexus_late_history a ann close =
     [In_Command C_ScheduleNexusOperation,
      In_Event (plain_event 5 E_NexusOperationScheduled (Some (A_NexusOperationScheduled
        \<lparr>nos_endpoint = sno_endpoint a, nos_service = sno_service a,
         nos_operation = sno_operation a\<rparr>))),
      In_Event (plain_event 6 E_NexusOperationStarted (Some (A_NexusOperationStarted 5 [] ''tok''))),
      In_Own (Nexus_do_cancel ann), In_Event close]"

lemma nexus_run_eqs:
  "nm_machine (nexus_new_scheduled a fl ann) =
     \<lparr>sm_state = Some Nex_ScheduleCommandCreated, sm_shared =
       \<lparr>nsh_lang_seq_num = sno_seq a, nsh_scheduled_event_id = 0, nsh_endpoint = sno_endpoint a,
        nsh_service = sno_service a, nsh_operation = sno_operation a, nsh_internal_flags = fl,
        nsh_cancelled_before_sent = False, nsh_cancel_sent = False,
        nsh_cancel_type = sno_cancellation_type a, nsh_operation_token = None,
        nsh_annotations = ann\<rparr>\<rparr>"
  by (simp add: nexus_new_scheduled_def from_parts_def)

section \<open>Properties\<close>

text \<open>How a Nexus operation started is reported exactly once: not while the machine waits for it,
  and exactly once after.\<close>

theorem nexus_start_resolves_exactly_once:
  assumes "run_result nexus_step (nm_machine (nexus_new_scheduled a fl ann)) inputs = Ok m"
  shows "sum_list (map nexus_start_weight
           (run_responses nexus_step (nm_machine (nexus_new_scheduled a fl ann)) inputs)) =
      (if sm_state m \<in> {Some Nex_ScheduleCommandCreated, Some Nex_ScheduledEventRecorded}
       then 0 else 1)"
  using nexus_start.account.run_accounts [OF nexus_new_machine(1) assms]
    nexus_start.contract.run_inv [OF nexus_new_machine(1) assms]
  by (auto simp: nexus_start_open_def elim!: good_machineE split: if_splits)

theorem nexus_start_resolves_exactly_once_witness:
  "\<exists>m. run_result nexus_step (nm_machine (nexus_new_scheduled (sample_nexus NCT_TryCancel)
         (InternalFlags_new True [] []) CommandAnnotations_default))
         [In_Own (Nexus_do_cancel CommandAnnotations_default)] = Ok m \<and>
     sum_list (map nexus_start_weight (run_responses nexus_step
       (nm_machine (nexus_new_scheduled (sample_nexus NCT_TryCancel)
         (InternalFlags_new True [] []) CommandAnnotations_default))
         [In_Own (Nexus_do_cancel CommandAnnotations_default)])) = 1"
proof -
  let ?m0 = "nm_machine (nexus_new_scheduled (sample_nexus NCT_TryCancel)
         (InternalFlags_new True [] []) CommandAnnotations_default)"
  let ?in = "[In_Own (Nexus_do_cancel CommandAnnotations_default)]"
  obtain m where "run_result nexus_step ?m0 ?in = Ok m" "sm_state m = Some Nex_Cancelled"
    by (simp add: nexus_run_eqs nexus_cancel_def machine_step_defs nexus_defs Let_def)
  then show ?thesis
    using nexus_start_resolves_exactly_once [of "sample_nexus NCT_TryCancel"
      "InternalFlags_new True [] []" CommandAnnotations_default ?in m] by auto
qed

text \<open>along any run the machine does not panic, and asks the server to cancel the operation at
  most once, and never when the cancellation type is to abandon it.\<close>

theorem nexus_cancel_requested_at_most_once:
  "run_result nexus_step (nm_machine (nexus_new_scheduled a fl ann)) inputs \<noteq> Panic \<and>
   sum_list (map nexus_command_weight
     (run_responses nexus_step (nm_machine (nexus_new_scheduled a fl ann)) inputs))
   \<le> (if sno_cancellation_type a = NCT_Abandon then 0 else 1)"
  using nexus_start.contract.run_no_panic [OF nexus_new_machine(1)]
    nexus_command.account.spends.run_spends [OF nexus_new_machine(1), of a fl ann inputs]
  by simp



text \<open>An operation that started and was then cancelled by the workflow, with a cancellation that
  resolves at once, may still end.  The late report is accepted without effect when the
  cancellation type is to try, and is a nondeterminism error when it is to abandon.\<close>

theorem nexus_late_completion:
  assumes "sno_cancellation_type a \<in> {NCT_Abandon, NCT_TryCancel}"
    and "close = plain_event i E_NexusOperationCompleted (Some (A_NexusOperationCompleted 5 r)) \<or>
      close = plain_event i E_NexusOperationFailed (Some (A_NexusOperationFailed 5 f)) \<or>
      close = plain_event i E_NexusOperationTimedOut (Some (A_NexusOperationTimedOut 5 f))"
  shows "res_map sm_state (run_result nexus_step (nm_machine (nexus_new_scheduled a fl ann))
           (nexus_late_history a ann' close)) =
      (if sno_cancellation_type a = NCT_Abandon then Err (Nondeterminism UnexpectedCompletion)
       else Ok (Some Nex_Cancelled))"
  using assms
  by (auto simp: nexus_late_history_def nexus_run_eqs nexus_cancel_def machine_step_defs nexus_defs
      Let_def split_beta)

theorem nexus_late_completion_witness:
  "\<exists>a close. sno_cancellation_type a = NCT_Abandon \<and>
     run_result nexus_step (nm_machine (nexus_new_scheduled a (InternalFlags_new True [] [])
       CommandAnnotations_default)) (nexus_late_history a CommandAnnotations_default close)
     = Err (Nondeterminism UnexpectedCompletion)"
proof -
  let ?a = "sample_nexus NCT_Abandon"
  let ?close = "plain_event 7 E_NexusOperationCompleted (Some (A_NexusOperationCompleted 5 None))"
  have "res_map sm_state (run_result nexus_step
      (nm_machine (nexus_new_scheduled ?a (InternalFlags_new True [] []) CommandAnnotations_default))
      (nexus_late_history ?a CommandAnnotations_default ?close))
      = (if sno_cancellation_type ?a = NCT_Abandon
         then Err (Nondeterminism UnexpectedCompletion) else Ok (Some Nex_Cancelled))"
    by (rule nexus_late_completion [where i = 7 and r = None and f = None]) simp_all
  then show ?thesis
    by (intro exI [of _ ?a] exI [of _ ?close] conjI) (simp_all only: res_map_eq_Err sample_nexus_type if_True simp_thms)
qed

end
