(* ===== verification/Markers.thy ===== *)
theory Markers
  imports Fsm
begin

text \<open>
  Marker details and local activity requests: JSON payloads and the details of patch and local
  activity markers (\<^verbatim>\<open>crates/protos/src/protos/mod.rs\<close>), and \<^verbatim>\<open>HistoryEventExt\<close>,
  \<^verbatim>\<open>LACloseTimeouts\<close>, \<^verbatim>\<open>ValidScheduleLA::from_schedule_la\<close> and the conversion of
  activity completions of \<^verbatim>\<open>crates/sdk-core/src/protosext/mod.rs\<close>.

  A \<^verbatim>\<open>String\<close> is the list of its UTF-8 bytes, so \<^verbatim>\<open>as_bytes\<close> is the identity and
  \<^verbatim>\<open>std::str::from_utf8\<close> only checks.
\<close>

section \<open>UTF-8\<close>

definition utf8_cont :: "nat \<Rightarrow> bool" where
  "utf8_cont b \<longleftrightarrow> 128 \<le> b \<and> b < 192"

text \<open>The second byte, by the first byte of a sequence of three or four.\<close>

definition utf8_second3 :: "nat \<Rightarrow> nat \<Rightarrow> bool" where
  "utf8_second3 b c \<longleftrightarrow>
     b = 224 \<and> 160 \<le> c \<and> c < 192 \<or>
     (225 \<le> b \<and> b \<le> 236 \<or> b = 238 \<or> b = 239) \<and> utf8_cont c \<or>
     b = 237 \<and> 128 \<le> c \<and> c < 160"

definition utf8_second4 :: "nat \<Rightarrow> nat \<Rightarrow> bool" where
  "utf8_second4 b c \<longleftrightarrow>
     b = 240 \<and> 144 \<le> c \<and> c < 192 \<or> 241 \<le> b \<and> b \<le> 243 \<and> utf8_cont c \<or>
     b = 244 \<and> 128 \<le> c \<and> c < 144"

fun utf8_valid :: "nat list \<Rightarrow> bool" where
  "utf8_valid [] = True"
| "utf8_valid (b # bs) =
     (if b < 128 then utf8_valid bs
      else case bs of
        [] \<Rightarrow> False
      | c # bs \<Rightarrow>
          if 194 \<le> b \<and> b < 224 then utf8_cont c \<and> utf8_valid bs
          else case bs of
            [] \<Rightarrow> False
          | d # bs \<Rightarrow>
              if 224 \<le> b \<and> b < 240 then utf8_second3 b c \<and> utf8_cont d \<and> utf8_valid bs
              else case bs of
                [] \<Rightarrow> False
              | e # bs \<Rightarrow> utf8_second4 b c \<and> utf8_cont d \<and> utf8_cont e \<and> utf8_valid bs)"

definition str_from_utf8 :: "bytes \<Rightarrow> string option" where
  "str_from_utf8 bs = (if utf8_valid (map of_char bs) then Some bs else None)"

section \<open>JSON payloads\<close>

definition ENCODING_PAYLOAD_KEY :: string where
  "ENCODING_PAYLOAD_KEY = ''encoding''"

definition JSON_ENCODING_VAL :: string where
  "JSON_ENCODING_VAL = ''json/plain''"

definition as_json_payload :: "('a \<Rightarrow> string option) \<Rightarrow> 'a \<Rightarrow> Payload option" where
  "as_json_payload to_json self =
     (case to_json self of
        None \<Rightarrow> None
      | Some as_json \<Rightarrow>
          Some \<lparr>pl_metadata = [ENCODING_PAYLOAD_KEY \<mapsto> JSON_ENCODING_VAL], pl_data = as_json,
                pl_external_payloads = []\<rparr>)"

definition is_json_payload :: "Payload \<Rightarrow> bool" where
  "is_json_payload self =
     (case pl_metadata self ENCODING_PAYLOAD_KEY of
        Some v \<Rightarrow> v = JSON_ENCODING_VAL | None \<Rightarrow> False)"

definition from_json_payload :: "(string \<Rightarrow> 'a option) \<Rightarrow> Payload \<Rightarrow> 'a option" where
  "from_json_payload from_json payload =
     (if \<not> is_json_payload payload then None
      else Option.bind (str_from_utf8 (pl_data payload)) from_json)"

definition list_first :: "'a list \<Rightarrow> 'a option" where
  "list_first xs = (case xs of [] \<Rightarrow> None | x # _ \<Rightarrow> Some x)"

definition list_last :: "'a list \<Rightarrow> 'a option" where
  "list_last xs = (if xs = [] then None else Some (last xs))"

section \<open>Marker details\<close>

definition PATCH_MARKER_NAME :: string where
  "PATCH_MARKER_NAME = ''core_patch''"

definition LOCAL_ACTIVITY_MARKER_NAME :: string where
  "LOCAL_ACTIVITY_MARKER_NAME = ''core_local_activity''"

definition PATCHED_MARKER_DETAILS_KEY :: string where
  "PATCHED_MARKER_DETAILS_KEY = ''patch-data''"

definition build_has_change_marker_details ::
  "externals \<Rightarrow> string \<Rightarrow> bool \<Rightarrow> (string \<rightharpoonup> Payloads) option" where
  "build_has_change_marker_details x patch_id deprecated =
     (case as_json_payload (x_patch_to_json x) (patch_id, deprecated) of
        None \<Rightarrow> None
      | Some encoded \<Rightarrow> Some [PATCHED_MARKER_DETAILS_KEY \<mapsto> [encoded]])"

definition decode_change_marker_details ::
  "externals \<Rightarrow> (string \<rightharpoonup> Payloads) \<Rightarrow> (string \<times> bool) option" where
  "decode_change_marker_details x details =
     (case details PATCHED_MARKER_DETAILS_KEY of
        Some cd \<Rightarrow> Option.bind (list_first cd) (from_json_payload (x_patch_from_json x))
      | None \<Rightarrow>
          Option.bind (Option.bind (details ''patch_id'') list_first) (\<lambda>id_entry.
          Option.bind (Option.bind (details ''deprecated'') list_first) (\<lambda>deprecated_entry.
          Option.bind (str_from_utf8 (pl_data id_entry)) (\<lambda>name.
          Option.bind (list_first (pl_data deprecated_entry)) (\<lambda>b.
            Some (name, of_char b \<noteq> (0 :: nat)))))))"

definition build_local_activity_marker_details ::
  "externals \<Rightarrow> LocalActivityMarkerData \<Rightarrow> Payload option \<Rightarrow> string \<rightharpoonup> Payloads" where
  "build_local_activity_marker_details x metadata res =
     (let hm = Map.empty;
          hm = (case as_json_payload (x_la_marker_to_json x) metadata of
                  Some jsonified \<Rightarrow> hm(''data'' \<mapsto> [jsonified]) | None \<Rightarrow> hm)
      in case res of Some r \<Rightarrow> hm(''result'' \<mapsto> [r]) | None \<Rightarrow> hm)"

definition extract_local_activity_marker_data ::
  "externals \<Rightarrow> (string \<rightharpoonup> Payloads) \<Rightarrow> LocalActivityMarkerData option" where
  "extract_local_activity_marker_data x details =
     Option.bind (Option.bind (Option.bind (details ''data'') list_first)
       (\<lambda>p. str_from_utf8 (pl_data p))) (x_la_marker_from_json x)"

definition extract_local_activity_marker_details ::
  "externals \<Rightarrow> (string \<rightharpoonup> Payloads) \<Rightarrow> LocalActivityMarkerData option \<times> Payload option" where
  "extract_local_activity_marker_details x details =
     (extract_local_activity_marker_data x details,
      Option.bind (details ''result'') list_last)"

section \<open>Markers as history events\<close>

record CompleteLocalActivityData =
  cla_marker_dat :: LocalActivityMarkerData
  cla_result :: "Failure + Payload"

definition marker_recorded :: "HistoryEvent \<Rightarrow> MarkerRecordedEventAttributes option" where
  "marker_recorded e =
     (if he_event_type e = E_MarkerRecorded
      then (case he_attributes e of Some (A_MarkerRecorded a) \<Rightarrow> Some a | _ \<Rightarrow> None)
      else None)"

definition get_patch_marker_details :: "externals \<Rightarrow> HistoryEvent \<Rightarrow> (string \<times> bool) option" where
  "get_patch_marker_details x e =
     (case marker_recorded e of
        Some a \<Rightarrow> if mr_marker_name a = PATCH_MARKER_NAME
                  then decode_change_marker_details x (mr_details a) else None
      | None \<Rightarrow> None)"

definition is_local_activity_marker :: "HistoryEvent \<Rightarrow> bool" where
  "is_local_activity_marker e =
     (case marker_recorded e of
        Some a \<Rightarrow> mr_marker_name a = LOCAL_ACTIVITY_MARKER_NAME | None \<Rightarrow> False)"

definition event_local_activity_marker_data ::
  "externals \<Rightarrow> HistoryEvent \<Rightarrow> LocalActivityMarkerData option" where
  "event_local_activity_marker_data x e =
     (case marker_recorded e of
        Some a \<Rightarrow> if mr_marker_name a = LOCAL_ACTIVITY_MARKER_NAME
                  then extract_local_activity_marker_data x (mr_details a) else None
      | None \<Rightarrow> None)"

definition into_local_activity_marker_details ::
  "externals \<Rightarrow> HistoryEvent \<Rightarrow> CompleteLocalActivityData option" where
  "into_local_activity_marker_details x e =
     (case marker_recorded e of
        None \<Rightarrow> None
      | Some a \<Rightarrow>
          if mr_marker_name a = LOCAL_ACTIVITY_MARKER_NAME then
            (case extract_local_activity_marker_details x (mr_details a) of
               (None, _) \<Rightarrow> None
             | (Some data, ok_res) \<Rightarrow>
                 Some \<lparr>cla_marker_dat = data,
                       cla_result = (case (ok_res, mr_failure a) of
                           (Some r, None) \<Rightarrow> Inr r
                         | (_, Some f) \<Rightarrow> Inl f
                         | (None, None) \<Rightarrow> Inr Payload_default)\<rparr>)
          else None)"

section \<open>Completions of local activities\<close>

datatype ActivityStatus = St_Completed "Payload option" | St_Failed "Failure option"
  | St_Cancelled "Failure option" | St_WillCompleteAsync

datatype MalformedActivityCompletion = MissingResultPayload | LocalActivityAsync

fun Failure_is_timeout :: "Failure \<Rightarrow> TimeoutType option" where
  "Failure_is_timeout (Failure _ cause info _) =
     (case info of
        Some (FI_Timeout timeout_type _) \<Rightarrow> Some timeout_type
      | _ \<Rightarrow> (case cause of Some c \<Rightarrow> Failure_is_timeout c | None \<Rightarrow> None))"

fun validate_activity_completion :: "ActivityStatus \<Rightarrow> (unit, MalformedActivityCompletion) res" where
  "validate_activity_completion (St_Completed None) = Err MissingResultPayload"
| "validate_activity_completion _ = Ok ()"

fun local_activity_result_try_from ::
  "ActivityStatus \<Rightarrow> (LocalActivityExecutionResult, MalformedActivityCompletion) res" where
  "local_activity_result_try_from (St_Completed c) = Ok (LA_Completed c)"
| "local_activity_result_try_from (St_Failed f) =
     (if (case f of Some fail \<Rightarrow> Failure_is_timeout fail \<noteq> None | None \<Rightarrow> False)
      then Ok (LA_TimedOut f) else Ok (LA_Failed f))"
| "local_activity_result_try_from (St_Cancelled c) = Ok (LA_Cancelled c)"
| "local_activity_result_try_from St_WillCompleteAsync = Err LocalActivityAsync"

section \<open>Requests for local activities\<close>

datatype LAValidationError = BadOriginalScheduleTime | BadScheduleToClose | BadScheduleToStart
  | BadStartToClose | NoCloseTimeout

fun into_sched_and_start :: "LACloseTimeouts \<Rightarrow> StdDuration option \<times> StdDuration option" where
  "into_sched_and_start (ScheduleOnly x) = (Some x, None)"
| "into_sched_and_start (StartOnly x) = (None, Some x)"
| "into_sched_and_start (BothTimeouts sched start) = (Some sched, Some start)"

text \<open>\<^verbatim>\<open>.map(|x| x.try_into().map_err(..)).transpose()?\<close>\<close>

fun try_convert :: "('a \<Rightarrow> 'b option) \<Rightarrow> 'e \<Rightarrow> 'a option \<Rightarrow> ('b option, 'e) res" where
  "try_convert conv e None = Ok None"
| "try_convert conv e (Some v) = (case conv v of Some b \<Rightarrow> Ok (Some b) | None \<Rightarrow> Err e)"

definition try_into_or_none :: "('a \<Rightarrow> 'b option) \<Rightarrow> 'a option \<Rightarrow> 'b option" where
  "try_into_or_none conv v = Option.bind v conv"

definition from_schedule_la ::
  "externals \<Rightarrow> ScheduleLocalActivity \<Rightarrow> UserMetadata option \<Rightarrow> EventGroupMarker list \<Rightarrow>
   (ValidScheduleLA, LAValidationError) res" where
  "from_schedule_la x v user_metadata event_group_markers =
     res_bind (try_convert (x_to_system_time x) BadOriginalScheduleTime
                 (sla_original_schedule_time v)) (\<lambda>original_schedule_time.
     res_bind (try_convert (x_to_std_duration x) BadScheduleToClose
                 (sla_schedule_to_close_timeout v)) (\<lambda>sched_to_close.
     res_bind (try_convert (x_to_std_duration x) BadScheduleToStart
                 (sla_schedule_to_start_timeout v)) (\<lambda>schedule_to_start_timeout.
     let schedule_to_start_timeout =
           (case (schedule_to_start_timeout, sched_to_close) of
              (Some sched_to_start, Some sched_to_close) \<Rightarrow>
                Some (if sched_to_start > sched_to_close then sched_to_close else sched_to_start)
            | _ \<Rightarrow> schedule_to_start_timeout)
     in
     res_bind (try_convert (x_to_std_duration x) BadStartToClose
                 (sla_start_to_close_timeout v)) (\<lambda>start_to_close.
     res_bind (case (sched_to_close, start_to_close) of
                 (Some sch, None) \<Rightarrow> Ok (ScheduleOnly sch)
               | (None, Some start) \<Rightarrow> Ok (StartOnly start)
               | (Some sched, Some start) \<Rightarrow>
                   Ok (BothTimeouts sched (if start > sched then sched else start))
               | (None, None) \<Rightarrow> Err NoCloseTimeout) (\<lambda>close_timeouts.
     Ok \<lparr>vla_seq = sla_seq v, vla_activity_id = sla_activity_id v,
         vla_activity_type = sla_activity_type v, vla_attempt = sla_attempt v,
         vla_original_schedule_time = original_schedule_time, vla_headers = sla_headers v,
         vla_arguments = sla_arguments v, vla_schedule_to_start_timeout = schedule_to_start_timeout,
         vla_close_timeouts = close_timeouts,
         vla_retry_policy = from_proto_with_defaults (x_to_std_duration x) (x_from_std_duration x)
           (unwrap_or (sla_retry_policy v) RetryPolicy_default),
         vla_local_retry_threshold =
           unwrap_or (try_into_or_none (x_to_std_duration x) (sla_local_retry_threshold v))
             (Duration_from_secs 60),
         vla_cancellation_type =
           unwrap_or (sla_cancellation_type v) ACT_WaitCancellationCompleted,
         vla_include_arguments_in_marker = sla_include_arguments_in_marker v,
         vla_user_metadata = user_metadata, vla_event_group_markers = event_group_markers\<rparr>)))))"

section \<open>Laws\<close>

text \<open>What is relied on of \<^verbatim>\<open>serde_json\<close> for a value: it can be written, what is written is
  text, and reading it back gives the value.\<close>

definition json_codec_ok :: "('a \<Rightarrow> string option) \<Rightarrow> (string \<Rightarrow> 'a option) \<Rightarrow> 'a \<Rightarrow> bool" where
  "json_codec_ok to_json from_json v \<longleftrightarrow>
     (case to_json v of
        Some s \<Rightarrow> utf8_valid (map of_char s) \<and> from_json s = Some v | None \<Rightarrow> False)"

lemma json_codec_okE:
  assumes "json_codec_ok to_json from_json v"
  obtains p where "as_json_payload to_json v = Some p" "is_json_payload p"
    "str_from_utf8 (pl_data p) = Some (pl_data p)" "from_json (pl_data p) = Some v"
  using assms
  by (auto simp: json_codec_ok_def as_json_payload_def is_json_payload_def str_from_utf8_def
      split: option.splits)

lemma utf8_valid_ascii: "(\<And>b. b \<in> set bs \<Longrightarrow> b < 128) \<Longrightarrow> utf8_valid bs"
  by (induction bs) auto

lemma decode_build_change_marker:
  assumes "json_codec_ok (x_patch_to_json x) (x_patch_from_json x) (patch_id, deprecated)"
  shows "\<exists>details. build_has_change_marker_details x patch_id deprecated = Some details \<and>
    decode_change_marker_details x details = Some (patch_id, deprecated)"
  using assms
  by (auto elim!: json_codec_okE simp: build_has_change_marker_details_def list_first_def
      decode_change_marker_details_def from_json_payload_def)

lemma extract_build_local_activity_marker:
  assumes "json_codec_ok (x_la_marker_to_json x) (x_la_marker_from_json x) d"
    and "k \<noteq> ''data''" "k \<noteq> ''result''"
  shows "extract_local_activity_marker_details x (build_local_activity_marker_details x d r) =
      (Some d, r)"
    and "extract_local_activity_marker_details x
      ((build_local_activity_marker_details x d r)(k \<mapsto> ps)) = (Some d, r)"
  using assms
  by (auto elim!: json_codec_okE simp: build_local_activity_marker_details_def list_first_def
      list_last_def extract_local_activity_marker_details_def extract_local_activity_marker_data_def
      Let_def split: option.splits)

lemma try_convert_Ok:
  "try_convert conv e v = Ok r \<longleftrightarrow>
   (v = None \<and> r = None \<or> (\<exists>a b. v = Some a \<and> conv a = Some b \<and> r = Some b))"
  by (cases v) (auto split: option.splits)

lemma try_convert_not_Panic [simp]: "try_convert conv e v \<noteq> Panic"
  by (cases v) (auto split: option.splits)

definition sample_la_marker :: LocalActivityMarkerData where
  "sample_la_marker = \<lparr>lam_seq = 1, lam_attempt = 1, lam_activity_id = ''1'',
     lam_activity_type = ''t'', lam_complete_time = None, lam_backoff = None,
     lam_original_schedule_time = Some (0, 0), lam_activation_index = Some 0\<rparr>"

definition marker_sample_externals :: externals where
  "marker_sample_externals = sample_externals\<lparr>
     x_la_marker_to_json := (\<lambda>v. if v = sample_la_marker then Some ''d'' else None),
     x_la_marker_from_json := (\<lambda>s. if s = ''d'' then Some sample_la_marker else None)\<rparr>"

definition sample_la :: ScheduleLocalActivity where
  "sample_la = \<lparr>sla_seq = 1, sla_activity_id = ''1'', sla_activity_type = ''t'', sla_attempt = 1,
     sla_original_schedule_time = None, sla_headers = [], sla_arguments = [],
     sla_schedule_to_close_timeout = Some (2, 0), sla_schedule_to_start_timeout = Some (9, 0),
     sla_start_to_close_timeout = Some (5, 0), sla_retry_policy = None,
     sla_local_retry_threshold = None, sla_cancellation_type = Some ACT_TryCancel,
     sla_include_arguments_in_marker = False\<rparr>"

section \<open>Properties\<close>

text \<open>A patch marker recorded by the current encoding is read back from its history event, with
  its id and its deprecation flag; so is one recorded by the older encoding as plain bytes.\<close>

theorem patch_marker_roundtrip:
  assumes "json_codec_ok (x_patch_to_json x) (x_patch_from_json x) (patch_id, deprecated)"
    and "utf8_valid (map of_char patch_id)"
    and "details_old = [''patch_id'' \<mapsto> [p\<lparr>pl_data := patch_id\<rparr>],
           ''deprecated'' \<mapsto> [q\<lparr>pl_data := [b]\<rparr>]]"
    and "deprecated \<longleftrightarrow> of_char b \<noteq> (0 :: nat)"
  shows "\<exists>details. build_has_change_marker_details x patch_id deprecated = Some details \<and>
    (\<forall>ds \<in> {details, details_old}.
       get_patch_marker_details x (hed_event (plain_event i E_MarkerRecorded
         (Some (A_MarkerRecorded \<lparr>mr_marker_name = PATCH_MARKER_NAME, mr_details = ds,
           mr_failure = fl\<rparr>)))) = Some (patch_id, deprecated))"
proof -
  obtain details where "build_has_change_marker_details x patch_id deprecated = Some details"
      "decode_change_marker_details x details = Some (patch_id, deprecated)"
    using decode_build_change_marker [OF assms(1)] by blast
  moreover have "decode_change_marker_details x details_old = Some (patch_id, deprecated)"
    using assms(2-4)
    by (simp add: decode_change_marker_details_def PATCHED_MARKER_DETAILS_KEY_def list_first_def
        str_from_utf8_def)
  ultimately show ?thesis by (simp add: get_patch_marker_details_def marker_recorded_def)
qed

theorem patch_marker_roundtrip_witness:
  "\<exists>details. build_has_change_marker_details marker_sample_externals ''p'' True = Some details \<and>
    get_patch_marker_details marker_sample_externals (hed_event (plain_event 5 E_MarkerRecorded
      (Some (A_MarkerRecorded \<lparr>mr_marker_name = PATCH_MARKER_NAME, mr_details = details,
        mr_failure = None\<rparr>)))) = Some (''p'', True)"
proof -
  have "json_codec_ok (x_patch_to_json marker_sample_externals)
      (x_patch_from_json marker_sample_externals) (''p'', True)" "utf8_valid (map of_char ''p'')"
      "True \<longleftrightarrow> of_char (CHR ''x'') \<noteq> (0 :: nat)"
    by (simp_all add: json_codec_ok_def marker_sample_externals_def sample_externals_def)
  from patch_marker_roundtrip [OF this(1,2) refl this(3), of Payload_default Payload_default 5 None]
  show ?thesis by blast
qed

text \<open>a validated local activity request has at least one close timeout, and a start-to-close and a
  schedule-to-start timeout no longer than its schedule-to-close timeout; a request without a close
  timeout is refused.\<close>

theorem from_schedule_la_valid:
  assumes "from_schedule_la x v um egm = Ok la"
  shows "(case into_sched_and_start (vla_close_timeouts la) of
        (Some sched, start) \<Rightarrow> (\<forall>d. start = Some d \<longrightarrow> d \<le> sched) \<and>
          (\<forall>d. vla_schedule_to_start_timeout la = Some d \<longrightarrow> d \<le> sched)
      | (None, start) \<Rightarrow> start \<noteq> None) \<and>
    (sla_schedule_to_close_timeout v \<noteq> None \<or> sla_start_to_close_timeout v \<noteq> None)"
proof -
  obtain sc ss st ct where conv: "try_convert (x_to_std_duration x) BadScheduleToClose
        (sla_schedule_to_close_timeout v) = Ok sc"
      "try_convert (x_to_std_duration x) BadStartToClose (sla_start_to_close_timeout v) = Ok st"
    and ct: "vla_close_timeouts la = ct" "(case (sc, st) of
                 (Some sch, None) \<Rightarrow> Ok (ScheduleOnly sch)
               | (None, Some start) \<Rightarrow> Ok (StartOnly start)
               | (Some sched, Some start) \<Rightarrow>
                   Ok (BothTimeouts sched (if start > sched then sched else start))
               | (None, None) \<Rightarrow> Err NoCloseTimeout) = Ok ct"
    and ss: "vla_schedule_to_start_timeout la = (case (ss, sc) of
              (Some sched_to_start, Some sched_to_close) \<Rightarrow>
                Some (if sched_to_start > sched_to_close then sched_to_close else sched_to_start)
            | _ \<Rightarrow> ss)"
    using assms unfolding from_schedule_la_def res_bind_eq_Ok Let_def by fastforce
  have "sla_schedule_to_close_timeout v \<noteq> None \<or> sla_start_to_close_timeout v \<noteq> None"
    using conv ct by (auto simp: try_convert_Ok split: option.splits)
  then show ?thesis using ct ss by (cases sc; cases st; cases ss) auto
qed

theorem from_schedule_la_valid_witness:
  "\<exists>la d. from_schedule_la marker_sample_externals sample_la None [] = Ok la \<and>
     fst (into_sched_and_start (vla_close_timeouts la)) = Some d \<and>
     (\<forall>s. vla_schedule_to_start_timeout la = Some s \<longrightarrow> s \<le> d)"
proof -
  obtain la d where la: "from_schedule_la marker_sample_externals sample_la None [] = Ok la"
      "vla_close_timeouts la = BothTimeouts d d"
    by (simp add: from_schedule_la_def marker_sample_externals_def sample_externals_def sample_la_def Let_def)
  with from_schedule_la_valid [OF la(1)] show ?thesis by auto
qed

end
