(* ===== verification/LocalActivityMachine.thy ===== *)
theory LocalActivityMachine
  imports ActivityMachine Markers
begin

text \<open>
  Local activities, \<^verbatim>\<open>local_activity_state_machine.rs\<close> of
  \<^verbatim>\<open>crates/sdk-core/src/worker/workflow/machines\<close>.  A local activity runs in the worker; its
  result reaches history as a marker.  When the workflow is replayed the machine waits for that
  marker instead of running the activity.  Moving the workflow clock past the representable range
  is not modelled: a \<^verbatim>\<open>SystemTime\<close> is an integer.
\<close>

section \<open>The machine\<close>

datatype ResultType = RT_Completed | RT_Cancelled | RT_Failed

datatype LAState = La_Executing | La_Replaying | La_RequestSent | La_MarkerCommandCreated ResultType
  | La_ResultNotified ResultType | La_MarkerCommandRecorded | La_WaitingResolveFromMarkerLookAhead
  | La_ResolvedFromMarkerLookAheadWaitingMarkerEvent

record ResolveDat =
  rd_result :: LocalActivityExecutionResult
  rd_complete_time :: "SystemTime option"
  rd_attempt :: u32
  rd_backoff :: "ProstDuration option"
  rd_original_schedule_time :: "SystemTime option"
  rd_activation_index :: "u64 option"

datatype LAEvent = LaEv_Schedule | LaEv_HandleResult ResolveDat | LaEv_Cancel
  | LaEv_NoWaitCancel ActivityCancellationType | LaEv_CommandRecordMarker
  | LaEv_MarkerRecorded CompleteLocalActivityData | LaEv_HandleKnownResult ResolveDat
  | LaEv_StartedNonReplayWFT

datatype LocalActivityCommand = LaCmd_RequestActivityExecution ValidScheduleLA
  | LaCmd_Resolved ResolveDat | LaCmd_RequestCancel

record LAShared =
  lsh_attrs :: ValidScheduleLA
  lsh_replaying_when_invoked :: bool
  lsh_wf_time_when_started :: "SystemTime option"
  lsh_internal_flags :: InternalFlags

type_synonym LocalActivityMachine = "(LAState, LAShared) StateMachine"
type_synonym la_tr = "(LocalActivityCommand, LAState, WFMachinesError) TransitionResult"

fun is_canceled_info :: "FailureInfo option \<Rightarrow> bool" where
  "is_canceled_info (Some (FI_Canceled _ _)) = True"
| "is_canceled_info _ = False"

fun is_timeout_info :: "FailureInfo option \<Rightarrow> bool" where
  "is_timeout_info (Some (FI_Timeout _ _)) = True"
| "is_timeout_info _ = False"

definition ResolveDat_from :: "externals \<Rightarrow> CompleteLocalActivityData \<Rightarrow> ResolveDat" where
  "ResolveDat_from x d =
     (let md = cla_marker_dat d
      in \<lparr>rd_result = (case cla_result d of
              Inr res \<Rightarrow> LA_Completed (Some res)
            | Inl fail \<Rightarrow>
                if is_canceled_info (f_info fail) \<or>
                   is_canceled_info (Option.bind (f_cause fail) f_info)
                then LA_Cancelled (Some fail) else LA_Failed (Some fail)),
          rd_complete_time = try_into_or_none (x_to_system_time x) (lam_complete_time md),
          rd_attempt = lam_attempt md, rd_backoff = lam_backoff md,
          rd_original_schedule_time =
            try_into_or_none (x_to_system_time x) (lam_original_schedule_time md),
          rd_activation_index = lam_activation_index md\<rparr>)"

definition produce_no_wait_cancel_resolve_dat :: "LAShared \<Rightarrow> ResolveDat" where
  "produce_no_wait_cancel_resolve_dat self =
     \<lparr>rd_result = empty_cancel, rd_complete_time = None, rd_attempt = vla_attempt (lsh_attrs self),
      rd_backoff = None, rd_original_schedule_time = vla_original_schedule_time (lsh_attrs self),
      rd_activation_index = None\<rparr>"

definition verify_marker_data_matches ::
  "LAShared \<Rightarrow> CompleteLocalActivityData \<Rightarrow> (unit, WFMachinesError) res \<times> LAShared" where
  "verify_marker_data_matches shared dat =
     (let md = cla_marker_dat dat; attrs = lsh_attrs shared
      in if vla_seq attrs \<noteq> lam_seq md then (Err (Nondeterminism SeqMismatch), shared)
         else
           let (use, flags) = try_use IdAndTypeDeterminismChecks
                 (\<not> lsh_replaying_when_invoked shared) (lsh_internal_flags shared);
               shared = shared\<lparr>lsh_internal_flags := flags\<rparr>
           in if use \<and> lam_activity_id md \<noteq> vla_activity_id attrs
              then (Err (Nondeterminism IdMismatch), shared)
              else if use \<and> lam_activity_type md \<noteq> vla_activity_type attrs
              then (Err (Nondeterminism TypeMismatch), shared)
              else (Ok (), shared))"

section \<open>Handlers\<close>

fun la_result_type :: "LocalActivityExecutionResult \<Rightarrow> ResultType" where
  "la_result_type (LA_Completed _) = RT_Completed"
| "la_result_type (LA_Failed _) = RT_Failed"
| "la_result_type (LA_TimedOut _) = RT_Failed"
| "la_result_type (LA_Cancelled _) = RT_Cancelled"

definition la_RequestSent_on_handle_result :: "ResolveDat \<Rightarrow> la_tr" where
  "la_RequestSent_on_handle_result dat =
     TrOk [LaCmd_Resolved dat] (La_MarkerCommandCreated (la_result_type (rd_result dat)))"

definition la_RequestSent_on_no_wait_cancel :: "LAShared \<Rightarrow> ActivityCancellationType \<Rightarrow> la_tr" where
  "la_RequestSent_on_no_wait_cancel shared cancel_type =
     TrOk ((if cancel_type = ACT_TryCancel then [LaCmd_RequestCancel] else []) @
           [LaCmd_Resolved (produce_no_wait_cancel_resolve_dat shared)])
       (La_MarkerCommandCreated RT_Cancelled)"

definition la_verify_marker_dat ::
  "LAShared \<Rightarrow> CompleteLocalActivityData \<Rightarrow> la_tr \<times> LAShared" where
  "la_verify_marker_dat shared dat =
     (case verify_marker_data_matches shared dat of
        (Ok _, shared) \<Rightarrow> (tr_default La_MarkerCommandRecorded, shared)
      | (Err err, shared) \<Rightarrow> (TrErr err, shared)
      | (Panic, shared) \<Rightarrow> (TrPanic, shared))"

definition la_ResultNotified_on_marker_recorded ::
  "ResultType \<Rightarrow> LAShared \<Rightarrow> CompleteLocalActivityData \<Rightarrow> la_tr \<times> LAShared" where
  "la_ResultNotified_on_marker_recorded result_type shared dat =
     (if result_type = RT_Completed \<and> isl (cla_result dat)
      then (TrErr (Nondeterminism ResultMismatch), shared)
      else if result_type = RT_Failed \<and> \<not> isl (cla_result dat)
      then (TrErr (Nondeterminism ResultMismatch), shared)
      else la_verify_marker_dat shared dat)"

definition la_on_started_non_replay_wft :: "LAShared \<Rightarrow> la_tr \<times> LAShared" where
  "la_on_started_non_replay_wft dat =
     (let dat = dat\<lparr>lsh_replaying_when_invoked := False\<rparr>
      in (tr_commands [LaCmd_RequestActivityExecution (lsh_attrs dat)] La_RequestSent, dat))"

definition la_MarkerCommandRecorded_on_no_wait_cancel :: "ActivityCancellationType \<Rightarrow> la_tr" where
  "la_MarkerCommandRecorded_on_no_wait_cancel cancel_type =
     (if cancel_type = ACT_TryCancel then TrOk [LaCmd_RequestCancel] La_MarkerCommandRecorded
      else tr_default La_MarkerCommandRecorded)"

definition la_arms :: "(LAState, LAShared, LAEvent, LocalActivityCommand) arms" where
  "la_arms st sh ev =
     (case st of
        La_Executing \<Rightarrow>
          (case ev of
             LaEv_Schedule \<Rightarrow>
               arm_pure (tr_commands [LaCmd_RequestActivityExecution (lsh_attrs sh)] La_RequestSent) sh
           | _ \<Rightarrow> None)
      | La_Replaying \<Rightarrow>
          (case ev of
             LaEv_Schedule \<Rightarrow> arm_pure (TrOk [] La_WaitingResolveFromMarkerLookAhead) sh | _ \<Rightarrow> None)
      | La_RequestSent \<Rightarrow>
          (case ev of
             LaEv_HandleResult dat \<Rightarrow> arm_pure (la_RequestSent_on_handle_result dat) sh
           | LaEv_Cancel \<Rightarrow> arm_pure (TrOk [LaCmd_RequestCancel] La_RequestSent) sh
           | LaEv_NoWaitCancel ct \<Rightarrow> arm_pure (la_RequestSent_on_no_wait_cancel sh ct) sh
           | _ \<Rightarrow> None)
      | La_MarkerCommandCreated rt \<Rightarrow>
          (case ev of
             LaEv_CommandRecordMarker \<Rightarrow> arm_default (La_ResultNotified rt) sh
           | LaEv_HandleResult _ \<Rightarrow> arm_default (La_MarkerCommandCreated rt) sh
           | _ \<Rightarrow> None)
      | La_ResultNotified rt \<Rightarrow>
          (case ev of
             LaEv_MarkerRecorded d \<Rightarrow> Some (la_ResultNotified_on_marker_recorded rt sh d)
           | LaEv_HandleResult _ \<Rightarrow> arm_default (La_ResultNotified rt) sh
           | _ \<Rightarrow> None)
      | La_WaitingResolveFromMarkerLookAhead \<Rightarrow>
          (case ev of
             LaEv_HandleKnownResult dat \<Rightarrow>
               arm_pure (TrOk [LaCmd_Resolved dat] La_ResolvedFromMarkerLookAheadWaitingMarkerEvent) sh
           | LaEv_Cancel \<Rightarrow>
               arm_pure (TrOk [LaCmd_RequestCancel] La_WaitingResolveFromMarkerLookAhead) sh
           | LaEv_NoWaitCancel _ \<Rightarrow>
               arm_pure (TrOk [LaCmd_RequestCancel] La_WaitingResolveFromMarkerLookAhead) sh
           | LaEv_StartedNonReplayWFT \<Rightarrow> Some (la_on_started_non_replay_wft sh)
           | _ \<Rightarrow> None)
      | La_ResolvedFromMarkerLookAheadWaitingMarkerEvent \<Rightarrow>
          (case ev of
             LaEv_Cancel \<Rightarrow> arm_pure (TrOk [LaCmd_RequestCancel]
               La_ResolvedFromMarkerLookAheadWaitingMarkerEvent) sh
           | LaEv_NoWaitCancel _ \<Rightarrow> arm_pure (TrOk [LaCmd_RequestCancel]
               La_ResolvedFromMarkerLookAheadWaitingMarkerEvent) sh
           | LaEv_MarkerRecorded d \<Rightarrow> Some (la_verify_marker_dat sh d)
           | _ \<Rightarrow> None)
      | La_MarkerCommandRecorded \<Rightarrow>
          (case ev of
             LaEv_Cancel \<Rightarrow> arm_pure (TrOk [LaCmd_RequestCancel] La_MarkerCommandRecorded) sh
           | LaEv_NoWaitCancel ct \<Rightarrow> arm_pure (la_MarkerCommandRecorded_on_no_wait_cancel ct) sh
           | LaEv_HandleResult _ \<Rightarrow> arm_default La_MarkerCommandRecorded sh
           | _ \<Rightarrow> None))"

text \<open>No state is final: each accepts some event.\<close>

definition la_is_final :: "LAState \<Rightarrow> bool" where
  "la_is_final st = False"

definition la_from_command :: "CommandType \<Rightarrow> LAEvent option" where
  "la_from_command c = (if c = C_RecordMarker then Some LaEv_CommandRecordMarker else None)"

definition la_from_event :: "externals \<Rightarrow> HistEventData \<Rightarrow> LAEvent result" where
  "la_from_event x d =
     (let e = hed_event d
      in if he_event_type e \<noteq> E_MarkerRecorded then Err (Nondeterminism EventNotHandled)
         else case into_local_activity_marker_details x e of
                Some marker_dat \<Rightarrow> Ok (LaEv_MarkerRecorded marker_dat)
              | None \<Rightarrow> Err (Nondeterminism MarkerUnparsable))"

section \<open>Resolving\<close>

text \<open>\<^verbatim>\<open>wrap_fail!\<close>: a failure with the given kind of info becomes the cause of an activity
  failure.\<close>

definition la_wrap_fail ::
  "LAShared \<Rightarrow> Failure option \<Rightarrow> string \<Rightarrow> (FailureInfo option \<Rightarrow> bool) \<Rightarrow> Failure option" where
  "la_wrap_fail self fail msg is_info =
     (if is_info (Option.bind fail f_info)
      then Some (Failure msg fail (Some (activity_fail_info (vla_activity_type (lsh_attrs self))
             (vla_activity_id (lsh_attrs self)) None RS_CancelRequested 0 0)) [])
      else fail)"

definition la_resolution :: "externals \<Rightarrow> LAShared \<Rightarrow> ResolveDat \<Rightarrow> ActivityResolution" where
  "la_resolution x self dat =
     (case rd_backoff dat of
        Some b \<Rightarrow> AR_Backoff (rd_attempt dat + 1) (Some b)
                    (map_option (x_from_system_time x) (rd_original_schedule_time dat))
      | None \<Rightarrow>
          (case rd_result dat of
             LA_Completed c \<Rightarrow> AR_Completed c
           | LA_Failed f \<Rightarrow> AR_Failed f
           | LA_TimedOut f \<Rightarrow>
               AR_Failed (la_wrap_fail self f ''Local Activity timed out'' is_timeout_info)
           | LA_Cancelled c \<Rightarrow>
               AR_Cancelled (la_wrap_fail self c ''Local Activity cancelled'' is_canceled_info)))"

fun la_ok_result :: "LocalActivityExecutionResult \<Rightarrow> Payload option" where
  "la_ok_result (LA_Completed suc) = suc"
| "la_ok_result _ = None"

fun la_failure :: "LocalActivityExecutionResult \<Rightarrow> Failure option" where
  "la_failure (LA_Completed _) = None"
| "la_failure (LA_Failed f) = f"
| "la_failure (LA_Cancelled f) = f"
| "la_failure (LA_TimedOut f) = f"

fun la_will_not_run_again :: "LocalActivityExecutionResult \<Rightarrow> bool" where
  "la_will_not_run_again (LA_Cancelled _) = True"
| "la_will_not_run_again (LA_TimedOut _) = True"
| "la_will_not_run_again _ = False"

definition la_marker_data :: "externals \<Rightarrow> LAShared \<Rightarrow> ResolveDat \<Rightarrow> LocalActivityMarkerData" where
  "la_marker_data x self dat =
     \<lparr>lam_seq = vla_seq (lsh_attrs self), lam_attempt = rd_attempt dat,
      lam_activity_id = vla_activity_id (lsh_attrs self),
      lam_activity_type = vla_activity_type (lsh_attrs self),
      lam_complete_time = map_option (x_from_system_time x) (rd_complete_time dat),
      lam_backoff = rd_backoff dat,
      lam_original_schedule_time =
        map_option (x_from_system_time x) (rd_original_schedule_time dat),
      lam_activation_index = rd_activation_index dat\<rparr>"

definition la_record_marker ::
  "externals \<Rightarrow> LAShared \<Rightarrow> ResolveDat \<Rightarrow> RecordMarkerCommandAttributes" where
  "la_record_marker x self dat =
     (let details = build_local_activity_marker_details x (la_marker_data x self dat)
                      (la_ok_result (rd_result dat));
          details = (if vla_include_arguments_in_marker (lsh_attrs self)
                     then details(''input'' \<mapsto> vla_arguments (lsh_attrs self)) else details)
      in \<lparr>rm_marker_name = LOCAL_ACTIVITY_MARKER_NAME, rm_details = details,
          rm_failure = la_failure (rd_result dat)\<rparr>)"

definition la_resolved_responses ::
  "externals \<Rightarrow> LAShared \<Rightarrow> ResolveDat \<Rightarrow> MachineResponse list result" where
  "la_resolved_responses x self dat =
     (let attrs = lsh_attrs self;
          responses =
            [PushWFJob (J_ResolveActivity (vla_seq attrs) (la_resolution x self dat) True),
             UpdateWFTime (rd_complete_time dat)] @
            (if la_will_not_run_again (rd_result dat) \<and> vla_cancellation_type attrs = ACT_Abandon
             then [AbandonLocalActivity (vla_seq attrs)] else [])
      in if \<not> lsh_replaying_when_invoked self then
           res_map (\<lambda>command. responses @ [IssueNewCommand
               (command\<lparr>cmd_user_metadata := vla_user_metadata attrs,
                        cmd_event_group_markers := vla_event_group_markers attrs\<rparr>)])
             (Command_from_attributes (CA_RecordMarker (la_record_marker x self dat)))
         else Ok responses)"

fun la_adapt_response ::
  "externals \<Rightarrow> LocalActivityMachine \<Rightarrow> LocalActivityCommand \<Rightarrow> EventInfo option \<Rightarrow>
   MachineResponse list result" where
  "la_adapt_response x m (LaCmd_RequestActivityExecution act) _ = Ok [QueueLocalActivity act]"
| "la_adapt_response x m (LaCmd_Resolved dat) _ = la_resolved_responses x (sm_shared m) dat"
| "la_adapt_response x m LaCmd_RequestCancel _ =
     Ok [RequestCancelLocalActivity (vla_seq (lsh_attrs (sm_shared m)))]"

definition la_ops ::
  "externals \<Rightarrow> (LAState, LAShared, LAEvent, LocalActivityCommand) machine_ops" where
  "la_ops x = \<lparr>op_arms = la_arms, op_from_command = la_from_command,
     op_from_event = la_from_event x, op_adapt_response = la_adapt_response x\<rparr>"

section \<open>Operations\<close>

text \<open>\<^verbatim>\<open>.expect(..)\<close> on the result of an adapter.\<close>

fun res_expect :: "('a, 'e) res \<Rightarrow> ('a, 'f) res" where
  "res_expect (Ok a) = Ok a"
| "res_expect _ = Panic"

definition new_local_activity ::
  "externals \<Rightarrow> ValidScheduleLA \<Rightarrow> bool \<Rightarrow> SystemTime option \<Rightarrow> InternalFlags \<Rightarrow>
   (LocalActivityMachine \<times> MachineResponse list) result" where
  "new_local_activity x attrs replaying_when_invoked wf_time internal_flags =
     (let attrs = attrs\<lparr>vla_original_schedule_time :=
            Some (unwrap_or (vla_original_schedule_time attrs) (x_now x))\<rparr>;
          machine = from_parts (if replaying_when_invoked then La_Replaying else La_Executing)
            \<lparr>lsh_attrs = attrs, lsh_replaying_when_invoked = replaying_when_invoked,
             lsh_wf_time_when_started = wf_time, lsh_internal_flags = internal_flags\<rparr>
      in res_bind (expect_event la_arms machine LaEv_Schedule) (\<lambda>(cmds, machine).
           (case list_pop cmds of
              Some c \<Rightarrow> res_bind (res_expect (la_adapt_response x machine c None))
                          (\<lambda>mr. Ok (machine, mr))
            | None \<Rightarrow> Ok (machine, []))))"

definition la_marker_should_get_special_handling :: "LocalActivityMachine \<Rightarrow> bool result" where
  "la_marker_should_get_special_handling self =
     (case sm_state self of
        None \<Rightarrow> Panic
      | Some (La_ResultNotified _) \<Rightarrow> Ok False
      | Some La_ResolvedFromMarkerLookAheadWaitingMarkerEvent \<Rightarrow> Ok True
      | Some _ \<Rightarrow> Err (Fatal LocalActivityState))"

definition la_will_accept_resolve_marker :: "LocalActivityMachine \<Rightarrow> bool result" where
  "la_will_accept_resolve_marker self =
     (case sm_state self of
        None \<Rightarrow> Panic | Some st \<Rightarrow> Ok (st = La_WaitingResolveFromMarkerLookAhead))"

text \<open>The mapping of the errors of the two methods below: an invalid transition names the state.\<close>

fun la_map_err :: "LocalActivityMachine \<Rightarrow> WFMachinesError MachineError \<Rightarrow> 'a result" where
  "la_map_err self InvalidTransition = invalid_transition_err self (Fatal LocalActivityState)"
| "la_map_err self (Underlying e) = Err e"

definition encountered_non_replay_wft ::
  "externals \<Rightarrow> LocalActivityMachine \<Rightarrow> MachineResponse list result \<times> LocalActivityMachine" where
  "encountered_non_replay_wft x self =
     (case sm_state self of
        None \<Rightarrow> (Panic, self)
      | Some st \<Rightarrow>
          if st \<noteq> La_WaitingResolveFromMarkerLookAhead then (Ok [], self)
          else
            (case on_event la_arms self LaEv_StartedNonReplayWFT of
               (Ok cmds, self) \<Rightarrow>
                 (case list_pop cmds of
                    Some c \<Rightarrow> (res_expect (la_adapt_response x self c None), self)
                  | None \<Rightarrow> (Panic, self))
             | (Err e, self) \<Rightarrow> (la_map_err self e, self)
             | (Panic, self) \<Rightarrow> (Panic, self)))"

definition la__try_resolve ::
  "externals \<Rightarrow> LocalActivityMachine \<Rightarrow> ResolveDat \<Rightarrow> bool \<Rightarrow>
   MachineResponse list result \<times> LocalActivityMachine" where
  "la__try_resolve x self dat from_marker =
     (let evt = (if from_marker then LaEv_HandleKnownResult dat else LaEv_HandleResult dat)
      in case on_event la_arms self evt of
           (Ok cmds, self) \<Rightarrow>
             (concat_res (\<lambda>c. res_expect (la_adapt_response x self c None)) cmds, self)
         | (Err e, self) \<Rightarrow> (la_map_err self e, self)
         | (Panic, self) \<Rightarrow> (Panic, self))"

definition la_try_resolve ::
  "externals \<Rightarrow> LocalActivityMachine \<Rightarrow> LocalActivityExecutionResult \<Rightarrow> StdDuration \<Rightarrow> u32 \<Rightarrow>
   ProstDuration option \<Rightarrow> SystemTime option \<Rightarrow> u64 \<Rightarrow>
   MachineResponse list result \<times> LocalActivityMachine" where
  "la_try_resolve x self res runtime attempt backoff original_schedule_time activation_index =
     la__try_resolve x self
       \<lparr>rd_result = res,
        rd_complete_time =
          map_option (\<lambda>t. t + int runtime) (lsh_wf_time_when_started (sm_shared self)),
        rd_attempt = attempt, rd_backoff = backoff,
        rd_original_schedule_time = original_schedule_time,
        rd_activation_index = Some activation_index\<rparr> False"

definition la_try_resolve_with_dat ::
  "externals \<Rightarrow> LocalActivityMachine \<Rightarrow> ResolveDat \<Rightarrow>
   MachineResponse list result \<times> LocalActivityMachine" where
  "la_try_resolve_with_dat x self dat = la__try_resolve x self dat True"

fun la_set_activation_index :: "u64 \<Rightarrow> LocalActivityCommand \<Rightarrow> LocalActivityCommand" where
  "la_set_activation_index i (LaCmd_Resolved dat) =
     LaCmd_Resolved (dat\<lparr>rd_activation_index := Some i\<rparr>)"
| "la_set_activation_index i c = c"

definition la_cancel ::
  "externals \<Rightarrow> LocalActivityMachine \<Rightarrow> u64 \<Rightarrow> MachineResponse list result \<times> LocalActivityMachine" where
  "la_cancel x self activation_index =
     (let event = (case vla_cancellation_type (lsh_attrs (sm_shared self)) of
            ACT_TryCancel \<Rightarrow> LaEv_NoWaitCancel ACT_TryCancel
          | ACT_Abandon \<Rightarrow> LaEv_NoWaitCancel ACT_Abandon
          | ACT_WaitCancellationCompleted \<Rightarrow> LaEv_Cancel)
      in case on_event la_arms self event of
           (Ok cmds, self) \<Rightarrow>
             (concat_res (\<lambda>mc. la_adapt_response x self
                (la_set_activation_index activation_index mc) None) cmds, self)
         | (Err e, self) \<Rightarrow> (Err (from_machine_error e), self)
         | (Panic, self) \<Rightarrow> (Panic, self))"

definition la_was_cancelled_before_sent :: "LocalActivityMachine \<Rightarrow> bool" where
  "la_was_cancelled_before_sent m = False"

section \<open>Runs of a local activity\<close>

datatype LAOwn = La_do_cancel u64
  | La_do_resolve LocalActivityExecutionResult StdDuration u32 "ProstDuration option"
      "SystemTime option" u64
  | La_do_resolve_with ResolveDat | La_non_replay_wft | La_set_flags InternalFlags

fun la_own ::
  "externals \<Rightarrow> LocalActivityMachine \<Rightarrow> LAOwn \<Rightarrow> MachineResponse list result \<times> LocalActivityMachine"
where
  "la_own x m (La_do_cancel i) = la_cancel x m i"
| "la_own x m (La_do_resolve r rt att b ost i) = la_try_resolve x m r rt att b ost i"
| "la_own x m (La_do_resolve_with d) = la_try_resolve_with_dat x m d"
| "la_own x m La_non_replay_wft = encountered_non_replay_wft x m"
| "la_own x m (La_set_flags fl) =
     (Ok [], m\<lparr>sm_shared := (sm_shared m)\<lparr>lsh_internal_flags := fl\<rparr>\<rparr>)"

abbreviation la_step ::
  "externals \<Rightarrow> LocalActivityMachine \<Rightarrow> LAOwn MachineInput \<Rightarrow>
   MachineResponse list result \<times> LocalActivityMachine" where
  "la_step x \<equiv> drive (la_ops x) (la_own x)"

fun issue_command_weight :: "MachineResponse \<Rightarrow> nat" where
  "issue_command_weight (IssueNewCommand _) = 1"
| "issue_command_weight _ = 0"

text \<open>The states before the result is known, and the states that only a replayed activity is in.\<close>

definition la_open :: "LAState set" where
  "la_open = {La_Executing, La_Replaying, La_RequestSent, La_WaitingResolveFromMarkerLookAhead}"

definition la_good :: "ValidScheduleLA \<Rightarrow> LAState \<Rightarrow> LAShared \<Rightarrow> bool" where
  "la_good a st sh \<longleftrightarrow> lsh_attrs sh = a \<and>
     (st = La_MarkerCommandRecorded \<or>
      (lsh_replaying_when_invoked sh \<longleftrightarrow> st \<in> {La_Replaying, La_WaitingResolveFromMarkerLookAhead,
         La_ResolvedFromMarkerLookAheadWaitingMarkerEvent}))"

definition la_owes :: "LAState \<Rightarrow> LAShared \<Rightarrow> nat" where
  "la_owes st sh = (if st \<in> la_open then 1 else 0)"

text \<open>Whether the marker has not been sent: it is, once, when a result is known that was not read
  from history.\<close>

definition la_marker_unsent :: "LAState \<Rightarrow> LAShared \<Rightarrow> nat" where
  "la_marker_unsent st sh = (if st \<in> la_open \<or> lsh_replaying_when_invoked sh then 1 else 0)"

lemmas la_defs = la_arms_def la_from_command_def la_from_event_def la_ops_def
  la_RequestSent_on_handle_result_def la_RequestSent_on_no_wait_cancel_def
  la_ResultNotified_on_marker_recorded_def la_on_started_non_replay_wft_def
  la_MarkerCommandRecorded_on_no_wait_cancel_def

lemmas la_run_defs = la_good_def la_owes_def la_marker_unsent_def la_open_def

lemmas la_splits = LAState.splits LAEvent.splits if_splits option.splits

text \<open>Adapting a resolution always succeeds.\<close>

definition la_response_list :: "externals \<Rightarrow> LAShared \<Rightarrow> ResolveDat \<Rightarrow> MachineResponse list" where
  "la_response_list x sh dat =
     (case la_resolved_responses x sh dat of Ok rs \<Rightarrow> rs | _ \<Rightarrow> [])"

lemma la_resolved_responses_eq [simp]:
  "la_resolved_responses x sh dat = Ok (la_response_list x sh dat)"
  by (simp add: la_response_list_def la_resolved_responses_def Command_from_attributes_def Let_def)

lemma la_response_list_weights [simp]:
  "sum_list (map resolve_activity_weight (la_response_list x sh dat)) = 1"
  "sum_list (map issue_command_weight (la_response_list x sh dat)) =
     (if lsh_replaying_when_invoked sh then 0 else 1)"
  by (simp_all add: la_response_list_def la_resolved_responses_def Command_from_attributes_def
      Let_def del: la_resolved_responses_eq)

lemma la_response_list_replaying [simp]:
  "lsh_replaying_when_invoked sh \<Longrightarrow> r \<in> set (la_response_list x sh dat) \<Longrightarrow>
   issue_command_weight r = 0"
  by (auto simp: la_response_list_def la_resolved_responses_def Let_def
      simp del: la_resolved_responses_eq split: if_splits)

lemma la_adapt_response_Ok: "\<exists>rs. la_adapt_response x m c info = Ok rs"
  by (cases c) auto

interpretation la_fsm: fsm_final la_arms la_is_final
proof
  fix st
  have "\<exists>ev. la_arms st sh ev \<noteq> None" for sh
    by (cases st) (auto simp: la_arms_def intro: exI [of _ LaEv_Schedule] exI [of _ LaEv_Cancel]
        exI [of _ LaEv_CommandRecordMarker] exI [of _ "LaEv_HandleResult undefined"])
  then show "la_is_final st \<longleftrightarrow> (\<forall>sh ev. la_arms st sh ev = None)" by (auto simp: la_is_final_def)
qed

lemma verify_marker_data_matches_keeps:
  assumes "verify_marker_data_matches sh d = (r, sh')"
  shows "lsh_attrs sh' = lsh_attrs sh \<and> r \<noteq> Panic \<and>
    lsh_replaying_when_invoked sh' = lsh_replaying_when_invoked sh"
  using assms unfolding verify_marker_data_matches_def Let_def
  by (auto split: prod.splits if_splits)

lemma la_verify_marker_dat_OkD:
  assumes "la_verify_marker_dat sh d = (TrOk cmds st', sh')"
  shows "cmds = [] \<and> st' = La_MarkerCommandRecorded \<and> lsh_attrs sh' = lsh_attrs sh \<and>
   lsh_replaying_when_invoked sh' = lsh_replaying_when_invoked sh"
proof -
  obtain r sh1 where v: "verify_marker_data_matches sh d = (r, sh1)" by fastforce
  show ?thesis
    using assms v verify_marker_data_matches_keeps [OF v]
    by (cases r) (simp_all add: la_verify_marker_dat_def)
qed

lemma la_verify_marker_dat_not_Panic [simp]: "la_verify_marker_dat sh d \<noteq> (TrPanic, sh')"
proof -
  obtain r sh1 where v: "verify_marker_data_matches sh d = (r, sh1)" by fastforce
  show ?thesis
    using v verify_marker_data_matches_keeps [OF v]
    by (cases r) (simp_all add: la_verify_marker_dat_def)
qed

interpretation la_laws: adapted_machine "la_ops x" "la_good a" "\<lambda>_. True"
  resolve_activity_weight la_owes "(=)" for x a
  by unfold_locales
    (auto simp: la_defs la_run_defs Let_def dest!: la_verify_marker_dat_OkD split: la_splits)

interpretation la_marker_laws: adapted_machine "la_ops x" "la_good a" "\<lambda>_. True"
  issue_command_weight la_marker_unsent "(=)" for x a
  by unfold_locales
    (auto simp: la_defs la_run_defs Let_def dest!: la_verify_marker_dat_OkD split: la_splits)

lemma la_own_good:
  assumes "good_machine (la_good a) m"
  shows "fst (la_own x m c) \<noteq> Panic"
    and "la_own x m c = (Ok rs, m') \<Longrightarrow> good_machine (la_good a) m' \<and>
      sum_list (map resolve_activity_weight rs) + machine_budget la_owes m'
        = machine_budget la_owes m"
    and "la_own x m c = (Ok rs, m') \<Longrightarrow>
      sum_list (map issue_command_weight rs) + machine_budget la_marker_unsent m'
        = machine_budget la_marker_unsent m"
  using assms
  by (cases c; auto elim!: good_machineE simp: la_cancel_def la_try_resolve_def
      la_try_resolve_with_dat_def la__try_resolve_def encountered_non_replay_wft_def
      invalid_transition_err_def on_event_def la_defs la_run_defs list_pop_def Let_def
      split: la_splits ActivityCancellationType.splits)+

interpretation la: driven_accountant "la_ops x" "la_good a" "\<lambda>_. True"
  resolve_activity_weight la_owes "la_own x" for x a
  using la_own_good by unfold_locales blast+

interpretation la_marker: driven_accountant "la_ops x" "la_good a" "\<lambda>_. True"
  issue_command_weight la_marker_unsent "la_own x" for x a
  using la_own_good by unfold_locales blast+

text \<open>The request as the machine keeps it: with a schedule time.\<close>

definition la_scheduled_attrs :: "externals \<Rightarrow> ValidScheduleLA \<Rightarrow> ValidScheduleLA" where
  "la_scheduled_attrs x attrs = attrs\<lparr>vla_original_schedule_time :=
     Some (unwrap_or (vla_original_schedule_time attrs) (x_now x))\<rparr>"

lemma new_local_activity_eq [simp]:
  "new_local_activity x attrs replaying wf_time fl = Ok
     (\<lparr>sm_state = Some (if replaying then La_WaitingResolveFromMarkerLookAhead else La_RequestSent),
       sm_shared = \<lparr>lsh_attrs = la_scheduled_attrs x attrs, lsh_replaying_when_invoked = replaying,
         lsh_wf_time_when_started = wf_time, lsh_internal_flags = fl\<rparr>\<rparr>,
      if replaying then [] else [QueueLocalActivity (la_scheduled_attrs x attrs)])"
  by (simp add: new_local_activity_def la_scheduled_attrs_def expect_event_def from_parts_def
      on_event_def la_arms_def list_pop_def Let_def)

section \<open>Replaying a recorded marker\<close>

text \<open>The event the server records for a marker command.\<close>

definition marker_event :: "i64 \<Rightarrow> RecordMarkerCommandAttributes \<Rightarrow> HistEventData" where
  "marker_event eid rm = plain_event eid E_MarkerRecorded (Some (A_MarkerRecorded
     \<lparr>mr_marker_name = rm_marker_name rm, mr_details = rm_details rm, mr_failure = rm_failure rm\<rparr>))"

text \<open>The results a replay tells apart: a payload, a failure that is not a cancellation, a
  cancellation.\<close>

fun la_replayable :: "LocalActivityExecutionResult \<Rightarrow> bool" where
  "la_replayable (LA_Completed p) = (p \<noteq> None)"
| "la_replayable (LA_Failed f) = (case f of
     None \<Rightarrow> False
   | Some f \<Rightarrow> \<not> is_canceled_info (f_info f) \<and>
       \<not> is_canceled_info (Option.bind (f_cause f) f_info))"
| "la_replayable (LA_TimedOut f) = False"
| "la_replayable (LA_Cancelled f) = (case f of None \<Rightarrow> False | Some f \<Rightarrow> is_canceled_info (f_info f))"

definition time_codec_ok :: "externals \<Rightarrow> SystemTime option \<Rightarrow> bool" where
  "time_codec_ok x t = (case t of None \<Rightarrow> True
     | Some t \<Rightarrow> x_to_system_time x (x_from_system_time x t) = Some t)"

lemma time_codec_ok_simps [simp]:
  "time_codec_ok x t \<Longrightarrow>
   try_into_or_none (x_to_system_time x) (map_option (x_from_system_time x) t) = t"
  by (cases t) (simp_all add: time_codec_ok_def try_into_or_none_def)

lemma into_marker_details_of_record_marker:
  assumes "json_codec_ok (x_la_marker_to_json x) (x_la_marker_from_json x) (la_marker_data x sh dat)"
  shows "into_local_activity_marker_details x (hed_event (marker_event i (la_record_marker x sh dat))) =
    Some \<lparr>cla_marker_dat = la_marker_data x sh dat,
          cla_result = (case la_failure (rd_result dat) of
              Some f \<Rightarrow> Inl f
            | None \<Rightarrow> Inr (unwrap_or (la_ok_result (rd_result dat)) Payload_default))\<rparr>"
  using extract_build_local_activity_marker [OF assms, of "''input''"]
  by (auto simp: into_local_activity_marker_details_def marker_event_def marker_recorded_def
      la_record_marker_def Let_def split: option.splits)

lemma ResolveDat_from_marker:
  assumes "la_replayable (rd_result dat)" "time_codec_ok x (rd_complete_time dat)"
    "time_codec_ok x (rd_original_schedule_time dat)"
  shows "ResolveDat_from x \<lparr>cla_marker_dat = la_marker_data x sh dat,
          cla_result = (case la_failure (rd_result dat) of
              Some f \<Rightarrow> Inl f
            | None \<Rightarrow> Inr (unwrap_or (la_ok_result (rd_result dat)) Payload_default))\<rparr> = dat"
  using assms
  by (cases "rd_result dat") (auto simp: ResolveDat_from_def la_marker_data_def Let_def
      split: option.splits)

lemma la_resolution_cong:
  "lsh_attrs sh = lsh_attrs sh' \<Longrightarrow> la_resolution x sh dat = la_resolution x sh' dat"
  by (simp add: la_resolution_def la_wrap_fail_def split: option.splits
      LocalActivityExecutionResult.splits)

section \<open>Properties\<close>

text \<open>C20: a local activity is resolved exactly once, when its result is known; and the result is
  recorded by a marker exactly once if it was produced by running the activity, never if it was
  read from history.\<close>

theorem la_resolves_and_records_once:
  assumes "new_local_activity x attrs replaying wf_time fl = Ok (m0, rs0)"
    and "run_result (la_step x) m0 inputs = Ok m"
  shows "sum_list (map resolve_activity_weight (run_responses (la_step x) m0 inputs)) =
      (if sm_state m \<in> Some ` la_open then 0 else 1) \<and>
    sum_list (map issue_command_weight (run_responses (la_step x) m0 inputs)) =
      (if sm_state m \<in> Some ` la_open \<or> lsh_replaying_when_invoked (sm_shared m) then 0 else 1)"
proof -
  have good: "good_machine (la_good (la_scheduled_attrs x attrs)) m0"
    and b: "machine_budget la_owes m0 = 1" "machine_budget la_marker_unsent m0 = 1"
    using assms(1) by (auto simp: la_run_defs split: if_splits)
  then obtain st sh where "m = \<lparr>sm_state = Some st, sm_shared = sh\<rparr>"
    using la.contract.run_inv [OF good assms(2)] by (blast elim: good_machineE)
  then show ?thesis
    using la.account.run_accounts [OF good assms(2)] b
      la_marker.account.run_accounts [OF good assms(2)]
    by (auto simp: la_owes_def la_marker_unsent_def split: if_splits)
qed

theorem la_resolves_and_records_once_witness:
  "\<exists>la m0 rs0 m. from_schedule_la marker_sample_externals sample_la None [] = Ok la \<and>
     new_local_activity marker_sample_externals la False None (InternalFlags_new True [] []) =
       Ok (m0, rs0) \<and>
     run_result (la_step marker_sample_externals) m0 [In_Own (La_do_cancel 0)] = Ok m \<and>
     sum_list (map resolve_activity_weight (run_responses (la_step marker_sample_externals) m0
       [In_Own (La_do_cancel 0)])) = 1"
proof -
  let ?x = marker_sample_externals
  obtain la where la: "from_schedule_la ?x sample_la None [] = Ok la"
      "vla_cancellation_type la = ACT_TryCancel"
    by (simp add: from_schedule_la_def marker_sample_externals_def sample_externals_def sample_la_def Let_def)
  obtain m0 rs0 where new: "new_local_activity ?x la False None (InternalFlags_new True [] []) =
      Ok (m0, rs0)" by simp
  obtain m where m: "run_result (la_step ?x) m0 [In_Own (La_do_cancel 0)] = Ok m"
      "sm_state m = Some (La_MarkerCommandCreated RT_Cancelled)"
    using new la(2) by (auto simp: la_cancel_def on_event_def la_defs la_scheduled_attrs_def)
  show ?thesis
    using la(1) new m la_resolves_and_records_once [OF new m(1)] by (auto simp: la_open_def)
qed

text \<open>The data of a live resolution of an activity started at workflow time \<open>wf_time\<close>.\<close>

definition la_live_dat ::
  "SystemTime option \<Rightarrow> LocalActivityExecutionResult \<Rightarrow> StdDuration \<Rightarrow> u32 \<Rightarrow> ProstDuration option \<Rightarrow>
   SystemTime option \<Rightarrow> u64 \<Rightarrow> ResolveDat" where
  "la_live_dat wf_time res runtime attempt backoff ost idx =
     \<lparr>rd_result = res, rd_complete_time = map_option (\<lambda>t. t + int runtime) wf_time,
      rd_attempt = attempt, rd_backoff = backoff, rd_original_schedule_time = ost,
      rd_activation_index = Some idx\<rparr>"

lemma la_live_resolve:
  assumes "new_local_activity x attrs False wf_time fl = Ok (live, rs0)"
    and "la_try_resolve x live res runtime attempt backoff ost idx = (Ok rs, live')"
  shows "rs = la_response_list x (sm_shared live)
      (la_live_dat wf_time res runtime attempt backoff ost idx)"
  using assms
  by (auto simp: la_try_resolve_def la__try_resolve_def la_live_dat_def on_event_def la_defs)

lemma la_replay_resolve:
  assumes "new_local_activity x attrs True wf_time fl = Ok (replay, rs0)"
  shows "\<exists>m. la_try_resolve_with_dat x replay dat = (Ok (la_response_list x (sm_shared replay) dat), m)
    \<and> m = replay\<lparr>sm_state := Some La_ResolvedFromMarkerLookAheadWaitingMarkerEvent\<rparr>"
  using assms
  by (auto simp: la_try_resolve_with_dat_def la__try_resolve_def on_event_def la_defs)

lemma la_response_list_replay:
  assumes "lsh_replaying_when_invoked sh'" "\<not> lsh_replaying_when_invoked sh"
    "lsh_attrs sh' = (lsh_attrs sh)\<lparr>vla_original_schedule_time := t\<rparr>"
  shows "la_response_list (x\<lparr>x_now := now\<rparr>) sh' dat =
      filter (\<lambda>r. issue_command_weight r = 0) (la_response_list x sh dat)"
    and "IssueNewCommand cmd \<in> set (la_response_list x sh dat) \<Longrightarrow>
      cmd_attributes cmd = CA_RecordMarker (la_record_marker x sh dat)"
  using assms
  by (auto simp: la_response_list_def la_resolved_responses_def Command_from_attributes_def
      la_resolution_def la_wrap_fail_def Let_def simp del: la_resolved_responses_eq
      split: option.splits LocalActivityExecutionResult.splits)

lemma extract_now_update [simp]:
  "extract_local_activity_marker_details (x\<lparr>x_now := now\<rparr>) = extract_local_activity_marker_details x"
  by (simp add: fun_eq_iff extract_local_activity_marker_details_def
      extract_local_activity_marker_data_def)

lemma externals_now_update [simp]:
  "into_local_activity_marker_details (x\<lparr>x_now := now\<rparr>) e = into_local_activity_marker_details x e"
  "ResolveDat_from (x\<lparr>x_now := now\<rparr>) d = ResolveDat_from x d"
  by (cases "marker_recorded e", simp_all add: into_local_activity_marker_details_def
      ResolveDat_from_def Let_def)

lemma la_marker_event_accepted:
  assumes "into_local_activity_marker_details x (hed_event d) = Some cla"
    and "he_event_type (hed_event d) = E_MarkerRecorded"
    and "sm_state m = Some La_ResolvedFromMarkerLookAheadWaitingMarkerEvent"
    and "lam_seq (cla_marker_dat cla) = vla_seq (lsh_attrs (sm_shared m))"
    and "lam_activity_id (cla_marker_dat cla) = vla_activity_id (lsh_attrs (sm_shared m))"
    and "lam_activity_type (cla_marker_dat cla) = vla_activity_type (lsh_attrs (sm_shared m))"
  shows "\<exists>m'. handle_event (la_ops x) m d = (Ok [], m') \<and> sm_state m' = Some La_MarkerCommandRecorded"
  using assms
  by (auto simp: handle_event_def on_event_def process_machine_commands_def la_defs
      la_verify_marker_dat_def verify_marker_data_matches_def Let_def split: prod.splits)


text \<open>A request, its live machine and a resolution that fit the marker sample.\<close>

definition sample_valid_la :: ValidScheduleLA where
  "sample_valid_la = \<lparr>vla_seq = 1, vla_activity_id = ''1'', vla_activity_type = ''t'', vla_attempt = 1,
     vla_original_schedule_time = None, vla_headers = [], vla_arguments = [],
     vla_schedule_to_start_timeout = None, vla_close_timeouts = ScheduleOnly 5,
     vla_retry_policy = from_proto_with_defaults (\<lambda>_. None) (\<lambda>_. None) RetryPolicy_default,
     vla_local_retry_threshold = 60, vla_cancellation_type = ACT_TryCancel,
     vla_include_arguments_in_marker = False, vla_user_metadata = None,
     vla_event_group_markers = []\<rparr>"

lemma sample_live_run:
  fixes res :: LocalActivityExecutionResult
  defines "x \<equiv> marker_sample_externals"
  shows "\<exists>live rs0 rs live' cmd rm replay rs1.
    new_local_activity x sample_valid_la False None (InternalFlags_new True [] []) = Ok (live, rs0) \<and>
    la_try_resolve x live res 7 1 None (Some 0) 0 = (Ok rs, live') \<and>
    IssueNewCommand cmd \<in> set rs \<and> cmd_attributes cmd = CA_RecordMarker rm \<and>
    new_local_activity (x\<lparr>x_now := 9\<rparr>) sample_valid_la True None (InternalFlags_new True [] []) =
      Ok (replay, rs1) \<and>
    json_codec_ok (x_la_marker_to_json x) (x_la_marker_from_json x)
      (la_marker_data x (sm_shared live) (la_live_dat None res 7 1 None (Some 0) 0))"
proof -
  have "json_codec_ok (x_la_marker_to_json x) (x_la_marker_from_json x) sample_la_marker"
    by (simp add: json_codec_ok_def x_def marker_sample_externals_def sample_externals_def)
  then show ?thesis
    by (simp add: la_try_resolve_def la__try_resolve_def on_event_def la_defs la_response_list_def
        la_resolved_responses_def Command_from_attributes_def la_marker_data_def la_live_dat_def
        sample_valid_la_def la_scheduled_attrs_def sample_la_marker_def Let_def x_def
        marker_sample_externals_def sample_externals_def del: la_resolved_responses_eq)
qed


lemma timeout_not_activity_failure:
  "is_timeout_info (f_info f) \<Longrightarrow> f \<noteq> Failure m c (Some (FI_Activity a)) r"
  by auto

text \<open>C34: two results are not reported alike.  A time-out is reported wrapped in an activity failure
  when it happens and unwrapped when it is replayed; a failure caused by a cancellation is reported
  as a failure when it happens and as a cancellation when it is replayed.\<close>

theorem la_replay_differs:
  assumes live: "new_local_activity x attrs False wf_time fl = Ok (live, rs0)"
      "la_try_resolve x live res runtime attempt None ost idx = (Ok rs, live')"
    and marker: "IssueNewCommand cmd \<in> set rs" "cmd_attributes cmd = CA_RecordMarker rm"
    and replay: "new_local_activity (x\<lparr>x_now := now\<rparr>) attrs True wf_time' fl' = Ok (replay, rs1)"
    and json: "json_codec_ok (x_la_marker_to_json x) (x_la_marker_from_json x)
      (la_marker_data x (sm_shared live) (la_live_dat wf_time res runtime attempt None ost idx))"
    and result: "res = LA_TimedOut (Some f) \<and> is_timeout_info (f_info f) \<or>
      res = LA_Failed (Some f) \<and> is_canceled_info (Option.bind (f_cause f) f_info)"
  shows "\<exists>cla m rs' job. into_local_activity_marker_details x (hed_event (marker_event i rm)) = Some cla \<and>
    la_try_resolve_with_dat (x\<lparr>x_now := now\<rparr>) replay (ResolveDat_from x cla) = (Ok rs', m) \<and>
    PushWFJob job \<in> set rs \<and> PushWFJob job \<notin> set rs'"
proof -
  let ?dat = "la_live_dat wf_time res runtime attempt None ost idx"
  let ?x = "x\<lparr>x_now := now\<rparr>"
  have rs: "rs = la_response_list x (sm_shared live) ?dat" by (rule la_live_resolve [OF live])
  have sh: "lsh_replaying_when_invoked (sm_shared replay)"
      "\<not> lsh_replaying_when_invoked (sm_shared live)"
      "lsh_attrs (sm_shared replay) = (lsh_attrs (sm_shared live))\<lparr>vla_original_schedule_time :=
         vla_original_schedule_time (la_scheduled_attrs ?x attrs)\<rparr>"
    using live(1) replay by (auto simp: la_scheduled_attrs_def)
  have rm: "rm = la_record_marker x (sm_shared live) ?dat"
    using la_response_list_replay(2) [OF sh] marker rs by simp
  obtain cla where cla: "into_local_activity_marker_details x (hed_event (marker_event i rm)) = Some cla"
      "cla_result cla = Inl f" "lam_backoff (cla_marker_dat cla) = None"
    using into_marker_details_of_record_marker [OF json] rm result
    by (auto simp: la_live_dat_def la_marker_data_def)
  have "rd_backoff (ResolveDat_from x cla) = None"
      "rd_result (ResolveDat_from x cla) = (if is_canceled_info (f_info f) \<or>
         is_canceled_info (Option.bind (f_cause f) f_info)
       then LA_Cancelled (Some f) else LA_Failed (Some f))"
    using cla by (simp_all add: ResolveDat_from_def Let_def)
  then have "la_resolution ?x (sm_shared replay) (ResolveDat_from x cla) \<noteq>
      la_resolution x (sm_shared live) ?dat"
    using result
    by (auto simp: la_resolution_def la_live_dat_def la_wrap_fail_def activity_fail_info_def
        dest: timeout_not_activity_failure)
  then have "PushWFJob (J_ResolveActivity s (la_resolution x (sm_shared live) ?dat) True) \<notin>
      set (la_response_list ?x (sm_shared replay) (ResolveDat_from x cla))" for s
    using sh(1) by (auto simp: la_response_list_def la_resolved_responses_def Let_def
        simp del: la_resolved_responses_eq)
  moreover have "PushWFJob (J_ResolveActivity (vla_seq (lsh_attrs (sm_shared live)))
      (la_resolution x (sm_shared live) ?dat) True) \<in> set rs"
    by (simp add: rs la_response_list_def la_resolved_responses_def Command_from_attributes_def
        Let_def del: la_resolved_responses_eq)
  ultimately show ?thesis using cla(1) la_replay_resolve [OF replay] by blast
qed

theorem la_replay_differs_witness:
  "\<exists>live rs live' rm replay rs1 cla m rs' job f.
    la_try_resolve marker_sample_externals live (LA_TimedOut (Some f)) 7 1 None (Some 0) 0 =
      (Ok rs, live') \<and>
    new_local_activity (marker_sample_externals\<lparr>x_now := 9\<rparr>) sample_valid_la True None
      (InternalFlags_new True [] []) = Ok (replay, rs1) \<and>
    into_local_activity_marker_details marker_sample_externals (hed_event (marker_event 7 rm)) =
      Some cla \<and>
    la_try_resolve_with_dat (marker_sample_externals\<lparr>x_now := 9\<rparr>) replay
      (ResolveDat_from marker_sample_externals cla) = (Ok rs', m) \<and>
    PushWFJob job \<in> set rs \<and> PushWFJob job \<notin> set rs'"
proof -
  let ?f = "Failure ''late'' None (Some (FI_Timeout TT_StartToClose None)) []"
  let ?res = "LA_TimedOut (Some ?f)" and ?x = marker_sample_externals
  obtain live rs0 rs live' cmd rm replay rs1 where run:
    "new_local_activity ?x sample_valid_la False None (InternalFlags_new True [] []) = Ok (live, rs0)"
    "la_try_resolve ?x live ?res 7 1 None (Some 0) 0 = (Ok rs, live')"
    "IssueNewCommand cmd \<in> set rs" "cmd_attributes cmd = CA_RecordMarker rm"
    "new_local_activity (?x\<lparr>x_now := 9\<rparr>) sample_valid_la True None (InternalFlags_new True [] []) =
      Ok (replay, rs1)"
    "json_codec_ok (x_la_marker_to_json ?x) (x_la_marker_from_json ?x)
      (la_marker_data ?x (sm_shared live) (la_live_dat None ?res 7 1 None (Some 0) 0))"
    using sample_live_run [of ?res] by blast
  have "?res = LA_TimedOut (Some ?f) \<and> is_timeout_info (f_info ?f) \<or>
      ?res = LA_Failed (Some ?f) \<and> is_canceled_info (Option.bind (f_cause ?f) f_info)" by simp
  from la_replay_differs [OF run this, of 7] run show ?thesis by blast
qed

end
