(* ===== verification/TerminalMachines.thy ===== *)
theory TerminalMachines
  imports Fsm
begin

text \<open>
  The four ways a workflow closes: \<^verbatim>\<open>complete_workflow_state_machine.rs\<close>,
  \<^verbatim>\<open>fail_workflow_state_machine.rs\<close>, \<^verbatim>\<open>cancel_workflow_state_machine.rs\<close> and
  \<^verbatim>\<open>continue_as_new_workflow_state_machine.rs\<close> of
  \<^verbatim>\<open>crates/sdk-core/src/worker/workflow/machines\<close>.  Each machine schedules itself, issues
  one closing command and waits for the event that records it.  The command enumerations of the
  last two are empty; \<open>unit\<close> stands for them and is never produced.
\<close>

section \<open>Completing a workflow\<close>

datatype CompleteState = Complete_Created "Payload option"
  | Complete_CompleteWorkflowCommandCreated | Complete_CompleteWorkflowCommandRecorded

datatype CompleteEvent = CompleteEv_Schedule | CompleteEv_CommandCompleteWorkflowExecution
  | CompleteEv_WorkflowExecutionCompleted

datatype CompleteWFCommand = CompleteCmd_AddCommand CommandAttributes

type_synonym CompleteWorkflowMachine = "(CompleteState, unit) StateMachine"

definition complete_workflow_to_api :: "Payload option \<Rightarrow> CommandAttributes" where
  "complete_workflow_to_api res = CA_CompleteWorkflowExecution (map_option (\<lambda>p. [p]) res)"

definition complete_arms :: "(CompleteState, unit, CompleteEvent, CompleteWFCommand) arms" where
  "complete_arms st sh ev =
     (case st of
        Complete_Created attribs \<Rightarrow>
          (case ev of
             CompleteEv_Schedule \<Rightarrow>
               arm_pure (tr_commands [CompleteCmd_AddCommand (complete_workflow_to_api attribs)]
                 Complete_CompleteWorkflowCommandCreated) sh
           | _ \<Rightarrow> None)
      | Complete_CompleteWorkflowCommandCreated \<Rightarrow>
          (case ev of
             CompleteEv_CommandCompleteWorkflowExecution \<Rightarrow>
               arm_default Complete_CompleteWorkflowCommandCreated sh
           | CompleteEv_WorkflowExecutionCompleted \<Rightarrow>
               arm_default Complete_CompleteWorkflowCommandRecorded sh
           | _ \<Rightarrow> None)
      | Complete_CompleteWorkflowCommandRecorded \<Rightarrow> None)"

definition complete_is_final :: "CompleteState \<Rightarrow> bool" where
  "complete_is_final st \<longleftrightarrow> st = Complete_CompleteWorkflowCommandRecorded"

definition complete_from_command :: "CommandType \<Rightarrow> CompleteEvent option" where
  "complete_from_command c =
     (if c = C_CompleteWorkflowExecution then Some CompleteEv_CommandCompleteWorkflowExecution
      else None)"

definition complete_from_event :: "HistEventData \<Rightarrow> CompleteEvent result" where
  "complete_from_event d =
     (if he_event_type (hed_event d) = E_WorkflowExecutionCompleted
      then Ok CompleteEv_WorkflowExecutionCompleted else Err (Nondeterminism EventNotHandled))"

definition complete_adapt_response ::
  "CompleteWorkflowMachine \<Rightarrow> CompleteWFCommand \<Rightarrow> EventInfo option \<Rightarrow> MachineResponse list result"
where
  "complete_adapt_response m c i = Ok []"

definition complete_ops :: "(CompleteState, unit, CompleteEvent, CompleteWFCommand) machine_ops" where
  "complete_ops = \<lparr>op_arms = complete_arms, op_from_command = complete_from_command,
     op_from_event = complete_from_event, op_adapt_response = complete_adapt_response\<rparr>"

definition complete_workflow ::
  "Payload option \<Rightarrow> (CompleteWorkflowMachine NewMachineWithCommand) result" where
  "complete_workflow attribs =
     res_bind (expect_event complete_arms (from_parts (Complete_Created attribs) ())
                 CompleteEv_Schedule) (\<lambda>(cmds, machine).
       (case list_pop cmds of
          Some (CompleteCmd_AddCommand c) \<Rightarrow> Ok \<lparr>nm_command = c, nm_machine = machine\<rparr>
        | None \<Rightarrow> Panic))"

section \<open>Failing a workflow\<close>

datatype FailState = Fail_Created "Failure option" | Fail_FailWorkflowCommandCreated
  | Fail_FailWorkflowCommandRecorded

datatype FailEvent = FailEv_Schedule | FailEv_CommandFailWorkflowExecution
  | FailEv_WorkflowExecutionFailed

datatype FailWFCommand = FailCmd_AddCommand CommandAttributes

type_synonym FailWorkflowMachine = "(FailState, unit) StateMachine"

definition fail_workflow_to_api :: "Failure option \<Rightarrow> CommandAttributes" where
  "fail_workflow_to_api failure = CA_FailWorkflowExecution failure"

definition fail_arms :: "(FailState, unit, FailEvent, FailWFCommand) arms" where
  "fail_arms st sh ev =
     (case st of
        Fail_Created attribs \<Rightarrow>
          (case ev of
             FailEv_Schedule \<Rightarrow>
               arm_pure (tr_commands [FailCmd_AddCommand (fail_workflow_to_api attribs)]
                 Fail_FailWorkflowCommandCreated) sh
           | _ \<Rightarrow> None)
      | Fail_FailWorkflowCommandCreated \<Rightarrow>
          (case ev of
             FailEv_CommandFailWorkflowExecution \<Rightarrow> arm_default Fail_FailWorkflowCommandCreated sh
           | FailEv_WorkflowExecutionFailed \<Rightarrow> arm_default Fail_FailWorkflowCommandRecorded sh
           | _ \<Rightarrow> None)
      | Fail_FailWorkflowCommandRecorded \<Rightarrow> None)"

definition fail_is_final :: "FailState \<Rightarrow> bool" where
  "fail_is_final st \<longleftrightarrow> st = Fail_FailWorkflowCommandRecorded"

definition fail_from_command :: "CommandType \<Rightarrow> FailEvent option" where
  "fail_from_command c =
     (if c = C_FailWorkflowExecution then Some FailEv_CommandFailWorkflowExecution else None)"

definition fail_from_event :: "HistEventData \<Rightarrow> FailEvent result" where
  "fail_from_event d =
     (if he_event_type (hed_event d) = E_WorkflowExecutionFailed
      then Ok FailEv_WorkflowExecutionFailed else Err (Nondeterminism EventNotHandled))"

definition fail_adapt_response ::
  "FailWorkflowMachine \<Rightarrow> FailWFCommand \<Rightarrow> EventInfo option \<Rightarrow> MachineResponse list result" where
  "fail_adapt_response m c i = Ok []"

definition fail_ops :: "(FailState, unit, FailEvent, FailWFCommand) machine_ops" where
  "fail_ops = \<lparr>op_arms = fail_arms, op_from_command = fail_from_command,
     op_from_event = fail_from_event, op_adapt_response = fail_adapt_response\<rparr>"

definition fail_new_scheduled ::
  "Failure option \<Rightarrow> (FailWorkflowMachine \<times> CommandAttributes) result" where
  "fail_new_scheduled attribs =
     res_bind (expect_event fail_arms (from_parts (Fail_Created attribs) ()) FailEv_Schedule)
       (\<lambda>(cmds, s).
         (case list_pop cmds of
            Some (FailCmd_AddCommand c) \<Rightarrow> Ok (s, c)
          | None \<Rightarrow> Panic))"

definition fail_workflow ::
  "Failure option \<Rightarrow> (FailWorkflowMachine NewMachineWithCommand) result" where
  "fail_workflow attribs =
     res_map (\<lambda>(machine, add_cmd). \<lparr>nm_command = add_cmd, nm_machine = machine\<rparr>)
       (fail_new_scheduled attribs)"

section \<open>Cancelling a workflow\<close>

datatype CancelWfState = CancelWf_Created | CancelWf_CancelWorkflowCommandCreated
  | CancelWf_CancelWorkflowCommandRecorded

datatype CancelWfEvent = CancelWfEv_Schedule | CancelWfEv_CommandCancelWorkflowExecution
  | CancelWfEv_WorkflowExecutionCanceled

type_synonym CancelWorkflowMachine = "(CancelWfState, unit) StateMachine"

definition cancel_workflow_to_api :: "Payloads option \<Rightarrow> CommandAttributes" where
  "cancel_workflow_to_api details = CA_CancelWorkflowExecution details"

definition cancel_wf_arms :: "(CancelWfState, unit, CancelWfEvent, unit) arms" where
  "cancel_wf_arms st sh ev =
     (case st of
        CancelWf_Created \<Rightarrow>
          (case ev of
             CancelWfEv_Schedule \<Rightarrow> arm_default CancelWf_CancelWorkflowCommandCreated sh | _ \<Rightarrow> None)
      | CancelWf_CancelWorkflowCommandCreated \<Rightarrow>
          (case ev of
             CancelWfEv_CommandCancelWorkflowExecution \<Rightarrow>
               arm_default CancelWf_CancelWorkflowCommandCreated sh
           | CancelWfEv_WorkflowExecutionCanceled \<Rightarrow>
               arm_default CancelWf_CancelWorkflowCommandRecorded sh
           | _ \<Rightarrow> None)
      | CancelWf_CancelWorkflowCommandRecorded \<Rightarrow> None)"

definition cancel_wf_is_final :: "CancelWfState \<Rightarrow> bool" where
  "cancel_wf_is_final st \<longleftrightarrow> st = CancelWf_CancelWorkflowCommandRecorded"

definition cancel_wf_from_command :: "CommandType \<Rightarrow> CancelWfEvent option" where
  "cancel_wf_from_command c =
     (if c = C_CancelWorkflowExecution then Some CancelWfEv_CommandCancelWorkflowExecution else None)"

definition cancel_wf_from_event :: "HistEventData \<Rightarrow> CancelWfEvent result" where
  "cancel_wf_from_event d =
     (if he_event_type (hed_event d) = E_WorkflowExecutionCanceled
      then Ok CancelWfEv_WorkflowExecutionCanceled else Err (Nondeterminism EventNotHandled))"

definition cancel_wf_adapt_response ::
  "CancelWorkflowMachine \<Rightarrow> unit \<Rightarrow> EventInfo option \<Rightarrow> MachineResponse list result" where
  "cancel_wf_adapt_response m c i = Ok []"

definition cancel_wf_ops :: "(CancelWfState, unit, CancelWfEvent, unit) machine_ops" where
  "cancel_wf_ops = \<lparr>op_arms = cancel_wf_arms, op_from_command = cancel_wf_from_command,
     op_from_event = cancel_wf_from_event, op_adapt_response = cancel_wf_adapt_response\<rparr>"

definition cancel_workflow ::
  "Payloads option \<Rightarrow> (CancelWorkflowMachine NewMachineWithCommand) result" where
  "cancel_workflow attribs =
     res_bind (expect_event cancel_wf_arms (from_parts CancelWf_Created ()) CancelWfEv_Schedule)
       (\<lambda>(_, machine). Ok \<lparr>nm_command = cancel_workflow_to_api attribs, nm_machine = machine\<rparr>)"

section \<open>Continuing as new\<close>

datatype ContinueState = Continue_Created | Continue_ContinueAsNewWorkflowCommandCreated
  | Continue_ContinueAsNewWorkflowCommandRecorded

datatype ContinueEvent = ContinueEv_Schedule | ContinueEv_CommandContinueAsNewWorkflowExecution
  | ContinueEv_WorkflowExecutionContinuedAsNew

type_synonym ContinueAsNewWorkflowMachine = "(ContinueState, unit) StateMachine"

definition continue_as_new_cmd_to_api ::
  "ContinueAsNewWorkflowExecution \<Rightarrow> bool \<Rightarrow> CommandAttributes" where
  "continue_as_new_cmd_to_api c inherit_build_id = CA_ContinueAsNewWorkflowExecution
     \<lparr>can_workflow_type = Some (cna_workflow_type c), can_task_queue = Some (cna_task_queue c),
      can_input = into_payloads (cna_arguments c),
      can_workflow_run_timeout = cna_workflow_run_timeout c,
      can_workflow_task_timeout = cna_workflow_task_timeout c,
      can_memo = (if cna_memo c = [] then None else Some (cna_memo c)),
      can_header = (if cna_headers c = [] then None else Some (cna_headers c)),
      can_retry_policy = cna_retry_policy c, can_search_attributes = cna_search_attributes c,
      can_inherit_build_id = inherit_build_id, can_rest = cna_rest c\<rparr>"

definition continue_arms :: "(ContinueState, unit, ContinueEvent, unit) arms" where
  "continue_arms st sh ev =
     (case st of
        Continue_Created \<Rightarrow>
          (case ev of
             ContinueEv_Schedule \<Rightarrow> arm_default Continue_ContinueAsNewWorkflowCommandCreated sh
           | _ \<Rightarrow> None)
      | Continue_ContinueAsNewWorkflowCommandCreated \<Rightarrow>
          (case ev of
             ContinueEv_CommandContinueAsNewWorkflowExecution \<Rightarrow>
               arm_default Continue_ContinueAsNewWorkflowCommandCreated sh
           | ContinueEv_WorkflowExecutionContinuedAsNew \<Rightarrow>
               arm_default Continue_ContinueAsNewWorkflowCommandRecorded sh
           | _ \<Rightarrow> None)
      | Continue_ContinueAsNewWorkflowCommandRecorded \<Rightarrow> None)"

definition continue_is_final :: "ContinueState \<Rightarrow> bool" where
  "continue_is_final st \<longleftrightarrow> st = Continue_ContinueAsNewWorkflowCommandRecorded"

definition continue_from_command :: "CommandType \<Rightarrow> ContinueEvent option" where
  "continue_from_command c =
     (if c = C_ContinueAsNewWorkflowExecution
      then Some ContinueEv_CommandContinueAsNewWorkflowExecution else None)"

definition continue_from_event :: "HistEventData \<Rightarrow> ContinueEvent result" where
  "continue_from_event d =
     (if he_event_type (hed_event d) = E_WorkflowExecutionContinuedAsNew
      then Ok ContinueEv_WorkflowExecutionContinuedAsNew else Err (Nondeterminism EventNotHandled))"

definition continue_adapt_response ::
  "ContinueAsNewWorkflowMachine \<Rightarrow> unit \<Rightarrow> EventInfo option \<Rightarrow> MachineResponse list result" where
  "continue_adapt_response m c i = Ok []"

definition continue_ops :: "(ContinueState, unit, ContinueEvent, unit) machine_ops" where
  "continue_ops = \<lparr>op_arms = continue_arms, op_from_command = continue_from_command,
     op_from_event = continue_from_event, op_adapt_response = continue_adapt_response\<rparr>"

definition continue_as_new ::
  "ContinueAsNewWorkflowExecution \<Rightarrow> bool \<Rightarrow>
   (ContinueAsNewWorkflowMachine NewMachineWithCommand) result" where
  "continue_as_new attribs use_compatible_version =
     res_bind (expect_event continue_arms (from_parts Continue_Created ()) ContinueEv_Schedule)
       (\<lambda>(_, machine). Ok \<lparr>nm_command = continue_as_new_cmd_to_api attribs use_compatible_version,
                           nm_machine = machine\<rparr>)"

section \<open>The contract of a closing machine\<close>

text \<open>What the four machines promise: waiting for the record of its command, a machine accepts its
  own command type and the event that records it, and nothing else; once recorded it accepts
  nothing.\<close>

locale closing_machine =
  fixes ops :: "('st, 'sh, 'ev, 'cmd) machine_ops" and created recorded :: 'st
    and cmd_type :: CommandType and ev_type :: EventType
  assumes command: "op_from_command ops ct = Some ev \<Longrightarrow>
      ct = cmd_type \<and> op_arms ops created sh ev = Some (TrOk [] created, sh)"
    and own_command: "\<exists>ev. op_from_command ops cmd_type = Some ev"
    and event: "op_from_event ops d = Ok ev \<Longrightarrow>
      he_event_type (hed_event d) = ev_type \<and> op_arms ops created sh ev = Some (TrOk [] recorded, sh)"
    and own_event: "he_event_type (hed_event d) = ev_type \<Longrightarrow> \<exists>ev. op_from_event ops d = Ok ev"
    and recorded_stuck: "op_arms ops recorded sh ev = None"
    and created_not_recorded: "created \<noteq> recorded"
begin

abbreviation own_step where "own_step \<equiv> drive ops (\<lambda>m (_ :: unit). (Ok [], m))"

lemma command_step:
  "own_step \<lparr>sm_state = Some created, sm_shared = sh\<rparr> (In_Command ct) = (Ok rs, m) \<longleftrightarrow>
   ct = cmd_type \<and> rs = [] \<and> m = \<lparr>sm_state = Some created, sm_shared = sh\<rparr>"
proof (cases "op_from_command ops ct")
  case None
  then have "ct \<noteq> cmd_type" using own_command by auto
  with None show ?thesis by (simp add: handle_command_def)
next
  case (Some ev)
  with command [OF Some, of sh] show ?thesis
    by (auto simp: handle_command_def on_event_def process_machine_commands_def)
qed

lemma event_step:
  "own_step \<lparr>sm_state = Some created, sm_shared = sh\<rparr> (In_Event d) = (Ok rs, m) \<longleftrightarrow>
   he_event_type (hed_event d) = ev_type \<and> rs = [] \<and>
   m = \<lparr>sm_state = Some recorded, sm_shared = sh\<rparr>"
proof (cases "op_from_event ops d")
  case (Ok ev)
  with event [OF Ok, of sh] show ?thesis
    by (auto simp: handle_event_def on_event_def process_machine_commands_def Let_def)
next
  case (Err e)
  then have "he_event_type (hed_event d) \<noteq> ev_type" using own_event by fastforce
  with Err show ?thesis by (simp add: handle_event_def Let_def)
next
  case Panic
  then have "he_event_type (hed_event d) \<noteq> ev_type" using own_event by fastforce
  with Panic show ?thesis by (simp add: handle_event_def Let_def)
qed

lemma recorded_step:
  "own_step \<lparr>sm_state = Some recorded, sm_shared = sh\<rparr> i = (Ok rs, m) \<longleftrightarrow>
   i = In_Own () \<and> rs = [] \<and> m = \<lparr>sm_state = Some recorded, sm_shared = sh\<rparr>"
  by (cases i) (auto simp: handle_command_def handle_event_def on_event_def recorded_stuck
      invalid_transition_err_def Let_def split: option.splits res.splits)

lemma run_recorded:
  "run_result own_step \<lparr>sm_state = Some recorded, sm_shared = sh\<rparr> is = Ok m \<Longrightarrow>
   m = \<lparr>sm_state = Some recorded, sm_shared = sh\<rparr> \<and>
   run_responses own_step \<lparr>sm_state = Some recorded, sm_shared = sh\<rparr> is = [] \<and>
   (\<forall>d. In_Event d \<notin> set is)"
proof (induction "is")
  case (Cons i "is")
  then obtain rs n where "own_step \<lparr>sm_state = Some recorded, sm_shared = sh\<rparr> i = (Ok rs, n)"
    by (auto split: prod.splits res.splits)
  with Cons show ?case by (auto simp: recorded_step)
qed simp

lemma run_closes:
  "run_result own_step \<lparr>sm_state = Some created, sm_shared = sh\<rparr> is = Ok m \<Longrightarrow>
   run_responses own_step \<lparr>sm_state = Some created, sm_shared = sh\<rparr> is = [] \<and>
   (sm_state m = Some recorded \<longleftrightarrow> (\<exists>d. In_Event d \<in> set is)) \<and>
   (\<forall>d. In_Event d \<in> set is \<longrightarrow> he_event_type (hed_event d) = ev_type)"
proof (induction "is")
  case Nil
  then show ?case using created_not_recorded by auto
next
  case (Cons i "is")
  then obtain rs n where step: "own_step \<lparr>sm_state = Some created, sm_shared = sh\<rparr> i = (Ok rs, n)"
      "run_result own_step n is = Ok m"
    by (auto split: prod.splits res.splits)
  show ?case
  proof (cases i)
    case (In_Command ct)
    then have "rs = []" "n = \<lparr>sm_state = Some created, sm_shared = sh\<rparr>"
      using step(1) command_step [of sh ct rs n] by auto
    then show ?thesis using step In_Command Cons.IH by auto
  next
    case (In_Event d)
    then have "he_event_type (hed_event d) = ev_type" "rs = []"
        "n = \<lparr>sm_state = Some recorded, sm_shared = sh\<rparr>"
      using step(1) event_step [of sh d rs n] by auto
    then show ?thesis using step In_Event run_recorded [of sh "is" m] by auto
  qed (use step Cons.IH in auto)
qed

end

lemmas complete_defs = complete_arms_def complete_from_command_def complete_from_event_def
  complete_ops_def complete_adapt_response_def complete_is_final_def

lemmas fail_defs = fail_arms_def fail_from_command_def fail_from_event_def fail_ops_def
  fail_adapt_response_def fail_is_final_def

lemmas cancel_wf_defs = cancel_wf_arms_def cancel_wf_from_command_def cancel_wf_from_event_def
  cancel_wf_ops_def cancel_wf_adapt_response_def cancel_wf_is_final_def

lemmas continue_defs = continue_arms_def continue_from_command_def continue_from_event_def
  continue_ops_def continue_adapt_response_def continue_is_final_def

interpretation complete: closing_machine complete_ops Complete_CompleteWorkflowCommandCreated
  Complete_CompleteWorkflowCommandRecorded C_CompleteWorkflowExecution E_WorkflowExecutionCompleted
  by unfold_locales (auto simp: complete_defs split: if_splits)

interpretation fail_wf: closing_machine fail_ops Fail_FailWorkflowCommandCreated
  Fail_FailWorkflowCommandRecorded C_FailWorkflowExecution E_WorkflowExecutionFailed
  by unfold_locales (auto simp: fail_defs split: if_splits)

interpretation cancel_wf: closing_machine cancel_wf_ops CancelWf_CancelWorkflowCommandCreated
  CancelWf_CancelWorkflowCommandRecorded C_CancelWorkflowExecution E_WorkflowExecutionCanceled
  by unfold_locales (auto simp: cancel_wf_defs split: if_splits)

interpretation continue: closing_machine continue_ops Continue_ContinueAsNewWorkflowCommandCreated
  Continue_ContinueAsNewWorkflowCommandRecorded C_ContinueAsNewWorkflowExecution
  E_WorkflowExecutionContinuedAsNew
  by unfold_locales (auto simp: continue_defs split: if_splits)


lemma complete_workflow_eq [simp]:
  "complete_workflow r = Ok \<lparr>nm_command = CA_CompleteWorkflowExecution (map_option (\<lambda>p. [p]) r),
     nm_machine = \<lparr>sm_state = Some Complete_CompleteWorkflowCommandCreated, sm_shared = ()\<rparr>\<rparr>"
  by (simp add: complete_workflow_def complete_workflow_to_api_def expect_event_def from_parts_def
      on_event_def complete_arms_def list_pop_def)

lemma fail_workflow_eq [simp]:
  "fail_workflow f = Ok \<lparr>nm_command = CA_FailWorkflowExecution f,
     nm_machine = \<lparr>sm_state = Some Fail_FailWorkflowCommandCreated, sm_shared = ()\<rparr>\<rparr>"
  by (simp add: fail_workflow_def fail_new_scheduled_def fail_workflow_to_api_def expect_event_def
      from_parts_def on_event_def fail_arms_def list_pop_def)

lemma cancel_workflow_eq [simp]:
  "cancel_workflow d = Ok \<lparr>nm_command = CA_CancelWorkflowExecution d,
     nm_machine = \<lparr>sm_state = Some CancelWf_CancelWorkflowCommandCreated, sm_shared = ()\<rparr>\<rparr>"
  by (simp add: cancel_workflow_def cancel_workflow_to_api_def expect_event_def from_parts_def
      on_event_def cancel_wf_arms_def)

lemma continue_as_new_eq [simp]:
  "continue_as_new c u = Ok \<lparr>nm_command = continue_as_new_cmd_to_api c u,
     nm_machine = \<lparr>sm_state = Some Continue_ContinueAsNewWorkflowCommandCreated, sm_shared = ()\<rparr>\<rparr>"
  by (simp add: continue_as_new_def expect_event_def from_parts_def on_event_def continue_arms_def)

lemma has_reached_final_state_True:
  "has_reached_final_state p m = Ok True \<longleftrightarrow> (\<exists>st. sm_state m = Some st \<and> p st)"
  by (simp add: has_reached_final_state_def split: option.splits)

lemma complete_closes:
  assumes "complete_workflow r = Ok nm" "run_result complete.own_step (nm_machine nm) is = Ok m"
  shows "run_responses complete.own_step (nm_machine nm) is = [] \<and>
    (has_reached_final_state complete_is_final m = (Ok True :: bool result) \<longleftrightarrow>
      (\<exists>e. In_Event e \<in> set is \<and> he_event_type (hed_event e) = E_WorkflowExecutionCompleted))"
proof -
  have nm: "nm_machine nm = \<lparr>sm_state = Some Complete_CompleteWorkflowCommandCreated, sm_shared = ()\<rparr>"
    using assms(1) by auto
  show ?thesis
    using complete.run_closes [OF assms(2) [unfolded nm]]
    by (simp only: nm has_reached_final_state_True complete_is_final_def) blast
qed

lemma fail_closes:
  assumes "fail_workflow f = Ok nm" "run_result fail_wf.own_step (nm_machine nm) is = Ok m"
  shows "run_responses fail_wf.own_step (nm_machine nm) is = [] \<and>
    (has_reached_final_state fail_is_final m = (Ok True :: bool result) \<longleftrightarrow>
      (\<exists>e. In_Event e \<in> set is \<and> he_event_type (hed_event e) = E_WorkflowExecutionFailed))"
proof -
  have nm: "nm_machine nm = \<lparr>sm_state = Some Fail_FailWorkflowCommandCreated, sm_shared = ()\<rparr>"
    using assms(1) by auto
  show ?thesis
    using fail_wf.run_closes [OF assms(2) [unfolded nm]]
    by (simp only: nm has_reached_final_state_True fail_is_final_def) blast
qed

lemma cancel_closes:
  assumes "cancel_workflow d = Ok nm" "run_result cancel_wf.own_step (nm_machine nm) is = Ok m"
  shows "run_responses cancel_wf.own_step (nm_machine nm) is = [] \<and>
    (has_reached_final_state cancel_wf_is_final m = (Ok True :: bool result) \<longleftrightarrow>
      (\<exists>e. In_Event e \<in> set is \<and> he_event_type (hed_event e) = E_WorkflowExecutionCanceled))"
proof -
  have nm: "nm_machine nm = \<lparr>sm_state = Some CancelWf_CancelWorkflowCommandCreated, sm_shared = ()\<rparr>"
    using assms(1) by auto
  show ?thesis
    using cancel_wf.run_closes [OF assms(2) [unfolded nm]]
    by (simp only: nm has_reached_final_state_True cancel_wf_is_final_def) blast
qed

lemma continue_closes:
  assumes "continue_as_new c u = Ok nm" "run_result continue.own_step (nm_machine nm) is = Ok m"
  shows "run_responses continue.own_step (nm_machine nm) is = [] \<and>
    (has_reached_final_state continue_is_final m = (Ok True :: bool result) \<longleftrightarrow>
      (\<exists>e. In_Event e \<in> set is \<and> he_event_type (hed_event e) = E_WorkflowExecutionContinuedAsNew))"
proof -
  have nm: "nm_machine nm = \<lparr>sm_state = Some Continue_ContinueAsNewWorkflowCommandCreated, sm_shared = ()\<rparr>"
    using assms(1) by auto
  show ?thesis
    using continue.run_closes [OF assms(2) [unfolded nm]]
    by (simp only: nm has_reached_final_state_True continue_is_final_def) blast
qed

section \<open>Properties\<close>

text \<open>A workflow closes once.  Whichever inputs a closing machine goes through, it emits nothing
  beyond its closing command; it has reached its final state exactly when a history event was
  applied to it, and that event is the one recording its command.\<close>

theorem closing_machines_close_once:
  assumes "complete_workflow r = Ok cm" "fail_workflow f = Ok fm" "cancel_workflow d = Ok xm"
    "continue_as_new c u = Ok nm"
    and "run_result complete.own_step (nm_machine cm) is1 = Ok m1"
      "run_result fail_wf.own_step (nm_machine fm) is2 = Ok m2"
      "run_result cancel_wf.own_step (nm_machine xm) is3 = Ok m3"
      "run_result continue.own_step (nm_machine nm) is4 = Ok m4"
  shows "run_responses complete.own_step (nm_machine cm) is1 = [] \<and>
    run_responses fail_wf.own_step (nm_machine fm) is2 = [] \<and>
    run_responses cancel_wf.own_step (nm_machine xm) is3 = [] \<and>
    run_responses continue.own_step (nm_machine nm) is4 = [] \<and>
    (has_reached_final_state complete_is_final m1 = (Ok True :: bool result) \<longleftrightarrow>
      (\<exists>e. In_Event e \<in> set is1 \<and> he_event_type (hed_event e) = E_WorkflowExecutionCompleted)) \<and>
    (has_reached_final_state fail_is_final m2 = (Ok True :: bool result) \<longleftrightarrow>
      (\<exists>e. In_Event e \<in> set is2 \<and> he_event_type (hed_event e) = E_WorkflowExecutionFailed)) \<and>
    (has_reached_final_state cancel_wf_is_final m3 = (Ok True :: bool result) \<longleftrightarrow>
      (\<exists>e. In_Event e \<in> set is3 \<and> he_event_type (hed_event e) = E_WorkflowExecutionCanceled)) \<and>
    (has_reached_final_state continue_is_final m4 = (Ok True :: bool result) \<longleftrightarrow>
      (\<exists>e. In_Event e \<in> set is4 \<and>
         he_event_type (hed_event e) = E_WorkflowExecutionContinuedAsNew))"
  using complete_closes [OF assms(1,5)] fail_closes [OF assms(2,6)] cancel_closes [OF assms(3,7)]
    continue_closes [OF assms(4,8)] by blast

theorem closing_machines_close_once_witness:
  "\<exists>m. run_result complete.own_step
       \<lparr>sm_state = Some Complete_CompleteWorkflowCommandCreated, sm_shared = ()\<rparr>
       [In_Command C_CompleteWorkflowExecution,
        In_Event (plain_event 9 E_WorkflowExecutionCompleted None)] = Ok m \<and>
     has_reached_final_state complete_is_final m = (Ok True :: bool result)"
proof -
  let ?in = "[In_Command C_CompleteWorkflowExecution,
      In_Event (plain_event 9 E_WorkflowExecutionCompleted None)]"
  obtain m where m: "run_result complete.own_step
      \<lparr>sm_state = Some Complete_CompleteWorkflowCommandCreated, sm_shared = ()\<rparr> ?in = Ok m"
    by (simp add: machine_step_defs complete_defs Let_def)
  have new: "complete_workflow None = Ok \<lparr>nm_command = CA_CompleteWorkflowExecution None,
      nm_machine = \<lparr>sm_state = Some Complete_CompleteWorkflowCommandCreated, sm_shared = ()\<rparr>\<rparr>"
    by simp
  have run: "run_result complete.own_step (nm_machine \<lparr>nm_command = CA_CompleteWorkflowExecution None,
      nm_machine = \<lparr>sm_state = Some Complete_CompleteWorkflowCommandCreated, sm_shared = ()\<rparr>\<rparr>) ?in
      = Ok m"
    using m by (simp only: NewMachineWithCommand.simps)
  from closing_machines_close_once [OF new fail_workflow_eq cancel_workflow_eq continue_as_new_eq run
      run_result.simps(1) run_result.simps(1) run_result.simps(1)] m
  show ?thesis by auto
qed

end
