(* ===== verification/PropertyMachines.thy ===== *)
theory PropertyMachines
  imports Fsm
begin

text \<open>
  Search attributes and workflow properties,
  \<^verbatim>\<open>upsert_search_attributes_state_machine.rs\<close> and
  \<^verbatim>\<open>modify_workflow_properties_state_machine.rs\<close> of
  \<^verbatim>\<open>crates/sdk-core/src/worker/workflow/machines\<close>.  Neither machine produces commands of its
  own: their empty command enumerations are \<open>unit\<close>.
\<close>

definition VERSION_SEARCH_ATTR_KEY :: string where
  "VERSION_SEARCH_ATTR_KEY = ''TemporalChangeVersion''"

definition MAX_SEARCH_ATTR_PAYLOAD_SIZE :: nat where
  "MAX_SEARCH_ATTR_PAYLOAD_SIZE = 2048"

section \<open>Upserting search attributes\<close>

datatype UpsertState = Upsert_Created | Upsert_CommandIssued | Upsert_Done

datatype UpsertEvent = UpsertEv_CommandScheduled | UpsertEv_CommandRecorded

type_synonym UpsertSearchAttributesMachine = "(UpsertState, unit) StateMachine"

definition upsert_arms :: "(UpsertState, unit, UpsertEvent, unit) arms" where
  "upsert_arms st sh ev =
     (case st of
        Upsert_Created \<Rightarrow>
          (case ev of UpsertEv_CommandScheduled \<Rightarrow> arm_default Upsert_CommandIssued sh | _ \<Rightarrow> None)
      | Upsert_CommandIssued \<Rightarrow>
          (case ev of UpsertEv_CommandRecorded \<Rightarrow> arm_default Upsert_Done sh | _ \<Rightarrow> None)
      | Upsert_Done \<Rightarrow> None)"

definition upsert_is_final :: "UpsertState \<Rightarrow> bool" where
  "upsert_is_final st \<longleftrightarrow> st = Upsert_Done"

definition upsert_from_command :: "CommandType \<Rightarrow> UpsertEvent option" where
  "upsert_from_command c =
     (if c = C_UpsertWorkflowSearchAttributes then Some UpsertEv_CommandScheduled else None)"

definition upsert_from_event :: "HistEventData \<Rightarrow> UpsertEvent result" where
  "upsert_from_event d =
     (case he_attributes (hed_event d) of
        Some (A_UpsertWorkflowSearchAttributes _) \<Rightarrow> Ok UpsertEv_CommandRecorded
      | _ \<Rightarrow> Err (Nondeterminism EventNotHandled))"

definition upsert_adapt_response ::
  "UpsertSearchAttributesMachine \<Rightarrow> unit \<Rightarrow> EventInfo option \<Rightarrow> MachineResponse list result" where
  "upsert_adapt_response m c i = Err (Nondeterminism OtherReason)"

definition upsert_ops :: "(UpsertState, unit, UpsertEvent, unit) machine_ops" where
  "upsert_ops = \<lparr>op_arms = upsert_arms, op_from_command = upsert_from_command,
     op_from_event = upsert_from_event, op_adapt_response = upsert_adapt_response\<rparr>"

definition upsert_create_new ::
  "PayloadMap \<Rightarrow> UpsertSearchAttributesMachine NewMachineWithCommand" where
  "upsert_create_new sa_map =
     \<lparr>nm_command = CA_UpsertWorkflowSearchAttributes (Some sa_map),
      nm_machine = from_parts Upsert_Created ()\<rparr>"

definition upsert_search_attrs ::
  "PayloadMap option \<Rightarrow> InternalFlags \<Rightarrow> bool \<Rightarrow>
   UpsertSearchAttributesMachine NewMachineWithCommand \<times> InternalFlags" where
  "upsert_search_attrs search_attributes internal_flags replaying =
     (let (has_flag, flags) =
            try_use UpsertSearchAttributeOnPatch (\<not> replaying) internal_flags;
          contains_version_key = (case search_attributes of
              Some sa \<Rightarrow> map_of sa VERSION_SEARCH_ATTR_KEY \<noteq> None | None \<Rightarrow> False)
      in if has_flag \<and> contains_version_key then (upsert_create_new [], flags)
         else (upsert_create_new (unwrap_or search_attributes []), flags))"

definition upsert_search_attrs_internal ::
  "PayloadMap option \<Rightarrow> UpsertSearchAttributesMachine NewMachineWithCommand" where
  "upsert_search_attrs_internal search_attributes =
     upsert_create_new (unwrap_or search_attributes [])"

section \<open>Modifying workflow properties\<close>

datatype ModifyState = Modify_Created | Modify_CommandIssued | Modify_Done

datatype ModifyEvent = ModifyEv_CommandScheduled | ModifyEv_CommandRecorded

type_synonym ModifyWorkflowPropertiesMachine = "(ModifyState, unit) StateMachine"

definition modify_arms :: "(ModifyState, unit, ModifyEvent, unit) arms" where
  "modify_arms st sh ev =
     (case st of
        Modify_Created \<Rightarrow>
          (case ev of ModifyEv_CommandScheduled \<Rightarrow> arm_default Modify_CommandIssued sh | _ \<Rightarrow> None)
      | Modify_CommandIssued \<Rightarrow>
          (case ev of ModifyEv_CommandRecorded \<Rightarrow> arm_default Modify_Done sh | _ \<Rightarrow> None)
      | Modify_Done \<Rightarrow> None)"

definition modify_is_final :: "ModifyState \<Rightarrow> bool" where
  "modify_is_final st \<longleftrightarrow> st = Modify_Done"

definition modify_from_command :: "CommandType \<Rightarrow> ModifyEvent option" where
  "modify_from_command c =
     (if c = C_ModifyWorkflowProperties then Some ModifyEv_CommandScheduled else None)"

definition modify_from_event :: "HistEventData \<Rightarrow> ModifyEvent result" where
  "modify_from_event d =
     (if he_event_type (hed_event d) = E_WorkflowPropertiesModified
      then Ok ModifyEv_CommandRecorded else Err (Nondeterminism EventNotHandled))"

definition modify_adapt_response ::
  "ModifyWorkflowPropertiesMachine \<Rightarrow> unit \<Rightarrow> EventInfo option \<Rightarrow> MachineResponse list result" where
  "modify_adapt_response m c i = Err (Nondeterminism OtherReason)"

definition modify_ops :: "(ModifyState, unit, ModifyEvent, unit) machine_ops" where
  "modify_ops = \<lparr>op_arms = modify_arms, op_from_command = modify_from_command,
     op_from_event = modify_from_event, op_adapt_response = modify_adapt_response\<rparr>"

definition modify_workflow_properties ::
  "bytes option \<Rightarrow> ModifyWorkflowPropertiesMachine NewMachineWithCommand" where
  "modify_workflow_properties upserted_memo =
     \<lparr>nm_command = CA_ModifyWorkflowProperties upserted_memo,
      nm_machine = from_parts Modify_Created ()\<rparr>"

section \<open>Laws\<close>

lemmas upsert_defs = upsert_arms_def upsert_from_command_def upsert_from_event_def upsert_ops_def
  upsert_is_final_def

lemmas modify_defs = modify_arms_def modify_from_command_def modify_from_event_def modify_ops_def
  modify_is_final_def

interpretation upsert_fsm: fsm_final upsert_arms upsert_is_final
proof
  show "upsert_is_final st \<longleftrightarrow> (\<forall>sh ev. upsert_arms st sh ev = None)" for st
    by (cases st) (auto simp: upsert_defs split: UpsertEvent.splits)
qed

interpretation modify_fsm: fsm_final modify_arms modify_is_final
proof
  show "modify_is_final st \<longleftrightarrow> (\<forall>sh ev. modify_arms st sh ev = None)" for st
    by (cases st) (auto simp: modify_defs split: ModifyEvent.splits)
qed

text \<open>Both machines record the recording of one command, and tell the language side nothing.\<close>

interpretation upsert: driven_accountant upsert_ops "\<lambda>_ _. True" "\<lambda>_. True" "\<lambda>_. 1" "\<lambda>_ _. 0"
  "\<lambda>m (_ :: unit). (Ok [], m)"
  by unfold_locales
    (auto simp: upsert_defs split: UpsertState.splits UpsertEvent.splits if_splits
      option.splits Attributes.splits)

interpretation modify: driven_accountant modify_ops "\<lambda>_ _. True" "\<lambda>_. True" "\<lambda>_. 1" "\<lambda>_ _. 0"
  "\<lambda>m (_ :: unit). (Ok [], m)"
  by unfold_locales
    (auto simp: modify_defs split: ModifyState.splits ModifyEvent.splits if_splits)

section \<open>Properties\<close>

text \<open>Workflow code cannot overwrite the search attribute that lists its patches: once the flag for
  upserting it from patches can be used, no command built from a workflow's upsert mentions that
  attribute; and the decision is the same on replay, where the flag is read instead of set.\<close>

theorem upsert_version_key_protected:
  assumes "upsert_search_attrs sa live False = (nm, live')"
    and "upsert_search_attrs sa replay True = (nm', replay')"
    and "UpsertSearchAttributeOnPatch \<in> set (fl_core replay) \<longleftrightarrow> can_write_sdk_metadata live"
  shows "nm_command nm = nm_command nm' \<and>
    (can_write_sdk_metadata live \<longrightarrow>
       (\<exists>m. nm_command nm = CA_UpsertWorkflowSearchAttributes (Some m) \<and>
            map_of m VERSION_SEARCH_ATTR_KEY = None \<and>
            (\<forall>sa'. sa = Some sa' \<longrightarrow> m \<in> {[], sa'})))"
  using assms
  by (auto simp: upsert_search_attrs_def upsert_create_new_def try_use_def Let_def
      split: option.splits if_splits)

theorem upsert_version_key_protected_witness:
  "nm_command (fst (upsert_search_attrs (Some [(VERSION_SEARCH_ATTR_KEY, Payload_default)])
      (InternalFlags_new True [] []) False)) =
   nm_command (fst (upsert_search_attrs (Some [(VERSION_SEARCH_ATTR_KEY, Payload_default)])
      ((InternalFlags_new True [] [])\<lparr>fl_core := [UpsertSearchAttributeOnPatch]\<rparr>) True))"
proof -
  have "UpsertSearchAttributeOnPatch \<in> set (fl_core
      ((InternalFlags_new True [] [])\<lparr>fl_core := [UpsertSearchAttributeOnPatch]\<rparr>)) \<longleftrightarrow>
      can_write_sdk_metadata (InternalFlags_new True [] [])"
    by (simp add: InternalFlags_new_def)
  from upsert_version_key_protected [OF surjective_pairing surjective_pairing this] show ?thesis
    by blast
qed

end
