(* ===== verification/PatchMachine.thy ===== *)
theory PatchMachine
  imports "HOL-Library.List_Lexorder" "HOL-Library.Char_ord" Markers PropertyMachines
begin

text \<open>
  Patches, \<^verbatim>\<open>patch_state_machine.rs\<close> of
  \<^verbatim>\<open>crates/sdk-core/src/worker/workflow/machines\<close>.  A patch call records a marker, and an
  upsert of the search attribute that lists the patches of the workflow.  A
  \<^verbatim>\<open>BTreeSet<&str>\<close> is its ascending list, strings ordered byte by byte.  The machine has no
  commands of its own: \<open>unit\<close> stands for its empty command enumeration.
\<close>

datatype PatchState = Patch_Executing | Patch_Replaying | Patch_MarkerCommandCreated
  | Patch_MarkerCommandCreatedReplaying | Patch_Notified | Patch_MarkerCommandRecorded

datatype PatchEvent = PatchEv_Schedule | PatchEv_CommandRecordMarker | PatchEv_MarkerRecorded string

record PatchShared =
  psh_patch_id :: string

type_synonym PatchMachine = "(PatchState, PatchShared) StateMachine"

definition patch_on_marker_recorded ::
  "PatchShared \<Rightarrow> string \<Rightarrow> (unit, PatchState, WFMachinesError) TransitionResult" where
  "patch_on_marker_recorded dat pid =
     (if pid \<noteq> psh_patch_id dat then TrErr (Nondeterminism IdMismatch)
      else tr_default Patch_MarkerCommandRecorded)"

definition patch_arms :: "(PatchState, PatchShared, PatchEvent, unit) arms" where
  "patch_arms st sh ev =
     (case st of
        Patch_Executing \<Rightarrow>
          (case ev of PatchEv_Schedule \<Rightarrow> arm_default Patch_MarkerCommandCreated sh | _ \<Rightarrow> None)
      | Patch_Replaying \<Rightarrow>
          (case ev of
             PatchEv_Schedule \<Rightarrow> arm_default Patch_MarkerCommandCreatedReplaying sh | _ \<Rightarrow> None)
      | Patch_MarkerCommandCreated \<Rightarrow>
          (case ev of PatchEv_CommandRecordMarker \<Rightarrow> arm_default Patch_Notified sh | _ \<Rightarrow> None)
      | Patch_MarkerCommandCreatedReplaying \<Rightarrow>
          (case ev of PatchEv_CommandRecordMarker \<Rightarrow> arm_default Patch_Notified sh | _ \<Rightarrow> None)
      | Patch_Notified \<Rightarrow>
          (case ev of
             PatchEv_MarkerRecorded pid \<Rightarrow> arm_pure (patch_on_marker_recorded sh pid) sh | _ \<Rightarrow> None)
      | Patch_MarkerCommandRecorded \<Rightarrow> None)"

definition patch_is_final :: "PatchState \<Rightarrow> bool" where
  "patch_is_final st \<longleftrightarrow> st = Patch_MarkerCommandRecorded"

definition patch_from_command :: "CommandType \<Rightarrow> PatchEvent option" where
  "patch_from_command c = (if c = C_RecordMarker then Some PatchEv_CommandRecordMarker else None)"

definition patch_from_event :: "externals \<Rightarrow> HistEventData \<Rightarrow> PatchEvent result" where
  "patch_from_event x d =
     (case get_patch_marker_details x (hed_event d) of
        Some (pid, _) \<Rightarrow> Ok (PatchEv_MarkerRecorded pid)
      | None \<Rightarrow> Err (Nondeterminism EventNotHandled))"

definition patch_adapt_response ::
  "PatchMachine \<Rightarrow> unit \<Rightarrow> EventInfo option \<Rightarrow> MachineResponse list result" where
  "patch_adapt_response m c i = Panic"

definition patch_ops :: "externals \<Rightarrow> (PatchState, PatchShared, PatchEvent, unit) machine_ops" where
  "patch_ops x = \<lparr>op_arms = patch_arms, op_from_command = patch_from_command,
     op_from_event = patch_from_event x, op_adapt_response = patch_adapt_response\<rparr>"

definition matches_patch :: "PatchMachine \<Rightarrow> string \<Rightarrow> bool" where
  "matches_patch self pid \<longleftrightarrow> psh_patch_id (sm_shared self) = pid"

section \<open>Creating a patch machine\<close>

text \<open>The upsert that goes with a patch: the ids of all patches, this one included.\<close>

definition patch_upsert ::
  "externals \<Rightarrow> string \<Rightarrow> string list \<Rightarrow> CommandAnnotations \<Rightarrow> MachineResponse list result" where
  "patch_upsert x patch_id existing_patch_ids annotations =
     (let all_ids = btree_insert patch_id (btree_extend [] existing_patch_ids)
      in case as_json_payload (x_patch_ids_to_json x) all_ids of
           None \<Rightarrow> Err (Fatal BadPatch)
         | Some serialized \<Rightarrow>
             if length (pl_data serialized) \<ge> MAX_SEARCH_ATTR_PAYLOAD_SIZE then Ok []
             else
               let serialized = serialized\<lparr>pl_metadata :=
                     (pl_metadata serialized)(''type'' \<mapsto> ''KeywordList'')\<rparr>
               in Ok [NewCoreOriginatedCommand
                    (CA_UpsertWorkflowSearchAttributes (Some [(VERSION_SEARCH_ATTR_KEY, serialized)]))
                    annotations])"

definition has_change ::
  "externals \<Rightarrow> string \<Rightarrow> bool \<Rightarrow> bool \<Rightarrow> bool \<Rightarrow> string list \<Rightarrow> InternalFlags \<Rightarrow>
   CommandAnnotations \<Rightarrow>
   (PatchMachine NewMachineWithCommand \<times> MachineResponse list) result \<times> InternalFlags" where
  "has_change x patch_id replaying_when_invoked deprecated seen_in_peekahead existing_patch_ids
     internal_flags annotations =
     (let shared_state = \<lparr>psh_patch_id = patch_id\<rparr>;
          initial_state = (if replaying_when_invoked then Patch_Replaying else Patch_Executing)
      in case build_has_change_marker_details x patch_id deprecated of
           None \<Rightarrow> (Err (Fatal BadPatch), internal_flags)
         | Some details \<Rightarrow>
             let command = CA_RecordMarker
                   \<lparr>rm_marker_name = PATCH_MARKER_NAME, rm_details = details, rm_failure = None\<rparr>
             in case expect_event patch_arms (from_parts initial_state shared_state)
                       PatchEv_Schedule of
                  Ok (_, machine) \<Rightarrow>
                    let replaying_and_not_in_history =
                          replaying_when_invoked \<and> \<not> seen_in_peekahead;
                        (can_use_flag, flags) = try_use UpsertSearchAttributeOnPatch
                          (\<not> replaying_when_invoked) internal_flags;
                        maybe_upsert_cmd =
                          (if replaying_and_not_in_history \<or> \<not> can_use_flag then Ok []
                           else patch_upsert x patch_id existing_patch_ids annotations)
                    in (res_map (\<lambda>rs. (\<lparr>nm_command = command, nm_machine = machine\<rparr>, rs))
                          maybe_upsert_cmd, flags)
                | Err e \<Rightarrow> (Err e, internal_flags)
                | Panic \<Rightarrow> (Panic, internal_flags))"

section \<open>Laws\<close>

lemmas patch_defs = patch_arms_def patch_from_command_def patch_from_event_def patch_ops_def
  patch_on_marker_recorded_def patch_is_final_def

interpretation patch_fsm: fsm_final patch_arms patch_is_final
proof
  show "patch_is_final st \<longleftrightarrow> (\<forall>sh ev. patch_arms st sh ev = None)" for st
    by (cases st) (auto simp: patch_defs split: PatchEvent.splits)
qed

text \<open>The adapter's panic is never reached, since no arm produces a command.\<close>

interpretation patch: driven_accountant "patch_ops x" "\<lambda>_ sh. psh_patch_id sh = pid" "\<lambda>_. True"
  "\<lambda>_. 1" "\<lambda>_ _. 0" "\<lambda>m (_ :: unit). (Ok [], m)" for x pid
  by unfold_locales
    (auto simp: patch_defs split: PatchState.splits PatchEvent.splits if_splits option.splits)

lemma has_change_machine:
  assumes "has_change x pid r dep seen ids fl ann = (Ok (nm, rs), fl')"
  shows "nm_machine nm = \<lparr>sm_state = Some (if r then Patch_MarkerCommandCreatedReplaying
      else Patch_MarkerCommandCreated), sm_shared = \<lparr>psh_patch_id = pid\<rparr>\<rparr> \<and>
    (\<exists>details. build_has_change_marker_details x pid dep = Some details \<and>
      nm_command nm = CA_RecordMarker
        \<lparr>rm_marker_name = PATCH_MARKER_NAME, rm_details = details, rm_failure = None\<rparr>)"
  using assms
  by (auto simp: has_change_def expect_event_def from_parts_def on_event_def patch_arms_def
      res_map_eq_Ok Let_def split: option.splits prod.splits)

lemma has_change_responses:
  assumes "has_change x pid r dep seen ids fl ann = (Ok (nm, rs), fl')"
  shows "(if r \<and> \<not> seen \<or> \<not> fst (try_use UpsertSearchAttributeOnPatch (\<not> r) fl) then Ok []
     else patch_upsert x pid ids ann) = Ok rs"
  using assms
  by (auto simp: has_change_def expect_event_def from_parts_def on_event_def patch_arms_def
      res_map_eq_Ok Let_def split: option.splits prod.splits if_splits)

section \<open>Properties\<close>

text \<open>C25: a patch call that was seen live behaves alike on replay: if the marker is in history and the
  flag for upserting search attributes reads on replay as it was used live, the replayed call
  issues the same marker command and the same upsert.  Replayed without a marker in history it
  issues no upsert.\<close>

theorem patch_replay_agrees:
  assumes "has_change x pid False dep seen ids live ann = (Ok (nm, rs), live')"
    and "has_change x pid True dep seen' ids replay ann = (Ok (nm', rs'), replay')"
    and "fst (try_use UpsertSearchAttributeOnPatch False replay) =
      fst (try_use UpsertSearchAttributeOnPatch True live)"
  shows "nm_command nm' = nm_command nm \<and> rs' = (if seen' then rs else [])"
  using has_change_machine [OF assms(1)] has_change_machine [OF assms(2)]
    has_change_responses [OF assms(1)] has_change_responses [OF assms(2)] assms(3)
  by (auto split: if_splits)

theorem patch_replay_agrees_witness:
  "\<exists>nm rs live' nm' rs' replay'.
     has_change marker_sample_externals ''p'' False True False [''a''] (InternalFlags_new True [] [])
       CommandAnnotations_default = (Ok (nm, rs), live') \<and>
     has_change marker_sample_externals ''p'' True True True [''a'']
       ((InternalFlags_new True [] [])\<lparr>fl_core := [UpsertSearchAttributeOnPatch]\<rparr>)
       CommandAnnotations_default = (Ok (nm', rs'), replay') \<and>
     length rs = 1 \<and> nm_command nm' = nm_command nm \<and> rs' = rs"
proof -
  let ?live = "has_change marker_sample_externals ''p'' False True False [''a'']
      (InternalFlags_new True [] []) CommandAnnotations_default"
  let ?replay = "has_change marker_sample_externals ''p'' True True True [''a'']
      ((InternalFlags_new True [] [])\<lparr>fl_core := [UpsertSearchAttributeOnPatch]\<rparr>)
      CommandAnnotations_default"
  note defs = has_change_def expect_event_def from_parts_def on_event_def patch_arms_def
    build_has_change_marker_details_def as_json_payload_def marker_sample_externals_def sample_externals_def
    try_use_def InternalFlags_new_def patch_upsert_def btree_extend_def btree_insert_def
    MAX_SEARCH_ATTR_PAYLOAD_SIZE_def Let_def
  obtain nm rs live' where live: "?live = (Ok (nm, rs), live')" "length rs = 1"
    by (simp add: defs)
  obtain nm' rs' replay' where replay: "?replay = (Ok (nm', rs'), replay')"
    by (simp add: defs)
  have "fst (try_use UpsertSearchAttributeOnPatch False
        ((InternalFlags_new True [] [])\<lparr>fl_core := [UpsertSearchAttributeOnPatch]\<rparr>)) =
      fst (try_use UpsertSearchAttributeOnPatch True (InternalFlags_new True [] []))"
    by (simp add: try_use_def InternalFlags_new_def)
  from patch_replay_agrees [OF live(1) replay this] live replay show ?thesis by auto
qed

text \<open>a patch machine tells the language side nothing and never panics; applied to the marker
  event of another patch it fails with a nondeterminism error, applied to its own it is done.\<close>

theorem patch_marker_checked:
  assumes "has_change x pid r dep seen ids fl ann = (Ok (nm, rs), fl')"
    and "get_patch_marker_details x (hed_event d) = Some (pid', dep')"
  shows "run_result (drive (patch_ops x) (\<lambda>m (_ :: unit). (Ok [], m))) (nm_machine nm) inputs \<noteq> Panic \<and>
    res_map sm_state (run_result (drive (patch_ops x) (\<lambda>m (_ :: unit). (Ok [], m))) (nm_machine nm)
      [In_Command C_RecordMarker, In_Event d]) =
    (if pid' = pid then Ok (Some Patch_MarkerCommandRecorded) else Err (Nondeterminism IdMismatch))"
proof -
  have "good_machine (\<lambda>_ sh. psh_patch_id sh = pid) (nm_machine nm)"
    using has_change_machine [OF assms(1)] by simp
  from patch.contract.run_no_panic [OF this] show ?thesis
    using has_change_machine [OF assms(1)] assms(2)
    by (auto simp: machine_step_defs patch_defs Let_def)
qed

theorem patch_marker_checked_witness:
  "\<exists>nm rs fl'. has_change marker_sample_externals ''p'' True True False [] (InternalFlags_new True [] [])
       CommandAnnotations_default = (Ok (nm, rs), fl') \<and>
     run_result (drive (patch_ops marker_sample_externals) (\<lambda>m (_ :: unit). (Ok [], m))) (nm_machine nm)
       [In_Command C_RecordMarker, In_Event (plain_event 5 E_MarkerRecorded
         (Some (A_MarkerRecorded \<lparr>mr_marker_name = PATCH_MARKER_NAME, mr_details =
           [PATCHED_MARKER_DETAILS_KEY \<mapsto> [\<lparr>pl_metadata = [ENCODING_PAYLOAD_KEY \<mapsto> JSON_ENCODING_VAL],
             pl_data = ''tq'', pl_external_payloads = []\<rparr>]], mr_failure = None\<rparr>)))]
     = Err (Nondeterminism IdMismatch)"
proof -
  let ?d = "plain_event 5 E_MarkerRecorded
         (Some (A_MarkerRecorded \<lparr>mr_marker_name = PATCH_MARKER_NAME, mr_details =
           [PATCHED_MARKER_DETAILS_KEY \<mapsto> [\<lparr>pl_metadata = [ENCODING_PAYLOAD_KEY \<mapsto> JSON_ENCODING_VAL],
             pl_data = ''tq'', pl_external_payloads = []\<rparr>]], mr_failure = None\<rparr>))"
  obtain nm rs fl' where new: "has_change marker_sample_externals ''p'' True True False []
      (InternalFlags_new True [] []) CommandAnnotations_default = (Ok (nm, rs), fl')"
    by (simp add: has_change_def expect_event_def from_parts_def on_event_def patch_arms_def
        build_has_change_marker_details_def as_json_payload_def marker_sample_externals_def sample_externals_def
        try_use_def InternalFlags_new_def Let_def)
  have d: "get_patch_marker_details marker_sample_externals (hed_event ?d) = Some (''q'', True)"
    by (simp add: get_patch_marker_details_def marker_recorded_def decode_change_marker_details_def
        list_first_def from_json_payload_def is_json_payload_def str_from_utf8_def
        marker_sample_externals_def sample_externals_def)
  from patch_marker_checked [OF new d] new show ?thesis
    by (auto simp: res_map_eq_Err simp del: run_result.simps)
qed

end
