(* ===== verification/WorkflowTaskMachine.thy ===== *)
theory WorkflowTaskMachine
  imports Fsm
begin

text \<open>
  Workflow tasks, \<^verbatim>\<open>workflow_task_state_machine.rs\<close> of
  \<^verbatim>\<open>crates/sdk-core/src/worker/workflow/machines\<close>.  The machine decides when the workflow code
  is to be woken: at the started event of the last task, or, in history, when the task's
  completion shows that it did run.
\<close>

record WFTStartedDat =
  wsd_current_time_millis :: SystemTime
  wsd_started_event_id :: i64

record WFTFailedDat =
  wfd_new_run_id :: "string option"
  wfd_cause :: "WorkflowTaskFailedCause option"

datatype WFTState = Wft_Created | Wft_Scheduled | Wft_Started SystemTime i64 | Wft_Completed
  | Wft_Failed | Wft_TimedOut

datatype WFTEvent = WftEv_WorkflowTaskScheduled | WftEv_WorkflowTaskStarted WFTStartedDat
  | WftEv_WorkflowTaskFailed WFTFailedDat | WftEv_WorkflowTaskTimedOut
  | WftEv_WorkflowTaskCompleted

datatype WFTaskMachineCommand = WftCmd_WFTaskStartedTrigger i64 SystemTime
  | WftCmd_RunIdOnWorkflowResetUpdate string

record WFTShared =
  wsh_wf_task_started_event_id :: i64

type_synonym WorkflowTaskMachine = "(WFTState, WFTShared) StateMachine"
type_synonym wft_tr = "(WFTaskMachineCommand, WFTState, WFMachinesError) TransitionResult"

definition wft_Scheduled_on_workflow_task_started :: "WFTShared \<Rightarrow> WFTStartedDat \<Rightarrow> wft_tr" where
  "wft_Scheduled_on_workflow_task_started shared d =
     TrOk [WftCmd_WFTaskStartedTrigger (wsh_wf_task_started_event_id shared)
             (wsd_current_time_millis d)]
       (Wft_Started (wsd_current_time_millis d) (wsd_started_event_id d))"

definition wft_Scheduled_on_workflow_task_failed :: "WFTFailedDat \<Rightarrow> wft_tr" where
  "wft_Scheduled_on_workflow_task_failed data =
     (if wfd_cause data \<noteq> Some WTF_WorkflowPauseRequestedBeforeTaskStarted
      then TrErr (Fatal UnknownCause) else tr_default Wft_Failed)"

definition wft_Started_on_workflow_task_completed :: "SystemTime \<Rightarrow> i64 \<Rightarrow> wft_tr" where
  "wft_Started_on_workflow_task_completed current_time_millis started_event_id =
     tr_commands [WftCmd_WFTaskStartedTrigger started_event_id current_time_millis] Wft_Completed"

definition wft_Started_on_workflow_task_failed :: "WFTFailedDat \<Rightarrow> wft_tr" where
  "wft_Started_on_workflow_task_failed data =
     tr_commands (case wfd_new_run_id data of
         Some run_id \<Rightarrow> [WftCmd_RunIdOnWorkflowResetUpdate run_id] | None \<Rightarrow> []) Wft_Failed"

definition wft_arms :: "(WFTState, WFTShared, WFTEvent, WFTaskMachineCommand) arms" where
  "wft_arms st sh ev =
     (case st of
        Wft_Created \<Rightarrow>
          (case ev of WftEv_WorkflowTaskScheduled \<Rightarrow> arm_default Wft_Scheduled sh | _ \<Rightarrow> None)
      | Wft_Scheduled \<Rightarrow>
          (case ev of
             WftEv_WorkflowTaskStarted d \<Rightarrow>
               arm_pure (wft_Scheduled_on_workflow_task_started sh d) sh
           | WftEv_WorkflowTaskFailed d \<Rightarrow> arm_pure (wft_Scheduled_on_workflow_task_failed d) sh
           | WftEv_WorkflowTaskTimedOut \<Rightarrow> arm_default Wft_TimedOut sh
           | _ \<Rightarrow> None)
      | Wft_Started t i \<Rightarrow>
          (case ev of
             WftEv_WorkflowTaskCompleted \<Rightarrow> arm_pure (wft_Started_on_workflow_task_completed t i) sh
           | WftEv_WorkflowTaskFailed d \<Rightarrow> arm_pure (wft_Started_on_workflow_task_failed d) sh
           | WftEv_WorkflowTaskTimedOut \<Rightarrow> arm_default Wft_TimedOut sh
           | _ \<Rightarrow> None)
      | Wft_Completed \<Rightarrow> None
      | Wft_Failed \<Rightarrow> None
      | Wft_TimedOut \<Rightarrow> None)"

definition wft_is_final :: "WFTState \<Rightarrow> bool" where
  "wft_is_final st \<longleftrightarrow> st \<in> {Wft_Completed, Wft_Failed, Wft_TimedOut}"

definition wft_from_command :: "CommandType \<Rightarrow> WFTEvent option" where
  "wft_from_command c = None"

definition wft_from_event :: "externals \<Rightarrow> HistEventData \<Rightarrow> WFTEvent result" where
  "wft_from_event x d =
     (let e = hed_event d; et = he_event_type e
      in if et = E_WorkflowTaskScheduled then Ok WftEv_WorkflowTaskScheduled
         else if et = E_WorkflowTaskStarted then
           (case he_event_time e of
              Some time \<Rightarrow>
                (case x_to_system_time x time of
                   Some t \<Rightarrow> Ok (WftEv_WorkflowTaskStarted
                     \<lparr>wsd_current_time_millis = t, wsd_started_event_id = he_event_id e\<rparr>)
                 | None \<Rightarrow> Err (Fatal TimeConversion))
            | None \<Rightarrow> Err (Fatal MissingField))
         else if et = E_WorkflowTaskTimedOut then Ok WftEv_WorkflowTaskTimedOut
         else if et = E_WorkflowTaskCompleted then Ok WftEv_WorkflowTaskCompleted
         else if et = E_WorkflowTaskFailed then
           (case he_attributes e of
              Some attributes \<Rightarrow>
                (case attributes of
                   A_WorkflowTaskFailed a \<Rightarrow>
                     Ok (WftEv_WorkflowTaskFailed
                       \<lparr>wfd_new_run_id = (if wtf_cause a = Some WTF_ResetWorkflow
                                            then Some (wtf_new_run_id a) else None),
                        wfd_cause = wtf_cause a\<rparr>)
                 | _ \<Rightarrow> Ok (WftEv_WorkflowTaskFailed \<lparr>wfd_new_run_id = None, wfd_cause = None\<rparr>))
            | None \<Rightarrow> Err (Fatal MissingAttributes))
         else Err (Nondeterminism EventNotHandled))"

fun wft_adapt_response ::
  "WorkflowTaskMachine \<Rightarrow> WFTaskMachineCommand \<Rightarrow> EventInfo option \<Rightarrow> MachineResponse list result"
where
  "wft_adapt_response m (WftCmd_WFTaskStartedTrigger task_started_event_id time) event_info =
     (case event_info of
        None \<Rightarrow> Err (Fatal OtherReason)
      | Some ei \<Rightarrow>
          let cur_event_past_or_at_start = ei_event_id ei \<ge> task_started_event_id
          in if ei_event_type ei = E_WorkflowTaskStarted \<and> \<not> cur_event_past_or_at_start then Ok []
             else Ok [TriggerWFTaskStarted task_started_event_id time])"
| "wft_adapt_response m (WftCmd_RunIdOnWorkflowResetUpdate run_id) _ =
     Ok [UpdateRunIdOnWorkflowReset run_id]"

definition wft_ops ::
  "externals \<Rightarrow> (WFTState, WFTShared, WFTEvent, WFTaskMachineCommand) machine_ops" where
  "wft_ops x = \<lparr>op_arms = wft_arms, op_from_command = wft_from_command,
     op_from_event = wft_from_event x, op_adapt_response = wft_adapt_response\<rparr>"

definition wft_new :: "i64 \<Rightarrow> WorkflowTaskMachine" where
  "wft_new wf_task_started_event_id =
     from_parts Wft_Created \<lparr>wsh_wf_task_started_event_id = wf_task_started_event_id\<rparr>"

section \<open>Laws\<close>

abbreviation wft_step ::
  "externals \<Rightarrow> WorkflowTaskMachine \<Rightarrow> unit MachineInput \<Rightarrow>
   MachineResponse list result \<times> WorkflowTaskMachine" where
  "wft_step x \<equiv> drive (wft_ops x) (\<lambda>m _. (Ok [], m))"

fun trigger_weight :: "MachineResponse \<Rightarrow> nat" where
  "trigger_weight (TriggerWFTaskStarted _ _) = 1"
| "trigger_weight _ = 0"

definition wft_triggers_left :: "WFTState \<Rightarrow> WFTShared \<Rightarrow> nat" where
  "wft_triggers_left st sh = (case st of
     Wft_Created \<Rightarrow> 2 | Wft_Scheduled \<Rightarrow> 2 | Wft_Started _ _ \<Rightarrow> 1 | _ \<Rightarrow> 0)"

lemmas wft_defs = wft_arms_def wft_from_command_def wft_from_event_def wft_ops_def
  wft_Scheduled_on_workflow_task_started_def wft_Scheduled_on_workflow_task_failed_def
  wft_Started_on_workflow_task_completed_def wft_Started_on_workflow_task_failed_def

lemma wft_not_final: "\<not> wft_is_final st \<Longrightarrow> \<exists>ev. wft_arms st sh ev \<noteq> None"
  by (cases st) (auto simp: wft_is_final_def wft_arms_def intro: exI [of _ WftEv_WorkflowTaskScheduled]
      exI [of _ WftEv_WorkflowTaskTimedOut])

interpretation wft_fsm: fsm_final wft_arms wft_is_final
proof
  fix st
  have "wft_is_final st \<Longrightarrow> wft_arms st sh ev = None" for sh ev
    by (auto simp: wft_is_final_def wft_arms_def)
  then show "wft_is_final st \<longleftrightarrow> (\<forall>sh ev. wft_arms st sh ev = None)"
    using wft_not_final [of st] by metis
qed

interpretation wft: driven_spender "wft_ops x"
  "\<lambda>_ sh. wsh_wf_task_started_event_id sh = i" "\<lambda>_. True"
  trigger_weight wft_triggers_left "\<lambda>m (_ :: unit). (Ok [], m)" for x i
  by unfold_locales
    (auto simp: wft_defs wft_triggers_left_def Let_def
      split: WFTState.splits WFTEvent.splits if_splits option.splits Attributes.splits)

definition timed_event :: "i64 \<Rightarrow> EventType \<Rightarrow> Timestamp \<Rightarrow> HistEventData" where
  "timed_event eid et t = \<lparr>hed_event = \<lparr>he_event_id = eid, he_event_time = Some t,
     he_event_type = et, he_worker_may_ignore = False, he_attributes = None\<rparr>,
     hed_replaying = True, hed_current_task_is_last_in_history = True\<rparr>"

section \<open>Properties\<close>

text \<open>The workflow code is woken once for every workflow task that counts.  A completed task of
  history triggers by its completion, at the time and with the id of its started event; the last
  task triggers already by its started event; a task that timed out or failed after an earlier
  start triggers nothing, except that a failure by reset announces the new run id.\<close>

theorem wft_triggers:
  assumes "x_to_system_time x ts = Some t"
    and "inputs = [In_Event (timed_event si E_WorkflowTaskScheduled ts0),
      In_Event (timed_event i E_WorkflowTaskStarted ts), In_Event close]"
    and "started = (if last_started \<le> i then [TriggerWFTaskStarted last_started t] else [])"
  shows "run_responses (wft_step x) (wft_new last_started) inputs =
    (if he_event_type (hed_event close) = E_WorkflowTaskCompleted
     then started @ [TriggerWFTaskStarted i t]
     else if he_event_type (hed_event close) = E_WorkflowTaskFailed \<and>
       (\<exists>a. he_attributes (hed_event close) = Some (A_WorkflowTaskFailed a) \<and>
            wtf_cause a = Some WTF_ResetWorkflow)
     then started @ [UpdateRunIdOnWorkflowReset (case he_attributes (hed_event close) of
       Some (A_WorkflowTaskFailed a) \<Rightarrow> wtf_new_run_id a | _ \<Rightarrow> [])]
     else started)"
  using assms
  by (auto simp: wft_new_def from_parts_def timed_event_def machine_step_defs wft_defs Let_def
      split: option.splits Attributes.splits)

theorem wft_triggers_witness:
  "run_responses (wft_step sample_externals) (wft_new 9)
     [In_Event (timed_event 2 E_WorkflowTaskScheduled (0, 0)),
      In_Event (timed_event 3 E_WorkflowTaskStarted (5, 0)),
      In_Event (plain_event 4 E_WorkflowTaskCompleted None)] = [TriggerWFTaskStarted 3 5000000000]"
  using wft_triggers [of sample_externals "(5, 0)" 5000000000 _ 2 "(0, 0)" 3
      "plain_event 4 E_WorkflowTaskCompleted None" _ 9, OF _ refl refl]
  by (simp add: sample_externals_def del: run_responses.simps)

text \<open>no sequence of inputs makes a workflow task machine panic or trigger more than twice, once at
  its started event and once at its completion.\<close>

theorem wft_bounded:
  "run_result (wft_step x) (wft_new i) inputs \<noteq> Panic \<and>
   sum_list (map trigger_weight (run_responses (wft_step x) (wft_new i) inputs)) \<le> 2"
proof -
  have "good_machine (\<lambda>_ sh. wsh_wf_task_started_event_id sh = i) (wft_new i)"
      "machine_budget wft_triggers_left (wft_new i) = 2"
    by (simp_all add: wft_new_def from_parts_def wft_triggers_left_def)
  then show ?thesis
    using wft.contract.run_no_panic [of i "wft_new i" x] wft.spender.run_spends [of i "wft_new i" x]
    by auto
qed

end
