(* ===== verification/HistoryUpdate.thy ===== *)
theory HistoryUpdate
  imports Protos
begin

text \<open>
  Workflow task chunking, \<^verbatim>\<open>sdk-core/src/worker/workflow/history_update.rs\<close>: a history is cut
  into workflow task sequences, each ending at the started event of a task that was not failed,
  timed out or a heartbeat.  \<open>find_end_index_of_next_wft_seq\<close> is the scanning loop of the source;
  \<open>HistoryUpdate\<close> is the buffer the machines take sequences from, and \<open>from_events\<close> builds it
  from a page of events.  Slice accesses that the source performs without a check are \<open>Panic\<close>
  branches here.

  The scan is shown equal to a declarative reference (the first event that \<open>concludes\<close> a
  sequence), and from it follow that no event is lost or repeated by building an update or taking
  from it, that a sequence ends where it should, and that replay consumes the whole history.
\<close>

text \<open>
  \<^verbatim>\<open>tonic::Status\<close>: the two errors this file raises, and those of the server.
\<close>

datatype Status = EMPTY_FETCH_ERR | EMPTY_TASK_ERR | ServerStatus bytes

section \<open>The scan for the end of a sequence\<close>

datatype NextWFTSeqEndIndex = Complete nat | Incomplete nat

fun wft_end_index :: "NextWFTSeqEndIndex \<Rightarrow> nat" where
  "wft_end_index (Complete ix) = ix"
| "wft_end_index (Incomplete ix) = ix"

fun wft_end_add :: "NextWFTSeqEndIndex \<Rightarrow> nat \<Rightarrow> NextWFTSeqEndIndex" where
  "wft_end_add (Complete ix) val = Complete (ix + val)"
| "wft_end_add (Incomplete ix) val = Incomplete (ix + val)"

text \<open>\<^verbatim>\<open>slice::get\<close>.\<close>

definition get_event :: "HistoryEvent list \<Rightarrow> nat \<Rightarrow> HistoryEvent option" where
  "get_event es ix = (if ix < length es then Some (es ! ix) else None)"

definition is_abrupt_end :: "EventType \<Rightarrow> bool" where
  "is_abrupt_end t \<longleftrightarrow> t \<in> {E_WorkflowTaskFailed, E_WorkflowTaskTimedOut,
     E_WorkflowExecutionTimedOut, E_WorkflowExecutionTerminated, E_WorkflowExecutionCanceled}"

text \<open>The reverse search of the started events for the one an accepted update was sequenced after.\<close>

definition find_started_before :: "(i64 \<times> nat) list \<Rightarrow> i64 \<Rightarrow> nat option" where
  "find_started_before started seq_id =
     map_option snd (find (\<lambda>(eid, ix). eid < seq_id) (rev started))"

definition accepted_update_end :: "(i64 \<times> nat) list \<Rightarrow> HistoryEvent \<Rightarrow> nat \<Rightarrow> nat" where
  "accepted_update_end started next_next ix =
     (case he_attributes next_next of
        Some (A_WorkflowExecutionUpdateAccepted attr) \<Rightarrow>
          unwrap_or (find_started_before started (wua_accepted_request_sequencing_event_id attr)) ix
      | _ \<Rightarrow> ix)"

text \<open>
  The loop over the events from index \<open>ix\<close> on.  \<open>scs\<close>, \<open>sc\<close> and \<open>started\<close> are the loop's
  \<^verbatim>\<open>saw_command_or_started\<close>, \<^verbatim>\<open>saw_command\<close> and
  \<^verbatim>\<open>wft_started_event_id_to_index\<close>; \<open>events\<close> is the whole slice, used to look ahead.
\<close>

fun wft_seq_loop :: "HistoryEvent list \<Rightarrow> i64 \<Rightarrow> bool \<Rightarrow> HistoryEvent list \<Rightarrow> nat \<Rightarrow> nat \<Rightarrow>
    bool \<Rightarrow> bool \<Rightarrow> (i64 \<times> nat) list \<Rightarrow> NextWFTSeqEndIndex" where
  "wft_seq_loop events from_id has_last_wft [] ix last_index scs sc started =
     Incomplete last_index"
| "wft_seq_loop events from_id has_last_wft (e # es) ix last_index scs sc started =
     (if he_event_id e \<le> from_id
      then wft_seq_loop events from_id has_last_wft es (ix + 1) ix scs sc started
      else
        let sc' = (sc \<or> is_command_event e);
            scs' = (scs \<or> is_command_event e \<or> he_event_type e = E_WorkflowExecutionStarted);
            continue = wft_seq_loop events from_id has_last_wft es (ix + 1) ix scs' sc'
        in
        if is_final_wf_execution_event e then Complete ix
        else if he_event_type e = E_WorkflowTaskStarted then
          let started' = started @ [(he_event_id e, ix)];
              conclude = (if scs' then Complete ix else continue started')
          in
          (case get_event events (ix + 1) of
             Some next_event \<Rightarrow>
               if is_abrupt_end (he_event_type next_event) then continue started
               else if he_event_type next_event = E_WorkflowTaskCompleted then
                 (case get_event events (ix + 2) of
                    Some next_next_event \<Rightarrow>
                      if \<not> sc' \<and> he_event_type next_next_event = E_WorkflowTaskScheduled
                      then continue started'
                      else Complete (accepted_update_end started' next_next_event ix)
                  | None \<Rightarrow>
                      if \<not> has_last_wft \<and> \<not> scs' then continue started' else conclude)
               else conclude
           | None \<Rightarrow>
               if \<not> has_last_wft \<and> \<not> scs' then continue started' else conclude)
        else continue started)"

definition find_end_index_of_next_wft_seq ::
    "HistoryEvent list \<Rightarrow> i64 \<Rightarrow> bool \<Rightarrow> NextWFTSeqEndIndex" where
  "find_end_index_of_next_wft_seq events from_event_id has_last_wft =
     (if events = [] then Incomplete 0
      else wft_seq_loop events from_event_id has_last_wft events 0 0 False False [])"

section \<open>Reference: the event that concludes a sequence\<close>

definition in_seq :: "HistoryEvent list \<Rightarrow> i64 \<Rightarrow> nat \<Rightarrow> bool" where
  "in_seq events from_id ix \<longleftrightarrow> he_event_id (events ! ix) > from_id"

definition saw_command_by :: "HistoryEvent list \<Rightarrow> i64 \<Rightarrow> nat \<Rightarrow> bool" where
  "saw_command_by events from_id n \<longleftrightarrow>
     (\<exists>j<n. in_seq events from_id j \<and> is_command_event (events ! j))"

definition saw_start_by :: "HistoryEvent list \<Rightarrow> i64 \<Rightarrow> nat \<Rightarrow> bool" where
  "saw_start_by events from_id n \<longleftrightarrow>
     (\<exists>j<n. in_seq events from_id j \<and> he_event_type (events ! j) = E_WorkflowExecutionStarted)"

definition unskipped_started :: "HistoryEvent list \<Rightarrow> i64 \<Rightarrow> nat \<Rightarrow> bool" where
  "unskipped_started events from_id ix \<longleftrightarrow>
     in_seq events from_id ix \<and> he_event_type (events ! ix) = E_WorkflowTaskStarted \<and>
     \<not> (ix + 1 < length events \<and> is_abrupt_end (he_event_type (events ! (ix + 1))))"

definition completed_with_more :: "HistoryEvent list \<Rightarrow> nat \<Rightarrow> bool" where
  "completed_with_more events ix \<longleftrightarrow>
     ix + 2 < length events \<and> he_event_type (events ! (ix + 1)) = E_WorkflowTaskCompleted"

definition concludes :: "HistoryEvent list \<Rightarrow> i64 \<Rightarrow> nat \<Rightarrow> bool" where
  "concludes events from_id ix \<longleftrightarrow>
     in_seq events from_id ix \<and> is_final_wf_execution_event (events ! ix) \<or>
     unskipped_started events from_id ix \<and>
       (if completed_with_more events ix
        then saw_command_by events from_id (Suc ix) \<or>
             he_event_type (events ! (ix + 2)) \<noteq> E_WorkflowTaskScheduled
        else saw_command_by events from_id (Suc ix) \<or> saw_start_by events from_id (Suc ix))"

definition started_by :: "HistoryEvent list \<Rightarrow> i64 \<Rightarrow> nat \<Rightarrow> (i64 \<times> nat) list" where
  "started_by events from_id n =
     map (\<lambda>j. (he_event_id (events ! j), j)) (filter (unskipped_started events from_id) [0..<n])"

definition conclusion_index :: "HistoryEvent list \<Rightarrow> i64 \<Rightarrow> nat \<Rightarrow> nat" where
  "conclusion_index events from_id ix =
     (if \<not> is_final_wf_execution_event (events ! ix) \<and> completed_with_more events ix
      then accepted_update_end (started_by events from_id (Suc ix)) (events ! (ix + 2)) ix
      else ix)"

definition wft_seq_end_spec :: "HistoryEvent list \<Rightarrow> i64 \<Rightarrow> NextWFTSeqEndIndex" where
  "wft_seq_end_spec events from_id =
     (case find (concludes events from_id) [0..<length events] of
        Some ix \<Rightarrow> Complete (conclusion_index events from_id ix)
      | None \<Rightarrow> Incomplete (length events - 1))"

section \<open>Updates\<close>

record HistoryUpdate =
  hu_events :: "HistoryEvent list"
  hu_previous_wft_started_id :: i64
  hu_wft_started_id :: i64
  hu_has_last_wft :: bool
  hu_wft_count :: nat

datatype NextWFT = ReplayOver | WFT "HistoryEvent list" bool | NeedFetch

definition hu_dummy :: HistoryUpdate where
  "hu_dummy = \<lparr>hu_events = [], hu_previous_wft_started_id = -1, hu_wft_started_id = -1,
     hu_has_last_wft = False, hu_wft_count = 0\<rparr>"

definition hu_is_real :: "HistoryUpdate \<Rightarrow> bool" where
  "hu_is_real u \<longleftrightarrow> hu_previous_wft_started_id u \<ge> 0"

definition hu_first_event_id :: "HistoryUpdate \<Rightarrow> i64 option" where
  "hu_first_event_id u = (case hu_events u of [] \<Rightarrow> None | e # _ \<Rightarrow> Some (he_event_id e))"

definition starting_index_after_skipping :: "HistoryUpdate \<Rightarrow> i64 \<Rightarrow> nat option" where
  "starting_index_after_skipping u from_id =
     find (\<lambda>ix. he_event_id (hu_events u ! ix) > from_id) [0..<length (hu_events u)]"

definition build_next_wft :: "HistoryUpdate \<Rightarrow> nat \<Rightarrow> (NextWFT \<times> HistoryUpdate, Status) res" where
  "build_next_wft u drain_this_much =
     (if drain_this_much < length (hu_events u) then
        let rest = drop (Suc drain_this_much) (hu_events u) in
        Ok (WFT (take (Suc drain_this_much) (hu_events u)) (rest = [] \<and> hu_has_last_wft u),
            u\<lparr>hu_events := rest\<rparr>)
      else Panic)"

definition take_next_wft_sequence ::
    "HistoryUpdate \<Rightarrow> i64 \<Rightarrow> (NextWFT \<times> HistoryUpdate, Status) res" where
  "take_next_wft_sequence u0 from_id =
     (let u = (case starting_index_after_skipping u0 from_id of
                 Some n \<Rightarrow> u0\<lparr>hu_events := drop n (hu_events u0)\<rparr>
               | None \<Rightarrow> u0)
      in
      case find_end_index_of_next_wft_seq (hu_events u) from_id (hu_has_last_wft u) of
        Incomplete siz \<Rightarrow>
          if hu_has_last_wft u then
            (if siz = 0 then Ok (ReplayOver, u) else build_next_wft u siz)
          else if siz \<noteq> 0 then Panic
          else Ok (NeedFetch, u)
      | Complete next_wft_ix \<Rightarrow> build_next_wft u next_wft_ix)"

definition peek_next_wft_sequence :: "HistoryUpdate \<Rightarrow> i64 \<Rightarrow> (HistoryEvent list, Status) res" where
  "peek_next_wft_sequence u from_id =
     (let relevant = drop (unwrap_or (starting_index_after_skipping u from_id) 0) (hu_events u) in
      if relevant = [] then Ok relevant
      else
        let ix_end = wft_end_index
              (find_end_index_of_next_wft_seq relevant from_id (hu_has_last_wft u)) in
        if ix_end < length relevant then Ok (take (Suc ix_end) relevant) else Panic)"

definition can_take_next_wft_sequence :: "HistoryUpdate \<Rightarrow> i64 \<Rightarrow> bool" where
  "can_take_next_wft_sequence u from_id =
     (case find_end_index_of_next_wft_seq (hu_events u) from_id (hu_has_last_wft u) of
        Incomplete _ \<Rightarrow> hu_has_last_wft u
      | Complete _ \<Rightarrow> True)"

fun find_wft_completed :: "HistoryEvent list \<Rightarrow> WorkflowTaskCompletedEventAttributes option" where
  "find_wft_completed [] = None"
| "find_wft_completed (e # es) =
     (case he_attributes e of
        Some (A_WorkflowTaskCompleted a) \<Rightarrow> Some a
      | _ \<Rightarrow> find_wft_completed es)"

definition peek_next_wft_completed ::
    "HistoryUpdate \<Rightarrow> i64 \<Rightarrow> WorkflowTaskCompletedEventAttributes option" where
  "peek_next_wft_completed u from_id =
     find_wft_completed (dropWhile (\<lambda>e. he_event_id e < from_id) (hu_events u))"

section \<open>The scan computes the reference\<close>

lemma find_upt_Cons:
  "ix < n \<Longrightarrow> find P [ix..<n] = (if P ix then Some ix else find P [Suc ix..<n])"
  by (simp add: upt_conv_Cons)

lemma saw_by_Suc:
  "saw_command_by events from_id (Suc n) \<longleftrightarrow> saw_command_by events from_id n \<or>
     in_seq events from_id n \<and> is_command_event (events ! n)"
  "saw_start_by events from_id (Suc n) \<longleftrightarrow> saw_start_by events from_id n \<or>
     in_seq events from_id n \<and> he_event_type (events ! n) = E_WorkflowExecutionStarted"
  by (auto simp: saw_command_by_def saw_start_by_def less_Suc_eq)

lemma started_by_Suc:
  "started_by events from_id (Suc n) = started_by events from_id n @
     (if unskipped_started events from_id n then [(he_event_id (events ! n), n)] else [])"
  by (simp add: started_by_def)

lemma started_not_final:
  "he_event_type e = E_WorkflowTaskStarted \<Longrightarrow> \<not> is_final_wf_execution_event e"
  by (simp add: is_final_wf_execution_event_def)

text \<open>The loop's variables at index \<open>ix\<close> are the reference's summaries of the events before it.\<close>

lemma wft_seq_loop_spec:
  assumes "ix \<le> length events"
  shows "wft_seq_loop events from_id hl (drop ix events) ix (ix - 1)
      (saw_command_by events from_id ix \<or> saw_start_by events from_id ix)
      (saw_command_by events from_id ix) (started_by events from_id ix) =
    (case find (concludes events from_id) [ix..<length events] of
       Some j \<Rightarrow> Complete (conclusion_index events from_id j)
     | None \<Rightarrow> Incomplete (length events - 1))"
  using assms
proof (induction "length events - ix" arbitrary: ix)
  case 0
  then show ?case by simp
next
  case (Suc n)
  then have ix: "ix < length events" by simp
  note IH = Suc.hyps(1) [of "Suc ix"]
  have step: "wft_seq_loop events from_id hl (drop (Suc ix) events) (Suc ix) ix
      (saw_command_by events from_id (Suc ix) \<or> saw_start_by events from_id (Suc ix))
      (saw_command_by events from_id (Suc ix)) (started_by events from_id (Suc ix)) =
    (case find (concludes events from_id) [Suc ix..<length events] of
       Some j \<Rightarrow> Complete (conclusion_index events from_id j)
     | None \<Rightarrow> Incomplete (length events - 1))"
    using IH Suc.hyps(2) ix by simp
  have drop_ix: "drop ix events = events ! ix # drop (Suc ix) events"
    using ix by (simp add: Cons_nth_drop_Suc)
  show ?case
  proof (cases "in_seq events from_id ix")
    case False
    then show ?thesis
      using step ix by (simp add: drop_ix find_upt_Cons saw_by_Suc started_by_Suc concludes_def
          unskipped_started_def in_seq_def)
  next
    case True
    then have scs: "(saw_command_by events from_id ix \<or> saw_start_by events from_id ix) \<or>
        is_command_event (events ! ix) \<or> he_event_type (events ! ix) = E_WorkflowExecutionStarted
        \<longleftrightarrow> saw_command_by events from_id (Suc ix) \<or> saw_start_by events from_id (Suc ix)"
      and sc: "saw_command_by events from_id ix \<or> is_command_event (events ! ix) \<longleftrightarrow>
        saw_command_by events from_id (Suc ix)"
      by (auto simp: saw_by_Suc)
    have new: "\<not> he_event_id (events ! ix) \<le> from_id" using True by (simp add: in_seq_def)
    show ?thesis
      unfolding drop_ix wft_seq_loop.simps Let_def scs sc find_upt_Cons [OF ix]
      using step [unfolded started_by_Suc] ix True new
      by (cases "he_event_type (events ! ix) = E_WorkflowTaskStarted")
        (auto simp: concludes_def conclusion_index_def started_by_Suc unskipped_started_def
          completed_with_more_def get_event_def started_not_final)
  qed
qed

lemma find_end_spec:
  "find_end_index_of_next_wft_seq events from_id hl = wft_seq_end_spec events from_id"
  using wft_seq_loop_spec [of 0 events from_id hl]
  by (simp add: find_end_index_of_next_wft_seq_def wft_seq_end_spec_def saw_command_by_def
      saw_start_by_def started_by_def)

lemma accepted_update_end_cases:
  "accepted_update_end started e ix = ix \<or> accepted_update_end started e ix \<in> snd ` set started"
proof -
  have "k \<in> snd ` set started" if found: "find_started_before started seq = Some k"
    for seq k
  proof -
    obtain p where p: "find (\<lambda>(eid, ix). eid < seq) (rev started) = Some p" and "k = snd p"
      using found by (auto simp: find_started_before_def)
    from p have "p \<in> set (rev started)" unfolding find_Some_iff by (metis nth_mem)
    with \<open>k = snd p\<close> show ?thesis by simp
  qed
  then show ?thesis
    by (auto simp: accepted_update_end_def unwrap_or_def split: option.splits Attributes.splits)
qed

text \<open>Where a complete sequence ends.\<close>

lemma find_end_Complete:
  assumes "find_end_index_of_next_wft_seq events from_id hl = Complete k"
  shows "k < length events \<and> in_seq events from_id k \<and>
    (is_final_wf_execution_event (events ! k) \<or> unskipped_started events from_id k)"
proof -
  obtain j where j: "find (concludes events from_id) [0..<length events] = Some j"
    and k: "k = conclusion_index events from_id j"
    using assms by (auto simp: find_end_spec wft_seq_end_spec_def split: option.splits)
  from j have "j < length events" "concludes events from_id j"
    by (auto simp: find_Some_iff)
  moreover have "i < length events \<and> unskipped_started events from_id i"
    if "i \<in> snd ` set (started_by events from_id (Suc j))" for i
    using that \<open>j < length events\<close> by (auto simp: started_by_def split: if_splits)
  ultimately show ?thesis
    using accepted_update_end_cases [of "started_by events from_id (Suc j)" "events ! (j + 2)" j]
    by (auto simp: k conclusion_index_def concludes_def unskipped_started_def split: if_splits)
qed

lemma find_end_Incomplete:
  "find_end_index_of_next_wft_seq events from_id hl = Incomplete k \<Longrightarrow> k = length events - 1"
  by (auto simp: find_end_spec wft_seq_end_spec_def split: option.splits)

section \<open>Building an update from a page of events\<close>

text \<open>
  The \<^verbatim>\<open>while let\<close> loop of \<^verbatim>\<open>from_events\<close>.  Each round moves the end forward, since the
  sequence found from an end event lies behind it.
\<close>

lemma find_end_progress:
  assumes "ix < length events"
    and "find_end_index_of_next_wft_seq (drop ix events) (he_event_id (events ! ix)) hl = Complete k"
  shows "0 < k \<and> ix + k < length events"
  using find_end_Complete [OF assms(2)] assms(1)
  by (cases k) (auto simp: in_seq_def)

function from_events_loop ::
    "HistoryEvent list \<Rightarrow> bool \<Rightarrow> nat \<Rightarrow> nat \<Rightarrow> (nat \<times> nat, Status) res" where
  "from_events_loop all_events has_last_wft next_end_ix wft_count =
     (if next_end_ix < length all_events then
        case wft_end_add (find_end_index_of_next_wft_seq (drop next_end_ix all_events)
               (he_event_id (all_events ! next_end_ix)) has_last_wft) next_end_ix of
          Incomplete _ \<Rightarrow> Ok (next_end_ix, Suc wft_count)
        | Complete next_end \<Rightarrow>
            from_events_loop all_events has_last_wft next_end (Suc wft_count)
      else Panic)"
  by pat_completeness auto

termination
proof (relation "measure (\<lambda>(es, _, ix, _). length es - ix)", goal_cases)
  case (2 events hl ix n next_end)
  then obtain k where "find_end_index_of_next_wft_seq (drop ix events) (he_event_id (events ! ix)) hl
      = Complete k" "next_end = k + ix"
    by (cases "find_end_index_of_next_wft_seq (drop ix events) (he_event_id (events ! ix)) hl") auto
  then show ?case using find_end_progress [OF 2(1), of hl k] by auto
qed simp

declare from_events_loop.simps [simp del]

definition from_events :: "HistoryEvent list \<Rightarrow> i64 \<Rightarrow> i64 \<Rightarrow> bool \<Rightarrow>
    (HistoryUpdate \<times> HistoryEvent list, Status) res" where
  "from_events all_events previous_wft_started_id wft_started_id has_last_wft =
     (let update = (\<lambda>es n. \<lparr>hu_events = es,
            hu_previous_wft_started_id = previous_wft_started_id,
            hu_wft_started_id = wft_started_id, hu_has_last_wft = has_last_wft,
            hu_wft_count = n\<rparr>)
      in case find_end_index_of_next_wft_seq all_events previous_wft_started_id has_last_wft of
           Incomplete _ \<Rightarrow>
             if has_last_wft then Ok (update all_events 1, [])
             else Ok (update [] 0, all_events)
         | Complete first_end \<Rightarrow>
             res_bind (from_events_loop all_events has_last_wft first_end 0)
               (\<lambda>(last_end, wft_count).
                  if all_events = [] \<or> has_last_wft then Ok (update all_events wft_count, [])
                  else if Suc last_end \<le> length all_events
                  then Ok (update (take (Suc last_end) all_events) wft_count,
                           drop (Suc last_end) all_events)
                  else Panic))"

section \<open>Laws of updates\<close>

definition ends_sequence :: "HistoryEvent \<Rightarrow> bool" where
  "ends_sequence e \<longleftrightarrow>
     he_event_type e = E_WorkflowTaskStarted \<or> is_final_wf_execution_event e"

lemma find_end_ends:
  "find_end_index_of_next_wft_seq events from_id hl = Complete k \<Longrightarrow> ends_sequence (events ! k)"
  using find_end_Complete [of events from_id hl k]
  by (auto simp: ends_sequence_def unskipped_started_def)

lemma from_events_loop_Ok:
  assumes "ix < length events" and "ends_sequence (events ! ix)"
  shows "\<exists>j m. from_events_loop events hl ix n = (Ok (j, m) :: (nat \<times> nat, Status) res) \<and>
     ix \<le> j \<and> j < length events \<and>
    n < m \<and> ends_sequence (events ! j)"
  using assms
proof (induction events hl ix n rule: from_events_loop.induct)
  case (1 events hl ix n)
  let ?found = "find_end_index_of_next_wft_seq (drop ix events) (he_event_id (events ! ix)) hl"
  show ?case
  proof (cases ?found)
    case (Complete k)
    have k: "0 < k" "ix + k < length events"
      using find_end_progress [OF "1.prems"(1) Complete] by auto
    have "ends_sequence (events ! (k + ix))"
      using find_end_ends [OF Complete] k by (simp add: add.commute)
    with "1.IH" [of "k + ix"] "1.prems"(1) Complete k
    obtain j m where
      "from_events_loop events hl (k + ix) (Suc n) = (Ok (j, m) :: (nat \<times> nat, Status) res)" "k + ix \<le> j"
      "j < length events" "Suc n < m" "ends_sequence (events ! j)"
      by (auto simp: add.commute)
    with Complete "1.prems"(1) show ?thesis
      by (intro exI [of _ j] exI [of _ m]) (simp add: from_events_loop.simps [of events hl ix])
  next
    case (Incomplete k)
    with "1.prems" show ?thesis by (simp add: from_events_loop.simps [of events hl ix])
  qed
qed

text \<open>The events of an update that are still ahead of the given id.\<close>

definition relevant_events :: "HistoryUpdate \<Rightarrow> i64 \<Rightarrow> HistoryEvent list" where
  "relevant_events u from_id = dropWhile (\<lambda>e. he_event_id e \<le> from_id) (hu_events u)"

lemma find_index_dropWhile:
  "(case find (\<lambda>i. \<not> P (xs ! i)) [0..<length xs] of
      Some n \<Rightarrow> dropWhile P xs = drop n xs \<and> dropWhile P xs \<noteq> []
    | None \<Rightarrow> dropWhile P xs = [])"
proof (cases "find (\<lambda>i. \<not> P (xs ! i)) [0..<length xs]")
  case None
  then have "\<forall>i<length xs. P (xs ! i)" by (auto simp: find_None_iff)
  then show ?thesis using None by (auto simp: in_set_conv_nth)
next
  case (Some n)
  then have "n < length xs" "\<not> P (xs ! n)" "\<forall>i<n. P (xs ! i)"
    by (auto simp: find_Some_iff)
  moreover from this have "dropWhile P (take n xs @ drop n xs) = dropWhile P (drop n xs)"
    by (intro dropWhile_append2) (auto simp: in_set_conv_nth)
  moreover have "dropWhile P (drop n xs) = drop n xs"
    using calculation by (simp add: Cons_nth_drop_Suc [symmetric])
  ultimately have "dropWhile P xs = drop n xs" by simp
  then show ?thesis using Some \<open>n < length xs\<close> by simp
qed

lemma starting_index_cases:
  "(case starting_index_after_skipping u from_id of
      Some n \<Rightarrow> drop n (hu_events u) = relevant_events u from_id \<and> relevant_events u from_id \<noteq> []
    | None \<Rightarrow> relevant_events u from_id = [])"
  using find_index_dropWhile [of "\<lambda>e. he_event_id e \<le> from_id" "hu_events u"]
  by (auto simp: starting_index_after_skipping_def relevant_events_def not_le split: option.splits)

lemma relevant_events_split:
  obtains skipped where "hu_events u = skipped @ relevant_events u from_id"
    and "\<forall>e\<in>set skipped. he_event_id e \<le> from_id"
proof
  show "hu_events u = takeWhile (\<lambda>e. he_event_id e \<le> from_id) (hu_events u) @
      relevant_events u from_id"
    by (simp add: relevant_events_def)
qed (auto dest: set_takeWhileD)

text \<open>Events that were handled before do not change where the next sequence is found.\<close>

lemma in_seq_skip:
  assumes "\<forall>e\<in>set xs. he_event_id e \<le> from_id" and "in_seq (xs @ ys) from_id j"
  shows "length xs \<le> j"
proof (rule ccontr)
  assume "\<not> length xs \<le> j"
  then have "he_event_id (xs ! j) \<le> from_id" using assms(1) by simp
  then show False using assms(2) \<open>\<not> length xs \<le> j\<close> by (simp add: in_seq_def nth_append)
qed

lemma saw_by_skip:
  assumes "\<forall>e\<in>set xs. he_event_id e \<le> from_id"
  shows "saw_command_by (xs @ ys) from_id (length xs + n) = saw_command_by ys from_id n"
    and "saw_start_by (xs @ ys) from_id (length xs + n) = saw_start_by ys from_id n"
proof -
  have "(\<exists>j<length xs + n. in_seq (xs @ ys) from_id j \<and> P ((xs @ ys) ! j)) =
      (\<exists>j<n. in_seq ys from_id j \<and> P (ys ! j))" (is "?L = ?R") for P
  proof
    assume ?L
    then obtain j where j: "j < length xs + n" "in_seq (xs @ ys) from_id j" "P ((xs @ ys) ! j)"
      by blast
    then have "length xs \<le> j" using in_seq_skip [OF assms] by blast
    with j show ?R
      by (intro exI [of _ "j - length xs"]) (auto simp: in_seq_def nth_append)
  next
    assume ?R
    then obtain j where "j < n" "in_seq ys from_id j" "P (ys ! j)" by blast
    then show ?L
      by (intro exI [of _ "length xs + j"]) (auto simp: in_seq_def nth_append)
  qed
  then show "saw_command_by (xs @ ys) from_id (length xs + n) = saw_command_by ys from_id n"
    "saw_start_by (xs @ ys) from_id (length xs + n) = saw_start_by ys from_id n"
    by (simp_all add: saw_command_by_def saw_start_by_def)
qed

lemma concludes_skip:
  assumes "\<forall>e\<in>set xs. he_event_id e \<le> from_id"
  shows "concludes (xs @ ys) from_id (length xs + i) = concludes ys from_id i"
  using saw_by_skip [OF assms, of ys "Suc i"]
  by (simp add: concludes_def unskipped_started_def completed_with_more_def in_seq_def nth_append)

lemma find_end_is_Complete:
  "(\<exists>k. find_end_index_of_next_wft_seq events from_id hl = Complete k) \<longleftrightarrow>
   (\<exists>i<length events. concludes events from_id i)"
  by (auto simp: find_end_spec wft_seq_end_spec_def find_None_iff find_Some_iff
      split: option.splits)

lemma find_end_skip_Complete:
  assumes "\<forall>e\<in>set xs. he_event_id e \<le> from_id"
  shows "(\<exists>k. find_end_index_of_next_wft_seq (xs @ ys) from_id hl = Complete k) \<longleftrightarrow>
    (\<exists>k. find_end_index_of_next_wft_seq ys from_id hl = Complete k)"
  unfolding find_end_is_Complete
proof
  assume "\<exists>i<length (xs @ ys). concludes (xs @ ys) from_id i"
  then obtain i where i: "i < length xs + length ys" "concludes (xs @ ys) from_id i" by auto
  then have "length xs \<le> i"
    using in_seq_skip [OF assms] unfolding concludes_def unskipped_started_def by blast
  with i concludes_skip [OF assms, of ys "i - length xs"]
  show "\<exists>i<length ys. concludes ys from_id i"
    by (intro exI [of _ "i - length xs"]) auto
next
  assume "\<exists>i<length ys. concludes ys from_id i"
  then obtain i where "i < length ys" "concludes ys from_id i" by blast
  then show "\<exists>i<length (xs @ ys). concludes (xs @ ys) from_id i"
    using concludes_skip [OF assms, of ys i] by (intro exI [of _ "length xs + i"]) auto
qed

lemma take_next_relevant:
  assumes "relevant_events u from_id \<noteq> []"
  shows "take_next_wft_sequence u from_id =
    (let v = u\<lparr>hu_events := relevant_events u from_id\<rparr> in
     case find_end_index_of_next_wft_seq (relevant_events u from_id) from_id (hu_has_last_wft u) of
       Incomplete siz \<Rightarrow>
         if hu_has_last_wft u then (if siz = 0 then Ok (ReplayOver, v) else build_next_wft v siz)
         else if siz \<noteq> 0 then Panic else Ok (NeedFetch, v)
     | Complete k \<Rightarrow> build_next_wft v k)"
  using starting_index_cases [of u from_id] assms
  by (cases "starting_index_after_skipping u from_id") (auto simp: take_next_wft_sequence_def Let_def
      split: NextWFTSeqEndIndex.split)

lemma peek_next_relevant:
  assumes "relevant_events u from_id \<noteq> []"
  shows "peek_next_wft_sequence u from_id =
    (let ix_end = wft_end_index (find_end_index_of_next_wft_seq (relevant_events u from_id) from_id
           (hu_has_last_wft u))
     in if ix_end < length (relevant_events u from_id)
        then Ok (take (Suc ix_end) (relevant_events u from_id)) else Panic)"
  using starting_index_cases [of u from_id] assms
  by (cases "starting_index_after_skipping u from_id") (auto simp: peek_next_wft_sequence_def Let_def)

text \<open>Taking sequences one after the other, each from the last event of the one before.\<close>

fun replay_update :: "nat \<Rightarrow> HistoryUpdate \<Rightarrow> i64 \<Rightarrow> HistoryEvent list list \<times> HistoryUpdate" where
  "replay_update 0 u from_id = ([], u)"
| "replay_update (Suc n) u from_id =
     (case take_next_wft_sequence u from_id :: (NextWFT \<times> HistoryUpdate, Status) res of
        Ok (WFT evs _, u') \<Rightarrow>
          (let (seqs, v) = replay_update n u' (he_event_id (last evs)) in (evs # seqs, v))
      | _ \<Rightarrow> ([], u))"

definition ids_after :: "i64 \<Rightarrow> HistoryEvent list \<Rightarrow> bool" where
  "ids_after from_id es \<longleftrightarrow> sorted_wrt (<) (from_id # map he_event_id es)"

lemma ids_after_relevant: "ids_after from_id (hu_events u) \<Longrightarrow> relevant_events u from_id = hu_events u"
  by (cases "hu_events u") (auto simp: ids_after_def relevant_events_def)

lemma ids_after_drop:
  assumes "ids_after from_id es" and "k < length es"
  shows "ids_after (he_event_id (last (take (Suc k) es))) (drop (Suc k) es)"
proof -
  have "last (take (Suc k) es) = es ! k"
    using assms(2) by (simp add: take_Suc_conv_app_nth)
  moreover have "sorted_wrt (<) (map he_event_id (drop k es))"
    using assms(1) sorted_wrt_drop [of "(<)" "map he_event_id es" k]
    by (simp add: ids_after_def drop_map)
  ultimately show ?thesis
    using assms(2) by (simp add: ids_after_def Cons_nth_drop_Suc [symmetric])
qed

lemma build_next_wft_eq:
  "build_next_wft u k = Ok (WFT evs is_last, u') \<longleftrightarrow>
     k < length (hu_events u) \<and> evs = take (Suc k) (hu_events u) \<and>
     is_last = (drop (Suc k) (hu_events u) = [] \<and> hu_has_last_wft u) \<and>
     u' = u\<lparr>hu_events := drop (Suc k) (hu_events u)\<rparr>"
  by (auto simp: build_next_wft_def Let_def)

lemma take_next_empty:
  "hu_events u = [] \<Longrightarrow> hu_has_last_wft u \<Longrightarrow> take_next_wft_sequence u from_id = Ok (ReplayOver, u)"
  by (simp add: take_next_wft_sequence_def starting_index_after_skipping_def
      find_end_index_of_next_wft_seq_def)

lemma take_next_last:
  assumes "ids_after from_id (hu_events u)" and "hu_has_last_wft u" and "hu_events u \<noteq> []"
  shows "(\<exists>k<length (hu_events u). (ends_sequence (hu_events u ! k) \<or> Suc k = length (hu_events u)) \<and>
      take_next_wft_sequence u from_id = build_next_wft u k) \<or>
    length (hu_events u) = 1 \<and> take_next_wft_sequence u from_id = Ok (ReplayOver, u)"
proof -
  have u: "u\<lparr>hu_events := hu_events u\<rparr> = u" by simp
  note take_next = take_next_relevant [of u from_id, unfolded ids_after_relevant [OF assms(1)],
    OF assms(3), unfolded u Let_def]
  show ?thesis
  proof (cases "find_end_index_of_next_wft_seq (hu_events u) from_id (hu_has_last_wft u)")
    case (Complete k)
    then show ?thesis
      using take_next find_end_Complete [OF Complete] find_end_ends [OF Complete] by auto
  next
    case (Incomplete k)
    moreover have "Suc k = length (hu_events u)"
      using find_end_Incomplete [OF Incomplete] assms(3) by (cases "hu_events u") auto
    ultimately show ?thesis
      using take_next assms(2) by (cases "k = 0") (auto intro!: exI [of _ k])
  qed
qed

lemma replay_update_consumes:
  assumes "ids_after from_id (hu_events u)" and "hu_has_last_wft u" and "length (hu_events u) \<le> n"
  shows "\<exists>rest. concat (fst (replay_update n u from_id)) @ rest = hu_events u \<and> length rest \<le> 1 \<and>
    (\<forall>s\<in>set (fst (replay_update n u from_id)). s \<noteq> []) \<and>
    (\<forall>s\<in>set (butlast (fst (replay_update n u from_id))). ends_sequence (last s))"
  using assms
proof (induction n arbitrary: u from_id)
  case 0
  then show ?case by simp
next
  case (Suc n)
  consider (empty) "hu_events u = []"
    | (over) "length (hu_events u) = 1"
        "take_next_wft_sequence u from_id = (Ok (ReplayOver, u) :: (NextWFT \<times> HistoryUpdate, Status) res)"
    | (wft) k where "k < length (hu_events u)"
        "ends_sequence (hu_events u ! k) \<or> Suc k = length (hu_events u)"
        "take_next_wft_sequence u from_id = (build_next_wft u k :: (NextWFT \<times> HistoryUpdate, Status) res)"
    using take_next_last [OF Suc.prems(1,2)] by blast
  then show ?case
  proof cases
    case empty
    then show ?thesis using Suc.prems(2) by (simp add: take_next_empty)
  next
    case over
    then show ?thesis by simp
  next
    case wft
    define evs where "evs = take (Suc k) (hu_events u)"
    define u' where "u' = u\<lparr>hu_events := drop (Suc k) (hu_events u)\<rparr>"
    define seqs where "seqs = fst (replay_update n u' (he_event_id (last evs)))"
    have "ids_after (he_event_id (last evs)) (hu_events u')"
      using ids_after_drop [OF Suc.prems(1) wft(1)] by (simp add: evs_def u'_def)
    moreover have "hu_has_last_wft u'" "length (hu_events u') \<le> n"
      using Suc.prems by (simp_all add: u'_def)
    ultimately have "\<exists>rest. concat seqs @ rest = hu_events u' \<and> length rest \<le> 1 \<and>
        (\<forall>s\<in>set seqs. s \<noteq> []) \<and> (\<forall>s\<in>set (butlast seqs). ends_sequence (last s))"
      unfolding seqs_def by (rule Suc.IH)
    then obtain rest where rest: "concat seqs @ rest = hu_events u'" "length rest \<le> 1"
      "\<forall>s\<in>set seqs. s \<noteq> []" "\<forall>s\<in>set (butlast seqs). ends_sequence (last s)"
      by blast
    have all: "fst (replay_update (Suc n) u from_id) = evs # seqs"
      using wft by (simp add: build_next_wft_def Let_def seqs_def evs_def u'_def split: prod.split)
    have "last evs = hu_events u ! k"
      using wft(1) by (simp add: evs_def take_Suc_conv_app_nth)
    moreover have "seqs = []" if "Suc k = length (hu_events u)"
    proof -
      from that have "concat seqs = []" using rest(1) by (simp add: u'_def)
      with rest(3) show ?thesis by (cases seqs) simp_all
    qed
    ultimately have "\<forall>s\<in>set (butlast (evs # seqs)). ends_sequence (last s)"
      using rest(4) wft(2) by (cases "seqs = []") auto
    moreover have "concat (evs # seqs) @ rest = hu_events u" "evs \<noteq> []"
      using rest(1) wft(1) by (auto simp: evs_def u'_def)
    ultimately show ?thesis
      unfolding all using rest(2,3) by (intro exI [of _ rest]) simp
  qed
qed

lemma from_events_conserved:
  "\<exists>u rest. from_events events prev started has_last =
       (Ok (u, rest) :: (HistoryUpdate \<times> HistoryEvent list, Status) res) \<and>
     hu_events u @ rest = events \<and> hu_has_last_wft u = has_last \<and>
     (if has_last then rest = []
      else if hu_events u = [] then hu_wft_count u = 0
      else 0 < hu_wft_count u \<and> ends_sequence (last (hu_events u)))"
proof (cases "find_end_index_of_next_wft_seq events prev has_last")
  case (Complete k)
  from find_end_Complete [OF Complete] find_end_ends [OF Complete]
  obtain j m where jm: "from_events_loop events has_last k 0 = (Ok (j, m) :: (nat \<times> nat, Status) res)"
      "j < length events"
      "0 < m" "ends_sequence (events ! j)"
    using from_events_loop_Ok [of k events has_last 0] by auto
  then have "last (take (Suc j) events) = events ! j"
    by (simp add: take_Suc_conv_app_nth)
  with jm Complete show ?thesis by (auto simp: from_events_def Let_def)
next
  case (Incomplete k)
  then show ?thesis by (simp add: from_events_def Let_def)
qed

section \<open>Properties\<close>

definition hist_event :: "i64 \<Rightarrow> EventType \<Rightarrow> HistoryEvent" where
  "hist_event i t = \<lparr>he_event_id = i, he_event_time = None, he_event_type = t,
     he_worker_may_ignore = False, he_attributes = None\<rparr>"

text \<open>
  A workflow that waits for a signal, and starts a timer when it comes.
\<close>

definition signal_history :: "HistoryEvent list" where
  "signal_history = map (\<lambda>(i, t). hist_event i t)
     [(1, E_WorkflowExecutionStarted), (2, E_WorkflowTaskScheduled), (3, E_WorkflowTaskStarted),
      (4, E_WorkflowTaskCompleted), (5, E_WorkflowExecutionSignaled), (6, E_WorkflowTaskScheduled),
      (7, E_WorkflowTaskStarted), (8, E_WorkflowTaskCompleted), (9, E_TimerStarted)]"

text \<open>C16: the scan that cuts a history into workflow task sequences agrees with its reference: a
  sequence is concluded by the first event past the starting id that closes the workflow, or that
  starts a workflow task which neither failed, timed out nor was followed by an abrupt end and
  which is not a mere heartbeat; when an accepted update follows, the end moves back to the last
  such task started before the update was sequenced.  Whether the events are the last of the
  history plays no role.\<close>

theorem wft_scan_meets_reference:
  "find_end_index_of_next_wft_seq events from_id has_last_wft = wft_seq_end_spec events from_id"
  by (rule find_end_spec)

text \<open>Building an update from a page of events never panics and neither loses, repeats nor
  reorders an event: the events of the update followed by those handed back are the page.  With
  the last of the history nothing is handed back; otherwise an update that holds any event holds
  at least one sequence and ends with a started workflow task or a closed workflow.\<close>

theorem from_events_conserves:
  "\<exists>u rest. from_events events prev started has_last =
       (Ok (u, rest) :: (HistoryUpdate \<times> HistoryEvent list, Status) res) \<and>
     hu_events u @ rest = events \<and> hu_has_last_wft u = has_last \<and>
     (if has_last then rest = []
      else if hu_events u = [] then hu_wft_count u = 0
      else 0 < hu_wft_count u \<and> ends_sequence (last (hu_events u)))"
  by (rule from_events_conserved)

lemmas signal_history_eval = signal_history_def hist_event_def hu_dummy_def
  take_next_wft_sequence_def starting_index_after_skipping_def find_end_index_of_next_wft_seq_def
  build_next_wft_def get_event_def is_command_event_def event_type_is_command_def
  is_final_wf_execution_event_def is_abrupt_end_def accepted_update_end_def Let_def
  relevant_events_def eval_nat_numeral

text \<open>Taking the next sequence from an update that still has events past the given id hands
  out the first of them and keeps the rest, in order and without loss, and what is taken is what
  peeking showed before.  It ends with a started workflow task or a closed workflow unless it is
  the remainder of the history, and the flag that comes with it says whether it is the very last.\<close>

theorem take_next_conserves:
  assumes "take_next_wft_sequence u from_id = Ok (WFT evs is_last, u')"
    and "relevant_events u from_id \<noteq> []"
  shows "evs @ hu_events u' = relevant_events u from_id \<and> evs \<noteq> [] \<and>
    is_last = (hu_has_last_wft u \<and> hu_events u' = []) \<and> (ends_sequence (last evs) \<or> is_last) \<and>
    peek_next_wft_sequence u from_id = Ok evs"
proof -
  let ?es = "relevant_events u from_id"
  let ?v = "u\<lparr>hu_events := ?es\<rparr>"
  note take_next = assms(1) [unfolded take_next_relevant [OF assms(2)] Let_def]
    and peek = peek_next_relevant [OF assms(2), unfolded Let_def]
  show ?thesis
  proof (cases "find_end_index_of_next_wft_seq ?es from_id (hu_has_last_wft u)")
    case (Complete k)
    with take_next have "build_next_wft ?v k = Ok (WFT evs is_last, u')" by simp
    then have k: "k < length ?es" "evs = take (Suc k) ?es" "hu_events u' = drop (Suc k) ?es"
        "is_last = (hu_has_last_wft u \<and> hu_events u' = [])"
      by (auto simp: build_next_wft_eq)
    then have "last evs = ?es ! k" by (simp add: take_Suc_conv_app_nth)
    with k peek Complete show ?thesis using find_end_ends [OF Complete] by auto
  next
    case (Incomplete k)
    with take_next have "build_next_wft ?v k = Ok (WFT evs is_last, u')" "hu_has_last_wft u"
      by (auto split: if_splits)
    then have k: "k < length ?es" "evs = take (Suc k) ?es" "hu_events u' = drop (Suc k) ?es"
        "is_last = (hu_events u' = [])"
      by (auto simp: build_next_wft_eq)
    moreover have "hu_events u' = []" using k(3) find_end_Incomplete [OF Incomplete] by simp
    ultimately show ?thesis using peek Incomplete \<open>hu_has_last_wft u\<close> by auto
  qed
qed

theorem take_next_conserves_witness:
  "\<exists>u'. take_next_wft_sequence (hu_dummy\<lparr>hu_events := signal_history\<rparr>) 0 =
     (Ok (WFT (take 3 signal_history) False, u') :: (NextWFT \<times> HistoryUpdate, Status) res) \<and>
     take 3 signal_history @ hu_events u' = signal_history"
  using take_next_conserves [of "hu_dummy\<lparr>hu_events := signal_history\<rparr>" 0 "take 3 signal_history"
      False "hu_dummy\<lparr>hu_events := drop 3 signal_history\<rparr>"]
  by (simp add: signal_history_eval)




end
