(* ===== verification/Pagination.thy ===== *)
theory Pagination
  imports HistoryUpdate UpdateMachine
begin

text \<open>
  Fetching history in pages, \<^verbatim>\<open>HistoryPaginator\<close> of
  \<^verbatim>\<open>sdk-core/src/worker/workflow/history_update.rs\<close>.  The client is outside the model: its
  successive answers to \<^verbatim>\<open>get_workflow_execution_history\<close> are an argument, a list that is
  consumed from the front, whatever page token was asked for.  A result \<open>None\<close> means that the
  code is still waiting for an answer when the list is used up; every round of the extraction
  consumes an answer, which is why the loops terminate.

  Shown: extraction is faithful to what was fetched (the update and what stays queued are the
  fetched events, in order), it returns as soon as the server ends the history or fails, and the
  update has the documented size.
\<close>

section \<open>Pages and the paginator\<close>

datatype NextPageToken = FetchFromStart | NextToken bytes | DoneToken

definition NextPageToken_from :: "bytes \<Rightarrow> NextPageToken" where
  "NextPageToken_from page_token = (if page_token = [] then DoneToken else NextToken page_token)"

record HistoryResponse =
  hr_history :: "HistoryEvent list option"
  hr_next_page_token :: bytes

type_synonym Answers = "(HistoryResponse, Status) res list"

record HistoryPaginator =
  hp_wf_id :: string
  hp_run_id :: string
  hp_previous_wft_started_id :: i64
  hp_wft_started_event_id :: i64
  hp_id_of_last_event_in_last_extracted_update :: "i64 option"
  hp_event_queue :: "HistoryEvent list"
  hp_next_page_token :: NextPageToken
  hp_final_events :: "HistoryEvent list"

definition paginator_new ::
    "HistoryEvent list \<Rightarrow> i64 \<Rightarrow> i64 \<Rightarrow> string \<Rightarrow> string \<Rightarrow> NextPageToken \<Rightarrow> HistoryPaginator" where
  "paginator_new initial_history previous_wft_started_id wft_started_event_id wf_id run_id
     next_page_token =
     (let (event_queue, final_events) =
            (if next_page_token = FetchFromStart then ([], initial_history)
             else (initial_history, []))
      in \<lparr>hp_wf_id = wf_id, hp_run_id = run_id,
          hp_previous_wft_started_id = previous_wft_started_id,
          hp_wft_started_event_id = wft_started_event_id,
          hp_id_of_last_event_in_last_extracted_update = None, hp_event_queue = event_queue,
          hp_next_page_token = next_page_token, hp_final_events = final_events\<rparr>)"

section \<open>Fetching a page\<close>

definition back_id :: "HistoryEvent list \<Rightarrow> i64 option" where
  "back_id es = (if es = [] then None else Some (he_event_id (last es)))"

text \<open>
  The inner loop of \<^verbatim>\<open>get_next_page\<close>, which skips empty pages that have a successor.  The token
  is replaced by \<^verbatim>\<open>Done\<close> before the request, so it is \<^verbatim>\<open>Done\<close> after a failed one.
\<close>

fun fetch_page :: "NextPageToken \<Rightarrow> Answers \<Rightarrow>
    ((HistoryEvent list option, Status) res \<times> NextPageToken \<times> Answers) option" where
  "fetch_page npt [] = (if npt = DoneToken then Some (Ok None, DoneToken, []) else None)"
| "fetch_page npt (answer # answers) =
     (if npt = DoneToken then Some (Ok None, DoneToken, answer # answers)
      else case answer of
        Ok fetch_res \<Rightarrow>
          let npt = NextPageToken_from (hr_next_page_token fetch_res);
              history_is_empty = (case hr_history fetch_res of Some es \<Rightarrow> es = [] | None \<Rightarrow> True)
          in if history_is_empty \<and> npt \<noteq> DoneToken then fetch_page npt answers
             else Some (Ok (hr_history fetch_res), npt, answers)
      | Err status \<Rightarrow> Some (Err status, DoneToken, answers)
      | Panic \<Rightarrow> Some (Panic, DoneToken, answers))"

definition skip_seen :: "i64 \<Rightarrow> HistoryEvent list \<Rightarrow> HistoryEvent list" where
  "skip_seen last_id = dropWhile (\<lambda>e. he_event_id e \<le> last_id)"

definition enqueue_page ::
    "HistoryEvent list option \<Rightarrow> NextPageToken \<Rightarrow> HistoryPaginator \<Rightarrow> HistoryPaginator" where
  "enqueue_page history npt p =
     (let queue = hp_event_queue p @
            skip_seen (unwrap_or (back_id (hp_event_queue p)) 0) (unwrap_or history []);
          p = p\<lparr>hp_next_page_token := npt, hp_event_queue := queue\<rparr>
      in if npt = DoneToken then
           (case back_id queue of
              Some last_event_id \<Rightarrow>
                p\<lparr>hp_event_queue := queue @ skip_seen last_event_id (hp_final_events p),
                  hp_final_events := []\<rparr>
            | None \<Rightarrow> p)
         else p)"

definition get_next_page :: "HistoryPaginator \<Rightarrow> Answers \<Rightarrow>
    ((bool, Status) res \<times> HistoryPaginator \<times> Answers) option" where
  "get_next_page p answers =
     (case fetch_page (hp_next_page_token p) answers of
        None \<Rightarrow> None
      | Some (r, npt, rest) \<Rightarrow>
          Some (case r of
                  Ok history \<Rightarrow> (Ok (npt \<noteq> DoneToken), enqueue_page history npt p, rest)
                | Err status \<Rightarrow> (Err status, p\<lparr>hp_next_page_token := npt\<rparr>, rest)
                | Panic \<Rightarrow> (Panic, p\<lparr>hp_next_page_token := npt\<rparr>, rest)))"

section \<open>Extracting an update\<close>

text \<open>
  What one round of \<^verbatim>\<open>extract_next_update\<close> does after the page was fetched: return, or go round
  again with the events put back.
\<close>

datatype ExtractStep = Return "(HistoryUpdate, Status) res" | Again

definition extract_step :: "bool \<Rightarrow> HistoryPaginator \<Rightarrow> ExtractStep \<times> HistoryPaginator" where
  "extract_step no_next_page p0 =
     (let current_events = hp_event_queue p0;
          p = p0\<lparr>hp_event_queue := []\<rparr>;
          seen_enough_events =
            (unwrap_or (back_id current_events) 0 \<ge> hp_wft_started_event_id p);
          already_sent_update_with_enough_events =
            (unwrap_or (hp_id_of_last_event_in_last_extracted_update p) 0
               \<ge> hp_wft_started_event_id p)
      in if current_events = [] \<and> no_next_page \<and> already_sent_update_with_enough_events then
           (Return (res_map fst (from_events [] (hp_previous_wft_started_id p)
                                   (hp_wft_started_event_id p) True)), p)
         else if current_events = [] \<or> no_next_page \<and> \<not> seen_enough_events then
           (Return (Err EMPTY_FETCH_ERR), p)
         else
           let first_event_id = he_event_id (hd current_events);
               no_more = (hp_next_page_token p = DoneToken \<and> seen_enough_events)
           in case from_events current_events (hp_previous_wft_started_id p)
                     (hp_wft_started_event_id p) no_more of
                Ok (update, extra) \<Rightarrow>
                  if hp_next_page_token p \<noteq> DoneToken \<and> hu_wft_count update < 2 then
                    (Again, p\<lparr>hp_event_queue := hu_events update @ extra\<rparr>)
                  else
                    let extra_eid_same =
                          (case extra of [] \<Rightarrow> False | e # _ \<Rightarrow> he_event_id e = first_event_id);
                        p = p\<lparr>hp_event_queue := extra\<rparr>
                    in if \<not> no_more \<and> extra_eid_same then (Again, p)
                       else (Return (Ok update),
                             p\<lparr>hp_id_of_last_event_in_last_extracted_update :=
                                 back_id (hu_events update)\<rparr>)
              | Err status \<Rightarrow> (Return (Err status), p)
              | Panic \<Rightarrow> (Return Panic, p))"

text \<open>Every round that goes on has consumed an answer.\<close>

lemma fetch_page_Done [simp]: "fetch_page DoneToken answers = Some (Ok None, DoneToken, answers)"
  by (cases answers) simp_all

lemma fetch_page_shorter:
  "npt \<noteq> DoneToken \<Longrightarrow> fetch_page npt answers = Some (r, npt', rest) \<Longrightarrow>
   length rest < length answers"
  by (induction answers arbitrary: npt)
    (fastforce simp: Let_def split: if_splits res.splits)+

lemma get_next_page_token:
  assumes "get_next_page p answers = Some (Ok has_more, p', rest)"
  shows "has_more = (hp_next_page_token p' \<noteq> DoneToken) \<and>
    (hp_next_page_token p = DoneToken \<longrightarrow> hp_next_page_token p' = DoneToken)"
  using assms
  by (auto simp: get_next_page_def enqueue_page_def Let_def split: option.splits res.splits if_splits)

lemma extract_step_Again:
  assumes "extract_step no_next_page p = (Again, p')"
    and "no_next_page = (hp_next_page_token p = DoneToken)"
  shows "hp_next_page_token p \<noteq> DoneToken"
  using assms by (auto simp: extract_step_def Let_def split: if_splits res.splits)

lemma extract_again_shorter:
  assumes "get_next_page p0 answers = Some (Ok has_more, p, rest)"
    and "extract_step (\<not> has_more) p = (Again, p')"
  shows "length rest < length answers"
proof -
  have "hp_next_page_token p0 \<noteq> DoneToken"
    using get_next_page_token [OF assms(1)] extract_step_Again [OF assms(2)] by auto
  then show ?thesis
    using assms(1) fetch_page_shorter [of "hp_next_page_token p0" answers]
    by (auto simp: get_next_page_def split: option.splits res.splits)
qed

function extract_next_update :: "HistoryPaginator \<Rightarrow> Answers \<Rightarrow>
    ((HistoryUpdate, Status) res \<times> HistoryPaginator \<times> Answers) option" where
  "extract_next_update p0 answers =
     (case get_next_page p0 answers of
        None \<Rightarrow> None
      | Some (Err status, p, rest) \<Rightarrow> Some (Err status, p, rest)
      | Some (Panic, p, rest) \<Rightarrow> Some (Panic, p, rest)
      | Some (Ok has_more, p, rest) \<Rightarrow>
          (case extract_step (\<not> has_more) p of
             (Return r, p) \<Rightarrow> Some (r, p, rest)
           | (Again, p) \<Rightarrow> extract_next_update p rest))"
  by pat_completeness auto

termination
  by (relation "measure (\<lambda>(_, answers). length answers)") (simp, clarsimp, metis extract_again_shorter)

declare extract_next_update.simps [simp del]

section \<open>Starting from a poll response or a cache miss\<close>

record ValidPollWFTQResponse =
  wft_task_token :: bytes
  wft_workflow_execution :: WorkflowExecution
  wft_workflow_type :: string
  wft_history :: "HistoryEvent list"
  wft_next_page_token :: bytes
  wft_attempt :: u32
  wft_previous_started_event_id :: i64
  wft_started_event_id :: i64
  wft_started_time :: "SystemTime option"
  wft_legacy_query :: "bytes option"
  wft_query_requests :: "bytes list"
  wft_messages :: "IncomingProtocolMessage list"

record PreparedWFT =
  prep_task_token :: bytes
  prep_attempt :: u32
  prep_started_time :: "SystemTime option"
  prep_execution :: WorkflowExecution
  prep_workflow_type :: string
  prep_legacy_query :: "bytes option"
  prep_query_requests :: "bytes list"
  prep_update :: HistoryUpdate
  prep_messages :: "IncomingProtocolMessage list"

definition is_incremental :: "PreparedWFT \<Rightarrow> bool" where
  "is_incremental w =
     (case hu_first_event_id (prep_update w) of Some eid \<Rightarrow> eid > 1 | None \<Rightarrow> True)"

definition is_query_only :: "PreparedWFT \<Rightarrow> bool" where
  "is_query_only w \<longleftrightarrow> hu_wft_started_id (prep_update w) = 0 \<and> prep_legacy_query w \<noteq> None"

definition from_poll :: "ValidPollWFTQResponse \<Rightarrow> Answers \<Rightarrow>
    ((HistoryPaginator \<times> PreparedWFT, Status) res \<times> Answers) option" where
  "from_poll wft answers =
     (let empty_hist = (wft_history wft = []);
          npt = (if empty_hist then FetchFromStart else NextPageToken_from (wft_next_page_token wft));
          paginator = paginator_new (wft_history wft) (wft_previous_started_event_id wft)
            (wft_started_event_id wft) (we_workflow_id (wft_workflow_execution wft))
            (we_run_id (wft_workflow_execution wft)) npt;
          prepared = (\<lambda>update. \<lparr>prep_task_token = wft_task_token wft, prep_attempt = wft_attempt wft,
            prep_started_time = wft_started_time wft, prep_execution = wft_workflow_execution wft,
            prep_workflow_type = wft_workflow_type wft, prep_legacy_query = wft_legacy_query wft,
            prep_query_requests = wft_query_requests wft, prep_update = update,
            prep_messages = wft_messages wft\<rparr>)
      in if empty_hist \<and> wft_legacy_query wft = None \<and> wft_query_requests wft = [] then
           Some (Err EMPTY_TASK_ERR, answers)
         else if empty_hist then
           Some (res_map (\<lambda>(update, _). (paginator, prepared update))
                   (from_events [] (wft_previous_started_event_id wft) (wft_started_event_id wft)
                      True), answers)
         else map_option (\<lambda>(r, p, rest). (res_map (\<lambda>update. (p, prepared update)) r, rest))
                (extract_next_update paginator answers))"

definition from_fetchreq :: "PreparedWFT \<Rightarrow> HistoryPaginator \<Rightarrow> Answers \<Rightarrow>
    ((PreparedWFT \<times> HistoryPaginator, Status) res \<times> Answers) option" where
  "from_fetchreq work original_paginator answers =
     (let paginator =
            \<lparr>hp_wf_id = we_workflow_id (prep_execution work),
             hp_run_id = we_run_id (prep_execution work),
             hp_previous_wft_started_id = hu_previous_wft_started_id (prep_update work),
             hp_wft_started_event_id = hu_wft_started_id (prep_update work),
             hp_id_of_last_event_in_last_extracted_update =
               hp_id_of_last_event_in_last_extracted_update original_paginator,
             hp_event_queue = [], hp_next_page_token = FetchFromStart,
             hp_final_events = hu_events (prep_update work)\<rparr>
      in map_option (\<lambda>(r, p, rest).
              (res_map (\<lambda>first_update. (work\<lparr>prep_update := first_update\<rparr>, p)) r, rest))
           (extract_next_update paginator answers))"

section \<open>A server that pages through a history\<close>

text \<open>
  The documented behaviour of the server, as the paginator relies on it: every answer is a page,
  only the last has an empty token, and the pages are the history behind what is queued.
\<close>

fun page_of :: "(HistoryResponse, Status) res \<Rightarrow> HistoryEvent list" where
  "page_of (Ok r) = unwrap_or (hr_history r) []"
| "page_of _ = []"

fun pages_end :: "Answers \<Rightarrow> bool" where
  "pages_end (Ok r # answers) =
     (if answers = [] then hr_next_page_token r = []
      else hr_next_page_token r \<noteq> [] \<and> pages_end answers)"
| "pages_end _ = False"

definition serves :: "HistoryEvent list \<Rightarrow> nat \<Rightarrow> HistoryPaginator \<Rightarrow> Answers \<Rightarrow> bool" where
  "serves H j p answers \<longleftrightarrow> j \<le> length H \<and>
     (if hp_next_page_token p = DoneToken then hp_event_queue p = drop j H
      else \<exists>k\<ge>j. k \<le> length H \<and> hp_event_queue p = drop j (take k H) \<and>
             concat (map page_of answers) = drop k H \<and> pages_end answers) \<and>
     (\<exists>m. hp_final_events p = drop m H) \<and>
     (j = length H \<longrightarrow>
        hp_wft_started_event_id p \<le> unwrap_or (hp_id_of_last_event_in_last_extracted_update p) 0)"

lemma fetch_page_pages:
  assumes "pages_end answers" and "npt \<noteq> DoneToken"
  shows "\<exists>h npt' rest. fetch_page npt answers = Some (Ok h, npt', rest) \<and>
    concat (map page_of answers) = unwrap_or h [] @ concat (map page_of rest) \<and>
    (if npt' = DoneToken then rest = [] else pages_end rest \<and> unwrap_or h [] \<noteq> []) \<and>
    length rest < length answers"
  using assms
proof (induction answers arbitrary: npt)
  case (Cons a answers)
  then obtain r where a: "a = Ok r" by (cases a) auto
  show ?case
  proof (cases "hr_next_page_token r = []")
    case True
    with Cons.prems show ?thesis
      by (auto simp: a NextPageToken_from_def Let_def split: if_splits)
  next
    case False
    with Cons.prems have "pages_end answers" "answers \<noteq> []" by (auto simp: a split: if_splits)
    with Cons.IH [of "NextToken (hr_next_page_token r)"] False Cons.prems(2) show ?thesis
      by (fastforce simp: a NextPageToken_from_def Let_def split: option.splits)
  qed
qed simp

lemma ids_after_nth:
  "ids_after i H \<Longrightarrow> a < b \<Longrightarrow> b < length H \<Longrightarrow> he_event_id (H ! a) < he_event_id (H ! b)"
  using sorted_wrt_nth_less [of "(<)" "map he_event_id H" a b] by (simp add: ids_after_def)

lemma ids_after_pos: "ids_after i H \<Longrightarrow> e \<in> set H \<Longrightarrow> i < he_event_id e"
  by (simp add: ids_after_def)

text \<open>A page that continues the queue is appended as it is; one that repeats it is dropped.\<close>

lemma skip_seen_none:
  assumes "ids_after 0 H" and "j \<le> k" "k \<le> length H" and "drop k H = page @ rest"
  shows "skip_seen (unwrap_or (back_id (drop j (take k H))) 0) page = page"
proof (cases page)
  case (Cons e es)
  then have k: "k < length H" "e = H ! k"
    using assms(3,4) hd_drop_conv_nth [of k H] by (cases "k = length H", auto)+
  have "unwrap_or (back_id (drop j (take k H))) 0 < he_event_id e"
  proof (cases "j < k")
    case True
    then have "last (drop j (take k H)) = H ! (k - 1)"
      using k by (simp add: last_conv_nth)
    with True show ?thesis
      using k ids_after_nth [OF assms(1), of "k - 1" k] by (simp add: back_id_def)
  next
    case False
    then show ?thesis
      using k ids_after_pos [OF assms(1), of e] by (simp add: back_id_def)
  qed
  then show ?thesis by (simp add: Cons skip_seen_def)
qed (simp add: skip_seen_def)

lemma skip_seen_all:
  assumes "ids_after 0 H" and "j < length H"
  shows "skip_seen (he_event_id (last (drop j H))) (drop m H) = []"
proof -
  have "he_event_id e \<le> he_event_id (last H)" if "e \<in> set (drop m H)" for e
  proof -
    from that obtain i where i: "i < length H" "e = H ! i"
      by (metis in_set_dropD in_set_conv_nth)
    then show ?thesis
      using ids_after_nth [OF assms(1), of i "length H - 1"] assms(2) last_conv_nth [of H]
      by (cases "i = length H - 1") force+
  qed
  then show ?thesis using assms(2) by (auto simp: skip_seen_def)
qed

lemma serves_page:
  assumes "ids_after 0 H" and "serves H j p answers"
  shows "\<exists>p' rest. get_next_page p answers =
      Some (Ok (hp_next_page_token p' \<noteq> DoneToken), p', rest) \<and> serves H j p' rest \<and>
    hp_wft_started_event_id p' = hp_wft_started_event_id p \<and>
    (hp_next_page_token p' \<noteq> DoneToken \<longrightarrow> hp_event_queue p' \<noteq> [])"
proof (cases "hp_next_page_token p = DoneToken")
  case True
  with assms(2) obtain m where queue: "hp_event_queue p = drop j H" and "j \<le> length H"
    and final: "hp_final_events p = drop m H"
    by (auto simp: serves_def)
  show ?thesis
  proof (cases "j = length H")
    case True
    then show ?thesis
      using assms(2) \<open>hp_next_page_token p = DoneToken\<close> queue
      by (auto simp: get_next_page_def enqueue_page_def serves_def back_id_def skip_seen_def)
  next
    case False
    with \<open>j \<le> length H\<close> have j: "j < length H" by simp
    then show ?thesis
      using assms(2) \<open>hp_next_page_token p = DoneToken\<close> queue final skip_seen_all [OF assms(1) j, of m]
      by (auto simp: get_next_page_def enqueue_page_def serves_def back_id_def skip_seen_def
          intro!: exI [of _ "length H"])
  qed
next
  case False
  then obtain k m where k: "j \<le> k" "k \<le> length H" "hp_event_queue p = drop j (take k H)"
      "concat (map page_of answers) = drop k H" "pages_end answers"
    and final: "hp_final_events p = drop m H"
    and sent: "j = length H \<longrightarrow> hp_wft_started_event_id p \<le>
        unwrap_or (hp_id_of_last_event_in_last_extracted_update p) 0"
    using assms(2) by (auto simp: serves_def)
  from fetch_page_pages [OF k(5) False]
  obtain h npt rest where page: "fetch_page (hp_next_page_token p) answers = Some (Ok h, npt, rest)"
      "drop k H = unwrap_or h [] @ concat (map page_of rest)"
      "if npt = DoneToken then rest = [] else pages_end rest \<and> unwrap_or h [] \<noteq> []"
    unfolding k(4) by blast
  define k' where "k' = k + length (unwrap_or h [])"
  have rest: "concat (map page_of rest) = drop k' H"
    using arg_cong [OF page(2), of "drop (length (unwrap_or h []))"]
    by (simp add: k'_def add.commute)
  have "unwrap_or h [] = take (length (unwrap_or h [])) (drop k H)"
    by (simp add: page(2))
  then have queue: "hp_event_queue p @ unwrap_or h [] = drop j (take k' H)"
    using k(1,2,3) by (simp add: k'_def take_add)
  have k': "j \<le> k'" "k' \<le> length H"
    using k(1,2) arg_cong [OF page(2), of length] by (auto simp: k'_def)
  have new: "skip_seen (unwrap_or (back_id (hp_event_queue p)) 0) (unwrap_or h []) = unwrap_or h []"
    unfolding k(3) by (rule skip_seen_none [OF assms(1) k(1,2) page(2)])
  show ?thesis
  proof (cases "npt = DoneToken")
    case True
    then have "k' = length H" using page(3) rest k'(2) by simp
    then have q: "hp_event_queue p @ unwrap_or h [] = drop j H" using queue by simp
    show ?thesis
    proof (cases "j < length H")
      assume "j < length H"
      then show ?thesis
        using True page(1) q new final sent k' skip_seen_all [OF assms(1), of j m]
        by (auto simp: get_next_page_def enqueue_page_def serves_def back_id_def Let_def
            intro!: exI [of _ "length H"])
    next
      assume "\<not> j < length H"
      then show ?thesis
        using True page(1) q new final sent k'
        by (auto simp: get_next_page_def enqueue_page_def serves_def back_id_def Let_def)
    qed
  next
    case False
    then show ?thesis
      using page(1,3) queue new final sent k' rest
      by (auto simp: get_next_page_def enqueue_page_def serves_def Let_def)
  qed
qed

lemma from_events_queue:
  assumes "ids_after 0 es" and "es \<noteq> []"
  shows "\<exists>u extra. from_events es prev started has_last = Ok (u, extra) \<and> hu_events u @ extra = es \<and>
    hu_has_last_wft u = has_last \<and> (has_last \<longrightarrow> extra = []) \<and>
    (\<not> has_last \<and> 2 \<le> hu_wft_count u \<longrightarrow> hu_events u \<noteq> [] \<and>
      (\<forall>e rest. extra = e # rest \<longrightarrow> he_event_id e \<noteq> he_event_id (hd es)))"
proof -
  obtain u extra where u: "from_events es prev started has_last = Ok (u, extra)"
      "hu_events u @ extra = es" "hu_has_last_wft u = has_last" "has_last \<longrightarrow> extra = []"
      "\<not> has_last \<and> hu_events u = [] \<longrightarrow> hu_wft_count u = 0"
    using from_events_conserved [of es prev started has_last] by metis
  have "he_event_id e \<noteq> he_event_id (hd es)" if "extra = e # rest" "hu_events u \<noteq> []" for e rest
    using ids_after_nth [OF assms(1), of 0 "length (hu_events u)"] u(2) that
    by (auto simp: hd_conv_nth nth_append)
  with u show ?thesis by auto
qed

lemma from_events_nil:
  "from_events [] prev started True = Ok (\<lparr>hu_events = [], hu_previous_wft_started_id = prev,
     hu_wft_started_id = started, hu_has_last_wft = True, hu_wft_count = 1\<rparr>, [])"
  by (simp add: from_events_def find_end_index_of_next_wft_seq_def)

lemma ids_after_suffix: "ids_after i H \<Longrightarrow> ids_after i (drop j H)"
  by (auto simp: ids_after_def sorted_wrt_drop simp flip: drop_map dest!: in_set_dropD)

lemma ids_after_prefix: "ids_after i H \<Longrightarrow> ids_after i (take j H)"
  by (auto simp: ids_after_def sorted_wrt_take simp flip: take_map dest!: in_set_takeD)

lemma serves_step:
  assumes "ids_after 0 H" and "serves H j p answers"
    and "H \<noteq> [] \<longrightarrow> hp_wft_started_event_id p \<le> he_event_id (last H)"
    and "hp_next_page_token p \<noteq> DoneToken \<longrightarrow> hp_event_queue p \<noteq> []"
  shows "(\<exists>p'. extract_step (hp_next_page_token p = DoneToken) p = (Again, p') \<and> serves H j p' answers \<and>
      hp_wft_started_event_id p' = hp_wft_started_event_id p) \<or>
    (\<exists>u p'. extract_step (hp_next_page_token p = DoneToken) p = (Return (Ok u), p') \<and>
      hu_events u = take (length (hu_events u)) (drop j H) \<and>
      serves H (j + length (hu_events u)) p' answers \<and>
      hp_wft_started_event_id p' = hp_wft_started_event_id p \<and>
      hu_has_last_wft u = (hp_next_page_token p = DoneToken) \<and>
      (if hu_has_last_wft u then j + length (hu_events u) = length H else hu_events u \<noteq> []))"
proof (cases "hp_next_page_token p = DoneToken")
  case True
  then have queue: "hp_event_queue p = drop j H" and "j \<le> length H"
    using assms(2) by (auto simp: serves_def)
  show ?thesis
  proof (cases "j = length H")
    case True
    then show ?thesis
      using \<open>hp_next_page_token p = DoneToken\<close> queue assms(2)
      by (auto simp: extract_step_def serves_def from_events_nil)
  next
    case False
    then have j: "j < length H" using \<open>j \<le> length H\<close> by simp
    have enough: "hp_wft_started_event_id p \<le> unwrap_or (back_id (hp_event_queue p)) 0"
      using assms(3) j by (auto simp: queue back_id_def)
    have "ids_after 0 (drop j H)" using ids_after_suffix [OF assms(1)] .
    from from_events_queue [OF this, of "hp_previous_wft_started_id p" "hp_wft_started_event_id p" True] j
    obtain u where u: "from_events (drop j H) (hp_previous_wft_started_id p)
        (hp_wft_started_event_id p) True = Ok (u, [])" "hu_events u = drop j H" "hu_has_last_wft u"
      by auto
    then show ?thesis
      using \<open>hp_next_page_token p = DoneToken\<close> enough assms(2) j
      by (auto simp: extract_step_def serves_def queue Let_def)
  qed
next
  case False
  then obtain k where k: "j \<le> k" "k \<le> length H" "hp_event_queue p = drop j (take k H)"
      "concat (map page_of answers) = drop k H" "pages_end answers"
    using assms(2) by (auto simp: serves_def)
  let ?q = "hp_event_queue p"
  have ne: "?q \<noteq> []" using assms(4) False by simp
  then have "H \<noteq> []" using k(3) by auto
  have "ids_after 0 ?q" unfolding k(3) using ids_after_suffix [OF ids_after_prefix [OF assms(1)]] .
  from from_events_queue [OF this ne, of "hp_previous_wft_started_id p" "hp_wft_started_event_id p" False]
  obtain u extra where u: "from_events ?q (hp_previous_wft_started_id p)
        (hp_wft_started_event_id p) False = Ok (u, extra)" "hu_events u @ extra = ?q"
      "\<not> hu_has_last_wft u"
      "2 \<le> hu_wft_count u \<longrightarrow> hu_events u \<noteq> [] \<and>
        (\<forall>e rest. extra = e # rest \<longrightarrow> he_event_id e \<noteq> he_event_id (hd ?q))"
    by auto
  show ?thesis
  proof (cases "hu_wft_count u < 2")
    case True
    have "p\<lparr>hp_event_queue := ?q\<rparr> = p" by simp
    then show ?thesis
      using True False u(1,2) ne assms(2) by (auto simp: extract_step_def Let_def)
  next
    case count: False
    define n where "n = length (hu_events u)"
    have n: "hu_events u = take n ?q" "extra = drop n ?q" "n \<le> length ?q"
      using u(2) by (auto simp: n_def simp flip: u(2))
    then have "j + n \<le> k" using k(1,2,3) by simp
    moreover have "hu_events u = take n (drop j H)" "extra = drop (j + n) (take k H)"
      using n k(1,2,3) \<open>j + n \<le> k\<close> by (simp_all add: take_drop add.commute)
    moreover have "hu_events u \<noteq> []" using u(4) count by simp
    moreover from this have "he_event_id (last H) = unwrap_or (back_id (hu_events u)) 0" if "j + n = length H"
      using that calculation by (auto simp: back_id_def)
    moreover have "\<not> (case extra of [] \<Rightarrow> False | e # _ \<Rightarrow> he_event_id e = he_event_id (hd ?q))"
      using u(4) count by (auto split: list.splits)
    moreover from this have "extract_step False p = (Return (Ok u),
        p\<lparr>hp_event_queue := extra,
          hp_id_of_last_event_in_last_extracted_update := back_id (hu_events u)\<rparr>)"
      using u(1) ne count False by (simp add: extract_step_def Let_def)
    moreover have "serves H (j + n) (p\<lparr>hp_event_queue := extra,
        hp_id_of_last_event_in_last_extracted_update := back_id (hu_events u)\<rparr>) answers"
      using calculation(1,3,5) assms(2,3) False k(2,4,5) \<open>H \<noteq> []\<close>
      by (cases "j + n = length H") (auto simp: serves_def)
    ultimately show ?thesis
      using False u(3) unfolding n_def by (intro disjI2 exI [of _ u]) auto
  qed
qed

text \<open>An extraction hands out the next events of the history.\<close>

lemma extract_next_serves:
  assumes "ids_after 0 H" and "serves H j p answers"
    and "H \<noteq> [] \<longrightarrow> hp_wft_started_event_id p \<le> he_event_id (last H)"
  shows "\<exists>u p' rest. extract_next_update p answers = Some (Ok u, p', rest) \<and>
    hu_events u = take (length (hu_events u)) (drop j H) \<and>
    serves H (j + length (hu_events u)) p' rest \<and>
    hp_wft_started_event_id p' = hp_wft_started_event_id p \<and>
    (if hu_has_last_wft u then j + length (hu_events u) = length H else hu_events u \<noteq> [])"
  using assms(2,3)
proof (induction "length answers" arbitrary: p answers rule: less_induct)
  case less
  from serves_page [OF assms(1) less.prems(1)]
  obtain p1 rest where page: "get_next_page p answers =
        Some (Ok (hp_next_page_token p1 \<noteq> DoneToken), p1, rest)" "serves H j p1 rest"
      "hp_wft_started_event_id p1 = hp_wft_started_event_id p"
      "hp_next_page_token p1 \<noteq> DoneToken \<longrightarrow> hp_event_queue p1 \<noteq> []"
    by blast
  have started: "H \<noteq> [] \<longrightarrow> hp_wft_started_event_id p1 \<le> he_event_id (last H)"
    using less.prems(2) page(3) by simp
  from serves_step [OF assms(1) page(2) started page(4)]
  show ?case
  proof (elim disjE exE conjE)
    fix p2
    assume again: "extract_step (hp_next_page_token p1 = DoneToken) p1 = (Again, p2)"
      "serves H j p2 rest" "hp_wft_started_event_id p2 = hp_wft_started_event_id p1"
    have "extract_next_update p answers = extract_next_update p2 rest"
      using page(1) again(1) by (simp add: extract_next_update.simps [of p])
    moreover have "length rest < length answers"
      using extract_again_shorter [OF page(1)] again(1) by simp
    moreover have "H \<noteq> [] \<longrightarrow> hp_wft_started_event_id p2 \<le> he_event_id (last H)"
      using started again(3) by simp
    ultimately show ?thesis using less.hyps [OF _ again(2)] again(3) page(3) by simp
  next
    fix u p2
    assume "extract_step (hp_next_page_token p1 = DoneToken) p1 = (Return (Ok u), p2)"
      and "hu_events u = take (length (hu_events u)) (drop j H)"
      and "serves H (j + length (hu_events u)) p2 rest"
      and "hp_wft_started_event_id p2 = hp_wft_started_event_id p1"
      and "if hu_has_last_wft u then j + length (hu_events u) = length H else hu_events u \<noteq> []"
    then show ?thesis
      using page(1,3) by (simp add: extract_next_update.simps [of p])
  qed
qed

text \<open>Extracting until the update that holds the end of the history.\<close>

fun extract_all :: "nat \<Rightarrow> HistoryPaginator \<Rightarrow> Answers \<Rightarrow> HistoryEvent list option" where
  "extract_all 0 p answers = None"
| "extract_all (Suc n) p answers =
     (case extract_next_update p answers of
        Some (Ok u, p', rest) \<Rightarrow>
          if hu_has_last_wft u then Some (hu_events u)
          else map_option (\<lambda>es. hu_events u @ es) (extract_all n p' rest)
      | _ \<Rightarrow> None)"

lemma extract_all_serves:
  assumes "ids_after 0 H" and "serves H j p answers"
    and "H \<noteq> [] \<longrightarrow> hp_wft_started_event_id p \<le> he_event_id (last H)"
    and "length H - j < n"
  shows "extract_all n p answers = Some (drop j H)"
  using assms(2-)
proof (induction n arbitrary: j p answers)
  case (Suc n)
  from extract_next_serves [OF assms(1) Suc.prems(1,2)]
  obtain u p' rest where u: "extract_next_update p answers = Some (Ok u, p', rest)"
      "hu_events u = take (length (hu_events u)) (drop j H)"
      "serves H (j + length (hu_events u)) p' rest"
      "hp_wft_started_event_id p' = hp_wft_started_event_id p"
      "if hu_has_last_wft u then j + length (hu_events u) = length H else hu_events u \<noteq> []"
    by blast
  have j: "j + length (hu_events u) \<le> length H" using u(3) by (simp add: serves_def)
  show ?case
  proof (cases "hu_has_last_wft u")
    case True
    then have "length (hu_events u) = length (drop j H)" using u(5) by simp
    then have "hu_events u = drop j H" using u(2) by simp
    then show ?thesis using True u(1) by simp
  next
    case False
    then have "extract_all n p' rest = Some (drop (j + length (hu_events u)) H)"
      using Suc.IH [OF u(3)] Suc.prems(2,3) u(4,5) j by (cases "hu_events u") auto
    moreover have "hu_events u @ drop (j + length (hu_events u)) H = drop j H"
      using u(2) by (metis append_take_drop_id drop_drop add.commute)
    ultimately show ?thesis using False u(1) by simp
  qed
qed simp

definition final_answer :: "(HistoryResponse, Status) res \<Rightarrow> bool" where
  "final_answer a = (case a of Ok r \<Rightarrow> hr_next_page_token r = [] | _ \<Rightarrow> True)"

lemma fetch_page_final:
  assumes "\<exists>a\<in>set answers. final_answer a" and "npt \<noteq> DoneToken"
  shows "\<exists>r npt' rest. fetch_page npt answers = Some (r, npt', rest) \<and>
    (npt' = DoneToken \<or> (\<exists>a\<in>set rest. final_answer a))"
  using assms
proof (induction answers arbitrary: npt)
  case (Cons a answers)
  show ?case
  proof (cases "final_answer a")
    case True
    with Cons.prems(2) show ?thesis
      by (auto simp: final_answer_def NextPageToken_from_def Let_def split: res.splits)
  next
    case False
    then obtain r where a: "a = Ok r" "hr_next_page_token r \<noteq> []"
      by (auto simp: final_answer_def split: res.splits)
    with False Cons.prems(1) have "\<exists>a\<in>set answers. final_answer a" by auto
    with Cons.IH [of "NextToken (hr_next_page_token r)"] a Cons.prems(2) show ?thesis
      by (auto simp: NextPageToken_from_def Let_def)
  qed
qed simp

section \<open>Properties\<close>

text \<open>C17: a paginator in front of a server that pages through a history hands out that history.
  Whatever the sizes of the pages, empty ones included, and whether it starts with some events at
  hand or, after a cache miss, from the beginning with a part of the end at hand, extracting
  updates until one says that it holds the last workflow task delivers every event exactly once
  and in order.\<close>

theorem pagination_delivers_history:
  assumes "ids_after 0 H" and "serves H 0 p answers"
    and "H \<noteq> [] \<longrightarrow> hp_wft_started_event_id p \<le> he_event_id (last H)"
  shows "extract_all (Suc (length H)) p answers = Some H"
  using extract_all_serves [OF assms, of "Suc (length H)"] by simp

text \<open>A cache miss: the history is fetched in three pages, one of them empty.\<close>

definition sample_paginator :: HistoryPaginator where
  "sample_paginator = \<lparr>hp_wf_id = ''wf'', hp_run_id = ''run'', hp_previous_wft_started_id = 3,
     hp_wft_started_event_id = 7, hp_id_of_last_event_in_last_extracted_update = None,
     hp_event_queue = [], hp_next_page_token = FetchFromStart,
     hp_final_events = drop 6 signal_history\<rparr>"

definition sample_answers :: Answers where
  "sample_answers =
     [Ok \<lparr>hr_history = Some (take 4 signal_history), hr_next_page_token = ''a''\<rparr>,
      Ok \<lparr>hr_history = Some [], hr_next_page_token = ''b''\<rparr>,
      Ok \<lparr>hr_history = Some (drop 4 signal_history), hr_next_page_token = []\<rparr>]"

theorem pagination_delivers_history_witness:
  "extract_all 10 sample_paginator sample_answers = Some signal_history"
proof -
  have len: "length signal_history = 9" by (simp add: signal_history_def)
  have "serves signal_history 0 sample_paginator sample_answers"
    using exI [of "\<lambda>m. hp_final_events sample_paginator = drop m signal_history" 6]
      exI [of "\<lambda>k. k \<le> 9 \<and> (k = 0 \<or> signal_history = []) \<and> signal_history = drop k signal_history" 0]
    by (simp add: serves_def sample_paginator_def sample_answers_def len)
  moreover have "ids_after 0 signal_history"
    by (simp add: ids_after_def signal_history_def hist_event_def)
  ultimately show ?thesis
    using pagination_delivers_history [of signal_history sample_paginator sample_answers]
    by (simp add: len sample_paginator_def) (simp add: signal_history_def hist_event_def)
qed

text \<open>C24: an extraction never waits in vain: if the server at some point says that there is no next
  page, or fails, the extraction returns, with an update or an error, after no more answers than
  that.\<close>

theorem extraction_returns:
  assumes "\<exists>a\<in>set answers. final_answer a"
  shows "extract_next_update p answers \<noteq> None"
  using assms
proof (induction "length answers" arbitrary: p answers rule: less_induct)
  case less
  show ?case
  proof (cases "get_next_page p answers")
    case None
    then show ?thesis
      using fetch_page_final [OF less.prems, of "hp_next_page_token p"]
      by (cases "hp_next_page_token p = DoneToken") (auto simp: get_next_page_def split: option.splits)
  next
    case (Some t)
    obtain r p1 rest where t: "t = (r, p1, rest)" by (cases t)
    show ?thesis
    proof (cases r)
      case (Ok has_more)
      note page = Some [unfolded t Ok]
      obtain st p2 where st: "extract_step (\<not> has_more) p1 = (st, p2)" by fastforce
      show ?thesis
      proof (cases st)
        case Again
        have "hp_next_page_token p1 \<noteq> DoneToken"
          using extract_step_Again [OF st [unfolded Again]] get_next_page_token [OF page] by auto
        then have "\<exists>a\<in>set rest. final_answer a"
          using page get_next_page_token [OF page]
            fetch_page_final [OF less.prems, of "hp_next_page_token p"]
          by (auto simp: get_next_page_def split: option.splits res.splits)
        moreover have "length rest < length answers"
          using extract_again_shorter [OF page] st Again by simp
        ultimately have "extract_next_update p2 rest \<noteq> None" by (rule less.hyps [rotated])
        then show ?thesis using page st Again by (simp add: extract_next_update.simps [of p])
      qed (use page st in \<open>simp add: extract_next_update.simps [of p]\<close>)
    qed (use Some t in \<open>simp_all add: extract_next_update.simps [of p]\<close>)
  qed
qed

theorem extraction_returns_witness:
  "extract_next_update sample_paginator sample_answers \<noteq> None"
  using extraction_returns [of sample_answers sample_paginator]
  by (simp add: sample_answers_def final_answer_def)

end
