(* ===== verification/Machines.thy ===== *)
theory Machines
  imports TimerMachine ActivityMachine ChildWorkflowMachine SignalExternalMachine UpdateMachine
    NexusOperationMachine LocalActivityMachine TerminalMachines PropertyMachines PatchMachine
    WorkflowTaskMachine
begin

text \<open>
  The sum of the sixteen machines of a run (\<^verbatim>\<open>Machines\<close> of
  \<^verbatim>\<open>crates/sdk-core/src/worker/workflow/machines/mod.rs\<close>) and the calls dispatched over it.

  The internal flags of a run are one object behind an \<^verbatim>\<open>Rc<RefCell<_>>\<close> that four kinds of
  machines hold on to.  Here each keeps a copy in its shared state; \<open>store_flags\<close> refreshes the
  copy before a call and \<open>load_flags\<close> reads back what the call made of it.
\<close>

section \<open>Dispatch\<close>

datatype (plugins only: code size) Machines =
    M_Activity ActivityMachine
  | M_CancelExternal CancelExternalMachine
  | M_CancelWorkflow CancelWorkflowMachine
  | M_ChildWorkflow ChildWorkflowMachine
  | M_CompleteWorkflow CompleteWorkflowMachine
  | M_ContinueAsNewWorkflow ContinueAsNewWorkflowMachine
  | M_FailWorkflow FailWorkflowMachine
  | M_LocalActivity LocalActivityMachine
  | M_Patch PatchMachine
  | M_SignalExternal SignalExternalMachine
  | M_Timer TimerMachine
  | M_WorkflowTask WorkflowTaskMachine
  | M_UpsertSearchAttributes UpsertSearchAttributesMachine
  | M_ModifyWorkflowProperties ModifyWorkflowPropertiesMachine
  | M_Update UpdateMachine
  | M_NexusOperation NexusOperationMachine

definition lift_step :: "('m \<Rightarrow> Machines) \<Rightarrow> 'r result \<times> 'm \<Rightarrow> 'r result \<times> Machines" where
  "lift_step variant = map_prod id variant"

fun machines_handle_command ::
    "externals \<Rightarrow> Machines \<Rightarrow> CommandType \<Rightarrow> MachineResponse list result \<times> Machines" where
  "machines_handle_command x (M_Activity m) ct =
     lift_step M_Activity (handle_command act_ops m ct)"
| "machines_handle_command x (M_CancelExternal m) ct =
     lift_step M_CancelExternal (handle_command cancel_external_ops m ct)"
| "machines_handle_command x (M_CancelWorkflow m) ct =
     lift_step M_CancelWorkflow (handle_command cancel_wf_ops m ct)"
| "machines_handle_command x (M_ChildWorkflow m) ct =
     lift_step M_ChildWorkflow (handle_command child_ops m ct)"
| "machines_handle_command x (M_CompleteWorkflow m) ct =
     lift_step M_CompleteWorkflow (handle_command complete_ops m ct)"
| "machines_handle_command x (M_ContinueAsNewWorkflow m) ct =
     lift_step M_ContinueAsNewWorkflow (handle_command continue_ops m ct)"
| "machines_handle_command x (M_FailWorkflow m) ct =
     lift_step M_FailWorkflow (handle_command fail_ops m ct)"
| "machines_handle_command x (M_LocalActivity m) ct =
     lift_step M_LocalActivity (handle_command (la_ops x) m ct)"
| "machines_handle_command x (M_Patch m) ct =
     lift_step M_Patch (handle_command (patch_ops x) m ct)"
| "machines_handle_command x (M_SignalExternal m) ct =
     lift_step M_SignalExternal (handle_command signal_ops m ct)"
| "machines_handle_command x (M_Timer m) ct =
     lift_step M_Timer (handle_command timer_ops m ct)"
| "machines_handle_command x (M_WorkflowTask m) ct =
     lift_step M_WorkflowTask (handle_command (wft_ops x) m ct)"
| "machines_handle_command x (M_UpsertSearchAttributes m) ct =
     lift_step M_UpsertSearchAttributes (handle_command upsert_ops m ct)"
| "machines_handle_command x (M_ModifyWorkflowProperties m) ct =
     lift_step M_ModifyWorkflowProperties (handle_command modify_ops m ct)"
| "machines_handle_command x (M_Update m) ct =
     lift_step M_Update (handle_command (update_ops x) m ct)"
| "machines_handle_command x (M_NexusOperation m) ct =
     lift_step M_NexusOperation (handle_command nexus_ops m ct)"

fun machines_handle_event ::
    "externals \<Rightarrow> Machines \<Rightarrow> HistEventData \<Rightarrow> MachineResponse list result \<times> Machines" where
  "machines_handle_event x (M_Activity m) ev =
     lift_step M_Activity (handle_event act_ops m ev)"
| "machines_handle_event x (M_CancelExternal m) ev =
     lift_step M_CancelExternal (handle_event cancel_external_ops m ev)"
| "machines_handle_event x (M_CancelWorkflow m) ev =
     lift_step M_CancelWorkflow (handle_event cancel_wf_ops m ev)"
| "machines_handle_event x (M_ChildWorkflow m) ev =
     lift_step M_ChildWorkflow (handle_event child_ops m ev)"
| "machines_handle_event x (M_CompleteWorkflow m) ev =
     lift_step M_CompleteWorkflow (handle_event complete_ops m ev)"
| "machines_handle_event x (M_ContinueAsNewWorkflow m) ev =
     lift_step M_ContinueAsNewWorkflow (handle_event continue_ops m ev)"
| "machines_handle_event x (M_FailWorkflow m) ev =
     lift_step M_FailWorkflow (handle_event fail_ops m ev)"
| "machines_handle_event x (M_LocalActivity m) ev =
     lift_step M_LocalActivity (handle_event (la_ops x) m ev)"
| "machines_handle_event x (M_Patch m) ev =
     lift_step M_Patch (handle_event (patch_ops x) m ev)"
| "machines_handle_event x (M_SignalExternal m) ev =
     lift_step M_SignalExternal (handle_event signal_ops m ev)"
| "machines_handle_event x (M_Timer m) ev =
     lift_step M_Timer (handle_event timer_ops m ev)"
| "machines_handle_event x (M_WorkflowTask m) ev =
     lift_step M_WorkflowTask (handle_event (wft_ops x) m ev)"
| "machines_handle_event x (M_UpsertSearchAttributes m) ev =
     lift_step M_UpsertSearchAttributes (handle_event upsert_ops m ev)"
| "machines_handle_event x (M_ModifyWorkflowProperties m) ev =
     lift_step M_ModifyWorkflowProperties (handle_event modify_ops m ev)"
| "machines_handle_event x (M_Update m) ev =
     lift_step M_Update (handle_event (update_ops x) m ev)"
| "machines_handle_event x (M_NexusOperation m) ev =
     lift_step M_NexusOperation (handle_event nexus_ops m ev)"

fun is_final_state :: "Machines \<Rightarrow> bool result" where
  "is_final_state (M_Activity m) = has_reached_final_state act_is_final m"
| "is_final_state (M_CancelExternal m) = has_reached_final_state cancel_external_is_final m"
| "is_final_state (M_CancelWorkflow m) = has_reached_final_state cancel_wf_is_final m"
| "is_final_state (M_ChildWorkflow m) = has_reached_final_state child_is_final m"
| "is_final_state (M_CompleteWorkflow m) = has_reached_final_state complete_is_final m"
| "is_final_state (M_ContinueAsNewWorkflow m) = has_reached_final_state continue_is_final m"
| "is_final_state (M_FailWorkflow m) = has_reached_final_state fail_is_final m"
| "is_final_state (M_LocalActivity m) = has_reached_final_state la_is_final m"
| "is_final_state (M_Patch m) = has_reached_final_state patch_is_final m"
| "is_final_state (M_SignalExternal m) = has_reached_final_state signal_is_final m"
| "is_final_state (M_Timer m) = has_reached_final_state timer_is_final m"
| "is_final_state (M_WorkflowTask m) = has_reached_final_state wft_is_final m"
| "is_final_state (M_UpsertSearchAttributes m) = has_reached_final_state upsert_is_final m"
| "is_final_state (M_ModifyWorkflowProperties m) = has_reached_final_state modify_is_final m"
| "is_final_state (M_Update m) = has_reached_final_state update_is_final m"
| "is_final_state (M_NexusOperation m) = has_reached_final_state nexus_is_final m"

text \<open>The name the \<^verbatim>\<open>fsm!\<close> macro gives a machine.\<close>

fun machine_name :: "Machines \<Rightarrow> string" where
  "machine_name (M_Activity _) = ''ActivityMachine''"
| "machine_name (M_CancelExternal _) = ''CancelExternalMachine''"
| "machine_name (M_CancelWorkflow _) = ''CancelWorkflowMachine''"
| "machine_name (M_ChildWorkflow _) = ''ChildWorkflowMachine''"
| "machine_name (M_CompleteWorkflow _) = ''CompleteWorkflowMachine''"
| "machine_name (M_ContinueAsNewWorkflow _) = ''ContinueAsNewWorkflowMachine''"
| "machine_name (M_FailWorkflow _) = ''FailWorkflowMachine''"
| "machine_name (M_LocalActivity _) = ''LocalActivityMachine''"
| "machine_name (M_Patch _) = ''PatchMachine''"
| "machine_name (M_SignalExternal _) = ''SignalExternalMachine''"
| "machine_name (M_Timer _) = ''TimerMachine''"
| "machine_name (M_WorkflowTask _) = ''WorkflowTaskMachine''"
| "machine_name (M_UpsertSearchAttributes _) = ''UpsertSearchAttributesMachine''"
| "machine_name (M_ModifyWorkflowProperties _) = ''ModifyWorkflowPropertiesMachine''"
| "machine_name (M_Update _) = ''UpdateMachine''"
| "machine_name (M_NexusOperation _) = ''NexusOperationMachine''"

fun was_cancelled_before_sent_to_server :: "Machines \<Rightarrow> bool result" where
  "was_cancelled_before_sent_to_server (M_Activity m) = Ok (act_was_cancelled_before_sent m)"
| "was_cancelled_before_sent_to_server (M_ChildWorkflow m) = Ok (child_was_cancelled_before_sent m)"
| "was_cancelled_before_sent_to_server (M_LocalActivity m) = Ok (la_was_cancelled_before_sent m)"
| "was_cancelled_before_sent_to_server (M_SignalExternal m) = signal_was_cancelled_before_sent m"
| "was_cancelled_before_sent_to_server (M_Timer m) = Ok (timer_was_cancelled_before_sent m)"
| "was_cancelled_before_sent_to_server (M_NexusOperation m) = Ok (nexus_was_cancelled_before_sent m)"
| "was_cancelled_before_sent_to_server _ = Ok False"

section \<open>The shared internal flags\<close>

fun store_flags :: "InternalFlags \<Rightarrow> Machines \<Rightarrow> Machines" where
  "store_flags f (M_Activity m) = M_Activity (m\<lparr>sm_shared := (sm_shared m)\<lparr>ash_internal_flags := f\<rparr>\<rparr>)"
| "store_flags f (M_ChildWorkflow m) =
     M_ChildWorkflow (m\<lparr>sm_shared := (sm_shared m)\<lparr>csh_internal_flags := f\<rparr>\<rparr>)"
| "store_flags f (M_LocalActivity m) =
     M_LocalActivity (m\<lparr>sm_shared := (sm_shared m)\<lparr>lsh_internal_flags := f\<rparr>\<rparr>)"
| "store_flags f (M_NexusOperation m) =
     M_NexusOperation (m\<lparr>sm_shared := (sm_shared m)\<lparr>nsh_internal_flags := f\<rparr>\<rparr>)"
| "store_flags f m = m"

fun load_flags :: "InternalFlags \<Rightarrow> Machines \<Rightarrow> InternalFlags" where
  "load_flags f (M_Activity m) = ash_internal_flags (sm_shared m)"
| "load_flags f (M_ChildWorkflow m) = csh_internal_flags (sm_shared m)"
| "load_flags f (M_LocalActivity m) = lsh_internal_flags (sm_shared m)"
| "load_flags f (M_NexusOperation m) = nsh_internal_flags (sm_shared m)"
| "load_flags f _ = f"

text \<open>A machine with a command, as a member of the sum.\<close>

definition into_machines ::
    "('m \<Rightarrow> Machines) \<Rightarrow> 'm NewMachineWithCommand \<Rightarrow> Machines NewMachineWithCommand" where
  "into_machines variant nm = \<lparr>nm_command = nm_command nm, nm_machine = variant (nm_machine nm)\<rparr>"

text \<open>\<^verbatim>\<open>if let Machines::LocalActivityMachine(lam) = self.machine_mut(k)\<close> with its other branch.\<close>

definition on_local_activity ::
    "(LocalActivityMachine \<Rightarrow> 'r result \<times> LocalActivityMachine) \<Rightarrow> 'r result \<Rightarrow> Machines \<Rightarrow>
     'r result \<times> Machines" where
  "on_local_activity f otherwise m =
     (case m of M_LocalActivity lam \<Rightarrow> lift_step M_LocalActivity (f lam) | _ \<Rightarrow> (otherwise, m))"

section \<open>Laws of the dispatch\<close>

lemma lift_step_Ok [simp]:
  "lift_step variant r = (Ok v, m) \<longleftrightarrow> (\<exists>m'. r = (Ok v, m') \<and> m = variant m')"
  by (cases r) (auto simp: lift_step_def)

lemma fst_lift_step [simp]: "fst (lift_step variant r) = fst r"
  by (cases r) (simp add: lift_step_def)

text \<open>
  Telling a machine that its command goes out never makes it answer: no arm of a command event
  produces anything.
\<close>

lemma handle_command_silent:
  assumes "handle_command ops m ct = (Ok rs, m')"
    and silent: "\<And>st sh ev cmds st' sh'. op_from_command ops ct = Some ev \<Longrightarrow>
      op_arms ops st sh ev = Some (TrOk cmds st', sh') \<Longrightarrow> cmds = []"
  shows "rs = []"
proof -
  from handle_command_OkD [OF assms(1)] obtain ev cmds where
    ev: "op_from_command ops ct = Some ev" and on: "on_event (op_arms ops) m ev = (Ok cmds, m')"
    and rs: "process_machine_commands ops m' cmds None = Ok rs" by blast
  from on obtain st st' sh' where "op_arms ops st (sm_shared m) ev = Some (TrOk cmds st', sh')"
    by (rule on_event_OkD)
  then have "cmds = []" by (rule silent [OF ev])
  with rs show ?thesis by (simp add: process_machine_commands_def)
qed

lemma machines_handle_command_silent:
  "machines_handle_command x m ct = (Ok rs, m') \<Longrightarrow> rs = []"
proof (cases m)
qed (auto dest!: handle_command_silent
    simp: act_defs child_ops_def child_from_command_def child_arms_def nexus_ops_def
      nexus_from_command_def nexus_arms_def timer_defs signal_ops_def signal_from_command_def
      signal_arms_def cancel_external_ops_def cancel_external_from_command_def
      cancel_external_arms_def wft_ops_def wft_from_command_def wft_arms_def complete_defs fail_defs
      cancel_wf_defs continue_defs la_ops_def la_from_command_def la_arms_def patch_defs
      upsert_ops_def upsert_from_command_def upsert_arms_def modify_ops_def modify_from_command_def
      modify_arms_def update_ops_def update_from_command_def update_arms_def
    split: if_splits ActivityState.splits ChildState.splits NexusState.splits TimerState.splits
      SignalState.splits CancelExternalState.splits WFTState.splits CompleteState.splits
      FailState.splits CancelWfState.splits ContinueState.splits LAState.splits PatchState.splits
      UpsertState.splits ModifyState.splits UpdateState.splits)

end
