(* ===== verification/MachineContracts.thy ===== *)
theory MachineContracts
  imports Machines
begin

text \<open>
  The contracts of the sixteen machines put together: one invariant on the sum, kept by every call
  the orchestrator makes on a machine, under which no such call panics.  The parts come from the
  interpretations of the machines' own theories.
\<close>

section \<open>The invariant of a machine\<close>

fun machines_good :: "Machines \<Rightarrow> bool" where
  "machines_good (M_Activity m) \<longleftrightarrow> (\<exists>seq ct. good_machine (act_good seq ct) m)"
| "machines_good (M_CancelExternal m) \<longleftrightarrow> (\<exists>seq. good_machine (\<lambda>_ sh. ceh_seq sh = seq) m)"
| "machines_good (M_CancelWorkflow m) \<longleftrightarrow> good_machine (\<lambda>_ _. True) m"
| "machines_good (M_ChildWorkflow m) \<longleftrightarrow> (\<exists>seq ct. good_machine (child_good seq ct) m)"
| "machines_good (M_CompleteWorkflow m) \<longleftrightarrow> good_machine (\<lambda>_ _. True) m"
| "machines_good (M_ContinueAsNewWorkflow m) \<longleftrightarrow> good_machine (\<lambda>_ _. True) m"
| "machines_good (M_FailWorkflow m) \<longleftrightarrow> good_machine (\<lambda>_ _. True) m"
| "machines_good (M_LocalActivity m) \<longleftrightarrow> (\<exists>a. good_machine (la_good a) m)"
| "machines_good (M_Patch m) \<longleftrightarrow> (\<exists>pid. good_machine (\<lambda>_ sh. psh_patch_id sh = pid) m)"
| "machines_good (M_SignalExternal m) \<longleftrightarrow> (\<exists>seq. good_machine (\<lambda>_ sh. ssh_seq sh = seq) m)"
| "machines_good (M_Timer m) \<longleftrightarrow> (\<exists>seq. good_machine (timer_good seq) m)"
| "machines_good (M_WorkflowTask m) \<longleftrightarrow>
     (\<exists>i. good_machine (\<lambda>_ sh. wsh_wf_task_started_event_id sh = i) m)"
| "machines_good (M_UpsertSearchAttributes m) \<longleftrightarrow> good_machine (\<lambda>_ _. True) m"
| "machines_good (M_ModifyWorkflowProperties m) \<longleftrightarrow> good_machine (\<lambda>_ _. True) m"
| "machines_good (M_Update m) \<longleftrightarrow> good_machine (\<lambda>_ _. True) m"
| "machines_good (M_NexusOperation m) \<longleftrightarrow> (\<exists>seq ct. good_machine (nexus_good seq ct) m)"

abbreviation is_local_activity :: "Machines \<Rightarrow> bool" where
  "is_local_activity m \<equiv> machine_name m = ''LocalActivityMachine''"

definition is_request_cancel :: "MachineResponse \<Rightarrow> bool" where
  "is_request_cancel r = (case r of RequestCancelLocalActivity _ \<Rightarrow> True | _ \<Rightarrow> False)"

text \<open>
  A call that, on the machines of a kind, keeps the invariant and the kind, does not panic, and whose response
  asks to cancel a local activity only if the machine is one.
\<close>

definition well_behaved ::
    "(Machines \<Rightarrow> bool) \<Rightarrow> (Machines \<Rightarrow> MachineResponse list result \<times> Machines) \<Rightarrow> bool" where
  "well_behaved kind f \<longleftrightarrow>
     (\<forall>m. kind m \<longrightarrow> machines_good m \<longrightarrow> fst (f m) \<noteq> Panic \<and>
        (\<forall>rs m'. f m = (Ok rs, m') \<longrightarrow> machines_good m' \<and>
           machine_name m' = machine_name m \<and>
           (list_ex is_request_cancel rs \<longrightarrow> is_local_activity m)))"

lemma store_flags_good [simp]: "machines_good (store_flags fl m) = machines_good m"
  by (cases m) (auto simp: good_machine_def act_good_def child_good_def la_good_def nexus_good_def
      split: option.splits)

lemma store_flags_name [simp]: "machine_name (store_flags fl m) = machine_name m"
  by (cases m) auto

lemma good_has_state: "good_machine P m \<Longrightarrow> sm_state m \<noteq> None"
  by (auto simp: good_machine_def split: option.splits)

lemma is_final_state_no_panic: "machines_good m \<Longrightarrow> is_final_state m \<noteq> Panic"
  by (cases m) (auto simp: has_reached_final_state_def good_machine_def split: option.splits)

lemma was_cancelled_no_panic: "machines_good m \<Longrightarrow> was_cancelled_before_sent_to_server m \<noteq> Panic"
  by (cases m) (auto simp: signal_was_cancelled_before_sent_def good_machine_def split: option.splits)

section \<open>Commands and events\<close>

text \<open>The machines that close a workflow emit nothing, so their adapters cannot go wrong.\<close>

interpretation complete_adapted: adapted_machine complete_ops "\<lambda>_ _. True" "\<lambda>_. True" "\<lambda>_. 0"
  "\<lambda>_ _. 0" "(=)"
  by unfold_locales (auto simp: complete_defs split: CompleteState.splits CompleteEvent.splits if_splits)

interpretation fail_adapted: adapted_machine fail_ops "\<lambda>_ _. True" "\<lambda>_. True" "\<lambda>_. 0" "\<lambda>_ _. 0" "(=)"
  by unfold_locales (auto simp: fail_defs split: FailState.splits FailEvent.splits if_splits)

interpretation cancel_wf_adapted: adapted_machine cancel_wf_ops "\<lambda>_ _. True" "\<lambda>_. True" "\<lambda>_. 0"
  "\<lambda>_ _. 0" "(=)"
  by unfold_locales (auto simp: cancel_wf_defs split: CancelWfState.splits CancelWfEvent.splits if_splits)

interpretation continue_adapted: adapted_machine continue_ops "\<lambda>_ _. True" "\<lambda>_. True" "\<lambda>_. 0"
  "\<lambda>_ _. 0" "(=)"
  by unfold_locales (auto simp: continue_defs split: ContinueState.splits ContinueEvent.splits if_splits)

lemmas command_good = act_laws.handle_command_good cancel_external_laws.handle_command_good
  cancel_wf_adapted.handle_command_good child_start_laws.handle_command_good
  complete_adapted.handle_command_good continue_adapted.handle_command_good
  fail_adapted.handle_command_good la_laws.handle_command_good patch.handle_command_good
  signal_laws.handle_command_good timer_laws.handle_command_good wft.handle_command_good
  upsert.handle_command_good modify.handle_command_good update_verdict_laws.handle_command_good
  nexus_start_laws.handle_command_good

lemmas command_no_panic = act_laws.handle_command_no_panic cancel_external_laws.handle_command_no_panic
  cancel_wf_adapted.handle_command_no_panic child_start_laws.handle_command_no_panic
  complete_adapted.handle_command_no_panic continue_adapted.handle_command_no_panic
  fail_adapted.handle_command_no_panic la_laws.handle_command_no_panic patch.handle_command_no_panic
  signal_laws.handle_command_no_panic timer_laws.handle_command_no_panic wft.handle_command_no_panic
  upsert.handle_command_no_panic modify.handle_command_no_panic
  update_verdict_laws.handle_command_no_panic nexus_start_laws.handle_command_no_panic

lemmas event_good = act_laws.handle_event_good cancel_external_laws.handle_event_good
  cancel_wf_adapted.handle_event_good child_start_laws.handle_event_good
  complete_adapted.handle_event_good continue_adapted.handle_event_good
  fail_adapted.handle_event_good la_laws.handle_event_good patch.handle_event_good
  signal_laws.handle_event_good timer_laws.handle_event_good wft.handle_event_good
  upsert.handle_event_good modify.handle_event_good update_verdict_laws.handle_event_good
  nexus_start_laws.handle_event_good

lemmas event_no_panic = act_laws.handle_event_no_panic cancel_external_laws.handle_event_no_panic
  cancel_wf_adapted.handle_event_no_panic child_start_laws.handle_event_no_panic
  complete_adapted.handle_event_no_panic continue_adapted.handle_event_no_panic
  fail_adapted.handle_event_no_panic la_laws.handle_event_no_panic patch.handle_event_no_panic
  signal_laws.handle_event_no_panic timer_laws.handle_event_no_panic wft.handle_event_no_panic
  upsert.handle_event_no_panic modify.handle_event_no_panic
  update_verdict_laws.handle_event_no_panic nexus_start_laws.handle_event_no_panic

lemmas command_keeps = command_good [THEN conjunct1]
lemmas event_keeps = event_good [THEN conjunct1]

lemma machines_handle_command_good:
  "machines_good m \<Longrightarrow> machines_handle_command x m ct = (Ok rs, m') \<Longrightarrow>
   machines_good m' \<and> machine_name m' = machine_name m"
  by (cases m; clarsimp; blast intro: command_keeps)

lemma machines_handle_command_no_panic:
  "machines_good m \<Longrightarrow> fst (machines_handle_command x m ct) \<noteq> Panic"
  by (cases m; clarsimp simp: command_no_panic)

lemma machines_handle_event_good:
  "machines_good m \<Longrightarrow> machines_handle_event x m d = (Ok rs, m') \<Longrightarrow>
   machines_good m' \<and> machine_name m' = machine_name m"
  by (cases m; clarsimp; blast intro: event_keeps)

lemma machines_handle_event_no_panic:
  "machines_good m \<Longrightarrow> fst (machines_handle_event x m d) \<noteq> Panic"
  by (cases m; clarsimp simp: event_no_panic)

section \<open>Only local activities ask for their own cancellation\<close>

abbreviation requests_no_cancel :: "MachineResponse list \<Rightarrow> bool" where
  "requests_no_cancel rs \<equiv> \<not> list_ex is_request_cancel rs"

lemma concat_res_no_cancel:
  "concat_res f xs = Ok rs \<Longrightarrow> (\<And>x ys. x \<in> set xs \<Longrightarrow> f x = Ok ys \<Longrightarrow> requests_no_cancel ys) \<Longrightarrow>
   requests_no_cancel rs"
proof (induction xs arbitrary: rs)
  case (Cons x xs)
  then obtain ys zs where "f x = Ok ys" "concat_res f xs = Ok zs" "rs = ys @ zs"
    by (auto simp: res_bind_eq_Ok res_map_eq_Ok)
  with Cons show ?case by fastforce
qed simp

definition quiet_adapter :: "('st, 'sh, 'ev, 'cmd) machine_ops \<Rightarrow> bool" where
  "quiet_adapter ops \<longleftrightarrow>
     (\<forall>m c info rs. op_adapt_response ops m c info = Ok rs \<longrightarrow> requests_no_cancel rs)"

lemma quiet_process:
  "quiet_adapter ops \<Longrightarrow> process_machine_commands ops m cmds info = Ok rs \<Longrightarrow> requests_no_cancel rs"
  by (auto simp: quiet_adapter_def process_machine_commands_def elim!: concat_res_no_cancel)

lemma quiet_handle_event:
  "quiet_adapter ops \<Longrightarrow> handle_event ops m d = (Ok rs, m') \<Longrightarrow> requests_no_cancel rs"
  by (auto dest!: handle_event_OkD dest: quiet_process)

lemma quiet_raise_event:
  "quiet_adapter ops \<Longrightarrow> raise_event ops m ev = (Ok rs, m') \<Longrightarrow> requests_no_cancel rs"
  by (auto dest!: raise_event_OkD dest: quiet_process)

lemma act_adapt_quiet: "act_adapt_response m c i = Ok rs \<Longrightarrow> requests_no_cancel rs"
  by (cases c) (auto simp: act_machine_responses_from_cancel_request_def is_request_cancel_def
      res_map_eq_Ok split: if_splits)

lemma child_adapt_quiet: "child_adapt_response m c i = Ok rs \<Longrightarrow> requests_no_cancel rs"
  by (cases c) (auto simp: child_issue_cancel_def is_request_cancel_def res_map_eq_Ok split: if_splits)

lemma update_adapt_quiet: "update_adapt_response x m c i = Ok rs \<Longrightarrow> requests_no_cancel rs"
  by (cases c) (auto simp: update_build_command_msg_def update_build_msg_def is_request_cancel_def
      res_bind_eq_Ok res_map_eq_Ok split: option.splits)

lemma nexus_adapt_quiet: "nexus_adapt_response m c i = Ok rs \<Longrightarrow> requests_no_cancel rs"
  by (cases c) (auto simp: is_request_cancel_def Let_def split: if_splits)

lemma quiet_adapters [simp]:
  "quiet_adapter act_ops" "quiet_adapter child_ops" "quiet_adapter (update_ops x)"
  "quiet_adapter nexus_ops"
  by (auto simp: quiet_adapter_def act_ops_def child_ops_def update_ops_def nexus_ops_def
      dest: act_adapt_quiet child_adapt_quiet update_adapt_quiet nexus_adapt_quiet)

lemma quiet_adapters' [simp]:
  "quiet_adapter timer_ops" "quiet_adapter signal_ops" "quiet_adapter cancel_external_ops"
  "quiet_adapter (wft_ops x)" "quiet_adapter (patch_ops x)" "quiet_adapter upsert_ops"
  "quiet_adapter modify_ops" "quiet_adapter complete_ops" "quiet_adapter fail_ops"
  "quiet_adapter cancel_wf_ops" "quiet_adapter continue_ops"
  by (auto simp: quiet_adapter_def timer_ops_def signal_ops_def cancel_external_ops_def wft_ops_def
      patch_ops_def patch_adapt_response_def upsert_ops_def upsert_adapt_response_def modify_ops_def
      modify_adapt_response_def complete_ops_def complete_adapt_response_def fail_ops_def
      fail_adapt_response_def cancel_wf_ops_def cancel_wf_adapt_response_def continue_ops_def
      continue_adapt_response_def is_request_cancel_def Let_def
      elim!: timer_adapt_response.elims signal_adapt_response.elims
        cancel_external_adapt_response.elims wft_adapt_response.elims split: option.splits if_splits)

section \<open>Every call is well behaved\<close>

lemma well_behavedI:
  assumes "\<And>m. kind m \<Longrightarrow> machines_good m \<Longrightarrow> fst (f m) \<noteq> Panic"
    and "\<And>m rs m'. kind m \<Longrightarrow> machines_good m \<Longrightarrow> f m = (Ok rs, m') \<Longrightarrow>
      machines_good m' \<and> machine_name m' = machine_name m \<and>
      (list_ex is_request_cancel rs \<longrightarrow> is_local_activity m)"
  shows "well_behaved kind f"
  using assms by (simp add: well_behaved_def)

lemma well_behaved_handle_command: "well_behaved kind (\<lambda>m. machines_handle_command x m ct)"
proof (rule well_behavedI)
  fix m rs m'
  assume "machines_good m" "machines_handle_command x m ct = (Ok rs, m')"
  then show "machines_good m' \<and> machine_name m' = machine_name m \<and>
      (list_ex is_request_cancel rs \<longrightarrow> is_local_activity m)"
    using machines_handle_command_good machines_handle_command_silent by fastforce
qed (simp add: machines_handle_command_no_panic)

lemma well_behaved_handle_event: "well_behaved kind (\<lambda>m. machines_handle_event x m d)"
proof (rule well_behavedI)
  fix m rs m'
  assume m: "machines_good m" "machines_handle_event x m d = (Ok rs, m')"
  have "list_ex is_request_cancel rs \<longrightarrow> is_local_activity m"
    using m(2) by (cases m) (auto dest: quiet_handle_event [rotated])
  with m show "machines_good m' \<and> machine_name m' = machine_name m \<and>
      (list_ex is_request_cancel rs \<longrightarrow> is_local_activity m)"
    using machines_handle_event_good by blast
qed (simp add: machines_handle_event_no_panic)

text \<open>The operations of a machine of its own, on a machine of the right kind.\<close>

lemma own_quiet:
  "timer_cancel t ann = (Ok rs, t') \<Longrightarrow> requests_no_cancel rs"
  "act_cancel a ann = (Ok rs, a') \<Longrightarrow> requests_no_cancel rs"
  "child_cancel c reason ann = (Ok rs, c') \<Longrightarrow> requests_no_cancel rs"
  "signal_cancel sg = (Ok rs, sg') \<Longrightarrow> requests_no_cancel rs"
  "nexus_cancel n ann = (Ok rs, n') \<Longrightarrow> requests_no_cancel rs"
  "update_handle_response x u resp = (Ok rs, u') \<Longrightarrow> requests_no_cancel rs"
proof -
  show "timer_cancel t ann = (Ok rs, t') \<Longrightarrow> requests_no_cancel rs"
    by (auto simp: timer_cancel_def Let_def is_request_cancel_def
        split: prod.splits res.splits option.splits TimerMachineCommand.splits)
  show "act_cancel a ann = (Ok rs, a') \<Longrightarrow> requests_no_cancel rs"
    by (auto simp: act_cancel_def Let_def is_request_cancel_def
        act_machine_responses_from_cancel_request_def elim!: concat_res_no_cancel act_cancel_response.elims
        split: prod.splits res.splits option.splits if_splits)
  show "child_cancel c reason ann = (Ok rs, c') \<Longrightarrow> requests_no_cancel rs"
    by (auto simp: child_cancel_def Let_def child_issue_cancel_def is_request_cancel_def
        elim!: concat_res_no_cancel child_cancel_response.elims
        split: prod.splits res.splits if_splits)
  show "signal_cancel sg = (Ok rs, sg') \<Longrightarrow> requests_no_cancel rs"
    by (auto simp: signal_cancel_def is_request_cancel_def
        split: prod.splits res.splits list.splits SignalExternalCommand.splits)
  show "nexus_cancel n ann = (Ok rs, n') \<Longrightarrow> requests_no_cancel rs"
    by (auto simp: nexus_cancel_def Let_def dest: quiet_raise_event [rotated])
  show "update_handle_response x u resp = (Ok rs, u') \<Longrightarrow> requests_no_cancel rs"
    by (auto dest!: update_handle_response_OkD dest: quiet_raise_event [rotated])
qed

lemmas own_keeps = timer.own_good [THEN conjunct1] signal.own_good [THEN conjunct1]
  update_verdict.own_good [THEN conjunct1]
  act.own_good [of _ _ _ "Act_do_cancel _", simplified, THEN conjunct1]
  child_start.own_good [of _ _ _ "Child_do_cancel _ _", simplified, THEN conjunct1]
  nexus_start.own_good [of _ _ _ "Nexus_do_cancel _", simplified, THEN conjunct1]

lemmas own_no_panic = timer.own_no_panic signal.own_no_panic update_verdict.own_no_panic
  act.own_no_panic [of _ _ _ "Act_do_cancel _", simplified]
  child_start.own_no_panic [of _ _ _ "Child_do_cancel _ _", simplified]
  nexus_start.own_no_panic [of _ _ _ "Nexus_do_cancel _", simplified]

lemma well_behaved_own:
  "well_behaved kind (\<lambda>m. case m of M_Timer t \<Rightarrow> lift_step M_Timer (timer_cancel t ann) | _ \<Rightarrow> (Err e, m))"
  "well_behaved kind (\<lambda>m. case m of M_Activity a \<Rightarrow> lift_step M_Activity (act_cancel a ann) | _ \<Rightarrow> (Err e, m))"
  "well_behaved kind (\<lambda>m. case m of
     M_ChildWorkflow c \<Rightarrow> lift_step M_ChildWorkflow (child_cancel c reason ann) | _ \<Rightarrow> (Err e, m))"
  "well_behaved kind (\<lambda>m. case m of
     M_SignalExternal sg \<Rightarrow> lift_step M_SignalExternal (signal_cancel sg) | _ \<Rightarrow> (Err e, m))"
  "well_behaved kind (\<lambda>m. case m of
     M_NexusOperation n \<Rightarrow> lift_step M_NexusOperation (nexus_cancel n ann) | _ \<Rightarrow> (Err e, m))"
  "well_behaved kind (\<lambda>m. case m of
     M_Update u \<Rightarrow> lift_step M_Update (update_handle_response x u resp) | _ \<Rightarrow> (Err e, m))"
  by (rule well_behavedI; auto simp: own_no_panic dest: own_quiet split: Machines.splits;
      blast intro: own_keeps)+

section \<open>Calls on local activities\<close>

lemma on_local_activity_Ok:
  assumes "on_local_activity f otherwise m = (Ok v, m')" and "\<not> is_ok otherwise"
  obtains lam lam' where "m = M_LocalActivity lam" "f lam = (Ok v, lam')" "m' = M_LocalActivity lam'"
  using assms by (cases m) (auto simp: on_local_activity_def)

lemma well_behaved_la:
  assumes "\<And>m. kind m \<Longrightarrow> \<not> is_local_activity m \<Longrightarrow> \<exists>e. otherwise = Err e"
  shows "well_behaved kind (on_local_activity (\<lambda>lam. la_own x lam c) otherwise)"
proof (rule well_behavedI)
  fix m
  assume m: "kind m" "machines_good m"
  show "fst (on_local_activity (\<lambda>lam. la_own x lam c) otherwise m) \<noteq> Panic"
    using assms [OF m(1)] m(2) by (cases m) (auto simp: on_local_activity_def la.own_no_panic)
next
  fix m rs m'
  assume m: "kind m" "machines_good m" "on_local_activity (\<lambda>lam. la_own x lam c) otherwise m = (Ok rs, m')"
  show "machines_good m' \<and> machine_name m' = machine_name m \<and>
      (list_ex is_request_cancel rs \<longrightarrow> is_local_activity m)"
  proof (cases "is_local_activity m")
    case True
    then obtain lam where lam: "m = M_LocalActivity lam" by (cases m) auto
    with m(2,3) obtain a lam' where "good_machine (la_good a) lam" "la_own x lam c = (Ok rs, lam')"
      and m': "m' = M_LocalActivity lam'" by (auto simp: on_local_activity_def)
    then have "good_machine (la_good a) lam'" using la.own_good by blast
    then show ?thesis by (auto simp: lam m')
  next
    case False
    with assms [OF m(1)] m(3) show ?thesis
      by (cases m) (auto simp: on_local_activity_def)
  qed
qed

lemmas well_behaved_la_calls =
  well_behaved_la [where c = "La_do_cancel _", simplified]
  well_behaved_la [where c = "La_do_resolve _ _ _ _ _ _", simplified]
  well_behaved_la [where c = "La_do_resolve_with _", simplified]

end
