(* ===== verification/LocalActs.thy ===== *)
theory LocalActs
  imports LocalActivityMachine
begin

text \<open>
  What a run knows about its local activities beyond their machines
  (\<^verbatim>\<open>crates/sdk-core/src/worker/workflow/machines/workflow_machines/local_acts.rs\<close>): requests and
  cancellations to hand to the local activity manager, the activities that execute, and the
  resolutions found in markers while looking ahead in history.

  The queue of these resolutions is what the orchestrator works with; the locale
  \<open>preresolution_queue\<close> states what it relies on.
\<close>

section \<open>Requests to the local activity manager\<close>

record ExecutingLAId =
  ela_run_id :: string
  ela_seq_num :: u32

record WorkflowTaskAttempt =
  wta_started_event_id :: i64
  wta_attempt :: u32
  wta_started_time :: "Timestamp option"
  wta_previous_started_event_id :: i64
  wta_failed_tasks :: "i64 list"
  wta_previous_attempt :: u32
  wta_previous_started_time :: "Timestamp option"

record NewLocalAct =
  nla_schedule_cmd :: ValidScheduleLA
  nla_workflow_type :: string
  nla_workflow_exec_info :: WorkflowExecution
  nla_schedule_time :: SystemTime
  nla_workflow_task :: "WorkflowTaskAttempt option"

text \<open>
  A request to start a heartbeat timeout carries the run to notify, the instant at which to do so
  and the handle by which the run can abort it.
\<close>

datatype LocalActRequest =
    LAR_New NewLocalAct
  | LAR_Cancel ExecutingLAId
  | LAR_CancelAllInRun string
  | LAR_InvalidateRun string
  | LAR_StartHeartbeatTimeout string int nat
  | LAR_IndicateWorkflowTaskCompleted string

record LocalActivityResolution =
  lar_seq :: u32
  lar_result :: LocalActivityExecutionResult
  lar_runtime :: StdDuration
  lar_attempt :: u32
  lar_backoff :: "ProstDuration option"
  lar_original_schedule_time :: "SystemTime option"

section \<open>State and operations\<close>

record Preresolution =
  pre_seq :: u32
  pre_activation_index :: "u64 option"
  pre_resolution :: ResolveDat

text \<open>\<open>lad_executing\<close> is a \<^verbatim>\<open>HashSet\<close>, kept as a list without repetitions.\<close>

record LocalActivityData =
  lad_new_requests :: "ValidScheduleLA list"
  lad_cancel_requests :: "ExecutingLAId list"
  lad_executing :: "u32 list"
  lad_preresolutions :: "Preresolution list"
  lad_activation_index :: u64
  lad_am_terminating :: bool

definition lad_default :: LocalActivityData where
  "lad_default = \<lparr>lad_new_requests = [], lad_cancel_requests = [], lad_executing = [],
     lad_preresolutions = [], lad_activation_index = 0, lad_am_terminating = False\<rparr>"

definition lad_enqueue :: "LocalActivityData \<Rightarrow> ValidScheduleLA \<Rightarrow> LocalActivityData" where
  "lad_enqueue d act = d\<lparr>lad_new_requests := lad_new_requests d @ [act]\<rparr>"

definition lad_enqueue_cancel :: "LocalActivityData \<Rightarrow> ExecutingLAId \<Rightarrow> LocalActivityData" where
  "lad_enqueue_cancel d cancel = d\<lparr>lad_cancel_requests := lad_cancel_requests d @ [cancel]\<rparr>"

definition lad_done_executing :: "LocalActivityData \<Rightarrow> u32 \<Rightarrow> LocalActivityData" where
  "lad_done_executing d seq =
     d\<lparr>lad_new_requests := filter (\<lambda>req. vla_seq req \<noteq> seq) (lad_new_requests d),
       lad_executing := removeAll seq (lad_executing d)\<rparr>"

text \<open>The reading of the clock for every request is the argument \<open>now\<close>.\<close>

definition lad_take_all_reqs ::
    "SystemTime \<Rightarrow> LocalActivityData \<Rightarrow> string \<Rightarrow> string \<Rightarrow> string \<Rightarrow>
     LocalActRequest list \<times> LocalActivityData" where
  "lad_take_all_reqs now d wf_type wf_id run_id =
     (if lad_am_terminating d then ([LAR_CancelAllInRun run_id], d)
      else
        (map LAR_Cancel (lad_cancel_requests d) @
         map (\<lambda>sa. LAR_New \<lparr>nla_schedule_cmd = sa, nla_workflow_type = wf_type,
               nla_workflow_exec_info = \<lparr>we_workflow_id = wf_id, we_run_id = run_id\<rparr>,
               nla_schedule_time = now, nla_workflow_task = None\<rparr>) (lad_new_requests d),
         d\<lparr>lad_cancel_requests := [], lad_new_requests := [],
           lad_executing := fold List.insert (map vla_seq (lad_new_requests d)) (lad_executing d)\<rparr>))"

definition lad_outstanding_la_count :: "LocalActivityData \<Rightarrow> nat" where
  "lad_outstanding_la_count d =
     (if lad_am_terminating d then 0
      else length (lad_executing d) + length (lad_new_requests d))"

definition lad_insert_peeked_marker ::
    "externals \<Rightarrow> LocalActivityData \<Rightarrow> CompleteLocalActivityData \<Rightarrow> LocalActivityData" where
  "lad_insert_peeked_marker x d dat =
     d\<lparr>lad_preresolutions := lad_preresolutions d @
         [\<lparr>pre_seq = lam_seq (cla_marker_dat dat),
           pre_activation_index = lam_activation_index (cla_marker_dat dat),
           pre_resolution = ResolveDat_from x dat\<rparr>]\<rparr>"

fun take_first :: "('a \<Rightarrow> bool) \<Rightarrow> 'a list \<Rightarrow> ('a \<times> 'a list) option" where
  "take_first P [] = None"
| "take_first P (x # xs) =
     (if P x then Some (x, xs) else map_option (\<lambda>(y, ys). (y, x # ys)) (take_first P xs))"

definition lad_take_preresolution ::
    "LocalActivityData \<Rightarrow> u32 \<Rightarrow> (ResolveDat \<times> LocalActivityData) option" where
  "lad_take_preresolution d seq =
     map_option (\<lambda>(item, rest). (pre_resolution item, d\<lparr>lad_preresolutions := rest\<rparr>))
       (take_first (\<lambda>item. pre_seq item = seq) (lad_preresolutions d))"

definition lad_is_held :: "LocalActivityData \<Rightarrow> Preresolution \<Rightarrow> bool" where
  "lad_is_held d item =
     (case pre_activation_index item of
        Some grp \<Rightarrow> grp > lad_activation_index d | None \<Rightarrow> False)"

definition lad_peek_preresolution_seq :: "LocalActivityData \<Rightarrow> bool \<Rightarrow> u32 option" where
  "lad_peek_preresolution_seq d include_held =
     (case lad_preresolutions d of
        [] \<Rightarrow> None
      | item # _ \<Rightarrow> if \<not> include_held \<and> lad_is_held d item then None else Some (pre_seq item))"

definition lad_has_held_preresolution :: "LocalActivityData \<Rightarrow> u32 \<Rightarrow> bool" where
  "lad_has_held_preresolution d seq \<longleftrightarrow>
     list_ex (\<lambda>item. pre_seq item = seq \<and> lad_is_held d item) (lad_preresolutions d)"

definition lad_wft_applied :: "LocalActivityData \<Rightarrow> LocalActivityData" where
  "lad_wft_applied d = d\<lparr>lad_activation_index := 0\<rparr>"

definition lad_activation_dispatched :: "LocalActivityData \<Rightarrow> LocalActivityData" where
  "lad_activation_dispatched d = d\<lparr>lad_activation_index := lad_activation_index d + 1\<rparr>"

definition lad_remove_from_queue ::
    "LocalActivityData \<Rightarrow> u32 \<Rightarrow> (ValidScheduleLA \<times> LocalActivityData) option" where
  "lad_remove_from_queue d seq =
     map_option (\<lambda>(act, rest). (act, d\<lparr>lad_new_requests := rest\<rparr>))
       (take_first (\<lambda>req. vla_seq req = seq) (lad_new_requests d))"

definition lad_indicate_terminating :: "LocalActivityData \<Rightarrow> LocalActivityData" where
  "lad_indicate_terminating d = d\<lparr>lad_am_terminating := True\<rparr>"

section \<open>The queue of peeked resolutions\<close>

text \<open>
  What the orchestrator relies on when it applies peeked resolutions: the queue is first in, first
  out, the front is shown unless it is held for a later activation, and a resolution that was shown
  can be taken out.  \<open>pending\<close> lists sequence numbers and whether they are held.
\<close>

locale preresolution_queue =
  fixes pending :: "'d \<Rightarrow> (u32 \<times> bool) list"
    and peek :: "'d \<Rightarrow> bool \<Rightarrow> u32 option"
    and take_out :: "'d \<Rightarrow> u32 \<Rightarrow> ('r \<times> 'd) option"
  assumes peek_front: "peek d include_held =
      (case pending d of
         [] \<Rightarrow> None
       | (seq, held) # _ \<Rightarrow> if \<not> include_held \<and> held then None else Some seq)"
    and take_out_None: "take_out d seq = None \<longleftrightarrow> seq \<notin> fst ` set (pending d)"
    and take_out_Some: "take_out d seq = Some (r, d') \<Longrightarrow>
      \<exists>ys held zs. pending d = ys @ (seq, held) # zs \<and> seq \<notin> fst ` set ys \<and>
        pending d' = ys @ zs"
begin

lemma take_out_length: "take_out d seq = Some (r, d') \<Longrightarrow> Suc (length (pending d')) = length (pending d)"
  using take_out_Some by fastforce

lemma peek_takes_front:
  assumes "peek d include_held = Some seq"
  obtains r d' where "take_out d seq = Some (r, d')" and "pending d' = tl (pending d)"
proof -
  from assms obtain held zs where front: "pending d = (seq, held) # zs"
    by (auto simp: peek_front split: list.splits if_splits)
  then obtain r d' where taken: "take_out d seq = Some (r, d')"
    using take_out_None [of d seq] by (cases "take_out d seq") auto
  from take_out_Some [OF taken] front have "pending d' = tl (pending d)"
    by (auto simp: Cons_eq_append_conv)
  with taken that show ?thesis by blast
qed

lemma peek_not_held: "peek d False = Some seq \<Longrightarrow> \<exists>zs. pending d = (seq, False) # zs"
  by (auto simp: peek_front split: list.splits if_splits)

end

definition lad_pending :: "LocalActivityData \<Rightarrow> (u32 \<times> bool) list" where
  "lad_pending d = map (\<lambda>item. (pre_seq item, lad_is_held d item)) (lad_preresolutions d)"

lemma take_first_None: "take_first P xs = None \<longleftrightarrow> (\<forall>x \<in> set xs. \<not> P x)"
  by (induction xs) auto

lemma take_first_Some:
  "take_first P xs = Some (x, rest) \<Longrightarrow>
   \<exists>ys zs. xs = ys @ x # zs \<and> (\<forall>y \<in> set ys. \<not> P y) \<and> P x \<and> rest = ys @ zs"
proof (induction xs arbitrary: rest)
  case (Cons a xs)
  show ?case
  proof (cases "P a")
    case True
    with Cons.prems show ?thesis by (intro exI [of _ "[]"] exI [of _ xs]) auto
  next
    case False
    with Cons.prems obtain rest' where rest: "take_first P xs = Some (x, rest')" "rest = a # rest'"
      by auto
    from Cons.IH [OF rest(1)] obtain ys zs where
      "xs = ys @ x # zs" "\<forall>y \<in> set ys. \<not> P y" "P x" "rest' = ys @ zs" by blast
    with False rest(2) show ?thesis by (intro exI [of _ "a # ys"] exI [of _ zs]) auto
  qed
qed simp

lemma lad_take_pending:
  assumes "lad_take_preresolution d seq = Some (r, d')"
  shows "\<exists>ys held zs. lad_pending d = ys @ (seq, held) # zs \<and> seq \<notin> fst ` set ys \<and>
    lad_pending d' = ys @ zs"
proof -
  from assms obtain item rest where
    taken: "take_first (\<lambda>item. pre_seq item = seq) (lad_preresolutions d) = Some (item, rest)"
    and d': "d' = d\<lparr>lad_preresolutions := rest\<rparr>"
    by (auto simp: lad_take_preresolution_def)
  from take_first_Some [OF taken] obtain ys zs where
    split: "lad_preresolutions d = ys @ item # zs" "\<forall>y \<in> set ys. pre_seq y \<noteq> seq" "pre_seq item = seq"
      "rest = ys @ zs" by blast
  have held: "lad_is_held d' = lad_is_held d" by (rule ext) (simp add: d' lad_is_held_def cong: option.case_cong)
  let ?entry = "\<lambda>i. (pre_seq i, lad_is_held d i)"
  have "lad_pending d = map ?entry ys @ (seq, lad_is_held d item) # map ?entry zs"
    using split(1,3) by (simp add: lad_pending_def)
  moreover have "seq \<notin> fst ` set (map ?entry ys)" using split(2) by auto
  moreover have "lad_pending d' = map ?entry ys @ map ?entry zs"
    using split(4) by (simp add: lad_pending_def held) (simp add: d')
  ultimately show ?thesis by blast
qed

interpretation laq: preresolution_queue lad_pending lad_peek_preresolution_seq lad_take_preresolution
proof unfold_locales
  fix d include_held
  show "lad_peek_preresolution_seq d include_held =
      (case lad_pending d of
         [] \<Rightarrow> None
       | (seq, held) # _ \<Rightarrow> if \<not> include_held \<and> held then None else Some seq)"
    by (simp add: lad_peek_preresolution_seq_def lad_pending_def split: list.split)
next
  fix d seq
  show "lad_take_preresolution d seq = None \<longleftrightarrow> seq \<notin> fst ` set (lad_pending d)"
    by (force simp: lad_take_preresolution_def lad_pending_def take_first_None)
qed (fact lad_take_pending)

section \<open>Requests are handed out once\<close>

lemma set_fold_insert: "set (fold List.insert xs ys) = set xs \<union> set ys"
  by (induction xs arbitrary: ys) auto

lemma length_fold_insert:
  "distinct xs \<Longrightarrow> set xs \<inter> set ys = {} \<Longrightarrow> length (fold List.insert xs ys) = length xs + length ys"
  by (induction xs arbitrary: ys) auto

lemma lad_done_all:
  "lad_am_terminating d = False \<Longrightarrow> set (lad_executing d) \<union> vla_seq ` set (lad_new_requests d) \<subseteq> set seqs \<Longrightarrow>
   lad_outstanding_la_count (fold (\<lambda>seq d. lad_done_executing d seq) seqs d) = 0"
proof (induction seqs arbitrary: d)
  case (Cons seq seqs)
  let ?d = "lad_done_executing d seq"
  have "lad_am_terminating ?d = False"
    and "set (lad_executing ?d) \<union> vla_seq ` set (lad_new_requests ?d) \<subseteq> set seqs"
    using Cons.prems by (auto simp: lad_done_executing_def)
  from Cons.IH [OF this] show ?case by simp
qed (simp add: lad_outstanding_la_count_def)

text \<open>
  Handing the requests over does not change how many local activities are outstanding, leaves
  nothing to hand over, and once each of them is reported done none is outstanding.
\<close>

lemma lad_requests_once:
  assumes "\<not> lad_am_terminating d" and "distinct (map vla_seq (lad_new_requests d))"
    and "vla_seq ` set (lad_new_requests d) \<inter> set (lad_executing d) = {}"
    and "lad_take_all_reqs now d wf_type wf_id run_id = (reqs, d')"
  shows "lad_outstanding_la_count d' = lad_outstanding_la_count d"
    and "lad_take_all_reqs now' d' wf_type wf_id run_id = ([], d')"
    and "lad_outstanding_la_count (fold (\<lambda>seq d. lad_done_executing d seq)
           (map vla_seq (lad_new_requests d) @ lad_executing d) d') = 0"
proof -
  have d': "d' = d\<lparr>lad_cancel_requests := [], lad_new_requests := [],
      lad_executing := fold List.insert (map vla_seq (lad_new_requests d)) (lad_executing d)\<rparr>"
    using assms(1,4) by (simp add: lad_take_all_reqs_def)
  show "lad_outstanding_la_count d' = lad_outstanding_la_count d"
    using assms(1-3) length_fold_insert [of "map vla_seq (lad_new_requests d)" "lad_executing d"]
    by (simp add: d' lad_outstanding_la_count_def)
  show "lad_take_all_reqs now' d' wf_type wf_id run_id = ([], d')"
    using assms(1) by (simp add: d' lad_take_all_reqs_def)
  show "lad_outstanding_la_count (fold (\<lambda>seq d. lad_done_executing d seq)
      (map vla_seq (lad_new_requests d) @ lad_executing d) d') = 0"
    using assms(1) by (intro lad_done_all) (auto simp: d' set_fold_insert)
qed

end
