(* ===== verification/DrivenWorkflow.thy ===== *)
theory DrivenWorkflow
  imports Activation "HOL-Library.AList"
begin

text \<open>
  The connection to the workflow code on the language side
  (\<^verbatim>\<open>crates/sdk-core/src/worker/workflow/driven_workflow.rs\<close>): what is remembered of the event
  that started the workflow, the search attributes changed since, the batches of commands that came
  in and the jobs that wait to go out.  The channel the commands arrive on is the list of batches
  not yet received.
\<close>

section \<open>State and operations\<close>

record WorkflowStartedInfo =
  wsi_workflow_task_timeout :: "StdDuration option"
  wsi_memo :: "PayloadMap option"
  wsi_search_attrs :: "PayloadMap option"
  wsi_retry_policy :: "bytes option"

record DrivenWorkflow =
  dw_started_attrs :: "WorkflowStartedInfo option"
  dw_search_attribute_modifications :: PayloadMap
  dw_incoming_commands :: "WFCommand list list"
  dw_outgoing_wf_activation_jobs :: "Job list"

definition driven_workflow_new :: DrivenWorkflow where
  "driven_workflow_new = \<lparr>dw_started_attrs = None, dw_search_attribute_modifications = [],
     dw_incoming_commands = [], dw_outgoing_wf_activation_jobs = []\<rparr>"

definition send_job :: "DrivenWorkflow \<Rightarrow> Job \<Rightarrow> DrivenWorkflow" where
  "send_job d job =
     d\<lparr>dw_outgoing_wf_activation_jobs := dw_outgoing_wf_activation_jobs d @ [job]\<rparr>"

text \<open>\<^verbatim>\<open>try_into_or_none\<close>: a duration that does not convert counts as absent.\<close>

definition driven_start ::
    "externals \<Rightarrow> DrivenWorkflow \<Rightarrow> string \<Rightarrow> u64 \<Rightarrow> Timestamp \<Rightarrow>
     WorkflowExecutionStartedEventAttributes \<Rightarrow> DrivenWorkflow" where
  "driven_start x d workflow_id randomness_seed start_time attribs =
     (let started_info =
            \<lparr>wsi_workflow_task_timeout =
               Option.bind (wes_workflow_task_timeout attribs) (x_to_std_duration x),
             wsi_memo = wes_memo attribs, wsi_search_attrs = wes_search_attributes attribs,
             wsi_retry_policy = wes_retry_policy attribs\<rparr>;
          d = send_job d (J_InitializeWorkflow workflow_id randomness_seed start_time attribs)
      in d\<lparr>dw_started_attrs := Some started_info\<rparr>)"

definition drain_jobs :: "DrivenWorkflow \<Rightarrow> Job list \<times> DrivenWorkflow" where
  "drain_jobs d =
     (dw_outgoing_wf_activation_jobs d, d\<lparr>dw_outgoing_wf_activation_jobs := []\<rparr>)"

definition fetch_workflow_iteration_output ::
    "DrivenWorkflow \<Rightarrow> WFCommand list \<times> DrivenWorkflow" where
  "fetch_workflow_iteration_output d =
     (case dw_incoming_commands d of
        [] \<Rightarrow> ([], d)
      | in_cmds # rest \<Rightarrow> (in_cmds, d\<lparr>dw_incoming_commands := rest\<rparr>))"

text \<open>\<^verbatim>\<open>HashMap::extend\<close> on association lists.\<close>

definition payload_map_extend :: "PayloadMap \<Rightarrow> PayloadMap \<Rightarrow> PayloadMap" where
  "payload_map_extend m entries = fold (\<lambda>(k, v). AList.update k v) entries m"

definition search_attributes_update :: "DrivenWorkflow \<Rightarrow> PayloadMap option \<Rightarrow> DrivenWorkflow" where
  "search_attributes_update d update =
     (case update of
        Some sa \<Rightarrow> d\<lparr>dw_search_attribute_modifications :=
                       payload_map_extend (dw_search_attribute_modifications d) sa\<rparr>
      | None \<Rightarrow> d)"

definition get_current_search_attributes :: "DrivenWorkflow \<Rightarrow> PayloadMap" where
  "get_current_search_attributes d =
     payload_map_extend
       (unwrap_or (Option.bind (dw_started_attrs d) wsi_search_attrs) [])
       (dw_search_attribute_modifications d)"

section \<open>Search attributes\<close>

text \<open>
  An entry list without repeated keys, as a hash map is; extending by it overrides as maps do.
\<close>

lemma payload_map_extend_map_of:
  "distinct (map fst entries) \<Longrightarrow>
   map_of (payload_map_extend m entries) = map_of m ++ map_of entries"
  unfolding payload_map_extend_def
proof (induction entries arbitrary: m)
  case (Cons e entries)
  obtain k v where e: "e = (k, v)" by (cases e)
  have "map_of entries k = None" using Cons.prems by (simp add: e map_of_eq_None_iff)
  with Cons show ?case by (auto simp: e update_conv' map_add_def fun_eq_iff split: option.splits)
qed simp

lemma distinct_payload_map_extend:
  "distinct (map fst m) \<Longrightarrow> distinct (map fst (payload_map_extend m entries))"
  unfolding payload_map_extend_def
  by (induction entries arbitrary: m) (auto simp: distinct_update)

lemma search_attributes_modifications:
  assumes "\<And>sa. Some sa \<in> set updates \<Longrightarrow> distinct (map fst sa)"
    and "distinct (map fst (dw_search_attribute_modifications d))"
    and "Option.bind (dw_started_attrs d) wsi_search_attrs = initial"
  shows "map_of (get_current_search_attributes (fold (\<lambda>u d. search_attributes_update d u) updates d))
     = map_of (unwrap_or initial []) ++ map_of (dw_search_attribute_modifications d)
       ++ foldl (\<lambda>m u. m ++ map_of (unwrap_or u [])) Map.empty updates"
  using assms
proof (induction updates arbitrary: d)
  case Nil
  then show ?case by (simp add: get_current_search_attributes_def payload_map_extend_map_of)
next
  case (Cons u updates)
  have foldl_start: "foldl (\<lambda>m u. m ++ map_of (unwrap_or u [])) a us
      = a ++ foldl (\<lambda>m u. m ++ map_of (unwrap_or u [])) Map.empty us"
    for a and us :: "PayloadMap option list"
  proof (induction us arbitrary: a)
    case (Cons u us)
    show ?case by (simp add: Cons [of "a ++ _"] Cons [of "map_of _"])
  qed simp
  let ?d = "search_attributes_update d u"
  have "distinct (map fst (dw_search_attribute_modifications ?d))"
    using Cons.prems(2) by (cases u) (auto simp: search_attributes_update_def distinct_payload_map_extend)
  moreover have "Option.bind (dw_started_attrs ?d) wsi_search_attrs = initial"
    using Cons.prems(3) by (cases u) (auto simp: search_attributes_update_def)
  moreover have "map_of (dw_search_attribute_modifications ?d)
      = map_of (dw_search_attribute_modifications d) ++ map_of (unwrap_or u [])"
    using Cons.prems(1) by (cases u) (auto simp: search_attributes_update_def payload_map_extend_map_of)
  ultimately show ?case
    using Cons.IH [of ?d] Cons.prems(1) foldl_start [of "map_of (unwrap_or u [])" updates]
    by simp
qed

end
