(* ===== verification/WorkflowMachines.thy ===== *)
theory WorkflowMachines
  imports MachineContracts LocalActs DrivenWorkflow HistoryUpdate
begin

text \<open>
  The orchestrator of a run
  (\<^verbatim>\<open>crates/sdk-core/src/worker/workflow/machines/workflow_machines.rs\<close>), first part: its state,
  the bookkeeping of machines and commands, what it does with the responses of a machine, and the
  handling of the commands of the language side.

  An operation is a function from the state to a \<open>result\<close> of the new state.  What the state is
  after an error is not modelled: an error of the machines evicts the run.  Machine keys are
  numbers given out in order, so a key is never used twice, as the slot map promises.
\<close>

section \<open>State\<close>

type_synonym MachineKey = nat

datatype CommandID = CID_Timer u32 | CID_Activity u32 | CID_LocalActivity u32
  | CID_ChildWorkflowStart u32 | CID_SignalExternal u32 | CID_CancelExternal u32
  | CID_NexusOperation u32

datatype CommandIdKind = LangIssued CommandID | CoreInternal | NeverResolves

record CommandAndMachine =
  cam_command :: Command
  cam_machine :: MachineKey

record WftAttempt =
  wfa_scheduled_event_id :: i64
  wfa_started_event_id :: i64
  wfa_attempt :: u32
  wfa_started_time :: "SystemTime option"

definition WftAttempt_default :: WftAttempt where
  "WftAttempt_default = \<lparr>wfa_scheduled_event_id = 0, wfa_started_event_id = 0, wfa_attempt = 0,
     wfa_started_time = None\<rparr>"

datatype WorkerVersioningStrategy =
    VS_None string
  | VS_WorkerDeploymentBased WorkerDeploymentVersion
  | VS_LegacyBuildIdBased string

text \<open>The settings of the worker the orchestrator reads.\<close>

record WorkerConfig =
  cfg_namespace :: string
  cfg_task_queue :: string
  cfg_versioning_strategy :: WorkerVersioningStrategy

definition wdv_is_empty :: "WorkerDeploymentVersion \<Rightarrow> bool" where
  "wdv_is_empty v \<longleftrightarrow> wdv_deployment_name v = [] \<and> wdv_build_id v = []"

definition computed_deployment_version :: "WorkerConfig \<Rightarrow> WorkerDeploymentVersion option" where
  "computed_deployment_version c =
     (let wdv = (case cfg_versioning_strategy c of
            VS_None build_id \<Rightarrow> \<lparr>wdv_deployment_name = [], wdv_build_id = build_id\<rparr>
          | VS_WorkerDeploymentBased version \<Rightarrow> version
          | VS_LegacyBuildIdBased build_id \<Rightarrow> \<lparr>wdv_deployment_name = [], wdv_build_id = build_id\<rparr>)
      in if wdv_is_empty wdv then None else Some wdv)"

text \<open>
  \<open>wm_all_machines\<close> and \<open>wm_next_key\<close> are the slot map.  \<open>wm_encountered_patch_markers\<close> maps a
  patch id to \<^verbatim>\<open>ChangeInfo::created_command\<close>, in an arbitrary order, here that of insertion;
  \<open>wm_machines_by_event_id\<close> is an association list too.
  \<open>wm_failed_wft_started_ids\<close> is a \<^verbatim>\<open>BTreeSet\<close>: an ascending list.
\<close>

record WorkflowMachines =
  wm_last_history_from_server :: HistoryUpdate
  wm_failed_wft_started_ids :: "i64 list"
  wm_last_wft :: WftAttempt
  wm_completed_wft :: "WftAttempt option"
  wm_protocol_msgs :: "IncomingProtocolMessage list"
  wm_current_started_event_id :: i64
  wm_next_started_event_id :: i64
  wm_last_processed_event :: i64
  wm_replaying :: bool
  wm_preparing_legacy_query :: bool
  wm_update_only_task :: bool
  wm_workflow_id :: string
  wm_workflow_type :: string
  wm_run_id :: string
  wm_have_seen_terminal_event :: bool
  wm_workflow_start_time :: "SystemTime option"
  wm_workflow_end_time :: "SystemTime option"
  wm_wft_start_time :: "SystemTime option"
  wm_current_wf_time :: "SystemTime option"
  wm_observed_internal_flags :: InternalFlags
  wm_history_size_bytes :: u64
  wm_continue_as_new_suggested :: bool
  wm_suggest_continue_as_new_reasons :: "int list"
  wm_target_worker_deployment_version_changed :: bool
  wm_current_wft_deployment_info :: "WorkerDeploymentVersion option"
  wm_all_machines :: "MachineKey \<rightharpoonup> Machines"
  wm_next_key :: MachineKey
  wm_machine_is_core_created :: "MachineKey list"
  wm_machines_by_event_id :: "(i64 \<times> MachineKey) list"
  wm_machines_by_protocol_instance_id :: "string \<rightharpoonup> MachineKey"
  wm_id_to_machine :: "CommandID \<rightharpoonup> MachineKey"
  wm_commands :: "CommandAndMachine list"
  wm_current_wf_task_commands :: "CommandAndMachine list"
  wm_message_outbox :: "ProtocolMessage list"
  wm_encountered_patch_markers :: "(string \<times> bool) list"
  wm_local_activity_data :: LocalActivityData
  wm_drive_me :: DrivenWorkflow
  wm_worker_config :: WorkerConfig

record RunBasics =
  rb_history :: HistoryUpdate
  rb_workflow_id :: string
  rb_workflow_type :: string
  rb_run_id :: string
  rb_sdk_metadata_capability :: bool
  rb_sdk_name :: string
  rb_sdk_version :: string
  rb_worker_config :: WorkerConfig

definition wm_new :: "RunBasics \<Rightarrow> DrivenWorkflow \<Rightarrow> WorkflowMachines" where
  "wm_new basics driven_wf =
     (let flags = InternalFlags_new (rb_sdk_metadata_capability basics) (rb_sdk_name basics)
            (rb_sdk_version basics);
          flags = (case peek_next_wft_completed (rb_history basics) 0 of
              Some attrs \<Rightarrow> add_from_complete attrs flags | None \<Rightarrow> flags)
      in \<lparr>wm_last_history_from_server = rb_history basics, wm_failed_wft_started_ids = [],
          wm_last_wft = WftAttempt_default, wm_completed_wft = None, wm_protocol_msgs = [],
          wm_current_started_event_id = 0, wm_next_started_event_id = 0,
          wm_last_processed_event = 0,
          wm_replaying = (hu_previous_wft_started_id (rb_history basics) > 0),
          wm_preparing_legacy_query = False, wm_update_only_task = False,
          wm_workflow_id = rb_workflow_id basics, wm_workflow_type = rb_workflow_type basics,
          wm_run_id = rb_run_id basics, wm_have_seen_terminal_event = False,
          wm_workflow_start_time = None, wm_workflow_end_time = None, wm_wft_start_time = None,
          wm_current_wf_time = None, wm_observed_internal_flags = flags,
          wm_history_size_bytes = 0, wm_continue_as_new_suggested = False,
          wm_suggest_continue_as_new_reasons = [],
          wm_target_worker_deployment_version_changed = False,
          wm_current_wft_deployment_info = None, wm_all_machines = Map.empty, wm_next_key = 0,
          wm_machine_is_core_created = [], wm_machines_by_event_id = [],
          wm_machines_by_protocol_instance_id = Map.empty, wm_id_to_machine = Map.empty,
          wm_commands = [], wm_current_wf_task_commands = [], wm_message_outbox = [],
          wm_encountered_patch_markers = [], wm_local_activity_data = lad_default,
          wm_drive_me = driven_wf, wm_worker_config = rb_worker_config basics\<rparr>)"

section \<open>Machines and commands\<close>

definition get_machine_key :: "WorkflowMachines \<Rightarrow> CommandID \<Rightarrow> MachineKey result" where
  "get_machine_key s cid = ok_or (wm_id_to_machine s cid) (Nondeterminism MissingMachine)"

definition get_machine_by_msg :: "WorkflowMachines \<Rightarrow> string \<Rightarrow> MachineKey result" where
  "get_machine_by_msg s protocol_instance_id =
     ok_or (wm_machines_by_protocol_instance_id s protocol_instance_id) (Fatal MissingMachine)"

definition wm_machine :: "WorkflowMachines \<Rightarrow> MachineKey \<Rightarrow> Machines result" where
  "wm_machine s k = (case wm_all_machines s k of Some m \<Rightarrow> Ok m | None \<Rightarrow> Panic)"

text \<open>A call of a method on \<^verbatim>\<open>self.machine_mut(k)\<close>, with the shared flags in place.\<close>

definition call_machine ::
    "WorkflowMachines \<Rightarrow> MachineKey \<Rightarrow> (Machines \<Rightarrow> 'r result \<times> Machines) \<Rightarrow>
     ('r \<times> WorkflowMachines) result" where
  "call_machine s k f =
     res_bind (wm_machine s k) (\<lambda>m.
     let (r, m') = f (store_flags (wm_observed_internal_flags s) m)
     in res_map (\<lambda>v. (v, s\<lparr>wm_all_machines := (wm_all_machines s)(k \<mapsto> m'),
            wm_observed_internal_flags := load_flags (wm_observed_internal_flags s) m'\<rparr>)) r)"

definition insert_machine :: "WorkflowMachines \<Rightarrow> Machines \<Rightarrow> MachineKey \<times> WorkflowMachines" where
  "insert_machine s m =
     (wm_next_key s, s\<lparr>wm_all_machines := (wm_all_machines s)(wm_next_key s \<mapsto> m),
                      wm_next_key := Suc (wm_next_key s)\<rparr>)"

definition add_new_command_machine ::
    "WorkflowMachines \<Rightarrow> Machines NewMachineWithCommand \<Rightarrow> CommandAnnotations \<Rightarrow>
     CommandAndMachine \<times> WorkflowMachines" where
  "add_new_command_machine s nm annotations =
     (let (k, s) = insert_machine s (nm_machine nm)
      in (\<lparr>cam_command = ProtoCommand_new (nm_command nm) annotations, cam_machine = k\<rparr>, s))"

definition add_new_protocol_machine ::
    "WorkflowMachines \<Rightarrow> Machines \<Rightarrow> string \<Rightarrow> MachineKey \<times> WorkflowMachines" where
  "add_new_protocol_machine s m instance_id =
     (let (k, s) = insert_machine s m
      in (k, s\<lparr>wm_machines_by_protocol_instance_id :=
                 (wm_machines_by_protocol_instance_id s)(instance_id \<mapsto> k)\<rparr>))"

definition add_cmd_to_wf_task ::
    "WorkflowMachines \<Rightarrow> Machines NewMachineWithCommand \<Rightarrow> CommandAnnotations \<Rightarrow> CommandIdKind \<Rightarrow>
     MachineKey \<times> WorkflowMachines" where
  "add_cmd_to_wf_task s nm annotations cid =
     (let (mach, s) = add_new_command_machine s nm annotations;
          key = cam_machine mach;
          s = (case cid of
                 LangIssued cid \<Rightarrow> s\<lparr>wm_id_to_machine := (wm_id_to_machine s)(cid \<mapsto> key)\<rparr>
               | CoreInternal \<Rightarrow>
                   s\<lparr>wm_machine_is_core_created := key # wm_machine_is_core_created s\<rparr>
               | NeverResolves \<Rightarrow> s)
      in (key, s\<lparr>wm_current_wf_task_commands := wm_current_wf_task_commands s @ [mach]\<rparr>))"

definition add_terminal_command ::
    "externals \<Rightarrow> WorkflowMachines \<Rightarrow> Machines NewMachineWithCommand \<Rightarrow> CommandAnnotations \<Rightarrow>
     WorkflowMachines" where
  "add_terminal_command x s nm annotations =
     (let (cwfm, s) = add_new_command_machine s nm annotations
      in s\<lparr>wm_workflow_end_time := Some (x_now x),
          wm_current_wf_task_commands := wm_current_wf_task_commands s @ [cwfm],
          wm_local_activity_data := lad_indicate_terminating (wm_local_activity_data s)\<rparr>)"

section \<open>Responses of machines\<close>

definition wm_send_job :: "WorkflowMachines \<Rightarrow> Job \<Rightarrow> WorkflowMachines" where
  "wm_send_job s job = s\<lparr>wm_drive_me := send_job (wm_drive_me s) job\<rparr>"

definition set_current_time :: "WorkflowMachines \<Rightarrow> SystemTime \<Rightarrow> WorkflowMachines" where
  "set_current_time s time =
     (if (case wm_current_wf_time s of None \<Rightarrow> True | Some t \<Rightarrow> t < time)
      then s\<lparr>wm_current_wf_time := Some time\<rparr> else s)"

definition task_started :: "WorkflowMachines \<Rightarrow> i64 \<Rightarrow> SystemTime \<Rightarrow> WorkflowMachines" where
  "task_started s task_started_event_id time =
     set_current_time (s\<lparr>wm_current_started_event_id := task_started_event_id,
                        wm_wft_start_time := Some time\<rparr>) time"

definition request_cancel_local_activity ::
    "externals \<Rightarrow> WorkflowMachines \<Rightarrow> MachineKey \<Rightarrow> u32 \<Rightarrow>
     (MachineResponse list \<times> WorkflowMachines) result" where
  "request_cancel_local_activity x s smk seq =
     (let lad = wm_local_activity_data s
      in if lad_has_held_preresolution lad seq then Ok ([], s)
         else case lad_take_preresolution lad seq of
           Some (preres, lad) \<Rightarrow>
             call_machine (s\<lparr>wm_local_activity_data := lad\<rparr>) smk
               (on_local_activity (\<lambda>lam. la_try_resolve_with_dat x lam preres) Panic)
         | None \<Rightarrow>
             (case lad_remove_from_queue lad seq of
                Some (removed_act, lad) \<Rightarrow>
                  call_machine (s\<lparr>wm_local_activity_data := lad\<rparr>) smk
                    (on_local_activity
                       (\<lambda>lam. la_try_resolve x lam empty_cancel 0 (vla_attempt removed_act) None
                          (vla_original_schedule_time removed_act) (lad_activation_index lad)) Panic)
              | None \<Rightarrow>
                  Ok ([], s\<lparr>wm_local_activity_data := lad_enqueue_cancel lad
                              \<lparr>ela_run_id = wm_run_id s, ela_seq_num = seq\<rparr>\<rparr>)))"

text \<open>
  One round of the loop of \<^verbatim>\<open>process_machine_responses\<close>.  Where the code calls itself with further
  responses of the same machine before it goes on, they are returned to be put in front.
\<close>

definition core_originated_command ::
    "WorkflowMachines \<Rightarrow> CommandAttributes \<Rightarrow> CommandAnnotations \<Rightarrow> WorkflowMachines result" where
  "core_originated_command s attrs annotations =
     (case attrs of
        CA_RequestCancelExternalWorkflowExecution attrs \<Rightarrow>
          res_map (\<lambda>nm. snd (add_cmd_to_wf_task s (into_machines M_CancelExternal nm) annotations
                              CoreInternal))
            (new_external_cancel 0 \<lparr>nwe_namespace = rce_namespace attrs,
               nwe_workflow_id = rce_workflow_id attrs, nwe_run_id = rce_run_id attrs\<rparr>
               (rce_child_workflow_only attrs) (rce_reason attrs))
      | CA_UpsertWorkflowSearchAttributes attrs \<Rightarrow>
          Ok (snd (add_cmd_to_wf_task s
            (into_machines M_UpsertSearchAttributes (upsert_search_attrs_internal attrs)) annotations
            NeverResolves))
      | _ \<Rightarrow> Err (Fatal OtherReason))"

definition process_response ::
    "externals \<Rightarrow> WorkflowMachines \<Rightarrow> MachineKey \<Rightarrow> MachineResponse \<Rightarrow>
     (MachineResponse list \<times> WorkflowMachines) result" where
  "process_response x s smk response =
     (case response of
        PushWFJob a \<Rightarrow>
          Ok ([], if smk \<in> set (wm_machine_is_core_created s) then s else wm_send_job s a)
      | TriggerWFTaskStarted task_started_event_id time \<Rightarrow>
          Ok ([], task_started s task_started_event_id time)
      | UpdateRunIdOnWorkflowReset new_run_id \<Rightarrow>
          Ok ([], wm_send_job s (J_UpdateRandomSeed (x_seed_hash x new_run_id)))
      | IssueNewCommand c \<Rightarrow>
          Ok ([], s\<lparr>wm_current_wf_task_commands :=
                wm_current_wf_task_commands s @ [\<lparr>cam_command = c, cam_machine = smk\<rparr>]\<rparr>)
      | IssueNewMessage pm \<Rightarrow>
          Ok ([], if \<not> wm_replaying s
                  then s\<lparr>wm_message_outbox := wm_message_outbox s @ [pm]\<rparr> else s)
      | NewCoreOriginatedCommand attrs annotations \<Rightarrow>
          res_map (\<lambda>s. ([], s)) (core_originated_command s attrs annotations)
      | QueueLocalActivity act \<Rightarrow>
          Ok ([], s\<lparr>wm_local_activity_data := lad_enqueue (wm_local_activity_data s) act\<rparr>)
      | RequestCancelLocalActivity seq \<Rightarrow> request_cancel_local_activity x s smk seq
      | AbandonLocalActivity seq \<Rightarrow>
          Ok ([], s\<lparr>wm_local_activity_data := lad_done_executing (wm_local_activity_data s) seq\<rparr>)
      | UpdateWFTime t \<Rightarrow>
          Ok ([], case t of Some t \<Rightarrow> set_current_time s t | None \<Rightarrow> s))"

lemma res_bind_cong [fundef_cong]:
  "r = r' \<Longrightarrow> (\<And>a. r' = Ok a \<Longrightarrow> f a = f' a) \<Longrightarrow> res_bind r f = res_bind r' f'"
  by (cases r') auto

text \<open>Resolving a local activity never asks to cancel it, so the calls nest no deeper.\<close>

lemma la_resolved_no_request_cancel:
  "la_resolved_responses x sh dat = Ok rs \<Longrightarrow> \<not> list_ex is_request_cancel rs"
  by (auto simp: la_resolved_responses_def is_request_cancel_def Let_def res_map_eq_Ok
      simp del: la_resolved_responses_eq split: if_splits)

lemma la_try_resolve_no_request_cancel:
  assumes "la__try_resolve x lam dat from_marker = (Ok rs, lam')"
  shows "\<not> list_ex is_request_cancel rs"
proof -
  from assms obtain cmds where
    on: "on_event la_arms lam (if from_marker then LaEv_HandleKnownResult dat else LaEv_HandleResult dat)
      = (Ok cmds, lam')"
    and rs: "concat_res (\<lambda>c. res_expect (la_adapt_response x lam' c None)) cmds
      = (Ok rs :: MachineResponse list result)"
    by (auto simp: la__try_resolve_def Let_def invalid_transition_err_def
        elim!: la_map_err.elims split: prod.splits res.splits if_splits)
  from on have "set cmds \<subseteq> range LaCmd_Resolved"
    by (auto elim!: on_event_OkD simp: la_arms_def la_RequestSent_on_handle_result_def
        split: LAState.splits if_splits)
  then show ?thesis using rs
  proof (induction cmds arbitrary: rs)
    case (Cons c cmds)
    then obtain d ys zs where c: "c = LaCmd_Resolved d"
      and ys: "res_expect (la_adapt_response x lam' c None) = (Ok ys :: MachineResponse list result)"
      and zs: "concat_res (\<lambda>c. res_expect (la_adapt_response x lam' c None)) cmds
        = (Ok zs :: MachineResponse list result)"
      and rs: "rs = ys @ zs"
      by (auto simp: res_bind_eq_Ok res_map_eq_Ok)
    from ys c have "la_resolved_responses x (sm_shared lam') d = Ok ys"
      by (cases "la_resolved_responses x (sm_shared lam') d") auto
    then have "\<not> list_ex is_request_cancel ys" by (rule la_resolved_no_request_cancel)
    moreover have "\<not> list_ex is_request_cancel zs" using Cons.IH [OF _ zs] Cons.prems(1) by simp
    ultimately show ?case by (simp add: rs)
  qed simp
qed

lemma call_machine_Ok:
  "call_machine s k f = Ok (v, s') \<longleftrightarrow>
   (\<exists>m m'. wm_all_machines s k = Some m \<and>
      f (store_flags (wm_observed_internal_flags s) m) = (Ok v, m') \<and>
      s' = s\<lparr>wm_all_machines := (wm_all_machines s)(k \<mapsto> m'),
            wm_observed_internal_flags := load_flags (wm_observed_internal_flags s) m'\<rparr>)"
  by (auto simp: call_machine_def wm_machine_def res_map_eq_Ok split: option.splits prod.splits)

lemma request_cancel_further:
  "request_cancel_local_activity x s smk seq = Ok (further, s') \<Longrightarrow> \<not> list_ex is_request_cancel further"
  by (auto simp: request_cancel_local_activity_def Let_def call_machine_Ok la_try_resolve_def
      la_try_resolve_with_dat_def elim!: on_local_activity_Ok dest!: la_try_resolve_no_request_cancel
      split: if_splits option.splits prod.splits)

lemma process_response_further:
  "process_response x s smk r = Ok (further, s') \<Longrightarrow>
   further = [] \<or> is_request_cancel r \<and> \<not> list_ex is_request_cancel further"
  using request_cancel_further [of x s smk _ further s']
  by (auto simp: process_response_def is_request_cancel_def res_map_eq_Ok
      split: MachineResponse.splits)

function process_machine_responses ::
    "externals \<Rightarrow> WorkflowMachines \<Rightarrow> MachineKey \<Rightarrow> MachineResponse list \<Rightarrow>
     WorkflowMachines result" where
  "process_machine_responses x s smk [] = res_map (\<lambda>_. s) (wm_machine s smk)"
| "process_machine_responses x s smk (r # rs) =
     res_bind (wm_machine s smk) (\<lambda>_.
     res_bind (process_response x s smk r) (\<lambda>(further, s).
     process_machine_responses x s smk (further @ rs)))"
  by pat_completeness auto

termination
proof (relation "(\<lambda>(_, _, _, rs). length (filter is_request_cancel rs)) <*mlex*>
    measure (\<lambda>(_, _, _, rs). length rs)", goal_cases)
  case 1
  show ?case by (simp add: wf_mlex)
next
  case (2 x s smk r rs _ p further s')
  then have "process_response x s smk r = Ok (further, s')" by simp
  from process_response_further [OF this] show ?case
    by (auto simp: mlex_prod_def filter_empty_conv list_ex_iff)
qed

section \<open>Local activities\<close>

lemma length_lad_pending [simp]: "length (lad_pending d) = length (lad_preresolutions d)"
  by (simp add: lad_pending_def)

lemma take_preresolution_shorter:
  "lad_take_preresolution d seq = Some (r, d') \<Longrightarrow>
   length (lad_preresolutions d') < length (lad_preresolutions d)"
  using laq.take_out_length [of d seq r d'] by simp

lemmas wm_update_defs = add_cmd_to_wf_task_def add_new_command_machine_def insert_machine_def
  core_originated_command_def wm_send_job_def task_started_def set_current_time_def

lemma remove_from_queue_preresolutions:
  "lad_remove_from_queue d seq = Some (act, d') \<Longrightarrow> lad_preresolutions d' = lad_preresolutions d"
  by (auto simp: lad_remove_from_queue_def)

lemma process_response_preresolutions:
  assumes "process_response x s smk r = Ok (further, s')"
  shows "length (lad_preresolutions (wm_local_activity_data s'))
    \<le> length (lad_preresolutions (wm_local_activity_data s))"
  using assms
  by (auto simp: process_response_def request_cancel_local_activity_def wm_update_defs Let_def
      res_map_eq_Ok call_machine_Ok lad_enqueue_def lad_done_executing_def lad_enqueue_cancel_def
      dest!: take_preresolution_shorter remove_from_queue_preresolutions
      split: MachineResponse.splits CommandAttributes.splits option.splits if_splits)

lemma process_responses_preresolutions:
  "process_machine_responses x s smk rs = Ok s' \<Longrightarrow>
   length (lad_preresolutions (wm_local_activity_data s'))
     \<le> length (lad_preresolutions (wm_local_activity_data s))"
proof (induction x s smk rs rule: process_machine_responses.induct)
  case (2 x s smk r rs)
  then obtain m further s1 where "wm_machine s smk = Ok m"
    and step: "process_response x s smk r = Ok (further, s1)"
    and rest: "process_machine_responses x s1 smk (further @ rs) = Ok s'"
    by (auto simp: res_bind_eq_Ok)
  from "2.IH" [OF this(1,2) refl rest] process_response_preresolutions [OF step]
  show ?case by simp
qed (auto simp: res_map_eq_Ok)

text \<open>
  The peeked resolutions are applied as long as the front one is not held and belongs to a local
  activity the workflow has asked for.
\<close>

function apply_local_activity_peeked_resolutions ::
    "externals \<Rightarrow> WorkflowMachines \<Rightarrow> bool \<Rightarrow> WorkflowMachines result" where
  "apply_local_activity_peeked_resolutions x s include_held =
     (case lad_peek_preresolution_seq (wm_local_activity_data s) include_held of
        None \<Rightarrow> Ok s
      | Some seq \<Rightarrow>
          (case get_machine_key s (CID_LocalActivity seq) of
             Ok mk \<Rightarrow>
               (case lad_take_preresolution (wm_local_activity_data s) seq of
                  None \<Rightarrow> Panic
                | Some (dat, lad) \<Rightarrow>
                    res_bind (call_machine (s\<lparr>wm_local_activity_data := lad\<rparr>) mk
                        (on_local_activity (\<lambda>lam. la_try_resolve_with_dat x lam dat)
                           (Err (Nondeterminism WrongMachine)))) (\<lambda>(responses, s).
                    res_bind (process_machine_responses x s mk responses) (\<lambda>s.
                    apply_local_activity_peeked_resolutions x s include_held)))
           | _ \<Rightarrow> Ok s))"
  by pat_completeness auto

termination
  by (relation "measure (\<lambda>(_, s, _). length (lad_preresolutions (wm_local_activity_data s)))")
    (auto simp: call_machine_Ok
      dest!: process_responses_preresolutions take_preresolution_shorter)

declare apply_local_activity_peeked_resolutions.simps [simp del]

definition has_pending_jobs :: "WorkflowMachines \<Rightarrow> bool" where
  "has_pending_jobs s \<longleftrightarrow> dw_outgoing_wf_activation_jobs (wm_drive_me s) \<noteq> []"

definition release_held_local_activity_resolutions_if_idle ::
    "externals \<Rightarrow> WorkflowMachines \<Rightarrow> WorkflowMachines result" where
  "release_held_local_activity_resolutions_if_idle x s =
     (if \<not> has_pending_jobs s then apply_local_activity_peeked_resolutions x s True else Ok s)"

text \<open>\<^verbatim>\<open>local_resolution\<close>; the flag tells whether the resolution did anything.\<close>

definition local_resolution ::
    "externals \<Rightarrow> WorkflowMachines \<Rightarrow> LocalActivityResolution \<Rightarrow> (bool \<times> WorkflowMachines) result" where
  "local_resolution x s r =
     res_bind (get_machine_key s (CID_LocalActivity (lar_seq r))) (\<lambda>mk.
     let activation_index = lad_activation_index (wm_local_activity_data s) in
     res_bind (call_machine s mk (on_local_activity
         (\<lambda>lam. la_try_resolve x lam (lar_result r) (lar_runtime r) (lar_attempt r) (lar_backoff r)
            (lar_original_schedule_time r) activation_index)
         (Err (Nondeterminism WrongMachine)))) (\<lambda>(resps, s).
     res_bind (process_machine_responses x s mk resps) (\<lambda>s.
     Ok (resps \<noteq> [],
         s\<lparr>wm_local_activity_data :=
             lad_done_executing (wm_local_activity_data s) (lar_seq r)\<rparr>))))"

definition drain_queued_local_activities ::
    "externals \<Rightarrow> WorkflowMachines \<Rightarrow> LocalActRequest list \<times> WorkflowMachines" where
  "drain_queued_local_activities x s =
     (let (reqs, lad) = lad_take_all_reqs (x_now x) (wm_local_activity_data s) (wm_workflow_type s)
            (wm_workflow_id s) (wm_run_id s)
      in (reqs, s\<lparr>wm_local_activity_data := lad\<rparr>))"

definition outstanding_local_activity_count :: "WorkflowMachines \<Rightarrow> nat" where
  "outstanding_local_activity_count s = lad_outstanding_la_count (wm_local_activity_data s)"

section \<open>Commands of the language side\<close>

definition augment_continue_as_new_with_current_values ::
    "WorkflowMachines \<Rightarrow> ContinueAsNewWorkflowExecution \<Rightarrow> ContinueAsNewWorkflowExecution" where
  "augment_continue_as_new_with_current_values s attrs =
     (let attrs = (case dw_started_attrs (wm_drive_me s) of
            Some started_info \<Rightarrow>
              let attrs = (if cna_memo attrs = []
                    then attrs\<lparr>cna_memo := unwrap_or (wsi_memo started_info) []\<rparr> else attrs)
              in if cna_retry_policy attrs = None
                 then attrs\<lparr>cna_retry_policy := wsi_retry_policy started_info\<rparr> else attrs
          | None \<Rightarrow> attrs)
      in if cna_search_attributes attrs = None then
           let current = get_current_search_attributes (wm_drive_me s)
           in if current \<noteq> [] then attrs\<lparr>cna_search_attributes := Some current\<rparr> else attrs
         else attrs)"

definition determine_use_compatible_flag ::
    "WorkflowMachines \<Rightarrow> VersioningIntent \<Rightarrow> string \<Rightarrow> bool" where
  "determine_use_compatible_flag s intent target_tq =
     (case intent of
        VI_Compatible \<Rightarrow> True
      | VI_Default \<Rightarrow> False
      | VI_Unspecified \<Rightarrow> target_tq = [] \<or> target_tq = cfg_task_queue (wm_worker_config s))"

text \<open>
  The macro \<^verbatim>\<open>cancel_machine!\<close>: \<open>cancel\<close> calls the method on a machine of the right kind and
  errors on another.
\<close>

definition cancel_machine ::
    "externals \<Rightarrow> WorkflowMachines \<Rightarrow> CommandID \<Rightarrow>
     (Machines \<Rightarrow> MachineResponse list result \<times> Machines) \<Rightarrow> WorkflowMachines result" where
  "cancel_machine x s cid cancel =
     res_bind (get_machine_key s cid) (\<lambda>m_key.
     res_bind (call_machine s m_key cancel) (\<lambda>(machine_resps, s).
     process_machine_responses x s m_key machine_resps))"

abbreviation wrong_machine :: "Machines \<Rightarrow> MachineResponse list result \<times> Machines" where
  "wrong_machine m \<equiv> (Err (Nondeterminism WrongMachine), m)"

definition set_patch_marker ::
    "externals \<Rightarrow> WorkflowMachines \<Rightarrow> string \<Rightarrow> bool \<Rightarrow> CommandAnnotations \<Rightarrow>
     WorkflowMachines result" where
  "set_patch_marker x s patch_id deprecated annotations =
     (let encountered_entry = map_of (wm_encountered_patch_markers s) patch_id
      in if encountered_entry = Some True then Ok s
         else
           let (r, flags) = has_change x patch_id (wm_replaying s) deprecated
                 (encountered_entry \<noteq> None)
                 (map fst (filter snd (wm_encountered_patch_markers s)))
                 (wm_observed_internal_flags s) annotations;
               s = s\<lparr>wm_observed_internal_flags := flags\<rparr>
           in res_bind r (\<lambda>(patch_machine, other_cmds).
              let (mkey, s) = add_cmd_to_wf_task s (into_machines M_Patch patch_machine) annotations
                    NeverResolves
              in res_bind (process_machine_responses x s mkey other_cmds) (\<lambda>s.
              Ok (s\<lparr>wm_encountered_patch_markers :=
                      AList.update patch_id True (wm_encountered_patch_markers s)\<rparr>))))"

text \<open>The body of the loop of \<^verbatim>\<open>handle_driven_results\<close>, for one command.\<close>

definition handle_driven_command ::
    "externals \<Rightarrow> WorkflowMachines \<Rightarrow> WFCommand \<Rightarrow> WorkflowMachines result" where
  "handle_driven_command x s cmd =
     (let annotations = wfc_annotations cmd
      in case wfc_variant cmd of
        AddTimer seq start_to_fire_timeout \<Rightarrow>
          res_map (\<lambda>nm. snd (add_cmd_to_wf_task s (into_machines M_Timer nm) annotations
                              (LangIssued (CID_Timer seq))))
            (new_timer \<lparr>stm_seq = seq, stm_start_to_fire_timeout = start_to_fire_timeout\<rparr> annotations)
      | UpsertSearchAttributes search_attributes \<Rightarrow>
          let s = s\<lparr>wm_drive_me := search_attributes_update (wm_drive_me s) search_attributes\<rparr>;
              (nm, flags) = upsert_search_attrs search_attributes (wm_observed_internal_flags s)
                (wm_replaying s)
          in Ok (snd (add_cmd_to_wf_task (s\<lparr>wm_observed_internal_flags := flags\<rparr>)
               (into_machines M_UpsertSearchAttributes nm) annotations NeverResolves))
      | CancelTimer seq \<Rightarrow>
          cancel_machine x s (CID_Timer seq)
            (\<lambda>m. case m of M_Timer t \<Rightarrow> lift_step M_Timer (timer_cancel t annotations)
                  | _ \<Rightarrow> wrong_machine m)
      | AddActivity attrs \<Rightarrow>
          res_map (\<lambda>nm. snd (add_cmd_to_wf_task s (into_machines M_Activity nm) annotations
                              (LangIssued (CID_Activity (sa_seq attrs)))))
            (act_new_scheduled attrs (wm_observed_internal_flags s)
               (determine_use_compatible_flag s (sa_versioning_intent attrs) (sa_task_queue attrs))
               annotations)
      | AddLocalActivity attrs \<Rightarrow>
          let seq = sla_seq attrs in
          (case from_schedule_la x attrs (ann_metadata annotations)
                  (ann_event_group_markers annotations) of
             Ok attrs \<Rightarrow>
               res_bind (new_local_activity x attrs (wm_replaying s) (wm_current_wf_time s)
                   (wm_observed_internal_flags s)) (\<lambda>(la, mach_resp).
               let (machkey, s) = insert_machine s (M_LocalActivity la);
                   s = s\<lparr>wm_id_to_machine :=
                           (wm_id_to_machine s)(CID_LocalActivity seq \<mapsto> machkey)\<rparr>
               in process_machine_responses x s machkey mach_resp)
           | Err e \<Rightarrow> Err (Fatal BadLocalActivity)
           | Panic \<Rightarrow> Panic)
      | RequestCancelActivity seq \<Rightarrow>
          cancel_machine x s (CID_Activity seq)
            (\<lambda>m. case m of M_Activity a \<Rightarrow> lift_step M_Activity (act_cancel a annotations)
                  | _ \<Rightarrow> wrong_machine m)
      | RequestCancelLocalActivityCmd seq \<Rightarrow>
          let activation_index = lad_activation_index (wm_local_activity_data s)
          in cancel_machine x s (CID_LocalActivity seq)
               (on_local_activity (\<lambda>lam. la_cancel x lam activation_index)
                  (Err (Nondeterminism WrongMachine)))
      | CompleteWorkflow res \<Rightarrow>
          res_map (\<lambda>nm. add_terminal_command x s (into_machines M_CompleteWorkflow nm) annotations)
            (complete_workflow res)
      | FailWorkflow failure \<Rightarrow>
          res_map (\<lambda>nm. add_terminal_command x s (into_machines M_FailWorkflow nm) annotations)
            (fail_workflow failure)
      | ContinueAsNew attrs \<Rightarrow>
          let attrs = augment_continue_as_new_with_current_values s attrs;
              use_compat = determine_use_compatible_flag s (cna_versioning_intent attrs)
                (cna_task_queue attrs)
          in res_map (\<lambda>nm. add_terminal_command x s (into_machines M_ContinueAsNewWorkflow nm)
                             annotations)
               (continue_as_new attrs use_compat)
      | CancelWorkflow details \<Rightarrow>
          res_map (\<lambda>nm. add_terminal_command x s (into_machines M_CancelWorkflow nm) annotations)
            (cancel_workflow details)
      | SetPatchMarker patch_id deprecated \<Rightarrow>
          set_patch_marker x s patch_id deprecated annotations
      | AddChildWorkflow attrs \<Rightarrow>
          res_map (\<lambda>nm. snd (add_cmd_to_wf_task s (into_machines M_ChildWorkflow nm) annotations
                              (LangIssued (CID_ChildWorkflowStart (sce_seq attrs)))))
            (child_new_scheduled attrs (wm_observed_internal_flags s)
               (determine_use_compatible_flag s (sce_versioning_intent attrs) (sce_task_queue attrs))
               annotations)
      | CancelChild child_workflow_seq reason \<Rightarrow>
          cancel_machine x s (CID_ChildWorkflowStart child_workflow_seq)
            (\<lambda>m. case m of
                    M_ChildWorkflow c \<Rightarrow> lift_step M_ChildWorkflow (child_cancel c reason annotations)
                  | _ \<Rightarrow> wrong_machine m)
      | RequestCancelExternalWorkflow seq workflow_execution reason \<Rightarrow>
          res_bind (ok_or workflow_execution (Fatal EmptyTarget)) (\<lambda>we.
          res_map (\<lambda>nm. snd (add_cmd_to_wf_task s (into_machines M_CancelExternal nm) annotations
                              (LangIssued (CID_CancelExternal seq))))
            (new_external_cancel seq we False
               (''Cancel requested by workflow with run id '' @ wm_run_id s @ '' with reason: '' @
                reason)))
      | SignalExternalWorkflow attrs \<Rightarrow>
          res_map (\<lambda>nm. snd (add_cmd_to_wf_task s (into_machines M_SignalExternal nm) annotations
                              (LangIssued (CID_SignalExternal (sew_seq attrs)))))
            (new_external_signal attrs (cfg_namespace (wm_worker_config s)))
      | CancelSignalWorkflow seq \<Rightarrow>
          cancel_machine x s (CID_SignalExternal seq)
            (\<lambda>m. case m of M_SignalExternal se \<Rightarrow> lift_step M_SignalExternal (signal_cancel se)
                  | _ \<Rightarrow> wrong_machine m)
      | QueryResponse _ \<Rightarrow> Panic
      | ModifyWorkflowProperties upserted_memo \<Rightarrow>
          Ok (snd (add_cmd_to_wf_task s
            (into_machines M_ModifyWorkflowProperties (modify_workflow_properties upserted_memo))
            annotations NeverResolves))
      | UpdateResponse protocol_instance_id response \<Rightarrow>
          res_bind (get_machine_by_msg s protocol_instance_id) (\<lambda>m_key.
          res_bind (call_machine s m_key
              (\<lambda>m. case m of M_Update u \<Rightarrow> lift_step M_Update (update_handle_response x u response)
                    | _ \<Rightarrow> wrong_machine m)) (\<lambda>(resps, s).
          process_machine_responses x s m_key resps))
      | ScheduleNexusOperationCmd attrs \<Rightarrow>
          Ok (snd (add_cmd_to_wf_task s
            (into_machines M_NexusOperation
               (nexus_new_scheduled attrs (wm_observed_internal_flags s) annotations))
            annotations (LangIssued (CID_NexusOperation (sno_seq attrs)))))
      | RequestCancelNexusOperation seq \<Rightarrow>
          cancel_machine x s (CID_NexusOperation seq)
            (\<lambda>m. case m of
                    M_NexusOperation n \<Rightarrow> lift_step M_NexusOperation (nexus_cancel n annotations)
                  | _ \<Rightarrow> wrong_machine m))"

fun handle_driven_results ::
    "externals \<Rightarrow> WorkflowMachines \<Rightarrow> WFCommand list \<Rightarrow> WorkflowMachines result" where
  "handle_driven_results x s [] = Ok s"
| "handle_driven_results x s (cmd # cmds) =
     res_bind (handle_driven_command x s cmd) (\<lambda>s. handle_driven_results x s cmds)"

section \<open>Preparing commands\<close>

text \<open>\<^verbatim>\<open>retain\<close> over the prepared commands.\<close>

fun retain_uncancelled ::
    "WorkflowMachines \<Rightarrow> CommandAndMachine list \<Rightarrow> CommandAndMachine list result" where
  "retain_uncancelled s [] = Ok []"
| "retain_uncancelled s (c # cs) =
     res_bind (wm_machine s (cam_machine c)) (\<lambda>m.
     res_bind (was_cancelled_before_sent_to_server m) (\<lambda>cancelled.
     res_map (\<lambda>kept. if cancelled then kept else c # kept) (retain_uncancelled s cs)))"

lemma process_no_responses: "process_machine_responses x s k [] = Ok s' \<Longrightarrow> s' = s"
  by (auto simp: res_map_eq_Ok)

text \<open>
  The \<^verbatim>\<open>while let\<close> over the commands of the current workflow task.  A machine that is told its
  command goes out answers nothing, so the queue only shrinks.
\<close>

function prepare_current_commands ::
    "externals \<Rightarrow> WorkflowMachines \<Rightarrow> WorkflowMachines result" where
  "prepare_current_commands x s =
     (case wm_current_wf_task_commands s of
        [] \<Rightarrow> Ok s
      | c # rest \<Rightarrow>
          let s = s\<lparr>wm_current_wf_task_commands := rest\<rparr> in
          res_bind (wm_machine s (cam_machine c)) (\<lambda>m.
          res_bind (was_cancelled_before_sent_to_server m) (\<lambda>cancelled.
          if cancelled then prepare_current_commands x s
          else
            res_bind (call_machine s (cam_machine c)
                (\<lambda>m. machines_handle_command x m (cmd_command_type (cam_command c))))
              (\<lambda>(machine_responses, s).
            res_bind (process_machine_responses x s (cam_machine c) machine_responses) (\<lambda>s.
            prepare_current_commands x (s\<lparr>wm_commands := wm_commands s @ [c]\<rparr>))))))"
  by pat_completeness auto

termination
  by (relation "measure (\<lambda>(_, s). length (wm_current_wf_task_commands s))")
    (auto simp: call_machine_Ok dest!: machines_handle_command_silent process_no_responses)

declare prepare_current_commands.simps [simp del]

definition prepare_commands :: "externals \<Rightarrow> WorkflowMachines \<Rightarrow> WorkflowMachines result" where
  "prepare_commands x s =
     res_bind (retain_uncancelled s (wm_commands s)) (\<lambda>kept.
     prepare_current_commands x (s\<lparr>wm_commands := kept\<rparr>))"

section \<open>Iterating\<close>

definition workflow_is_finished :: "WorkflowMachines \<Rightarrow> bool" where
  "workflow_is_finished s \<longleftrightarrow> wm_workflow_end_time s \<noteq> None"

text \<open>\<^verbatim>\<open>SystemTime::duration_since\<close> fails when time went backwards.\<close>

definition total_runtime :: "WorkflowMachines \<Rightarrow> StdDuration option" where
  "total_runtime s =
     (case (wm_workflow_start_time s, wm_workflow_end_time s) of
        (Some st, Some et) \<Rightarrow> if st \<le> et then Some (nat (et - st)) else None
      | _ \<Rightarrow> None)"

definition is_update_accept :: "WFCommand \<Rightarrow> bool" where
  "is_update_accept cmd =
     (case wfc_variant cmd of UpdateResponse _ (Some UR_Accepted) \<Rightarrow> True | _ \<Rightarrow> False)"

definition is_update_reject :: "WFCommand \<Rightarrow> bool" where
  "is_update_reject cmd =
     (case wfc_variant cmd of UpdateResponse _ (Some (UR_Rejected _)) \<Rightarrow> True | _ \<Rightarrow> False)"

definition iterate_machines :: "externals \<Rightarrow> WorkflowMachines \<Rightarrow> WorkflowMachines result" where
  "iterate_machines x s =
     (let (results, drive_me) = fetch_workflow_iteration_output (wm_drive_me s);
          s = s\<lparr>wm_drive_me := drive_me\<rparr>
      in res_bind
           (if wm_update_only_task s then
              if list_ex is_update_accept results then Ok (s\<lparr>wm_update_only_task := False\<rparr>)
              else if list_ex (\<lambda>cmd. \<not> is_update_reject cmd) results
              then Err (Nondeterminism UnexpectedCommand)
              else Ok s
            else Ok s) (\<lambda>s.
         res_bind (handle_driven_results x s results) (\<lambda>s.
         res_bind (apply_local_activity_peeked_resolutions x s False) (\<lambda>s.
         res_bind (release_held_local_activity_resolutions_if_idle x s) (\<lambda>s.
         prepare_commands x s)))))"

end
