(* ===== verification/ApplyHistory.thy ===== *)
theory ApplyHistory
  imports WorkflowMachines
begin

text \<open>
  The orchestrator of a run
  (\<^verbatim>\<open>crates/sdk-core/src/worker/workflow/machines/workflow_machines.rs\<close>), second part: history
  coming in.  A workflow task sequence is taken from the update, its events are given to the
  machines, the next sequence is looked at for markers and updates that must be known beforehand,
  and an activation for the language side is put together.
\<close>

section \<open>Failed workflow tasks\<close>

definition MAX_FAILED_WFTS :: nat where
  "MAX_FAILED_WFTS = 100"

definition note_failed_wft :: "WorkflowMachines \<Rightarrow> i64 \<Rightarrow> WorkflowMachines" where
  "note_failed_wft s scheduled_event_id =
     (let wft = wm_last_wft s
      in if wfa_scheduled_event_id wft \<noteq> scheduled_event_id \<or> wfa_started_event_id wft = 0 then s
         else
           let ids = btree_insert (wfa_started_event_id wft) (wm_failed_wft_started_ids s)
           in s\<lparr>wm_failed_wft_started_ids :=
                  (if length ids > MAX_FAILED_WFTS then tl ids else ids)\<rparr>)"

definition note_wft_event :: "externals \<Rightarrow> HistoryEvent \<Rightarrow> WorkflowMachines \<Rightarrow> WorkflowMachines" where
  "note_wft_event x event s =
     (case he_attributes event of
        Some (A_WorkflowTaskScheduled attempt) \<Rightarrow>
          s\<lparr>wm_last_wft := WftAttempt_default\<lparr>wfa_scheduled_event_id := he_event_id event,
              wfa_attempt := of_int (max attempt 0)\<rparr>\<rparr>
      | Some (A_WorkflowTaskStarted a) \<Rightarrow>
          if wts_scheduled_event_id a = wfa_scheduled_event_id (wm_last_wft s)
          then s\<lparr>wm_last_wft := (wm_last_wft s)\<lparr>wfa_started_event_id := he_event_id event,
                   wfa_started_time := Option.bind (he_event_time event) (x_to_system_time x)\<rparr>\<rparr>
          else s
      | Some (A_WorkflowTaskCompleted a) \<Rightarrow>
          let wft = wm_last_wft s;
              newer = (case wm_completed_wft s of
                  None \<Rightarrow> True | Some c \<Rightarrow> wfa_started_event_id c < wfa_started_event_id wft)
          in if wtc_scheduled_event_id a = wfa_scheduled_event_id wft \<and> wfa_started_event_id wft > 0 \<and>
                newer
             then s\<lparr>wm_completed_wft := Some wft\<rparr> else s
      | Some (A_WorkflowTaskFailed a) \<Rightarrow> note_failed_wft s (wtf_scheduled_event_id a)
      | Some (A_WorkflowTaskTimedOut scheduled_event_id) \<Rightarrow> note_failed_wft s scheduled_event_id
      | _ \<Rightarrow> s)"

definition note_wft_events :: "externals \<Rightarrow> WorkflowMachines \<Rightarrow> HistoryEvent list \<Rightarrow> WorkflowMachines"
where
  "note_wft_events x s events = fold (note_wft_event x) events s"

section \<open>Single events\<close>

datatype EventHandlingOutcome = SkipEvent bool | SkipCommand | Normal

definition submachine_handle_event ::
    "externals \<Rightarrow> WorkflowMachines \<Rightarrow> MachineKey \<Rightarrow> HistEventData \<Rightarrow> WorkflowMachines result" where
  "submachine_handle_event x s sm event =
     res_bind (call_machine s sm (\<lambda>m. machines_handle_event x m event)) (\<lambda>(machine_responses, s).
     process_machine_responses x s sm machine_responses)"

text \<open>
  The local function \<^verbatim>\<open>skip_one_or_two_events\<close>: the upsert that goes with a skipped patch marker
  is skipped too.
\<close>

definition skip_one_or_two_events :: "HistoryEvent option \<Rightarrow> EventHandlingOutcome" where
  "skip_one_or_two_events next_event =
     SkipEvent (case Option.bind next_event he_attributes of
        Some (A_UpsertWorkflowSearchAttributes (Some sa)) \<Rightarrow> map_of sa VERSION_SEARCH_ATTR_KEY \<noteq> None
      | _ \<Rightarrow> False)"

definition patch_marker_handling ::
    "externals \<Rightarrow> HistoryEvent \<Rightarrow> Machines option \<Rightarrow> HistoryEvent option \<Rightarrow>
     EventHandlingOutcome result" where
  "patch_marker_handling x event mach next_event =
     (let patch_machine = (case mach of Some (M_Patch pm) \<Rightarrow> Some pm | _ \<Rightarrow> None)
      in case get_patch_marker_details x event of
           Some (patch_name, deprecated) \<Rightarrow>
             (case patch_machine of
                Some pm \<Rightarrow>
                  if \<not> matches_patch pm patch_name \<and> deprecated
                  then Ok (skip_one_or_two_events next_event) else Ok Normal
              | None \<Rightarrow>
                  if deprecated then Ok (skip_one_or_two_events next_event)
                  else Err (Nondeterminism BadPatch))
         | None \<Rightarrow> if patch_machine \<noteq> None then Ok SkipCommand else Ok Normal)"

text \<open>
  The loop that looks for the command of an event, over the commands still queued.  It ends with
  the machine that took the event, or without one when the event is to be skipped.
\<close>

fun consume_command ::
    "externals \<Rightarrow> WorkflowMachines \<Rightarrow> HistEventData \<Rightarrow> HistoryEvent option \<Rightarrow>
     CommandAndMachine list \<Rightarrow>
     (EventHandlingOutcome \<times> MachineKey option \<times> WorkflowMachines) result" where
  "consume_command x s event_dat next_event [] =
     res_bind (patch_marker_handling x (hed_event event_dat) None next_event) (\<lambda>eho.
     case eho of
       SkipEvent b \<Rightarrow> Ok (SkipEvent b, None, s\<lparr>wm_commands := []\<rparr>)
     | _ \<Rightarrow> Err (Nondeterminism NoCommandForEvent))"
| "consume_command x s event_dat next_event (command # cs) =
     res_bind (wm_machine s (cam_machine command)) (\<lambda>m.
     res_bind (patch_marker_handling x (hed_event event_dat) (Some m) next_event) (\<lambda>eho.
     case eho of
       SkipCommand \<Rightarrow> consume_command x s event_dat next_event cs
     | SkipEvent b \<Rightarrow> Ok (SkipEvent b, None, s\<lparr>wm_commands := command # cs\<rparr>)
     | Normal \<Rightarrow>
         res_bind (was_cancelled_before_sent_to_server m) (\<lambda>canceled_before_sent.
         if canceled_before_sent then consume_command x s event_dat next_event cs
         else res_map (\<lambda>s. (Normal, Some (cam_machine command), s))
                (submachine_handle_event x (s\<lparr>wm_commands := cs\<rparr>) (cam_machine command) event_dat))))"

definition handle_command_event ::
    "externals \<Rightarrow> WorkflowMachines \<Rightarrow> HistEventData \<Rightarrow> HistoryEvent option \<Rightarrow>
     (EventHandlingOutcome \<times> WorkflowMachines) result" where
  "handle_command_event x s event_dat next_event =
     (let event = hed_event event_dat;
          by_command =
            res_bind (consume_command x s event_dat next_event (wm_commands s)) (\<lambda>(eho, consumed, s).
            case consumed of
              None \<Rightarrow> Ok (eho, s)
            | Some k \<Rightarrow>
                res_bind (wm_machine s k) (\<lambda>m.
                res_bind (is_final_state m) (\<lambda>final.
                Ok (Normal, if final then s
                            else s\<lparr>wm_machines_by_event_id :=
                                    AList.update (he_event_id event) k (wm_machines_by_event_id s)\<rparr>))))
      in if is_local_activity_marker event then
           res_bind (ok_or (event_local_activity_marker_data x event) (Fatal MarkerUnparsable)) (\<lambda>deets.
           res_bind (get_machine_key s (CID_LocalActivity (lam_seq deets))) (\<lambda>mkey.
           res_bind (wm_machine s mkey) (\<lambda>m.
           case m of
             M_LocalActivity lam \<Rightarrow>
               res_bind (la_marker_should_get_special_handling lam) (\<lambda>special.
               if special
               then res_map (\<lambda>s. (Normal, s)) (submachine_handle_event x s mkey event_dat)
               else by_command)
           | _ \<Rightarrow> Err (Fatal WrongMachine))))
         else by_command)"

text \<open>
  \<^verbatim>\<open>workflow_activation::SignalWorkflow::from\<close> and \<^verbatim>\<open>CancelWorkflow::from\<close> build the jobs;
  an event of these types with other attributes is ignored.
\<close>

definition handle_non_stateful_event ::
    "externals \<Rightarrow> WorkflowMachines \<Rightarrow> HistEventData \<Rightarrow> WorkflowMachines result" where
  "handle_non_stateful_event x s event_dat =
     (let event = hed_event event_dat; et = he_event_type event; attrs = he_attributes event
      in if et = E_WorkflowExecutionStarted then
           (case attrs of
              Some (A_WorkflowExecutionStarted attrs) \<Rightarrow>
                res_bind
                  (case he_event_time event of
                     Some st \<Rightarrow>
                       res_map (\<lambda>as_systime. set_current_time
                           (s\<lparr>wm_workflow_start_time := Some as_systime\<rparr>) as_systime)
                         (ok_or (x_to_system_time x st) (Fatal TimeConversion))
                   | None \<Rightarrow> Ok s) (\<lambda>s.
                Ok (s\<lparr>wm_drive_me := driven_start x (wm_drive_me s) (wm_workflow_id s)
                        (x_seed_hash x (wes_original_execution_run_id attrs))
                        (unwrap_or (he_event_time event) (0, 0)) attrs\<rparr>))
            | _ \<Rightarrow> Err (Fatal MissingAttributes))
         else if et = E_WorkflowTaskScheduled then
           let (key, s) = insert_machine s (M_WorkflowTask (wft_new (wm_next_started_event_id s)))
           in res_map (\<lambda>s. s\<lparr>wm_machines_by_event_id :=
                            AList.update (he_event_id event) key (wm_machines_by_event_id s)\<rparr>)
                (submachine_handle_event x s key event_dat)
         else if et = E_WorkflowExecutionSignaled then
           (case attrs of
              Some (A_WorkflowExecutionSignaled attrs) \<Rightarrow>
                Ok (wm_send_job s (J_SignalWorkflow attrs (he_event_id event)))
            | _ \<Rightarrow> Ok s)
         else if et = E_WorkflowExecutionCancelRequested then
           (case attrs of
              Some (A_WorkflowExecutionCancelRequested cause) \<Rightarrow>
                Ok (wm_send_job s (J_CancelWorkflow cause))
            | _ \<Rightarrow> Ok s)
         else Err (Fatal StatefulEvent))"

text \<open>\<^verbatim>\<open>u64::try_from(..).unwrap_or_default()\<close>.\<close>

definition note_wft_started :: "WorkflowMachines \<Rightarrow> HistoryEvent \<Rightarrow> WorkflowMachines" where
  "note_wft_started s event =
     (case he_attributes event of
        Some (A_WorkflowTaskStarted attrs) \<Rightarrow>
          s\<lparr>wm_history_size_bytes :=
              (if wts_history_size_bytes attrs < 0 then 0 else of_int (wts_history_size_bytes attrs)),
            wm_continue_as_new_suggested := wts_suggest_continue_as_new attrs,
            wm_suggest_continue_as_new_reasons := wts_suggest_continue_as_new_reasons attrs,
            wm_target_worker_deployment_version_changed :=
              wts_target_worker_deployment_version_changed attrs\<rparr>
      | _ \<Rightarrow> s)"

definition wm_handle_event ::
    "externals \<Rightarrow> WorkflowMachines \<Rightarrow> HistEventData \<Rightarrow> HistoryEvent option \<Rightarrow>
     (EventHandlingOutcome \<times> WorkflowMachines) result" where
  "wm_handle_event x s0 event_dat next_event =
     (let event = hed_event event_dat;
          s = (if is_final_wf_execution_event event
               then s0\<lparr>wm_have_seen_terminal_event := True\<rparr> else s0)
      in if is_ignorable event then Ok (Normal, s)
         else if he_event_type event \<in> {E_WorkflowExecutionTerminated, E_WorkflowExecutionTimedOut}
         then
           if next_event \<noteq> None \<or> \<not> hed_current_task_is_last_in_history event_dat
           then Err (Fatal HistoryOrder) else Ok (Normal, s)
         else if he_event_type event = E_Unspecified \<or> he_attributes event = None then
           if \<not> he_worker_may_ignore event then Err (Fatal MissingAttributes)
           else Ok (SkipEvent False, s)
         else if is_command_event event then handle_command_event x s event_dat next_event
         else
           let s = note_wft_started s event
           in res_map (\<lambda>s. (Normal, s))
                (case get_initial_command_event_id event of
                   Some initial_cmd_id \<Rightarrow>
                     res_bind (ok_or (map_of (wm_machines_by_event_id s) initial_cmd_id)
                         (Nondeterminism MissingMachine)) (\<lambda>mkey.
                     submachine_handle_event x s mkey event_dat)
                 | None \<Rightarrow> handle_non_stateful_event x s event_dat))"

section \<open>Protocol messages\<close>

definition handle_protocol_message ::
    "externals \<Rightarrow> WorkflowMachines \<Rightarrow> IncomingProtocolMessage \<Rightarrow> WorkflowMachines result" where
  "handle_protocol_message x s message =
     (case ipm_sequencing_id message of
        Some (SeqEventId seq_id) \<Rightarrow>
          res_bind (update_init (ipm_id message) (ipm_protocol_instance_id message) seq_id
              (ipm_body message) (wm_replaying s)) (\<lambda>um.
          let (mk, s) = add_new_protocol_machine s (M_Update (num_machine um))
                (ipm_protocol_instance_id message)
          in process_machine_responses x s mk [num_response um])
      | _ \<Rightarrow> Err (Fatal ProtocolMessage))"

fun handle_protocol_messages ::
    "externals \<Rightarrow> WorkflowMachines \<Rightarrow> IncomingProtocolMessage list \<Rightarrow> WorkflowMachines result" where
  "handle_protocol_messages x s [] = Ok s"
| "handle_protocol_messages x s (msg # msgs) =
     res_bind (handle_protocol_message x s msg) (\<lambda>s. handle_protocol_messages x s msgs)"

text \<open>\<^verbatim>\<open>IncomingProtocolMessage::try_from(&event).context(..)?\<close>.\<close>

definition message_from_event :: "HistoryEvent \<Rightarrow> IncomingProtocolMessage result" where
  "message_from_event event =
     (case IncomingProtocolMessage_try_from_event event of
        Ok msg \<Rightarrow> Ok msg | Err _ \<Rightarrow> Err (Fatal ProtocolMessage) | Panic \<Rightarrow> Panic)"

section \<open>Applying a workflow task\<close>

definition wdv_from_str :: "string \<Rightarrow> WorkerDeploymentVersion option" where
  "wdv_from_str v =
     (case dropWhile (\<lambda>c. c \<noteq> CHR ''.'') v of
        [] \<Rightarrow> None
      | _ # build_id \<Rightarrow> Some \<lparr>wdv_deployment_name = takeWhile (\<lambda>c. c \<noteq> CHR ''.'') v,
                              wdv_build_id = build_id\<rparr>)"

text \<open>The macro \<^verbatim>\<open>apply_wft_complete_data!\<close>.\<close>

definition apply_wft_complete_data ::
    "WorkflowMachines \<Rightarrow> WorkflowTaskCompletedEventAttributes \<Rightarrow> WorkflowMachines" where
  "apply_wft_complete_data s wtc =
     (let s = s\<lparr>wm_observed_internal_flags :=
            add_from_complete wtc (wm_observed_internal_flags s)\<rparr>;
          ver = \<lparr>wdv_deployment_name = [], wdv_build_id = []\<rparr>;
          ver = (case wtc_worker_version_build_id wtc of
              Some bid \<Rightarrow> ver\<lparr>wdv_build_id := bid\<rparr> | None \<Rightarrow> ver);
          ver = (if wtc_worker_deployment_name wtc \<noteq> []
                 then ver\<lparr>wdv_deployment_name := wtc_worker_deployment_name wtc\<rparr> else ver);
          ver = (if wtc_worker_deployment_version wtc \<noteq> []
                 then unwrap_or (wdv_from_str (wtc_worker_deployment_version wtc)) ver else ver);
          ver = unwrap_or (wtc_deployment_version wtc) ver
      in if \<not> wdv_is_empty ver then s\<lparr>wm_current_wft_deployment_info := Some ver\<rparr> else s)"

text \<open>The loop over the events with a look at the completion after the last one.\<close>

fun apply_completed_events :: "WorkflowMachines \<Rightarrow> HistoryEvent list \<Rightarrow> WorkflowMachines" where
  "apply_completed_events s [] = s"
| "apply_completed_events s (event # rest) =
     (let s = (case he_attributes event of
            Some (A_WorkflowTaskCompleted wtc) \<Rightarrow> apply_wft_complete_data s wtc | _ \<Rightarrow> s);
          s = (if rest = [] then
                 (case peek_next_wft_completed (wm_last_history_from_server s) (he_event_id event) of
                    Some wtc \<Rightarrow> apply_wft_complete_data s wtc | None \<Rightarrow> s)
               else s)
      in apply_completed_events s rest)"

text \<open>
  The test that ends replay: an event that core did not produce, after the last workflow task that
  was started before, in the task that holds the end of history.
\<close>

definition ends_replay :: "WorkflowMachines \<Rightarrow> bool \<Rightarrow> HistoryEvent \<Rightarrow> bool" where
  "ends_replay s has_final_event event \<longleftrightarrow>
     wm_replaying s \<and> \<not> wm_preparing_legacy_query s \<and> has_final_event \<and>
     he_event_id event > hu_previous_wft_started_id (wm_last_history_from_server s) \<and>
     he_event_type event \<noteq> E_WorkflowTaskCompleted \<and> \<not> is_command_event event"

definition is_update_admitted :: "HistoryEvent \<Rightarrow> bool" where
  "is_update_admitted event =
     (case he_attributes event of Some (A_WorkflowExecutionUpdateAdmitted _) \<Rightarrow> True | _ \<Rightarrow> False)"

definition processable_by :: "i64 \<Rightarrow> IncomingProtocolMessage \<Rightarrow> bool" where
  "processable_by for_event_id msg =
     (case processable_after_event_id msg of Some eid \<Rightarrow> eid \<le> for_event_id | None \<Rightarrow> False)"

text \<open>
  A durable update that was admitted is turned into the message that would have come for it: kept
  for its acceptance on replay, otherwise used now.  The event itself needs no handling.
\<close>

definition admit_update ::
    "WorkflowMachines \<Rightarrow> (string \<rightharpoonup> IncomingProtocolMessage) \<Rightarrow> bool \<Rightarrow> HistoryEvent \<Rightarrow>
     (WorkflowMachines \<times> (string \<rightharpoonup> IncomingProtocolMessage) \<times> bool) result" where
  "admit_update s admitted do_handle event =
     (if is_update_admitted event then
        res_map (\<lambda>msg.
            if wm_replaying s
            then (s, admitted(ipm_protocol_instance_id msg \<mapsto> msg), False)
            else (s\<lparr>wm_protocol_msgs := wm_protocol_msgs s @ [msg]\<rparr>, admitted, False))
          (message_from_event event)
      else Ok (s, admitted, do_handle))"

text \<open>
  The loop over the events of the sequence.  \<open>admitted\<close> and \<open>do_handle\<close> are its
  \<^verbatim>\<open>update_admitted_event_messages\<close> and \<^verbatim>\<open>do_handle_event\<close>.
\<close>

fun apply_events ::
    "externals \<Rightarrow> bool \<Rightarrow> WorkflowMachines \<Rightarrow> (string \<rightharpoonup> IncomingProtocolMessage) \<Rightarrow> bool \<Rightarrow>
     HistoryEvent list \<Rightarrow> (WorkflowMachines \<times> (string \<rightharpoonup> IncomingProtocolMessage)) result" where
  "apply_events x has_final_event s admitted do_handle [] = Ok (s, admitted)"
| "apply_events x has_final_event s admitted do_handle (event # rest) =
     (let eid = he_event_id event;
          next_event = (case rest of [] \<Rightarrow> None | e # _ \<Rightarrow> Some e)
      in if eid \<noteq> wm_last_processed_event s + 1 then Err (Fatal HistoryOrder)
         else
           res_bind (admit_update
               (if ends_replay s has_final_event event then s\<lparr>wm_replaying := False\<rparr> else s)
               admitted do_handle event) (\<lambda>(s, admitted, do_handle).
           let processable_msgs = filter (processable_by (eid - 1)) (wm_protocol_msgs s);
               s = s\<lparr>wm_protocol_msgs :=
                       filter (\<lambda>m. \<not> processable_by (eid - 1) m) (wm_protocol_msgs s)\<rparr> in
           res_bind (handle_protocol_messages x s processable_msgs) (\<lambda>s.
           res_bind
             (if do_handle then
                res_map (\<lambda>(eho, s). (s, eho \<noteq> SkipEvent True))
                  (wm_handle_event x s \<lparr>hed_event = event, hed_replaying = wm_replaying s,
                     hed_current_task_is_last_in_history = has_final_event\<rparr> next_event)
              else Ok (s, True)) (\<lambda>(s, do_handle).
           apply_events x has_final_event (s\<lparr>wm_last_processed_event := eid\<rparr>) admitted do_handle
             rest))))"

section \<open>Looking ahead\<close>

datatype DelayedAction =
    LocalActivityMarkerAction CompleteLocalActivityData
  | ProtocolMessageAction IncomingProtocolMessage

text \<open>The scan of the next sequence for patch markers, local activity markers and updates.\<close>

fun look_ahead ::
    "externals \<Rightarrow> WorkflowMachines \<Rightarrow> (string \<rightharpoonup> IncomingProtocolMessage) \<Rightarrow> HistoryEvent list \<Rightarrow>
     (DelayedAction list \<times> WorkflowMachines) result" where
  "look_ahead x s admitted [] = Ok ([], s)"
| "look_ahead x s admitted (e # es) =
     (case get_patch_marker_details x e of
        Some (patch_id, _) \<Rightarrow>
          look_ahead x (wm_send_job
             (s\<lparr>wm_encountered_patch_markers :=
                  AList.update patch_id False (wm_encountered_patch_markers s)\<rparr>)
             (J_NotifyHasPatch patch_id)) admitted es
      | None \<Rightarrow>
          if is_local_activity_marker e then
            res_bind (ok_or (into_local_activity_marker_details x e) (Fatal MarkerUnparsable))
              (\<lambda>la_dat.
            res_map (\<lambda>(actions, s). (LocalActivityMarkerAction la_dat # actions, s))
              (look_ahead x s admitted es))
          else
            (case he_attributes e of
               Some (A_WorkflowExecutionUpdateAccepted atts) \<Rightarrow>
                 res_bind (case admitted (wua_protocol_instance_id atts) of
                             Some msg \<Rightarrow> Ok msg | None \<Rightarrow> message_from_event e) (\<lambda>msg.
                 res_map (\<lambda>(actions, s). (ProtocolMessageAction msg # actions, s))
                   (look_ahead x s (admitted(wua_protocol_instance_id atts := None)) es))
             | _ \<Rightarrow> look_ahead x s admitted es))"

definition should_queue_marker :: "WorkflowMachines \<Rightarrow> u32 \<Rightarrow> bool result" where
  "should_queue_marker s seq =
     (case wm_id_to_machine s (CID_LocalActivity seq) of
        Some mk \<Rightarrow>
          res_bind (wm_machine s mk) (\<lambda>m.
          case m of M_LocalActivity lam \<Rightarrow> la_will_accept_resolve_marker lam | _ \<Rightarrow> Ok False)
      | None \<Rightarrow> Ok True)"

fun apply_delayed_actions ::
    "externals \<Rightarrow> WorkflowMachines \<Rightarrow> DelayedAction list \<Rightarrow> WorkflowMachines result" where
  "apply_delayed_actions x s [] = Ok s"
| "apply_delayed_actions x s (LocalActivityMarkerAction la_dat # actions) =
     res_bind (should_queue_marker s (lam_seq (cla_marker_dat la_dat))) (\<lambda>should_queue.
     res_bind
       (if should_queue then
          apply_local_activity_peeked_resolutions x
            (s\<lparr>wm_local_activity_data :=
                 lad_insert_peeked_marker x (wm_local_activity_data s) la_dat\<rparr>) False
        else Ok s) (\<lambda>s.
     apply_delayed_actions x s actions))"
| "apply_delayed_actions x s (ProtocolMessageAction pm # actions) =
     res_bind (handle_protocol_message x s pm) (\<lambda>s. apply_delayed_actions x s actions)"

definition has_non_update_jobs :: "Job list \<Rightarrow> bool" where
  "has_non_update_jobs jobs \<longleftrightarrow> list_ex (\<lambda>job. \<not> is_validated_update_job job) jobs"

text \<open>
  The two loops over the local activity machines when replay is over: first each is told, then
  their responses are processed.
\<close>

fun tell_non_replay ::
    "externals \<Rightarrow> WorkflowMachines \<Rightarrow> MachineKey list \<Rightarrow>
     ((MachineKey \<times> MachineResponse list) list \<times> WorkflowMachines) result" where
  "tell_non_replay x s [] = Ok ([], s)"
| "tell_non_replay x s (k # ks) =
     (case wm_all_machines s k of
        Some (M_LocalActivity _) \<Rightarrow>
          res_bind (call_machine s k (on_local_activity (encountered_non_replay_wft x) (Ok [])))
            (\<lambda>(resps, s).
          res_map (\<lambda>(rest, s). ((k, resps) # rest, s)) (tell_non_replay x s ks))
      | _ \<Rightarrow> tell_non_replay x s ks)"

fun process_response_sets ::
    "externals \<Rightarrow> WorkflowMachines \<Rightarrow> (MachineKey \<times> MachineResponse list) list \<Rightarrow>
     WorkflowMachines result" where
  "process_response_sets x s [] = Ok s"
| "process_response_sets x s ((mkey, resp_set) # resps) =
     res_bind (process_machine_responses x s mkey resp_set) (\<lambda>s. process_response_sets x s resps)"

text \<open>Taking and peeking never return an error, so nothing is lost in the conversion.\<close>

definition from_history :: "('a, Status) res \<Rightarrow> 'a result" where
  "from_history r =
     (case r of Ok v \<Rightarrow> Ok v | Err _ \<Rightarrow> Err (Fatal OtherReason) | Panic \<Rightarrow> Panic)"

definition next_events ::
    "WorkflowMachines \<Rightarrow> (HistoryEvent list \<times> bool \<times> WorkflowMachines) result" where
  "next_events s =
     res_bind (from_history (take_next_wft_sequence (wm_last_history_from_server s)
         (wm_current_started_event_id s))) (\<lambda>(next_wft, update).
     let s = s\<lparr>wm_last_history_from_server := update\<rparr>
     in case next_wft of
          ReplayOver \<Rightarrow> Ok ([], True, s)
        | WFT evts has_final_event \<Rightarrow>
            Ok (filter (\<lambda>e. he_event_id e > wm_last_processed_event s) evts, has_final_event, s)
        | NeedFetch \<Rightarrow> Err (Fatal HistoryOrder))"

text \<open>What happens after the events: look ahead, apply what was found, start what was waiting.\<close>

definition after_events ::
    "externals \<Rightarrow> i64 \<Rightarrow> WorkflowMachines \<Rightarrow> (string \<rightharpoonup> IncomingProtocolMessage) \<Rightarrow>
     WorkflowMachines result" where
  "after_events x last_handled_wft_started_id s admitted =
     res_bind (from_history (peek_next_wft_sequence (wm_last_history_from_server s)
         last_handled_wft_started_id)) (\<lambda>peeked.
     res_bind (look_ahead x s admitted peeked) (\<lambda>(delayed_actions, s).
     res_bind (apply_delayed_actions x s delayed_actions) (\<lambda>s.
     res_bind (release_held_local_activity_resolutions_if_idle x s) (\<lambda>s.
     let pending_jobs = dw_outgoing_wf_activation_jobs (wm_drive_me s);
         s = (if \<not> wm_replaying s \<and> pending_jobs \<noteq> []
              then s\<lparr>wm_update_only_task := (\<not> has_non_update_jobs pending_jobs)\<rparr> else s)
     in if \<not> wm_replaying s \<and> \<not> wm_update_only_task s then
          res_bind (tell_non_replay x s [0..<wm_next_key s]) (\<lambda>(resps, s).
          process_response_sets x s resps)
        else Ok s))))"

text \<open>What happens before them: completions are read, and the task that starts is noted.\<close>

definition before_events :: "WorkflowMachines \<Rightarrow> HistoryEvent list \<Rightarrow> WorkflowMachines" where
  "before_events s events =
     (let s = (if length events > 0
                then s\<lparr>wm_local_activity_data := lad_wft_applied (wm_local_activity_data s)\<rparr> else s);
          s = apply_completed_events s events;
          s = (if events = [] then s\<lparr>wm_replaying := wm_preparing_legacy_query s\<rparr> else s)
      in if events \<noteq> [] \<and> he_event_type (last events) = E_WorkflowTaskStarted
         then s\<lparr>wm_next_started_event_id := he_event_id (last events)\<rparr> else s)"

definition apply_next_wft_from_history ::
    "externals \<Rightarrow> WorkflowMachines \<Rightarrow> (nat \<times> WorkflowMachines) result" where
  "apply_next_wft_from_history x s =
     (if wm_have_seen_terminal_event s
      then Ok (0, s\<lparr>wm_replaying := wm_preparing_legacy_query s\<rparr>)
      else
        let last_handled_wft_started_id = wm_current_started_event_id s in
        res_bind (next_events s) (\<lambda>(events, has_final_event, s).
        res_bind (apply_events x has_final_event (before_events s events) Map.empty True events)
          (\<lambda>(s, admitted).
        res_map (\<lambda>s. (length events, s)) (after_events x last_handled_wft_started_id s admitted))))"

definition ready_to_apply_next_wft :: "WorkflowMachines \<Rightarrow> bool" where
  "ready_to_apply_next_wft s =
     can_take_next_wft_sequence (wm_last_history_from_server s) (wm_current_started_event_id s)"

section \<open>New work\<close>

definition new_history_from_server ::
    "externals \<Rightarrow> WorkflowMachines \<Rightarrow> HistoryUpdate \<Rightarrow> WorkflowMachines result" where
  "new_history_from_server x s update =
     (let s = note_wft_events x s (hu_events update);
          s = s\<lparr>wm_last_history_from_server := update,
                wm_replaying := (wm_preparing_legacy_query s \<or> hu_previous_wft_started_id update > 0)\<rparr>
      in res_map snd (apply_next_wft_from_history x s))"

text \<open>The check for left-over protocol messages stops debug builds only.\<close>

definition new_work_from_server ::
    "externals \<Rightarrow> WorkflowMachines \<Rightarrow> HistoryUpdate \<Rightarrow> IncomingProtocolMessage list \<Rightarrow> bool \<Rightarrow>
     WorkflowMachines result" where
  "new_work_from_server x s update protocol_messages preparing_legacy_query =
     new_history_from_server x
       (s\<lparr>wm_protocol_msgs := protocol_messages,
          wm_preparing_legacy_query := preparing_legacy_query, wm_update_only_task := False\<rparr>) update"

definition reset_last_started_id :: "WorkflowMachines \<Rightarrow> i64 \<Rightarrow> WorkflowMachines" where
  "reset_last_started_id s started_id =
     (let s = s\<lparr>wm_current_started_event_id := started_id,
                wm_last_processed_event := wm_last_processed_event s - 2\<rparr>;
          (removed, kept) =
            partition (\<lambda>(mid, _). mid > wm_last_processed_event s) (wm_machines_by_event_id s)
      in s\<lparr>wm_machines_by_event_id := kept,
           wm_all_machines :=
             (\<lambda>k. if k \<in> snd ` set removed then None else wm_all_machines s k)\<rparr>)"

section \<open>Results for the language side and the server\<close>

record WorkflowActivation =
  wac_timestamp :: "Timestamp option"
  wac_is_replaying :: bool
  wac_run_id :: string
  wac_history_length :: u32
  wac_jobs :: "Job list"
  wac_available_internal_flags :: "u32 list"
  wac_history_size_bytes :: u64
  wac_continue_as_new_suggested :: bool
  wac_deployment_version_for_current_task :: "WorkerDeploymentVersion option"
  wac_last_sdk_version :: string
  wac_suggest_continue_as_new_reasons :: "int list"
  wac_target_worker_deployment_version_changed :: bool

definition get_wf_activation ::
    "externals \<Rightarrow> WorkflowMachines \<Rightarrow> WorkflowActivation \<times> WorkflowMachines" where
  "get_wf_activation x s =
     (let (jobs, drive_me) = drain_jobs (wm_drive_me s);
          s = s\<lparr>wm_drive_me := drive_me\<rparr>;
          s = (if has_non_update_jobs jobs then s\<lparr>wm_update_only_task := False\<rparr> else s);
          all_query = list_all is_query_job jobs;
          s = (if \<not> all_query
               then s\<lparr>wm_local_activity_data := lad_activation_dispatched (wm_local_activity_data s)\<rparr>
               else s);
          is_replaying = (wm_replaying s \<or> all_query);
          s = (if is_replaying then s
               else s\<lparr>wm_current_wft_deployment_info :=
                        computed_deployment_version (wm_worker_config s)\<rparr>)
      in (\<lparr>wac_timestamp = map_option (x_from_system_time x) (wm_current_wf_time s),
           wac_is_replaying = is_replaying, wac_run_id = wm_run_id s,
           wac_history_length = of_int (wm_last_processed_event s), wac_jobs = jobs,
           wac_available_internal_flags = all_lang (wm_observed_internal_flags s),
           wac_history_size_bytes = wm_history_size_bytes s,
           wac_continue_as_new_suggested = wm_continue_as_new_suggested s,
           wac_deployment_version_for_current_task = wm_current_wft_deployment_info s,
           wac_last_sdk_version =
             unwrap_or (flags_last_sdk_version (wm_observed_internal_flags s)) [],
           wac_suggest_continue_as_new_reasons = wm_suggest_continue_as_new_reasons s,
           wac_target_worker_deployment_version_changed =
             wm_target_worker_deployment_version_changed s\<rparr>, s))"

definition has_pending_la_resolutions :: "WorkflowMachines \<Rightarrow> bool" where
  "has_pending_la_resolutions s \<longleftrightarrow>
     list_ex is_local_activity_resolution (dw_outgoing_wf_activation_jobs (wm_drive_me s))"

definition get_metadata_for_wft_complete ::
    "WorkflowMachines \<Rightarrow> WorkflowTaskCompletedMetadata \<times> WorkflowMachines" where
  "get_metadata_for_wft_complete s =
     (let (metadata, flags) = gather_for_wft_complete (wm_observed_internal_flags s)
      in (metadata, s\<lparr>wm_current_wft_deployment_info :=
                        computed_deployment_version (wm_worker_config s),
                      wm_observed_internal_flags := flags\<rparr>))"

definition add_lang_used_flags :: "WorkflowMachines \<Rightarrow> u32 list \<Rightarrow> WorkflowMachines" where
  "add_lang_used_flags s flags =
     s\<lparr>wm_observed_internal_flags := add_lang_used flags (wm_observed_internal_flags s)\<rparr>"

fun unfinished_commands ::
    "WorkflowMachines \<Rightarrow> CommandAndMachine list \<Rightarrow> Command list result" where
  "unfinished_commands s [] = Ok []"
| "unfinished_commands s (c # cs) =
     res_bind (wm_machine s (cam_machine c)) (\<lambda>m.
     res_bind (is_final_state m) (\<lambda>final.
     res_map (\<lambda>rest. if final then rest else cam_command c # rest) (unfinished_commands s cs)))"

definition get_commands :: "WorkflowMachines \<Rightarrow> (Command list \<times> WorkflowMachines) result" where
  "get_commands s =
     (let s = s\<lparr>wm_observed_internal_flags := write_all_known (wm_observed_internal_flags s)\<rparr>
      in res_map (\<lambda>cs. (cs, s)) (unfinished_commands s (wm_commands s)))"

text \<open>\<^verbatim>\<open>MachinesWFTResponseContent::messages\<close>.\<close>

definition take_messages :: "WorkflowMachines \<Rightarrow> ProtocolMessage list \<times> WorkflowMachines" where
  "take_messages s = (wm_message_outbox s, s\<lparr>wm_message_outbox := []\<rparr>)"

end
