(* ===== verification/RunInvariant.thy ===== *)
theory RunInvariant
  imports ApplyHistory
begin

text \<open>
  The invariant of a run: every machine satisfies its own invariant, and every key the tables and
  the command queues hold belongs to a machine.  All operations of the orchestrator keep it, and
  under it none of them reaches a panic: neither the \<^verbatim>\<open>expect\<close> on a machine's existence nor a
  panic inside a machine.
\<close>

section \<open>The invariant\<close>

definition known :: "WorkflowMachines \<Rightarrow> MachineKey \<Rightarrow> bool" where
  "known s k \<longleftrightarrow> wm_all_machines s k \<noteq> None"

definition named :: "WorkflowMachines \<Rightarrow> string \<Rightarrow> MachineKey \<Rightarrow> bool" where
  "named s name k \<longleftrightarrow> (\<exists>m. wm_all_machines s k = Some m \<and> machine_name m = name)"

text \<open>The kind of machine a command of the language side creates.\<close>

fun machine_for :: "CommandID \<Rightarrow> string" where
  "machine_for (CID_Timer _) = ''TimerMachine''"
| "machine_for (CID_Activity _) = ''ActivityMachine''"
| "machine_for (CID_LocalActivity _) = ''LocalActivityMachine''"
| "machine_for (CID_ChildWorkflowStart _) = ''ChildWorkflowMachine''"
| "machine_for (CID_SignalExternal _) = ''SignalExternalMachine''"
| "machine_for (CID_CancelExternal _) = ''CancelExternalMachine''"
| "machine_for (CID_NexusOperation _) = ''NexusOperationMachine''"

text \<open>
  All keys in the tables and queues satisfy \<open>P\<close>; the two tables by command id and by protocol
  instance are typed: their keys satisfy \<open>N\<close> for the name of the kind that belongs there.
\<close>

definition all_keys ::
    "(MachineKey \<Rightarrow> bool) \<Rightarrow> (string \<Rightarrow> MachineKey \<Rightarrow> bool) \<Rightarrow> WorkflowMachines \<Rightarrow> bool" where
  "all_keys P N s \<longleftrightarrow>
     (\<forall>cid k. wm_id_to_machine s cid = Some k \<longrightarrow> N (machine_for cid) k) \<and>
     (\<forall>i k. wm_machines_by_protocol_instance_id s i = Some k \<longrightarrow> N ''UpdateMachine'' k) \<and>
     (\<forall>i k. (i, k) \<in> set (wm_machines_by_event_id s) \<longrightarrow> P k) \<and>
     (\<forall>c \<in> set (wm_commands s). P (cam_machine c)) \<and>
     (\<forall>c \<in> set (wm_current_wf_task_commands s). P (cam_machine c))"

definition all_machines_good :: "WorkflowMachines \<Rightarrow> bool" where
  "all_machines_good s \<longleftrightarrow>
     (\<forall>k m. wm_all_machines s k = Some m \<longrightarrow> machines_good m \<and> k < wm_next_key s)"

definition wm_inv :: "WorkflowMachines \<Rightarrow> bool" where
  "wm_inv s \<longleftrightarrow> all_machines_good s \<and> all_keys (known s) (named s) s"

lemma all_keys_mono:
  "all_keys P N s \<Longrightarrow> (\<And>k. P k \<Longrightarrow> Q k) \<Longrightarrow> (\<And>n k. N n k \<Longrightarrow> M n k) \<Longrightarrow> all_keys Q M s"
  unfolding all_keys_def by blast

lemma named_known: "named s n k \<Longrightarrow> known s k"
  by (auto simp: named_def known_def)

abbreviation la_at :: "WorkflowMachines \<Rightarrow> MachineKey \<Rightarrow> bool" where
  "la_at s k \<equiv> named s ''LocalActivityMachine'' k"

text \<open>Machines are only added, and keep their kind.\<close>

definition extends :: "WorkflowMachines \<Rightarrow> WorkflowMachines \<Rightarrow> bool" where
  "extends s s' \<longleftrightarrow> (\<forall>k. known s k \<longrightarrow> known s' k) \<and> (\<forall>n k. named s n k \<longrightarrow> named s' n k)"

lemma extends_refl [simp]: "extends s s"
  by (simp add: extends_def)

lemma extends_trans [trans]: "extends s s' \<Longrightarrow> extends s' s'' \<Longrightarrow> extends s s''"
  unfolding extends_def by blast

text \<open>An operation that does not panic and, when it succeeds, keeps the invariant.\<close>

definition safe :: "WorkflowMachines \<Rightarrow> ('a \<Rightarrow> WorkflowMachines) \<Rightarrow> 'a result \<Rightarrow> bool" where
  "safe s state r \<longleftrightarrow>
     r \<noteq> Panic \<and> (\<forall>v. r = Ok v \<longrightarrow> wm_inv (state v) \<and> extends s (state v))"

lemma safe_simps [simp]:
  "safe s state (Ok v) \<longleftrightarrow> wm_inv (state v) \<and> extends s (state v)"
  "safe s state (Err e)"
  "\<not> safe s state Panic"
  by (auto simp: safe_def)

lemma safe_res_map [simp]: "safe s state (res_map f r) \<longleftrightarrow> safe s (\<lambda>v. state (f v)) r"
  by (cases r) auto

lemma safe_bind:
  assumes "safe s state r"
    and "\<And>v. r = Ok v \<Longrightarrow> wm_inv (state v) \<Longrightarrow> extends s (state v) \<Longrightarrow> safe (state v) state' (f v)"
  shows "safe s state' (res_bind r f)"
proof (cases r)
  case (Ok v)
  then have "wm_inv (state v)" "extends s (state v)" using assms(1) by auto
  from assms(2) [OF Ok this] this(2) Ok show ?thesis
    by (auto simp: safe_def intro: extends_trans)
qed (use assms(1) in auto)

text \<open>A result that carries no state.\<close>

lemma safe_bind_pure:
  assumes "r \<noteq> Panic" and "\<And>v. r = Ok v \<Longrightarrow> safe s state (f v)"
  shows "safe s state (res_bind r f)"
  using assms by (cases r) auto

section \<open>Calling a machine\<close>

lemma wm_machine_safe:
  assumes "wm_inv s" and "known s k"
  obtains m where "wm_all_machines s k = Some m" "wm_machine s k = Ok m" "machines_good m"
  using assms by (auto simp: wm_inv_def all_machines_good_def known_def wm_machine_def)

lemma update_machine_inv:
  assumes "wm_inv s" and "wm_all_machines s k = Some m" and "machines_good m'"
    and "machine_name m' = machine_name m"
  shows "wm_inv (s\<lparr>wm_all_machines := (wm_all_machines s)(k \<mapsto> m'), wm_observed_internal_flags := fl\<rparr>)"
      (is "wm_inv ?s'")
    and "extends s (s\<lparr>wm_all_machines := (wm_all_machines s)(k \<mapsto> m'), wm_observed_internal_flags := fl\<rparr>)"
proof -
  have known: "known ?s' = known s" using assms(2) by (auto simp: known_def fun_eq_iff)
  have named: "named ?s' = named s" using assms(2,4) by (auto simp: named_def fun_eq_iff)
  show "extends s ?s'" by (simp add: extends_def known named)
  have "all_machines_good ?s'" using assms by (simp add: wm_inv_def all_machines_good_def)
  then show "wm_inv ?s'" using assms(1) unfolding wm_inv_def known named by (simp add: all_keys_def)
qed

lemma call_machine_safe:
  assumes inv: "wm_inv s" and k: "known s k" and f: "well_behaved kind f"
    and kind: "\<And>m fl. wm_all_machines s k = Some m \<Longrightarrow> kind (store_flags fl m)"
  shows "safe s snd (call_machine s k f)"
    and "call_machine s k f = Ok (rs, s') \<Longrightarrow> list_ex is_request_cancel rs \<Longrightarrow> la_at s' k"
    and "call_machine s k f = Ok (rs, s') \<Longrightarrow> known s' k"
proof -
  obtain m where m: "wm_all_machines s k = Some m" "wm_machine s k = Ok m" "machines_good m"
    using wm_machine_safe [OF inv k] .
  let ?fl = "wm_observed_internal_flags s"
  obtain r m' where r: "f (store_flags ?fl m) = (r, m')" by fastforce
  have behaved: "r \<noteq> Panic"
    "r = Ok rs \<Longrightarrow> machines_good m' \<and> machine_name m' = machine_name m \<and>
      (list_ex is_request_cancel rs \<longrightarrow> is_local_activity m)" for rs
    using f kind [OF m(1), of ?fl] m(3) r unfolding well_behaved_def by fastforce+
  show "safe s snd (call_machine s k f)"
    using behaved m r update_machine_inv [OF inv m(1)]
    by (cases r) (simp_all add: call_machine_def)
  show "call_machine s k f = Ok (rs, s') \<Longrightarrow> list_ex is_request_cancel rs \<Longrightarrow> la_at s' k"
    using behaved(2) m r by (auto simp: call_machine_Ok named_def)
  show "call_machine s k f = Ok (rs, s') \<Longrightarrow> known s' k"
    by (auto simp: call_machine_Ok known_def)
qed

section \<open>Responses\<close>

text \<open>The invariant reads the machines, the tables and the queues only.\<close>

lemma wm_inv_frame:
  assumes "wm_inv s" and "wm_all_machines s' = wm_all_machines s" and "wm_next_key s' = wm_next_key s"
    and "wm_id_to_machine s' = wm_id_to_machine s"
    and "wm_machines_by_protocol_instance_id s' = wm_machines_by_protocol_instance_id s"
    and "wm_machines_by_event_id s' = wm_machines_by_event_id s"
    and "wm_commands s' = wm_commands s"
    and "wm_current_wf_task_commands s' = wm_current_wf_task_commands s"
  shows "wm_inv s'"
proof -
  have "known s' = known s" "named s' = named s"
    using assms(2) by (simp_all add: known_def named_def fun_eq_iff)
  then show ?thesis using assms by (simp add: wm_inv_def all_machines_good_def all_keys_def)
qed

lemma extends_frame: "wm_all_machines s' = wm_all_machines s \<Longrightarrow> extends s s'"
  by (simp add: extends_def named_def known_def)

lemma known_frame:
  assumes "wm_all_machines s' = wm_all_machines s"
  shows "known s' = known s" and "named s' = named s"
  using assms by (simp_all add: known_def named_def fun_eq_iff)

lemma wm_inv_updates [simp]:
  "wm_inv (s\<lparr>wm_local_activity_data := v0\<rparr>) \<longleftrightarrow> wm_inv s"
  "wm_inv (s\<lparr>wm_drive_me := v1\<rparr>) \<longleftrightarrow> wm_inv s"
  "wm_inv (s\<lparr>wm_observed_internal_flags := v2\<rparr>) \<longleftrightarrow> wm_inv s"
  "wm_inv (s\<lparr>wm_replaying := v3\<rparr>) \<longleftrightarrow> wm_inv s"
  "wm_inv (s\<lparr>wm_protocol_msgs := v4\<rparr>) \<longleftrightarrow> wm_inv s"
  "wm_inv (s\<lparr>wm_last_processed_event := v5\<rparr>) \<longleftrightarrow> wm_inv s"
  "wm_inv (s\<lparr>wm_update_only_task := v6\<rparr>) \<longleftrightarrow> wm_inv s"
  "wm_inv (s\<lparr>wm_encountered_patch_markers := v7\<rparr>) \<longleftrightarrow> wm_inv s"
  "wm_inv (s\<lparr>wm_last_history_from_server := v8\<rparr>) \<longleftrightarrow> wm_inv s"
  "wm_inv (s\<lparr>wm_next_started_event_id := v9\<rparr>) \<longleftrightarrow> wm_inv s"
  "wm_inv (s\<lparr>wm_have_seen_terminal_event := v10\<rparr>) \<longleftrightarrow> wm_inv s"
  "wm_inv (s\<lparr>wm_workflow_start_time := v11\<rparr>) \<longleftrightarrow> wm_inv s"
  "wm_inv (s\<lparr>wm_current_wf_time := v12\<rparr>) \<longleftrightarrow> wm_inv s"
  by (auto elim!: wm_inv_frame)

lemma extends_updates [simp]:
  "extends s0 (s\<lparr>wm_local_activity_data := v0\<rparr>) \<longleftrightarrow> extends s0 s"
  "extends s0 (s\<lparr>wm_drive_me := v1\<rparr>) \<longleftrightarrow> extends s0 s"
  "extends s0 (s\<lparr>wm_observed_internal_flags := v2\<rparr>) \<longleftrightarrow> extends s0 s"
  "extends s0 (s\<lparr>wm_replaying := v3\<rparr>) \<longleftrightarrow> extends s0 s"
  "extends s0 (s\<lparr>wm_protocol_msgs := v4\<rparr>) \<longleftrightarrow> extends s0 s"
  "extends s0 (s\<lparr>wm_last_processed_event := v5\<rparr>) \<longleftrightarrow> extends s0 s"
  "extends s0 (s\<lparr>wm_update_only_task := v6\<rparr>) \<longleftrightarrow> extends s0 s"
  "extends s0 (s\<lparr>wm_encountered_patch_markers := v7\<rparr>) \<longleftrightarrow> extends s0 s"
  "extends s0 (s\<lparr>wm_last_history_from_server := v8\<rparr>) \<longleftrightarrow> extends s0 s"
  "extends s0 (s\<lparr>wm_next_started_event_id := v9\<rparr>) \<longleftrightarrow> extends s0 s"
  "extends s0 (s\<lparr>wm_have_seen_terminal_event := v10\<rparr>) \<longleftrightarrow> extends s0 s"
  "extends s0 (s\<lparr>wm_workflow_start_time := v11\<rparr>) \<longleftrightarrow> extends s0 s"
  "extends s0 (s\<lparr>wm_current_wf_time := v12\<rparr>) \<longleftrightarrow> extends s0 s"
  by (simp_all add: extends_def named_def known_def)

lemma extends_from_updates [simp]:
  "extends (s\<lparr>wm_local_activity_data := v0\<rparr>) s1 \<longleftrightarrow> extends s s1"
  "extends (s\<lparr>wm_drive_me := v1\<rparr>) s1 \<longleftrightarrow> extends s s1"
  "extends (s\<lparr>wm_observed_internal_flags := v2\<rparr>) s1 \<longleftrightarrow> extends s s1"
  "extends (s\<lparr>wm_replaying := v3\<rparr>) s1 \<longleftrightarrow> extends s s1"
  "extends (s\<lparr>wm_protocol_msgs := v4\<rparr>) s1 \<longleftrightarrow> extends s s1"
  "extends (s\<lparr>wm_last_processed_event := v5\<rparr>) s1 \<longleftrightarrow> extends s s1"
  "extends (s\<lparr>wm_update_only_task := v6\<rparr>) s1 \<longleftrightarrow> extends s s1"
  "extends (s\<lparr>wm_encountered_patch_markers := v7\<rparr>) s1 \<longleftrightarrow> extends s s1"
  "extends (s\<lparr>wm_last_history_from_server := v8\<rparr>) s1 \<longleftrightarrow> extends s s1"
  "extends (s\<lparr>wm_next_started_event_id := v9\<rparr>) s1 \<longleftrightarrow> extends s s1"
  "extends (s\<lparr>wm_have_seen_terminal_event := v10\<rparr>) s1 \<longleftrightarrow> extends s s1"
  "extends (s\<lparr>wm_workflow_start_time := v11\<rparr>) s1 \<longleftrightarrow> extends s s1"
  "extends (s\<lparr>wm_current_wf_time := v12\<rparr>) s1 \<longleftrightarrow> extends s s1"
  by (simp_all add: extends_def named_def known_def)

lemma safe_updates [simp]:
  "safe (s\<lparr>wm_local_activity_data := v0\<rparr>) state r \<longleftrightarrow> safe s state r"
  "safe (s\<lparr>wm_drive_me := v1\<rparr>) state r \<longleftrightarrow> safe s state r"
  "safe (s\<lparr>wm_observed_internal_flags := v2\<rparr>) state r \<longleftrightarrow> safe s state r"
  "safe (s\<lparr>wm_replaying := v3\<rparr>) state r \<longleftrightarrow> safe s state r"
  "safe (s\<lparr>wm_protocol_msgs := v4\<rparr>) state r \<longleftrightarrow> safe s state r"
  "safe (s\<lparr>wm_last_processed_event := v5\<rparr>) state r \<longleftrightarrow> safe s state r"
  "safe (s\<lparr>wm_update_only_task := v6\<rparr>) state r \<longleftrightarrow> safe s state r"
  "safe (s\<lparr>wm_encountered_patch_markers := v7\<rparr>) state r \<longleftrightarrow> safe s state r"
  "safe (s\<lparr>wm_last_history_from_server := v8\<rparr>) state r \<longleftrightarrow> safe s state r"
  "safe (s\<lparr>wm_next_started_event_id := v9\<rparr>) state r \<longleftrightarrow> safe s state r"
  "safe (s\<lparr>wm_have_seen_terminal_event := v10\<rparr>) state r \<longleftrightarrow> safe s state r"
  "safe (s\<lparr>wm_workflow_start_time := v11\<rparr>) state r \<longleftrightarrow> safe s state r"
  "safe (s\<lparr>wm_current_wf_time := v12\<rparr>) state r \<longleftrightarrow> safe s state r"
  by (simp_all add: safe_def)

lemma insert_machine_inv:
  assumes "wm_inv s" and "machines_good m" and "insert_machine s m = (k, s')"
  shows "wm_inv s'" and "extends s s'" and "known s' k" and "named s' (machine_name m) k"
proof -
  have s': "k = wm_next_key s" "s' = s\<lparr>wm_all_machines := (wm_all_machines s)(wm_next_key s \<mapsto> m),
      wm_next_key := Suc (wm_next_key s)\<rparr>" using assms(3) by (auto simp: insert_machine_def)
  have new: "wm_all_machines s (wm_next_key s) = None"
    using assms(1) unfolding wm_inv_def all_machines_good_def
    by (metis less_irrefl option.exhaust)
  then show ext: "extends s s'" by (auto simp: s' extends_def named_def known_def)
  have "all_machines_good s'" using assms(1,2)
    by (auto simp: s' wm_inv_def all_machines_good_def less_Suc_eq)
  moreover have "all_keys (known s') (named s') s"
    using assms(1) ext by (auto simp: wm_inv_def extends_def elim!: all_keys_mono)
  then have "all_keys (known s') (named s') s'" by (simp add: s' all_keys_def)
  ultimately show "wm_inv s'" by (simp add: wm_inv_def)
  show "known s' k" "named s' (machine_name m) k" by (simp_all add: s' named_def known_def)
qed

text \<open>A command of the language side gets a machine of the kind its id stands for.\<close>

definition right_kind :: "CommandIdKind \<Rightarrow> Machines \<Rightarrow> bool" where
  "right_kind cid m \<longleftrightarrow> (case cid of LangIssued c \<Rightarrow> machine_name m = machine_for c | _ \<Rightarrow> True)"

lemma right_kind_simps [simp]:
  "right_kind (LangIssued c) m \<longleftrightarrow> machine_name m = machine_for c"
  "right_kind CoreInternal m" "right_kind NeverResolves m"
  by (simp_all add: right_kind_def)

lemma add_cmd_inv:
  assumes "wm_inv s" and "machines_good (nm_machine nm)" and kind: "right_kind cid (nm_machine nm)"
    and add: "add_cmd_to_wf_task s nm ann cid = (k, s')"
  shows "wm_inv s'" and "extends s s'" and "known s' k"
proof -
  obtain k1 s1 where ins: "insert_machine s (nm_machine nm) = (k1, s1)" by fastforce
  note new = insert_machine_inv [OF assms(1,2) ins]
  have s': "k = k1" "wm_all_machines s' = wm_all_machines s1" "wm_next_key s' = wm_next_key s1"
    using add ins
    by (auto simp: add_cmd_to_wf_task_def add_new_command_machine_def Let_def
        split: CommandIdKind.splits)
  note known = known_frame [OF s'(2)]
  show "extends s s'" using new(2) by (simp add: extends_def known)
  show "known s' k" using new(3) s'(1) by (simp add: known)
  have "all_keys (known s1) (named s1) s'" using add ins new(1,3,4) kind
    by (cases cid) (auto simp: add_cmd_to_wf_task_def add_new_command_machine_def Let_def wm_inv_def
        all_keys_def split: if_splits)
  then show "wm_inv s'" using new(1) by (simp add: wm_inv_def known all_machines_good_def s'(2,3))
qed

lemma add_terminal_inv:
  assumes "wm_inv s" and "machines_good (nm_machine nm)"
  shows "wm_inv (add_terminal_command x s nm ann)" (is "wm_inv ?s'")
    and "extends s (add_terminal_command x s nm ann)"
proof -
  obtain k s1 where ins: "insert_machine s (nm_machine nm) = (k, s1)" by fastforce
  note new = insert_machine_inv [OF assms ins]
  note add = add_terminal_command_def add_new_command_machine_def ins
  have "wm_all_machines ?s' = wm_all_machines s1" by (simp add: add)
  note known = known_frame [OF this]
  show "extends s ?s'" using new(2) unfolding extends_def known .
  show "wm_inv ?s'"
    using new(1,3) unfolding wm_inv_def known by (auto simp: add all_machines_good_def all_keys_def)
qed

lemma la_machine_kind: "la_at s k \<Longrightarrow> wm_all_machines s k = Some m \<Longrightarrow> is_local_activity (store_flags fl m)"
  by (auto simp: named_def)

lemma new_external_cancel_not_Panic: "new_external_cancel seq we oc reason \<noteq> Panic"
  by (simp add: new_external_cancel_def expect_event_def from_parts_def on_event_def
      cancel_external_arms_def)

lemma core_originated_safe:
  assumes "wm_inv s"
  shows "safe s (\<lambda>s. s) (core_originated_command s attrs ann)"
proof -
  have "machines_good (nm_machine (into_machines M_CancelExternal nm))"
    if "new_external_cancel seq we oc reason = Ok nm" for seq we oc reason nm
    using new_external_cancel_Ok [OF that] by (simp add: into_machines_def)
  moreover have "machines_good (nm_machine (into_machines M_UpsertSearchAttributes
      (upsert_search_attrs_internal sa)))" for sa
    by (simp add: into_machines_def upsert_search_attrs_internal_def upsert_create_new_def good_machine_def
        from_parts_def)
  ultimately show ?thesis
    using add_cmd_inv(1,2) [OF assms] new_external_cancel_not_Panic
    by (auto simp: core_originated_command_def safe_def res_map_eq_Ok prod_eq_iff
        split: CommandAttributes.splits)
qed

lemma request_cancel_safe:
  assumes "wm_inv s" and la: "la_at s k"
  shows "safe s snd (request_cancel_local_activity x s k seq)"
proof -
  have lad: "wm_inv (s\<lparr>wm_local_activity_data := lad\<rparr>)" "known (s\<lparr>wm_local_activity_data := lad\<rparr>) k"
    "extends s (s\<lparr>wm_local_activity_data := lad\<rparr>)" for lad
    using assms(1) named_known [OF la]
    by (auto intro: wm_inv_frame extends_frame simp: known_def)
  have call: "safe s snd (call_machine (s\<lparr>wm_local_activity_data := lad\<rparr>) k
      (on_local_activity (\<lambda>lam. la_own x lam c) Panic))" for lad c
  proof -
    have "safe (s\<lparr>wm_local_activity_data := lad\<rparr>) snd (call_machine (s\<lparr>wm_local_activity_data := lad\<rparr>) k
      (on_local_activity (\<lambda>lam. la_own x lam c) Panic))"
      by (rule call_machine_safe(1) [where kind = is_local_activity, OF lad(1,2) well_behaved_la])
        (use la in \<open>auto simp: named_def\<close>)
    then show ?thesis using lad(3) by (auto simp: safe_def intro: extends_trans)
  qed
  show ?thesis
    using lad assms(1) call [where c = "La_do_resolve_with _"]
      call [where c = "La_do_resolve _ _ _ _ _ _"]
    by (auto simp: request_cancel_local_activity_def Let_def split: option.splits)
qed

lemma process_response_safe:
  assumes "wm_inv s" and "known s k" and "is_request_cancel r \<longrightarrow> la_at s k"
  shows "safe s snd (process_response x s k r)"
proof (cases "is_request_cancel r")
  case True
  then obtain seq where "r = RequestCancelLocalActivity seq"
    by (cases r) (auto simp: is_request_cancel_def)
  with True assms(3) request_cancel_safe [OF assms(1)] show ?thesis by (simp add: process_response_def)
next
  case False
  have issue: "wm_inv (s\<lparr>wm_current_wf_task_commands :=
      wm_current_wf_task_commands s @ [\<lparr>cam_command = c, cam_machine = k\<rparr>]\<rparr>)" (is "wm_inv ?s'") for c
  proof -
    have "wm_all_machines ?s' = wm_all_machines s" by simp
    note known = known_frame [OF this]
    show ?thesis using assms(1,2) unfolding wm_inv_def known
      by (auto simp: all_machines_good_def all_keys_def)
  qed
  show ?thesis
    using assms(1) False core_originated_safe [OF assms(1)] issue
    by (cases r) (auto simp: process_response_def is_request_cancel_def wm_send_job_def
        task_started_def set_current_time_def intro: extends_frame elim!: wm_inv_frame
        split: option.splits)
qed

lemma process_responses_safe:
  assumes "wm_inv s" and "known s k" and "list_ex is_request_cancel rs \<longrightarrow> la_at s k"
  shows "safe s (\<lambda>s. s) (process_machine_responses x s k rs)"
  using assms
proof (induction x s k rs rule: process_machine_responses.induct)
  case (1 x s k)
  obtain m where "wm_machine s k = Ok m" using wm_machine_safe [OF 1(1,2)] .
  with 1 show ?case by simp
next
  case (2 x s k r rs)
  obtain m where m: "wm_machine s k = Ok m" using wm_machine_safe [OF 2(2,3)] .
  have "safe s snd (process_response x s k r)"
    using 2(2-4) by (intro process_response_safe) auto
  then have "safe s (\<lambda>s. s) (res_bind (process_response x s k r)
      (\<lambda>(further, s). process_machine_responses x s k (further @ rs)))"
  proof (rule safe_bind, clarify)
    fix further s1
    assume step: "process_response x s k r = Ok (further, s1)"
      and inv: "wm_inv (snd (further, s1))" and ext: "extends s (snd (further, s1))"
    have "list_ex is_request_cancel (further @ rs) \<longrightarrow> la_at s1 k"
      using process_response_further [OF step] 2(4) ext by (auto simp: extends_def)
    with 2(1) [OF m step] inv ext 2(3)
    show "safe (snd (further, s1)) (\<lambda>s. s) (process_machine_responses x s1 k (further @ rs))"
      by (simp add: extends_def)
  qed
  then show ?case using m by simp
qed

section \<open>Commands of the language side\<close>

lemma call_then_process:
  assumes "wm_inv s" and "known s k" and "well_behaved (\<lambda>_. True) f"
    and call: "call_machine s k f = Ok (resps, s1)"
  shows "safe s1 (\<lambda>s. s) (process_machine_responses x s1 k resps)"
proof -
  note laws = call_machine_safe [OF assms(1-3)]
  have "wm_inv s1" using laws(1) call by simp
  moreover have "known s1 k" using laws(3) call by simp
  moreover have "list_ex is_request_cancel resps \<longrightarrow> la_at s1 k" using laws(2) call by simp
  ultimately show ?thesis by (rule process_responses_safe)
qed

lemma call_process_safe:
  assumes "wm_inv s" and "known s k" and "well_behaved (\<lambda>_. True) f"
  shows "safe s (\<lambda>s. s) (res_bind (call_machine s k f)
      (\<lambda>(resps, s). process_machine_responses x s k resps))"
proof (rule safe_bind, rule call_machine_safe(1) [OF assms])
  fix v
  assume "call_machine s k f = Ok v"
  then show "safe (snd v) (\<lambda>s. s)
      (case v of (resps, s) \<Rightarrow> process_machine_responses x s k resps)"
    using call_then_process [OF assms] by (cases v) auto
qed auto

lemma get_machine_key_known: "wm_inv s \<Longrightarrow> get_machine_key s cid = Ok k \<Longrightarrow> known s k"
  by (auto simp: wm_inv_def all_keys_def get_machine_key_def ok_or_def intro: named_known
      split: option.splits)

lemma get_machine_key_named:
  "wm_inv s \<Longrightarrow> get_machine_key s cid = Ok k \<Longrightarrow> named s (machine_for cid) k"
  by (auto simp: wm_inv_def all_keys_def get_machine_key_def ok_or_def split: option.splits)

lemma get_machine_key_no_panic [simp]: "get_machine_key s cid \<noteq> Panic"
  by (simp add: get_machine_key_def ok_or_def split: option.splits)

lemma get_machine_by_msg_known: "wm_inv s \<Longrightarrow> get_machine_by_msg s i = Ok k \<Longrightarrow> known s k"
  using named_known [of s "''UpdateMachine''" k]
  by (auto simp: wm_inv_def all_keys_def get_machine_by_msg_def ok_or_def split: option.splits)

lemma get_machine_by_msg_no_panic [simp]: "get_machine_by_msg s i \<noteq> Panic"
  by (simp add: get_machine_by_msg_def ok_or_def split: option.splits)

lemma cancel_machine_safe:
  assumes "wm_inv s" and "well_behaved (\<lambda>_. True) f"
  shows "safe s (\<lambda>s. s) (cancel_machine x s cid f)"
  unfolding cancel_machine_def
  by (rule safe_bind_pure) (auto intro: call_process_safe get_machine_key_known assms)

lemma well_behaved_la_err:
  "well_behaved (\<lambda>_. True) (on_local_activity (\<lambda>lam. la_cancel x lam i) (Err e))"
  "well_behaved (\<lambda>_. True) (on_local_activity (\<lambda>lam. la_try_resolve x lam r rt att b ost i) (Err e))"
  "well_behaved (\<lambda>_. True) (on_local_activity (\<lambda>lam. la_try_resolve_with_dat x lam d) (Err e))"
  using well_behaved_la_calls by fastforce+

lemma apply_peeked_safe:
  "wm_inv s \<Longrightarrow> safe s (\<lambda>s. s) (apply_local_activity_peeked_resolutions x s h)"
proof (induction x s h rule: apply_local_activity_peeked_resolutions.induct)
  case (1 x s h)
  note simps = apply_local_activity_peeked_resolutions.simps [of x s h]
  show ?case
  proof (cases "lad_peek_preresolution_seq (wm_local_activity_data s) h")
    case None
    then show ?thesis using 1 by (simp add: simps)
  next
    case (Some seq)
    note peek = Some
    show ?thesis
    proof (cases "get_machine_key s (CID_LocalActivity seq)")
      case (Ok k)
      obtain dat lad where taken: "lad_take_preresolution (wm_local_activity_data s) seq = Some (dat, lad)"
        using laq.peek_takes_front [OF peek] by metis
      let ?s = "s\<lparr>wm_local_activity_data := lad\<rparr>"
      let ?f = "on_local_activity (\<lambda>lam. la_try_resolve_with_dat x lam dat) (Err (Nondeterminism WrongMachine))"
      have s: "wm_inv ?s" "known ?s k" "extends s ?s"
        using 1(2) get_machine_key_known [OF 1(2) Ok]
        by (auto intro: wm_inv_frame extends_frame simp: known_def)
      have "safe ?s (\<lambda>s. s) (res_bind (call_machine ?s k ?f) (\<lambda>(responses, s).
          res_bind (process_machine_responses x s k responses) (\<lambda>s.
          apply_local_activity_peeked_resolutions x s h)))"
      proof (rule safe_bind, rule call_machine_safe(1) [OF s(1,2) well_behaved_la_err(3)])
        fix v
        assume v: "call_machine ?s k ?f = Ok v" "wm_inv (snd v)" "extends ?s (snd v)"
        obtain resps s1 where [simp]: "v = (resps, s1)" by (cases v)
        have "safe s1 (\<lambda>s. s) (process_machine_responses x s1 k resps)"
          using call_then_process [OF s(1,2) well_behaved_la_err(3)] v(1) by simp
        then show "safe (snd v) (\<lambda>s. s) (case v of (responses, s) \<Rightarrow>
            res_bind (process_machine_responses x s k responses)
              (\<lambda>s. apply_local_activity_peeked_resolutions x s h))"
          using "1.IH" [OF peek Ok taken refl _ refl] v(1) by (auto intro!: safe_bind)
      qed simp
      with s(3) show ?thesis
        by (auto simp: simps peek Ok taken safe_def intro: extends_trans)
    qed (use 1 peek in \<open>simp_all add: simps\<close>)
  qed
qed

lemma release_held_safe:
  "wm_inv s \<Longrightarrow> safe s (\<lambda>s. s) (release_held_local_activity_resolutions_if_idle x s)"
  by (simp add: release_held_local_activity_resolutions_if_idle_def apply_peeked_safe)

lemma local_resolution_safe: "wm_inv s \<Longrightarrow> safe s snd (local_resolution x s r)"
  unfolding local_resolution_def Let_def
proof (rule safe_bind_pure, simp)
  fix k
  assume inv: "wm_inv s" and k: "get_machine_key s (CID_LocalActivity (lar_seq r)) = Ok k"
  let ?f = "on_local_activity (\<lambda>lam. la_try_resolve x lam (lar_result r) (lar_runtime r) (lar_attempt r)
      (lar_backoff r) (lar_original_schedule_time r) (lad_activation_index (wm_local_activity_data s)))
      (Err (Nondeterminism WrongMachine))"
  note known = get_machine_key_known [OF inv k]
  show "safe s snd (res_bind (call_machine s k ?f) (\<lambda>(resps, s).
      res_bind (process_machine_responses x s k resps) (\<lambda>s. Ok (resps \<noteq> [],
        s\<lparr>wm_local_activity_data := lad_done_executing (wm_local_activity_data s) (lar_seq r)\<rparr>))))"
  proof (rule safe_bind, rule call_machine_safe(1) [OF inv known well_behaved_la_err(2)])
    fix v
    assume v: "call_machine s k ?f = Ok v" "wm_inv (snd v)" "extends s (snd v)"
    obtain resps s1 where [simp]: "v = (resps, s1)" by (cases v)
    have "safe s1 (\<lambda>s. s) (process_machine_responses x s1 k resps)"
      using call_then_process [OF inv known well_behaved_la_err(2)] v(1) by simp
    then show "safe (snd v) snd (case v of (resps, s) \<Rightarrow>
        res_bind (process_machine_responses x s k resps) (\<lambda>s. Ok (resps \<noteq> [],
          s\<lparr>wm_local_activity_data := lad_done_executing (wm_local_activity_data s) (lar_seq r)\<rparr>)))"
      by (auto intro!: safe_bind)
  qed simp
qed

end
