(* ===== verification/RunFrame.thy ===== *)
theory RunFrame
  imports ApplyHistory
begin

text \<open>
  What the operations of the orchestrator leave alone.  A relation between states that holds across
  every write to the fields the operations work on, and across every advance of the workflow's
  clock, holds across the operations themselves.  It is used for two relations: the fields that
  only the loop over the events writes are kept, and the clock never goes back.
\<close>

lemma look_ahead_cases:
  obtains (patch) pid b where "get_patch_marker_details x e = Some (pid, b)"
  | (marker) "get_patch_marker_details x e = None" "is_local_activity_marker e"
  | (update) a where "get_patch_marker_details x e = None" "\<not> is_local_activity_marker e"
      "he_attributes e = Some (A_WorkflowExecutionUpdateAccepted a)"
  | (other) "\<And>s adm es. look_ahead x s adm (e # es) = look_ahead x s adm es"
proof (cases "get_patch_marker_details x e")
  case None
  show ?thesis
  proof (cases "is_local_activity_marker e \<or>
      (\<exists>a. he_attributes e = Some (A_WorkflowExecutionUpdateAccepted a))")
    case False
    then have "look_ahead x s adm (e # es) = look_ahead x s adm es" for s adm es
      using None by (auto split: option.splits Attributes.splits)
    then show ?thesis by (rule other)
  qed (use None marker update in blast)
qed (use patch in auto)

lemma incoming_commands_kept [simp]:
  "dw_incoming_commands (send_job d j) = dw_incoming_commands d"
  "dw_incoming_commands (driven_start x d wid seed t attrs) = dw_incoming_commands d"
  "dw_incoming_commands (search_attributes_update d sa) = dw_incoming_commands d"
  by (auto simp: send_job_def driven_start_def search_attributes_update_def split: option.splits)

lemma completed_case:
  "Q s \<Longrightarrow> (\<And>wtc. Q (f wtc)) \<Longrightarrow>
   Q (case a of Some (A_WorkflowTaskCompleted wtc) \<Rightarrow> f wtc | _ \<Rightarrow> s)"
  by (auto split: option.splits Attributes.splits)

lemma next_events_Ok:
  assumes "next_events s = Ok (es, fin, s')"
  obtains u where "s' = s\<lparr>wm_last_history_from_server := u\<rparr>"
    "take_next_wft_sequence (wm_last_history_from_server s) (wm_current_started_event_id s) =
       Ok (ReplayOver, u) \<and> es = [] \<and> fin \<or>
     (\<exists>evts. take_next_wft_sequence (wm_last_history_from_server s) (wm_current_started_event_id s) =
       Ok (WFT evts fin, u) \<and> es = filter (\<lambda>e. he_event_id e > wm_last_processed_event s) evts)"
proof -
  from assms obtain nw u where "take_next_wft_sequence (wm_last_history_from_server s)
      (wm_current_started_event_id s) = Ok (nw, u)"
    by (auto simp: next_events_def res_bind_eq_Ok from_history_def split: res.splits)
  with assms that show ?thesis by (cases nw) (auto simp: next_events_def from_history_def)
qed

locale run_relation =
  fixes R :: "WorkflowMachines \<Rightarrow> WorkflowMachines \<Rightarrow> bool"
  assumes R_refl: "R s s"
    and R_trans: "R s s' \<Longrightarrow> R s' s'' \<Longrightarrow> R s s''"
    and R_clock: "R s (set_current_time s t)"
    and R_machines: "R s (s\<lparr>wm_all_machines := ms\<rparr>)" "R s (s\<lparr>wm_next_key := k\<rparr>)"
      "R s (s\<lparr>wm_machine_is_core_created := ks\<rparr>)" "R s (s\<lparr>wm_machines_by_event_id := es\<rparr>)"
      "R s (s\<lparr>wm_machines_by_protocol_instance_id := ps\<rparr>)" "R s (s\<lparr>wm_id_to_machine := is\<rparr>)"
    and R_outputs: "R s (s\<lparr>wm_commands := cs\<rparr>)" "R s (s\<lparr>wm_current_wf_task_commands := cs\<rparr>)"
      "R s (s\<lparr>wm_message_outbox := ms'\<rparr>)" "R s (s\<lparr>wm_encountered_patch_markers := pm\<rparr>)"
      "R s (s\<lparr>wm_local_activity_data := lad\<rparr>)"
      "dw_incoming_commands dm = dw_incoming_commands (wm_drive_me s) \<Longrightarrow> R s (s\<lparr>wm_drive_me := dm\<rparr>)"
      "R s (s\<lparr>wm_observed_internal_flags := fl\<rparr>)" "R s (s\<lparr>wm_update_only_task := b\<rparr>)"
    and R_started: "R s (s\<lparr>wm_current_started_event_id := i\<rparr>)" "R s (s\<lparr>wm_wft_start_time := ti\<rparr>)"
      "R s (s\<lparr>wm_workflow_start_time := ti\<rparr>)" "R s (s\<lparr>wm_workflow_end_time := ti\<rparr>)"
      "R s (s\<lparr>wm_have_seen_terminal_event := b\<rparr>)" "R s (s\<lparr>wm_history_size_bytes := sz\<rparr>)"
      "R s (s\<lparr>wm_continue_as_new_suggested := b\<rparr>)" "R s (s\<lparr>wm_suggest_continue_as_new_reasons := rs\<rparr>)"
      "R s (s\<lparr>wm_target_worker_deployment_version_changed := b\<rparr>)"
begin

lemmas R_steps = R_clock R_machines R_outputs R_started

lemmas R_updates = R_steps [THEN R_trans [rotated]]

lemma R_call_machine: "call_machine s k f = Ok (v, s') \<Longrightarrow> R s s'"
  by (auto simp: call_machine_Ok intro!: R_updates intro: R_refl)

lemma R_add_cmd: "R s (snd (add_cmd_to_wf_task s nm ann cid))"
  by (cases cid) (auto simp: add_cmd_to_wf_task_def add_new_command_machine_def insert_machine_def
      Let_def intro!: R_updates intro: R_refl)

lemma R_core_originated: "core_originated_command s attrs ann = Ok s' \<Longrightarrow> R s s'"
  by (auto simp: core_originated_command_def res_map_eq_Ok intro: R_add_cmd
      split: CommandAttributes.splits)

lemma R_request_cancel: "request_cancel_local_activity x s k seq = Ok (rs, s') \<Longrightarrow> R s s'"
  by (auto simp: request_cancel_local_activity_def Let_def
      dest!: R_call_machine intro: R_refl R_outputs R_trans
      split: if_splits option.splits)

lemma R_process_response: "process_response x s k r = Ok (further, s') \<Longrightarrow> R s s'"
  by (auto simp: process_response_def wm_send_job_def task_started_def res_map_eq_Ok
      dest!: R_core_originated R_request_cancel intro!: R_updates intro: R_refl
      split: MachineResponse.splits option.splits)

lemma R_process_responses: "process_machine_responses x s k rs = Ok s' \<Longrightarrow> R s s'"
proof (induction x s k rs rule: process_machine_responses.induct)
  case (2 x s k r rs)
  then obtain m further s1 where "wm_machine s k = Ok m"
    and step: "process_response x s k r = Ok (further, s1)"
    and rest: "process_machine_responses x s1 k (further @ rs) = Ok s'"
    by (auto simp: res_bind_eq_Ok)
  from "2.IH" [OF this(1,2) refl rest] R_process_response [OF step] show ?case by (blast intro: R_trans)
qed (auto simp: res_map_eq_Ok intro: R_refl)

lemma R_call_process:
  "res_bind (call_machine s k f) (\<lambda>(rs, s). process_machine_responses x s k rs) = Ok s' \<Longrightarrow> R s s'"
  by (auto simp: res_bind_eq_Ok dest!: R_call_machine R_process_responses intro: R_trans)

lemma R_submachine: "submachine_handle_event x s k d = Ok s' \<Longrightarrow> R s s'"
  unfolding submachine_handle_event_def by (rule R_call_process)

lemma R_cancel_machine: "cancel_machine x s cid f = Ok s' \<Longrightarrow> R s s'"
  by (auto simp: cancel_machine_def res_bind_eq_Ok
      dest!: R_call_machine R_process_responses intro: R_trans)

section \<open>Local activities\<close>

lemma R_apply_peeked: "apply_local_activity_peeked_resolutions x s h = Ok s' \<Longrightarrow> R s s'"
proof (induction x s h rule: apply_local_activity_peeked_resolutions.induct)
  case (1 x s h)
  from "1.prems" consider "s' = s"
    | seq k dat lad rs s1 s2 where "lad_peek_preresolution_seq (wm_local_activity_data s) h = Some seq"
      "get_machine_key s (CID_LocalActivity seq) = Ok k"
      "lad_take_preresolution (wm_local_activity_data s) seq = Some (dat, lad)"
      "call_machine (s\<lparr>wm_local_activity_data := lad\<rparr>) k (on_local_activity
         (\<lambda>lam. la_try_resolve_with_dat x lam dat) (Err (Nondeterminism WrongMachine))) = Ok (rs, s1)"
      "process_machine_responses x s1 k rs = Ok s2"
      "apply_local_activity_peeked_resolutions x s2 h = Ok s'"
    unfolding apply_local_activity_peeked_resolutions.simps [of x s h]
    by (auto simp: res_bind_eq_Ok split: option.splits res.splits prod.splits)
  then show ?case
  proof cases
    case 2
    note IH = "1.IH" [OF 2(1,2,3) refl 2(4) refl 2(5,6)]
    from R_call_machine [OF 2(4)] have "R s s1" by (blast intro: R_trans R_outputs)
    with R_process_responses [OF 2(5)] IH show ?thesis by (blast intro: R_trans)
  qed (simp add: R_refl)
qed

lemma R_release_held: "release_held_local_activity_resolutions_if_idle x s = Ok s' \<Longrightarrow> R s s'"
  by (auto simp: release_held_local_activity_resolutions_if_idle_def intro: R_apply_peeked R_refl
      split: if_splits)

lemma R_local_resolution: "local_resolution x s r = Ok (b, s') \<Longrightarrow> R s s'"
  by (auto simp: local_resolution_def res_bind_eq_Ok Let_def
      dest!: R_call_machine R_process_responses intro!: R_updates intro: R_trans)

section \<open>Commands\<close>

lemma R_add_terminal: "R s (add_terminal_command x s nm ann)"
  by (auto simp: add_terminal_command_def add_new_command_machine_def insert_machine_def
      intro!: R_updates intro: R_refl)

lemma R_add_cmd_to: "add_cmd_to_wf_task s nm ann cid = (k, s') \<Longrightarrow> R s s'"
  using R_add_cmd [of s nm ann cid] by simp

lemma R_insert: "insert_machine s m = (k, s') \<Longrightarrow> R s s'"
  by (auto simp: insert_machine_def intro!: R_updates intro: R_refl)

lemma R_set_patch_marker:
  assumes "set_patch_marker x s pid dep ann = Ok s'"
  shows "R s s'"
proof (cases "map_of (wm_encountered_patch_markers s) pid = Some True")
  case False
  obtain r fl where change: "has_change x pid (wm_replaying s) dep
      (map_of (wm_encountered_patch_markers s) pid \<noteq> None)
      (map fst (filter snd (wm_encountered_patch_markers s))) (wm_observed_internal_flags s) ann = (r, fl)"
    by fastforce
  with False assms obtain nm rs where "r = Ok (nm, rs)"
    by (auto simp: set_patch_marker_def Let_def res_bind_eq_Ok)
  obtain k s1 where add: "add_cmd_to_wf_task (s\<lparr>wm_observed_internal_flags := fl\<rparr>)
      (into_machines M_Patch nm) ann NeverResolves = (k, s1)" by fastforce
  from False assms \<open>r = _\<close> change add obtain s2 where "process_machine_responses x s1 k rs = Ok s2"
    and s': "s' = s2\<lparr>wm_encountered_patch_markers :=
      AList.update pid True (wm_encountered_patch_markers s2)\<rparr>"
    by (auto simp: set_patch_marker_def Let_def res_bind_eq_Ok)
  from R_process_responses [OF this(1)] R_add_cmd_to [OF add] show ?thesis
    unfolding s' by (blast intro: R_trans R_outputs(4,7))
qed (use assms in \<open>auto simp: set_patch_marker_def Let_def R_refl\<close>)

lemma R_handle_driven_command:
  assumes "handle_driven_command x s cmd = Ok s'"
  shows "R s s'"
proof -
  have new: "res_map (\<lambda>nm. snd (add_cmd_to_wf_task s (f nm) ann cid)) r = Ok s' \<Longrightarrow> R s s'"
    "res_map (\<lambda>nm. add_terminal_command x s (f nm) ann) r = Ok s' \<Longrightarrow> R s s'"
    for f r ann cid by (auto simp: res_map_eq_Ok R_add_cmd R_add_terminal)
  note def = handle_driven_command_def Let_def
  show ?thesis
  proof (cases "wfc_variant cmd")
    case (UpsertSearchAttributes sas)
    with assms show ?thesis
      by (auto simp: def split: prod.splits intro!: R_trans [OF _ R_add_cmd] R_updates intro: R_refl)
  next
    case (AddLocalActivity attrs)
    with assms show ?thesis
      by (auto simp: def split: res.splits prod.splits
          intro: R_trans [OF R_trans [OF R_insert R_machines(6)] R_process_responses])
  next
    case (UpdateResponse i r)
    with assms show ?thesis
      by (auto simp: def res_bind_eq_Ok dest!: R_call_machine R_process_responses intro: R_trans)
  qed (use assms new in \<open>auto simp: def R_add_cmd R_add_terminal res_bind_eq_Ok
      dest!: R_cancel_machine R_set_patch_marker\<close>)
qed

lemma R_handle_driven_results: "handle_driven_results x s cmds = Ok s' \<Longrightarrow> R s s'"
  by (induction cmds arbitrary: s)
    (auto simp: R_refl res_bind_eq_Ok dest!: R_handle_driven_command intro: R_trans)

lemma R_prepare_current: "prepare_current_commands x s = Ok s' \<Longrightarrow> R s s'"
proof (induction x s rule: prepare_current_commands.induct)
  case (1 x s)
  from "1.prems" consider "s' = s"
    | c rest m where "wm_current_wf_task_commands s = c # rest"
      "wm_machine (s\<lparr>wm_current_wf_task_commands := rest\<rparr>) (cam_machine c) = Ok m"
      "was_cancelled_before_sent_to_server m = Ok True"
      "prepare_current_commands x (s\<lparr>wm_current_wf_task_commands := rest\<rparr>) = Ok s'"
    | c rest m rs s1 s2 where "wm_current_wf_task_commands s = c # rest"
      "wm_machine (s\<lparr>wm_current_wf_task_commands := rest\<rparr>) (cam_machine c) = Ok m"
      "was_cancelled_before_sent_to_server m = Ok False"
      "call_machine (s\<lparr>wm_current_wf_task_commands := rest\<rparr>) (cam_machine c)
         (\<lambda>m. machines_handle_command x m (cmd_command_type (cam_command c))) = Ok (rs, s1)"
      "process_machine_responses x s1 (cam_machine c) rs = Ok s2"
      "prepare_current_commands x (s2\<lparr>wm_commands := wm_commands s2 @ [c]\<rparr>) = Ok s'"
    unfolding prepare_current_commands.simps [of x s]
    by (auto simp: res_bind_eq_Ok Let_def split: list.splits if_splits)
  then show ?case
  proof cases
    case 2
    from "1.IH"(1) [OF 2(1) refl 2(2,3) TrueI 2(4)] show ?thesis by (rule R_trans [OF R_outputs(2)])
  next
    case 3
    from R_call_machine [OF 3(4)] R_process_responses [OF 3(5)] have "R s s2"
      by (blast intro: R_trans R_outputs(2))
    then have "R s (s2\<lparr>wm_commands := wm_commands s2 @ [c]\<rparr>)" by (rule R_updates)
    from R_trans [OF this "1.IH"(2) [OF 3(1) refl 3(2,3) _ 3(4) refl 3(5,6)]] show ?thesis by simp
  qed (simp add: R_refl)
qed

lemma R_prepare_commands: "prepare_commands x s = Ok s' \<Longrightarrow> R s s'"
  by (auto simp: prepare_commands_def res_bind_eq_Ok dest!: R_prepare_current
      intro: R_trans R_outputs)

lemma R_iterate_machines:
  assumes "iterate_machines x s = Ok s'"
  shows "R (s\<lparr>wm_drive_me := snd (fetch_workflow_iteration_output (wm_drive_me s))\<rparr>) s'"
    (is "R ?s s'")
proof -
  obtain results dm where out: "fetch_workflow_iteration_output (wm_drive_me s) = (results, dm)" by fastforce
  with assms obtain s1 s2 s3 s4 where s1: "s1 \<in> {?s, ?s\<lparr>wm_update_only_task := False\<rparr>}"
    and "handle_driven_results x s1 results = Ok s2" "apply_local_activity_peeked_resolutions x s2 False = Ok s3"
      "release_held_local_activity_resolutions_if_idle x s3 = Ok s4" "prepare_commands x s4 = Ok s'"
    by (auto simp: iterate_machines_def Let_def res_bind_eq_Ok split: if_splits)
  note steps = this(2-5)
  have "R ?s (?s\<lparr>wm_update_only_task := False\<rparr>)" by (rule R_updates R_refl)+
  with s1 have "R ?s s1" using R_refl by blast
  with steps show ?thesis
    by (blast dest: R_handle_driven_results R_apply_peeked R_release_held R_prepare_commands intro: R_trans)
qed

section \<open>Events and messages\<close>

lemma R_consume_command: "consume_command x s d n cs = Ok (eho, k, s') \<Longrightarrow> R s s'"
proof (induction cs)
  case Nil
  then obtain eho' where "patch_marker_handling x (hed_event d) None n = Ok eho'"
    by (auto simp: res_bind_eq_Ok)
  with Nil show ?case by (cases eho') (auto intro: R_outputs)
next
  case (Cons c cs)
  then obtain m eho' where "wm_machine s (cam_machine c) = Ok m"
    "patch_marker_handling x (hed_event d) (Some m) n = Ok eho'" by (auto simp: res_bind_eq_Ok)
  with Cons show ?case
    by (cases eho') (auto simp: res_bind_eq_Ok res_map_eq_Ok dest!: R_submachine
        intro: R_outputs R_trans split: if_splits)
qed

lemma R_handle_command_event:
  assumes "handle_command_event x s d n = Ok (eho, s')"
  shows "R s s'"
proof -
  have by_command: "res_bind (consume_command x s d n (wm_commands s)) (\<lambda>(eho, consumed, s).
      case consumed of None \<Rightarrow> Ok (eho, s)
      | Some k \<Rightarrow> res_bind (wm_machine s k) (\<lambda>m. res_bind (is_final_state m) (\<lambda>final.
          Ok (Normal, if final then s else s\<lparr>wm_machines_by_event_id :=
            AList.update eid k (wm_machines_by_event_id s)\<rparr>)))) = Ok (eho, s') \<Longrightarrow> R s s'" for eid
    by (auto simp: res_bind_eq_Ok dest!: R_consume_command intro!: R_updates split: if_splits option.splits)
  show ?thesis
  proof (cases "is_local_activity_marker (hed_event d)")
    case True
    with assms obtain deets k m where "get_machine_key s (CID_LocalActivity (lam_seq deets)) = Ok k"
      "wm_machine s k = Ok m"
      "event_local_activity_marker_data x (hed_event d) = Some deets"
      by (auto simp: handle_command_event_def Let_def res_bind_eq_Ok ok_or_def split: option.splits)
    with True assms by_command show ?thesis
      by (cases m) (auto simp: handle_command_event_def Let_def res_bind_eq_Ok res_map_eq_Ok
          dest!: R_submachine split: if_splits)
  qed (use assms by_command in \<open>simp add: handle_command_event_def Let_def\<close>)
qed

lemma R_handle_non_stateful:
  assumes "handle_non_stateful_event x s d = Ok s'"
  shows "R s s'"
proof -
  have *: "insert_machine s m = (k, s1) \<Longrightarrow> submachine_handle_event x s1 k d = Ok s2 \<Longrightarrow> R s s2"
    for m k s1 s2 by (blast dest: R_insert R_submachine intro: R_trans)
  from assms show ?thesis
    by (auto simp: handle_non_stateful_event_def Let_def wm_send_job_def res_bind_eq_Ok res_map_eq_Ok
        dest!: * intro!: R_updates intro: R_refl
        split: if_splits option.splits Attributes.splits prod.splits)
qed

lemma R_note_wft_started: "R s (note_wft_started s e)"
  by (auto simp: note_wft_started_def intro!: R_updates intro: R_refl
      split: option.splits Attributes.splits)

lemma R_handle_event:
  assumes "wm_handle_event x s d n = Ok (eho, s')"
  shows "R s s'"
proof -
  define s1 where "s1 = (if is_final_wf_execution_event (hed_event d)
      then s\<lparr>wm_have_seen_terminal_event := True\<rparr> else s)"
  have s1: "R s s1" "R s (note_wft_started s1 (hed_event d))"
    by (auto simp: s1_def intro!: R_trans [OF _ R_note_wft_started] R_updates intro: R_refl)
  from assms s1 show ?thesis
    by (auto simp: wm_handle_event_def Let_def res_map_eq_Ok res_bind_eq_Ok simp flip: s1_def
        dest!: R_handle_command_event R_handle_non_stateful R_submachine intro: R_trans
        split: if_splits option.splits)
qed

lemma R_handle_protocol_message: "handle_protocol_message x s msg = Ok s' \<Longrightarrow> R s s'"
  by (auto simp: handle_protocol_message_def add_new_protocol_machine_def res_bind_eq_Ok
      simp del: process_machine_responses.simps
      split: option.splits SequencingId.splits prod.splits
      intro: R_trans [OF R_trans [OF R_insert R_machines(5)] R_process_responses])

lemma R_handle_protocol_messages: "handle_protocol_messages x s msgs = Ok s' \<Longrightarrow> R s s'"
  by (induction msgs arbitrary: s)
    (auto simp: R_refl res_bind_eq_Ok dest!: R_handle_protocol_message intro: R_trans)

section \<open>Looking ahead\<close>

lemma R_look_ahead: "look_ahead x s adm es = Ok (actions, s') \<Longrightarrow> R s s'"
proof (induction es arbitrary: s adm actions)
  case (Cons e es)
  show ?case
  proof (cases x e rule: look_ahead_cases)
    case (patch pid b)
    let ?s = "wm_send_job (s\<lparr>wm_encountered_patch_markers :=
        AList.update pid False (wm_encountered_patch_markers s)\<rparr>) (J_NotifyHasPatch pid)"
    have "R s ?s" by (auto simp: wm_send_job_def intro!: R_updates intro: R_refl)
    moreover have "R ?s s'" using Cons patch by simp
    ultimately show ?thesis by (rule R_trans)
  next
    case (update a)
    with Cons show ?thesis by (auto simp: res_bind_eq_Ok res_map_eq_Ok)
  next
    case marker
    with Cons show ?thesis by (auto simp: res_bind_eq_Ok res_map_eq_Ok)
  next
    case other
    with Cons show ?thesis by (simp del: look_ahead.simps)
  qed
qed (simp add: R_refl)

lemma R_apply_delayed: "apply_delayed_actions x s actions = Ok s' \<Longrightarrow> R s s'"
proof (induction actions arbitrary: s)
  case (Cons action actions)
  then obtain s1 where s1: "apply_delayed_actions x s1 actions = Ok s'" and "R s s1"
    by (cases action) (auto simp: res_bind_eq_Ok dest!: R_apply_peeked R_handle_protocol_message
        split: if_splits intro: R_refl R_trans [OF R_outputs(5)])
  with Cons.IH [OF s1] show ?case by (blast intro: R_trans)
qed (simp add: R_refl)

lemma R_tell_non_replay: "tell_non_replay x s ks = Ok (rs, s') \<Longrightarrow> R s s'"
  by (induction ks arbitrary: s rs)
    (auto simp: R_refl res_bind_eq_Ok res_map_eq_Ok dest!: R_call_machine intro: R_trans
      split: option.splits Machines.splits)

lemma R_process_response_sets: "process_response_sets x s rss = Ok s' \<Longrightarrow> R s s'"
  by (induction rss arbitrary: s)
    (auto simp: R_refl res_bind_eq_Ok dest!: R_process_responses, metis R_trans)

lemma R_after_events:
  assumes "after_events x i s adm = Ok s'"
  shows "R s s'"
proof -
  from assms obtain es actions s1 s2 s3 where
    "from_history (peek_next_wft_sequence (wm_last_history_from_server s) i) = Ok es"
    "look_ahead x s adm es = Ok (actions, s1)"
    "apply_delayed_actions x s1 actions = Ok s2"
    "release_held_local_activity_resolutions_if_idle x s2 = Ok s3"
    by (auto simp: after_events_def res_bind_eq_Ok)
  note steps = this
  from steps have "R s s3"
    by (blast dest: R_look_ahead R_apply_delayed R_release_held intro: R_trans)
  then have "R s (s3\<lparr>wm_update_only_task := b\<rparr>)" for b by (rule R_updates)
  with \<open>R s s3\<close> assms show ?thesis
    by (auto simp: after_events_def steps Let_def res_bind_eq_Ok split: if_splits
        dest!: R_tell_non_replay R_process_response_sets intro: R_trans)
qed

end

section \<open>The loop over the events\<close>

locale body_relation = run_relation +
  assumes R_body: "R s (s\<lparr>wm_replaying := b\<rparr>)"
    "R s (s\<lparr>wm_protocol_msgs := filter p (wm_protocol_msgs s)\<rparr>)"
    "R s (s\<lparr>wm_next_started_event_id := i\<rparr>)" "R s (s\<lparr>wm_current_wft_deployment_info := d\<rparr>)"
    and R_admitted: "message_from_event e = Ok m \<Longrightarrow>
      R s (s\<lparr>wm_protocol_msgs := wm_protocol_msgs s @ [m]\<rparr>)"
begin

lemma R_event_body:
  assumes "res_bind (handle_protocol_messages x s msgs) (\<lambda>s.
      res_bind (if dh then res_map (\<lambda>(eho, s). (s, eho \<noteq> SkipEvent True)) (wm_handle_event x s (ed s) n)
        else Ok (s, True)) (\<lambda>(s, dh). rest s dh)) = Ok v"
  obtains s1 dh1 where "R s s1" "rest s1 dh1 = Ok v"
proof -
  from assms obtain s1 s2 dh2 where s1: "handle_protocol_messages x s msgs = Ok s1"
    and s2: "(if dh then res_map (\<lambda>(eho, s). (s, eho \<noteq> SkipEvent True)) (wm_handle_event x s1 (ed s1) n)
        else Ok (s1, True)) = Ok (s2, dh2)" and rest: "rest s2 dh2 = Ok v"
    by (auto simp: res_bind_eq_Ok)
  have "R s1 s2" using s2 by (auto simp: res_map_eq_Ok R_refl dest: R_handle_event split: if_splits)
  with R_handle_protocol_messages [OF s1] rest that show ?thesis by (blast intro: R_trans)
qed

lemma R_admit_update: "admit_update s adm dh e = Ok (s', r) \<Longrightarrow> R s s'"
  by (auto simp: admit_update_def res_map_eq_Ok intro: R_refl R_admitted split: if_splits)

lemma apply_events_ConsE:
  assumes "apply_events x fin s adm dh (e # es) = Ok r"
  obtains s1 adm1 dh1 where "he_event_id e = wm_last_processed_event s + 1" "R s s1"
    "apply_events x fin (s1\<lparr>wm_last_processed_event := he_event_id e\<rparr>) adm1 dh1 es = Ok r"
proof -
  have id: "he_event_id e = wm_last_processed_event s + 1" using assms by (auto simp: Let_def split: if_splits)
  let ?s0 = "if ends_replay s fin e then s\<lparr>wm_replaying := False\<rparr> else s"
  have s0: "R s ?s0" by (simp add: R_refl R_body)
  from assms id obtain s1 adm1 dh1 where admit: "admit_update ?s0 adm dh e = Ok (s1, adm1, dh1)"
    by (auto simp: Let_def res_bind_eq_Ok simp del: if_split)
  note s1 = R_admit_update [OF admit]
  let ?s = "s1\<lparr>wm_protocol_msgs :=
      filter (\<lambda>m. \<not> processable_by (he_event_id e - 1) m) (wm_protocol_msgs s1)\<rparr>"
  have s2: "R s ?s" using R_trans [OF R_trans [OF s0 s1] R_body(2)] .
  from assms admit have "res_bind (handle_protocol_messages x ?s
        (filter (processable_by (he_event_id e - 1)) (wm_protocol_msgs s1))) (\<lambda>s.
      res_bind (if dh1 then res_map (\<lambda>(eho, s). (s, eho \<noteq> SkipEvent True))
            (wm_handle_event x s \<lparr>hed_event = e, hed_replaying = wm_replaying s,
               hed_current_task_is_last_in_history = fin\<rparr> (case es of [] \<Rightarrow> None | e # _ \<Rightarrow> Some e))
          else Ok (s, True)) (\<lambda>(s, dh).
      apply_events x fin (s\<lparr>wm_last_processed_event := he_event_id e\<rparr>) adm1 dh es)) = Ok r"
    by (simp add: Let_def id del: if_split)
  then show ?thesis
    by (rule R_event_body) (use that id s2 in \<open>blast intro: R_trans\<close>)
qed

lemma R_apply_completed_events: "R s (apply_completed_events s es)"
proof (induction es arbitrary: s)
  case (Cons e es)
  have step: "R s' (apply_wft_complete_data s' a)" for s' a
    by (auto simp: apply_wft_complete_data_def Let_def intro: R_outputs(7) R_trans [OF _ R_body(4)])
  define s1 where "s1 = (case he_attributes e of
      Some (A_WorkflowTaskCompleted wtc) \<Rightarrow> apply_wft_complete_data s wtc | _ \<Rightarrow> s)"
  define s2 where "s2 = (if es = [] then
      (case peek_next_wft_completed (wm_last_history_from_server s1) (he_event_id e) of
         Some wtc \<Rightarrow> apply_wft_complete_data s1 wtc | None \<Rightarrow> s1) else s1)"
  have "R s s1" unfolding s1_def by (rule completed_case) (rule R_refl step)+
  moreover have "R s1 s2" using step R_refl by (simp add: s2_def split: option.splits)
  moreover have "apply_completed_events s (e # es) = apply_completed_events s2 es"
    by (simp only: apply_completed_events.simps Let_def s2_def s1_def)
  ultimately show ?case using Cons.IH [of s2] by (metis R_trans)
qed (simp add: R_refl)

lemma R_before_events: "R s (before_events s es)"
proof -
  let ?s1 = "if length es > 0
      then s\<lparr>wm_local_activity_data := lad_wft_applied (wm_local_activity_data s)\<rparr> else s"
  have "R s ?s1" by (simp add: R_refl R_outputs)
  then have "R s (apply_completed_events ?s1 es)" by (rule R_trans) (rule R_apply_completed_events)
  then show ?thesis by (auto simp: before_events_def Let_def intro: R_trans R_body)
qed

end

locale event_relation = body_relation +
  assumes R_processed: "R s (s\<lparr>wm_last_processed_event := i\<rparr>)"
begin

lemma R_apply_events: "apply_events x fin s adm dh es = Ok (s', adm') \<Longrightarrow> R s s'"
proof (induction es arbitrary: s adm dh)
  case (Cons e es)
  from Cons.prems obtain s1 adm1 dh1 where "R s s1"
    and rest: "apply_events x fin (s1\<lparr>wm_last_processed_event := he_event_id e\<rparr>) adm1 dh1 es = Ok (s', adm')"
    by (rule apply_events_ConsE)
  from Cons.IH [OF rest] \<open>R s s1\<close> R_processed show ?case by (blast intro: R_trans)
qed (simp add: R_refl)

end

locale task_relation = event_relation +
  assumes R_update: "R s (s\<lparr>wm_last_history_from_server := u\<rparr>)"
begin

lemma R_apply_next_wft:
  assumes "apply_next_wft_from_history x s = Ok (n, s')"
  shows "R s s'"
proof (cases "wm_have_seen_terminal_event s")
  case False
  with assms obtain es fin s1 s2 adm where next_evs: "next_events s = Ok (es, fin, s1)"
    and steps: "apply_events x fin (before_events s1 es) Map.empty True es = Ok (s2, adm)"
      "after_events x (wm_current_started_event_id s) s2 adm = Ok s'"
    by (auto simp: apply_next_wft_from_history_def res_bind_eq_Ok res_map_eq_Ok)
  have "R s s1" using next_evs by (rule next_events_Ok) (simp add: R_update)
  moreover have "R s1 (before_events s1 es)" by (rule R_before_events)
  ultimately show ?thesis
    using R_apply_events [OF steps(1)] R_after_events [OF steps(2)] by (blast intro: R_trans)
qed (use assms in \<open>auto simp: apply_next_wft_from_history_def intro: R_body\<close>)

end

section \<open>The relations\<close>

text \<open>What only the loop over the events and the arrival of new work change.\<close>

definition same_feed :: "WorkflowMachines \<Rightarrow> WorkflowMachines \<Rightarrow> bool" where
  "same_feed s s' \<longleftrightarrow>
     wm_last_history_from_server s' = wm_last_history_from_server s \<and>
     wm_protocol_msgs s' = wm_protocol_msgs s \<and>
     wm_last_processed_event s' = wm_last_processed_event s \<and>
     wm_next_started_event_id s' = wm_next_started_event_id s \<and>
     wm_replaying s' = wm_replaying s \<and>
     wm_preparing_legacy_query s' = wm_preparing_legacy_query s \<and>
     dw_incoming_commands (wm_drive_me s') = dw_incoming_commands (wm_drive_me s)"

definition clock_forward :: "WorkflowMachines \<Rightarrow> WorkflowMachines \<Rightarrow> bool" where
  "clock_forward s s' \<longleftrightarrow>
     (case (wm_current_wf_time s, wm_current_wf_time s') of
        (None, _) \<Rightarrow> True | (Some t, Some t') \<Rightarrow> t \<le> t' | (Some _, None) \<Rightarrow> False)"

interpretation feed: run_relation same_feed
  by unfold_locales (auto simp: same_feed_def set_current_time_def split: option.splits)

text \<open>The handling of one event does not count it as processed; the loop does.\<close>

interpretation body: body_relation
  "\<lambda>s s'. wm_last_processed_event s' = wm_last_processed_event s"
  by unfold_locales (auto simp: set_current_time_def)

text \<open>The update and the queue of commands are the same throughout the loop.\<close>

interpretation update: event_relation
  "\<lambda>s s'. wm_last_history_from_server s' = wm_last_history_from_server s"
  by unfold_locales (auto simp: set_current_time_def)

interpretation incoming: task_relation
  "\<lambda>s s'. dw_incoming_commands (wm_drive_me s') = dw_incoming_commands (wm_drive_me s)"
  by unfold_locales (auto simp: set_current_time_def)

interpretation clock: task_relation clock_forward
  by unfold_locales (auto simp: clock_forward_def set_current_time_def split: option.splits)

text \<open>The record of failed workflow tasks is written when new history arrives only.\<close>

interpretation failed: task_relation
  "\<lambda>s s'. wm_failed_wft_started_ids s' = wm_failed_wft_started_ids s"
  by unfold_locales (auto simp: set_current_time_def)

end
