(* ===== verification/RunSafety.thy ===== *)
theory RunSafety
  imports RunInvariant RunFrame
begin

text \<open>
  The operations of the orchestrator keep the invariant of \<open>RunInvariant\<close> and do not panic: the
  commands of the language side, the events and messages of a workflow task, and the two entry
  points \<^verbatim>\<open>iterate_machines\<close> and \<^verbatim>\<open>apply_next_wft_from_history\<close>.
\<close>

section \<open>New commands\<close>

lemma wm_machine_no_panic: "wm_inv s \<Longrightarrow> known s k \<Longrightarrow> wm_machine s k \<noteq> Panic"
  by (auto simp: wm_machine_def known_def split: option.splits)

lemma wm_machine_good: "wm_inv s \<Longrightarrow> wm_machine s k = Ok m \<Longrightarrow> machines_good m"
  by (auto simp: wm_machine_def wm_inv_def all_machines_good_def split: option.splits)

lemma safe_from: "extends s0 s \<Longrightarrow> safe s st r \<Longrightarrow> safe s0 st r"
  by (auto simp: safe_def intro: extends_trans)

lemma by_event_extends [simp]:
  "extends s0 (s\<lparr>wm_machines_by_event_id := v\<rparr>) = extends s0 s"
  by (simp add: extends_def named_def known_def)

lemma by_event_keeps:
  assumes "wm_inv s" and "known s k"
  shows "wm_inv (s\<lparr>wm_machines_by_event_id := AList.update eid k (wm_machines_by_event_id s)\<rparr>)"
    (is "wm_inv ?s'")
proof -
  have "wm_all_machines ?s' = wm_all_machines s" by simp
  note known = known_frame [OF this]
  have "(i, k') \<in> set (AList.update eid k xs) \<Longrightarrow> k' = k \<or> (i, k') \<in> set xs" for i k' xs
    by (induction xs) (auto split: if_splits)
  then have "all_keys (known s) (named s) ?s'"
    using assms unfolding wm_inv_def all_keys_def by fastforce
  then show ?thesis using assms(1) unfolding wm_inv_def known by (simp add: all_machines_good_def)
qed

lemma add_cmd_keeps [simp]:
  assumes "wm_inv s" and "machines_good (nm_machine nm)" and "right_kind cid (nm_machine nm)"
  shows "wm_inv (snd (add_cmd_to_wf_task s nm ann cid))" "extends s (snd (add_cmd_to_wf_task s nm ann cid))"
  using add_cmd_inv [OF assms] by (metis surjective_pairing)+

lemma into_machines_machine [simp]: "nm_machine (into_machines C nm) = C (nm_machine nm)"
  by (simp add: into_machines_def)

lemma new_command_machines_good:
  "new_timer st ann = Ok nm1 \<Longrightarrow> machines_good (M_Timer (nm_machine nm1))"
  "act_new_scheduled sa fl uc ann = Ok nm2 \<Longrightarrow> machines_good (M_Activity (nm_machine nm2))"
  "child_new_scheduled sc fl uc ann = Ok nm3 \<Longrightarrow> machines_good (M_ChildWorkflow (nm_machine nm3))"
  "new_external_signal sg ns = Ok nm4 \<Longrightarrow> machines_good (M_SignalExternal (nm_machine nm4))"
  "new_external_cancel seq we oc reason = Ok nm5 \<Longrightarrow> machines_good (M_CancelExternal (nm_machine nm5))"
  "complete_workflow r = Ok nm6 \<Longrightarrow> machines_good (M_CompleteWorkflow (nm_machine nm6))"
  "fail_workflow f = Ok nm7 \<Longrightarrow> machines_good (M_FailWorkflow (nm_machine nm7))"
  "cancel_workflow d = Ok nm8 \<Longrightarrow> machines_good (M_CancelWorkflow (nm_machine nm8))"
  "continue_as_new c u = Ok nm9 \<Longrightarrow> machines_good (M_ContinueAsNewWorkflow (nm_machine nm9))"
  "machines_good (M_ModifyWorkflowProperties (nm_machine (modify_workflow_properties um)))"
  "machines_good (M_NexusOperation (nm_machine (nexus_new_scheduled sn fl ann)))"
  "machines_good (M_UpsertSearchAttributes (nm_machine (fst (upsert_search_attrs sas fl rep))))"
  using act_new_good child_new_good new_external_signal_Ok new_external_cancel_Ok
  by (auto simp: timer_good_def modify_workflow_properties_def from_parts_def upsert_search_attrs_def
      upsert_create_new_def Let_def split: prod.splits) (blast intro: nexus_new_machine(1))+

lemma patch_upsert_quiet:
  "patch_upsert x pid ids ann = Ok rs \<Longrightarrow> \<not> list_ex is_request_cancel rs"
  by (auto simp: patch_upsert_def Let_def is_request_cancel_def split: option.splits if_splits)

lemma has_change_no_panic [simp]: "fst (has_change x pid r dep seen ids fl ann) \<noteq> Panic"
  by (auto simp: has_change_def expect_event_def from_parts_def on_event_def patch_arms_def
      patch_upsert_def Let_def split: option.splits prod.splits if_splits)

lemma set_patch_marker_safe:
  assumes "wm_inv s"
  shows "safe s (\<lambda>s. s) (set_patch_marker x s pid dep ann)"
proof -
  let ?ids = "map fst (filter snd (wm_encountered_patch_markers s))"
  obtain r fl where change: "has_change x pid (wm_replaying s) dep
      (map_of (wm_encountered_patch_markers s) pid \<noteq> None) ?ids (wm_observed_internal_flags s) ann = (r, fl)"
    by fastforce
  show ?thesis
  proof (cases r)
    case (Ok v)
    obtain nm rs where v: "v = (nm, rs)" by fastforce
    let ?s = "s\<lparr>wm_observed_internal_flags := fl\<rparr>"
    obtain k s1 where add: "add_cmd_to_wf_task ?s (into_machines M_Patch nm) ann NeverResolves = (k, s1)"
      by fastforce
    note change = change [unfolded Ok v]
    have "machines_good (nm_machine (into_machines M_Patch nm))"
      using has_change_machine [OF change] by simp
    from add_cmd_inv [OF _ this _ add] assms
    have s1: "wm_inv s1" "extends s s1" "known s1 k" by simp_all
    have "\<not> list_ex is_request_cancel rs"
      using has_change_responses [OF change] by (auto simp: patch_upsert_quiet split: if_splits)
    then have "safe s1 (\<lambda>s. s) (process_machine_responses x s1 k rs)"
      using process_responses_safe [OF s1(1,3)] by simp
    then show ?thesis
      using assms s1(2) change add
      by (auto simp: set_patch_marker_def Let_def safe_def res_bind_eq_Ok res_bind_eq_Panic
          dest: extends_trans)
  qed (use change assms has_change_no_panic in \<open>auto simp: set_patch_marker_def Let_def, metis fst_conv\<close>)
qed

lemma from_schedule_la_no_panic [simp]: "from_schedule_la x v um egm \<noteq> Panic"
  by (auto simp: from_schedule_la_def res_bind_eq_Panic try_convert_not_Panic Let_def
      split: option.splits)

lemma la_new_good:
  "new_local_activity x attrs rep t fl = Ok (la, rs) \<Longrightarrow>
   machines_good (M_LocalActivity la) \<and> \<not> list_ex is_request_cancel rs"
  by (auto simp: la_good_def is_request_cancel_def split: if_splits)

lemma insert_known_keeps:
  assumes "wm_inv s" and "machines_good m" and "insert_machine s m = (k, s')"
  shows "machine_name m = machine_for cid \<Longrightarrow>
      wm_inv (s'\<lparr>wm_id_to_machine := (wm_id_to_machine s')(cid \<mapsto> k)\<rparr>)" (is "_ \<Longrightarrow> wm_inv ?a")
    and "machine_name m = ''UpdateMachine'' \<Longrightarrow> wm_inv (s'\<lparr>wm_machines_by_protocol_instance_id :=
           (wm_machines_by_protocol_instance_id s')(i \<mapsto> k)\<rparr>)" (is "_ \<Longrightarrow> wm_inv ?b")
    and "wm_inv s' \<Longrightarrow> wm_inv (s'\<lparr>wm_machines_by_event_id :=
           AList.update eid k (wm_machines_by_event_id s')\<rparr>)" (is "_ \<Longrightarrow> wm_inv ?c")
proof -
  note new = insert_machine_inv [OF assms]
  have "wm_all_machines ?a = wm_all_machines s'" "wm_all_machines ?b = wm_all_machines s'" by simp_all
  note known = this [THEN known_frame(1)] this [THEN known_frame(2)]
  show "machine_name m = machine_for cid \<Longrightarrow> wm_inv ?a" "machine_name m = ''UpdateMachine'' \<Longrightarrow> wm_inv ?b"
    using new(1,4) unfolding wm_inv_def known by (auto simp: all_machines_good_def all_keys_def)
  show "wm_inv s' \<Longrightarrow> wm_inv ?c" using new(3) by (rule by_event_keeps [rotated])
qed

lemma add_local_activity_safe:
  assumes inv: "wm_inv s" and new: "new_local_activity x attrs rep t fl = Ok (la, rs)"
    and cid: "machine_for cid = ''LocalActivityMachine''"
  shows "safe s (\<lambda>s. s) (let (machkey, s) = insert_machine s (M_LocalActivity la);
      s = s\<lparr>wm_id_to_machine := (wm_id_to_machine s)(cid \<mapsto> machkey)\<rparr>
      in process_machine_responses x s machkey rs)"
proof -
  note la = la_new_good [OF new]
  obtain k s1 where ins: "insert_machine s (M_LocalActivity la) = (k, s1)" by fastforce
  let ?s = "s1\<lparr>wm_id_to_machine := (wm_id_to_machine s1)(cid \<mapsto> k)\<rparr>"
  have "wm_inv ?s" using insert_known_keeps(1) [OF inv _ ins] la cid by simp
  moreover have "known ?s k" "extends s ?s"
    using insert_machine_inv(2,3) [OF inv _ ins] la by (simp_all add: known_def extends_def named_def)
  ultimately have "safe s (\<lambda>s. s) (res_bind (Ok ?s) (\<lambda>s. process_machine_responses x s k rs))"
    using la by (intro safe_bind) (auto intro!: process_responses_safe)
  then show ?thesis by (simp add: ins)
qed

lemma handle_driven_command_safe:
  assumes inv: "wm_inv s" and "\<And>q. wfc_variant cmd \<noteq> QueryResponse q"
  shows "safe s (\<lambda>s. s) (handle_driven_command x s cmd)"
proof -
  note good = new_command_machines_good
  note keeps = inv add_terminal_inv [OF inv]
  show ?thesis
  proof (cases "wfc_variant cmd")
    case (UpsertSearchAttributes sas)
    obtain nm fl where new:
      "upsert_search_attrs sas (wm_observed_internal_flags s) (wm_replaying s) = (nm, fl)" by fastforce
    let ?s = "s\<lparr>wm_drive_me := search_attributes_update (wm_drive_me s) sas,
        wm_observed_internal_flags := fl\<rparr>"
    have "machines_good (M_UpsertSearchAttributes (nm_machine nm))"
      using good(12) [of sas "wm_observed_internal_flags s" "wm_replaying s"] new by simp
    then have "machines_good (nm_machine (into_machines M_UpsertSearchAttributes nm))" by simp
    from add_cmd_keeps [OF _ this, of ?s] inv show ?thesis
      by (simp add: UpsertSearchAttributes handle_driven_command_def new)
  next
    case (AddLocalActivity attrs)
    then show ?thesis
      using add_local_activity_safe [OF inv]
      by (auto simp: handle_driven_command_def Let_def split: res.splits)
  next
    case (UpdateResponse i r)
    then show ?thesis
      by (auto simp: handle_driven_command_def
          intro!: safe_bind_pure call_process_safe [OF inv] get_machine_by_msg_known [OF inv]
            well_behaved_own)
  next
    case (RequestCancelExternalWorkflow seq we reason)
    then show ?thesis using inv new_external_cancel_not_Panic good(5)
      by (auto simp: handle_driven_command_def safe_def res_map_eq_Ok ok_or_def split: option.splits)
  next
    case (SignalExternalWorkflow attrs)
    then show ?thesis using inv new_external_signal_not_Panic good(4)
      by (auto simp: handle_driven_command_def safe_def res_map_eq_Ok)
  qed (use assms keeps good in \<open>simp_all add: handle_driven_command_def cancel_machine_safe
      set_patch_marker_safe well_behaved_own well_behaved_la_err Let_def\<close>)
qed

definition no_query_responses :: "WFCommand list \<Rightarrow> bool" where
  "no_query_responses cmds \<longleftrightarrow>
     list_all (\<lambda>cmd. case wfc_variant cmd of QueryResponse _ \<Rightarrow> False | _ \<Rightarrow> True) cmds"

lemma handle_driven_results_safe:
  "wm_inv s \<Longrightarrow> no_query_responses cmds \<Longrightarrow> safe s (\<lambda>s. s) (handle_driven_results x s cmds)"
proof (induction cmds arbitrary: s)
  case (Cons cmd cmds)
  then have "wfc_variant cmd \<noteq> QueryResponse q" for q by (auto simp: no_query_responses_def)
  with Cons show ?case
    by (auto simp: no_query_responses_def intro!: safe_bind [OF handle_driven_command_safe])
qed simp

section \<open>Preparing commands\<close>

lemma retain_uncancelled_safe:
  assumes "wm_inv s" and "\<forall>c \<in> set cs. known s (cam_machine c)"
  shows "retain_uncancelled s cs \<noteq> Panic"
    and "retain_uncancelled s cs = Ok kept \<Longrightarrow> set kept \<subseteq> set cs"
proof -
  show "retain_uncancelled s cs \<noteq> Panic"
    using assms(2)
    by (induction cs) (auto simp: res_bind_eq_Panic res_map_eq_Panic was_cancelled_no_panic
        elim!: wm_machine_safe [OF assms(1)])
  show "retain_uncancelled s cs = Ok kept \<Longrightarrow> set kept \<subseteq> set cs"
    by (induction cs arbitrary: kept) (fastforce simp: res_bind_eq_Ok res_map_eq_Ok split: if_splits)+
qed

lemma queues_inv:
  assumes "wm_inv s" and "\<forall>c \<in> set cs. known s (cam_machine c)"
    and "\<forall>c \<in> set cur. known s (cam_machine c)"
  shows "wm_inv (s\<lparr>wm_commands := cs\<rparr>)" and "wm_inv (s\<lparr>wm_current_wf_task_commands := cur\<rparr>)"
proof -
  have "wm_all_machines (s\<lparr>wm_commands := cs\<rparr>) = wm_all_machines s"
    "wm_all_machines (s\<lparr>wm_current_wf_task_commands := cur\<rparr>) = wm_all_machines s" by simp_all
  note known = this [THEN known_frame(1)] this [THEN known_frame(2)]
  show "wm_inv (s\<lparr>wm_commands := cs\<rparr>)" "wm_inv (s\<lparr>wm_current_wf_task_commands := cur\<rparr>)"
    using assms unfolding wm_inv_def known by (auto simp: all_machines_good_def all_keys_def)
qed

lemma queues_extend [simp]:
  "extends s0 (s\<lparr>wm_commands := cs\<rparr>) = extends s0 s"
  "extends (s\<lparr>wm_commands := cs\<rparr>) s1 = extends s s1"
  "extends s0 (s\<lparr>wm_current_wf_task_commands := cs\<rparr>) = extends s0 s"
  "extends (s\<lparr>wm_current_wf_task_commands := cs\<rparr>) s1 = extends s s1"
  "safe (s\<lparr>wm_commands := cs\<rparr>) st r = safe s st r"
  "safe (s\<lparr>wm_current_wf_task_commands := cs\<rparr>) st r = safe s st r"
  by (simp_all add: extends_def named_def known_def safe_def)

lemma queues_known:
  "wm_inv s \<Longrightarrow> c \<in> set (wm_commands s) \<Longrightarrow> known s (cam_machine c)"
  "wm_inv s \<Longrightarrow> c \<in> set (wm_current_wf_task_commands s) \<Longrightarrow> known s (cam_machine c)"
  by (auto simp: wm_inv_def all_keys_def)

lemma push_command_inv:
  "wm_inv s \<Longrightarrow> known s (cam_machine c) \<Longrightarrow> wm_inv (s\<lparr>wm_commands := wm_commands s @ [c]\<rparr>)"
  by (rule queues_inv(1) [where cur = "[]"]) (auto dest: queues_known(1))

lemma prepare_current_commands_safe:
  "wm_inv s \<Longrightarrow> safe s (\<lambda>s. s) (prepare_current_commands x s)"
proof (induction x s rule: prepare_current_commands.induct)
  case (1 x s)
  note simps = prepare_current_commands.simps [of x s]
  show ?case
  proof (cases "wm_current_wf_task_commands s")
    case Nil
    with 1 show ?thesis by (simp add: simps)
  next
    case (Cons c rest)
    let ?s = "s\<lparr>wm_current_wf_task_commands := rest\<rparr>"
    have inv: "wm_inv ?s" and k: "known ?s (cam_machine c)"
      using queues_inv(2) [OF 1(3), of "[]" rest] queues_known(2) [OF 1(3)] Cons
      by (auto simp: known_def)
    obtain m where m: "wm_machine ?s (cam_machine c) = Ok m" "machines_good m"
      using wm_machine_safe [OF inv k] by metis
    obtain b where b: "was_cancelled_before_sent_to_server m = Ok b"
      using m(2) by (cases m) (auto simp: signal_was_cancelled_before_sent_def good_machine_def
          split: option.splits)
    note IH = "1.IH" [OF Cons refl m(1) b]
    let ?f = "\<lambda>m. machines_handle_command x m (cmd_command_type (cam_command c))"
    have "safe ?s (\<lambda>s. s) (res_bind (call_machine ?s (cam_machine c) ?f) (\<lambda>(machine_responses, s).
        res_bind (process_machine_responses x s (cam_machine c) machine_responses) (\<lambda>s.
        prepare_current_commands x (s\<lparr>wm_commands := wm_commands s @ [c]\<rparr>))))" if "\<not> b"
    proof (rule safe_bind, rule call_machine_safe(1) [OF inv k well_behaved_handle_command])
      fix v
      assume v: "call_machine ?s (cam_machine c) ?f = Ok v"
      obtain resps s1 where [simp]: "v = (resps, s1)" by (cases v)
      have proc: "safe s1 (\<lambda>s. s) (process_machine_responses x s1 (cam_machine c) resps)"
        and k1: "known s1 (cam_machine c)"
        using call_then_process [OF inv k well_behaved_handle_command]
          call_machine_safe(3) [OF inv k well_behaved_handle_command] v by simp_all
      have further: "safe s2 (\<lambda>s. s) (prepare_current_commands x (s2\<lparr>wm_commands := wm_commands s2 @ [c]\<rparr>))"
        if "process_machine_responses x s1 (cam_machine c) resps = Ok s2" "wm_inv s2" "extends s1 s2" for s2
        using IH(2) [OF \<open>\<not> b\<close> v _ that(1)] push_command_inv [OF that(2), of c] that(3) k1
        by (simp add: extends_def)
      show "safe (snd v) (\<lambda>s. s) (case v of (machine_responses, s) \<Rightarrow>
          res_bind (process_machine_responses x s (cam_machine c) machine_responses) (\<lambda>s.
          prepare_current_commands x (s\<lparr>wm_commands := wm_commands s @ [c]\<rparr>)))"
        using proc further by (auto intro!: safe_bind)
    qed simp
    then show ?thesis
      using IH(1) inv by (cases b) (simp_all add: simps Cons m b)
  qed
qed

lemma prepare_commands_safe:
  assumes "wm_inv s"
  shows "safe s (\<lambda>s. s) (prepare_commands x s)"
  unfolding prepare_commands_def
proof (rule safe_bind_pure)
  have known: "\<forall>c \<in> set (wm_commands s). known s (cam_machine c)"
    using queues_known(1) [OF assms] by blast
  note retain = retain_uncancelled_safe [OF assms known]
  show "retain_uncancelled s (wm_commands s) \<noteq> Panic" by (rule retain(1))
  fix kept
  assume "retain_uncancelled s (wm_commands s) = Ok kept"
  then have "wm_inv (s\<lparr>wm_commands := kept\<rparr>)"
    using retain(2) known by (intro queues_inv(1) [OF assms, where cur = "[]"]) auto
  from prepare_current_commands_safe [OF this]
  show "safe s (\<lambda>s. s) (prepare_current_commands x (s\<lparr>wm_commands := kept\<rparr>))" by simp
qed

lemma iterate_machines_safe:
  assumes "wm_inv s" and "no_query_responses (fst (fetch_workflow_iteration_output (wm_drive_me s)))"
  shows "safe s (\<lambda>s. s) (iterate_machines x s)"
proof -
  obtain results dm where out: "fetch_workflow_iteration_output (wm_drive_me s) = (results, dm)"
    by fastforce
  have rest: "safe s1 (\<lambda>s. s) (res_bind (handle_driven_results x s1 results) (\<lambda>s.
      res_bind (apply_local_activity_peeked_resolutions x s False) (\<lambda>s.
      res_bind (release_held_local_activity_resolutions_if_idle x s) (\<lambda>s.
      prepare_commands x s))))" if "wm_inv s1" for s1
    using that assms(2) out
    by (auto intro!: safe_bind [where state = "\<lambda>s. s"] handle_driven_results_safe apply_peeked_safe release_held_safe
        prepare_commands_safe)
  show ?thesis
    using assms(1) rest [of "s\<lparr>wm_drive_me := dm\<rparr>"]
      rest [of "s\<lparr>wm_drive_me := dm, wm_update_only_task := False\<rparr>"]
    by (simp add: iterate_machines_def out Let_def)
qed

section \<open>Events\<close>

lemma submachine_safe:
  "wm_inv s \<Longrightarrow> known s k \<Longrightarrow> safe s (\<lambda>s. s) (submachine_handle_event x s k d)"
  unfolding submachine_handle_event_def by (intro call_process_safe well_behaved_handle_event)

lemma patch_marker_handling_no_panic [simp]: "patch_marker_handling x e m n \<noteq> Panic"
  by (auto simp: patch_marker_handling_def Let_def split: option.splits)

lemma consume_command_safe:
  assumes "wm_inv s" and "\<forall>c \<in> set cs. known s (cam_machine c)"
  shows "safe s (\<lambda>(_, _, s). s) (consume_command x s d next_event cs)"
    and "consume_command x s d next_event cs = Ok (eho, Some k, s') \<Longrightarrow> known s' k"
  using assms
proof (induction x s d next_event cs rule: consume_command.induct)
  case (1 x s d n)
  {
    case 1
    then show ?case
      by (auto intro!: safe_bind_pure queues_inv(1) [where cur = "[]"] split: EventHandlingOutcome.splits)
  next
    case 2
    then show ?case
      by (auto simp: res_bind_eq_Ok split: EventHandlingOutcome.splits)
        (meson EventHandlingOutcome.exhaust)
  }
next
  case (2 x s d n c cs)
  {
    case 1
    then obtain m where m: "wm_machine s (cam_machine c) = Ok m" "machines_good m"
      using wm_machine_safe by (metis list.set_intros(1))
    have inv: "wm_inv (s\<lparr>wm_commands := cs\<rparr>)" "wm_inv (s\<lparr>wm_commands := c # cs\<rparr>)"
      using 1 by (auto intro!: queues_inv(1) [where cur = "[]"])
    have "known (s\<lparr>wm_commands := cs\<rparr>) (cam_machine c)" using 1 by (simp add: known_def)
    from submachine_safe [OF inv(1) this, of x d] inv(2)
    show ?case
      using 1 2(1) [OF m(1)] 2(3) [OF m(1)] m was_cancelled_no_panic [OF m(2)]
      by (auto intro!: safe_bind_pure split: EventHandlingOutcome.splits)
  next
    case 2
    have "safe (s\<lparr>wm_commands := cs\<rparr>) (\<lambda>s. s)
        (submachine_handle_event x (s\<lparr>wm_commands := cs\<rparr>) (cam_machine c) d)"
      using 2 by (intro submachine_safe queues_inv(1) [where cur = "[]"]) (auto simp: known_def)
    then have "known s'' (cam_machine c)"
      if "submachine_handle_event x (s\<lparr>wm_commands := cs\<rparr>) (cam_machine c) d = Ok s''" for s''
      using that 2(3) by (simp add: extends_def known_def)
    with 2 "2.IH"(2,4) show ?case
      by (auto simp: res_bind_eq_Ok res_map_eq_Ok split: EventHandlingOutcome.splits if_splits)
        (meson EventHandlingOutcome.exhaust)
  }
qed

lemma la_special_no_panic:
  "machines_good (M_LocalActivity lam) \<Longrightarrow> la_marker_should_get_special_handling lam \<noteq> Panic"
  by (auto simp: la_marker_should_get_special_handling_def good_machine_def
      split: option.splits LAState.splits)

lemma handle_command_event_safe:
  assumes inv: "wm_inv s"
  shows "safe s snd (handle_command_event x s d next_event)"
proof -
  have keys: "\<forall>c \<in> set (wm_commands s). known s (cam_machine c)" using queues_known(1) [OF inv] by blast
  note consume = consume_command_safe [OF inv keys]
  have final: "safe s1 snd (res_bind (wm_machine s1 k) (\<lambda>m. res_bind (is_final_state m) (\<lambda>final.
      Ok (Normal, if final then s1 else s1\<lparr>wm_machines_by_event_id :=
        AList.update eid k (wm_machines_by_event_id s1)\<rparr>))))" if "wm_inv s1" "known s1 k" for s1 k eid
    using that by (auto intro!: safe_bind_pure by_event_keeps
        simp: wm_machine_no_panic is_final_state_no_panic wm_machine_good)
  have by_command: "safe s snd (res_bind (consume_command x s d next_event (wm_commands s))
      (\<lambda>(eho, consumed, s). case consumed of None \<Rightarrow> Ok (eho, s)
       | Some k \<Rightarrow> res_bind (wm_machine s k) (\<lambda>m. res_bind (is_final_state m) (\<lambda>final.
           Ok (Normal, if final then s else s\<lparr>wm_machines_by_event_id :=
             AList.update eid k (wm_machines_by_event_id s)\<rparr>)))))" for eid
    by (rule safe_bind [OF consume(1)]) (auto split: option.splits intro!: final dest: consume(2))
  show ?thesis
    using by_command inv submachine_safe [OF inv] get_machine_key_known [OF inv]
      la_special_no_panic [OF wm_machine_good [OF inv]]
    by (auto simp: handle_command_event_def Let_def ok_or_def wm_machine_no_panic intro!: safe_bind_pure
        split: option.splits Machines.splits)
qed

lemma insert_then_submachine_safe:
  assumes inv: "wm_inv s" and "machines_good m" and ins: "insert_machine s m = (k, s1)"
  shows "safe s (\<lambda>s. s\<lparr>wm_machines_by_event_id := AList.update eid k (wm_machines_by_event_id s)\<rparr>)
    (submachine_handle_event x s1 k d)"
proof -
  note new = insert_machine_inv [OF assms]
  have "safe s1 (\<lambda>s. s) (submachine_handle_event x s1 k d)" by (rule submachine_safe [OF new(1,3)])
  with new(2,3) show ?thesis
    unfolding safe_def
    by (auto simp: extends_def intro!: by_event_keeps) (auto simp: known_def named_def extends_def)
qed

lemma wft_new_good [simp]: "machines_good (M_WorkflowTask (wft_new i))"
  by (simp add: wft_new_def from_parts_def)

lemma handle_non_stateful_safe:
  assumes inv: "wm_inv s"
  shows "safe s (\<lambda>s. s) (handle_non_stateful_event x s d)"
proof -
  have time: "wm_inv (set_current_time s t) = wm_inv s" "extends s0 (set_current_time s t) = extends s0 s"
    for s0 s t by (simp_all add: set_current_time_def split: option.splits)
  show ?thesis
    using inv insert_then_submachine_safe [OF inv wft_new_good]
    by (auto simp: time handle_non_stateful_event_def Let_def wm_send_job_def ok_or_def
        intro!: safe_bind [where state = "\<lambda>s. s"]
        split: option.splits Attributes.splits prod.splits)
qed

lemma wm_handle_event_safe:
  assumes inv: "wm_inv s"
  shows "safe s snd (wm_handle_event x s d next_event)"
proof -
  define s1 where "s1 = (if is_final_wf_execution_event (hed_event d)
      then s\<lparr>wm_have_seen_terminal_event := True\<rparr> else s)"
  define s2 where "s2 = note_wft_started s1 (hed_event d)"
  have s1: "wm_inv s1" "extends s s1" using inv by (simp_all add: s1_def)
  have s2: "wm_inv s2" "extends s s2"
    using s1 by (auto simp: s2_def note_wft_started_def extends_def named_def known_def
        elim!: wm_inv_frame split: option.splits Attributes.splits)
  have by_event: "safe s (\<lambda>s. s) (case get_initial_command_event_id (hed_event d) of
      Some i \<Rightarrow> res_bind (ok_or (map_of (wm_machines_by_event_id s2) i) (Nondeterminism MissingMachine))
        (\<lambda>mkey. submachine_handle_event x s2 mkey d)
    | None \<Rightarrow> handle_non_stateful_event x s2 d)"
  proof (cases "get_initial_command_event_id (hed_event d)")
    case None
    then show ?thesis using safe_from [OF s2(2) handle_non_stateful_safe [OF s2(1)]] by simp
  next
    case (Some i)
    have "known s2 k" if "map_of (wm_machines_by_event_id s2) i = Some k" for k
      using s2(1) map_of_SomeD [OF that] by (auto simp: wm_inv_def all_keys_def)
    then show ?thesis using Some safe_from [OF s2(2) submachine_safe [OF s2(1)]]
      by (auto simp: ok_or_def split: option.splits)
  qed
  show ?thesis
    using by_event [unfolded s2_def] safe_from [OF s1(2) handle_command_event_safe [OF s1(1)]] s1
    by (auto simp: wm_handle_event_def Let_def simp flip: s1_def)
qed

section \<open>Protocol messages\<close>

definition request_ok :: "IncomingProtocolMessage \<Rightarrow> bool" where
  "request_ok msg \<longleftrightarrow> rq_input (ipm_body msg) \<noteq> None \<and> rq_meta (ipm_body msg) \<noteq> None"

lemma message_from_event_ok [simp]:
  "message_from_event e \<noteq> Panic"
  "message_from_event e = Ok msg \<Longrightarrow> request_ok msg"
  by (auto simp: message_from_event_def IncomingProtocolMessage_try_from_event_def
      UpdateRequest_try_from_def request_ok_def ok_or_def Let_def res_bind_eq_Ok res_bind_eq_Panic
      split: option.splits Attributes.splits res.splits if_splits)

lemma list_all_filter: "list_all P xs \<Longrightarrow> list_all P (filter Q xs)"
  by (simp add: list_all_iff)

text \<open>Messages that can be handled stay so: events add only such messages.\<close>

interpretation messages: task_relation
  "\<lambda>s s'. list_all request_ok (wm_protocol_msgs s) \<longrightarrow> list_all request_ok (wm_protocol_msgs s')"
  by unfold_locales (simp_all add: set_current_time_def message_from_event_ok list_all_filter)

lemma update_init_ok:
  assumes "request_ok msg"
  obtains um where "update_init mid iid seq (ipm_body msg) rep = Ok um"
    and "machines_good (M_Update (num_machine um))" and "\<not> is_request_cancel (num_response um)"
  using assms
  by (auto simp: update_init_def request_ok_def UpdateRequest_meta_def UpdateRequest_name_def
      UpdateRequest_input_def UpdateRequest_headers_def from_parts_def is_request_cancel_def)

lemma handle_protocol_message_safe:
  assumes inv: "wm_inv s" and "request_ok msg"
  shows "safe s (\<lambda>s. s) (handle_protocol_message x s msg)"
proof (cases "ipm_sequencing_id msg")
  case (Some q)
  show ?thesis
  proof (cases q)
    case (SeqEventId eid)
    obtain um where um: "update_init (ipm_id msg) (ipm_protocol_instance_id msg) eid (ipm_body msg)
        (wm_replaying s) = Ok um" "machines_good (M_Update (num_machine um))"
        "\<not> is_request_cancel (num_response um)"
      using update_init_ok [OF assms(2)] .
    obtain k s1 where ins: "insert_machine s (M_Update (num_machine um)) = (k, s1)" by fastforce
    let ?s = "s1\<lparr>wm_machines_by_protocol_instance_id :=
        (wm_machines_by_protocol_instance_id s1)(ipm_protocol_instance_id msg \<mapsto> k)\<rparr>"
    have "wm_inv ?s" using insert_known_keeps(2) [OF inv um(2) ins] by simp
    moreover have "known ?s k" "extends s ?s"
      using insert_machine_inv(2,3) [OF inv um(2) ins] by (simp_all add: known_def extends_def named_def)
    ultimately have "safe s (\<lambda>s. s) (res_bind (Ok ?s) (\<lambda>s. process_machine_responses x s k [num_response um]))"
      using um(3) by (intro safe_bind) (auto simp del: process_machine_responses.simps
          intro!: process_responses_safe)
    then show ?thesis
      by (simp add: handle_protocol_message_def Some SeqEventId um ins add_new_protocol_machine_def)
  qed (simp add: handle_protocol_message_def Some)
qed (simp add: handle_protocol_message_def)

lemma handle_protocol_messages_safe:
  "wm_inv s \<Longrightarrow> list_all request_ok msgs \<Longrightarrow> safe s (\<lambda>s. s) (handle_protocol_messages x s msgs)"
  by (induction msgs arbitrary: s) (auto intro!: safe_bind [OF handle_protocol_message_safe])

section \<open>A workflow task\<close>

lemma safe_bind_on:
  assumes "safe s state r"
    and "\<And>v. r = Ok v \<Longrightarrow> wm_inv (state v) \<Longrightarrow> extends s (state v) \<Longrightarrow> safe s state' (f v)"
  shows "safe s state' (res_bind r f)"
  using assms by (cases r) auto

lemma admit_update_ok:
  assumes "admit_update s adm dh e = Ok (s1, adm1, dh1)"
  shows "\<forall>m \<in> ran adm. request_ok m \<Longrightarrow> \<forall>m \<in> ran adm1. request_ok m"
    and "list_all request_ok (wm_protocol_msgs s) \<Longrightarrow> list_all request_ok (wm_protocol_msgs s1)"
    and "wm_inv s \<Longrightarrow> wm_inv s1" and "extends s0 s \<Longrightarrow> extends s0 s1"
  using assms message_from_event_ok(2) [of e]
  by (auto simp: admit_update_def res_map_eq_Ok ran_def split: if_splits) blast

lemma admit_update_no_panic [simp]: "admit_update s adm dh e \<noteq> Panic"
  by (auto simp: admit_update_def res_map_eq_Panic)

lemma apply_events_admitted:
  "apply_events x b s adm dh es = Ok (s', adm') \<Longrightarrow> \<forall>m \<in> ran adm. request_ok m \<Longrightarrow>
   \<forall>m \<in> ran adm'. request_ok m"
proof (induction es arbitrary: s adm dh)
  case (Cons e es)
  from Cons.prems(1) obtain s0 s1 s2 adm1 dh1 dh2 where admit: "admit_update s0 adm dh e = Ok (s1, adm1, dh1)"
    and rest: "apply_events x b s2 adm1 dh2 es = Ok (s', adm')"
    by (auto simp: Let_def res_bind_eq_Ok simp del: if_split split: if_split_asm)
  from Cons.IH [OF rest] admit_update_ok(1) [OF admit Cons.prems(2)] show ?case .
qed simp

text \<open>The messages that are due and the event itself, followed by the rest of the loop.\<close>

lemma event_body_safe:
  assumes inv: "wm_inv s1" and ok: "list_all request_ok (wm_protocol_msgs s1)"
    and rest: "\<And>s dh. wm_inv s \<Longrightarrow> list_all request_ok (wm_protocol_msgs s) \<Longrightarrow> safe s fst (rest s dh)"
  shows "safe s1 fst (res_bind (handle_protocol_messages x
      (s1\<lparr>wm_protocol_msgs := filter (\<lambda>m. \<not> processable_by i m) (wm_protocol_msgs s1)\<rparr>)
      (filter (processable_by i) (wm_protocol_msgs s1))) (\<lambda>s. res_bind
        (if dh then res_map (\<lambda>(eho, s). (s, eho \<noteq> SkipEvent True)) (wm_handle_event x s (ed s) n)
         else Ok (s, True)) (\<lambda>(s, dh). rest s dh)))"
proof (rule safe_bind [where state = "\<lambda>s. s"])
  let ?s = "s1\<lparr>wm_protocol_msgs := filter (\<lambda>m. \<not> processable_by i m) (wm_protocol_msgs s1)\<rparr>"
  let ?msgs = "filter (processable_by i) (wm_protocol_msgs s1)"
  let ?event = "\<lambda>s. if dh
    then res_map (\<lambda>(eho, s). (s, eho \<noteq> SkipEvent True)) (wm_handle_event x s (ed s) n) else Ok (s, True)"
  show "safe s1 (\<lambda>s. s) (handle_protocol_messages x ?s ?msgs)"
    using handle_protocol_messages_safe [of ?s ?msgs x] inv ok by (simp add: list_all_iff)
  fix s2
  assume s2: "handle_protocol_messages x ?s ?msgs = Ok s2" "wm_inv s2"
  have ok2: "list_all request_ok (wm_protocol_msgs s2)"
    using feed.R_handle_protocol_messages [OF s2(1)] ok by (auto simp: same_feed_def list_all_iff)
  show "safe s2 fst (res_bind (?event s2) (\<lambda>(s, dh). rest s dh))"
  proof (rule safe_bind [where state = fst])
    show "safe s2 fst (?event s2)"
      using wm_handle_event_safe [OF s2(2)] s2(2) by (simp add: case_prod_beta)
    fix v
    assume v: "?event s2 = Ok v" "wm_inv (fst v)"
    have "wm_protocol_msgs (fst v) = wm_protocol_msgs s2"
      using v(1) feed.R_handle_event [of x s2 "ed s2" n]
      by (auto simp: res_map_eq_Ok same_feed_def split: if_splits)
    with rest [of "fst v" "snd v"] v(2) ok2
    show "safe (fst v) fst (case v of (s, dh) \<Rightarrow> rest s dh)" by (simp add: case_prod_beta)
  qed
qed

lemma apply_events_safe:
  "wm_inv s \<Longrightarrow> list_all request_ok (wm_protocol_msgs s) \<Longrightarrow>
   safe s fst (apply_events x has_final s adm dh es)"
proof (induction es arbitrary: s adm dh)
  case (Cons e es)
  let ?s0 = "if ends_replay s has_final e then s\<lparr>wm_replaying := False\<rparr> else s"
  have s0: "wm_inv ?s0" "extends s ?s0" "list_all request_ok (wm_protocol_msgs ?s0)"
    using Cons.prems by simp_all
  have body: "safe s1 fst (res_bind (handle_protocol_messages x
      (s1\<lparr>wm_protocol_msgs := filter (\<lambda>m. \<not> processable_by i m) (wm_protocol_msgs s1)\<rparr>)
      (filter (processable_by i) (wm_protocol_msgs s1))) (\<lambda>s. res_bind
        (if dh1 then res_map (\<lambda>(eho, s). (s, eho \<noteq> SkipEvent True)) (wm_handle_event x s (ed s) n)
         else Ok (s, True)) (\<lambda>(s, dh2).
      apply_events x has_final (s\<lparr>wm_last_processed_event := j\<rparr>) adm1 dh2 es)))"
    if "wm_inv s1" "list_all request_ok (wm_protocol_msgs s1)" for s1 adm1 dh1 ed n i j
  proof (rule event_body_safe [OF that])
    show "safe s fst (apply_events x has_final (s\<lparr>wm_last_processed_event := j\<rparr>) adm1 dh2 es)"
      if "wm_inv s" "list_all request_ok (wm_protocol_msgs s)" for s dh2
      using Cons.IH [of "s\<lparr>wm_last_processed_event := j\<rparr>"] that by simp
  qed
  have "safe s fst (res_bind (admit_update ?s0 adm dh e) (\<lambda>(s1, adm1, dh1). f s1 adm1 dh1))"
    if "\<And>s1 adm1 dh1. wm_inv s1 \<Longrightarrow> list_all request_ok (wm_protocol_msgs s1) \<Longrightarrow>
      safe s1 fst (f s1 adm1 dh1)" for f
  proof (rule safe_bind_pure)
    fix v
    assume v: "admit_update ?s0 adm dh e = Ok v"
    obtain s1 adm1 dh1 where [simp]: "v = (s1, adm1, dh1)" by (cases v)
    note ok = admit_update_ok [OF v [simplified \<open>v = _\<close>]]
    from that [OF ok(3) ok(2)] s0 ok(4) [OF s0(2)]
    show "safe s fst (case v of (s1, adm1, dh1) \<Rightarrow> f s1 adm1 dh1)" by (auto intro: safe_from)
  qed simp
  from this [OF body] show ?case by (simp add: Let_def del: if_split)
qed simp

lemma look_ahead_safe:
  "wm_inv s \<Longrightarrow> \<forall>m \<in> ran adm. request_ok m \<Longrightarrow>
   safe s snd (look_ahead x s adm es) \<and>
   (\<forall>actions s'. look_ahead x s adm es = Ok (actions, s') \<longrightarrow>
      (\<forall>msg. ProtocolMessageAction msg \<in> set actions \<longrightarrow> request_ok msg))"
proof (induction es arbitrary: s adm)
  case (Cons e es)
  have fewer: "\<forall>m \<in> ran (adm(i := None)). request_ok m" for i
    using Cons.prems(2) by (auto simp: ran_def split: if_splits)
  show ?case
  proof (cases x e rule: look_ahead_cases)
    case (patch pid b)
    let ?s = "wm_send_job (s\<lparr>wm_encountered_patch_markers :=
        AList.update pid False (wm_encountered_patch_markers s)\<rparr>) (J_NotifyHasPatch pid)"
    have "wm_inv ?s" "extends s ?s" using Cons.prems(1) by (simp_all add: wm_send_job_def)
    with Cons.IH [OF this(1) Cons.prems(2)] patch show ?thesis by (auto intro: safe_from)
  next
    case marker
    with Cons.IH [OF Cons.prems] show ?thesis
      by (cases "into_local_activity_marker_details x e")
        (auto simp: res_map_eq_Ok case_prod_beta)
  next
    case (update a)
    have "request_ok msg" if "adm (wua_protocol_instance_id a) = Some msg" for msg
      using Cons.prems(2) that by (auto simp: ran_def)
    moreover have "safe s snd (look_ahead x s (adm(wua_protocol_instance_id a := None)) es)"
      "\<And>actions s' msg. look_ahead x s (adm(wua_protocol_instance_id a := None)) es = Ok (actions, s') \<Longrightarrow>
        ProtocolMessageAction msg \<in> set actions \<Longrightarrow> request_ok msg"
      using Cons.IH [OF Cons.prems(1) fewer] by blast+
    ultimately show ?thesis
      using update
      by (auto simp: res_map_eq_Ok case_prod_beta res_bind_eq_Ok intro!: safe_bind_pure
          split: option.splits)
  next
    case other
    with Cons.IH [OF Cons.prems] show ?thesis by (simp del: look_ahead.simps)
  qed
qed simp
lemma la_will_accept_no_panic:
  "machines_good (M_LocalActivity lam) \<Longrightarrow> la_will_accept_resolve_marker lam \<noteq> Panic"
  by (auto simp: la_will_accept_resolve_marker_def good_machine_def split: option.splits)

lemma should_queue_no_panic:
  assumes "wm_inv s"
  shows "should_queue_marker s seq \<noteq> Panic"
proof (cases "wm_id_to_machine s (CID_LocalActivity seq)")
  case (Some k)
  then have "known s k" using assms by (auto simp: wm_inv_def all_keys_def intro: named_known)
  then obtain m where "wm_machine s k = Ok m" "machines_good m" using wm_machine_safe [OF assms] by metis
  with Some la_will_accept_no_panic show ?thesis by (cases m) (auto simp: should_queue_marker_def)
qed (simp add: should_queue_marker_def)

lemma apply_delayed_safe:
  "wm_inv s \<Longrightarrow> \<forall>msg. ProtocolMessageAction msg \<in> set actions \<longrightarrow> request_ok msg \<Longrightarrow>
   safe s (\<lambda>s. s) (apply_delayed_actions x s actions)"
proof (induction actions arbitrary: s)
  case (Cons action actions)
  then have IH: "safe s1 (\<lambda>s. s) (apply_delayed_actions x s1 actions)" if "wm_inv s1" for s1
    using that by simp
  show ?case
  proof (cases action)
    case (LocalActivityMarkerAction dat)
    let ?s = "s\<lparr>wm_local_activity_data := lad_insert_peeked_marker x (wm_local_activity_data s) dat\<rparr>"
    have "safe s (\<lambda>s. s) (if b then apply_local_activity_peeked_resolutions x ?s False else Ok s)" for b
      using apply_peeked_safe [of ?s] Cons.prems(1) by simp
    then show ?thesis
      using LocalActivityMarkerAction IH should_queue_no_panic [OF Cons.prems(1)]
      by (auto intro!: safe_bind_pure safe_bind [where state = "\<lambda>s. s"])
  next
    case (ProtocolMessageAction msg)
    then show ?thesis
      using IH Cons.prems by (auto intro!: safe_bind [OF handle_protocol_message_safe])
  qed
qed simp

text \<open>The responses collected from the local activities can be processed once all have been told.\<close>

definition answers_known :: "WorkflowMachines \<Rightarrow> (MachineKey \<times> MachineResponse list) list \<Rightarrow> bool" where
  "answers_known s rss \<longleftrightarrow>
     (\<forall>(k, rs) \<in> set rss. known s k \<and> (list_ex is_request_cancel rs \<longrightarrow> la_at s k))"

lemma answers_known_extends: "answers_known s rss \<Longrightarrow> extends s s' \<Longrightarrow> answers_known s' rss"
  unfolding answers_known_def extends_def by blast

lemma well_behaved_non_replay:
  "well_behaved (\<lambda>_. True) (on_local_activity (encountered_non_replay_wft x) (Ok []))"
proof (rule well_behavedI)
  fix m
  assume "machines_good m"
  then show "fst (on_local_activity (encountered_non_replay_wft x) (Ok []) m) \<noteq> Panic"
    using la.own_no_panic [where c = La_non_replay_wft]
    by (cases m) (auto simp: on_local_activity_def)
next
  fix m rs m'
  assume m: "machines_good m" "on_local_activity (encountered_non_replay_wft x) (Ok []) m = (Ok rs, m')"
  show "machines_good m' \<and> machine_name m' = machine_name m \<and>
      (list_ex is_request_cancel rs \<longrightarrow> is_local_activity m)"
  proof (cases "is_local_activity m")
    case True
    then obtain lam where lam: "m = M_LocalActivity lam" by (cases m) auto
    with m obtain a lam' where "good_machine (la_good a) lam" "encountered_non_replay_wft x lam = (Ok rs, lam')"
      and m': "m' = M_LocalActivity lam'" by (auto simp: on_local_activity_def)
    then have "good_machine (la_good a) lam'" using la.own_good [where c = La_non_replay_wft] by fastforce
    then show ?thesis by (auto simp: lam m')
  next
    case False
    with m(2) have "m' = m" "rs = []" by (cases m; simp add: on_local_activity_def)+
    with m(1) show ?thesis by simp
  qed
qed

lemma tell_non_replay_safe:
  "wm_inv s \<Longrightarrow> safe s snd (tell_non_replay x s ks) \<and>
   (\<forall>rss s'. tell_non_replay x s ks = Ok (rss, s') \<longrightarrow> answers_known s' rss)"
proof (induction ks arbitrary: s)
  case (Cons k ks)
  show ?case
  proof (cases "\<exists>lam. wm_all_machines s k = Some (M_LocalActivity lam)")
    case True
    then have k: "known s k" by (auto simp: known_def)
    note call = call_machine_safe [OF Cons.prems k well_behaved_non_replay]
    have head: "answers_known s' ((k, rs) # rss)"
      if "call_machine s k (on_local_activity (encountered_non_replay_wft x) (Ok [])) = Ok (rs, s1)"
        "tell_non_replay x s1 ks = Ok (rss, s')" for rs rss s1 s'
    proof -
      have "answers_known s1 [(k, rs)]" using call(2,3) that(1) by (auto simp: answers_known_def)
      moreover have "extends s1 s'" "answers_known s' rss"
        using Cons.IH [of s1] call(1) that by (auto simp: safe_def)
      ultimately have "answers_known s' [(k, rs)]" "answers_known s' rss"
        by (simp_all add: answers_known_extends)
      then show ?thesis by (simp add: answers_known_def)
    qed
    have "safe s snd (res_bind (call_machine s k (on_local_activity (encountered_non_replay_wft x) (Ok [])))
        (\<lambda>(rs, s). res_map (\<lambda>(rss, s). ((k, rs) # rss, s)) (tell_non_replay x s ks)))"
      using Cons.IH by (intro safe_bind [OF call(1)]) (auto simp: case_prod_beta)
    with True head show ?thesis by (auto simp: res_bind_eq_Ok res_map_eq_Ok)
  next
    case False
    then have "tell_non_replay x s (k # ks) = tell_non_replay x s ks"
      by (auto split: option.splits Machines.splits)
    with Cons show ?thesis by (simp del: tell_non_replay.simps)
  qed
qed (simp add: answers_known_def)

lemma process_response_sets_safe:
  "wm_inv s \<Longrightarrow> answers_known s rss \<Longrightarrow> safe s (\<lambda>s. s) (process_response_sets x s rss)"
proof (induction rss arbitrary: s)
  case (Cons p rss)
  obtain k rs where p: "p = (k, rs)" by fastforce
  have "safe s (\<lambda>s. s) (process_machine_responses x s k rs)"
    using Cons.prems by (intro process_responses_safe) (auto simp: answers_known_def p)
  then show ?case
    using Cons p answers_known_extends [of s rss]
    by (auto intro!: safe_bind simp: answers_known_def)
qed simp

lemma take_next_no_panic:
  assumes "can_take_next_wft_sequence u from_id"
  shows "take_next_wft_sequence u from_id \<noteq> Panic"
proof (cases "relevant_events u from_id = []")
  case True
  then have "starting_index_after_skipping u from_id = None"
    using starting_index_cases [of u from_id] by (auto split: option.splits)
  then show ?thesis
    using assms find_end_Complete [of "hu_events u" from_id "hu_has_last_wft u"]
      find_end_Incomplete [of "hu_events u" from_id "hu_has_last_wft u"]
    by (auto simp: take_next_wft_sequence_def can_take_next_wft_sequence_def build_next_wft_def Let_def
        split: NextWFTSeqEndIndex.splits)
next
  case False
  let ?es = "relevant_events u from_id"
  obtain xs where xs: "hu_events u = xs @ ?es" "\<forall>e\<in>set xs. he_event_id e \<le> from_id"
    using relevant_events_split by metis
  show ?thesis
    using assms find_end_Complete [of ?es from_id "hu_has_last_wft u"] False
      find_end_Incomplete [of ?es from_id "hu_has_last_wft u"]
      find_end_skip_Complete [OF xs(2), of ?es "hu_has_last_wft u"] xs(1)
    by (auto simp: take_next_relevant [OF False] can_take_next_wft_sequence_def build_next_wft_def
        Let_def split: NextWFTSeqEndIndex.splits)
qed

lemma wft_end_index_less: "es \<noteq> [] \<Longrightarrow> wft_end_index (find_end_index_of_next_wft_seq es i hl) < length es"
  using find_end_Complete [of es i hl] find_end_Incomplete [of es i hl]
  by (cases "find_end_index_of_next_wft_seq es i hl") auto

lemma peek_next_no_panic: "peek_next_wft_sequence u from_id \<noteq> Panic"
proof -
  let ?es = "drop (unwrap_or (starting_index_after_skipping u from_id) 0) (hu_events u)"
  show ?thesis
    using wft_end_index_less [of ?es from_id "hu_has_last_wft u"]
    by (cases "?es = []") (simp_all add: peek_next_wft_sequence_def Let_def)
qed

lemma after_events_safe:
  assumes "wm_inv s" and "\<forall>m \<in> ran adm. request_ok m"
  shows "safe s (\<lambda>s. s) (after_events x i s adm)"
  unfolding after_events_def
proof (rule safe_bind_pure)
  show "from_history (peek_next_wft_sequence (wm_last_history_from_server s) i) \<noteq> Panic"
    using peek_next_no_panic by (auto simp: from_history_def split: res.splits)
  fix peeked
  note look = look_ahead_safe [OF assms, of x peeked]
  have tell: "safe s1 (\<lambda>s. s) (res_bind (tell_non_replay x s1 ks) (\<lambda>(rss, s). process_response_sets x s rss))"
    if "wm_inv s1" for s1 ks
    using tell_non_replay_safe [OF that, of x ks] by (auto intro!: safe_bind process_response_sets_safe)
  have rest: "safe s1 (\<lambda>s. s) (let
       pending_jobs = dw_outgoing_wf_activation_jobs (wm_drive_me s1);
       s = (if \<not> wm_replaying s1 \<and> pending_jobs \<noteq> []
            then s1\<lparr>wm_update_only_task := (\<not> has_non_update_jobs pending_jobs)\<rparr> else s1)
     in if \<not> wm_replaying s \<and> \<not> wm_update_only_task s then
          res_bind (tell_non_replay x s [0..<wm_next_key s]) (\<lambda>(resps, s). process_response_sets x s resps)
        else Ok s)" if "wm_inv s1" for s1
    using tell [of s1] tell [of "s1\<lparr>wm_update_only_task := False\<rparr>"] that by (simp add: Let_def)
  show "safe s (\<lambda>s. s) (res_bind (look_ahead x s adm peeked) (\<lambda>(delayed_actions, s).
     res_bind (apply_delayed_actions x s delayed_actions) (\<lambda>s.
     res_bind (release_held_local_activity_resolutions_if_idle x s) (\<lambda>s.
     let pending_jobs = dw_outgoing_wf_activation_jobs (wm_drive_me s);
         s = (if \<not> wm_replaying s \<and> pending_jobs \<noteq> []
              then s\<lparr>wm_update_only_task := (\<not> has_non_update_jobs pending_jobs)\<rparr> else s)
     in if \<not> wm_replaying s \<and> \<not> wm_update_only_task s then
          res_bind (tell_non_replay x s [0..<wm_next_key s]) (\<lambda>(resps, s).
          process_response_sets x s resps)
        else Ok s))))"
    using look
    by (auto intro!: safe_bind [where state = snd] safe_bind [where state = "\<lambda>s. s"] apply_delayed_safe
        release_held_safe rest)
qed

lemma deployment_frame [simp]:
  "wm_inv (s\<lparr>wm_current_wft_deployment_info := v\<rparr>) = wm_inv s"
  "extends s0 (s\<lparr>wm_current_wft_deployment_info := v\<rparr>) = extends s0 s"
  by (auto simp: extends_def named_def known_def elim!: wm_inv_frame)

lemma apply_completed_events_frame:
  "wm_inv (apply_completed_events s es) = wm_inv s \<and>
   (\<forall>s0. extends s0 (apply_completed_events s es) = extends s0 s) \<and>
   wm_protocol_msgs (apply_completed_events s es) = wm_protocol_msgs s"
proof (induction es arbitrary: s)
  case (Cons e es)
  let ?Q = "\<lambda>s'. wm_inv s' = wm_inv s \<and> (\<forall>s0. extends s0 s' = extends s0 s) \<and>
      wm_protocol_msgs s' = wm_protocol_msgs s"
  have step: "?Q (apply_wft_complete_data s' a)" if "?Q s'" for s' a
    using that by (simp add: apply_wft_complete_data_def Let_def)
  define s1 where "s1 = (case he_attributes e of
      Some (A_WorkflowTaskCompleted wtc) \<Rightarrow> apply_wft_complete_data s wtc | _ \<Rightarrow> s)"
  define s2 where "s2 = (if es = [] then
      (case peek_next_wft_completed (wm_last_history_from_server s1) (he_event_id e) of
         Some wtc \<Rightarrow> apply_wft_complete_data s1 wtc | None \<Rightarrow> s1) else s1)"
  have "?Q s1" unfolding s1_def by (rule completed_case) (use step [of s] in simp_all)
  then have "?Q s2" using step [of s1] by (simp add: s2_def split: option.splits)
  moreover have "apply_completed_events s (e # es) = apply_completed_events s2 es"
    by (simp only: apply_completed_events.simps Let_def s2_def s1_def)
  ultimately show ?case using Cons.IH [of s2] by metis
qed simp

lemma before_events_frame:
  "wm_inv s \<Longrightarrow> wm_inv (before_events s es)" "extends s0 s \<Longrightarrow> extends s0 (before_events s es)"
  "wm_protocol_msgs (before_events s es) = wm_protocol_msgs s"
  by (simp_all add: before_events_def Let_def apply_completed_events_frame)

lemma apply_next_wft_safe:
  assumes inv: "wm_inv s" and ready: "ready_to_apply_next_wft s"
    and ok: "list_all request_ok (wm_protocol_msgs s)"
  shows "safe s snd (apply_next_wft_from_history x s)"
proof (cases "wm_have_seen_terminal_event s")
  case False
  have next_safe: "safe s (\<lambda>(_, _, s). s) (next_events s)"
    using take_next_no_panic ready inv
    by (auto simp: next_events_def ready_to_apply_next_wft_def from_history_def Let_def
        intro!: safe_bind_pure split: res.splits NextWFT.splits)
  have msgs: "wm_protocol_msgs s1 = wm_protocol_msgs s" if "next_events s = Ok (es, fin, s1)" for es fin s1
    using that by (rule next_events_Ok) simp
  have "safe s1 snd (res_bind (apply_events x fin (before_events s1 es) Map.empty True es)
      (\<lambda>(s, admitted). res_map (\<lambda>s. (n, s)) (after_events x i s admitted)))"
    if "wm_inv s1" "list_all request_ok (wm_protocol_msgs s1)" for s1 fin es i and n :: nat
  proof -
    have s2: "wm_inv (before_events s1 es)" "extends s1 (before_events s1 es)"
      "list_all request_ok (wm_protocol_msgs (before_events s1 es))"
      using that by (simp_all add: before_events_frame)
    show ?thesis
      using apply_events_admitted [of x fin "before_events s1 es" Map.empty True es]
      by (auto intro!: safe_from [OF s2(2)] safe_bind [OF apply_events_safe [OF s2(1,3)]] after_events_safe)
  qed
  with False msgs ok show ?thesis
    by (auto simp: apply_next_wft_from_history_def intro!: safe_bind [OF next_safe])
qed (use inv in \<open>simp add: apply_next_wft_from_history_def\<close>)

end
