(* ===== verification/WorkflowManager.thy ===== *)
theory WorkflowManager
  imports RunSafety
begin

text \<open>
  The manager of a run's machines (\<^verbatim>\<open>WorkflowManager\<close> of
  \<^verbatim>\<open>crates/sdk-core/src/worker/workflow/managed_run.rs\<close>).  It decides when the machines see the next
  workflow task, the commands of the language side and the results of local activities.  A result
  that arrives while the language side is busy, or between two workflow tasks, is put aside and
  applied when replay would apply it.

  The sender of the command channel is the queue \<open>dw_incoming_commands\<close> the machines read.
\<close>

section \<open>State and operations\<close>

record WorkflowManager =
  wfm_machines :: WorkflowMachines
  wfm_awaiting_activation_completion :: bool
  wfm_awaiting_next_wft :: bool
  wfm_deferred_local_resolutions :: "LocalActivityResolution list"

definition wfm_new :: "RunBasics \<Rightarrow> WorkflowManager" where
  "wfm_new basics =
     \<lparr>wfm_machines = wm_new basics driven_workflow_new, wfm_awaiting_activation_completion = False,
      wfm_awaiting_next_wft = False, wfm_deferred_local_resolutions = []\<rparr>"

fun apply_resolutions ::
    "externals \<Rightarrow> WorkflowMachines \<Rightarrow> LocalActivityResolution list \<Rightarrow> WorkflowMachines result" where
  "apply_resolutions x s [] = Ok s"
| "apply_resolutions x s (r # rs) =
     res_bind (local_resolution x s r) (\<lambda>(_, s). apply_resolutions x s rs)"

definition apply_deferred_local_resolutions ::
    "externals \<Rightarrow> WorkflowManager \<Rightarrow> WorkflowManager result" where
  "apply_deferred_local_resolutions x m =
     (if wfm_awaiting_activation_completion m \<or> wfm_awaiting_next_wft m then Ok m
      else res_map (\<lambda>s. m\<lparr>wfm_machines := s, wfm_deferred_local_resolutions := []\<rparr>)
             (apply_resolutions x (wfm_machines m) (wfm_deferred_local_resolutions m)))"

definition get_next_activation ::
    "externals \<Rightarrow> WorkflowManager \<Rightarrow> (WorkflowActivation \<times> WorkflowManager) result" where
  "get_next_activation x m =
     (let (activation, s) = get_wf_activation x (wfm_machines m)
      in res_map (\<lambda>(activation, s).
             (activation, m\<lparr>wfm_machines := s,
                            wfm_awaiting_activation_completion := (wac_jobs activation \<noteq> [])\<rparr>))
           (if wac_jobs activation = []
            then res_map (\<lambda>(_, s). get_wf_activation x s) (apply_next_wft_from_history x s)
            else Ok (activation, s)))"

definition wfm_new_work_from_server ::
    "externals \<Rightarrow> WorkflowManager \<Rightarrow> HistoryUpdate \<Rightarrow> IncomingProtocolMessage list \<Rightarrow> bool \<Rightarrow>
     (WorkflowActivation \<times> WorkflowManager) result" where
  "wfm_new_work_from_server x m update messages preparing_legacy_query =
     res_bind (new_work_from_server x (wfm_machines m) update messages preparing_legacy_query) (\<lambda>s.
     res_bind (apply_deferred_local_resolutions x
         (m\<lparr>wfm_machines := s, wfm_awaiting_next_wft := False\<rparr>)) (\<lambda>m.
     get_next_activation x m))"

definition feed_history_from_new_page ::
    "externals \<Rightarrow> WorkflowManager \<Rightarrow> HistoryUpdate \<Rightarrow> WorkflowManager result" where
  "feed_history_from_new_page x m update =
     res_map (\<lambda>s. m\<lparr>wfm_machines := s\<rparr>) (new_history_from_server x (wfm_machines m) update)"

definition notify_of_local_result ::
    "externals \<Rightarrow> WorkflowManager \<Rightarrow> LocalActivityResolution \<Rightarrow> WorkflowManager result" where
  "notify_of_local_result x m resolved =
     (if wfm_awaiting_activation_completion m \<or> wfm_awaiting_next_wft m
      then Ok (m\<lparr>wfm_deferred_local_resolutions := wfm_deferred_local_resolutions m @ [resolved]\<rparr>)
      else res_map (\<lambda>(_, s). m\<lparr>wfm_machines := s\<rparr>) (local_resolution x (wfm_machines m) resolved))"

definition wfm_ready_to_apply_next_wft :: "WorkflowManager \<Rightarrow> bool" where
  "wfm_ready_to_apply_next_wft m = ready_to_apply_next_wft (wfm_machines m)"

section \<open>Taking history\<close>

text \<open>A step that hands out events leaves fewer in the update.\<close>

lemma take_next_shorter:
  assumes "take_next_wft_sequence u from_id = Ok (WFT evts fin, u')"
  shows "length (hu_events u') < length (hu_events u)"
proof -
  have build: "length (hu_events w') < length (hu_events w)"
    if "build_next_wft w k = (Ok (WFT evts fin, w') :: (NextWFT \<times> HistoryUpdate, Status) res)" for w k w'
    using that by (auto simp: build_next_wft_def Let_def split: if_splits)
  define v where "v = (case starting_index_after_skipping u from_id of
      Some n \<Rightarrow> u\<lparr>hu_events := drop n (hu_events u)\<rparr> | None \<Rightarrow> u)"
  have "length (hu_events v) \<le> length (hu_events u)" by (auto simp: v_def split: option.splits)
  moreover have "length (hu_events u') < length (hu_events v)"
    using assms build unfolding take_next_wft_sequence_def v_def [symmetric] Let_def
    by (auto split: NextWFTSeqEndIndex.splits if_splits)
  ultimately show ?thesis by simp
qed

lemma apply_next_wft_shorter:
  assumes "apply_next_wft_from_history x s = Ok (n, s')" and "n \<noteq> 0"
  shows "length (hu_events (wm_last_history_from_server s')) <
    length (hu_events (wm_last_history_from_server s))"
proof -
  from assms obtain es fin s1 s2 adm where next_evs: "next_events s = Ok (es, fin, s1)"
    and n: "n = length es"
    and steps: "apply_events x fin (before_events s1 es) Map.empty True es = Ok (s2, adm)"
      "after_events x (wm_current_started_event_id s) s2 adm = Ok s'"
    by (auto simp: apply_next_wft_from_history_def res_bind_eq_Ok res_map_eq_Ok split: if_splits)
  have "wm_last_history_from_server s' = wm_last_history_from_server s1"
    using update.R_after_events [OF steps(2)] update.R_apply_events [OF steps(1)]
      update.R_before_events [of s1 es] by simp
  then show ?thesis
    using next_evs n assms(2) by (auto elim!: next_events_Ok dest: take_next_shorter)
qed

text \<open>The \<^verbatim>\<open>loop\<close> that applies tasks while there are events, replay goes on and no job came up.\<close>

function apply_next_task_loop :: "externals \<Rightarrow> WorkflowMachines \<Rightarrow> WorkflowMachines result" where
  "apply_next_task_loop x s =
     res_bind (apply_next_wft_from_history x s) (\<lambda>(consumed_events, s).
     if consumed_events = 0 \<or> \<not> wm_replaying s \<or> has_pending_jobs s then Ok s
     else apply_next_task_loop x s)"
  by pat_completeness auto

termination
  by (relation "measure (\<lambda>(_, s). length (hu_events (wm_last_history_from_server s)))")
    (auto dest: apply_next_wft_shorter)

declare apply_next_task_loop.simps [simp del]

definition apply_next_task_if_ready :: "externals \<Rightarrow> WorkflowManager \<Rightarrow> WorkflowManager result" where
  "apply_next_task_if_ready x m =
     (if has_pending_jobs (wfm_machines m) then Ok m
      else res_map (\<lambda>s. m\<lparr>wfm_machines := s\<rparr>) (apply_next_task_loop x (wfm_machines m)))"

section \<open>Working\<close>

definition wfm_drain_queued_local_activities ::
    "externals \<Rightarrow> WorkflowManager \<Rightarrow> LocalActRequest list \<times> WorkflowManager" where
  "wfm_drain_queued_local_activities x m =
     (let (reqs, s) = drain_queued_local_activities x (wfm_machines m)
      in (reqs, m\<lparr>wfm_machines := s\<rparr>))"

definition push_commands_and_iterate ::
    "externals \<Rightarrow> WorkflowManager \<Rightarrow> WFCommand list \<Rightarrow> WorkflowManager result" where
  "push_commands_and_iterate x m cmds =
     (let s = wfm_machines m;
          s = s\<lparr>wm_drive_me := (wm_drive_me s)\<lparr>dw_incoming_commands :=
                  dw_incoming_commands (wm_drive_me s) @ [cmds]\<rparr>\<rparr>
      in res_bind (iterate_machines x s) (\<lambda>s.
         apply_deferred_local_resolutions x
           (m\<lparr>wfm_machines := s, wfm_awaiting_activation_completion := False\<rparr>)))"

definition wft_completion_reported :: "WorkflowManager \<Rightarrow> WorkflowManager" where
  "wft_completion_reported m = m\<lparr>wfm_awaiting_next_wft := True\<rparr>"

end
