(* ===== verification/ManagerRuns.thy ===== *)
theory ManagerRuns
  imports WorkflowManager
begin

text \<open>
  Runs of a workflow: any sequence of calls of the manager that its caller may make.  Every state
  such a run reaches satisfies the invariant of the machines, so no call panics; the tables of the
  machines are typed, and the clock of the workflow never goes back.

  What the caller owes is part of the step: history is only applied when a whole sequence is
  there, messages carry the parts the protocol requires, and the answers to queries are taken out
  of the commands before the machines see them.
\<close>

section \<open>Calls\<close>

datatype ManagerOp =
    NewWork HistoryUpdate "IncomingProtocolMessage list" bool | NewPage HistoryUpdate
  | LocalResult LocalActivityResolution | NextActivation | ApplyNextTask | DrainLocalActivities
  | PushCommands "WFCommand list" | CompletionReported
  | LangFlags "u32 list" | GetCommands | TakeMessages | CompleteMetadata

definition on_machines :: "WorkflowManager \<Rightarrow> WorkflowMachines \<Rightarrow> WorkflowManager" where
  "on_machines m s = m\<lparr>wfm_machines := s\<rparr>"

fun run_op :: "externals \<Rightarrow> WorkflowManager \<Rightarrow> ManagerOp \<Rightarrow> WorkflowManager result" where
  "run_op x m (NewWork u msgs q) = res_map snd (wfm_new_work_from_server x m u msgs q)"
| "run_op x m (NewPage u) = feed_history_from_new_page x m u"
| "run_op x m (LocalResult r) = notify_of_local_result x m r"
| "run_op x m NextActivation = res_map snd (get_next_activation x m)"
| "run_op x m ApplyNextTask = apply_next_task_if_ready x m"
| "run_op x m DrainLocalActivities = Ok (snd (wfm_drain_queued_local_activities x m))"
| "run_op x m (PushCommands cs) = push_commands_and_iterate x m cs"
| "run_op x m CompletionReported = Ok (wft_completion_reported m)"
| "run_op x m (LangFlags fs) = Ok (on_machines m (add_lang_used_flags (wfm_machines m) fs))"
| "run_op x m GetCommands = res_map (\<lambda>(_, s). on_machines m s) (get_commands (wfm_machines m))"
| "run_op x m TakeMessages = Ok (on_machines m (snd (take_messages (wfm_machines m))))"
| "run_op x m CompleteMetadata =
     Ok (on_machines m (snd (get_metadata_for_wft_complete (wfm_machines m))))"

text \<open>Each round of the loop over tasks finds a whole sequence.\<close>

function ready_throughout :: "externals \<Rightarrow> WorkflowMachines \<Rightarrow> bool" where
  "ready_throughout x s \<longleftrightarrow>
     ready_to_apply_next_wft s \<and>
     (case apply_next_wft_from_history x s of
        Ok (n, s') \<Rightarrow> if n = 0 \<or> \<not> wm_replaying s' \<or> has_pending_jobs s' then True
                     else ready_throughout x s'
      | _ \<Rightarrow> True)"
  by pat_completeness auto

termination
  by (relation "measure (\<lambda>(_, s). length (hu_events (wm_last_history_from_server s)))")
    (auto dest: apply_next_wft_shorter)

declare ready_throughout.simps [simp del]

definition may_activate :: "WorkflowManager \<Rightarrow> bool" where
  "may_activate m \<longleftrightarrow> has_pending_jobs (wfm_machines m) \<or> ready_to_apply_next_wft (wfm_machines m)"

text \<open>The state in which \<open>get_next_activation\<close> meets new work.\<close>

definition work_received ::
    "externals \<Rightarrow> WorkflowManager \<Rightarrow> HistoryUpdate \<Rightarrow> IncomingProtocolMessage list \<Rightarrow> bool \<Rightarrow>
     WorkflowManager result" where
  "work_received x m u msgs q =
     res_bind (new_work_from_server x (wfm_machines m) u msgs q) (\<lambda>s.
     apply_deferred_local_resolutions x (m\<lparr>wfm_machines := s, wfm_awaiting_next_wft := False\<rparr>))"

fun allowed :: "externals \<Rightarrow> WorkflowManager \<Rightarrow> ManagerOp \<Rightarrow> bool" where
  "allowed x m (NewWork u msgs q) \<longleftrightarrow>
     list_all request_ok msgs \<and>
     can_take_next_wft_sequence u (wm_current_started_event_id (wfm_machines m)) \<and>
     (case work_received x m u msgs q of Ok m' \<Rightarrow> may_activate m' | _ \<Rightarrow> True)"
| "allowed x m (NewPage u) \<longleftrightarrow>
     can_take_next_wft_sequence u (wm_current_started_event_id (wfm_machines m))"
| "allowed x m NextActivation \<longleftrightarrow> may_activate m"
| "allowed x m ApplyNextTask \<longleftrightarrow>
     has_pending_jobs (wfm_machines m) \<or> ready_throughout x (wfm_machines m)"
| "allowed x m (PushCommands cs) \<longleftrightarrow> no_query_responses cs"
| "allowed x m _ \<longleftrightarrow> True"

inductive reachable :: "externals \<Rightarrow> RunBasics \<Rightarrow> WorkflowManager \<Rightarrow> bool" for x basics where
  start: "reachable x basics (wfm_new basics)"
| step: "reachable x basics m \<Longrightarrow> allowed x m op \<Longrightarrow> run_op x m op = Ok m' \<Longrightarrow> reachable x basics m'"

section \<open>What every call respects\<close>

locale manager_relation = task_relation +
  assumes R_work: "R s (s\<lparr>wm_protocol_msgs := msgs\<rparr>)" "R s (s\<lparr>wm_preparing_legacy_query := q\<rparr>)"
      "R s (s\<lparr>wm_drive_me := dm\<rparr>)" "R s (note_wft_events x s es)"
begin

lemma R_new_history:
  assumes "new_history_from_server x s u = Ok s'"
  shows "R s s'"
proof -
  let ?s = "note_wft_events x s (hu_events u)"
  let ?s1 = "?s\<lparr>wm_last_history_from_server := u,
      wm_replaying := (wm_preparing_legacy_query ?s \<or> hu_previous_wft_started_id u > 0)\<rparr>"
  from assms obtain n where "apply_next_wft_from_history x ?s1 = Ok (n, s')"
    by (auto simp: new_history_from_server_def Let_def res_map_eq_Ok)
  then have "R ?s1 s'" by (rule R_apply_next_wft)
  moreover have "R s ?s1" by (rule R_trans [OF R_trans [OF R_work(4) R_update] R_body(1)])
  ultimately show ?thesis by (rule R_trans [rotated])
qed

lemma R_new_work: "new_work_from_server x s u msgs q = Ok s' \<Longrightarrow> R s s'"
  unfolding new_work_from_server_def
  by (drule R_new_history) (blast intro: R_trans R_work R_outputs)

lemma R_apply_resolutions: "apply_resolutions x s rs = Ok s' \<Longrightarrow> R s s'"
  by (induction rs arbitrary: s)
    (auto simp: res_bind_eq_Ok R_refl dest!: R_local_resolution intro: R_trans)

lemma R_deferred:
  "apply_deferred_local_resolutions x m = Ok m' \<Longrightarrow> R (wfm_machines m) (wfm_machines m')"
  by (auto simp: apply_deferred_local_resolutions_def res_map_eq_Ok R_refl dest: R_apply_resolutions
      split: if_splits)

lemma R_get_wf_activation: "get_wf_activation x s = (a, s') \<Longrightarrow> R s s'"
  by (auto simp: get_wf_activation_def Let_def split: prod.splits
      intro!: R_updates R_body(4) [THEN R_trans [rotated]] R_work(3))

lemma R_next_activation:
  "get_next_activation x m = Ok (a, m') \<Longrightarrow> R (wfm_machines m) (wfm_machines m')"
  by (auto simp: get_next_activation_def res_map_eq_Ok split: prod.splits if_splits
      dest!: R_get_wf_activation R_get_wf_activation [OF sym] R_apply_next_wft intro: R_trans)

lemma R_task_loop: "apply_next_task_loop x s = Ok s' \<Longrightarrow> R s s'"
proof (induction x s rule: apply_next_task_loop.induct)
  case (1 x s)
  from "1.prems" obtain n s1 where s1: "apply_next_wft_from_history x s = Ok (n, s1)"
    and rest: "(if n = 0 \<or> \<not> wm_replaying s1 \<or> has_pending_jobs s1 then Ok s1
       else apply_next_task_loop x s1) = Ok s'"
    by (subst (asm) apply_next_task_loop.simps) (auto simp: res_bind_eq_Ok)
  have "R s1 s'" using "1.IH" [OF s1 refl] rest by (auto simp: R_refl split: if_splits)
  with R_apply_next_wft [OF s1] show ?case by (rule R_trans)
qed

lemma R_push:
  assumes "push_commands_and_iterate x m cs = Ok m'"
  shows "R (wfm_machines m) (wfm_machines m')"
proof -
  let ?s = "(wfm_machines m)\<lparr>wm_drive_me := (wm_drive_me (wfm_machines m))\<lparr>dw_incoming_commands :=
      dw_incoming_commands (wm_drive_me (wfm_machines m)) @ [cs]\<rparr>\<rparr>"
  from assms obtain s1 where s1: "iterate_machines x ?s = Ok s1"
    and rest: "apply_deferred_local_resolutions x
      (m\<lparr>wfm_machines := s1, wfm_awaiting_activation_completion := False\<rparr>) = Ok m'"
    by (auto simp: push_commands_and_iterate_def Let_def res_bind_eq_Ok)
  from R_deferred [OF rest] have "R s1 (wfm_machines m')" by simp
  with R_iterate_machines [OF s1] show ?thesis
    by (blast intro: R_trans R_work(3))
qed

lemma R_run_op:
  assumes "run_op x m op = Ok m'"
  shows "R (wfm_machines m) (wfm_machines m')"
proof (cases op)
  case (NewWork u msgs q)
  with assms obtain s1 m1 a where "new_work_from_server x (wfm_machines m) u msgs q = Ok s1"
    "apply_deferred_local_resolutions x (m\<lparr>wfm_machines := s1, wfm_awaiting_next_wft := False\<rparr>) = Ok m1"
    "get_next_activation x m1 = Ok (a, m')"
    by (auto simp: wfm_new_work_from_server_def res_bind_eq_Ok res_map_eq_Ok)
  then show ?thesis
    using R_trans [OF R_new_work] R_trans [OF R_deferred] R_next_activation by fastforce
next
  case ApplyNextTask
  with assms show ?thesis
    by (auto simp: apply_next_task_if_ready_def res_map_eq_Ok R_refl dest: R_task_loop split: if_splits)
qed (use assms in \<open>auto simp: feed_history_from_new_page_def notify_of_local_result_def res_map_eq_Ok
    wft_completion_reported_def on_machines_def add_lang_used_flags_def get_commands_def take_messages_def
    get_metadata_for_wft_complete_def wfm_drain_queued_local_activities_def drain_queued_local_activities_def
    Let_def split: if_splits prod.splits
    dest!: R_new_history R_local_resolution R_next_activation R_push
    intro: R_refl intro!: R_updates R_body(4) [THEN R_trans [rotated]]\<close>)

end

text \<open>The record of attempts is all that the arrival of history writes.\<close>

definition noted_only :: "WorkflowMachines \<Rightarrow> WorkflowMachines \<Rightarrow> bool" where
  "noted_only s s' \<longleftrightarrow> s' = s\<lparr>wm_last_wft := wm_last_wft s', wm_completed_wft := wm_completed_wft s',
     wm_failed_wft_started_ids := wm_failed_wft_started_ids s'\<rparr>"

lemma noted_only_trans: "noted_only s s' \<Longrightarrow> noted_only s' s'' \<Longrightarrow> noted_only s s''"
  by (cases s; cases s'; cases s'') (simp add: noted_only_def)

lemma note_wft_event_only: "noted_only s (note_wft_event x e s)"
  by (simp add: noted_only_def note_wft_event_def note_failed_wft_def Let_def
      split: option.split Attributes.split)

lemma note_wft_events_frame:
  obtains w c f where "note_wft_events x s es =
    s\<lparr>wm_last_wft := w, wm_completed_wft := c, wm_failed_wft_started_ids := f\<rparr>"
proof -
  have "noted_only s (fold (note_wft_event x) es s)"
  proof (induction es arbitrary: s)
    case (Cons e es)
    from noted_only_trans [OF note_wft_event_only Cons.IH] show ?case by simp
  qed (simp add: noted_only_def)
  then show ?thesis using that unfolding noted_only_def note_wft_events_def by blast
qed

interpretation run_clock: manager_relation clock_forward
proof unfold_locales
  show "clock_forward s (note_wft_events x s es)" for x s es
    by (rule note_wft_events_frame [of x s es]) (simp add: clock_forward_def split: option.splits)
qed (auto simp: clock_forward_def split: option.splits)

text \<open>The failed workflow tasks that are remembered: in order, and boundedly many.\<close>

definition failed_ids_ok :: "WorkflowMachines \<Rightarrow> bool" where
  "failed_ids_ok s \<longleftrightarrow> sorted (wm_failed_wft_started_ids s) \<and> distinct (wm_failed_wft_started_ids s) \<and>
     length (wm_failed_wft_started_ids s) \<le> MAX_FAILED_WFTS"

lemma note_failed_wft_ok:
  assumes "failed_ids_ok s"
  shows "failed_ids_ok (note_failed_wft s i)"
proof -
  let ?ids = "btree_insert (wfa_started_event_id (wm_last_wft s)) (wm_failed_wft_started_ids s)"
  have "sorted ?ids" "distinct ?ids" "length ?ids \<le> Suc MAX_FAILED_WFTS"
    using assms by (auto simp: failed_ids_ok_def btree_insert_def sorted_insort distinct_insort)
  then show ?thesis
    using assms by (auto simp: failed_ids_ok_def note_failed_wft_def Let_def sorted_tl distinct_tl)
qed

lemma note_wft_event_failed_ids: "failed_ids_ok s \<Longrightarrow> failed_ids_ok (note_wft_event x e s)"
proof -
  have "failed_ids_ok (s\<lparr>wm_last_wft := w\<rparr>) = failed_ids_ok s"
    "failed_ids_ok (s\<lparr>wm_completed_wft := c\<rparr>) = failed_ids_ok s" for w c
    by (simp_all add: failed_ids_ok_def)
  then show "failed_ids_ok s \<Longrightarrow> ?thesis"
    by (simp add: note_wft_event_def Let_def note_failed_wft_ok split: option.split Attributes.split)
qed

interpretation run_failed: manager_relation "\<lambda>s s'. failed_ids_ok s \<longrightarrow> failed_ids_ok s'"
proof unfold_locales
  show "failed_ids_ok s \<longrightarrow> failed_ids_ok (note_wft_events x s es)" for x s es
    unfolding note_wft_events_def
    by (induction es arbitrary: s) (simp_all add: note_wft_event_failed_ids)
qed (simp_all add: failed_ids_ok_def set_current_time_def)

section \<open>The invariant of a run\<close>

definition steady :: "WorkflowMachines \<Rightarrow> bool" where
  "steady s \<longleftrightarrow> wm_inv s \<and> list_all request_ok (wm_protocol_msgs s) \<and>
     dw_incoming_commands (wm_drive_me s) = []"

text \<open>A call that neither panics nor breaks the invariant.\<close>

definition keeps :: "('a \<Rightarrow> WorkflowMachines) \<Rightarrow> 'a result \<Rightarrow> bool" where
  "keeps state r \<longleftrightarrow> r \<noteq> Panic \<and> (\<forall>v. r = Ok v \<longrightarrow> steady (state v))"

lemma keeps_simps [simp]:
  "keeps state (Ok v) \<longleftrightarrow> steady (state v)"
  "keeps state (Err e)" "\<not> keeps state Panic"
  "keeps state (res_map f r) \<longleftrightarrow> keeps (\<lambda>v. state (f v)) r"
  by (auto simp: keeps_def res_map_eq_Ok res_map_eq_Panic)

lemma keeps_bind:
  "keeps state r \<Longrightarrow> (\<And>v. r = Ok v \<Longrightarrow> steady (state v) \<Longrightarrow> keeps state' (f v)) \<Longrightarrow>
   keeps state' (res_bind r f)"
  by (cases r) auto

lemma steady_outputs [simp]:
  "steady (s\<lparr>wm_observed_internal_flags := fl\<rparr>) = steady s"
  "steady (s\<lparr>wm_message_outbox := out\<rparr>) = steady s"
  "steady (s\<lparr>wm_current_wft_deployment_info := d\<rparr>) = steady s"
  by (auto simp: steady_def elim: wm_inv_frame)

lemma keepsI:
  assumes "safe s state r" and "\<And>v. r = Ok v \<Longrightarrow> wm_inv (state v) \<Longrightarrow> steady (state v)"
  shows "keeps state r"
  using assms by (cases r) auto

lemma local_resolution_keeps:
  assumes "steady s"
  shows "keeps snd (local_resolution x s r)"
proof (rule keepsI)
  show "safe s snd (local_resolution x s r)" using assms by (simp add: steady_def local_resolution_safe)
  show "steady (snd v)" if "local_resolution x s r = Ok v" "wm_inv (snd v)" for v
  proof -
    have "same_feed s (snd v)" using feed.R_local_resolution [of x s r "fst v" "snd v"] that(1) by simp
    with that(2) assms show ?thesis by (simp add: same_feed_def steady_def)
  qed
qed

lemma apply_next_wft_keeps:
  assumes "steady s" and "ready_to_apply_next_wft s"
  shows "keeps snd (apply_next_wft_from_history x s)"
proof (rule keepsI)
  show "safe s snd (apply_next_wft_from_history x s)"
    using assms by (simp add: steady_def apply_next_wft_safe)
  show "steady (snd v)" if "apply_next_wft_from_history x s = Ok v" "wm_inv (snd v)" for v
  proof -
    have v: "apply_next_wft_from_history x s = Ok (fst v, snd v)" using that(1) by simp
    show ?thesis
      using messages.R_apply_next_wft [OF v] incoming.R_apply_next_wft [OF v] assms(1) that(2)
      by (simp add: steady_def)
  qed
qed

lemma apply_resolutions_keeps: "steady s \<Longrightarrow> keeps (\<lambda>s. s) (apply_resolutions x s rs)"
  by (induction rs arbitrary: s)
    (auto intro!: keeps_bind [OF local_resolution_keeps])

lemma deferred_keeps:
  "steady (wfm_machines m) \<Longrightarrow> keeps wfm_machines (apply_deferred_local_resolutions x m)"
  by (simp add: apply_deferred_local_resolutions_def apply_resolutions_keeps)

text \<open>Handing out an activation drains the jobs and notes that it did.\<close>

lemma activation_frame:
  assumes "get_wf_activation x s = (a, s')"
  shows "steady s \<Longrightarrow> steady s'" and "wac_jobs a = [] \<longleftrightarrow> \<not> has_pending_jobs s"
    and "ready_to_apply_next_wft s' = ready_to_apply_next_wft s"
proof -
  obtain jobs dm where drained: "drain_jobs (wm_drive_me s) = (jobs, dm)" by fastforce
  then have jobs: "jobs = [] \<longleftrightarrow> \<not> has_pending_jobs s"
    and dm: "dw_incoming_commands dm = dw_incoming_commands (wm_drive_me s)"
    by (auto simp: drain_jobs_def has_pending_jobs_def)
  let ?s = "snd (get_wf_activation x s)"
  have "wm_inv ?s = wm_inv s \<and> wm_protocol_msgs ?s = wm_protocol_msgs s \<and>
      dw_incoming_commands (wm_drive_me ?s) = dw_incoming_commands (wm_drive_me s) \<and>
      ready_to_apply_next_wft ?s = ready_to_apply_next_wft s \<and>
      wac_jobs (fst (get_wf_activation x s)) = jobs"
    by (simp add: get_wf_activation_def drained dm Let_def ready_to_apply_next_wft_def)
  with assms jobs show "steady s \<Longrightarrow> steady s'" and "wac_jobs a = [] \<longleftrightarrow> \<not> has_pending_jobs s"
    and "ready_to_apply_next_wft s' = ready_to_apply_next_wft s"
    by (simp_all add: steady_def)
qed

lemma next_activation_keeps:
  assumes "steady (wfm_machines m)" and "may_activate m"
  shows "keeps (\<lambda>(_, m). wfm_machines m) (get_next_activation x m)"
proof -
  obtain a s where a: "get_wf_activation x (wfm_machines m) = (a, s)" by fastforce
  have s: "steady s" and jobs: "wac_jobs a = [] \<Longrightarrow> ready_to_apply_next_wft s"
    using activation_frame [OF a] assms by (auto simp: may_activate_def)
  have "keeps (\<lambda>v. snd (get_wf_activation x (snd v))) (apply_next_wft_from_history x s)"
    if "wac_jobs a = []"
  proof -
    have "steady (snd (get_wf_activation x t))" if "steady t" for t
      using activation_frame(1) [of x t] that by (cases "get_wf_activation x t") simp
    with apply_next_wft_keeps [OF s jobs [OF that], of x] show ?thesis by (simp add: keeps_def)
  qed
  with s show ?thesis by (simp add: get_next_activation_def a case_prod_unfold Let_def)
qed

lemma new_history_keeps:
  assumes "steady s" and "can_take_next_wft_sequence u (wm_current_started_event_id s)"
  shows "keeps (\<lambda>s. s) (new_history_from_server x s u)"
proof -
  let ?s = "note_wft_events x s (hu_events u)"
  let ?s1 = "?s\<lparr>wm_last_history_from_server := u,
      wm_replaying := (wm_preparing_legacy_query ?s \<or> hu_previous_wft_started_id u > 0)\<rparr>"
  have "steady ?s1 \<and> ready_to_apply_next_wft ?s1"
  proof (rule note_wft_events_frame [of x s "hu_events u"])
    fix w c f
    assume s: "?s = s\<lparr>wm_last_wft := w, wm_completed_wft := c, wm_failed_wft_started_ids := f\<rparr>"
    show ?thesis
      using assms wm_inv_frame [of s ?s1] unfolding s by (simp add: steady_def ready_to_apply_next_wft_def)
  qed
  then show ?thesis
    using apply_next_wft_keeps [of ?s1 x] by (simp add: new_history_from_server_def Let_def)
qed

lemma task_loop_keeps:
  "steady s \<Longrightarrow> ready_throughout x s \<Longrightarrow> keeps (\<lambda>s. s) (apply_next_task_loop x s)"
proof (induction x s rule: apply_next_task_loop.induct)
  case (1 x s)
  have ready: "ready_to_apply_next_wft s" using "1.prems"(2) by (subst (asm) ready_throughout.simps) simp
  show ?case
  proof (subst apply_next_task_loop.simps, rule keeps_bind [OF apply_next_wft_keeps [OF "1.prems"(1) ready]])
    fix v
    assume v: "apply_next_wft_from_history x s = Ok v" "steady (snd v)"
    obtain n s1 where [simp]: "v = (n, s1)" by fastforce
    have "n = 0 \<or> \<not> wm_replaying s1 \<or> has_pending_jobs s1 \<or> ready_throughout x s1"
      using "1.prems"(2) v by (subst (asm) ready_throughout.simps) (auto split: if_splits)
    with v "1.IH" [OF v(1)] show "keeps (\<lambda>s. s) (case v of (n, s1) \<Rightarrow>
        if n = 0 \<or> \<not> wm_replaying s1 \<or> has_pending_jobs s1 then Ok s1 else apply_next_task_loop x s1)"
      by auto
  qed
qed

lemma push_keeps:
  assumes "steady (wfm_machines m)" and "no_query_responses cs"
  shows "keeps wfm_machines (push_commands_and_iterate x m cs)"
proof -
  let ?s = "(wfm_machines m)\<lparr>wm_drive_me := (wm_drive_me (wfm_machines m))\<lparr>dw_incoming_commands :=
      dw_incoming_commands (wm_drive_me (wfm_machines m)) @ [cs]\<rparr>\<rparr>"
  have fetch: "fetch_workflow_iteration_output (wm_drive_me ?s) = (cs, wm_drive_me (wfm_machines m))"
    using assms(1) by (simp add: fetch_workflow_iteration_output_def steady_def)
  have "keeps (\<lambda>s. s) (iterate_machines x ?s)"
  proof (rule keepsI)
    show "safe ?s (\<lambda>s. s) (iterate_machines x ?s)"
      using assms fetch by (intro iterate_machines_safe) (simp_all add: steady_def)
    show "steady s" if "iterate_machines x ?s = Ok s" "wm_inv s" for s
    proof -
      have "same_feed (?s\<lparr>wm_drive_me := wm_drive_me (wfm_machines m)\<rparr>) s"
        using feed.R_iterate_machines [OF that(1)] unfolding fetch by simp
      with that(2) assms(1) show ?thesis by (simp add: same_feed_def steady_def)
    qed
  qed
  then show ?thesis
    by (auto simp: push_commands_and_iterate_def Let_def intro!: keeps_bind deferred_keeps)
qed

lemma unfinished_commands_no_panic:
  assumes "steady s"
  shows "unfinished_commands s (wm_commands s) \<noteq> Panic"
proof -
  have inv: "wm_inv s" using assms by (simp add: steady_def)
  have "unfinished_commands s cs \<noteq> Panic" if "\<forall>c \<in> set cs. known s (cam_machine c)" for cs
    using that
    by (induction cs) (auto simp: res_bind_eq_Panic wm_machine_no_panic [OF inv] is_final_state_no_panic
        dest: wm_machine_good [OF inv])
  then show ?thesis using queues_known(1) [OF inv] by blast
qed

lemma run_op_keeps:
  assumes inv: "steady (wfm_machines m)" and ok: "allowed x m op"
  shows "keeps wfm_machines (run_op x m op)"
proof (cases op)
  case (NewWork u msgs q)
  let ?s = "(wfm_machines m)\<lparr>wm_protocol_msgs := msgs, wm_preparing_legacy_query := q,
      wm_update_only_task := False\<rparr>"
  have "steady ?s"
    using inv ok NewWork by (auto simp: steady_def elim: wm_inv_frame)
  then have "keeps (\<lambda>s. s) (new_work_from_server x (wfm_machines m) u msgs q)"
    using ok NewWork by (simp add: new_work_from_server_def new_history_keeps)
  then have "keeps wfm_machines (work_received x m u msgs q)"
    unfolding work_received_def by (auto intro!: keeps_bind deferred_keeps)
  moreover have "run_op x m op = res_bind (work_received x m u msgs q) (\<lambda>m. res_map snd (get_next_activation x m))"
    by (simp add: NewWork work_received_def wfm_new_work_from_server_def res_bind_assoc res_map_bind)
  ultimately show ?thesis
    using ok NewWork next_activation_keeps [of _ x]
    by (auto intro!: keeps_bind simp: case_prod_unfold)
next
  case NextActivation
  with assms next_activation_keeps [of m x] show ?thesis by (simp add: case_prod_unfold)
next
  case GetCommands
  with inv show ?thesis
    using unfinished_commands_no_panic [of "(wfm_machines m)\<lparr>wm_observed_internal_flags :=
        write_all_known (wm_observed_internal_flags (wfm_machines m))\<rparr>"]
    by (auto simp: get_commands_def on_machines_def Let_def keeps_def res_map_eq_Ok)
next
  case LocalResult
  with assms show ?thesis by (auto simp: notify_of_local_result_def case_prod_unfold local_resolution_keeps)
next
  case DrainLocalActivities
  with assms show ?thesis
    by (auto simp: wfm_drain_queued_local_activities_def drain_queued_local_activities_def steady_def split: prod.splits)
qed (use assms in \<open>auto simp: feed_history_from_new_page_def
    apply_next_task_if_ready_def wft_completion_reported_def on_machines_def add_lang_used_flags_def
    take_messages_def get_metadata_for_wft_complete_def Let_def new_history_keeps task_loop_keeps push_keeps
    split: prod.splits\<close>)

lemma steady_new: "steady (wfm_machines (wfm_new basics))"
  by (simp add: steady_def wfm_new_def wm_new_def driven_workflow_new_def wm_inv_def all_machines_good_def
      all_keys_def Let_def)

lemma failed_ids_new: "failed_ids_ok (wfm_machines (wfm_new basics))"
  by (simp add: failed_ids_ok_def wfm_new_def wm_new_def Let_def)

lemma reachable_steady: "reachable x basics m \<Longrightarrow> steady (wfm_machines m)"
proof (induction rule: reachable.induct)
  case (step m op m')
  from run_op_keeps [OF step.IH step.hyps(2)] step.hyps(3) show ?case by simp
qed (rule steady_new)

end
