(* ===== verification/HistoryFeed.thy ===== *)
theory HistoryFeed
  imports RunFrame
begin

text \<open>
  The feed of history as a cursor.  Seen from outside, a run holds the id of the last event it
  processed and the events past it that are at hand.  Applying a workflow task, with all that
  the source does to it (skipping what was seen, cutting the next sequence out of the buffer,
  filtering, and the loop over the events), amounts to moving that cursor.
\<close>

type_synonym cursor = "i64 \<times> HistoryEvent list"

definition advance :: "nat \<Rightarrow> cursor \<Rightarrow> cursor" where
  "advance n c = (fst c + int n, drop n (snd c))"

definition cursor_of :: "WorkflowMachines \<Rightarrow> cursor" where
  "cursor_of s = (wm_last_processed_event s,
     filter (\<lambda>e. he_event_id e > wm_last_processed_event s) (hu_events (wm_last_history_from_server s)))"

section \<open>The loop over the events\<close>

definition consecutive :: "i64 \<Rightarrow> HistoryEvent list \<Rightarrow> bool" where
  "consecutive i es \<longleftrightarrow> map he_event_id es = map (\<lambda>k. i + 1 + int k) [0..<length es]"

lemma consecutive_Cons [simp]:
  "consecutive i (e # es) \<longleftrightarrow> he_event_id e = i + 1 \<and> consecutive (i + 1) es"
proof -
  have "map (\<lambda>k. i + 1 + int k) [0..<length (e # es)] =
      (i + 1) # map (\<lambda>k. i + 1 + 1 + int k) [0..<length es]"
    by (simp add: upt_conv_Cons map_Suc_upt [symmetric] del: upt_Suc)
  then show ?thesis by (simp add: consecutive_def del: upt_Suc)
qed

lemma consecutive_Nil [simp]: "consecutive i []"
  by (simp add: consecutive_def)

lemma apply_events_consecutive:
  assumes "apply_events x fin s adm dh es = Ok (s', adm')"
  shows "consecutive (wm_last_processed_event s) es \<and>
    wm_last_processed_event s' = wm_last_processed_event s + int (length es)"
  using assms
proof (induction es arbitrary: s adm dh)
  case (Cons e es)
  from Cons.prems obtain s1 adm1 dh1 where "he_event_id e = wm_last_processed_event s + 1"
    "wm_last_processed_event s1 = wm_last_processed_event s"
    and rest: "apply_events x fin (s1\<lparr>wm_last_processed_event := he_event_id e\<rparr>) adm1 dh1 es = Ok (s', adm')"
    by (rule body.apply_events_ConsE)
  with Cons.IH [OF rest] show ?case by simp
qed simp

section \<open>Taking a sequence\<close>

fun handed_out :: "NextWFT \<Rightarrow> HistoryEvent list" where
  "handed_out (WFT evts _) = evts"
| "handed_out _ = []"

lemma take_next_split:
  assumes "take_next_wft_sequence u from_id = Ok (nw, u')"
  obtains skipped where "hu_events u = skipped @ handed_out nw @ hu_events u'"
    "\<forall>e \<in> set skipped. he_event_id e \<le> from_id"
proof -
  define v where "v = (case starting_index_after_skipping u from_id of
      Some n \<Rightarrow> u\<lparr>hu_events := drop n (hu_events u)\<rparr> | None \<Rightarrow> u)"
  have "\<exists>skipped. hu_events u = skipped @ hu_events v \<and> (\<forall>e \<in> set skipped. he_event_id e \<le> from_id)"
  proof (cases "starting_index_after_skipping u from_id")
    case None
    then show ?thesis by (simp add: v_def)
  next
    case (Some n)
    then have "hu_events v = relevant_events u from_id"
      using starting_index_cases [of u from_id] by (simp add: v_def)
    then show ?thesis using relevant_events_split by metis
  qed
  moreover have "hu_events v = handed_out nw @ hu_events u'"
    using assms unfolding take_next_wft_sequence_def v_def [symmetric] Let_def
    by (auto simp: build_next_wft_def Let_def split: NextWFTSeqEndIndex.splits if_splits)
  ultimately show thesis using that by metis
qed

lemma next_events_split:
  assumes "next_events s = Ok (es, fin, s1)"
  obtains skipped evts where
    "hu_events (wm_last_history_from_server s) = skipped @ evts @ hu_events (wm_last_history_from_server s1)"
    "\<forall>e \<in> set skipped. he_event_id e \<le> wm_current_started_event_id s"
    "es = filter (\<lambda>e. he_event_id e > wm_last_processed_event s) evts"
    "wm_last_processed_event s1 = wm_last_processed_event s"
proof (rule next_events_Ok [OF assms])
  fix u
  assume s1: "s1 = s\<lparr>wm_last_history_from_server := u\<rparr>"
    and taken: "take_next_wft_sequence (wm_last_history_from_server s) (wm_current_started_event_id s) =
        Ok (ReplayOver, u) \<and> es = [] \<and> fin \<or>
      (\<exists>evts. take_next_wft_sequence (wm_last_history_from_server s) (wm_current_started_event_id s) =
        Ok (WFT evts fin, u) \<and> es = filter (\<lambda>e. he_event_id e > wm_last_processed_event s) evts)"
  from taken show thesis
  proof
    assume "take_next_wft_sequence (wm_last_history_from_server s) (wm_current_started_event_id s) =
        Ok (ReplayOver, u) \<and> es = [] \<and> fin"
    with s1 that [of _ "[]"] show thesis by (auto elim!: take_next_split)
  next
    assume "\<exists>evts. take_next_wft_sequence (wm_last_history_from_server s) (wm_current_started_event_id s) =
        Ok (WFT evts fin, u) \<and> es = filter (\<lambda>e. he_event_id e > wm_last_processed_event s) evts"
    with s1 that show thesis by (auto elim!: take_next_split)
  qed
qed

section \<open>Applying a workflow task\<close>

text \<open>The ids of the events at hand increase, and the task being worked on has been processed.\<close>

definition feed_ok :: "WorkflowMachines \<Rightarrow> bool" where
  "feed_ok s \<longleftrightarrow> sorted_wrt (<) (map he_event_id (hu_events (wm_last_history_from_server s))) \<and>
     wm_current_started_event_id s \<le> wm_last_processed_event s"

lemma consecutive_last: "consecutive i es \<Longrightarrow> es \<noteq> [] \<Longrightarrow> he_event_id (last es) = i + int (length es)"
  by (induction es arbitrary: i) auto

lemma cursor_advances:
  assumes "sorted_wrt (<) (map he_event_id (evts @ rest))"
    and es: "es = filter (\<lambda>e. he_event_id e > i) evts" "consecutive i es"
  shows "filter (\<lambda>e. he_event_id e > i + int (length es)) rest =
    drop (length es) (filter (\<lambda>e. he_event_id e > i) (evts @ rest))"
proof (cases "es = []")
  case False
  then have "last es \<in> set evts" using es(1) by (metis filter_is_subset last_in_set subsetD)
  then have "he_event_id (last es) < he_event_id e" if "e \<in> set rest" for e
    using assms(1) that by (auto simp: sorted_wrt_append sorted_wrt_map)
  then have past: "i + int (length es) < he_event_id e" if "e \<in> set rest" for e
    using consecutive_last [OF es(2) False] that by fastforce
  then have "filter (\<lambda>e. he_event_id e > i + int (length es)) rest = rest"
    "filter (\<lambda>e. he_event_id e > i) rest = rest"
    by (force intro: filter_True)+
  then show ?thesis by (simp add: es(1) [symmetric])
qed (use es in simp)

lemma apply_next_wft_cursor:
  assumes ok: "feed_ok s" and app: "apply_next_wft_from_history x s = Ok (n, s')"
  shows "cursor_of s' = advance n (cursor_of s) \<and> n \<le> length (snd (cursor_of s)) \<and>
    consecutive (fst (cursor_of s)) (take n (snd (cursor_of s)))"
proof (cases "wm_have_seen_terminal_event s")
  case False
  with app obtain es fin s1 s2 adm where next_evs: "next_events s = Ok (es, fin, s1)"
    and n: "n = length es"
    and steps: "apply_events x fin (before_events s1 es) Map.empty True es = Ok (s2, adm)"
      "after_events x (wm_current_started_event_id s) s2 adm = Ok s'"
    by (auto simp: apply_next_wft_from_history_def res_bind_eq_Ok res_map_eq_Ok)
  have upd: "wm_last_history_from_server s' = wm_last_history_from_server s1"
    using update.R_after_events [OF steps(2)] update.R_apply_events [OF steps(1)]
      update.R_before_events [of s1 es] by simp
  from next_evs obtain skipped evts where
    u: "hu_events (wm_last_history_from_server s) = skipped @ evts @ hu_events (wm_last_history_from_server s1)"
    and skip: "\<forall>e \<in> set skipped. he_event_id e \<le> wm_current_started_event_id s"
    and es: "es = filter (\<lambda>e. he_event_id e > wm_last_processed_event s) evts"
    and last: "wm_last_processed_event s1 = wm_last_processed_event s"
    by (rule next_events_split)
  have cons: "consecutive (wm_last_processed_event s) es"
    and last': "wm_last_processed_event s' = wm_last_processed_event s + int n"
    using apply_events_consecutive [OF steps(1)] body.R_before_events [of s1 es]
      body.R_after_events [OF steps(2)] last n by simp_all
  have none: "filter (\<lambda>e. he_event_id e > wm_last_processed_event s) skipped = []"
    using skip ok by (force simp: feed_ok_def filter_empty_conv)
  show ?thesis
    using cursor_advances [OF _ es cons, of "hu_events (wm_last_history_from_server s1)"] ok none
    by (simp add: cursor_of_def advance_def upd last' u n feed_ok_def sorted_wrt_append cons es [symmetric])
qed (use app in \<open>auto simp: apply_next_wft_from_history_def cursor_of_def advance_def split: if_splits\<close>)

end
