(* ===== verification/RunProperties.thy ===== *)
theory RunProperties
  imports ManagerRuns HistoryFeed
begin

text \<open>
  What holds of every run of a workflow, and concrete runs in which it can be seen: a first task
  that starts a timer, and a history whose second task brings no news.  The runs are evaluated by
  rewriting with the definitions of the model.
\<close>

section \<open>Sample runs\<close>

definition sample_event :: "i64 \<Rightarrow> EventType \<Rightarrow> Attributes \<Rightarrow> HistoryEvent" where
  "sample_event i t a = \<lparr>he_event_id = i, he_event_time = Some (i, 0), he_event_type = t,
     he_worker_may_ignore = False, he_attributes = Some a\<rparr>"

definition first_task :: "HistoryEvent list" where
  "first_task =
     [sample_event 1 E_WorkflowExecutionStarted (A_WorkflowExecutionStarted
        \<lparr>wes_original_execution_run_id = ''r'', wes_workflow_task_timeout = Some (10, 0),
         wes_memo = None, wes_search_attributes = None, wes_retry_policy = None, wes_rest = []\<rparr>),
      sample_event 2 E_WorkflowTaskScheduled (A_WorkflowTaskScheduled 1),
      sample_event 3 E_WorkflowTaskStarted (A_WorkflowTaskStarted \<lparr>wts_scheduled_event_id = 2,
         wts_history_size_bytes = 0, wts_suggest_continue_as_new = False,
         wts_suggest_continue_as_new_reasons = [],
         wts_target_worker_deployment_version_changed = False\<rparr>)]"

definition first_work :: HistoryUpdate where
  "first_work = \<lparr>hu_events = first_task, hu_previous_wft_started_id = 0, hu_wft_started_id = 3,
     hu_has_last_wft = True, hu_wft_count = 1\<rparr>"

definition sample_basics :: RunBasics where
  "sample_basics = \<lparr>rb_history = hu_dummy, rb_workflow_id = ''w'', rb_workflow_type = ''t'',
     rb_run_id = ''r'', rb_sdk_metadata_capability = True, rb_sdk_name = ''s'', rb_sdk_version = ''1'',
     rb_worker_config = \<lparr>cfg_namespace = ''n'', cfg_task_queue = ''q'',
       cfg_versioning_strategy = VS_None []\<rparr>\<rparr>"

definition start_timer_cmd :: WFCommand where
  "start_timer_cmd = \<lparr>wfc_variant = AddTimer 1 (Some (5, 0)), wfc_annotations = CommandAnnotations_default\<rparr>"

text \<open>The first task of a workflow, and its answer: start a timer.\<close>

abbreviation first_op :: ManagerOp where
  "first_op \<equiv> NewWork first_work [] False"

abbreviation second_op :: ManagerOp where
  "second_op \<equiv> PushCommands [start_timer_cmd]"

definition sample_run :: "(WorkflowManager \<times> WorkflowManager) result" where
  "sample_run =
     res_bind (run_op sample_externals (wfm_new sample_basics) first_op) (\<lambda>m.
     res_map (\<lambda>m'. (m, m')) (run_op sample_externals m second_op))"

definition task_completed :: "i64 \<Rightarrow> HistoryEvent" where
  "task_completed i = sample_event i E_WorkflowTaskCompleted (A_WorkflowTaskCompleted
     \<lparr>wtc_scheduled_event_id = i - 2, wtc_sdk_metadata = None, wtc_worker_version_build_id = None,
      wtc_worker_deployment_name = [], wtc_worker_deployment_version = [], wtc_deployment_version = None\<rparr>)"

definition task_scheduled :: "i64 \<Rightarrow> HistoryEvent" where
  "task_scheduled i = sample_event i E_WorkflowTaskScheduled (A_WorkflowTaskScheduled 1)"

definition task_started_event :: "i64 \<Rightarrow> HistoryEvent" where
  "task_started_event i = sample_event i E_WorkflowTaskStarted (A_WorkflowTaskStarted
     \<lparr>wts_scheduled_event_id = i - 1, wts_history_size_bytes = 0, wts_suggest_continue_as_new = False,
      wts_suggest_continue_as_new_reasons = [], wts_target_worker_deployment_version_changed = False\<rparr>)"

text \<open>
  A page of a longer history, in two parts: what the update built from it holds, and what is left
  for the next page.  The task started by event 7 brings no news to the workflow; the one started
  by event 11 brings a signal.
\<close>

definition quiet_task_events :: "HistoryEvent list" where
  "quiet_task_events = first_task @
     [task_completed 4, sample_event 5 E_TimerStarted (A_Other E_TimerStarted), task_scheduled 6,
      task_started_event 7, task_completed 8,
      sample_event 9 E_WorkflowExecutionSignaled (A_WorkflowExecutionSignaled
        \<lparr>wsg_signal_name = ''s'', wsg_input = None, wsg_identity = [], wsg_header = None\<rparr>),
      task_scheduled 10, task_started_event 11]"

definition page_rest :: "HistoryEvent list" where
  "page_rest = [task_completed 12, sample_event 13 E_TimerStarted (A_Other E_TimerStarted)]"

definition quiet_task_update :: HistoryUpdate where
  "quiet_task_update = \<lparr>hu_events = quiet_task_events, hu_previous_wft_started_id = 7,
     hu_wft_started_id = 15, hu_has_last_wft = False, hu_wft_count = 1\<rparr>"

lemma no_peeked_resolutions:
  "lad_preresolutions (wm_local_activity_data s) = [] \<Longrightarrow>
   apply_local_activity_peeked_resolutions x s b = Ok s"
  by (subst apply_local_activity_peeked_resolutions.simps) (simp add: lad_peek_preresolution_seq_def)

lemma prepare_current_simps:
  "wm_current_wf_task_commands s = [] \<Longrightarrow> prepare_current_commands x s = Ok s"
  "wm_current_wf_task_commands s = c # rest \<Longrightarrow> prepare_current_commands x s =
     (let s = s\<lparr>wm_current_wf_task_commands := rest\<rparr> in
      res_bind (wm_machine s (cam_machine c)) (\<lambda>m.
      res_bind (was_cancelled_before_sent_to_server m) (\<lambda>cancelled.
      if cancelled then prepare_current_commands x s
      else
        res_bind (call_machine s (cam_machine c)
            (\<lambda>m. machines_handle_command x m (cmd_command_type (cam_command c))))
          (\<lambda>(machine_responses, s).
        res_bind (process_machine_responses x s (cam_machine c) machine_responses) (\<lambda>s.
        prepare_current_commands x (s\<lparr>wm_commands := wm_commands s @ [c]\<rparr>))))))"
  by (subst prepare_current_commands.simps, simp)+

lemmas eval_sample = first_work_def first_task_def sample_event_def sample_basics_def start_timer_cmd_def
  sample_externals_def hu_dummy_def wfm_new_def wm_new_def driven_workflow_new_def WftAttempt_default_def
  InternalFlags_new_def lad_default_def Let_def ok_or_def

lemmas eval_history = new_history_from_server_def note_wft_events_def note_wft_event_def
  apply_next_wft_from_history_def next_events_def from_history_def take_next_wft_sequence_def
  starting_index_after_skipping_def find_end_index_of_next_wft_seq_def build_next_wft_def get_event_def
  is_command_event_def event_type_is_command_def is_final_wf_execution_event_def is_abrupt_end_def
  accepted_update_end_def peek_next_wft_completed_def peek_next_wft_sequence_def

lemmas eval_events = before_events_def after_events_def lad_wft_applied_def admit_update_def ends_replay_def
  is_update_admitted_def wm_handle_event_def note_wft_started_def handle_non_stateful_event_def
  driven_start_def send_job_def set_current_time_def is_ignorable_def get_initial_command_event_id_def
  submachine_handle_event_def task_started_def process_response_def has_non_update_jobs_def

lemmas eval_machines = insert_machine_def call_machine_def wm_machine_def lift_step_def from_parts_def
  machine_step_defs wft_defs wft_new_def timer_defs timer_new_def new_timer_def timer_new_scheduled_def
  timer_was_cancelled_before_sent_def expect_event_def StartTimer_into_def into_machines_def
  add_cmd_to_wf_task_def add_new_command_machine_def ProtoCommand_new_def no_peeked_resolutions
  release_held_local_activity_resolutions_if_idle_def has_pending_jobs_def

lemmas eval_manager = wfm_new_work_from_server_def new_work_from_server_def get_next_activation_def
  get_wf_activation_def drain_jobs_def apply_deferred_local_resolutions_def computed_deployment_version_def
  push_commands_and_iterate_def iterate_machines_def fetch_workflow_iteration_output_def
  handle_driven_command_def prepare_commands_def prepare_current_simps lad_activation_dispatched_def

lemmas eval_page = quiet_task_update_def quiet_task_events_def page_rest_def task_completed_def
  task_scheduled_def task_started_event_def apply_wft_complete_data_def is_local_activity_marker_def
  get_patch_marker_details_def marker_recorded_def wdv_is_empty_def handle_command_event_def
  patch_marker_handling_def has_reached_final_state_def timer_is_final_def

lemmas eval_run = eval_sample eval_history eval_events eval_machines eval_manager eval_page

lemma quiet_task_page:
  "from_events (quiet_task_events @ page_rest) 7 15 False = Ok (quiet_task_update, page_rest)"
  by (simp add: from_events_def from_events_loop.simps eval_page eval_sample eval_history eval_nat_numeral)

lemma quiet_task_run:
  "case run_op sample_externals (wfm_new sample_basics) (NewWork quiet_task_update [] False) of
     Ok m \<Rightarrow> wfm_ready_to_apply_next_wft m \<and>
       (case run_op sample_externals m second_op of
          Ok m' \<Rightarrow> run_op sample_externals m' ApplyNextTask = Panic
        | _ \<Rightarrow> False)
   | _ \<Rightarrow> False"
proof -
  note ready = wfm_ready_to_apply_next_wft_def ready_to_apply_next_wft_def can_take_next_wft_sequence_def
    apply_next_task_if_ready_def
  show ?thesis
    by (simp add: eval_run ready del: if_split, subst apply_next_task_loop.simps,
        simp add: eval_run del: if_split, subst apply_next_task_loop.simps,
        simp add: eval_run del: if_split)
qed

lemma sample_run_ok:
  "case sample_run of
     Ok (m, m') \<Rightarrow> wm_current_wf_time (wfm_machines m) = Some 3000000000 \<and>
       wm_id_to_machine (wfm_machines m') (CID_Timer 1) = Some 1 \<and>
       wm_last_processed_event (wfm_machines m') = 3 \<and> wfm_awaiting_activation_completion m
   | _ \<Rightarrow> False"
  by (simp add: sample_run_def eval_sample eval_history eval_events eval_machines eval_manager del: if_split)

lemma first_op_allowed: "allowed sample_externals (wfm_new sample_basics) first_op"
  by (simp add: can_take_next_wft_sequence_def work_received_def may_activate_def ready_to_apply_next_wft_def
      eval_sample eval_history eval_events eval_machines eval_manager del: if_split)

lemma second_op_allowed: "allowed x m second_op"
  by (simp add: start_timer_cmd_def no_query_responses_def)

lemma sample_runE:
  obtains m m' where "run_op sample_externals (wfm_new sample_basics) first_op = Ok m"
    "run_op sample_externals m second_op = Ok m'"
    "reachable sample_externals sample_basics m" "reachable sample_externals sample_basics m'"
    "wm_current_wf_time (wfm_machines m) = Some 3000000000"
    "wm_id_to_machine (wfm_machines m') (CID_Timer 1) = Some 1"
proof -
  from sample_run_ok obtain m m' where run: "sample_run = Ok (m, m')"
    and facts: "wm_current_wf_time (wfm_machines m) = Some 3000000000"
      "wm_id_to_machine (wfm_machines m') (CID_Timer 1) = Some 1"
    by (auto split: res.splits prod.splits)
  from run have ops: "run_op sample_externals (wfm_new sample_basics) first_op = Ok m"
    "run_op sample_externals m second_op = Ok m'"
    unfolding sample_run_def by (auto simp: res_bind_eq_Ok res_map_eq_Ok simp del: run_op.simps)
  have "reachable sample_externals sample_basics m"
    by (rule reachable.step [OF reachable.start first_op_allowed ops(1)])
  moreover from this have "reachable sample_externals sample_basics m'"
    by (rule reachable.step [OF _ second_op_allowed ops(2)])
  ultimately show thesis using that ops facts by blast
qed

section \<open>Properties\<close>





text \<open>C10: the clock of a workflow never goes back: whatever the manager is called for, and in
  whatever state, a time that was set is only replaced by a later one.\<close>

theorem clock_never_back:
  assumes "run_op x m op = Ok m'" and "wm_current_wf_time (wfm_machines m) = Some t"
  shows "\<exists>t'. wm_current_wf_time (wfm_machines m') = Some t' \<and> t \<le> t'"
  using run_clock.R_run_op [OF assms(1)] assms(2) by (auto simp: clock_forward_def split: option.splits)

theorem clock_never_back_witness:
  "\<exists>m m' t. run_op sample_externals m second_op = Ok m' \<and>
     wm_current_wf_time (wfm_machines m) = Some 3000000000 \<and>
     wm_current_wf_time (wfm_machines m') = Some t \<and> 3000000000 \<le> t"
proof (rule sample_runE)
  fix m m'
  assume m: "run_op sample_externals m second_op = Ok m'"
    "wm_current_wf_time (wfm_machines m) = Some 3000000000"
  from m clock_never_back [OF m] show ?thesis by blast
qed

text \<open>A run remembers at most a hundred failed workflow tasks, in ascending order of their started
  events and without repetition, however much history it is fed.\<close>

theorem failed_tasks_bounded:
  assumes "reachable x basics m"
  shows "sorted (wm_failed_wft_started_ids (wfm_machines m)) \<and>
    distinct (wm_failed_wft_started_ids (wfm_machines m)) \<and>
    length (wm_failed_wft_started_ids (wfm_machines m)) \<le> MAX_FAILED_WFTS"
proof -
  have "failed_ids_ok (wfm_machines m)"
    using assms by induction (auto intro: failed_ids_new dest: run_failed.R_run_op)
  then show ?thesis by (simp add: failed_ids_ok_def)
qed

theorem failed_tasks_bounded_witness:
  "\<exists>m. reachable sample_externals sample_basics m \<and>
     length (wm_failed_wft_started_ids (wfm_machines m)) \<le> MAX_FAILED_WFTS"
proof (rule sample_runE)
  fix m
  assume m: "reachable sample_externals sample_basics m"
  from m failed_tasks_bounded [OF m] show ?thesis by blast
qed

text \<open>C2: feeding history refines a cursor.  Applying the next workflow task reports how many events it
  handled, and it has moved the run's position in the history by exactly that many: the last
  processed id grew by the number, the events still to come are the earlier ones without that
  many at the front, and the ones handled had consecutive ids.  Skipping events already seen, the
  cut of the sequence out of the buffer and the filter on it never lose or repeat one.\<close>

theorem history_feed_refines_cursor:
  assumes "feed_ok s" and "apply_next_wft_from_history x s = Ok (n, s')"
  shows "cursor_of s' = advance n (cursor_of s) \<and> n \<le> length (snd (cursor_of s)) \<and>
    consecutive (fst (cursor_of s)) (take n (snd (cursor_of s)))"
  using assms by (rule apply_next_wft_cursor)

theorem history_feed_refines_cursor_witness:
  "\<exists>s s'. feed_ok s \<and> apply_next_wft_from_history sample_externals s = Ok (3, s') \<and>
     cursor_of s = (0, first_task) \<and> cursor_of s' = (3, [])"
proof -
  define s where "s = (wm_new sample_basics driven_workflow_new)\<lparr>wm_last_history_from_server := first_work\<rparr>"
  have c: "feed_ok s" "cursor_of s = (0, first_task)"
    by (simp_all add: feed_ok_def cursor_of_def s_def eval_sample peek_next_wft_completed_def)
  have "case apply_next_wft_from_history sample_externals s of Ok (n, s') \<Rightarrow> n = 3 | _ \<Rightarrow> False"
    by (simp add: s_def eval_sample eval_history eval_events eval_machines eval_manager del: if_split)
  then obtain s' where s': "apply_next_wft_from_history sample_externals s = Ok (3, s')"
    by (auto split: res.splits prod.splits)
  from history_feed_refines_cursor [OF c(1) s'] c s' show ?thesis
    by (auto simp: advance_def first_task_def)
qed


end
