(* ===== verification/LocalActivityManager.thy ===== *)
theory LocalActivityManager
  imports LocalActs "HOL-Library.AList"
begin

text \<open>
  The manager that runs local activities
  (\<^verbatim>\<open>crates/sdk-core/src/worker/activities/local_activities.rs\<close>): it takes the requests of the
  workflow runs, hands attempts to the language side, enforces their timeouts, retries failed
  attempts and reports the results.

  The two hash maps are association lists, the channels are lists in order of sending.  A task
  that \<^verbatim>\<open>tokio::spawn\<close> starts is a \<open>SpawnedTask\<close>: what it sends and the instant at which it does.
  Aborting takes it out of the list; dropping a \<^verbatim>\<open>JoinHandle\<close> does nothing, as tokio documents, and
  dropping a \<^verbatim>\<open>TimeoutBag\<close> aborts what its \<^verbatim>\<open>Drop\<close> aborts.  The two clocks are an argument of
  the operations that read them.  Metrics, logging and the permits of the slot supplier are left
  out; \<^verbatim>\<open>dbg_panic!\<close> is what it is in a release build, a log entry.
\<close>

section \<open>Tasks for the language side\<close>

definition LOCAL_ACT_TASK_TOKEN_PREFIX :: bytes where
  "LOCAL_ACT_TASK_TOKEN_PREFIX = ''local_act_''"

type_synonym TaskToken = bytes

definition new_local_activity_token :: "bytes \<Rightarrow> TaskToken" where
  "new_local_activity_token unique_data = LOCAL_ACT_TASK_TOKEN_PREFIX @ unique_data"

definition is_local_activity_task :: "TaskToken \<Rightarrow> bool" where
  "is_local_activity_task t \<longleftrightarrow>
     take (length LOCAL_ACT_TASK_TOKEN_PREFIX) t = LOCAL_ACT_TASK_TOKEN_PREFIX"

text \<open>\<^verbatim>\<open>u32::to_le_bytes\<close>.\<close>

definition to_le_bytes :: "u32 \<Rightarrow> bytes" where
  "to_le_bytes n = map (\<lambda>i. char_of (unat n div 256 ^ i)) [0..<4]"

datatype ActivityCancelReason =
  ACR_NotFound | ACR_Cancelled | ACR_TimedOut | ACR_WorkerShutdown | ACR_Paused | ACR_Reset

record ActivityCancellationDetails =
  acd_is_not_found :: bool
  acd_is_cancelled :: bool
  acd_is_paused :: bool
  acd_is_timed_out :: bool
  acd_is_worker_shutdown :: bool
  acd_is_reset :: bool

text \<open>The fields of \<^verbatim>\<open>Start\<close> that a local activity sets to a default are left out.\<close>

record ActivityStart =
  ast_workflow_namespace :: string
  ast_workflow_type :: string
  ast_workflow_execution :: WorkflowExecution
  ast_activity_id :: string
  ast_activity_type :: string
  ast_header_fields :: PayloadMap
  ast_input :: "Payload list"
  ast_scheduled_time :: SystemTime
  ast_started_time :: SystemTime
  ast_attempt :: u32
  ast_schedule_to_close_timeout :: "ProstDuration option"
  ast_start_to_close_timeout :: "ProstDuration option"
  ast_retry_policy :: RetryPolicy
  ast_workflow_task :: "WorkflowTaskAttempt option"

datatype ActivityTaskVariant =
  Var_Start ActivityStart | Var_Cancel ActivityCancelReason ActivityCancellationDetails

record ActivityTask =
  atk_task_token :: TaskToken
  atk_variant :: ActivityTaskVariant

definition cancel_from_ids ::
    "TaskToken \<Rightarrow> ActivityCancelReason \<Rightarrow> ActivityCancellationDetails \<Rightarrow> ActivityTask" where
  "cancel_from_ids task_token reason details =
     \<lparr>atk_task_token = task_token, atk_variant = Var_Cancel reason details\<rparr>"

definition primary_reason_to_cancellation_details ::
    "ActivityCancelReason \<Rightarrow> ActivityCancellationDetails" where
  "primary_reason_to_cancellation_details reason =
     \<lparr>acd_is_not_found = (reason = ACR_NotFound), acd_is_cancelled = (reason = ACR_Cancelled),
      acd_is_paused = (reason = ACR_Paused), acd_is_timed_out = (reason = ACR_TimedOut),
      acd_is_worker_shutdown = (reason = ACR_WorkerShutdown), acd_is_reset = (reason = ACR_Reset)\<rparr>"

text \<open>
  \<^verbatim>\<open>RetryPolicy::from(ValidatedRetryPolicy)\<close>, with its \<^verbatim>\<open>unwrap\<close>s.  The attempts fit an
  \<^verbatim>\<open>i32\<close> when they are below \<open>2\<^sup>3\<^sup>1\<close>.
\<close>

definition RetryPolicy_from ::
    "(StdDuration \<Rightarrow> ProstDuration option) \<Rightarrow> ValidatedRetryPolicy \<Rightarrow> RetryPolicy result" where
  "RetryPolicy_from from_std value =
     (case (from_std (vrp_initial_interval value), from_std (vrp_maximum_interval value)) of
        (Some initial_interval, Some maximum_interval) \<Rightarrow>
          if unat (vrp_maximum_attempts value) < 2 ^ 31 then
            Ok \<lparr>rp_initial_interval = Some initial_interval,
                rp_backoff_coefficient = vrp_backoff_coefficient value,
                rp_maximum_interval = Some maximum_interval,
                rp_maximum_attempts = uint (vrp_maximum_attempts value),
                rp_non_retryable_error_types = vrp_non_retryable_error_types value\<rparr>
          else Panic
      | _ \<Rightarrow> Panic)"

section \<open>Results\<close>

definition la_timeout :: "TimeoutType \<Rightarrow> LocalActivityExecutionResult" where
  "la_timeout tt =
     LA_TimedOut (Some (Failure ''Activity timed out'' None (Some (FI_Timeout tt None)) []))"

definition get_timeout_type :: "LocalActivityExecutionResult \<Rightarrow> TimeoutType option" where
  "get_timeout_type r =
     (case r of
        LA_TimedOut (Some f) \<Rightarrow> (case f_info f of Some (FI_Timeout tt _) \<Rightarrow> Some tt | _ \<Rightarrow> None)
      | _ \<Rightarrow> None)"

definition maybe_application_failure :: "Failure \<Rightarrow> ApplicationFailureInfo option" where
  "maybe_application_failure f =
     (case f_info f of Some (FI_Application info) \<Rightarrow> Some info | _ \<Rightarrow> None)"

datatype CancelOrTimeout = CoT_Cancel ActivityTask | CoT_Timeout string LocalActivityResolution

datatype NewOrRetry = NoR_New NewLocalAct | NoR_Retry NewLocalAct u32

datatype LACompleteAction =
    LAC_Report string LocalActivityResolution "ActivityTask option"
  | LAC_WillBeRetried "ActivityTask option"
  | LAC_Untracked

datatype NextPendingLAAction = NPA_Dispatch ActivityTask | NPA_Autocomplete LACompleteAction

datatype LocalActivityNotification = LAN_HeartbeatTimeout string | LAN_CancelProcessed string

section \<open>State\<close>

datatype CancelDelivery = NotRequested | Queued | Delivered

record LocalInFlightActInfo =
  ifl_la_info :: NewLocalAct
  ifl_dispatch_time :: int
  ifl_attempt :: u32
  ifl_cancel :: CancelDelivery

record TimeoutBag =
  tob_sched_to_close_handle :: nat
  tob_start_to_close_dur_and_dat :: "(StdDuration \<times> CancelOrTimeout) option"
  tob_start_to_close_handle :: "nat option"

record LocalActivityInfo =
  lai_task_token :: TaskToken
  lai_queued_for_dispatch :: bool
  lai_backing_off_task :: "nat option"
  lai_timeout_bag :: "TimeoutBag option"
  lai_first_wft_has_ended :: bool
  lai_attempts_in_wft :: nat

datatype TaskBody =
    Send_Timeout CancelOrTimeout
  | Send_StartToClose CancelOrTimeout int
  | Send_Retry NewLocalAct u32
  | Send_Heartbeat string

text \<open>A task is aborted by its join handle, or by the abort handle a heartbeat timeout came with.\<close>

datatype TaskHandle = JoinHandle nat | AbortHandle nat

record SpawnedTask =
  spt_handle :: TaskHandle
  spt_wake :: int
  spt_body :: TaskBody

record LocalActivityManager =
  lmg_namespace :: string
  lmg_act_req :: "NewOrRetry list"
  lmg_cancels_req :: "CancelOrTimeout list"
  lmg_workflow_notify :: "LocalActivityNotification list"
  lmg_complete_notify :: bool
  lmg_workflows_have_shut_down :: bool
  lmg_shutdown_complete_tok :: bool
  lmg_la_info :: "(ExecutingLAId \<times> LocalActivityInfo) list"
  lmg_outstanding :: "(TaskToken \<times> LocalInFlightActInfo) list"
  lmg_next_tt_num :: u32
  lmg_tasks :: "SpawnedTask list"
  lmg_next_handle :: nat

record Clocks =
  clk_system :: SystemTime
  clk_instant :: int

definition lmg_new :: "string \<Rightarrow> LocalActivityManager" where
  "lmg_new namespace =
     \<lparr>lmg_namespace = namespace, lmg_act_req = [], lmg_cancels_req = [], lmg_workflow_notify = [],
      lmg_complete_notify = False, lmg_workflows_have_shut_down = False,
      lmg_shutdown_complete_tok = False, lmg_la_info = [], lmg_outstanding = [],
      lmg_next_tt_num = 0, lmg_tasks = [], lmg_next_handle = 0\<rparr>"

definition la_id :: "NewLocalAct \<Rightarrow> ExecutingLAId" where
  "la_id act = \<lparr>ela_run_id = we_run_id (nla_workflow_exec_info act),
     ela_seq_num = vla_seq (nla_schedule_cmd act)\<rparr>"

definition has_undelivered_cancel :: "LocalInFlightActInfo \<Rightarrow> string \<Rightarrow> bool" where
  "has_undelivered_cancel info run_id \<longleftrightarrow>
     we_run_id (nla_workflow_exec_info (ifl_la_info info)) = run_id \<and> ifl_cancel info = Queued"

definition gen_next_token :: "LocalActivityManager \<Rightarrow> TaskToken \<times> LocalActivityManager" where
  "gen_next_token s =
     (let n = lmg_next_tt_num s + 1
      in (new_local_activity_token (to_le_bytes n), s\<lparr>lmg_next_tt_num := n\<rparr>))"

text \<open>\<^verbatim>\<open>tokio::spawn\<close> of a task that sleeps and then sends, \<^verbatim>\<open>abort\<close>, and \<^verbatim>\<open>Drop\<close>.\<close>

definition spawn :: "LocalActivityManager \<Rightarrow> int \<Rightarrow> TaskBody \<Rightarrow> nat \<times> LocalActivityManager" where
  "spawn s wake body =
     (lmg_next_handle s,
      s\<lparr>lmg_tasks := lmg_tasks s @ [\<lparr>spt_handle = JoinHandle (lmg_next_handle s), spt_wake = wake, spt_body = body\<rparr>],
        lmg_next_handle := Suc (lmg_next_handle s)\<rparr>)"

definition abort :: "TaskHandle \<Rightarrow> LocalActivityManager \<Rightarrow> LocalActivityManager" where
  "abort h s = s\<lparr>lmg_tasks := filter (\<lambda>t. spt_handle t \<noteq> h) (lmg_tasks s)\<rparr>"

definition drop_timeout_bag :: "TimeoutBag option \<Rightarrow> LocalActivityManager \<Rightarrow> LocalActivityManager" where
  "drop_timeout_bag bag s =
     (case bag of
        None \<Rightarrow> s
      | Some b \<Rightarrow>
          let s = abort (JoinHandle (tob_sched_to_close_handle b)) s
          in case tob_start_to_close_handle b of Some h \<Rightarrow> abort (JoinHandle h) s | None \<Rightarrow> s)"

section \<open>Timeouts\<close>

text \<open>\<^verbatim>\<open>SystemTime::elapsed().unwrap_or_default()\<close>.\<close>

definition elapsed_or_default :: "Clocks \<Rightarrow> SystemTime \<Rightarrow> StdDuration" where
  "elapsed_or_default clk t = nat (clk_system clk - t)"

definition timeout_bag_new ::
    "Clocks \<Rightarrow> LocalActivityManager \<Rightarrow> NewLocalAct \<Rightarrow>
     LocalActivityResolution + (TimeoutBag \<times> LocalActivityManager)" where
  "timeout_bag_new clk s new_la =
     (let cmd = nla_schedule_cmd new_la;
          (schedule_to_close, start_to_close) = into_sched_and_start (vla_close_timeouts cmd);
          sched_time = unwrap_or (vla_original_schedule_time cmd) (nla_schedule_time new_la);
          resolution = \<lparr>lar_seq = vla_seq cmd, lar_result = la_timeout TT_ScheduleToClose,
            lar_runtime = 0, lar_attempt = vla_attempt cmd, lar_backoff = None,
            lar_original_schedule_time = vla_original_schedule_time cmd\<rparr>;
          schedule_to_close = map_option (\<lambda>s2c. s2c - elapsed_or_default clk sched_time) schedule_to_close
      in if schedule_to_close = Some 0 then Inl resolution
         else
           let timeout_dat = CoT_Timeout (we_run_id (nla_workflow_exec_info new_la)) resolution;
               (scheduling, s) =
                 (case schedule_to_close of
                    Some s2c \<Rightarrow> spawn s (clk_instant clk + int s2c) (Send_Timeout timeout_dat)
                  | None \<Rightarrow> (lmg_next_handle s, s\<lparr>lmg_next_handle := Suc (lmg_next_handle s)\<rparr>))
           in Inr (\<lparr>tob_sched_to_close_handle = scheduling,
                    tob_start_to_close_dur_and_dat = map_option (\<lambda>d. (d, timeout_dat)) start_to_close,
                    tob_start_to_close_handle = None\<rparr>, s))"

definition mark_started ::
    "Clocks \<Rightarrow> LocalActivityManager \<Rightarrow> TimeoutBag \<Rightarrow> TimeoutBag \<times> LocalActivityManager" where
  "mark_started clk s bag =
     (case tob_start_to_close_dur_and_dat bag of
        None \<Rightarrow> (bag, s)
      | Some (start_to_close, dat) \<Rightarrow>
          let (h, s) = spawn s (clk_instant clk + int start_to_close)
                (Send_StartToClose dat (clk_instant clk))
          in (bag\<lparr>tob_start_to_close_handle := Some h\<rparr>, s))"

text \<open>The end of a sleeping task's sleep.\<close>

definition run_body :: "Clocks \<Rightarrow> TaskBody \<Rightarrow> LocalActivityManager \<Rightarrow> LocalActivityManager" where
  "run_body clk body s =
     (case body of
        Send_Timeout dat \<Rightarrow> s\<lparr>lmg_cancels_req := lmg_cancels_req s @ [dat]\<rparr>
      | Send_StartToClose dat started_t \<Rightarrow>
          let dat = (case dat of
                CoT_Timeout run_id r \<Rightarrow> CoT_Timeout run_id
                  (r\<lparr>lar_result := la_timeout TT_StartToClose,
                     lar_runtime := nat (clk_instant clk - started_t)\<rparr>)
              | _ \<Rightarrow> dat)
          in s\<lparr>lmg_cancels_req := lmg_cancels_req s @ [dat]\<rparr>
      | Send_Retry in_flight attempt \<Rightarrow>
          s\<lparr>lmg_act_req := lmg_act_req s @ [NoR_Retry in_flight attempt]\<rparr>
      | Send_Heartbeat run_id \<Rightarrow>
          s\<lparr>lmg_workflow_notify := lmg_workflow_notify s @ [LAN_HeartbeatTimeout run_id]\<rparr>)"

definition wake_task :: "Clocks \<Rightarrow> TaskHandle \<Rightarrow> LocalActivityManager \<Rightarrow> LocalActivityManager" where
  "wake_task clk h s =
     (case find (\<lambda>t. spt_handle t = h) (lmg_tasks s) of
        Some t \<Rightarrow> if spt_wake t \<le> clk_instant clk then run_body clk (spt_body t) (abort h s) else s
      | None \<Rightarrow> s)"

section \<open>Shutdown\<close>

definition nothing_pending :: "LocalActivityManager \<Rightarrow> bool" where
  "nothing_pending s \<longleftrightarrow>
     lmg_outstanding s = [] \<and> list_all (\<lambda>(_, info). \<not> lai_queued_for_dispatch info) (lmg_la_info s)"

definition set_shutdown_complete_if_ready :: "LocalActivityManager \<Rightarrow> bool \<times> LocalActivityManager" where
  "set_shutdown_complete_if_ready s =
     (nothing_pending s,
      if nothing_pending s \<and> lmg_workflows_have_shut_down s
      then s\<lparr>lmg_shutdown_complete_tok := True\<rparr> else s)"

definition notify_one :: "LocalActivityManager \<Rightarrow> LocalActivityManager" where
  "notify_one s = s\<lparr>lmg_complete_notify := True\<rparr>"

definition workflows_have_shutdown :: "LocalActivityManager \<Rightarrow> LocalActivityManager" where
  "workflows_have_shutdown s =
     snd (set_shutdown_complete_if_ready (s\<lparr>lmg_workflows_have_shut_down := True\<rparr>))"

definition shutdown_initiated :: "LocalActivityManager \<Rightarrow> LocalActivityManager" where
  "shutdown_initiated s = snd (set_shutdown_complete_if_ready s)"

definition get_nonfirst_attempt_count :: "LocalActivityManager \<Rightarrow> string \<Rightarrow> nat" where
  "get_nonfirst_attempt_count s for_run_id =
     sum_list (map (\<lambda>(_, info). lai_attempts_in_wft info)
       (filter (\<lambda>(i, info). ela_run_id i = for_run_id \<and> lai_first_wft_has_ended info) (lmg_la_info s)))"

definition has_undelivered_cancels :: "LocalActivityManager \<Rightarrow> string \<Rightarrow> bool" where
  "has_undelivered_cancels s run_id \<longleftrightarrow>
     list_ex (\<lambda>(_, info). has_undelivered_cancel info run_id) (lmg_outstanding s)"

section \<open>Requests\<close>

definition cancelled_now :: "u32 \<Rightarrow> LocalActivityResolution" where
  "cancelled_now seq = \<lparr>lar_seq = seq, lar_result = empty_cancel, lar_runtime = 0, lar_attempt = 0,
     lar_backoff = None, lar_original_schedule_time = None\<rparr>"

text \<open>
  Whether the entry must be removed, the resolution to apply right away, and what became of the
  entry and the rest of the state.
\<close>

definition cancel_one_la ::
    "LocalActivityManager \<Rightarrow> u32 \<Rightarrow> LocalActivityInfo \<Rightarrow>
     bool \<times> LocalActivityResolution option \<times> LocalActivityInfo \<times> LocalActivityManager" where
  "cancel_one_la s seq lai =
     (case lai_backing_off_task lai of
        Some t \<Rightarrow>
          (True, Some (cancelled_now seq), lai\<lparr>lai_backing_off_task := None\<rparr>, abort (JoinHandle t) s)
      | None \<Rightarrow>
          (case map_of (lmg_outstanding s) (lai_task_token lai) of
             Some in_flight \<Rightarrow>
               (False, None, lai,
                if ifl_cancel in_flight = NotRequested
                then s\<lparr>lmg_cancels_req := lmg_cancels_req s @
                         [CoT_Cancel (cancel_from_ids (lai_task_token lai) ACR_Cancelled
                            (primary_reason_to_cancellation_details ACR_Cancelled))],
                       lmg_outstanding := AList.update (lai_task_token lai)
                         (in_flight\<lparr>ifl_cancel := Queued\<rparr>) (lmg_outstanding s)\<rparr>
                else s)
           | None \<Rightarrow>
               if lai_queued_for_dispatch lai then (True, Some (cancelled_now seq), lai, s)
               else (True, None, lai, s)))"

text \<open>The removal of an entry drops its timeouts.\<close>

definition remove_la_info :: "ExecutingLAId \<Rightarrow> LocalActivityInfo \<Rightarrow> LocalActivityManager \<Rightarrow>
    LocalActivityManager" where
  "remove_la_info i lai s =
     drop_timeout_bag (lai_timeout_bag lai) (s\<lparr>lmg_la_info := AList.delete i (lmg_la_info s)\<rparr>)"

definition cancel_and_update ::
    "ExecutingLAId \<Rightarrow> LocalActivityInfo \<Rightarrow> LocalActivityManager \<Rightarrow>
     LocalActivityResolution option \<times> LocalActivityManager" where
  "cancel_and_update i lai s =
     (let (remove, res, lai, s) = cancel_one_la s (ela_seq_num i) lai
      in (res, if remove then remove_la_info i lai s
               else s\<lparr>lmg_la_info := AList.update i lai (lmg_la_info s)\<rparr>))"

definition shutdown_check_and_notify :: "LocalActivityManager \<Rightarrow> LocalActivityManager" where
  "shutdown_check_and_notify s = notify_one (snd (set_shutdown_complete_if_ready s))"

definition enqueue_new ::
    "Clocks \<Rightarrow> LocalActivityManager \<Rightarrow> NewLocalAct \<Rightarrow>
     LocalActivityResolution list \<times> LocalActivityManager" where
  "enqueue_new clk s act =
     (let i = la_id act;
          (tt, s) = gen_next_token s
      in case map_of (lmg_la_info s) i of
           Some _ \<Rightarrow> ([], s)
         | None \<Rightarrow>
             let lai = \<lparr>lai_task_token = tt, lai_queued_for_dispatch = False,
                   lai_backing_off_task = None, lai_timeout_bag = None,
                   lai_first_wft_has_ended = False, lai_attempts_in_wft = 0\<rparr>
             in case timeout_bag_new clk s act of
                  Inr (tb, s) \<Rightarrow>
                    ([], s\<lparr>lmg_la_info := AList.update i
                             (lai\<lparr>lai_timeout_bag := Some tb, lai_queued_for_dispatch := True\<rparr>)
                             (lmg_la_info s),
                           lmg_act_req := lmg_act_req s @ [NoR_New act]\<rparr>)
                | Inl res \<Rightarrow> ([res], s\<lparr>lmg_la_info := AList.update i lai (lmg_la_info s)\<rparr>))"

fun enqueue_one ::
    "Clocks \<Rightarrow> LocalActivityManager \<Rightarrow> LocalActRequest \<Rightarrow>
     LocalActivityResolution list \<times> LocalActivityManager" where
  "enqueue_one clk s (LAR_New act) = enqueue_new clk s act"
| "enqueue_one clk s (LAR_StartHeartbeatTimeout run_id deadline h) =
     ([], s\<lparr>lmg_tasks := lmg_tasks s @
              [\<lparr>spt_handle = AbortHandle h, spt_wake = deadline, spt_body = Send_Heartbeat run_id\<rparr>]\<rparr>)"
| "enqueue_one clk s (LAR_Cancel i) =
     (case map_of (lmg_la_info s) i of
        None \<Rightarrow> ([], s)
      | Some lai \<Rightarrow>
          let (res, s) = cancel_and_update i lai s
          in ((case res of Some r \<Rightarrow> [r] | None \<Rightarrow> []),
              if map_of (lmg_la_info s) i = None then shutdown_check_and_notify s else s))"
| "enqueue_one clk s (LAR_CancelAllInRun run_id) =
     (let before = length (lmg_la_info s);
          s = fold (\<lambda>(i, lai) s.
                if ela_run_id i = run_id then snd (cancel_and_update i lai s) else s) (lmg_la_info s) s
      in ([], if length (lmg_la_info s) \<noteq> before then shutdown_check_and_notify s else s))"
| "enqueue_one clk s (LAR_InvalidateRun run_id) =
     (let s = s\<lparr>lmg_outstanding := filter (\<lambda>(_, info).
                    we_run_id (nla_workflow_exec_info (ifl_la_info info)) \<noteq> run_id) (lmg_outstanding s)\<rparr>;
          s = fold (\<lambda>(i, lai) s.
                if ela_run_id i = run_id
                then remove_la_info i lai
                       (case lai_backing_off_task lai of Some t \<Rightarrow> abort (JoinHandle t) s | None \<Rightarrow> s)
                else s) (lmg_la_info s) s
      in ([], shutdown_check_and_notify s))"
| "enqueue_one clk s (LAR_IndicateWorkflowTaskCompleted run_id) =
     ([], s\<lparr>lmg_la_info := map (\<lambda>(i, lai).
              (i, if ela_run_id i = run_id
                  then lai\<lparr>lai_first_wft_has_ended := True, lai_attempts_in_wft := 0\<rparr> else lai))
            (lmg_la_info s)\<rparr>)"

fun enqueue_all ::
    "Clocks \<Rightarrow> LocalActivityManager \<Rightarrow> LocalActRequest list \<Rightarrow>
     LocalActivityResolution list \<times> LocalActivityManager" where
  "enqueue_all clk s [] = ([], s)"
| "enqueue_all clk s (req # reqs) =
     (let (res, s) = enqueue_one clk s req;
          (rest, s) = enqueue_all clk s reqs
      in (res @ rest, s))"

definition enqueue ::
    "Clocks \<Rightarrow> LocalActivityManager \<Rightarrow> LocalActRequest list \<Rightarrow>
     LocalActivityResolution list \<times> LocalActivityManager" where
  "enqueue clk s reqs =
     (if lmg_workflows_have_shut_down s then ([], s) else enqueue_all clk s reqs)"

section \<open>Completions\<close>

datatype CompletionOutcome = FailurePath "StdDuration option" | JustReport

definition completion_outcome ::
    "externals \<Rightarrow> LocalInFlightActInfo \<Rightarrow> LocalActivityExecutionResult \<Rightarrow> CompletionOutcome" where
  "completion_outcome x info status =
     (let cancel_requested = (ifl_cancel info \<noteq> NotRequested);
          calc_backoff = (\<lambda>failure. should_retry (x_to_std_duration x)
            (vla_retry_policy (nla_schedule_cmd (ifl_la_info info)))
            (if ifl_attempt info = 0 then 1 else ifl_attempt info)
            (Option.bind failure maybe_application_failure))
      in case status of
           LA_Failed fail \<Rightarrow>
             if cancel_requested then JustReport else FailurePath (calc_backoff fail)
         | LA_TimedOut fail \<Rightarrow>
             if get_timeout_type status = Some TT_StartToClose \<and> \<not> cancel_requested
             then FailurePath (calc_backoff fail) else JustReport
         | LA_Completed _ \<Rightarrow> JustReport
         | LA_Cancelled _ \<Rightarrow> JustReport)"

definition la_complete ::
    "externals \<Rightarrow> Clocks \<Rightarrow> LocalActivityManager \<Rightarrow> TaskToken \<Rightarrow> LocalActivityExecutionResult \<Rightarrow>
     (LACompleteAction \<times> LocalActivityManager) result" where
  "la_complete x clk s task_token status =
     (case map_of (lmg_outstanding s) task_token of
        None \<Rightarrow> Ok (LAC_Untracked, s)
      | Some info \<Rightarrow>
          let s = s\<lparr>lmg_outstanding := AList.delete task_token (lmg_outstanding s)\<rparr>;
              s = (if lmg_workflows_have_shut_down s then snd (set_shutdown_complete_if_ready s) else s);
              exec_id = la_id (ifl_la_info info);
              cmd = nla_schedule_cmd (ifl_la_info info);
              run_id = we_run_id (nla_workflow_exec_info (ifl_la_info info));
              maybe_old_lai = map_of (lmg_la_info s) exec_id;
              s = s\<lparr>lmg_la_info := AList.delete exec_id (lmg_la_info s)\<rparr>;
              s = (case Option.bind maybe_old_lai lai_backing_off_task of Some h \<Rightarrow> abort (JoinHandle h) s | None \<Rightarrow> s);
              dropped = drop_timeout_bag (Option.bind maybe_old_lai lai_timeout_bag) s;
              is_timeout = (case status of LA_TimedOut _ \<Rightarrow> True | _ \<Rightarrow> False);
              resolution = \<lparr>lar_seq = vla_seq cmd, lar_result = status,
                lar_runtime = nat (clk_instant clk - ifl_dispatch_time info),
                lar_attempt = ifl_attempt info, lar_backoff = None,
                lar_original_schedule_time = vla_original_schedule_time cmd\<rparr>;
              task = (if is_timeout
                      then Some (cancel_from_ids task_token ACR_TimedOut
                                  (primary_reason_to_cancellation_details ACR_TimedOut))
                      else None)
          in case completion_outcome x info status of
               FailurePath None \<Rightarrow> Ok (LAC_Report run_id resolution task, dropped)
             | FailurePath (Some backoff_dur) \<Rightarrow>
                 if backoff_dur > vla_local_retry_threshold cmd then
                   (case x_from_std_duration x backoff_dur of
                      Some d \<Rightarrow> Ok (LAC_Report run_id (resolution\<lparr>lar_backoff := Some d\<rparr>) task, dropped)
                    | None \<Rightarrow> Panic)
                 else
                   let (tt, s) = gen_next_token s;
                       (jh, s) = spawn s (clk_instant clk + int backoff_dur)
                         (Send_Retry (ifl_la_info info) (ifl_attempt info + 1));
                       lai = \<lparr>lai_task_token = tt, lai_queued_for_dispatch = False,
                         lai_backing_off_task = Some jh,
                         lai_timeout_bag = Option.bind maybe_old_lai lai_timeout_bag,
                         lai_first_wft_has_ended =
                           (case maybe_old_lai of Some old \<Rightarrow> lai_first_wft_has_ended old | None \<Rightarrow> False),
                         lai_attempts_in_wft =
                           (case maybe_old_lai of Some old \<Rightarrow> lai_attempts_in_wft old + 1 | None \<Rightarrow> 1)\<rparr>
                   in Ok (LAC_WillBeRetried task,
                          s\<lparr>lmg_la_info := AList.update exec_id lai (lmg_la_info s)\<rparr>)
             | JustReport \<Rightarrow> Ok (LAC_Report run_id resolution task, notify_one dropped))"

section \<open>What to do next\<close>

text \<open>
  One round of the loop of \<^verbatim>\<open>next_pending\<close>, for an item of either channel; no action is the
  \<^verbatim>\<open>continue\<close>.
\<close>

definition next_cancel ::
    "externals \<Rightarrow> Clocks \<Rightarrow> LocalActivityManager \<Rightarrow> CancelOrTimeout \<Rightarrow>
     (NextPendingLAAction option \<times> LocalActivityManager) result" where
  "next_cancel x clk s c =
     (case c of
        CoT_Cancel task \<Rightarrow>
          (case map_of (lmg_outstanding s) (atk_task_token task) of
             Some info \<Rightarrow>
               Ok (Some (NPA_Dispatch task),
                   s\<lparr>lmg_outstanding := AList.update (atk_task_token task)
                       (info\<lparr>ifl_cancel := Delivered\<rparr>) (lmg_outstanding s),
                     lmg_workflow_notify := lmg_workflow_notify s @
                       [LAN_CancelProcessed (we_run_id (nla_workflow_exec_info (ifl_la_info info)))]\<rparr>)
           | None \<Rightarrow> Ok (None, s))
      | CoT_Timeout run_id resolution \<Rightarrow>
          (case map_of (lmg_la_info s) \<lparr>ela_run_id = run_id, ela_seq_num = lar_seq resolution\<rparr> of
             Some lai \<Rightarrow>
               res_map (\<lambda>(action, s). (Some (NPA_Autocomplete action), s))
                 (la_complete x clk s (lai_task_token lai) (lar_result resolution))
           | None \<Rightarrow> Ok (None, s)))"

definition start_task ::
    "externals \<Rightarrow> Clocks \<Rightarrow> string \<Rightarrow> TaskToken \<Rightarrow> NewLocalAct \<Rightarrow> u32 \<Rightarrow> ActivityTask result" where
  "start_task x clk namespace tt new_la attempt =
     (let sa = nla_schedule_cmd new_la;
          (schedule_to_close, start_to_close) = into_sched_and_start (vla_close_timeouts sa)
      in res_map (\<lambda>retry_policy.
           \<lparr>atk_task_token = tt, atk_variant = Var_Start
              \<lparr>ast_workflow_namespace = namespace, ast_workflow_type = nla_workflow_type new_la,
               ast_workflow_execution = nla_workflow_exec_info new_la,
               ast_activity_id = vla_activity_id sa, ast_activity_type = vla_activity_type sa,
               ast_header_fields = vla_headers sa, ast_input = vla_arguments sa,
               ast_scheduled_time = nla_schedule_time new_la, ast_started_time = clk_system clk,
               ast_attempt = attempt,
               ast_schedule_to_close_timeout = x_from_std_duration x (unwrap_or schedule_to_close 0),
               ast_start_to_close_timeout =
                 Option.bind (case start_to_close of Some d \<Rightarrow> Some d | None \<Rightarrow> schedule_to_close)
                   (x_from_std_duration x),
               ast_retry_policy = retry_policy, ast_workflow_task = nla_workflow_task new_la\<rparr>\<rparr>)
         (RetryPolicy_from (x_from_std_duration x) (vla_retry_policy sa)))"

fun request_and_attempt :: "NewOrRetry \<Rightarrow> NewLocalAct \<times> u32" where
  "request_and_attempt (NoR_New n) = (n, max (vla_attempt (nla_schedule_cmd n)) 1)"
| "request_and_attempt (NoR_Retry in_flight attempt) = (in_flight, attempt)"

definition next_request ::
    "externals \<Rightarrow> Clocks \<Rightarrow> LocalActivityManager \<Rightarrow> NewOrRetry \<Rightarrow>
     (NextPendingLAAction option \<times> LocalActivityManager) result" where
  "next_request x clk s new_or_retry =
     (let (new_la, attempt) = request_and_attempt new_or_retry;
          i = la_id new_la;
          sa = nla_schedule_cmd new_la;
          sat_for = elapsed_or_default clk (nla_schedule_time new_la)
      in case map_of (lmg_la_info s) i of
           None \<Rightarrow> Ok (None, s)
         | Some la_info \<Rightarrow>
             let la_info = la_info\<lparr>lai_queued_for_dispatch := False, lai_backing_off_task := None\<rparr>;
                 s = s\<lparr>lmg_la_info := AList.update i la_info (lmg_la_info s)\<rparr>
             in if (case vla_schedule_to_start_timeout sa of Some s2s \<Rightarrow> sat_for > s2s | None \<Rightarrow> False) then
                  Ok (Some (NPA_Autocomplete (LAC_Report (we_run_id (nla_workflow_exec_info new_la))
                        \<lparr>lar_seq = vla_seq sa, lar_result = la_timeout TT_ScheduleToStart,
                         lar_runtime = sat_for, lar_attempt = attempt, lar_backoff = None,
                         lar_original_schedule_time = vla_original_schedule_time sa\<rparr> None)),
                      shutdown_check_and_notify s)
                else
                  let tt = lai_task_token la_info;
                      (bag, s) = (case lai_timeout_bag la_info of
                          Some to \<Rightarrow> map_prod Some (\<lambda>s. s) (mark_started clk s to)
                        | None \<Rightarrow> (None, s));
                      s = s\<lparr>lmg_la_info := AList.update i (la_info\<lparr>lai_timeout_bag := bag\<rparr>) (lmg_la_info s),
                            lmg_outstanding := AList.update tt
                              \<lparr>ifl_la_info = new_la, ifl_dispatch_time = clk_instant clk,
                               ifl_attempt = attempt, ifl_cancel = NotRequested\<rparr> (lmg_outstanding s)\<rparr>
                  in res_map (\<lambda>task. (Some (NPA_Dispatch task), s))
                       (start_task x clk (lmg_namespace s) tt new_la attempt))"

text \<open>
  The merged stream yields the next item of one of the two channels, and ends once shutdown is
  complete.
\<close>

definition poll_cancel ::
    "externals \<Rightarrow> Clocks \<Rightarrow> LocalActivityManager \<Rightarrow>
     (NextPendingLAAction option \<times> LocalActivityManager) result" where
  "poll_cancel x clk s =
     (case lmg_cancels_req s of
        c # cs \<Rightarrow> if lmg_shutdown_complete_tok s then Ok (None, s)
                  else next_cancel x clk (s\<lparr>lmg_cancels_req := cs\<rparr>) c
      | [] \<Rightarrow> Ok (None, s))"

definition poll_request ::
    "externals \<Rightarrow> Clocks \<Rightarrow> LocalActivityManager \<Rightarrow>
     (NextPendingLAAction option \<times> LocalActivityManager) result" where
  "poll_request x clk s =
     (case lmg_act_req s of
        r # rs \<Rightarrow> if lmg_shutdown_complete_tok s then Ok (None, s)
                  else next_request x clk (s\<lparr>lmg_act_req := rs\<rparr>) r
      | [] \<Rightarrow> Ok (None, s))"

text \<open>
  One round of the loop of \<^verbatim>\<open>wait_all_outstanding_tasks_finished\<close>.  A notice that was left is used
  up; without one the caller is parked until the next.
\<close>

datatype WaitRound = WaitFinished | WaitAgain | WaitParked

definition wait_outstanding_round :: "LocalActivityManager \<Rightarrow> WaitRound \<times> LocalActivityManager" where
  "wait_outstanding_round s =
     (let (ready, s) = set_shutdown_complete_if_ready s
      in if ready then (WaitFinished, s)
         else if lmg_complete_notify s then (WaitAgain, s\<lparr>lmg_complete_notify := False\<rparr>)
         else (WaitParked, s))"

end
