(* ===== verification/LocalActivityRuns.thy ===== *)
theory LocalActivityRuns
  imports LocalActivityManager
begin

text \<open>
  Runs of the manager of local activities: any sequence of requests, polls, completions and elapsed
  timers, at any readings of the clocks.  What holds in every state is shown through the locale
  \<open>lam_invariant\<close>, interpreted twice: for the agreement between the two maps, the queue of
  cancellations and the shutdown flags, and for the bound on the number of attempts.
\<close>

section \<open>Calls\<close>

datatype LAMOp =
    LAM_Enqueue "LocalActRequest list" | LAM_PollCancel | LAM_PollRequest
  | LAM_Complete TaskToken LocalActivityExecutionResult | LAM_Wake TaskHandle
  | LAM_AbortHeartbeat nat | LAM_WorkflowsShutdown | LAM_ShutdownInitiated | LAM_Wait

fun lam_op :: "externals \<Rightarrow> Clocks \<Rightarrow> LocalActivityManager \<Rightarrow> LAMOp \<Rightarrow> LocalActivityManager result" where
  "lam_op x clk s (LAM_Enqueue reqs) = Ok (snd (enqueue clk s reqs))"
| "lam_op x clk s LAM_PollCancel = res_map snd (poll_cancel x clk s)"
| "lam_op x clk s LAM_PollRequest = res_map snd (poll_request x clk s)"
| "lam_op x clk s (LAM_Complete tt status) = res_map snd (la_complete x clk s tt status)"
| "lam_op x clk s (LAM_Wake h) = Ok (wake_task clk h s)"
| "lam_op x clk s (LAM_AbortHeartbeat h) = Ok (abort (AbortHandle h) s)"
| "lam_op x clk s LAM_WorkflowsShutdown = Ok (workflows_have_shutdown s)"
| "lam_op x clk s LAM_ShutdownInitiated = Ok (shutdown_initiated s)"
| "lam_op x clk s LAM_Wait = Ok (snd (wait_outstanding_round s))"

fun lam_run ::
    "externals \<Rightarrow> LocalActivityManager \<Rightarrow> (Clocks \<times> LAMOp) list \<Rightarrow> LocalActivityManager result" where
  "lam_run x s [] = Ok s"
| "lam_run x s ((clk, op) # ops) = res_bind (lam_op x clk s op) (\<lambda>s. lam_run x s ops)"

locale lam_invariant =
  fixes x :: externals and I :: "LocalActivityManager \<Rightarrow> bool" and allowed_op :: "LAMOp \<Rightarrow> bool"
  assumes new: "I (lmg_new ns)"
    and op: "I s \<Longrightarrow> allowed_op op \<Longrightarrow> lam_op x clk s op = Ok s' \<Longrightarrow> I s'"
begin

lemma run_from: "I s \<Longrightarrow> list_all (\<lambda>(_, op). allowed_op op) ops \<Longrightarrow> lam_run x s ops = Ok s' \<Longrightarrow> I s'"
proof (induction ops arbitrary: s)
  case (Cons o' ops)
  obtain clk op' where o': "o' = (clk, op')" by force
  with Cons.prems(3) obtain s1 where s1: "lam_op x clk s op' = Ok s1" and rest: "lam_run x s1 ops = Ok s'"
    by (auto simp: res_bind_eq_Ok)
  show ?case using Cons.IH [OF op [OF Cons.prems(1) _ s1] _ rest] Cons.prems(2) o' by simp
qed simp

lemmas run = run_from [OF new]

end

section \<open>The maps, the queue and the flags agree\<close>

definition tracks :: "LocalActivityManager \<Rightarrow> TaskToken \<Rightarrow> LocalInFlightActInfo \<Rightarrow> bool" where
  "tracks s tt info \<longleftrightarrow>
     (case map_of (lmg_la_info s) (la_id (ifl_la_info info)) of
        Some lai \<Rightarrow> lai_task_token lai = tt \<and> lai_backing_off_task lai = None
      | None \<Rightarrow> False)"

definition tracked :: "LocalActivityManager \<Rightarrow> bool" where
  "tracked s \<longleftrightarrow> distinct (map fst (lmg_la_info s)) \<and> distinct (map fst (lmg_outstanding s)) \<and>
     (\<forall>tt info. map_of (lmg_outstanding s) tt = Some info \<longrightarrow> tracks s tt info)"

definition queued_for :: "CancelOrTimeout list \<Rightarrow> TaskToken \<Rightarrow> bool" where
  "queued_for cs tt \<longleftrightarrow>
     list_ex (\<lambda>c. case c of CoT_Cancel task \<Rightarrow> atk_task_token task = tt | CoT_Timeout _ _ \<Rightarrow> False) cs"

definition cancels_queued :: "LocalActivityManager \<Rightarrow> bool" where
  "cancels_queued s \<longleftrightarrow> (\<forall>tt info. map_of (lmg_outstanding s) tt = Some info \<longrightarrow>
     ifl_cancel info = Queued \<longrightarrow> queued_for (lmg_cancels_req s) tt)"

definition nothing_dropped :: "LocalActivityManager \<Rightarrow> bool" where
  "nothing_dropped s \<longleftrightarrow>
     (lmg_shutdown_complete_tok s \<longrightarrow> lmg_workflows_have_shut_down s \<and> nothing_pending s)"

definition lam_inv :: "LocalActivityManager \<Rightarrow> bool" where
  "lam_inv s \<longleftrightarrow> tracked s \<and> cancels_queued s \<and> nothing_dropped s"

lemmas lam_inv_defs = lam_inv_def tracked_def tracks_def cancels_queued_def nothing_dropped_def
  nothing_pending_def

text \<open>These are all the fields the invariant reads.\<close>

definition same_view :: "LocalActivityManager \<Rightarrow> LocalActivityManager \<Rightarrow> bool" where
  "same_view s s' \<longleftrightarrow> lmg_la_info s' = lmg_la_info s \<and> lmg_outstanding s' = lmg_outstanding s \<and>
     lmg_cancels_req s' = lmg_cancels_req s \<and>
     lmg_workflows_have_shut_down s' = lmg_workflows_have_shut_down s \<and>
     lmg_shutdown_complete_tok s' = lmg_shutdown_complete_tok s"

lemma lam_inv_view: "same_view s s' \<Longrightarrow> lam_inv s' = lam_inv s"
  by (simp add: lam_inv_defs same_view_def)

lemma same_view_trans: "same_view s s' \<Longrightarrow> same_view s' s'' \<Longrightarrow> same_view s s''"
  by (simp add: same_view_def)

lemma same_view_tasks [simp]:
  "same_view s (abort h s)" "same_view s (drop_timeout_bag bag s)" "same_view s (notify_one s)"
  by (auto simp: same_view_def abort_def drop_timeout_bag_def notify_one_def Let_def split: option.splits)

lemma same_view_spawn: "spawn s w b = (h, s') \<Longrightarrow> same_view s s'"
  by (auto simp: same_view_def spawn_def)

lemma same_view_token: "gen_next_token s = (tt, s') \<Longrightarrow> same_view s s'"
  by (auto simp: same_view_def gen_next_token_def Let_def)

lemma same_view_bag: "timeout_bag_new clk s act = Inr (bag, s') \<Longrightarrow> same_view s s'"
  by (auto simp: timeout_bag_new_def Let_def same_view_def spawn_def split: if_splits prod.splits option.splits)

lemma same_view_started: "mark_started clk s bag = (bag', s') \<Longrightarrow> same_view s s'"
  by (auto simp: mark_started_def Let_def same_view_def spawn_def split: if_splits prod.splits option.splits)

lemma abort_fields [simp]:
  "lmg_la_info (abort h s) = lmg_la_info s" "lmg_outstanding (abort h s) = lmg_outstanding s"
  "lmg_shutdown_complete_tok (abort h s) = lmg_shutdown_complete_tok s"
  by (simp_all add: abort_def)

lemmas lam_inv_tasks [simp] = same_view_tasks [THEN lam_inv_view]

subsection \<open>The changes to the maps\<close>

lemma list_all_update: "list_all P al \<Longrightarrow> P (k, v) \<Longrightarrow> list_all P (AList.update k v al)"
  by (induction al) auto

lemma list_all_delete: "list_all P al \<Longrightarrow> list_all P (AList.delete k al)"
  by (auto simp: list_all_iff AList.delete_eq)

lemma lam_inv_update_la_info:
  assumes "lam_inv s"
    and "\<And>tt info. map_of (lmg_outstanding s) tt = Some info \<Longrightarrow> la_id (ifl_la_info info) = i \<Longrightarrow>
      lai_task_token lai = tt \<and> lai_backing_off_task lai = None"
    and "lmg_shutdown_complete_tok s \<Longrightarrow> \<not> lai_queued_for_dispatch lai"
  shows "lam_inv (s\<lparr>lmg_la_info := AList.update i lai (lmg_la_info s)\<rparr>)"
  using assms
  by (auto simp: lam_inv_defs update_conv' distinct_update list_all_update split: option.splits)

lemma lam_inv_delete_la_info:
  assumes "lam_inv s" and "\<And>tt info. map_of (lmg_outstanding s) tt = Some info \<Longrightarrow> la_id (ifl_la_info info) \<noteq> i"
  shows "lam_inv (s\<lparr>lmg_la_info := AList.delete i (lmg_la_info s)\<rparr>)"
  using assms
  by (auto simp: lam_inv_defs delete_conv' distinct_delete list_all_delete split: option.splits)

lemma lam_inv_shrink_outstanding:
  assumes "lam_inv s" and "distinct (map fst out')" and "\<And>tt info. map_of out' tt = Some info \<Longrightarrow> map_of (lmg_outstanding s) tt = Some info"
    and "lmg_outstanding s = [] \<Longrightarrow> out' = []"
  shows "lam_inv (s\<lparr>lmg_outstanding := out'\<rparr>)"
  using assms(1,2,4) by (auto simp: lam_inv_defs simp del: map_of_eq_Some_iff dest: assms(3))

lemma lam_inv_update_outstanding:
  assumes "lam_inv s" and "tracks s tt info" and "\<not> lmg_shutdown_complete_tok s"
    and "ifl_cancel info = Queued \<Longrightarrow> queued_for (lmg_cancels_req s) tt"
  shows "lam_inv (s\<lparr>lmg_outstanding := AList.update tt info (lmg_outstanding s)\<rparr>)"
  using assms by (auto simp: lam_inv_defs update_conv' distinct_update split: option.splits)

lemma lam_inv_send: "lam_inv s \<Longrightarrow> lam_inv (s\<lparr>lmg_cancels_req := lmg_cancels_req s @ cs\<rparr>)"
  by (simp add: lam_inv_defs queued_for_def)

lemma lam_inv_shutdown_check [simp]: "lam_inv s \<Longrightarrow> lam_inv (snd (set_shutdown_complete_if_ready s))"
  by (auto simp: lam_inv_defs set_shutdown_complete_if_ready_def)

lemma lam_inv_tracked:
  "lam_inv s \<Longrightarrow> map_of (lmg_outstanding s) tt = Some info \<Longrightarrow>
   \<exists>lai. map_of (lmg_la_info s) (la_id (ifl_la_info info)) = Some lai \<and> lai_task_token lai = tt \<and>
     lai_backing_off_task lai = None"
  unfolding lam_inv_def tracked_def tracks_def by (force split: option.splits)

lemma lam_inv_open: "lam_inv s \<Longrightarrow> map_of (lmg_outstanding s) tt = Some info \<Longrightarrow> \<not> lmg_shutdown_complete_tok s"
  by (auto simp: lam_inv_defs)

text \<open>An entry that is backing off, or whose token is not out, has no attempt in flight.\<close>

lemma idle_not_in_flight:
  assumes "lam_inv s" "map_of (lmg_la_info s) i = Some lai"
    and "lai_backing_off_task lai \<noteq> None \<or> map_of (lmg_outstanding s) (lai_task_token lai) = None"
    and "map_of (lmg_outstanding s) tt = Some info"
  shows "la_id (ifl_la_info info) \<noteq> i"
  using lam_inv_tracked [OF assms(1,4)] assms(2-4) by auto

subsection \<open>Requests\<close>

lemma lam_inv_remove:
  assumes "lam_inv s" "map_of (lmg_la_info s) i = Some lai"
    and "lai_backing_off_task lai \<noteq> None \<or> map_of (lmg_outstanding s) (lai_task_token lai) = None"
  shows "lam_inv (remove_la_info i lai' s)"
  unfolding remove_la_info_def lam_inv_tasks
  by (rule lam_inv_delete_la_info [OF assms(1)], rule idle_not_in_flight [OF assms])

lemma update_same [simp]: "map_of al k = Some v \<Longrightarrow> AList.update k v al = al"
  by (induction al) auto

lemma lam_inv_request_cancel:
  assumes "lam_inv s" "map_of (lmg_outstanding s) tt = Some info"
  shows "lam_inv (s\<lparr>lmg_cancels_req := lmg_cancels_req s @ [CoT_Cancel (cancel_from_ids tt r d)],
    lmg_outstanding := AList.update tt (info\<lparr>ifl_cancel := Queued\<rparr>) (lmg_outstanding s)\<rparr>)"
proof -
  let ?s = "s\<lparr>lmg_cancels_req := lmg_cancels_req s @ [CoT_Cancel (cancel_from_ids tt r d)]\<rparr>"
  have "tracks ?s tt (info\<lparr>ifl_cancel := Queued\<rparr>)"
    using lam_inv_tracked [OF assms] by (auto simp: tracks_def)
  then have "lam_inv (?s\<lparr>lmg_outstanding := AList.update tt (info\<lparr>ifl_cancel := Queued\<rparr>) (lmg_outstanding ?s)\<rparr>)"
    using lam_inv_send [OF assms(1)] lam_inv_open [OF assms]
    by (intro lam_inv_update_outstanding) (auto simp: queued_for_def cancel_from_ids_def)
  then show ?thesis by simp
qed

lemma lam_inv_cancel_and_update:
  assumes "lam_inv s" "map_of (lmg_la_info s) i = Some lai"
  shows "lam_inv (snd (cancel_and_update i lai s))"
proof (cases "lai_backing_off_task lai")
  case (Some t)
  have "lam_inv (remove_la_info i (lai\<lparr>lai_backing_off_task := None\<rparr>) (abort (JoinHandle t) s))"
    by (rule lam_inv_remove [of _ _ lai]) (use assms Some in auto)
  with Some show ?thesis by (simp add: cancel_and_update_def cancel_one_la_def)
next
  case None
  show ?thesis
  proof (cases "map_of (lmg_outstanding s) (lai_task_token lai)")
    case idle: None
    show ?thesis
      using lam_inv_remove [OF assms, of lai] idle None
      by (simp add: cancel_and_update_def cancel_one_la_def)
  next
    case (Some info)
    show ?thesis
      using lam_inv_request_cancel [OF assms(1) Some] Some None assms
      by (simp add: cancel_and_update_def cancel_one_la_def)
  qed
qed

lemma cancel_and_update_others:
  "j \<noteq> i \<Longrightarrow> map_of (lmg_la_info (snd (cancel_and_update i lai s))) j = map_of (lmg_la_info s) j"
  by (auto simp: cancel_and_update_def cancel_one_la_def remove_la_info_def drop_timeout_bag_def abort_def
      delete_conv' update_conv' Let_def split: option.splits if_splits)

lemma lam_inv_shutdown_check_notify [simp]: "lam_inv s \<Longrightarrow> lam_inv (shutdown_check_and_notify s)"
  by (simp add: shutdown_check_and_notify_def)

lemma lam_inv_cancel_fold:
  assumes "lam_inv s" "distinct (map fst las)" "\<And>i lai. (i, lai) \<in> set las \<Longrightarrow> map_of (lmg_la_info s) i = Some lai"
  shows "lam_inv (fold (\<lambda>(i, lai) s. if ela_run_id i = run_id then snd (cancel_and_update i lai s) else s) las s)"
  using assms
proof (induction las arbitrary: s)
  case (Cons p las)
  obtain i lai where p: "p = (i, lai)" by force
  let ?s = "if ela_run_id i = run_id then snd (cancel_and_update i lai s) else s"
  have "lam_inv ?s" using Cons.prems(1,3) p by (simp add: lam_inv_cancel_and_update)
  moreover have "map_of (lmg_la_info ?s) j = Some lai'" if "(j, lai') \<in> set las" for j lai'
  proof -
    have "j \<noteq> i" using that Cons.prems(2) p by (force simp: image_iff)
    then show ?thesis using that Cons.prems(3) p by (simp add: cancel_and_update_others)
  qed
  ultimately show ?case using Cons.IH [of ?s] Cons.prems(2) p by simp
qed simp

lemma lam_inv_invalidate_fold:
  assumes "lam_inv s" "\<And>tt info. map_of (lmg_outstanding s) tt = Some info \<Longrightarrow>
      we_run_id (nla_workflow_exec_info (ifl_la_info info)) \<noteq> run_id"
  shows "lam_inv (fold (\<lambda>(i, lai) s.
      if ela_run_id i = run_id
      then remove_la_info i lai (case lai_backing_off_task lai of Some t \<Rightarrow> abort (JoinHandle t) s | None \<Rightarrow> s)
      else s) las s)"
  using assms
proof (induction las arbitrary: s)
  case (Cons p las)
  obtain i lai where p: "p = (i, lai)" by force
  let ?a = "case lai_backing_off_task lai of Some t \<Rightarrow> abort (JoinHandle t) s | None \<Rightarrow> s"
  let ?s = "if ela_run_id i = run_id then remove_la_info i lai ?a else s"
  have a: "lam_inv ?a" "lmg_outstanding ?a = lmg_outstanding s"
    using Cons.prems(1) by (auto split: option.splits)
  have "lam_inv ?s"
  proof (cases "ela_run_id i = run_id")
    case True
    have "la_id (ifl_la_info info) \<noteq> i" if "map_of (lmg_outstanding ?a) tt = Some info" for tt info
      using Cons.prems(2) [of tt info] that True unfolding a(2) by (auto simp: la_id_def)
    with True show ?thesis by (simp add: remove_la_info_def lam_inv_delete_la_info [OF a(1)])
  qed (simp add: Cons.prems(1))
  moreover have "lmg_outstanding ?s = lmg_outstanding s"
    using a(2) same_view_tasks(2) by (simp add: remove_la_info_def same_view_def)
  ultimately show ?case using Cons.IH [of ?s] Cons.prems(2) p by simp
qed simp

lemma map_of_map_values:
  "map_of (map (\<lambda>(i, v). (i, f i v)) al) i = map_option (f i) (map_of al i)"
  by (induction al) auto

lemma lam_inv_map_la_info:
  assumes "lam_inv s"
    and "\<And>i lai. lai_task_token (f i lai) = lai_task_token lai \<and>
      lai_backing_off_task (f i lai) = lai_backing_off_task lai \<and>
      lai_queued_for_dispatch (f i lai) = lai_queued_for_dispatch lai"
  shows "lam_inv (s\<lparr>lmg_la_info := map (\<lambda>(i, lai). (i, f i lai)) (lmg_la_info s)\<rparr>)"
proof -
  let ?s = "s\<lparr>lmg_la_info := map (\<lambda>(i, lai). (i, f i lai)) (lmg_la_info s)\<rparr>"
  have "fst \<circ> (\<lambda>(i, lai). (i, f i lai)) = fst" by auto
  moreover have "tracks ?s tt info = tracks s tt info" for tt info
    using assms(2) by (simp add: tracks_def map_of_map_values split: option.split)
  moreover have "nothing_pending ?s = nothing_pending s"
    using assms(2) by (auto simp: nothing_pending_def list_all_iff)
  ultimately show ?thesis
    using assms(1) by (simp add: lam_inv_def tracked_def cancels_queued_def nothing_dropped_def)
qed

lemma lam_inv_new_entry:
  assumes "lam_inv s" "\<not> lmg_shutdown_complete_tok s" "map_of (lmg_la_info s) i = None"
  shows "lam_inv (s\<lparr>lmg_la_info := AList.update i lai (lmg_la_info s)\<rparr>)"
proof (rule lam_inv_update_la_info [OF assms(1)])
  fix tt info
  assume "map_of (lmg_outstanding s) tt = Some info" "la_id (ifl_la_info info) = i"
  with lam_inv_tracked [OF assms(1)] assms(3)
  show "lai_task_token lai = tt \<and> lai_backing_off_task lai = None" by force
qed (use assms(2) in blast)

lemma lam_inv_fields [simp]:
  "lam_inv (s\<lparr>lmg_act_req := r\<rparr>) = lam_inv s" "lam_inv (s\<lparr>lmg_tasks := ts\<rparr>) = lam_inv s"
  "lam_inv (s\<lparr>lmg_workflow_notify := ns\<rparr>) = lam_inv s" "lam_inv (s\<lparr>lmg_complete_notify := b\<rparr>) = lam_inv s"
  by (rule lam_inv_view, simp add: same_view_def)+

lemma lam_inv_enqueue_new:
  assumes "lam_inv s" "\<not> lmg_shutdown_complete_tok s"
  shows "lam_inv (snd (enqueue_new clk s act))"
proof -
  obtain tt s1 where t: "gen_next_token s = (tt, s1)" by (cases "gen_next_token s")
  note v1 = same_view_token [OF t]
  have inv: "lam_inv (s2\<lparr>lmg_la_info := AList.update (la_id act) lai (lmg_la_info s2)\<rparr>)"
    if v: "same_view s s2" and none: "map_of (lmg_la_info s) (la_id act) = None" for s2 lai
  proof (rule lam_inv_new_entry)
    show "lam_inv s2" using assms(1) lam_inv_view [OF v] by simp
  qed (use assms(2) v none in \<open>simp_all add: same_view_def\<close>)
  show ?thesis
  proof (cases "map_of (lmg_la_info s) (la_id act)")
    case (Some lai)
    then show ?thesis using v1 assms(1) by (simp add: enqueue_new_def t same_view_def lam_inv_view [OF v1])
  next
    case None
    with v1 have *: "map_of (lmg_la_info s1) (la_id act) = None" by (simp add: same_view_def)
    show ?thesis
    proof (cases "timeout_bag_new clk s1 act")
      case (Inl res)
      then show ?thesis using inv [OF v1 None] * by (simp add: enqueue_new_def t)
    next
      case (Inr p)
      obtain tb s2 where p: "p = (tb, s2)" by force
      show ?thesis
        using inv [OF same_view_trans [OF v1 same_view_bag [OF Inr [unfolded p]]] None] * Inr p
        by (simp add: enqueue_new_def t)
    qed
  qed
qed

lemma enqueue_one_open:
  "\<not> lmg_workflows_have_shut_down s \<Longrightarrow> nothing_dropped s \<Longrightarrow> \<not> lmg_shutdown_complete_tok s"
  by (simp add: nothing_dropped_def)

lemma shut_down_fields [simp]:
  "lmg_workflows_have_shut_down (abort h s) = lmg_workflows_have_shut_down s"
  "lmg_workflows_have_shut_down (remove_la_info i lai s) = lmg_workflows_have_shut_down s"
  "lmg_workflows_have_shut_down (shutdown_check_and_notify s) = lmg_workflows_have_shut_down s"
  "lmg_workflows_have_shut_down (snd (cancel_and_update i lai s)) = lmg_workflows_have_shut_down s"
  by (auto simp: abort_def remove_la_info_def drop_timeout_bag_def shutdown_check_and_notify_def
      notify_one_def set_shutdown_complete_if_ready_def cancel_and_update_def cancel_one_la_def Let_def
      split: option.splits if_splits)

lemma enqueue_new_shut_down [simp]:
  "lmg_workflows_have_shut_down (snd (enqueue_new clk s act)) = lmg_workflows_have_shut_down s"
proof -
  obtain tt s1 where t: "gen_next_token s = (tt, s1)" by (cases "gen_next_token s")
  note v1 = same_view_token [OF t]
  show ?thesis
    using v1 same_view_bag [of clk s1 act]
    by (auto simp: enqueue_new_def t same_view_def Let_def split: option.splits sum.splits)
qed

lemma enqueue_one_shut_down:
  "lmg_workflows_have_shut_down (snd (enqueue_one clk s req)) = lmg_workflows_have_shut_down s"
proof -
  have fold: "lmg_workflows_have_shut_down (fold f xs s) = lmg_workflows_have_shut_down s"
    if "\<And>p s. lmg_workflows_have_shut_down (f p s) = lmg_workflows_have_shut_down s"
    for f :: "(ExecutingLAId \<times> LocalActivityInfo) \<Rightarrow> _" and xs s
    using that by (induction xs arbitrary: s) auto
  show ?thesis
    by (cases req) (auto simp: Let_def fold case_prod_beta split: option.splits)
qed

lemma map_of_filter_value:
  "distinct (map fst al) \<Longrightarrow>
   map_of (filter (\<lambda>(k, v). P v) al) k = Some v \<longleftrightarrow> map_of al k = Some v \<and> P v"
  by (induction al) (auto simp: map_of_eq_None_iff intro!: rev_image_eqI split: if_splits)

lemma lam_inv_enqueue_one:
  assumes "lam_inv s" "\<not> lmg_shutdown_complete_tok s"
  shows "lam_inv (snd (enqueue_one clk s req))"
proof (cases req)
  case (LAR_New act)
  then show ?thesis by (simp add: lam_inv_enqueue_new [OF assms])
next
  case (LAR_Cancel i)
  then show ?thesis
    using assms(1) lam_inv_cancel_and_update [OF assms(1)]
    by (simp add: Let_def case_prod_beta split: option.split)
next
  case (LAR_CancelAllInRun run_id)
  have "lam_inv (fold (\<lambda>(i, lai) s. if ela_run_id i = run_id then snd (cancel_and_update i lai s) else s)
      (lmg_la_info s) s)"
    using assms(1) by (intro lam_inv_cancel_fold) (auto simp: lam_inv_defs)
  with LAR_CancelAllInRun show ?thesis by (simp add: Let_def)
next
  case (LAR_InvalidateRun run_id)
  let ?s = "s\<lparr>lmg_outstanding := filter (\<lambda>(_, info).
    we_run_id (nla_workflow_exec_info (ifl_la_info info)) \<noteq> run_id) (lmg_outstanding s)\<rparr>"
  have d: "distinct (map fst (lmg_outstanding s))" using assms(1) by (simp add: lam_inv_def tracked_def)
  have "lam_inv ?s"
    by (rule lam_inv_shrink_outstanding [OF assms(1)])
      (use d in \<open>simp_all add: map_of_filter_value distinct_map_filter del: map_of_eq_Some_iff\<close>)
  from lam_inv_invalidate_fold [OF this, of run_id "lmg_la_info s"] LAR_InvalidateRun show ?thesis
    using d by (simp add: Let_def map_of_filter_value del: map_of_eq_Some_iff)
next
  case (LAR_StartHeartbeatTimeout run_id deadline h)
  then show ?thesis using assms(1) by simp
next
  case (LAR_IndicateWorkflowTaskCompleted run_id)
  then show ?thesis
    using lam_inv_map_la_info [OF assms(1), of "\<lambda>i lai. if ela_run_id i = run_id
      then lai\<lparr>lai_first_wft_has_ended := True, lai_attempts_in_wft := 0\<rparr> else lai"] by simp
qed

lemma lam_inv_enqueue:
  assumes "lam_inv s"
  shows "lam_inv (snd (enqueue clk s reqs))"
proof (cases "lmg_workflows_have_shut_down s")
  case False
  have "lam_inv (snd (enqueue_all clk s reqs))" using assms False
  proof (induction reqs arbitrary: s)
    case (Cons req reqs)
    from Cons.prems have "\<not> lmg_shutdown_complete_tok s"
      by (simp add: lam_inv_def enqueue_one_open)
    from Cons.IH [OF lam_inv_enqueue_one [OF Cons.prems(1) this]] Cons.prems(2)
    show ?case by (simp add: Let_def case_prod_beta enqueue_one_shut_down)
  qed simp
  with False show ?thesis by (simp add: enqueue_def)
qed (simp add: enqueue_def assms)

subsection \<open>Completions and polls\<close>

text \<open>
  A completion takes the attempt and its entry out; a retry puts a new entry in, which is backing
  off.
\<close>

definition without :: "LocalActivityManager \<Rightarrow> TaskToken \<Rightarrow> LocalActivityManager" where
  "without s tt =
     (let s = s\<lparr>lmg_outstanding := AList.delete tt (lmg_outstanding s)\<rparr>
      in if lmg_workflows_have_shut_down s then snd (set_shutdown_complete_if_ready s) else s)"

definition taken_out ::
    "LocalActivityManager \<Rightarrow> TaskToken \<Rightarrow> LocalInFlightActInfo \<Rightarrow> LocalActivityManager" where
  "taken_out s tt info =
     (without s tt)\<lparr>lmg_la_info := AList.delete (la_id (ifl_la_info info)) (lmg_la_info (without s tt))\<rparr>"

lemma la_complete_view:
  assumes "la_complete x clk s tt status = Ok (action, s')" "map_of (lmg_outstanding s) tt = Some info"
  obtains (reported) "same_view (taken_out s tt info) s'"
  | (retried) lai where
      "same_view ((taken_out s tt info)\<lparr>lmg_la_info := AList.update (la_id (ifl_la_info info)) lai
         (lmg_la_info (taken_out s tt info))\<rparr>) s'"
      "\<not> lai_queued_for_dispatch lai"
proof -
  define s3 where "s3 = taken_out s tt info"
  let ?old = "map_of (lmg_la_info (without s tt)) (la_id (ifl_la_info info))"
  let ?s4 = "case Option.bind ?old lai_backing_off_task of Some h \<Rightarrow> abort (JoinHandle h) s3 | None \<Rightarrow> s3"
  have v4: "same_view s3 ?s4" by (simp add: same_view_def abort_def split: option.split)
  have v5: "same_view s3 (drop_timeout_bag b ?s4)" for b
    by (rule same_view_trans [OF v4 same_view_tasks(2)])
  have v6: "same_view s3 (notify_one (drop_timeout_bag b ?s4))" for b
    by (rule same_view_trans [OF v5 same_view_tasks(3)])
  note c = assms(1) [unfolded la_complete_def assms(2) option.case Let_def, folded without_def [unfolded Let_def],
    folded taken_out_def, folded s3_def]
  show thesis
  proof (cases "completion_outcome x info status")
    case JustReport
    with c have "same_view s3 s'" using v6 by auto
    then show thesis unfolding s3_def by (rule reported)
  next
    case (FailurePath b)
    show thesis
    proof (cases b)
      case None
      with FailurePath c have "same_view s3 s'" using v5 by auto
      then show thesis unfolding s3_def by (rule reported)
    next
      case (Some d)
      show thesis
      proof (cases "d > vla_local_retry_threshold (nla_schedule_cmd (ifl_la_info info))")
        case True
        with Some FailurePath c have "same_view s3 s'" using v5
          by (auto split: option.splits)
        then show thesis unfolding s3_def by (rule reported)
      next
        case False
        with Some FailurePath c v4 show thesis
          by (intro retried) (auto simp: s3_def same_view_def gen_next_token_def spawn_def Let_def)
      qed
    qed
  qed
qed

lemma lam_inv_complete:
  assumes "lam_inv s" "la_complete x clk s tt status = Ok (action, s')"
  shows "lam_inv s'"
proof (cases "map_of (lmg_outstanding s) tt")
  case None
  with assms show ?thesis by (simp add: la_complete_def)
next
  case (Some info)
  let ?i = "la_id (ifl_la_info info)"
  define s1 where "s1 = s\<lparr>lmg_outstanding := AList.delete tt (lmg_outstanding s)\<rparr>"
  define s2 where "s2 = without s tt"
  define s3 where "s3 = taken_out s tt info"
  have "distinct (map fst (lmg_outstanding s))" using assms(1) by (simp add: lam_inv_def tracked_def)
  then have "lam_inv s1" unfolding s1_def
    by (intro lam_inv_shrink_outstanding [OF assms(1)])
      (auto simp: delete_conv' distinct_delete simp del: map_of_eq_Some_iff split: if_splits)
  then have inv2: "lam_inv s2" by (simp add: s2_def without_def s1_def Let_def)
  have out2: "lmg_outstanding s2 = AList.delete tt (lmg_outstanding s)"
    by (simp add: s2_def without_def Let_def set_shutdown_complete_if_ready_def)
  have gone: "la_id (ifl_la_info info') \<noteq> ?i" if "map_of (lmg_outstanding s2) tt' = Some info'" for tt' info'
  proof -
    from that have "tt' \<noteq> tt" "map_of (lmg_outstanding s) tt' = Some info'"
      by (auto simp: out2 delete_conv' split: if_splits)
    with lam_inv_tracked [OF assms(1) Some] lam_inv_tracked [OF assms(1), of tt' info'] show ?thesis by auto
  qed
  have inv3: "lam_inv s3" unfolding s3_def taken_out_def s2_def [symmetric] by (rule lam_inv_delete_la_info [OF inv2 gone])
  from assms(2) Some show ?thesis
  proof (cases rule: la_complete_view)
    case reported
    with inv3 show ?thesis by (simp add: s3_def lam_inv_view)
  next
    case (retried lai)
    have "lam_inv (s3\<lparr>lmg_la_info := AList.update ?i lai (lmg_la_info s3)\<rparr>)"
      by (rule lam_inv_update_la_info [OF inv3]) (use gone retried(2) in \<open>auto simp: s3_def taken_out_def s2_def\<close>)
    with retried(1) show ?thesis by (simp add: s3_def lam_inv_view)
  qed
qed

lemma lam_inv_skip:
  assumes "lam_inv s" "lmg_cancels_req s = CoT_Cancel task # cs"
    and "map_of (lmg_outstanding s) (atk_task_token task) = None"
  shows "lam_inv (s\<lparr>lmg_cancels_req := cs\<rparr>)"
proof -
  have "queued_for cs tt"
    if "map_of (lmg_outstanding s) tt = Some info" "ifl_cancel info = Queued" for tt info
  proof -
    have "queued_for (lmg_cancels_req s) tt" using assms(1) that unfolding lam_inv_def cancels_queued_def by blast
    moreover have "atk_task_token task \<noteq> tt" using assms(3) that(1) by auto
    ultimately show ?thesis using assms(2) by (simp add: queued_for_def)
  qed
  with assms(1) show ?thesis by (simp add: lam_inv_defs)
qed

lemma lam_inv_deliver:
  assumes "lam_inv s" "lmg_cancels_req s = CoT_Cancel task # cs"
    and "map_of (lmg_outstanding s) (atk_task_token task) = Some info"
  shows "lam_inv (s\<lparr>lmg_cancels_req := cs, lmg_outstanding :=
    AList.update (atk_task_token task) (info\<lparr>ifl_cancel := Delivered\<rparr>) (lmg_outstanding s)\<rparr>)" (is "lam_inv ?s")
proof -
  let ?out = "map_of (lmg_outstanding s)"
  have *: "tracks ?s tt i = tracks s tt i" "tracks s tt (i\<lparr>ifl_cancel := c\<rparr>) = tracks s tt i" for tt i c
    by (simp_all add: tracks_def)
  have "cancels_queued ?s"
    using assms(1,2) by (auto simp: lam_inv_def cancels_queued_def update_conv' queued_for_def
        simp del: map_of_eq_Some_iff split: if_splits)
  moreover have "tracked ?s"
    using assms(1,3) unfolding tracked_def *
    by (auto simp: lam_inv_def tracked_def distinct_update update_conv' * simp del: map_of_eq_Some_iff split: if_splits)
  moreover have "nothing_dropped ?s" using lam_inv_open [OF assms(1,3)] by (simp add: nothing_dropped_def)
  ultimately show ?thesis by (simp add: lam_inv_def)
qed

lemma lam_inv_poll_cancel:
  assumes "lam_inv s" "poll_cancel x clk s = Ok (action, s')"
  shows "lam_inv s'"
proof (cases "lmg_cancels_req s")
  case (Cons c cs)
  show ?thesis
  proof (cases "lmg_shutdown_complete_tok s")
    case False
    show ?thesis
    proof (cases c)
      case (CoT_Timeout run_id resolution)
      with assms(1) Cons have "lam_inv (s\<lparr>lmg_cancels_req := cs\<rparr>)"
        by (simp add: lam_inv_defs queued_for_def)
      then show ?thesis
        using assms(2) Cons False CoT_Timeout
        by (auto simp: poll_cancel_def next_cancel_def res_map_eq_Ok split: option.splits
            intro: lam_inv_complete)
    next
      case (CoT_Cancel task)
      note front = Cons [unfolded CoT_Cancel]
      show ?thesis
      proof (cases "map_of (lmg_outstanding s) (atk_task_token task)")
        case None
        then show ?thesis
          using assms(2) lam_inv_skip [OF assms(1) front] front False
          by (simp add: poll_cancel_def next_cancel_def)
      next
        case (Some info)
        then show ?thesis
          using assms(2) lam_inv_deliver [OF assms(1) front Some] front False
          by (auto simp: poll_cancel_def next_cancel_def)
      qed
    qed
  qed (use assms Cons in \<open>simp add: poll_cancel_def\<close>)
qed (use assms in \<open>simp add: poll_cancel_def\<close>)

text \<open>What a request at the front of the queue leads to.\<close>

definition dispatched_entry :: "LocalActivityInfo \<Rightarrow> LocalActivityInfo" where
  "dispatched_entry lai = lai\<lparr>lai_queued_for_dispatch := False, lai_backing_off_task := None\<rparr>"

lemma mark_started_view:
  assumes "mark_started clk s bag = (bag', s')"
  shows "same_view s s'" and "lmg_act_req s' = lmg_act_req s" and "lmg_namespace s' = lmg_namespace s"
    and "t \<in> set (lmg_tasks s') \<Longrightarrow> t \<in> set (lmg_tasks s) \<or> (\<exists>dat began. spt_body t = Send_StartToClose dat began)"
  using assms by (auto simp: mark_started_def Let_def same_view_def spawn_def split: option.splits)

lemma next_request_cases:
  assumes "next_request x clk s r = Ok (action, s')" "request_and_attempt r = (new_la, attempt)"
  defines "i \<equiv> la_id new_la"
  obtains (untracked) "s' = s" "action = None"
  | (expired) lai report where "map_of (lmg_la_info s) i = Some lai"
      "s' = shutdown_check_and_notify (s\<lparr>lmg_la_info := AList.update i (dispatched_entry lai) (lmg_la_info s)\<rparr>)"
      "action = Some (NPA_Autocomplete report)"
  | (started) lai bag s1 info task where "map_of (lmg_la_info s) i = Some lai"
      "same_view (s\<lparr>lmg_la_info := AList.update i (dispatched_entry lai) (lmg_la_info s)\<rparr>) s1"
      "lmg_act_req s1 = lmg_act_req s" "lmg_namespace s1 = lmg_namespace s"
      "\<forall>t \<in> set (lmg_tasks s1). t \<in> set (lmg_tasks s) \<or> (\<exists>dat began. spt_body t = Send_StartToClose dat began)"
      "ifl_la_info info = new_la" "ifl_cancel info = NotRequested" "ifl_attempt info = attempt"
      "s' = s1\<lparr>lmg_la_info := AList.update i ((dispatched_entry lai)\<lparr>lai_timeout_bag := bag\<rparr>) (lmg_la_info s1),
               lmg_outstanding := AList.update (lai_task_token lai) info (lmg_outstanding s1)\<rparr>"
      "action = Some (NPA_Dispatch task)"
      "start_task x clk (lmg_namespace s) (lai_task_token lai) new_la attempt = Ok task"
proof (cases "map_of (lmg_la_info s) i")
  case None
  with assms have "s' = s" "action = None" by (simp_all add: next_request_def)
  then show thesis by (rule untracked)
next
  case (Some lai)
  let ?s = "s\<lparr>lmg_la_info := AList.update i (dispatched_entry lai) (lmg_la_info s)\<rparr>"
  note step = assms(1) [unfolded next_request_def assms(2) Let_def prod.case i_def [symmetric] Some option.case
    dispatched_entry_def [symmetric]]
  show thesis
  proof (cases "case vla_schedule_to_start_timeout (nla_schedule_cmd new_la) of
      Some s2s \<Rightarrow> elapsed_or_default clk (nla_schedule_time new_la) > s2s | None \<Rightarrow> False")
    case True
    from step [unfolded if_P [OF True]] show thesis by (intro expired [OF Some]) auto
  next
    case False
    note step = step [unfolded if_not_P [OF False]]
    let ?info = "\<lparr>ifl_la_info = new_la, ifl_dispatch_time = clk_instant clk,
      ifl_attempt = attempt, ifl_cancel = NotRequested\<rparr>"
    show thesis
    proof (cases "lai_timeout_bag lai")
      case None
      with step obtain task where "start_task x clk (lmg_namespace s) (lai_task_token lai) new_la attempt = Ok task"
        "action = Some (NPA_Dispatch task)"
        "s' = ?s\<lparr>lmg_la_info := AList.update i ((dispatched_entry lai)\<lparr>lai_timeout_bag := None\<rparr>) (lmg_la_info ?s),
          lmg_outstanding := AList.update (lai_task_token lai) ?info (lmg_outstanding ?s)\<rparr>"
        by (auto simp: res_map_eq_Ok dispatched_entry_def)
      then show thesis by (intro started [OF Some, of ?s ?info]) (simp_all add: same_view_def)
    next
      case bag: (Some to)
      obtain bag' s1 where m: "mark_started clk ?s to = (bag', s1)" by (cases "mark_started clk ?s to")
      note view = mark_started_view [OF m]
      from step bag m view(3) obtain task where
        "start_task x clk (lmg_namespace s) (lai_task_token lai) new_la attempt = Ok task"
        "action = Some (NPA_Dispatch task)"
        "s' = s1\<lparr>lmg_la_info := AList.update i ((dispatched_entry lai)\<lparr>lai_timeout_bag := Some bag'\<rparr>) (lmg_la_info s1),
          lmg_outstanding := AList.update (lai_task_token lai) ?info (lmg_outstanding s1)\<rparr>"
        by (auto simp: res_map_eq_Ok dispatched_entry_def)
      then show thesis using view(2-4) by (intro started [OF Some view(1), of ?info]) auto
    qed
  qed
qed

lemma lam_inv_next_request:
  assumes "lam_inv s" "\<not> lmg_shutdown_complete_tok s" "next_request x clk s r = Ok (action, s')"
  shows "lam_inv s'"
proof -
  obtain new_la attempt where r: "request_and_attempt r = (new_la, attempt)" by force
  let ?i = "la_id new_la"
  have updated: "lam_inv (s1\<lparr>lmg_la_info := AList.update ?i lai' (lmg_la_info s1)\<rparr>)"
    if "lam_inv s1" "lmg_outstanding s1 = lmg_outstanding s" "map_of (lmg_la_info s) ?i = Some lai"
      "lai_task_token lai' = lai_task_token lai" "lai_backing_off_task lai' = None"
      "\<not> lai_queued_for_dispatch lai'" for s1 lai lai'
    using that(1)
  proof (rule lam_inv_update_la_info)
    fix tt info
    assume "map_of (lmg_outstanding s1) tt = Some info" "la_id (ifl_la_info info) = ?i"
    with that lam_inv_tracked [OF assms(1), of tt info]
    show "lai_task_token lai' = tt \<and> lai_backing_off_task lai' = None" by auto
  qed (rule that(6))
  from assms(3) r show ?thesis
  proof (cases rule: next_request_cases)
    case untracked
    with assms(1) show ?thesis by simp
  next
    case (expired lai report)
    with updated [OF assms(1) refl expired(1), of "dispatched_entry lai"] show ?thesis
      by (simp add: dispatched_entry_def)
  next
    case (started lai bag s1 info task)
    let ?s = "s1\<lparr>lmg_la_info := AList.update ?i ((dispatched_entry lai)\<lparr>lai_timeout_bag := bag\<rparr>) (lmg_la_info s1)\<rparr>"
    have "lam_inv s1"
      using updated [OF assms(1) refl started(1), of "dispatched_entry lai"] lam_inv_view [OF started(2)]
      by (simp add: dispatched_entry_def)
    then have "lam_inv ?s"
      by (rule updated [OF _ _ started(1)]) (use started(2) in \<open>simp_all add: same_view_def dispatched_entry_def\<close>)
    then have "lam_inv (?s\<lparr>lmg_outstanding := AList.update (lai_task_token lai) info (lmg_outstanding ?s)\<rparr>)"
      by (rule lam_inv_update_outstanding)
        (use started(2,6,7) assms(2) in \<open>simp_all add: same_view_def tracks_def update_conv' dispatched_entry_def\<close>)
    with started(9) show ?thesis by simp
  qed
qed

lemma lam_inv_wake: "lam_inv s \<Longrightarrow> lam_inv (wake_task clk h s)"
  using lam_inv_send [of "abort h s"]
  by (auto simp: wake_task_def run_body_def Let_def split: option.split TaskBody.split)

lemma lam_inv_op:
  assumes "lam_inv s" "lam_op x clk s op = Ok s'"
  shows "lam_inv s'"
proof (cases op)
  case (LAM_Enqueue reqs)
  with assms show ?thesis by (auto intro: lam_inv_enqueue)
next
  case LAM_PollCancel
  with assms show ?thesis by (auto simp: res_map_eq_Ok intro: lam_inv_poll_cancel)
next
  case LAM_PollRequest
  with assms show ?thesis
    by (auto simp: res_map_eq_Ok poll_request_def split: list.splits if_splits intro: lam_inv_next_request [rotated 2])
next
  case (LAM_Complete tt status)
  with assms show ?thesis by (auto simp: res_map_eq_Ok intro: lam_inv_complete)
next
  case LAM_WorkflowsShutdown
  moreover have "lam_inv (s\<lparr>lmg_workflows_have_shut_down := True\<rparr>)" using assms(1) by (simp add: lam_inv_defs)
  ultimately show ?thesis using assms by (auto simp: workflows_have_shutdown_def)
next
  case LAM_Wait
  have "lam_inv (snd (set_shutdown_complete_if_ready s))" using assms(1) by simp
  with LAM_Wait assms show ?thesis by (auto simp: wait_outstanding_round_def case_prod_beta Let_def)
qed (use assms in \<open>auto simp: lam_inv_wake shutdown_initiated_def\<close>)

text \<open>Unless shutdown is complete a poll takes one item from the queue of cancellations.\<close>

lemma la_complete_cancels:
  assumes "\<forall>d. x_from_std_duration x d \<noteq> None"
  shows "\<exists>action s'. la_complete x clk s tt status = Ok (action, s') \<and> lmg_cancels_req s' = lmg_cancels_req s"
proof (cases "map_of (lmg_outstanding s) tt")
  case None
  then show ?thesis by (simp add: la_complete_def)
next
  case (Some info)
  have converts: "x_from_std_duration x d = None \<longleftrightarrow> False" for d using assms by blast
  have "la_complete x clk s tt status \<noteq> Panic"
    by (auto simp: converts la_complete_def Let_def case_prod_beta split: option.split CompletionOutcome.split)
  moreover have "la_complete x clk s tt status \<noteq> Err e" for e
    by (auto simp: la_complete_def Let_def case_prod_beta split: option.split CompletionOutcome.split)
  ultimately obtain action s' where c: "la_complete x clk s tt status = Ok (action, s')"
    by (cases "la_complete x clk s tt status") auto
  have "lmg_cancels_req (taken_out s tt info) = lmg_cancels_req s"
    by (simp add: taken_out_def without_def Let_def set_shutdown_complete_if_ready_def)
  with c show ?thesis
    by (cases rule: la_complete_view [OF c Some]) (auto simp: same_view_def)
qed

lemma poll_cancel_returns:
  assumes "\<not> lmg_shutdown_complete_tok s" "\<forall>d. x_from_std_duration x d \<noteq> None"
    and "length (lmg_cancels_req s) = Suc n"
  shows "\<exists>action s'. poll_cancel x clk s = Ok (action, s') \<and> length (lmg_cancels_req s') = n"
proof -
  from assms(3) obtain c cs where cs: "lmg_cancels_req s = c # cs" "length cs = n" by (cases "lmg_cancels_req s") auto
  show ?thesis
  proof (cases c)
    case (CoT_Cancel task)
    with cs assms(1) show ?thesis by (simp add: poll_cancel_def next_cancel_def split: option.split)
  next
    case (CoT_Timeout run_id resolution)
    let ?s = "s\<lparr>lmg_cancels_req := cs\<rparr>"
    show ?thesis
    proof (cases "map_of (lmg_la_info s) \<lparr>ela_run_id = run_id, ela_seq_num = lar_seq resolution\<rparr>")
      case None
      with CoT_Timeout cs assms(1) show ?thesis by (simp add: poll_cancel_def next_cancel_def)
    next
      case (Some lai)
      from la_complete_cancels [OF assms(2), of clk ?s "lai_task_token lai" "lar_result resolution"]
      obtain action s' where "la_complete x clk ?s (lai_task_token lai) (lar_result resolution) = Ok (action, s')"
        "lmg_cancels_req s' = cs" by auto
      with CoT_Timeout cs Some assms(1) show ?thesis by (simp add: poll_cancel_def next_cancel_def)
    qed
  qed
qed

interpretation agree: lam_invariant x lam_inv "\<lambda>_. True" for x
proof unfold_locales
  show "lam_inv (lmg_new ns)" for ns by (simp add: lmg_new_def lam_inv_defs)
qed (rule lam_inv_op)

text \<open>After enough polls no cancellation is left to deliver.\<close>

lemma polls_deliver:
  assumes "lam_inv s" "\<forall>d. x_from_std_duration x d \<noteq> None"
  shows "\<exists>s'. lam_run x s (replicate (length (lmg_cancels_req s)) (clk, LAM_PollCancel)) = Ok s' \<and>
    \<not> has_undelivered_cancels s' rid"
  using assms(1)
proof (induction "length (lmg_cancels_req s)" arbitrary: s)
  case 0
  then show ?case
    by (auto simp: lam_inv_def tracked_def cancels_queued_def queued_for_def has_undelivered_cancels_def
        has_undelivered_cancel_def list_ex_iff)
next
  case (Suc n)
  show ?case
  proof (cases "lmg_shutdown_complete_tok s")
    case True
    with Suc.prems have "lmg_outstanding s = []" by (auto simp: lam_inv_defs)
    moreover have "lam_run x s (replicate m (clk, LAM_PollCancel)) = Ok s" for m
      using True by (induction m) (auto simp: poll_cancel_def split: list.split)
    ultimately show ?thesis by (auto simp: has_undelivered_cancels_def)
  next
    case False
    obtain action s1 where s1: "poll_cancel x clk s = Ok (action, s1)" "length (lmg_cancels_req s1) = n"
      using poll_cancel_returns [OF False assms(2)] Suc.hyps(2) by metis
    from Suc.hyps(1) [OF s1(2) [symmetric] lam_inv_poll_cancel [OF Suc.prems s1(1)]] s1 Suc.hyps(2) [symmetric]
    show ?thesis by simp
  qed
qed

section \<open>A retry policy bounds the attempts\<close>

definition in_policy :: "NewLocalAct \<Rightarrow> u32 \<Rightarrow> bool" where
  "in_policy act attempt \<longleftrightarrow>
     (let most = vrp_maximum_attempts (vla_retry_policy (nla_schedule_cmd act)) in most = 0 \<or> attempt \<le> most)"

definition task_within :: "SpawnedTask \<Rightarrow> bool" where
  "task_within t \<longleftrightarrow> (case spt_body t of Send_Retry act attempt \<Rightarrow> in_policy act attempt | _ \<Rightarrow> True)"

definition attempts_within :: "LocalActivityManager \<Rightarrow> bool" where
  "attempts_within s \<longleftrightarrow>
     list_all (\<lambda>r. case request_and_attempt r of (act, attempt) \<Rightarrow> in_policy act attempt) (lmg_act_req s) \<and>
     list_all task_within (lmg_tasks s) \<and>
     list_all (\<lambda>(_, info). in_policy (ifl_la_info info) (ifl_attempt info)) (lmg_outstanding s)"

fun req_within :: "LocalActRequest \<Rightarrow> bool" where
  "req_within (LAR_New act) = in_policy act (max (vla_attempt (nla_schedule_cmd act)) 1)"
| "req_within _ = True"

fun starts_within :: "LAMOp \<Rightarrow> bool" where
  "starts_within (LAM_Enqueue reqs) = list_all req_within reqs"
| "starts_within _ = True"

lemma attempts_within_fields [simp]:
  "attempts_within (s\<lparr>lmg_la_info := i\<rparr>) = attempts_within s"
  "attempts_within (s\<lparr>lmg_cancels_req := c\<rparr>) = attempts_within s"
  "attempts_within (s\<lparr>lmg_workflow_notify := n\<rparr>) = attempts_within s"
  "attempts_within (notify_one s) = attempts_within s"
  "attempts_within (snd (set_shutdown_complete_if_ready s)) = attempts_within s"
  "attempts_within (shutdown_check_and_notify s) = attempts_within s"
  by (simp_all add: attempts_within_def notify_one_def set_shutdown_complete_if_ready_def
      shutdown_check_and_notify_def)

lemma attempts_within_tasks [simp, intro]:
  "attempts_within s \<Longrightarrow> attempts_within (abort h s)"
  "attempts_within s \<Longrightarrow> attempts_within (drop_timeout_bag b s)"
  "attempts_within s \<Longrightarrow> attempts_within (remove_la_info i lai s)"
  by (auto simp: attempts_within_def abort_def drop_timeout_bag_def remove_la_info_def Let_def list_all_iff
      split: option.split)

text \<open>A failed attempt is retried only when the policy allows one more.\<close>

lemma retry_within:
  assumes "completion_outcome x info status = FailurePath (Some d)"
    and "in_policy (ifl_la_info info) (ifl_attempt info)"
  shows "in_policy (ifl_la_info info) (ifl_attempt info + 1)"
proof -
  let ?most = "vrp_maximum_attempts (vla_retry_policy (nla_schedule_cmd (ifl_la_info info)))"
  let ?n = "if ifl_attempt info = 0 then 1 else ifl_attempt info"
  have "?most = 0 \<or> ?n < ?most"
    using assms(1) by (auto simp: completion_outcome_def should_retry_def Let_def word_gt_0
        split: LocalActivityExecutionResult.splits if_splits)
  then show ?thesis
    by (auto simp: in_policy_def Let_def word_less_nat_alt word_le_nat_alt unat_word_ariths split: if_splits)
qed

lemma attempts_within_enqueue_new:
  assumes "attempts_within s" "req_within (LAR_New act)"
  shows "attempts_within (snd (enqueue_new clk s act))"
proof -
  obtain tt s1 where t: "gen_next_token s = (tt, s1)" by (cases "gen_next_token s")
  then have s1: "attempts_within s1" using assms(1) by (auto simp: gen_next_token_def attempts_within_def Let_def)
  have "attempts_within s2" if "timeout_bag_new clk s1 act = Inr (bag, s2)" for bag s2
    using that s1 by (auto simp: timeout_bag_new_def Let_def attempts_within_def spawn_def task_within_def
        split: if_splits prod.splits option.splits)
  then have "attempts_within (s2\<lparr>lmg_la_info := i, lmg_act_req := lmg_act_req s2 @ [NoR_New act]\<rparr>)"
    if "timeout_bag_new clk s1 act = Inr (bag, s2)" for bag s2 i
    using that assms(2) by (simp add: attempts_within_def)
  with s1 show ?thesis by (simp add: enqueue_new_def t Let_def split: option.split sum.split)
qed

lemma attempts_within_cancel: "attempts_within s \<Longrightarrow> attempts_within (snd (cancel_and_update i lai s))"
proof -
  assume s: "attempts_within s"
  have "attempts_within (s\<lparr>lmg_cancels_req := c, lmg_outstanding := AList.update tt (info\<lparr>ifl_cancel := q\<rparr>) (lmg_outstanding s)\<rparr>)"
    if "map_of (lmg_outstanding s) tt = Some info" for c tt info q
  proof -
    have "in_policy (ifl_la_info info) (ifl_attempt info)"
      using s map_of_SomeD [OF that] by (auto simp: attempts_within_def list_all_iff)
    with s show ?thesis by (simp add: attempts_within_def list_all_update)
  qed
  with s show ?thesis
    by (auto simp: cancel_and_update_def cancel_one_la_def split: option.split)
qed

lemma attempts_within_fold:
  "attempts_within s \<Longrightarrow> (\<And>p s. attempts_within s \<Longrightarrow> attempts_within (f p s)) \<Longrightarrow> attempts_within (fold f xs s)"
  by (induction xs arbitrary: s) auto

lemma attempts_within_enqueue_one:
  assumes "attempts_within s" "req_within req"
  shows "attempts_within (snd (enqueue_one clk s req))"
proof (cases req)
  case (LAR_New act)
  with attempts_within_enqueue_new [OF assms(1)] assms(2) show ?thesis by simp
next
  case (LAR_InvalidateRun run_id)
  let ?s = "s\<lparr>lmg_outstanding := filter (\<lambda>(_, info).
    we_run_id (nla_workflow_exec_info (ifl_la_info info)) \<noteq> run_id) (lmg_outstanding s)\<rparr>"
  have "attempts_within ?s" using assms(1) by (auto simp: attempts_within_def list_all_iff)
  then show ?thesis
    using LAR_InvalidateRun by (auto simp: Let_def intro!: attempts_within_fold split: option.split)
next
  case (LAR_StartHeartbeatTimeout run_id deadline h)
  with assms(1) show ?thesis by (simp add: attempts_within_def task_within_def)
qed (use assms(1) in \<open>auto simp: Let_def case_prod_beta attempts_within_cancel intro!: attempts_within_fold split: option.split\<close>)

lemma attempts_within_enqueue:
  assumes "attempts_within s" "list_all req_within reqs"
  shows "attempts_within (snd (enqueue clk s reqs))"
proof -
  have "attempts_within (snd (enqueue_all clk s reqs))"
    using assms by (induction reqs arbitrary: s) (auto simp: Let_def case_prod_beta attempts_within_enqueue_one)
  with assms(1) show ?thesis by (simp add: enqueue_def)
qed

lemma attempts_within_complete:
  assumes "attempts_within s" "la_complete x clk s tt status = Ok (action, s')"
  shows "attempts_within s'"
proof (cases "map_of (lmg_outstanding s) tt")
  case None
  with assms show ?thesis by (simp add: la_complete_def)
next
  case (Some info)
  have "attempts_within (without s tt)"
    using assms(1) by (auto simp: without_def attempts_within_def Let_def list_all_delete set_shutdown_complete_if_ready_def)
  then have s3: "attempts_within (taken_out s tt info)" by (simp add: taken_out_def)
  have info: "in_policy (ifl_la_info info) (ifl_attempt info)"
    using assms(1) map_of_SomeD [OF Some] by (auto simp: attempts_within_def list_all_iff)
  note c = assms(2) [unfolded la_complete_def Some option.case Let_def, folded without_def [unfolded Let_def],
    folded taken_out_def]
  let ?old = "map_of (lmg_la_info (without s tt)) (la_id (ifl_la_info info))"
  let ?s4 = "case Option.bind ?old lai_backing_off_task of Some h \<Rightarrow> abort (JoinHandle h) (taken_out s tt info)
    | None \<Rightarrow> taken_out s tt info"
  have s4: "attempts_within ?s4" using s3 by (simp split: option.split)
  have retried: "attempts_within (snd (spawn (snd (gen_next_token ?s4)) w
      (Send_Retry (ifl_la_info info) (ifl_attempt info + 1))))"
    if "completion_outcome x info status = FailurePath (Some d)" for d w
    using s4 retry_within [OF that info]
    by (simp add: attempts_within_def gen_next_token_def spawn_def Let_def task_within_def)
  show ?thesis
  proof (cases "completion_outcome x info status")
    case JustReport
    with c s4 show ?thesis by auto
  next
    case (FailurePath b)
    show ?thesis
    proof (cases b)
      case None
      with FailurePath c s4 show ?thesis by auto
    next
      case (Some d)
      with FailurePath c s4 retried show ?thesis
        by (auto simp: case_prod_beta split: option.splits [where option = "x_from_std_duration x d"] if_splits)
    qed
  qed
qed

lemma attempts_within_next_request:
  assumes "attempts_within s" "in_policy new_la attempt" "request_and_attempt r = (new_la, attempt)"
    and "next_request x clk s r = Ok (action, s')"
  shows "attempts_within s'"
  using assms(4,3)
proof (cases rule: next_request_cases)
  case (started lai bag s1 info task)
  have "attempts_within s1"
    using assms(1) started(2,3,5)
    by (auto simp: attempts_within_def same_view_def list_all_iff task_within_def split: TaskBody.splits)
  then have "attempts_within (s1\<lparr>lmg_outstanding := AList.update (lai_task_token lai) info (lmg_outstanding s1)\<rparr>)"
    using started(6,8) assms(2) by (simp add: attempts_within_def list_all_update)
  with started(9) show ?thesis by (simp add: attempts_within_def)
qed (use assms(1) in simp_all)

lemma attempts_within_wake:
  assumes "attempts_within s"
  shows "attempts_within (wake_task clk h s)"
proof (cases "find (\<lambda>t. spt_handle t = h) (lmg_tasks s)")
  case (Some t)
  then have "t \<in> set (lmg_tasks s)" by (auto simp: find_Some_iff)
  with assms have "task_within t" by (simp add: attempts_within_def list_all_iff)
  moreover have "attempts_within (abort h s)" using assms by simp
  ultimately have "attempts_within (run_body clk (spt_body t) (abort h s))"
    by (simp add: run_body_def Let_def task_within_def split: TaskBody.splits) (simp add: attempts_within_def)
  with Some assms show ?thesis by (simp add: wake_task_def)
qed (use assms in \<open>simp add: wake_task_def\<close>)

lemma attempts_within_op:
  assumes "attempts_within s" "starts_within op" "lam_op x clk s op = Ok s'"
  shows "attempts_within s'"
proof (cases op)
  case (LAM_Enqueue reqs)
  with assms show ?thesis by (auto intro: attempts_within_enqueue)
next
  case LAM_PollCancel
  have deliver: "attempts_within (s\<lparr>lmg_cancels_req := cs, lmg_outstanding := AList.update tt (info\<lparr>ifl_cancel := q\<rparr>) (lmg_outstanding s),
      lmg_workflow_notify := ns\<rparr>)" if "map_of (lmg_outstanding s) tt = Some info" for cs tt info q ns
  proof -
    have "in_policy (ifl_la_info info) (ifl_attempt info)"
      using assms(1) map_of_SomeD [OF that] by (auto simp: attempts_within_def list_all_iff)
    with assms(1) show ?thesis by (simp add: attempts_within_def list_all_update)
  qed
  have complete: "attempts_within s'"
    if "la_complete x clk (s\<lparr>lmg_cancels_req := cs\<rparr>) tt st = Ok (action, s')" for cs tt st action
    using attempts_within_complete [OF _ that] assms(1) by simp
  show ?thesis
    using LAM_PollCancel assms deliver
    by (auto simp: res_map_eq_Ok poll_cancel_def next_cancel_def split: list.splits if_splits
        CancelOrTimeout.splits option.splits intro: complete)
next
  case LAM_PollRequest
  show ?thesis
  proof (cases "lmg_act_req s")
    case (Cons r rs)
    obtain new_la attempt where r: "request_and_attempt r = (new_la, attempt)" by force
    have "attempts_within (s\<lparr>lmg_act_req := rs\<rparr>)" "in_policy new_la attempt"
      using assms(1) Cons r by (auto simp: attempts_within_def)
    from attempts_within_next_request [OF this r] show ?thesis
      using LAM_PollRequest assms Cons by (auto simp: res_map_eq_Ok poll_request_def split: if_splits)
  qed (use LAM_PollRequest assms in \<open>simp add: poll_request_def\<close>)
next
  case (LAM_Complete tt status)
  with assms show ?thesis by (auto simp: res_map_eq_Ok intro: attempts_within_complete)
next
  case (LAM_Wake h)
  with assms(1,3) show ?thesis by (auto intro: attempts_within_wake)
next
  case LAM_WorkflowsShutdown
  with assms(1,3) show ?thesis
    by (auto simp: workflows_have_shutdown_def) (simp add: attempts_within_def)
next
  case LAM_Wait
  with assms(1,3) show ?thesis
    by (auto simp: wait_outstanding_round_def case_prod_beta Let_def attempts_within_def
        set_shutdown_complete_if_ready_def)
qed (use assms in \<open>auto simp: shutdown_initiated_def\<close>)

interpretation tries: lam_invariant x attempts_within starts_within for x
proof unfold_locales
  show "attempts_within (lmg_new ns)" for ns by (simp add: lmg_new_def attempts_within_def)
qed (rule attempts_within_op)

end
