(* ===== verification/LocalActivityProperties.thy ===== *)
theory LocalActivityProperties
  imports LocalActivityRuns
begin

text \<open>
  What the manager of local activities promises, from the invariants of its runs, and four runs in
  which it does not do what it means to.
\<close>

section \<open>Tokens\<close>

definition from_le_bytes :: "bytes \<Rightarrow> u32" where
  "from_le_bytes bs = word_of_nat (foldr (\<lambda>c n. of_char c + 256 * n) bs 0)"

lemma from_to_le_bytes [simp]: "from_le_bytes (to_le_bytes n) = n"
proof -
  let ?k = "unat n"
  have k: "?k < 256 ^ 4" using unsigned_less [of n, where 'a = nat] by simp
  have "foldr (\<lambda>c m. of_char c + 256 * m) (to_le_bytes n) 0 =
      ?k mod 256 + 256 * (?k div 256 mod 256 + 256 * (?k div 256 div 256 mod 256 + 256 * (?k div 256 div 256 div 256 mod 256)))"
    by (simp add: to_le_bytes_def upt_rec div_mult2_eq [symmetric])
  also have "\<dots> = ?k"
  proof -
    have "?k div 256 div 256 div 256 < 256" using k by (simp add: div_mult2_eq [symmetric] less_mult_imp_div_less)
    then have "?k div 256 div 256 div 256 mod 256 = ?k div 256 div 256 div 256" by simp
    then show ?thesis by (simp only: mod_mult_div_eq)
  qed
  finally show ?thesis by (simp add: from_le_bytes_def)
qed

lemma to_le_bytes_inject [simp]: "to_le_bytes a = to_le_bytes b \<longleftrightarrow> a = b"
  by (metis from_to_le_bytes)

lemma token_inject [simp]:
  "new_local_activity_token (to_le_bytes a) = new_local_activity_token (to_le_bytes b) \<longleftrightarrow> a = b"
  by (simp add: new_local_activity_token_def)

section \<open>Runs from a new manager\<close>

lemma lam_run_inv: "lam_run x (lmg_new ns) ops = Ok s \<Longrightarrow> lam_inv s"
  by (rule agree.run [of ops]) (simp_all add: list_all_iff)





text \<open>A cancellation of an attempt in flight stops its retries without replacing its result: whatever
  the attempt then ends with is reported as it is, with no backoff, and the activity is gone.
\<close>

theorem cancel_stops_retries:
  assumes "lam_run x (lmg_new ns) ops = Ok s" "\<not> lmg_workflows_have_shut_down s"
    and "map_of (lmg_outstanding s) tt = Some info"
  shows "\<exists>s1 run_id resolution task s2.
    enqueue clk s [LAR_Cancel (la_id (ifl_la_info info))] = ([], s1) \<and>
    la_complete x clk' s1 tt status = Ok (LAC_Report run_id resolution task, s2) \<and>
    lar_result resolution = status \<and> lar_backoff resolution = None \<and>
    map_of (lmg_la_info s2) (la_id (ifl_la_info info)) = None"
proof -
  note inv = lam_run_inv [OF assms(1)]
  from lam_inv_tracked [OF inv assms(3)] obtain lai where
    lai: "map_of (lmg_la_info s) (la_id (ifl_la_info info)) = Some lai" "lai_task_token lai = tt"
      "lai_backing_off_task lai = None" by blast
  define s1 where "s1 = snd (enqueue clk s [LAR_Cancel (la_id (ifl_la_info info))])"
  obtain info' where s1: "enqueue clk s [LAR_Cancel (la_id (ifl_la_info info))] = ([], s1)"
    and info': "map_of (lmg_outstanding s1) tt = Some info'" "ifl_cancel info' \<noteq> NotRequested"
      "ifl_la_info info' = ifl_la_info info"
    using assms(2,3) lai
    by (cases "ifl_cancel info = NotRequested")
      (auto simp: s1_def enqueue_def cancel_and_update_def cancel_one_la_def update_conv' Let_def)
  have "completion_outcome x info' status = JustReport"
    using info'(2) by (simp add: completion_outcome_def Let_def split: LocalActivityExecutionResult.split)
  then show ?thesis
    using s1 info'
    by (auto simp: la_complete_def Let_def notify_one_def)
      (auto simp: delete_conv' drop_timeout_bag_def abort_def Let_def split: option.split)
qed

section \<open>Sample runs\<close>

definition clock_at :: "int \<Rightarrow> Clocks" where
  "clock_at t = \<lparr>clk_system = t, clk_instant = t\<rparr>"

definition sample_act :: "LACloseTimeouts \<Rightarrow> StdDuration \<Rightarrow> u32 \<Rightarrow> NewLocalAct" where
  "sample_act timeouts interval attempts =
     \<lparr>nla_schedule_cmd = \<lparr>vla_seq = 1, vla_activity_id = ''1'', vla_activity_type = ''t'', vla_attempt = 1,
        vla_original_schedule_time = None, vla_headers = [], vla_arguments = [],
        vla_schedule_to_start_timeout = None, vla_close_timeouts = timeouts,
        vla_retry_policy = \<lparr>vrp_initial_interval = interval, vrp_backoff_coefficient = F64 2,
          vrp_maximum_interval = interval, vrp_maximum_attempts = attempts,
          vrp_non_retryable_error_types = []\<rparr>,
        vla_local_retry_threshold = 60, vla_cancellation_type = ACT_TryCancel,
        vla_include_arguments_in_marker = False, vla_user_metadata = None,
        vla_event_group_markers = []\<rparr>,
      nla_workflow_type = ''w'', nla_workflow_exec_info = \<lparr>we_workflow_id = ''w'', we_run_id = ''r''\<rparr>,
      nla_schedule_time = 0, nla_workflow_task = None\<rparr>"

definition token :: "u32 \<Rightarrow> TaskToken" where
  "token n = new_local_activity_token (to_le_bytes n)"

lemma token_eq [simp]: "token m = token n \<longleftrightarrow> m = n"
  by (simp add: token_def)

lemma two_not_le_one: "\<not> (2 :: u32) \<le> 1"
  by (simp add: word_le_nat_alt)

lemmas eval_lam = lmg_new_def clock_at_def sample_act_def enqueue_def enqueue_new_def gen_next_token_def
  token_def [symmetric] la_id_def timeout_bag_new_def elapsed_or_default_def spawn_def abort_def
  poll_request_def poll_cancel_def next_request_def next_cancel_def mark_started_def start_task_def
  RetryPolicy_from_def sample_externals_def la_complete_def completion_outcome_def should_retry_def
  wake_task_def run_body_def drop_timeout_bag_def cancel_from_ids_def primary_reason_to_cancellation_details_def
  set_shutdown_complete_if_ready_def nothing_pending_def notify_one_def shutdown_check_and_notify_def
  remove_la_info_def la_timeout_def get_timeout_type_def wait_outstanding_round_def
  workflows_have_shutdown_def cancel_and_update_def cancel_one_la_def cancelled_now_def
  has_undelivered_cancels_def has_undelivered_cancel_def Let_def

text \<open>An attempt with ten units from start to close fails, is retried, and then the first timer elapses.\<close>

definition retried_run :: "(Clocks \<times> LAMOp) list" where
  "retried_run =
     [(clock_at 0, LAM_Enqueue [LAR_New (sample_act (StartOnly 10) 1 2)]),
      (clock_at 0, LAM_PollRequest),
      (clock_at 1, LAM_Complete (token 1) (LA_Failed None)),
      (clock_at 2, LAM_Wake (JoinHandle 2)),
      (clock_at 2, LAM_PollRequest),
      (clock_at 10, LAM_Wake (JoinHandle 1))]"


text \<open>
  An activity with five units from its scheduling to its close fails and backs off for ten, so that the
  timer elapses while it does.
\<close>

definition backoff_run :: "(Clocks \<times> LAMOp) list" where
  "backoff_run =
     [(clock_at 0, LAM_Enqueue [LAR_New (sample_act (ScheduleOnly 5) 10 2)]),
      (clock_at 0, LAM_PollRequest),
      (clock_at 1, LAM_Complete (token 1) (LA_Failed None)),
      (clock_at 5, LAM_Wake (JoinHandle 0)),
      (clock_at 5, LAM_PollCancel),
      (clock_at 11, LAM_Wake (JoinHandle 1))]"


text \<open>A run is evicted before its activity was handed out, and asks for it again when it is replayed.\<close>

definition replayed_run :: "(Clocks \<times> LAMOp) list" where
  "replayed_run =
     [(clock_at 0, LAM_Enqueue [LAR_New (sample_act (StartOnly 10) 1 2)]),
      (clock_at 1, LAM_Enqueue [LAR_InvalidateRun ''r'']),
      (clock_at 2, LAM_Enqueue [LAR_New (sample_act (StartOnly 10) 1 2)])]"


text \<open>The last activity of a worker that waits for its local activities fails for good.\<close>

definition waiting_run :: "(Clocks \<times> LAMOp) list" where
  "waiting_run =
     [(clock_at 0, LAM_Enqueue [LAR_New (sample_act (StartOnly 10) 1 1)]),
      (clock_at 0, LAM_PollRequest)]"


section \<open>Witnesses\<close>

definition started_run :: "(Clocks \<times> LAMOp) list" where
  "started_run =
     [(clock_at 0, LAM_Enqueue [LAR_New (sample_act (StartOnly 10) 1 2)]), (clock_at 0, LAM_PollRequest)]"





theorem cancel_stops_retries_witness:
  "\<exists>s info s1 run_id resolution task s2. lam_run sample_externals (lmg_new ''n'') started_run = Ok s \<and>
     map_of (lmg_outstanding s) (token 1) = Some info \<and>
     enqueue (clock_at 1) s [LAR_Cancel (la_id (ifl_la_info info))] = ([], s1) \<and>
     la_complete sample_externals (clock_at 2) s1 (token 1) (LA_Failed None) =
       Ok (LAC_Report run_id resolution task, s2) \<and> lar_backoff resolution = None"
proof -
  obtain s info where s: "lam_run sample_externals (lmg_new ''n'') started_run = Ok s"
    "\<not> lmg_workflows_have_shut_down s" "map_of (lmg_outstanding s) (token 1) = Some info"
    by (simp add: started_run_def eval_lam)
  from s cancel_stops_retries [OF s, of "clock_at 1" "clock_at 2" "LA_Failed None"] show ?thesis by blast
qed

end
