(* ===== verification/WorkflowTasks.thy ===== *)
theory WorkflowTasks
  imports WorkflowManager Pagination LocalActivityManager
begin

text \<open>
  The workflow tasks, activations and completions that a run exchanges with the rest of the worker
  (\<^verbatim>\<open>crates/sdk-core/src/worker/workflow/mod.rs\<close>), the buffer of tasks that wait for a run, the
  preparation of commands and of activations, and the world outside a run: the local activity
  manager, the channels on which completions are answered, and the clock.

  Queries are reduced to their ids.  Metrics, spans and the permits of the slot supplier are left
  out.
\<close>

section \<open>Workflow tasks\<close>

definition LEGACY_QUERY_ID :: string where
  "LEGACY_QUERY_ID = ''legacy_query''"

record PermittedWFT =
  pwf_work :: PreparedWFT
  pwf_paginator :: HistoryPaginator

record WorkflowTaskInfo =
  wti_task_token :: TaskToken
  wti_attempt :: u32
  wti_started_event_id :: i64
  wti_started_time :: "SystemTime option"
  wti_previous_started_event_id :: i64
  wti_wf_id :: string

record OutstandingTask =
  ot_info :: WorkflowTaskInfo
  ot_pending_queries :: "string list"
  ot_start_time :: int

definition has_pending_legacy_query :: "OutstandingTask \<Rightarrow> bool" where
  "has_pending_legacy_query t \<longleftrightarrow> list_ex (\<lambda>q. q = LEGACY_QUERY_ID) (ot_pending_queries t)"

datatype OutstandingActivation = OA_Normal | OA_Eviction | OA_LegacyQuery | OA_Autocomplete

record UnstoredWftFailInfo =
  uwf_task_token :: TaskToken
  uwf_attempt :: u32
  uwf_workflow_type :: string

record RequestEvictMsg =
  rem_run_id :: string
  rem_message :: string
  rem_reason :: EvictionReason
  rem_auto_reply_fail :: "UnstoredWftFailInfo option"

section \<open>Buffered tasks\<close>

record BufferedTasks =
  bt_wft :: "PermittedWFT option"
  bt_query_only_tasks :: "PermittedWFT list"
  bt_query_only_tasks_for_buffered :: "PermittedWFT list"

definition BufferedTasks_default :: BufferedTasks where
  "BufferedTasks_default =
     \<lparr>bt_wft = None, bt_query_only_tasks = [], bt_query_only_tasks_for_buffered = []\<rparr>"

definition into_buffer_order :: "BufferedTasks \<Rightarrow> PermittedWFT list" where
  "into_buffer_order b =
     bt_query_only_tasks b @ (case bt_wft b of Some t \<Rightarrow> [t] | None \<Rightarrow> []) @
     bt_query_only_tasks_for_buffered b"

definition buffer :: "BufferedTasks \<Rightarrow> PermittedWFT \<Rightarrow> BufferedTasks" where
  "buffer b task =
     (if is_query_only (pwf_work task) then
        (if bt_wft b = None then b\<lparr>bt_query_only_tasks := bt_query_only_tasks b @ [task]\<rparr>
         else b\<lparr>bt_query_only_tasks_for_buffered := bt_query_only_tasks_for_buffered b @ [task]\<rparr>)
      else
        (if bt_wft b \<noteq> None then b\<lparr>bt_query_only_tasks_for_buffered := []\<rparr> else b)\<lparr>bt_wft := Some task\<rparr>)"

definition has_tasks :: "BufferedTasks \<Rightarrow> bool" where
  "has_tasks b \<longleftrightarrow> bt_wft b \<noteq> None \<or> bt_query_only_tasks b \<noteq> []"

definition get_next_wft :: "BufferedTasks \<Rightarrow> PermittedWFT option \<times> BufferedTasks" where
  "get_next_wft b =
     (case bt_query_only_tasks b of
        q # qs \<Rightarrow> (Some q, b\<lparr>bt_query_only_tasks := qs\<rparr>)
      | [] \<Rightarrow>
          (case bt_wft b of
             None \<Rightarrow> (None, b)
           | Some t \<Rightarrow>
               (case bt_query_only_tasks_for_buffered b of
                  q # qs \<Rightarrow> (Some q, b\<lparr>bt_query_only_tasks_for_buffered := qs\<rparr>)
                | [] \<Rightarrow> (Some t, b\<lparr>bt_wft := None\<rparr>))))"

section \<open>Activations and completions\<close>

datatype ActivationOrAuto =
    LangActivation WorkflowActivation
  | ReadyForQueries WorkflowActivation
  | Autocomplete string
  | AutoFail string WFMachinesError

definition is_only_eviction :: "WorkflowActivation \<Rightarrow> bool" where
  "is_only_eviction act \<longleftrightarrow> (case wac_jobs act of [J_RemoveFromCache _ _] \<Rightarrow> True | _ \<Rightarrow> False)"

definition is_legacy_query :: "WorkflowActivation \<Rightarrow> bool" where
  "is_legacy_query act \<longleftrightarrow> (case wac_jobs act of [J_QueryWorkflow q] \<Rightarrow> q = LEGACY_QUERY_ID | _ \<Rightarrow> False)"

datatype WorkflowTaskFailedCause =
  WTFC_Unspecified | WTFC_NonDeterministicError | WTFC_WorkflowWorkerUnhandledFailure | WTFC_Other nat

datatype VersioningBehavior = VB_Unspecified | VB_Pinned | VB_AutoUpgrade

record CompletionFailure =
  wcf_failure :: "Failure option"
  wcf_force_cause :: WorkflowTaskFailedCause

datatype WftFailureKind = WFK_Task | WFK_LegacyQuery | WFK_RetryableLegacyQuery

record FailedActivationWFTReport =
  far_task_token :: TaskToken
  far_attempt :: u32
  far_cause :: WorkflowTaskFailedCause
  far_failure :: CompletionFailure
  far_kind :: WftFailureKind

record WftComplete =
  wcm_commands :: "Command list"
  wcm_messages :: "ProtocolMessage list"
  wcm_query_responses :: "string list"
  wcm_force_new_wft :: bool
  wcm_sdk_metadata :: WorkflowTaskCompletedMetadata
  wcm_versioning_behavior :: VersioningBehavior
  wcm_attempt :: u32

datatype ActivationAction = AA_WftComplete WftComplete | AA_RespondLegacyQuery string

datatype ActivationCompleteOutcome =
    ReportWFTSuccess TaskToken ActivationAction
  | ReportWFTFail FailedActivationWFTReport
  | DoNothing

record ActivationCompleteResult =
  acr_replaying :: bool
  acr_outcome :: ActivationCompleteOutcome

datatype WFTReportStatus = Reported "i64 option" | NotReported | DropWft

datatype ValidatedCompletion =
    VC_Success string "WFCommand list" "u32 list" VersioningBehavior
  | VC_Fail string CompletionFailure bool

text \<open>\<^verbatim>\<open>WFMachinesError::evict_reason\<close> and \<^verbatim>\<open>as_failure\<close>, with the text of the error.\<close>

fun evict_reason :: "WFMachinesError \<Rightarrow> EvictionReason" where
  "evict_reason (Nondeterminism _) = ER_Nondeterminism"
| "evict_reason (Fatal _) = ER_Fatal"

definition failed_cause_from :: "EvictionReason \<Rightarrow> WorkflowTaskFailedCause" where
  "failed_cause_from r = (if r = ER_Nondeterminism then WTFC_NonDeterministicError else WTFC_Unspecified)"

definition application_failure :: "string \<Rightarrow> bool \<Rightarrow> Failure" where
  "application_failure message non_retryable =
     Failure message None (Some (FI_Application \<lparr>api_type = [], api_non_retryable = non_retryable,
       api_next_retry_delay = None, api_rest = []\<rparr>)) []"

definition CompletionFailure_from :: "Failure \<Rightarrow> CompletionFailure" where
  "CompletionFailure_from f = \<lparr>wcf_failure = Some f, wcf_force_cause = WTFC_Unspecified\<rparr>"

definition as_failure :: "(WFMachinesError \<Rightarrow> string) \<Rightarrow> WFMachinesError \<Rightarrow> CompletionFailure" where
  "as_failure to_string e =
     \<lparr>wcf_failure = Some (application_failure (to_string e) False),
      wcf_force_cause = failed_cause_from (evict_reason e)\<rparr>"

section \<open>Commands and activations on their way\<close>

fun query_result :: "WFCommand \<Rightarrow> string option" where
  "query_result c = (case wfc_variant c of QueryResponse q \<Rightarrow> Some q | _ \<Rightarrow> None)"

definition preprocess_command_sequence :: "WFCommand list \<Rightarrow> WFCommand list \<times> string list" where
  "preprocess_command_sequence commands =
     (let query_results = List.map_filter query_result commands;
          rest = filter (\<lambda>c. query_result c = None) commands;
          terminals = filter (\<lambda>c. is_terminal (wfc_variant c)) rest
      in (filter (\<lambda>c. \<not> is_terminal (wfc_variant c)) rest @ take 1 terminals, query_results))"

fun until_terminal :: "bool \<Rightarrow> WFCommand list \<Rightarrow> WFCommand list \<times> string list" where
  "until_terminal seen_terminal [] = ([], [])"
| "until_terminal seen_terminal (c # cs) =
     (case query_result c of
        Some q \<Rightarrow> map_prod (\<lambda>cs. cs) (\<lambda>qs. q # qs) (until_terminal seen_terminal cs)
      | None \<Rightarrow>
          if seen_terminal then until_terminal seen_terminal cs
          else map_prod (\<lambda>cs. c # cs) (\<lambda>qs. qs) (until_terminal (is_terminal (wfc_variant c)) cs))"

definition preprocess_command_sequence_old_behavior :: "WFCommand list \<Rightarrow> WFCommand list \<times> string list" where
  "preprocess_command_sequence_old_behavior commands = until_terminal False commands"

definition put_queries_in_act ::
    "WorkflowActivation \<Rightarrow> OutstandingTask \<Rightarrow> WorkflowActivation \<times> OutstandingTask" where
  "put_queries_in_act act wft =
     (if ot_pending_queries wft = [] then (act, wft)
      else if has_pending_legacy_query wft \<and> wac_jobs act \<noteq> [] then (act, wft)
      else (act\<lparr>wac_jobs := wac_jobs act @ map J_QueryWorkflow (ot_pending_queries wft)\<rparr>,
            wft\<lparr>ot_pending_queries := []\<rparr>))"

fun variant_ordinal :: "Job \<Rightarrow> nat" where
  "variant_ordinal (J_InitializeWorkflow _ _ _ _) = 0"
| "variant_ordinal (J_NotifyHasPatch _) = 1"
| "variant_ordinal (J_UpdateRandomSeed _) = 2"
| "variant_ordinal (J_SignalWorkflow _ _) = 3"
| "variant_ordinal (J_DoUpdate _) = 3"
| "variant_ordinal (J_ResolveActivity _ _ is_local) = (if is_local then 5 else 4)"
| "variant_ordinal (J_QueryWorkflow _) = 6"
| "variant_ordinal (J_RemoveFromCache _ _) = 7"
| "variant_ordinal _ = 4"

text \<open>\<^verbatim>\<open>sort_by\<close> is stable.\<close>

definition prepare_to_ship_activation :: "WorkflowActivation \<Rightarrow> WorkflowActivation" where
  "prepare_to_ship_activation wfa = wfa\<lparr>wac_jobs := sort_key variant_ordinal (wac_jobs wfa)\<rparr>"

section \<open>Outside a run\<close>

datatype WorkflowErrorType = WET_Nondeterminism

record RunConfig =
  rc_max_cached_workflows :: nat
  rc_workflow_failure_errors :: "WorkflowErrorType list"
  rc_workflow_types_to_failure_errors :: "string \<rightharpoonup> WorkflowErrorType list"

definition should_fail_workflow :: "RunConfig \<Rightarrow> string \<Rightarrow> WorkflowErrorType \<Rightarrow> bool" where
  "should_fail_workflow c workflow_type error_type \<longleftrightarrow>
     error_type \<in> set (rc_workflow_failure_errors c) \<or>
     (case rc_workflow_types_to_failure_errors c workflow_type of
        Some s \<Rightarrow> error_type \<in> set s | None \<Rightarrow> False)"

text \<open>
  \<open>wo_lam\<close> is the manager behind the sink of local activity requests, if there is one.  A response
  channel is a number; \<open>wo_replies\<close> are the answers that reached their receivers, in order.
\<close>

record World =
  wo_lam :: "LocalActivityManager option"
  wo_next_abort :: nat
  wo_replies :: "(nat \<times> ActivationCompleteResult) list"

text \<open>
  What a call cannot know: the external functions, the clocks, whether the receiver of a channel is
  gone, and the text of an error.  \<open>env_left\<close> is what a call of the manager leaves of it when it
  returns an error; nothing is assumed of it.
\<close>

datatype ManagerCall = MC_NewWork | MC_NextActivation | MC_Push | MC_Feed | MC_Apply | MC_Notify

record RunEnv =
  env_x :: externals
  env_clk :: Clocks
  env_receiver_gone :: "nat \<Rightarrow> bool"
  env_error_text :: "WFMachinesError \<Rightarrow> string"
  env_left :: "ManagerCall \<Rightarrow> WFMachinesError \<Rightarrow> WorkflowManager \<Rightarrow> WorkflowManager"

definition abort_heartbeat :: "nat \<Rightarrow> World \<Rightarrow> World" where
  "abort_heartbeat h w = w\<lparr>wo_lam := map_option (abort (AbortHandle h)) (wo_lam w)\<rparr>"

text \<open>\<^verbatim>\<open>LAReqSink::sink_reqs\<close> and \<^verbatim>\<open>has_undelivered_cancels\<close>.\<close>

definition sink_reqs :: "RunEnv \<Rightarrow> LocalActRequest list \<Rightarrow> World \<Rightarrow> LocalActivityResolution list \<times> World" where
  "sink_reqs env reqs w =
     (case wo_lam w of
        None \<Rightarrow> ([], w)
      | Some lam \<Rightarrow>
          if reqs = [] then ([], w)
          else let (res, lam) = enqueue (env_clk env) lam reqs in (res, w\<lparr>wo_lam := Some lam\<rparr>))"

definition sink_has_undelivered_cancels :: "World \<Rightarrow> string \<Rightarrow> bool" where
  "sink_has_undelivered_cancels w run_id \<longleftrightarrow>
     (case wo_lam w of Some lam \<Rightarrow> has_undelivered_cancels lam run_id | None \<Rightarrow> False)"

text \<open>
  The deadline is four fifths of the task timeout, computed exactly and rounded to nanoseconds.
\<close>

definition WFT_HEARTBEAT_TIMEOUT_FRACTION :: rat where
  "WFT_HEARTBEAT_TIMEOUT_FRACTION = 4 / 5"

definition sink_heartbeat_timeout_start ::
    "RunEnv \<Rightarrow> string \<Rightarrow> int \<Rightarrow> StdDuration \<Rightarrow> World \<Rightarrow> nat \<times> World" where
  "sink_heartbeat_timeout_start env run_id wft_start_time wft_timeout w =
     (let deadline = wft_start_time + round_half_even (of_nat wft_timeout * WFT_HEARTBEAT_TIMEOUT_FRACTION);
          abort_handle = wo_next_abort w;
          w = w\<lparr>wo_next_abort := Suc abort_handle\<rparr>
      in (abort_handle, snd (sink_reqs env [LAR_StartHeartbeatTimeout run_id deadline abort_handle] w)))"

end
