(* ===== verification/ManagedRun.thy ===== *)
theory ManagedRun
  imports WorkflowTasks
begin

text \<open>
  A run and the protocol around it (\<^verbatim>\<open>ManagedRun\<close> of
  \<^verbatim>\<open>crates/sdk-core/src/worker/workflow/managed_run.rs\<close>): at most one workflow task and one
  activation at a time, completions of activations and the answers to them, evictions, heartbeats
  while local activities run, and tasks that wait their turn.

  A call takes the run and the world and returns them changed.  A panic of the machines is
  \<open>Panic\<close>; the panic of the run itself, and a recursion deeper than the model follows, are errors of
  the call.  What the code returns as an error of the machines is a value here, because the run goes
  on afterwards: it is broken and waits for its eviction.
\<close>

section \<open>State\<close>

record WaitingOnLAs =
  wol_wft_timeout :: StdDuration
  wol_hb_timeout_handle :: nat
  wol_heartbeat_timeout_pending :: bool

record RunActivationCompletion =
  rac_task_token :: TaskToken
  rac_start_time :: int
  rac_commands :: "WFCommand list"
  rac_activation_was_eviction :: bool
  rac_has_pending_query :: bool
  rac_query_responses :: "string list"
  rac_used_flags :: "u32 list"
  rac_is_forced_failure :: bool
  rac_resp_chan :: "nat option"
  rac_versioning_behavior :: VersioningBehavior

record ManagedRun =
  mr_wfm :: WorkflowManager
  mr_waiting_on_la :: "WaitingOnLAs option"
  mr_am_broken :: bool
  mr_wft :: "OutstandingTask option"
  mr_activation :: "OutstandingActivation option"
  mr_task_buffer :: BufferedTasks
  mr_trying_to_evict :: "RequestEvictMsg option"
  mr_paginator :: "HistoryPaginator option"
  mr_completion_waiting_on_page_fetch :: "RunActivationCompletion option"
  mr_config :: RunConfig

datatype RunStop = ActivationOverwritten | CacheOverflow | DepthExceeded

type_synonym 'a step = "('a \<times> ManagedRun \<times> World, RunStop) res"

type_synonym RunUpdateAct = "ActivationOrAuto option"

record FulfillableActivationComplete =
  fac_result :: ActivationCompleteResult
  fac_resp_chan :: "nat option"

datatype ActOrFulfill = OutgoingAct RunUpdateAct | FulfillableComplete "FulfillableActivationComplete option"

record RunUpdateErr =
  rue_source :: WFMachinesError
  rue_complete_resp_chan :: "nat option"

definition RunUpdateErr_from :: "WFMachinesError \<Rightarrow> RunUpdateErr" where
  "RunUpdateErr_from e = \<lparr>rue_source = e, rue_complete_resp_chan = None\<rparr>"

text \<open>The question mark operator, and a call of the manager with it.\<close>

definition try_bind :: "('e + 'a) step \<Rightarrow> ('a \<Rightarrow> ManagedRun \<Rightarrow> World \<Rightarrow> ('e + 'b) step) \<Rightarrow> ('e + 'b) step" where
  "try_bind m f = res_bind m (\<lambda>(v, r, w). case v of Inl e \<Rightarrow> Ok (Inl e, r, w) | Inr a \<Rightarrow> f a r w)"

definition manager_call ::
    "RunEnv \<Rightarrow> ManagerCall \<Rightarrow> (WorkflowManager \<Rightarrow> ('a \<times> WorkflowManager) result) \<Rightarrow> ManagedRun \<Rightarrow> World \<Rightarrow>
     (WFMachinesError + 'a) step" where
  "manager_call env c f r w =
     (case f (mr_wfm r) of
        Ok (a, m) \<Rightarrow> Ok (Inr a, r\<lparr>mr_wfm := m\<rparr>, w)
      | Err e \<Rightarrow> Ok (Inl e, r\<lparr>mr_wfm := env_left env c e (mr_wfm r)\<rparr>, w)
      | Panic \<Rightarrow> Panic)"

abbreviation unit_call :: "(WorkflowManager \<Rightarrow> WorkflowManager result) \<Rightarrow> WorkflowManager \<Rightarrow> (unit \<times> WorkflowManager) result" where
  "unit_call f \<equiv> (\<lambda>m. res_map (\<lambda>m. ((), m)) (f m))"

abbreviation mr_machines :: "ManagedRun \<Rightarrow> WorkflowMachines" where
  "mr_machines r \<equiv> wfm_machines (mr_wfm r)"

section \<open>Reading the run\<close>

definition mr_run_id :: "ManagedRun \<Rightarrow> string" where
  "mr_run_id r = wm_run_id (mr_machines r)"

definition more_pending_work :: "ManagedRun \<Rightarrow> bool" where
  "more_pending_work r \<longleftrightarrow> mr_wft r \<noteq> None \<and> has_pending_jobs (mr_machines r)"

definition activation_is_eviction :: "ManagedRun \<Rightarrow> bool" where
  "activation_is_eviction r \<longleftrightarrow> mr_activation r = Some OA_Eviction"

definition pending_work_is_legacy_query :: "ManagedRun \<Rightarrow> bool" where
  "pending_work_is_legacy_query r \<longleftrightarrow> mr_activation r = Some OA_LegacyQuery \<or>
     (case mr_wft r of Some t \<Rightarrow> has_pending_legacy_query t | None \<Rightarrow> False)"

definition has_any_pending_work :: "ManagedRun \<Rightarrow> bool \<Rightarrow> bool \<Rightarrow> bool" where
  "has_any_pending_work r ignore_evicts ignore_buffered \<longleftrightarrow>
     mr_wft r \<noteq> None \<or> (\<not> ignore_buffered \<and> has_tasks (mr_task_buffer r)) \<or> more_pending_work r \<or>
     (if ignore_evicts then mr_activation r \<noteq> None \<and> mr_activation r \<noteq> Some OA_Eviction
      else mr_activation r \<noteq> None) \<or>
     (\<not> ignore_evicts \<and> mr_trying_to_evict r \<noteq> None)"

definition has_undelivered_la_cancels :: "ManagedRun \<Rightarrow> World \<Rightarrow> bool" where
  "has_undelivered_la_cancels r w = sink_has_undelivered_cancels w (mr_run_id r)"

definition heartbeat_timeout_pending :: "ManagedRun \<Rightarrow> bool" where
  "heartbeat_timeout_pending r \<longleftrightarrow>
     (case mr_waiting_on_la r of Some wa \<Rightarrow> wol_heartbeat_timeout_pending wa | None \<Rightarrow> False)"

text \<open>Aborts the heartbeat the run waits for, if any.\<close>

definition abort_waiting :: "ManagedRun \<Rightarrow> World \<Rightarrow> World" where
  "abort_waiting r w = (case mr_waiting_on_la r of
      Some wa \<Rightarrow> abort_heartbeat (wol_hb_timeout_handle wa) w | None \<Rightarrow> w)"

section \<open>The next activation\<close>

definition mr_check_more :: "RunEnv \<Rightarrow> ManagedRun \<Rightarrow> World \<Rightarrow> (WFMachinesError + RunUpdateAct) step" where
  "mr_check_more env r w =
     (if mr_activation r \<noteq> None then Ok (Inr None, r, w)
      else if mr_wft r = None then Ok (Inr None, r, w)
      else if has_pending_jobs (mr_machines r) \<and> \<not> mr_am_broken r then
        try_bind (manager_call env MC_NextActivation (get_next_activation (env_x env)) r w)
          (\<lambda>act r w. Ok (Inr (Some (LangActivation act)), r, w))
      else if mr_waiting_on_la r \<noteq> None \<and> outstanding_local_activity_count (mr_machines r) = 0 then
        Ok (Inr (Some (Autocomplete (mr_run_id r))), r\<lparr>mr_waiting_on_la := None\<rparr>, abort_waiting r w)
      else if \<not> mr_am_broken r \<and>
          (case mr_wft r of Some wft \<Rightarrow> ot_pending_queries wft \<noteq> [] | None \<Rightarrow> False) then
        (let (act, s) = get_wf_activation (env_x env) (mr_machines r)
         in Ok (Inr (Some (ReadyForQueries act)), r\<lparr>mr_wfm := (mr_wfm r)\<lparr>wfm_machines := s\<rparr>\<rparr>, w))
      else if heartbeat_timeout_pending r then
        Ok (Inr (Some (Autocomplete (mr_run_id r))), r, w)
      else Ok (Inr None, r, w))"

fun notify_all :: "RunEnv \<Rightarrow> LocalActivityResolution list \<Rightarrow> ManagedRun \<Rightarrow> World \<Rightarrow> (WFMachinesError + unit) step" where
  "notify_all env [] r w = Ok (Inr (), r, w)"
| "notify_all env (res # rs) r w =
     try_bind (manager_call env MC_Notify (unit_call (\<lambda>m. notify_of_local_result (env_x env) m res)) r w)
       (\<lambda>_ r w. notify_all env rs r w)"

definition sink_la_requests ::
    "RunEnv \<Rightarrow> LocalActRequest list \<Rightarrow> ManagedRun \<Rightarrow> World \<Rightarrow> (WFMachinesError + unit) step" where
  "sink_la_requests env reqs r w =
     (let (immediate_resolutions, w) = sink_reqs env reqs w in notify_all env immediate_resolutions r w)"

definition evict_activation :: "ManagedRun \<Rightarrow> RequestEvictMsg \<Rightarrow> WorkflowActivation" where
  "evict_activation r reason =
     \<lparr>wac_timestamp = None, wac_is_replaying = False, wac_run_id = mr_run_id r,
      wac_history_length = of_int (wm_last_processed_event (mr_machines r)),
      wac_jobs = [J_RemoveFromCache (rem_message reason) (rem_reason reason)],
      wac_available_internal_flags = [], wac_history_size_bytes = 0, wac_continue_as_new_suggested = False,
      wac_deployment_version_for_current_task = None, wac_last_sdk_version = [],
      wac_suggest_continue_as_new_reasons = [], wac_target_worker_deployment_version_changed = False\<rparr>"

text \<open>The eviction of a run that has nothing else to do.\<close>

definition try_evict :: "RunEnv \<Rightarrow> ManagedRun \<Rightarrow> World \<Rightarrow> (WFMachinesError + RunUpdateAct) step" where
  "try_evict env r w =
     (case mr_trying_to_evict r of
        None \<Rightarrow> Ok (Inr None, r, w)
      | Some reason \<Rightarrow>
          if mr_activation r = None \<and> (mr_am_broken r \<or> \<not> more_pending_work r) then
            (let w = abort_waiting r w;
                 r = r\<lparr>mr_waiting_on_la := None\<rparr>
             in try_bind (sink_la_requests env [LAR_CancelAllInRun (mr_run_id r)] r w) (\<lambda>_ r w.
                  if has_undelivered_la_cancels r w then Ok (Inr None, r, w)
                  else Ok (Inr (Some (LangActivation (evict_activation r reason))), r, w)))
          else Ok (Inr None, r, w))"

definition activation_kind :: "ActivationOrAuto \<Rightarrow> OutstandingActivation" where
  "activation_kind a =
     (let of_lang = (\<lambda>act. if is_only_eviction act then OA_Eviction
                           else if is_legacy_query act then OA_LegacyQuery else OA_Normal)
      in case a of
           LangActivation act \<Rightarrow> of_lang act
         | ReadyForQueries act \<Rightarrow> of_lang act
         | Autocomplete _ \<Rightarrow> OA_Autocomplete
         | AutoFail _ _ \<Rightarrow> OA_Autocomplete)"

definition insert_outstanding_activation :: "ActivationOrAuto \<Rightarrow> ManagedRun \<Rightarrow> (ManagedRun, RunStop) res" where
  "insert_outstanding_activation act r =
     (case mr_activation r of
        Some _ \<Rightarrow> Err ActivationOverwritten
      | None \<Rightarrow> Ok (r\<lparr>mr_activation := Some (activation_kind act)\<rparr>))"

text \<open>\<^verbatim>\<open>FulfillableActivationComplete::fulfill\<close>; that nobody listens is ignored.\<close>

definition send_reply :: "RunEnv \<Rightarrow> nat \<Rightarrow> ActivationCompleteResult \<Rightarrow> World \<Rightarrow> World" where
  "send_reply env chan res w =
     (if env_receiver_gone env chan then w else w\<lparr>wo_replies := wo_replies w @ [(chan, res)]\<rparr>)"

definition fulfill :: "RunEnv \<Rightarrow> FulfillableActivationComplete option \<Rightarrow> World \<Rightarrow> World" where
  "fulfill env f w =
     (case f of
        Some f \<Rightarrow> (case fac_resp_chan f of Some chan \<Rightarrow> send_reply env chan (fac_result f) w | None \<Rightarrow> w)
      | None \<Rightarrow> w)"

text \<open>The answer to an error without a completion to fail.\<close>

definition auto_fail :: "WFMachinesError \<Rightarrow> ManagedRun \<Rightarrow> World \<Rightarrow> RunUpdateAct step" where
  "auto_fail e r w = Ok (Some (AutoFail (mr_run_id r) e), r\<lparr>mr_am_broken := True\<rparr>, w)"

text \<open>
  \<^verbatim>\<open>update_to_acts\<close> of a success, up to the point at which a buffered task is taken up: what goes
  out, and the task to be handled next.
\<close>

definition choose_act :: "RunEnv \<Rightarrow> RunUpdateAct \<Rightarrow> ManagedRun \<Rightarrow> World \<Rightarrow> (WFMachinesError + RunUpdateAct) step" where
  "choose_act env maybe_act r w =
     (let checked = (if more_pending_work r \<and> maybe_act = None then mr_check_more env r w
                     else Ok (Inr maybe_act, r, w))
      in try_bind checked (\<lambda>maybe_act r w.
         case maybe_act of
           Some (ReadyForQueries act) \<Rightarrow>
             (case mr_wft r of
                Some wft \<Rightarrow>
                  let (act, wft) = put_queries_in_act act wft
                  in Ok (Inr (Some (LangActivation act)), r\<lparr>mr_wft := Some wft\<rparr>, w)
              | None \<Rightarrow> Ok (Inr None, r, w))
         | Some a \<Rightarrow> Ok (Inr (Some a), r, w)
         | None \<Rightarrow> try_evict env r w))"

fun may_take_buffered :: "RunUpdateAct \<Rightarrow> bool" where
  "may_take_buffered None = True"
| "may_take_buffered (Some (Autocomplete _)) = True"
| "may_take_buffered _ = False"

definition conclude ::
    "RunEnv \<Rightarrow> FulfillableActivationComplete option \<Rightarrow> RunUpdateAct \<Rightarrow> ManagedRun \<Rightarrow> World \<Rightarrow>
     (RunUpdateAct \<times> PermittedWFT option) step" where
  "conclude env maybe_fulfill act r w =
     (let w = fulfill env maybe_fulfill w
      in if may_take_buffered act \<and> \<not> has_any_pending_work r False True then
           (let (next_task, b) = get_next_wft (mr_task_buffer r)
            in Ok ((None, next_task), r\<lparr>mr_task_buffer := b\<rparr>, w))
         else
           (case act of
              Some a \<Rightarrow> res_map (\<lambda>r. ((Some a, None), r, w)) (insert_outstanding_activation a r)
            | None \<Rightarrow> Ok ((None, None), r, w)))"

definition settle ::
    "RunEnv \<Rightarrow> ActOrFulfill \<Rightarrow> ManagedRun \<Rightarrow> World \<Rightarrow> (RunUpdateAct \<times> PermittedWFT option) step" where
  "settle env act_or_fulfill r w =
     (let (maybe_act, maybe_fulfill) = (case act_or_fulfill of
            OutgoingAct a \<Rightarrow> (a, None) | FulfillableComplete c \<Rightarrow> (None, c))
      in res_bind (choose_act env maybe_act r w) (\<lambda>(v, r, w).
         case v of
           Inl e \<Rightarrow> res_map (\<lambda>(act, r, w). ((act, None), r, w)) (auto_fail e r w)
         | Inr act \<Rightarrow> conclude env maybe_fulfill act r w))"

section \<open>New workflow tasks\<close>

text \<open>The history update is only populated when the run was cached or is new.\<close>

definition first_activation ::
    "RunEnv \<Rightarrow> PreparedWFT \<Rightarrow> ManagedRun \<Rightarrow> World \<Rightarrow> (WFMachinesError + WorkflowActivation) step" where
  "first_activation env work r w =
     (if hu_is_real (prep_update work) then
        manager_call env MC_NewWork (\<lambda>m. wfm_new_work_from_server (env_x env) m (prep_update work)
          (prep_messages work) (prep_legacy_query work \<noteq> None)) r w
      else
        try_bind (manager_call env MC_NextActivation (get_next_activation (env_x env)) r w) (\<lambda>act r w.
          if wac_jobs act = [] then Ok (Inl (Fatal OtherReason), r, w) else Ok (Inr act, r, w)))"

text \<open>Without jobs for the language side the task waits for local activities or completes itself.\<close>

definition act_or_wait ::
    "RunEnv \<Rightarrow> int \<Rightarrow> WorkflowActivation \<Rightarrow> ManagedRun \<Rightarrow> World \<Rightarrow> (WFMachinesError + RunUpdateAct) step" where
  "act_or_wait env start_time act r w =
     (if wac_jobs act \<noteq> [] then Ok (Inr (Some (LangActivation act)), r, w)
      else
        case mr_waiting_on_la r of
          Some lawait \<Rightarrow>
            if outstanding_local_activity_count (mr_machines r) > 0 then
              (let (h, w) = sink_heartbeat_timeout_start env (mr_run_id r) start_time
                     (wol_wft_timeout lawait) (abort_waiting r w)
               in Ok (Inr None, r\<lparr>mr_waiting_on_la := Some (lawait\<lparr>wol_hb_timeout_handle := h\<rparr>)\<rparr>, w))
            else Ok (Inr (Some (Autocomplete (mr_run_id r))), r, w)
        | None \<Rightarrow> Ok (Inr (Some (Autocomplete (mr_run_id r))), r, w))"

text \<open>The task becomes the one the run works on.\<close>

definition accept_wft :: "RunEnv \<Rightarrow> PermittedWFT \<Rightarrow> ManagedRun \<Rightarrow> ManagedRun" where
  "accept_wft env pwft r =
     (let work = pwf_work pwft; update = prep_update work
      in r\<lparr>mr_paginator := Some (pwf_paginator pwft),
           mr_wft := Some
             \<lparr>ot_info = \<lparr>wti_task_token = prep_task_token work, wti_attempt = prep_attempt work,
                wti_started_event_id = hu_wft_started_id update, wti_started_time = prep_started_time work,
                wti_previous_started_event_id = hu_previous_wft_started_id update,
                wti_wf_id = we_workflow_id (prep_execution work)\<rparr>,
              ot_pending_queries = prep_query_requests work @
                (if prep_legacy_query work \<noteq> None then [LEGACY_QUERY_ID] else []),
              ot_start_time = clk_instant (env_clk env)\<rparr>,
           mr_waiting_on_la := map_option (\<lambda>wa. wa\<lparr>wol_heartbeat_timeout_pending := False\<rparr>)
             (mr_waiting_on_la r)\<rparr>)"

definition incoming :: "RunEnv \<Rightarrow> PermittedWFT \<Rightarrow> ManagedRun \<Rightarrow> World \<Rightarrow> (WFMachinesError + RunUpdateAct) step" where
  "incoming env pwft r w =
     (let work = pwf_work pwft; update = prep_update work
      in if prep_query_requests work \<noteq> [] \<and> prep_legacy_query work \<noteq> None then Ok (Inl (Fatal OtherReason), r, w)
         else
           let w = abort_waiting r w; r = accept_wft env pwft r
           in if prep_legacy_query work \<noteq> None \<and> hu_wft_started_id update = 0 \<and>
                 hu_previous_wft_started_id update < wm_current_started_event_id (mr_machines r) then
                Ok (Inr (Some (AutoFail (mr_run_id r) (Fatal OtherReason))), r, w)
              else try_bind (first_activation env work r w) (act_or_wait env (clk_instant (env_clk env))))"

text \<open>What each step may change of a run.  None of them touches the buffer or the answers given so far.\<close>

definition frame :: "ManagedRun \<Rightarrow> World \<Rightarrow> ManagedRun \<Rightarrow> World \<Rightarrow> bool" where
  "frame r w r' w' \<longleftrightarrow> wo_replies w' = wo_replies w \<and> mr_activation r' = mr_activation r \<and>
     mr_task_buffer r' = mr_task_buffer r \<and> mr_trying_to_evict r' = mr_trying_to_evict r \<and>
     mr_am_broken r' = mr_am_broken r \<and>
     mr_completion_waiting_on_page_fetch r' = mr_completion_waiting_on_page_fetch r \<and>
     mr_config r' = mr_config r \<and> (mr_wft r \<noteq> None \<longrightarrow> mr_wft r' \<noteq> None)"

lemma frame_refl [simp]: "frame r w r w"
  by (simp add: frame_def)

lemma frame_trans: "frame r w r1 w1 \<Longrightarrow> frame r1 w1 r2 w2 \<Longrightarrow> frame r w r2 w2"
  by (simp add: frame_def)

text \<open>A step that ends within the frame, and with the question mark operator between two such.\<close>

definition framed :: "ManagedRun \<Rightarrow> World \<Rightarrow> 'a step \<Rightarrow> bool" where
  "framed r w m \<longleftrightarrow> (case m of Ok (_, r', w') \<Rightarrow> frame r w r' w' | _ \<Rightarrow> True)"

lemma framed_Ok [simp]: "framed r w (Ok (v, r', w')) \<longleftrightarrow> frame r w r' w'"
  by (simp add: framed_def)

lemma framedD: "framed r w m \<Longrightarrow> m = Ok (v, r', w') \<Longrightarrow> frame r w r' w'"
  by simp

lemma try_bind_Ok:
  "try_bind m f = Ok (v, r', w') \<longleftrightarrow>
     (\<exists>e. m = Ok (Inl e, r', w') \<and> v = Inl e) \<or> (\<exists>a r1 w1. m = Ok (Inr a, r1, w1) \<and> f a r1 w1 = Ok (v, r', w'))"
  by (cases m) (auto simp: try_bind_def split: sum.splits)

lemma framed_try_bind:
  assumes "framed r w m" "\<And>a r1 w1. m = Ok (Inr a, r1, w1) \<Longrightarrow> framed r1 w1 (f a r1 w1)"
  shows "framed r w (try_bind m f)"
proof (cases m)
  case (Ok p)
  obtain v r1 w1 where p: "p = (v, r1, w1)" by (cases p)
  show ?thesis
  proof (cases v)
    case (Inl e)
    with assms(1) Ok p show ?thesis by (simp add: try_bind_def)
  next
    case (Inr a)
    with assms Ok p have "framed r1 w1 (f a r1 w1)" "frame r w r1 w1" by auto
    with Ok p Inr show ?thesis
      by (auto simp: try_bind_def framed_def split: res.splits intro: frame_trans)
  qed
qed (simp_all add: try_bind_def framed_def)

lemma framed_from: "frame r w r1 w1 \<Longrightarrow> framed r1 w1 m \<Longrightarrow> framed r w m"
  by (auto simp: framed_def split: res.splits intro: frame_trans)

lemma framed_manager_call: "framed r w (manager_call env c f r w)"
  by (auto simp: manager_call_def framed_def frame_def split: res.splits)

lemma framed_notify_all: "framed r w (notify_all env rs r w)"
proof (induction rs arbitrary: r w)
  case (Cons a rs)
  show ?case by (simp, rule framed_try_bind [OF framed_manager_call Cons.IH])
qed simp

lemma frame_sink_reqs: "sink_reqs env reqs w = (res, w') \<Longrightarrow> frame r w r w'"
  by (auto simp: sink_reqs_def frame_def split: option.splits if_splits prod.splits)

lemma framed_sink_la_requests: "framed r w (sink_la_requests env reqs r w)"
proof -
  obtain res w1 where s: "sink_reqs env reqs w = (res, w1)" by (cases "sink_reqs env reqs w")
  show ?thesis unfolding sink_la_requests_def s Let_def prod.case
    by (rule framed_from [OF frame_sink_reqs [OF s] framed_notify_all])
qed

lemma frame_waiting [simp]:
  "frame r w (r\<lparr>mr_waiting_on_la := wa\<rparr>) w" "frame r w r (abort_waiting r' w)"
  "frame r w (r\<lparr>mr_waiting_on_la := wa\<rparr>) (abort_waiting r' w)" "frame r w (r\<lparr>mr_wfm := m\<rparr>) w"
  by (auto simp: frame_def abort_waiting_def abort_heartbeat_def split: option.split)

lemma framed_mr_check_more: "framed r w (mr_check_more env r w)"
  unfolding mr_check_more_def
  by (auto simp: case_prod_beta Let_def intro!: framed_try_bind framed_manager_call)

lemma framed_try_evict: "framed r w (try_evict env r w)"
proof -
  have "framed r w (try_bind (sink_la_requests env [LAR_CancelAllInRun (mr_run_id r)]
      (r\<lparr>mr_waiting_on_la := None\<rparr>) (abort_waiting r w)) (\<lambda>_ r w.
        if has_undelivered_la_cancels r w then Ok (Inr None, r, w)
        else Ok (Inr (Some (LangActivation (evict_activation r reason))), r, w)))" for reason
    by (rule framed_from [OF _ framed_try_bind [OF framed_sink_la_requests]]) auto
  then show ?thesis by (auto simp: try_evict_def Let_def mr_run_id_def split: option.split)
qed

lemma framed_choose_act: "framed r w (choose_act env maybe_act r w)"
proof -
  have "framed r w (if more_pending_work r \<and> maybe_act = None then mr_check_more env r w
      else Ok (Inr maybe_act, r, w))"
    by (simp add: framed_mr_check_more)
  then show ?thesis
    unfolding choose_act_def Let_def
    by (rule framed_try_bind)
      (auto simp: framed_try_evict frame_def case_prod_beta split: option.split ActivationOrAuto.split)
qed

lemma frame_heartbeat_start:
  "sink_heartbeat_timeout_start env run_id t d w = (h, w') \<Longrightarrow> frame r w (r\<lparr>mr_waiting_on_la := wa\<rparr>) w'"
  by (auto simp: sink_heartbeat_timeout_start_def sink_reqs_def frame_def Let_def
      split: option.splits if_splits prod.splits)

lemma framed_act_or_wait: "framed r w (act_or_wait env t act r w)"
  unfolding act_or_wait_def
  by (auto simp: case_prod_beta Let_def split: option.split
      intro: frame_trans [OF frame_waiting(2) frame_heartbeat_start [OF surjective_pairing]])

lemma framed_first_activation: "framed r w (first_activation env work r w)"
  unfolding first_activation_def by (auto intro!: framed_try_bind framed_manager_call)

lemma frame_accept: "frame r w (accept_wft env pwft r) (abort_waiting r w)"
  by (auto simp: accept_wft_def frame_def abort_waiting_def abort_heartbeat_def Let_def split: option.split)

lemma framed_incoming: "framed r w (incoming env pwft r w)"
  unfolding incoming_def Let_def
  by (simp add: frame_accept framed_from [OF frame_accept framed_try_bind [OF framed_first_activation
        framed_act_or_wait]])

section \<open>Updates and buffered tasks\<close>

definition buffered_count :: "ManagedRun \<Rightarrow> nat" where
  "buffered_count r = length (into_buffer_order (mr_task_buffer r))"

lemma get_next_wft_smaller:
  "get_next_wft b = (Some t, b') \<Longrightarrow> length (into_buffer_order b') < length (into_buffer_order b)"
  by (auto simp: get_next_wft_def into_buffer_order_def split: list.splits option.splits)

lemma conclude_takes:
  assumes "conclude env f act r w = Ok ((act', Some t), r', w')"
  shows "buffered_count r' < buffered_count r"
proof -
  from assms obtain b where "get_next_wft (mr_task_buffer r) = (Some t, b)" "r' = r\<lparr>mr_task_buffer := b\<rparr>"
    by (auto simp: conclude_def Let_def res_map_eq_Ok split: if_splits prod.splits option.splits)
  with get_next_wft_smaller show ?thesis by (simp add: buffered_count_def)
qed

lemma settle_takes:
  assumes "settle env f r w = Ok ((act, Some t), r', w')"
  shows "buffered_count r' < buffered_count r"
proof -
  obtain a c where f: "(case f of OutgoingAct a \<Rightarrow> (a, None) | FulfillableComplete c \<Rightarrow> (None, c)) = (a, c)"
    by (cases "case f of OutgoingAct a \<Rightarrow> (a, None) | FulfillableComplete c \<Rightarrow> (None, c)")
  from assms obtain v r1 w1 where v: "choose_act env a r w = Ok (v, r1, w1)"
    by (cases "choose_act env a r w") (auto simp: settle_def f)
  with assms obtain act1 where chosen: "choose_act env a r w = Ok (Inr act1, r1, w1)"
    and taken: "conclude env c act1 r1 w1 = Ok ((act, Some t), r', w')"
    by (cases v) (auto simp: settle_def f auto_fail_def)
  from framedD [OF framed_choose_act chosen] have "mr_task_buffer r1 = mr_task_buffer r" by (simp add: frame_def)
  with conclude_takes [OF taken] show ?thesis by (simp add: buffered_count_def)
qed

lemma incoming_buffered: "incoming env t r w = Ok (v, r', w') \<Longrightarrow> buffered_count r' = buffered_count r"
  by (drule framedD [OF framed_incoming]) (simp add: frame_def buffered_count_def)

text \<open>A task taken from the buffer is handled at once; its errors concern no completion.\<close>

definition incoming_or_fail ::
    "RunEnv \<Rightarrow> PermittedWFT \<Rightarrow> ManagedRun \<times> World \<Rightarrow> (RunUpdateAct + RunUpdateAct) step" where
  "incoming_or_fail env pwft rw =
     res_bind (incoming env pwft (fst rw) (snd rw)) (\<lambda>(v, r, w).
       case v of
         Inl e \<Rightarrow> res_map (\<lambda>(act, r, w). (Inl act, r, w)) (auto_fail e r w)
       | Inr act \<Rightarrow> Ok (Inr act, r, w))"

lemma incoming_or_fail_buffered:
  assumes "incoming_or_fail env t rw = Ok (v, rw')"
  shows "buffered_count (fst rw') = buffered_count (fst rw)"
proof -
  obtain u r w where i: "incoming env t (fst rw) (snd rw) = Ok (u, r, w)"
    using assms by (cases "incoming env t (fst rw) (snd rw)") (auto simp: incoming_or_fail_def)
  with assms have "buffered_count (fst rw') = buffered_count r"
    by (auto simp: incoming_or_fail_def auto_fail_def buffered_count_def split: sum.splits)
  with incoming_buffered [OF i] show ?thesis by simp
qed

function mr_update_ok :: "RunEnv \<Rightarrow> ActOrFulfill \<Rightarrow> ManagedRun \<times> World \<Rightarrow> RunUpdateAct step" where
  "mr_update_ok env act_or_fulfill rw =
     res_bind (settle env act_or_fulfill (fst rw) (snd rw)) (\<lambda>(out, rw).
       case snd out of
         None \<Rightarrow> Ok (fst out, rw)
       | Some pwft \<Rightarrow>
           res_bind (incoming_or_fail env pwft rw) (\<lambda>(v, rw).
             case v of
               Inl act \<Rightarrow> Ok (act, rw)
             | Inr act \<Rightarrow> mr_update_ok env (OutgoingAct act) rw))"
  by pat_completeness auto

termination
  apply (relation "measure (\<lambda>(_, _, rw). buffered_count (fst rw))")
   apply simp
  apply (simp only: in_measure prod.case)
  subgoal for env f rw a out rw1 t b v rw2 act
    using settle_takes [of env f "fst rw" "snd rw" "fst out" t "fst rw1" "snd rw1"]
      incoming_or_fail_buffered [of env t rw1 "Inr act" rw2] by (cases out) auto
  done

declare mr_update_ok.simps [simp del]

section \<open>The content of a completion\<close>

definition mr_preprocess_command_sequence :: "ManagedRun \<Rightarrow> WFCommand list \<Rightarrow> WFCommand list \<times> string list" where
  "mr_preprocess_command_sequence r commands =
     (if wm_replaying (mr_machines r) \<and>
         \<not> fst (try_use MoveTerminalCommands False (wm_observed_internal_flags (mr_machines r)))
      then preprocess_command_sequence_old_behavior commands
      else preprocess_command_sequence commands)"

definition stamp_dispatching_task :: "RunEnv \<Rightarrow> ManagedRun \<Rightarrow> LocalActRequest list \<Rightarrow> LocalActRequest list" where
  "stamp_dispatching_task env r requests =
     (case mr_wft r of
        None \<Rightarrow> requests
      | Some wft \<Rightarrow>
          let previous = wti_previous_started_event_id (ot_info wft);
              completed = (case wm_completed_wft (mr_machines r) of
                  Some c \<Rightarrow> if wfa_started_event_id c = previous then Some c else None
                | None \<Rightarrow> None);
              task = \<lparr>wta_started_event_id = wti_started_event_id (ot_info wft),
                wta_attempt = wti_attempt (ot_info wft),
                wta_started_time = map_option (x_from_system_time (env_x env)) (wti_started_time (ot_info wft)),
                wta_previous_started_event_id = previous,
                wta_failed_tasks = wm_failed_wft_started_ids (mr_machines r),
                wta_previous_attempt = (case completed of Some c \<Rightarrow> wfa_attempt c | None \<Rightarrow> 0),
                wta_previous_started_time =
                  map_option (x_from_system_time (env_x env)) (Option.bind completed wfa_started_time)\<rparr>
          in map (\<lambda>req. case req of
                 LAR_New new_la \<Rightarrow> LAR_New (new_la\<lparr>nla_workflow_task := Some task\<rparr>)
               | _ \<Rightarrow> req) requests)"

record CompletionDataForWFT =
  cd_task_token :: TaskToken
  cd_query_responses :: "string list"
  cd_has_pending_query :: bool
  cd_activation_was_eviction :: bool
  cd_is_forced_failure :: bool
  cd_versioning_behavior :: VersioningBehavior

text \<open>Peeking at the iterator over the commands looks no further than the first one to be sent.\<close>

fun any_unfinished :: "WorkflowMachines \<Rightarrow> CommandAndMachine list \<Rightarrow> bool result" where
  "any_unfinished s [] = Ok False"
| "any_unfinished s (c # cs) =
     res_bind (wm_machine s (cam_machine c)) (\<lambda>m.
     res_bind (is_final_state m) (\<lambda>final. if final then any_unfinished s cs else Ok True))"

definition peek_commands :: "WorkflowMachines \<Rightarrow> (bool \<times> WorkflowMachines) result" where
  "peek_commands s =
     (let s = s\<lparr>wm_observed_internal_flags := write_all_known (wm_observed_internal_flags s)\<rparr>
      in res_map (\<lambda>b. (b, s)) (any_unfinished s (wm_commands s)))"

text \<open>Reading the commands has no error to return.\<close>

definition no_error :: "'a result \<Rightarrow> ('a, RunStop) res" where
  "no_error m = (case m of Ok a \<Rightarrow> Ok a | _ \<Rightarrow> Panic)"

definition with_machines :: "ManagedRun \<Rightarrow> WorkflowMachines \<Rightarrow> ManagedRun" where
  "with_machines r s = r\<lparr>mr_wfm := (mr_wfm r)\<lparr>wfm_machines := s\<rparr>\<rparr>"

definition eviction_has_output :: "CompletionDataForWFT \<Rightarrow> ManagedRun \<Rightarrow> (bool \<times> ManagedRun, RunStop) res" where
  "eviction_has_output data r =
     (if cd_activation_was_eviction data \<and> mr_wft r \<noteq> None \<and> \<not> mr_am_broken r then
        res_map (\<lambda>(any, s). (any \<or> wm_message_outbox s \<noteq> [], with_machines r s))
          (no_error (peek_commands (mr_machines r)))
      else Ok (False, r))"

definition should_respond :: "CompletionDataForWFT \<Rightarrow> bool \<Rightarrow> WorkflowMachines \<Rightarrow> bool" where
  "should_respond data evict_output s \<longleftrightarrow>
     \<not> (has_pending_jobs s \<or>
        (wm_replaying s \<and> \<not> cd_is_forced_failure data) \<or>
        (cd_has_pending_query data \<and> cd_query_responses data = []) \<or>
        (cd_activation_was_eviction data \<and> \<not> evict_output) \<or>
        wm_have_seen_terminal_event s)"

text \<open>What is sent to the server, and the machines after it was taken from them.\<close>

definition take_output :: "CompletionDataForWFT \<Rightarrow> bool \<Rightarrow> ManagedRun \<Rightarrow> (WftComplete \<times> ManagedRun, RunStop) res" where
  "take_output data force_new_wft r =
     res_map (\<lambda>((commands, messages), s).
         let (metadata, s) = get_metadata_for_wft_complete s
         in (\<lparr>wcm_commands = commands, wcm_messages = messages,
              wcm_query_responses = cd_query_responses data, wcm_force_new_wft = force_new_wft,
              wcm_sdk_metadata = metadata, wcm_versioning_behavior = cd_versioning_behavior data,
              wcm_attempt = (case mr_wft r of Some t \<Rightarrow> wti_attempt (ot_info t) | None \<Rightarrow> 1)\<rparr>,
             with_machines r s))
       (if mr_am_broken r \<and> cd_activation_was_eviction data then Ok (([], []), mr_machines r)
        else res_map (\<lambda>(commands, s). let (messages, s) = take_messages s in ((commands, messages), s))
               (no_error (get_commands (mr_machines r))))"

definition prepare_complete_resp ::
    "nat option \<Rightarrow> CompletionDataForWFT \<Rightarrow> bool \<Rightarrow> ManagedRun \<Rightarrow>
     (FulfillableActivationComplete \<times> ManagedRun, RunStop) res" where
  "prepare_complete_resp resp_chan data due_to_heartbeat_timeout r =
     (let s = mr_machines r;
          outstanding_las = (outstanding_local_activity_count s > 0);
          have_pending_la_resolutions = has_pending_la_resolutions s;
          has_query_responses = (cd_query_responses data \<noteq> []);
          answer = (\<lambda>outcome r. (\<lparr>fac_result = \<lparr>acr_replaying = wm_replaying s, acr_outcome = outcome\<rparr>,
            fac_resp_chan = resp_chan\<rparr>, r))
      in res_bind (eviction_has_output data r) (\<lambda>(evict_output, r).
         let force_new_wft = (due_to_heartbeat_timeout \<or> (evict_output \<and> outstanding_las) \<or>
               (has_query_responses \<and> have_pending_la_resolutions))
         in if should_respond data evict_output s \<or> has_query_responses then
              res_map (\<lambda>(complete, r).
                  answer (ReportWFTSuccess (cd_task_token data) (AA_WftComplete complete))
                    (r\<lparr>mr_wfm := wft_completion_reported (mr_wfm r)\<rparr>))
                (take_output data force_new_wft r)
            else Ok (answer DoNothing r)))"

section \<open>Applying a completion\<close>

text \<open>The closure of \<^verbatim>\<open>_process_completion\<close>: when local activities are left, when the task started and its timeout.\<close>

definition apply_completion ::
    "RunEnv \<Rightarrow> RunActivationCompletion \<Rightarrow> HistoryUpdate option \<Rightarrow> ManagedRun \<Rightarrow> World \<Rightarrow>
     (WFMachinesError + (int \<times> StdDuration) option) step" where
  "apply_completion env completion update_from_new_page r w =
     (let x = env_x env
      in try_bind (manager_call env MC_Push
             (unit_call (\<lambda>m. push_commands_and_iterate x m (rac_commands completion))) r w) (\<lambda>_ r w.
         try_bind (case update_from_new_page of
             Some update \<Rightarrow> manager_call env MC_Feed (unit_call (\<lambda>m. feed_history_from_new_page x m update)) r w
           | None \<Rightarrow> Ok (Inr (), r, w)) (\<lambda>_ r w.
         try_bind (if \<not> rac_activation_was_eviction completion \<and> \<not> mr_am_broken r
             then manager_call env MC_Apply (unit_call (apply_next_task_if_ready x)) r w
             else Ok (Inr (), r, w)) (\<lambda>_ r w.
         let (new_local_acts, m) = wfm_drain_queued_local_activities x (mr_wfm r);
             r = r\<lparr>mr_wfm := m\<rparr>
         in try_bind (sink_la_requests env (stamp_dispatching_task env r new_local_acts) r w) (\<lambda>_ r w.
            if outstanding_local_activity_count (mr_machines r) = 0 then Ok (Inr None, r, w)
            else
              case Option.bind (dw_started_attrs (wm_drive_me (mr_machines r))) wsi_workflow_task_timeout of
                None \<Rightarrow> Ok (Inl (Fatal OtherReason), r, w)
              | Some wft_timeout \<Rightarrow> Ok (Inr (Some (rac_start_time completion, wft_timeout)), r, w))))))"

definition prepare_step ::
    "nat option \<Rightarrow> CompletionDataForWFT \<Rightarrow> bool \<Rightarrow> ManagedRun \<Rightarrow> World \<Rightarrow>
     (RunUpdateErr + FulfillableActivationComplete option) step" where
  "prepare_step resp_chan data due r w =
     res_map (\<lambda>(f, r). (Inr (Some f), r, w)) (prepare_complete_resp resp_chan data due r)"

definition process_completion_inner ::
    "RunEnv \<Rightarrow> RunActivationCompletion \<Rightarrow> HistoryUpdate option \<Rightarrow> ManagedRun \<Rightarrow> World \<Rightarrow>
     (RunUpdateErr + FulfillableActivationComplete option) step" where
  "process_completion_inner env completion update_from_new_page r w =
     (let completing_heartbeat_autocomplete =
            (mr_activation r = Some OA_Autocomplete \<and> mr_waiting_on_la r \<noteq> None);
          completing_la_heartbeat = (completing_heartbeat_autocomplete \<or> heartbeat_timeout_pending r);
          resp_chan = rac_resp_chan completion;
          data = \<lparr>cd_task_token = rac_task_token completion,
            cd_query_responses = rac_query_responses completion,
            cd_has_pending_query = rac_has_pending_query completion,
            cd_activation_was_eviction = rac_activation_was_eviction completion,
            cd_is_forced_failure = rac_is_forced_failure completion,
            cd_versioning_behavior = rac_versioning_behavior completion\<rparr>;
          r = with_machines r (add_lang_used_flags (mr_machines r) (rac_used_flags completion))
      in if rac_activation_was_eviction completion then prepare_step resp_chan data False r w
         else
           res_bind (apply_completion env completion update_from_new_page r w) (\<lambda>(outcome, r, w).
             case outcome of
               Inl e \<Rightarrow> Ok (Inl \<lparr>rue_source = e, rue_complete_resp_chan = resp_chan\<rparr>, r, w)
             | Inr None \<Rightarrow>
                 prepare_step resp_chan data completing_heartbeat_autocomplete
                   (r\<lparr>mr_waiting_on_la := None\<rparr>) (abort_waiting r w)
             | Inr (Some (start_t, wft_timeout)) \<Rightarrow>
                 let w = abort_waiting r w;
                     (h, w) = sink_heartbeat_timeout_start env (mr_run_id r) start_t wft_timeout w
                 in if completing_la_heartbeat \<or> cd_query_responses data \<noteq> [] then
                      prepare_step resp_chan data True
                        (r\<lparr>mr_waiting_on_la := Some \<lparr>wol_wft_timeout = wft_timeout, wol_hb_timeout_handle = h,
                             wol_heartbeat_timeout_pending = completing_la_heartbeat\<rparr>\<rparr>)
                        (abort_heartbeat h w)
                    else
                      Ok (Inr (Some \<lparr>fac_result = \<lparr>acr_replaying = wm_replaying (mr_machines r),
                                       acr_outcome = DoNothing\<rparr>, fac_resp_chan = resp_chan\<rparr>),
                          r\<lparr>mr_waiting_on_la := Some \<lparr>wol_wft_timeout = wft_timeout, wol_hb_timeout_handle = h,
                              wol_heartbeat_timeout_pending = False\<rparr>\<rparr>, w)))"

section \<open>Evictions and answers\<close>

text \<open>\<^verbatim>\<open>update_to_acts\<close> of an outcome whose error carries no completion to fail.\<close>

definition update_plain :: "RunEnv \<Rightarrow> (WFMachinesError + RunUpdateAct) step \<Rightarrow> RunUpdateAct step" where
  "update_plain env m =
     res_bind m (\<lambda>(v, r, w).
       case v of Inl e \<Rightarrow> auto_fail e r w | Inr act \<Rightarrow> mr_update_ok env (OutgoingAct act) (r, w))"

definition check_more_activations :: "RunEnv \<Rightarrow> ManagedRun \<Rightarrow> World \<Rightarrow> RunUpdateAct step" where
  "check_more_activations env r w = update_plain env (mr_check_more env r w)"

datatype EvictionRequestResult = EvictionRequested RunUpdateAct | NotFound | EvictionAlreadyRequested

fun into_run_update_resp :: "EvictionRequestResult \<Rightarrow> RunUpdateAct" where
  "into_run_update_resp (EvictionRequested resp) = resp"
| "into_run_update_resp NotFound = None"
| "into_run_update_resp EvictionAlreadyRequested = None"

text \<open>The part of \<^verbatim>\<open>request_eviction\<close> for a run that does not wait for a page.\<close>

definition note_eviction :: "RunEnv \<Rightarrow> RequestEvictMsg \<Rightarrow> ManagedRun \<Rightarrow> World \<Rightarrow> EvictionRequestResult step" where
  "note_eviction env info r w =
     (if \<not> activation_is_eviction r \<and> mr_trying_to_evict r = None then
        (let r = (if rem_reason info \<notin> {ER_CacheFull, ER_WorkflowExecutionEnding} \<and>
                      \<not> pending_work_is_legacy_query r
                  then r\<lparr>mr_wft := map_option (\<lambda>wft. wft\<lparr>ot_pending_queries := []\<rparr>) (mr_wft r)\<rparr> else r)
         in res_map (\<lambda>(act, rw). (EvictionRequested act, rw))
              (check_more_activations env (r\<lparr>mr_trying_to_evict := Some info\<rparr>) w))
      else Ok (EvictionAlreadyRequested, r\<lparr>mr_trying_to_evict := Some info\<rparr>, w))"

text \<open>
  A completion whose caller has gone away leads to an eviction; the request is not one for a page.
\<close>

definition reply_to_complete ::
    "RunEnv \<Rightarrow> ActivationCompleteOutcome \<Rightarrow> nat option \<Rightarrow> ManagedRun \<Rightarrow> World \<Rightarrow> unit step" where
  "reply_to_complete env outcome chan r w =
     (case chan of
        None \<Rightarrow> Ok ((), r, w)
      | Some c \<Rightarrow>
          if env_receiver_gone env c then
            res_map (\<lambda>(_, rw). ((), rw))
              (note_eviction env \<lparr>rem_run_id = mr_run_id r,
                 rem_message = ''The workflow task completer went missing! This likely indicates an SDK bug, please report.'',
                 rem_reason = ER_Fatal, rem_auto_reply_fail = None\<rparr> r w)
          else Ok ((), r, send_reply env c \<lparr>acr_replaying = wm_replaying (mr_machines r),
                 acr_outcome = outcome\<rparr> w))"

definition reply_and_return ::
    "RunEnv \<Rightarrow> ActivationCompleteOutcome \<Rightarrow> nat option \<Rightarrow> 'a \<Rightarrow> ManagedRun \<Rightarrow> World \<Rightarrow> 'a step" where
  "reply_and_return env outcome chan v r w =
     res_map (\<lambda>(_, rw). (v, rw)) (reply_to_complete env outcome chan r w)"

section \<open>Completions\<close>

text \<open>
  A failed completion may be turned into the completion that fails the workflow, which can fail in
  turn.  The functions below take the handler of such failures as an argument, and
  \<open>failed_completion\<close> ties the knot to a given depth.
\<close>

type_synonym fail_handler =
  "RunEnv \<Rightarrow> WorkflowTaskFailedCause \<Rightarrow> EvictionReason \<Rightarrow> CompletionFailure \<Rightarrow> bool \<Rightarrow> nat option \<Rightarrow>
   ManagedRun \<Rightarrow> World \<Rightarrow> RunUpdateAct step"

definition update_to_acts ::
    "fail_handler \<Rightarrow> RunEnv \<Rightarrow> (RunUpdateErr + ActOrFulfill) step \<Rightarrow> RunUpdateAct step" where
  "update_to_acts on_fail env m =
     res_bind m (\<lambda>(v, r, w).
       case v of
         Inr act_or_fulfill \<Rightarrow> mr_update_ok env act_or_fulfill (r, w)
       | Inl fail \<Rightarrow>
           let r = r\<lparr>mr_am_broken := True\<rparr>; source = rue_source fail
           in case rue_complete_resp_chan fail of
                Some chan \<Rightarrow>
                  on_fail env
                    (case source of Nondeterminism _ \<Rightarrow> WTFC_NonDeterministicError
                     | Fatal _ \<Rightarrow> WTFC_WorkflowWorkerUnhandledFailure)
                    (evict_reason source) (as_failure (env_error_text env) source) True (Some chan) r w
              | None \<Rightarrow> auto_fail source r w)"

definition map_step :: "('a \<Rightarrow> 'b) \<Rightarrow> 'a step \<Rightarrow> 'b step" where
  "map_step f m = res_map (\<lambda>(v, rw). (f v, rw)) m"

definition process_completion ::
    "fail_handler \<Rightarrow> RunEnv \<Rightarrow> RunActivationCompletion \<Rightarrow> HistoryUpdate option \<Rightarrow> ManagedRun \<Rightarrow> World \<Rightarrow>
     RunUpdateAct step" where
  "process_completion on_fail env completion update_from_new_page r w =
     update_to_acts on_fail env (map_step (map_sum (\<lambda>e. e) FulfillableComplete)
       (process_completion_inner env completion update_from_new_page r w))"

fun only_legacy_response :: "WFCommand list \<Rightarrow> string option" where
  "only_legacy_response [c] = (case query_result c of
     Some q \<Rightarrow> if q = LEGACY_QUERY_ID then Some q else None | None \<Rightarrow> None)"
| "only_legacy_response _ = None"

text \<open>A completion without a workflow task answers an eviction.\<close>

definition complete_without_task :: "RunEnv \<Rightarrow> nat option \<Rightarrow> ManagedRun \<Rightarrow> World \<Rightarrow> unit step" where
  "complete_without_task env resp_chan r w =
     (case mr_trying_to_evict r of
        Some te \<Rightarrow>
          (case rem_auto_reply_fail te of
             Some info \<Rightarrow>
               reply_to_complete env
                 (ReportWFTFail \<lparr>far_task_token = uwf_task_token info, far_attempt = uwf_attempt info,
                    far_cause = WTFC_WorkflowWorkerUnhandledFailure,
                    far_failure = CompletionFailure_from (application_failure (rem_message te) True),
                    far_kind = WFK_Task\<rparr>) resp_chan
                 (r\<lparr>mr_trying_to_evict := Some (te\<lparr>rem_auto_reply_fail := None\<rparr>)\<rparr>) w
           | None \<Rightarrow> reply_to_complete env DoNothing resp_chan r w)
      | None \<Rightarrow> reply_to_complete env DoNothing resp_chan r w)"

text \<open>The request for another page is the paginator to fetch it with.\<close>

definition successful_completion_with ::
    "fail_handler \<Rightarrow> RunEnv \<Rightarrow> WFCommand list \<Rightarrow> u32 list \<Rightarrow> VersioningBehavior \<Rightarrow> nat option \<Rightarrow> bool \<Rightarrow>
     ManagedRun \<Rightarrow> World \<Rightarrow> (HistoryPaginator + RunUpdateAct) step" where
  "successful_completion_with on_fail env commands used_flags versioning_behavior resp_chan is_forced_failure r w =
     (let activation_was_only_eviction = activation_is_eviction r;
          commands = (if activation_was_only_eviction then [] else commands)
      in case mr_wft r of
           None \<Rightarrow> map_step (\<lambda>_. Inr None) (complete_without_task env resp_chan r w)
         | Some entry \<Rightarrow>
             (case only_legacy_response commands of
                Some qr \<Rightarrow>
                  reply_and_return env
                    (ReportWFTSuccess (wti_task_token (ot_info entry)) (AA_RespondLegacyQuery qr))
                    resp_chan (Inr None) r w
              | None \<Rightarrow>
                  let (commands, query_responses) = mr_preprocess_command_sequence r commands;
                      rac = \<lparr>rac_task_token = wti_task_token (ot_info entry),
                        rac_start_time = ot_start_time entry, rac_commands = commands,
                        rac_activation_was_eviction = activation_is_eviction r,
                        rac_has_pending_query = (ot_pending_queries entry \<noteq> []),
                        rac_query_responses = query_responses, rac_used_flags = used_flags,
                        rac_is_forced_failure = is_forced_failure, rac_resp_chan = resp_chan,
                        rac_versioning_behavior = versioning_behavior\<rparr>
                  in if \<not> wfm_ready_to_apply_next_wft (mr_wfm r) then
                       (case mr_paginator r of
                          Some paginator \<Rightarrow>
                            Ok (Inl paginator, r\<lparr>mr_paginator := None,
                              mr_completion_waiting_on_page_fetch := Some rac\<rparr>, w)
                        | None \<Rightarrow>
                            map_step Inr (update_to_acts on_fail env
                              (Ok (Inl \<lparr>rue_source = Fatal OtherReason, rue_complete_resp_chan = resp_chan\<rparr>, r, w))))
                     else map_step Inr (process_completion on_fail env rac None r w)))"

definition request_eviction_with ::
    "fail_handler \<Rightarrow> RunEnv \<Rightarrow> RequestEvictMsg \<Rightarrow> ManagedRun \<Rightarrow> World \<Rightarrow> EvictionRequestResult step" where
  "request_eviction_with on_fail env info r w =
     (case mr_completion_waiting_on_page_fetch r of
        Some c \<Rightarrow>
          if rem_reason info = ER_PaginationOrHistoryFetch then
            map_step EvictionRequested
              (on_fail env WTFC_WorkflowWorkerUnhandledFailure (rem_reason info)
                 (CompletionFailure_from (application_failure (rem_message info) False)) True (rac_resp_chan c)
                 (r\<lparr>mr_completion_waiting_on_page_fetch := None\<rparr>) w)
          else note_eviction env info r w
      | None \<Rightarrow> note_eviction env info r w)"

text \<open>
  The text of the eviction message ends with a rendering of the failure, which is left out.
\<close>

fun failed_completion :: "nat \<Rightarrow> fail_handler" where
  "failed_completion 0 env cause reason failure is_auto_fail resp_chan r w = Err DepthExceeded"
| "failed_completion (Suc depth) env cause reason failure is_auto_fail resp_chan r w =
     (case mr_wft r of
        None \<Rightarrow> reply_and_return env DoNothing resp_chan None r w
      | Some t \<Rightarrow>
          let tt = wti_task_token (ot_info t);
              attempt = wti_attempt (ot_info t);
              is_no_report_query_fail = (pending_work_is_legacy_query r \<and> is_auto_fail \<and>
                reason \<in> {ER_Unspecified, ER_PaginationOrHistoryFetch})
          in res_bind
               (if is_no_report_query_fail then Ok (None, r, w)
                else map_step into_run_update_resp
                       (request_eviction_with (failed_completion depth) env
                          \<lparr>rem_run_id = mr_run_id r, rem_message = ''Workflow activation completion failed: '',
                           rem_reason = reason, rem_auto_reply_fail = None\<rparr> r w))
               (\<lambda>(rur, r, w).
                  let kind = (if \<not> pending_work_is_legacy_query r then WFK_Task
                              else if is_no_report_query_fail then WFK_RetryableLegacyQuery
                              else WFK_LegacyQuery)
                  in if kind = WFK_Task \<and> attempt \<le> 1 \<and> cause = WTFC_NonDeterministicError \<and>
                        should_fail_workflow (mr_config r) (wm_workflow_type (mr_machines r)) WET_Nondeterminism then
                       map_step (\<lambda>res. case res of Inr act \<Rightarrow> act | Inl _ \<Rightarrow> None)
                         (successful_completion_with (failed_completion depth) env
                            [\<lparr>wfc_variant = FailWorkflow (wcf_failure failure),
                              wfc_annotations = CommandAnnotations_default\<rparr>]
                            [] VB_Unspecified resp_chan True r w)
                     else
                       reply_and_return env
                         (ReportWFTFail \<lparr>far_task_token = tt, far_attempt = attempt, far_cause = cause,
                            far_failure = failure, far_kind = kind\<rparr>) resp_chan rur r w))"

definition successful_completion ::
    "nat \<Rightarrow> RunEnv \<Rightarrow> WFCommand list \<Rightarrow> u32 list \<Rightarrow> VersioningBehavior \<Rightarrow> nat option \<Rightarrow> bool \<Rightarrow>
     ManagedRun \<Rightarrow> World \<Rightarrow> (HistoryPaginator + RunUpdateAct) step" where
  "successful_completion depth = successful_completion_with (failed_completion depth)"

definition request_eviction :: "nat \<Rightarrow> RunEnv \<Rightarrow> RequestEvictMsg \<Rightarrow> ManagedRun \<Rightarrow> World \<Rightarrow> EvictionRequestResult step" where
  "request_eviction depth = request_eviction_with (failed_completion depth)"

definition fetched_page_completion ::
    "nat \<Rightarrow> RunEnv \<Rightarrow> HistoryUpdate \<Rightarrow> HistoryPaginator \<Rightarrow> ManagedRun \<Rightarrow> World \<Rightarrow> RunUpdateAct step" where
  "fetched_page_completion depth env update paginator r w =
     (let r = r\<lparr>mr_paginator := Some paginator\<rparr>
      in case mr_completion_waiting_on_page_fetch r of
           Some d \<Rightarrow>
             process_completion (failed_completion depth) env d (Some update)
               (r\<lparr>mr_completion_waiting_on_page_fetch := None\<rparr>) w
         | None \<Rightarrow> auto_fail (Fatal OtherReason) r w)"

section \<open>The other calls\<close>

definition incoming_wft :: "RunEnv \<Rightarrow> PermittedWFT \<Rightarrow> ManagedRun \<Rightarrow> World \<Rightarrow> RunUpdateAct step" where
  "incoming_wft env pwft r w = update_plain env (incoming env pwft r w)"

definition mr_new :: "RunEnv \<Rightarrow> RunBasics \<Rightarrow> RunConfig \<Rightarrow> PermittedWFT \<Rightarrow> World \<Rightarrow> RunUpdateAct step" where
  "mr_new env basics config wft w =
     incoming_wft env wft
       \<lparr>mr_wfm = wfm_new basics, mr_waiting_on_la = None, mr_am_broken = False, mr_wft = None,
        mr_activation = None, mr_task_buffer = BufferedTasks_default, mr_trying_to_evict = None,
        mr_paginator = None, mr_completion_waiting_on_page_fetch = None, mr_config = config\<rparr> w"

definition mr_local_resolution :: "RunEnv \<Rightarrow> LocalActivityResolution \<Rightarrow> ManagedRun \<Rightarrow> World \<Rightarrow> RunUpdateAct step" where
  "mr_local_resolution env res r w =
     update_plain env
       (if activation_is_eviction r \<or>
           (mr_trying_to_evict r \<noteq> None \<and> mr_activation r = None \<and> \<not> more_pending_work r)
        then mr_check_more env r w
        else
          try_bind (manager_call env MC_Notify (unit_call (\<lambda>m. notify_of_local_result (env_x env) m res)) r w)
            (\<lambda>_ r w. if mr_activation r = None then mr_check_more env r w else Ok (Inr None, r, w)))"

definition heartbeat_timeout :: "RunEnv \<Rightarrow> ManagedRun \<Rightarrow> World \<Rightarrow> RunUpdateAct step" where
  "heartbeat_timeout env r w =
     (case mr_waiting_on_la r of
        Some wait_dat \<Rightarrow>
          mr_update_ok env
            (OutgoingAct (if mr_activation r = None then Some (Autocomplete (mr_run_id r)) else None))
            (r\<lparr>mr_waiting_on_la := Some (wait_dat\<lparr>wol_heartbeat_timeout_pending := True\<rparr>)\<rparr>, abort_waiting r w)
      | None \<Rightarrow> mr_update_ok env (OutgoingAct None) (r, w))"

text \<open>No action is what is returned when the task was buffered.\<close>

definition buffer_wft_if_outstanding_work :: "PermittedWFT \<Rightarrow> ManagedRun \<Rightarrow> PermittedWFT option \<times> ManagedRun" where
  "buffer_wft_if_outstanding_work work r =
     (if mr_activation r \<noteq> None \<or> mr_trying_to_evict r \<noteq> None \<or> mr_wft r \<noteq> None \<or> more_pending_work r
      then (None, r\<lparr>mr_task_buffer := buffer (mr_task_buffer r) work\<rparr>)
      else (Some work, r))"

definition mark_wft_complete ::
    "RunEnv \<Rightarrow> WFTReportStatus \<Rightarrow> ManagedRun \<Rightarrow> World \<Rightarrow> OutstandingTask option \<times> ManagedRun \<times> World" where
  "mark_wft_complete env report_status r w =
     (let retme = mr_wft r;
          r = r\<lparr>mr_wft := None\<rparr>
      in case report_status of
           Reported reset_last_started_to \<Rightarrow>
             let r = (case reset_last_started_to of
                   Some i \<Rightarrow> with_machines r (reset_last_started_id (mr_machines r) i) | None \<Rightarrow> r)
             in (retme, r, snd (sink_reqs env [LAR_IndicateWorkflowTaskCompleted (mr_run_id r)] w))
         | _ \<Rightarrow> (retme, r, w))"

definition finish_activation ::
    "RunEnv \<Rightarrow> (OutstandingActivation \<Rightarrow> bool) \<Rightarrow> ManagedRun \<Rightarrow> World \<Rightarrow>
     (bool \<times> BufferedTasks) \<times> ManagedRun \<times> World" where
  "finish_activation env pred r w =
     (case mr_activation r of
        Some act \<Rightarrow>
          if pred act then
            (let r = r\<lparr>mr_activation := None\<rparr>
             in if act = OA_Eviction then
                  ((True, mr_task_buffer r), r\<lparr>mr_task_buffer := BufferedTasks_default\<rparr>,
                   snd (sink_reqs env [LAR_InvalidateRun (mr_run_id r)] w))
                else ((False, BufferedTasks_default), r, w))
          else ((False, BufferedTasks_default), r, w)
      | None \<Rightarrow> ((False, BufferedTasks_default), r, w))"

end
