(* ===== verification/WorkflowStream.thy ===== *)
theory WorkflowStream
  imports ManagedRun
begin

text \<open>
  The cache of runs (\<^verbatim>\<open>run_cache.rs\<close>) and the stream that directs every input to its run
  (\<^verbatim>\<open>workflow_stream.rs\<close>): which tasks have to wait for a slot of the cache, which history has to be
  fetched, which runs are asked to leave, and when the shutdown is complete.

  The cache is the \<^verbatim>\<open>LruCache\<close> of the crate \<^verbatim>\<open>lru\<close>.  Its operations are a parameter of the
  definitions, \<open>lru_laws\<close> states what its documentation says of them.  The stream handles one input
  at a time and nothing asynchronous happens while it does, so one input is one step.
\<close>

section \<open>The cache of runs\<close>

text \<open>
  \<open>lru_iter\<close> lists the entries, the most recently used one first.  \<open>lru_set\<close> is a write through the
  reference that \<open>lru_get_mut\<close> returned.
\<close>

record 'c LruCache =
  lru_new :: "nat \<Rightarrow> 'c"
  lru_iter :: "'c \<Rightarrow> (string \<times> ManagedRun) list"
  lru_cap :: "'c \<Rightarrow> nat"
  lru_get_mut :: "string \<Rightarrow> 'c \<Rightarrow> ManagedRun option \<times> 'c"
  lru_set :: "string \<Rightarrow> ManagedRun \<Rightarrow> 'c \<Rightarrow> 'c"
  lru_push :: "string \<Rightarrow> ManagedRun \<Rightarrow> 'c \<Rightarrow> (string \<times> ManagedRun) option \<times> 'c"
  lru_pop :: "string \<Rightarrow> 'c \<Rightarrow> ManagedRun option \<times> 'c"

definition lru_laws :: "'c LruCache \<Rightarrow> bool" where
  "lru_laws L \<longleftrightarrow>
     (\<forall>n. lru_iter L (lru_new L n) = [] \<and> lru_cap L (lru_new L n) = n) \<and>
     (\<forall>k c. fst (lru_get_mut L k c) = map_of (lru_iter L c) k \<and>
        lru_cap L (snd (lru_get_mut L k c)) = lru_cap L c \<and>
        lru_iter L (snd (lru_get_mut L k c)) =
          (case map_of (lru_iter L c) k of
             Some v \<Rightarrow> (k, v) # filter (\<lambda>e. fst e \<noteq> k) (lru_iter L c) | None \<Rightarrow> lru_iter L c)) \<and>
     (\<forall>k v c. lru_cap L (lru_set L k v c) = lru_cap L c \<and>
        lru_iter L (lru_set L k v c) = map (\<lambda>(k', v'). (k', if k' = k then v else v')) (lru_iter L c)) \<and>
     (\<forall>k v c. lru_cap L (snd (lru_push L k v c)) = lru_cap L c \<and>
        (map_of (lru_iter L c) k = None \<and> length (lru_iter L c) < lru_cap L c \<longrightarrow>
           fst (lru_push L k v c) = None \<and> lru_iter L (snd (lru_push L k v c)) = (k, v) # lru_iter L c)) \<and>
     (\<forall>k c. fst (lru_pop L k c) = map_of (lru_iter L c) k \<and>
        lru_cap L (snd (lru_pop L k c)) = lru_cap L c \<and>
        lru_iter L (snd (lru_pop L k c)) = filter (\<lambda>e. fst e \<noteq> k) (lru_iter L c))"

record 'c RunCache =
  rca_worker_config :: WorkerConfig
  rca_config :: RunConfig
  rca_sdk_name_and_version :: "string \<times> string"
  rca_server_capabilities :: bool
  rca_runs :: 'c

text \<open>In the mode with size 0 the run is evicted once its task is complete.\<close>

definition RunCache_new ::
    "'c LruCache \<Rightarrow> WorkerConfig \<Rightarrow> RunConfig \<Rightarrow> string \<times> string \<Rightarrow> bool \<Rightarrow> 'c RunCache" where
  "RunCache_new L worker_config config sdk_name_and_version capabilities =
     \<lparr>rca_worker_config = worker_config, rca_config = config,
      rca_sdk_name_and_version = sdk_name_and_version, rca_server_capabilities = capabilities,
      rca_runs = lru_new L (if rc_max_cached_workflows config > 0 then rc_max_cached_workflows config else 1)\<rparr>"

type_synonym ('a, 's) sstep = "('a \<times> 's \<times> World, RunStop) res"

abbreviation run_key :: "PermittedWFT \<Rightarrow> string" where
  "run_key pwft \<equiv> we_run_id (prep_execution (pwf_work pwft))"

definition run_basics :: "'c RunCache \<Rightarrow> PermittedWFT \<Rightarrow> RunBasics" where
  "run_basics rc pwft =
     \<lparr>rb_history = hu_dummy, rb_workflow_id = we_workflow_id (prep_execution (pwf_work pwft)),
      rb_workflow_type = prep_workflow_type (pwf_work pwft), rb_run_id = run_key pwft,
      rb_sdk_metadata_capability = rca_server_capabilities rc,
      rb_sdk_name = fst (rca_sdk_name_and_version rc), rb_sdk_version = snd (rca_sdk_name_and_version rc),
      rb_worker_config = rca_worker_config rc\<rparr>"

text \<open>A call on the run with the given id, if it is cached; looking it up makes it the most recent one.\<close>

definition with_run ::
    "'c LruCache \<Rightarrow> string \<Rightarrow> 'a \<Rightarrow> (ManagedRun \<Rightarrow> World \<Rightarrow> 'a step) \<Rightarrow> 'c RunCache \<Rightarrow> World \<Rightarrow>
     ('a, 'c RunCache) sstep" where
  "with_run L k absent f rc w =
     (case lru_get_mut L k (rca_runs rc) of
        (Some r, c) \<Rightarrow>
          res_map (\<lambda>(v, r, w). (v, rc\<lparr>rca_runs := lru_set L k r c\<rparr>, w)) (f r w)
      | (None, c) \<Rightarrow> Ok (absent, rc\<lparr>rca_runs := c\<rparr>, w))"

definition rc_instantiate_or_update ::
    "'c LruCache \<Rightarrow> RunEnv \<Rightarrow> PermittedWFT \<Rightarrow> 'c RunCache \<Rightarrow> World \<Rightarrow> (RunUpdateAct, 'c RunCache) sstep" where
  "rc_instantiate_or_update L env pwft rc w =
     (let run_id = run_key pwft
      in case lru_get_mut L run_id (rca_runs rc) of
           (Some r, c) \<Rightarrow>
             res_map (\<lambda>(rur, r, w). (rur, rc\<lparr>rca_runs := lru_set L run_id r c\<rparr>, w))
               (incoming_wft env pwft r w)
         | (None, c) \<Rightarrow>
             res_bind (mr_new env (run_basics rc pwft) (rca_config rc) pwft w) (\<lambda>(rur, r, w).
               case lru_push L run_id r c of
                 (None, c) \<Rightarrow> Ok (rur, rc\<lparr>rca_runs := c\<rparr>, w)
               | (Some _, _) \<Rightarrow> Err CacheOverflow))"

definition rc_remove :: "'c LruCache \<Rightarrow> string \<Rightarrow> 'c RunCache \<Rightarrow> 'c RunCache" where
  "rc_remove L k rc = rc\<lparr>rca_runs := snd (lru_pop L k (rca_runs rc))\<rparr>"

definition rc_touch :: "'c LruCache \<Rightarrow> string \<Rightarrow> 'c RunCache \<Rightarrow> ManagedRun option \<times> 'c RunCache" where
  "rc_touch L k rc =
     (case lru_get_mut L k (rca_runs rc) of (r, c) \<Rightarrow> (r, rc\<lparr>rca_runs := c\<rparr>))"

definition runs_lru_order :: "'c LruCache \<Rightarrow> 'c RunCache \<Rightarrow> (string \<times> ManagedRun) list" where
  "runs_lru_order L rc = rev (lru_iter L (rca_runs rc))"

definition current_lru_run :: "'c LruCache \<Rightarrow> 'c RunCache \<Rightarrow> string option" where
  "current_lru_run L rc = (case runs_lru_order L rc of [] \<Rightarrow> None | e # _ \<Rightarrow> Some (fst e))"

definition has_run :: "'c LruCache \<Rightarrow> 'c RunCache \<Rightarrow> string \<Rightarrow> bool" where
  "has_run L rc k \<longleftrightarrow> map_of (lru_iter L (rca_runs rc)) k \<noteq> None"

definition rc_handles :: "'c LruCache \<Rightarrow> 'c RunCache \<Rightarrow> ManagedRun list" where
  "rc_handles L rc = map snd (lru_iter L (rca_runs rc))"

definition is_full :: "'c LruCache \<Rightarrow> 'c RunCache \<Rightarrow> bool" where
  "is_full L rc \<longleftrightarrow> lru_cap L (rca_runs rc) = length (lru_iter L (rca_runs rc))"

definition cache_capacity :: "'c RunCache \<Rightarrow> nat" where
  "cache_capacity rc = rc_max_cached_workflows (rca_config rc)"

section \<open>Inputs and outputs\<close>

datatype HistoryFetchReq = HF_Full PermittedWFT | HF_NextPage HistoryPaginator

record PostActivationMsg =
  pam_run_id :: string
  pam_wft_report_status :: WFTReportStatus
  pam_wft_from_complete :: "(PreparedWFT \<times> HistoryPaginator) option"
  pam_is_autocomplete :: bool

text \<open>The page of a run carries the id of the run in its paginator.\<close>

datatype LocalInputs =
    LI_Completion ValidatedCompletion "nat option"
  | LI_FetchedPageCompletion HistoryPaginator HistoryUpdate
  | LI_LocalResolution string LocalActivityResolution
  | LI_PostActivation PostActivationMsg
  | LI_RequestEviction RequestEvictMsg
  | LI_HeartbeatTimeout string
  | LI_LocalActivityCancelProcessed string
  | LI_GetStateInfo
  | LI_BumpStream

datatype WFStreamInput =
    WSI_NewWft PermittedWFT
  | WSI_Local LocalInputs
  | WSI_PollerDead
  | WSI_PollerError string
  | WSI_FailedFetch string string "UnstoredWftFailInfo option"

datatype WFTExtractorOutput =
    WEO_NewWFT PermittedWFT
  | WEO_FetchResult PermittedWFT
  | WEO_NextPage HistoryPaginator HistoryUpdate
  | WEO_FailedFetch string string "UnstoredWftFailInfo option"
  | WEO_PollerDead

datatype ExternalPollerInputs =
    EPI_NewWft PermittedWFT
  | EPI_PollerDead
  | EPI_PollerError string
  | EPI_FetchedUpdate PermittedWFT
  | EPI_NextPage HistoryPaginator HistoryUpdate
  | EPI_FailedFetch string string "UnstoredWftFailInfo option"

fun external_from :: "string + WFTExtractorOutput \<Rightarrow> ExternalPollerInputs" where
  "external_from (Inr (WEO_NewWFT pwft)) = EPI_NewWft pwft"
| "external_from (Inr (WEO_FetchResult updated_wft)) = EPI_FetchedUpdate updated_wft"
| "external_from (Inr (WEO_NextPage paginator update)) = EPI_NextPage paginator update"
| "external_from (Inr (WEO_FailedFetch run_id err auto_reply_fail)) = EPI_FailedFetch run_id err auto_reply_fail"
| "external_from (Inr WEO_PollerDead) = EPI_PollerDead"
| "external_from (Inl e) = EPI_PollerError e"

fun input_from_external :: "ExternalPollerInputs \<Rightarrow> WFStreamInput" where
  "input_from_external (EPI_NewWft v) = WSI_NewWft v"
| "input_from_external EPI_PollerDead = WSI_PollerDead"
| "input_from_external (EPI_PollerError e) = WSI_PollerError e"
| "input_from_external (EPI_FetchedUpdate wft) = WSI_NewWft wft"
| "input_from_external (EPI_FailedFetch run_id err auto_reply_fail) = WSI_FailedFetch run_id err auto_reply_fail"
| "input_from_external (EPI_NextPage paginator update) =
     WSI_Local (LI_FetchedPageCompletion paginator update)"

fun completion_run_id :: "ValidatedCompletion \<Rightarrow> string" where
  "completion_run_id (VC_Success run_id _ _ _) = run_id"
| "completion_run_id (VC_Fail run_id _ _) = run_id"

fun input_run_id :: "LocalInputs \<Rightarrow> string option" where
  "input_run_id (LI_Completion c _) = Some (completion_run_id c)"
| "input_run_id (LI_FetchedPageCompletion paginator _) = Some (hp_run_id paginator)"
| "input_run_id (LI_LocalResolution run_id _) = Some run_id"
| "input_run_id (LI_PostActivation pa) = Some (pam_run_id pa)"
| "input_run_id (LI_RequestEviction re) = Some (rem_run_id re)"
| "input_run_id (LI_HeartbeatTimeout run_id) = Some run_id"
| "input_run_id (LI_LocalActivityCancelProcessed run_id) = Some run_id"
| "input_run_id LI_GetStateInfo = None"
| "input_run_id LI_BumpStream = None"

datatype WorkflowStreamAction =
  WSA_Activation ActivationOrAuto | WSA_FailUnstoredWft string FailedActivationWFTReport

record WFStreamOutput =
  wso_actions :: "WorkflowStreamAction list"
  wso_fetch_histories :: "HistoryFetchReq list"

datatype PollError = TonicError string | ShutDown

section \<open>The stream\<close>

record 'c WFStream =
  ws_runs :: "'c RunCache"
  ws_buffered_polls_need_cache_slot :: "PermittedWFT list list"
  ws_runs_needing_fetching :: "HistoryFetchReq list"
  ws_shutdown_token :: bool
  ws_ignore_evicts_on_shutdown :: bool

text \<open>
  What the step cannot know: the environment of a call on a run, whether the token was cancelled by
  others, and whether somebody still holds a reference to a fetch request that was handed out.
\<close>

record StreamEnv =
  se_run :: RunEnv
  se_shutdown_requested :: bool
  se_fetches_held :: bool

definition ws_new :: "'c RunCache \<Rightarrow> bool \<Rightarrow> 'c WFStream" where
  "ws_new rc ignore_evicts =
     \<lparr>ws_runs = rc, ws_buffered_polls_need_cache_slot = [], ws_runs_needing_fetching = [],
      ws_shutdown_token = False, ws_ignore_evicts_on_shutdown = ignore_evicts\<rparr>"

definition on_cache ::
    "('c RunCache \<Rightarrow> World \<Rightarrow> ('a, 'c RunCache) sstep) \<Rightarrow> 'c WFStream \<Rightarrow> World \<Rightarrow> ('a, 'c WFStream) sstep" where
  "on_cache f s w = res_map (\<lambda>(v, rc, w). (v, s\<lparr>ws_runs := rc\<rparr>, w)) (f (ws_runs s) w)"

definition buffer_resp_on_full_cache :: "PermittedWFT \<Rightarrow> PermittedWFT list list \<Rightarrow> PermittedWFT list list" where
  "buffer_resp_on_full_cache work polls =
     (let same = (\<lambda>ws. case ws of [] \<Rightarrow> False | x # _ \<Rightarrow> run_key x = run_key work)
      in case dropWhile (\<lambda>ws. \<not> same ws) polls of
           [] \<Rightarrow> polls @ [[work]]
         | ws # rest \<Rightarrow> takeWhile (\<lambda>ws. \<not> same ws) polls @ (ws @ [work]) # rest)"

text \<open>\<^verbatim>\<open>_instantiate_or_update\<close>; the left alternative is the history to fetch.\<close>

definition try_instantiate_or_update ::
    "'c LruCache \<Rightarrow> RunEnv \<Rightarrow> PermittedWFT \<Rightarrow> 'c WFStream \<Rightarrow> World \<Rightarrow>
     (HistoryFetchReq + RunUpdateAct, 'c WFStream) sstep" where
  "try_instantiate_or_update L env pwft s w =
     res_bind (on_cache (with_run L (run_key pwft) (Some pwft)
         (\<lambda>r w. case buffer_wft_if_outstanding_work pwft r of (v, r) \<Rightarrow> Ok (v, r, w))) s w) (\<lambda>(v, s, w).
       case v of
         None \<Rightarrow> Ok (Inr None, s, w)
       | Some pwft \<Rightarrow>
           let run_id = run_key pwft
           in if \<not> has_run L (ws_runs s) run_id \<and> is_full L (ws_runs s) then
                Ok (Inr None, s\<lparr>ws_buffered_polls_need_cache_slot :=
                      buffer_resp_on_full_cache pwft (ws_buffered_polls_need_cache_slot s)\<rparr>, w)
              else if \<not> has_run L (ws_runs s) run_id \<and> is_incremental (pwf_work pwft) then
                Ok (Inl (HF_Full pwft), s, w)
              else res_map (\<lambda>(rur, sw). (Inr rur, sw)) (on_cache (rc_instantiate_or_update L env pwft) s w))"

definition ws_instantiate_or_update ::
    "'c LruCache \<Rightarrow> RunEnv \<Rightarrow> PermittedWFT \<Rightarrow> 'c WFStream \<Rightarrow> World \<Rightarrow> (RunUpdateAct, 'c WFStream) sstep" where
  "ws_instantiate_or_update L env pwft s w =
     res_map (\<lambda>(v, s, w). case v of
         Inl histfetch \<Rightarrow>
           (None, s\<lparr>ws_runs_needing_fetching := ws_runs_needing_fetching s @ [histfetch]\<rparr>, w)
       | Inr r \<Rightarrow> (r, s, w))
       (try_instantiate_or_update L env pwft s w)"

definition ws_request_eviction ::
    "'c LruCache \<Rightarrow> nat \<Rightarrow> RunEnv \<Rightarrow> RequestEvictMsg \<Rightarrow> 'c WFStream \<Rightarrow> World \<Rightarrow>
     (EvictionRequestResult, 'c WFStream) sstep" where
  "ws_request_eviction L depth env info s w =
     on_cache (with_run L (rem_run_id info) NotFound (request_eviction depth env info)) s w"

definition cache_full_msg :: "string \<Rightarrow> RequestEvictMsg" where
  "cache_full_msg run_id = \<lparr>rem_run_id = run_id, rem_message = ''Workflow cache full'',
     rem_reason = ER_CacheFull, rem_auto_reply_fail = None\<rparr>"

definition request_eviction_of_lru_run ::
    "'c LruCache \<Rightarrow> nat \<Rightarrow> RunEnv \<Rightarrow> 'c WFStream \<Rightarrow> World \<Rightarrow> (EvictionRequestResult, 'c WFStream) sstep" where
  "request_eviction_of_lru_run L depth env s w =
     (case current_lru_run L (ws_runs s) of
        Some run_id \<Rightarrow> ws_request_eviction L depth env (cache_full_msg run_id) s w
      | None \<Rightarrow> Ok (NotFound, s, w))"

subsection \<open>Completions\<close>

datatype NewOrFetchedComplete =
  NC_New ValidatedCompletion "nat option" | NC_Fetched HistoryUpdate HistoryPaginator

fun complete_run_id :: "NewOrFetchedComplete \<Rightarrow> string" where
  "complete_run_id (NC_New c _) = completion_run_id c"
| "complete_run_id (NC_Fetched _ p) = hp_run_id p"

text \<open>What the run makes of a completion: the page it asks for, or an activation.\<close>

fun complete_on_run ::
    "nat \<Rightarrow> RunEnv \<Rightarrow> NewOrFetchedComplete \<Rightarrow> ManagedRun \<Rightarrow> World \<Rightarrow> (HistoryPaginator + RunUpdateAct) step" where
  "complete_on_run depth env (NC_New (VC_Success _ commands used_flags versioning_behavior) response_tx) r w =
     successful_completion depth env commands used_flags versioning_behavior response_tx False r w"
| "complete_on_run depth env (NC_New (VC_Fail _ failure is_autocomplete) response_tx) r w =
     map_step Inr (failed_completion depth env
       (if wcf_force_cause failure = WTFC_Unspecified then WTFC_WorkflowWorkerUnhandledFailure
        else wcf_force_cause failure)
       (if is_autocomplete then ER_Unspecified else ER_LangFail) failure is_autocomplete response_tx r w)"
| "complete_on_run depth env (NC_Fetched update paginator) r w =
     map_step Inr (fetched_page_completion depth env update paginator r w)"

definition may_make_room :: "ManagedRun \<Rightarrow> bool" where
  "may_make_room r \<longleftrightarrow> mr_waiting_on_la r = None \<and> \<not> more_pending_work r"

text \<open>A run that is missing is reported and ignored.\<close>

definition ws_process_completion ::
    "'c LruCache \<Rightarrow> nat \<Rightarrow> RunEnv \<Rightarrow> NewOrFetchedComplete \<Rightarrow> 'c WFStream \<Rightarrow> World \<Rightarrow>
     (ActivationOrAuto list, 'c WFStream) sstep" where
  "ws_process_completion L depth env compl s w =
     res_bind (on_cache (with_run L (complete_run_id compl) None
         (\<lambda>r w. res_map (\<lambda>(v, r, w). (Some (v, may_make_room r), r, w)) (complete_on_run depth env compl r w)))
         s w) (\<lambda>(v, s, w).
       case v of
         None \<Rightarrow> Ok ([], s, w)
       | Some (res, room) \<Rightarrow>
           let (acts, s) = (case res of
                 Inl npr \<Rightarrow> ([], s\<lparr>ws_runs_needing_fetching := ws_runs_needing_fetching s @ [HF_NextPage npr]\<rparr>)
               | Inr act \<Rightarrow> (case act of Some a \<Rightarrow> [a] | None \<Rightarrow> [], s))
           in if cache_capacity (ws_runs s) = 0 \<and> room then
                res_map (\<lambda>(e, sw). (acts @ (case into_run_update_resp e of Some a \<Rightarrow> [a] | None \<Rightarrow> []), sw))
                  (request_eviction_of_lru_run L depth env s w)
              else Ok (acts, s, w))"

subsection \<open>After an activation\<close>

definition complete_wft ::
    "'c LruCache \<Rightarrow> RunEnv \<Rightarrow> string \<Rightarrow> WFTReportStatus \<Rightarrow> 'c WFStream \<Rightarrow> World \<Rightarrow>
     (OutstandingTask option, 'c WFStream) sstep" where
  "complete_wft L env run_id wft_report_status s w =
     (let (found, rc) = rc_touch L run_id (ws_runs s);
          s = s\<lparr>ws_runs := rc\<rparr>;
          saw_final = (case found of Some r \<Rightarrow> wm_have_seen_terminal_event (mr_machines r) | None \<Rightarrow> False)
      in if \<not> saw_final \<and> wft_report_status = NotReported then Ok (None, s, w)
         else
           on_cache (with_run L run_id None (\<lambda>r w.
             if (case mr_wft r of Some wft \<Rightarrow> ot_pending_queries wft \<noteq> [] | None \<Rightarrow> False) then Ok (None, r, w)
             else Ok (mark_wft_complete env wft_report_status r w))) s w)"

text \<open>The tasks that follow the first one.  An activation after the first is lost, and reported as a bug.\<close>

fun instantiate_rest ::
    "'c LruCache \<Rightarrow> RunEnv \<Rightarrow> PermittedWFT list \<Rightarrow> RunUpdateAct \<Rightarrow> 'c WFStream \<Rightarrow> World \<Rightarrow>
     (RunUpdateAct, 'c WFStream) sstep" where
  "instantiate_rest L env [] res s w = Ok (res, s, w)"
| "instantiate_rest L env (wft # wfts) res s w =
     res_bind (ws_instantiate_or_update L env wft s w) (\<lambda>(act, s, w).
       instantiate_rest L env wfts (if res = None then act else res) s w)"

text \<open>The last of the tasks that wait is the first one to be handled.\<close>

definition resume_buffered ::
    "'c LruCache \<Rightarrow> RunEnv \<Rightarrow> bool \<Rightarrow> BufferedTasks \<Rightarrow> PermittedWFT option \<Rightarrow> 'c WFStream \<Rightarrow> World \<Rightarrow>
     (RunUpdateAct, 'c WFStream) sstep" where
  "resume_buffered L env should_evict maybe_buffered wft_from_complete s w =
     (let (next_task, maybe_buffered) = get_next_wft maybe_buffered;
          ready = (if next_task \<noteq> None then next_task else wft_from_complete);
          (maybe_wfts, s) = (case ready of
              Some x \<Rightarrow> ([x], s)
            | None \<Rightarrow>
                if should_evict then
                  (case ws_buffered_polls_need_cache_slot s of
                     polls # rest \<Rightarrow> (polls, s\<lparr>ws_buffered_polls_need_cache_slot := rest\<rparr>)
                   | [] \<Rightarrow> ([], s))
                else ([], s))
      in res_bind
           (if maybe_wfts = [] then Ok (None, s, w)
            else ws_instantiate_or_update L env (last maybe_wfts) s w) (\<lambda>(res, s, w).
         instantiate_rest L env (butlast maybe_wfts @ into_buffer_order maybe_buffered) res s w))"

definition finish_and_resume ::
    "'c LruCache \<Rightarrow> RunEnv \<Rightarrow> PostActivationMsg \<Rightarrow> PermittedWFT option \<Rightarrow> 'c WFStream \<Rightarrow> World \<Rightarrow>
     (RunUpdateAct, 'c WFStream) sstep" where
  "finish_and_resume L env report wft_from_complete s w =
     res_bind (on_cache (with_run L (pam_run_id report) None (\<lambda>r w.
         res_map (\<lambda>(v, r, w). (Some v, r, w)) (Ok (finish_activation env
           (\<lambda>act. \<not> pam_is_autocomplete report \<or> act = OA_Autocomplete) r w)))) s w) (\<lambda>(v, s, w).
       case v of
         None \<Rightarrow> Ok (None, s, w)
       | Some (should_evict, maybe_buffered) \<Rightarrow>
           resume_buffered L env should_evict maybe_buffered wft_from_complete
             (if should_evict then s\<lparr>ws_runs := rc_remove L (pam_run_id report) (ws_runs s)\<rparr> else s) w)"

definition is_reported :: "WFTReportStatus \<Rightarrow> bool" where
  "is_reported st \<longleftrightarrow> (case st of Reported _ \<Rightarrow> True | _ \<Rightarrow> False)"

text \<open>The next activation of the run, or its eviction once its completion was reported.\<close>

definition more_or_evict ::
    "nat \<Rightarrow> RunEnv \<Rightarrow> PostActivationMsg \<Rightarrow> ManagedRun \<Rightarrow> World \<Rightarrow> RunUpdateAct step" where
  "more_or_evict depth env report r w =
     res_bind (check_more_activations env r w) (\<lambda>(res, r, w).
       if res = None \<and> workflow_is_finished (mr_machines r) \<and> is_reported (pam_wft_report_status report) then
         map_step into_run_update_resp (request_eviction depth env
           \<lparr>rem_run_id = pam_run_id report, rem_message = ''Workflow completed'',
            rem_reason = ER_WorkflowExecutionEnding, rem_auto_reply_fail = None\<rparr> r w)
       else Ok (res, r, w))"

definition process_post_activation ::
    "'c LruCache \<Rightarrow> nat \<Rightarrow> RunEnv \<Rightarrow> PostActivationMsg \<Rightarrow> 'c WFStream \<Rightarrow> World \<Rightarrow> (RunUpdateAct, 'c WFStream) sstep" where
  "process_post_activation L depth env report s w =
     res_bind (complete_wft L env (pam_run_id report) (pam_wft_report_status report) s w) (\<lambda>(maybe_t, s, w).
     let wft_from_complete = (if maybe_t = None then None
           else map_option (\<lambda>(work, paginator). \<lparr>pwf_work = work, pwf_paginator = paginator\<rparr>)
                  (pam_wft_from_complete report))
     in res_bind (finish_and_resume L env report wft_from_complete s w) (\<lambda>(res, s, w).
        if res = None then on_cache (with_run L (pam_run_id report) None (more_or_evict depth env report)) s w
        else Ok (res, s, w)))"

subsection \<open>One input\<close>

fun evictions_for :: "(string \<times> ManagedRun) list \<Rightarrow> nat \<Rightarrow> string list" where
  "evictions_for [] n = []"
| "evictions_for ((rid, handle) # rest) n =
     (if n = 0 then []
      else if \<not> has_tasks (mr_task_buffer handle) then rid # evictions_for rest (n - 1)
      else evictions_for rest n)"

fun evict_each ::
    "'c LruCache \<Rightarrow> nat \<Rightarrow> RunEnv \<Rightarrow> string list \<Rightarrow> 'c WFStream \<Rightarrow> World \<Rightarrow>
     (ActivationOrAuto list, 'c WFStream) sstep" where
  "evict_each L depth env [] s w = Ok ([], s, w)"
| "evict_each L depth env (rid # rids) s w =
     res_bind (ws_request_eviction L depth env (cache_full_msg rid) s w) (\<lambda>(e, s, w).
     res_map (\<lambda>(acts, sw). ((case into_run_update_resp e of Some a \<Rightarrow> [a] | None \<Rightarrow> []) @ acts, sw))
       (evict_each L depth env rids s w))"

definition pending_evictions :: "'c LruCache \<Rightarrow> 'c RunCache \<Rightarrow> nat" where
  "pending_evictions L rc = length (filter (\<lambda>(_, h). mr_trying_to_evict h \<noteq> None) (runs_lru_order L rc))"

definition reconcile_buffered ::
    "'c LruCache \<Rightarrow> nat \<Rightarrow> RunEnv \<Rightarrow> 'c WFStream \<Rightarrow> World \<Rightarrow> (ActivationOrAuto list, 'c WFStream) sstep" where
  "reconcile_buffered L depth env s w =
     (let num_in_buff = length (ws_buffered_polls_need_cache_slot s)
      in if num_in_buff = 0 then Ok ([], s, w)
         else evict_each L depth env
                (evictions_for (runs_lru_order L (ws_runs s)) (num_in_buff - pending_evictions L (ws_runs s))) s w)"

definition shutdown_done :: "'c LruCache \<Rightarrow> StreamEnv \<Rightarrow> 'c WFStream \<Rightarrow> bool" where
  "shutdown_done L env s \<longleftrightarrow>
     (ws_shutdown_token s \<or> se_shutdown_requested env) \<and>
     \<not> (se_fetches_held env \<or> ws_runs_needing_fetching s \<noteq> []) \<and>
     list_all (\<lambda>r. \<not> has_any_pending_work r (ws_ignore_evicts_on_shutdown s) False) (rc_handles L (ws_runs s))"

definition outstanding_wfts :: "'c LruCache \<Rightarrow> 'c WFStream \<Rightarrow> nat" where
  "outstanding_wfts L s = length (filter (\<lambda>r. mr_wft r \<noteq> None) (rc_handles L (ws_runs s)))"

text \<open>The answer to a request for the state of the worker: the cached runs and the tasks at work.\<close>

definition state_info :: "'c LruCache \<Rightarrow> 'c WFStream \<Rightarrow> nat \<times> nat" where
  "state_info L s = (length (lru_iter L (rca_runs (ws_runs s))), outstanding_wfts L s)"

definition opt_list :: "('a option, 's) sstep \<Rightarrow> ('a list, 's) sstep" where
  "opt_list m = res_map (\<lambda>(v, sw). (case v of Some a \<Rightarrow> [a] | None \<Rightarrow> [], sw)) m"

fun process_local ::
    "'c LruCache \<Rightarrow> nat \<Rightarrow> RunEnv \<Rightarrow> LocalInputs \<Rightarrow> 'c WFStream \<Rightarrow> World \<Rightarrow> (ActivationOrAuto list, 'c WFStream) sstep" where
  "process_local L depth env (LI_Completion c response_tx) s w =
     ws_process_completion L depth env (NC_New c response_tx) s w"
| "process_local L depth env (LI_FetchedPageCompletion paginator update) s w =
     ws_process_completion L depth env (NC_Fetched update paginator) s w"
| "process_local L depth env (LI_PostActivation report) s w =
     opt_list (process_post_activation L depth env report s w)"
| "process_local L depth env (LI_LocalResolution run_id res) s w =
     opt_list (on_cache (with_run L run_id None (mr_local_resolution env res)) s w)"
| "process_local L depth env (LI_HeartbeatTimeout run_id) s w =
     opt_list (on_cache (with_run L run_id None (heartbeat_timeout env)) s w)"
| "process_local L depth env (LI_LocalActivityCancelProcessed run_id) s w =
     opt_list (on_cache (with_run L run_id None (check_more_activations env)) s w)"
| "process_local L depth env (LI_RequestEviction evict) s w =
     opt_list (res_map (\<lambda>(e, sw). (into_run_update_resp e, sw)) (ws_request_eviction L depth env evict s w))"
| "process_local L depth env LI_GetStateInfo s w = Ok ([], s, w)"
| "process_local L depth env LI_BumpStream s w = Ok ([], s, w)"

text \<open>The span fields are recorded on the run, whose lookup makes it the most recent one.\<close>

definition record_span_fields :: "'c LruCache \<Rightarrow> LocalInputs \<Rightarrow> 'c WFStream \<Rightarrow> 'c WFStream" where
  "record_span_fields L i s =
     (case input_run_id i of
        Some rid \<Rightarrow> s\<lparr>ws_runs := snd (rc_touch L rid (ws_runs s))\<rparr> | None \<Rightarrow> s)"

definition failed_fetch ::
    "'c LruCache \<Rightarrow> nat \<Rightarrow> RunEnv \<Rightarrow> string \<Rightarrow> string \<Rightarrow> UnstoredWftFailInfo option \<Rightarrow> 'c WFStream \<Rightarrow> World \<Rightarrow>
     (WorkflowStreamAction list, 'c WFStream) sstep" where
  "failed_fetch L depth env run_id err auto_reply_fail s w =
     (let message = ''Fetching history failed: '' @ err
      in case (has_run L (ws_runs s) run_id, auto_reply_fail) of
           (False, Some info) \<Rightarrow>
             Ok ([WSA_FailUnstoredWft run_id
                    \<lparr>far_task_token = uwf_task_token info, far_attempt = uwf_attempt info,
                     far_cause = WTFC_WorkflowWorkerUnhandledFailure,
                     far_failure = CompletionFailure_from (application_failure message True),
                     far_kind = WFK_Task\<rparr>], s, w)
         | _ \<Rightarrow>
             res_map (\<lambda>(acts, sw). (map WSA_Activation acts, sw))
               (opt_list (res_map (\<lambda>(e, sw). (into_run_update_resp e, sw))
                 (ws_request_eviction L depth env \<lparr>rem_run_id = run_id, rem_message = message,
                    rem_reason = ER_PaginationOrHistoryFetch, rem_auto_reply_fail = auto_reply_fail\<rparr> s w))))"

fun handle_input ::
    "'c LruCache \<Rightarrow> nat \<Rightarrow> RunEnv \<Rightarrow> WFStreamInput \<Rightarrow> 'c WFStream \<Rightarrow> World \<Rightarrow>
     (WorkflowStreamAction list, 'c WFStream) sstep" where
  "handle_input L depth env (WSI_NewWft pwft) s w =
     res_map (\<lambda>(acts, sw). (map WSA_Activation acts, sw)) (opt_list (ws_instantiate_or_update L env pwft s w))"
| "handle_input L depth env (WSI_Local i) s w =
     res_map (\<lambda>(acts, sw). (map WSA_Activation acts, sw))
       (process_local L depth env i (record_span_fields L i s) w)"
| "handle_input L depth env (WSI_FailedFetch run_id err auto_reply_fail) s w =
     failed_fetch L depth env run_id err auto_reply_fail s w"
| "handle_input L depth env WSI_PollerDead s w = Ok ([], s\<lparr>ws_shutdown_token := True\<rparr>, w)"
| "handle_input L depth env (WSI_PollerError _) s w = Ok ([], s, w)"

definition stream_step ::
    "'c LruCache \<Rightarrow> nat \<Rightarrow> StreamEnv \<Rightarrow> WFStreamInput \<Rightarrow> 'c WFStream \<Rightarrow> World \<Rightarrow>
     (PollError + WFStreamOutput, 'c WFStream) sstep" where
  "stream_step L depth env input s w =
     (case input of
        WSI_PollerError e \<Rightarrow> Ok (Inl (TonicError e), s, w)
      | _ \<Rightarrow>
          res_bind (handle_input L depth (se_run env) input s w) (\<lambda>(actions, s, w).
          res_map (\<lambda>(acts, s, w).
              if shutdown_done L env s then (Inl ShutDown, s, w)
              else (Inr \<lparr>wso_actions = actions @ map WSA_Activation acts,
                         wso_fetch_histories = ws_runs_needing_fetching s\<rparr>,
                    s\<lparr>ws_runs_needing_fetching := []\<rparr>, w))
            (reconcile_buffered L depth (se_run env) s w)))"

text \<open>The outputs up to the end of the shutdown, which is not handed on.\<close>

fun stream_outputs ::
    "'c LruCache \<Rightarrow> nat \<Rightarrow> (StreamEnv \<times> WFStreamInput) list \<Rightarrow> 'c WFStream \<Rightarrow> World \<Rightarrow>
     ((PollError + WFStreamOutput) list, 'c WFStream) sstep" where
  "stream_outputs L depth [] s w = Ok ([], s, w)"
| "stream_outputs L depth ((env, input) # rest) s w =
     res_bind (stream_step L depth env input s w) (\<lambda>(out, s, w).
       if out = Inl ShutDown then Ok ([], s, w)
       else res_map (\<lambda>(outs, sw). (out # outs, sw)) (stream_outputs L depth rest s w))"

end
