(* ===== verification/RunContracts.thy ===== *)
theory RunContracts
  imports WorkflowStream
begin

text \<open>
  What the calls on a run promise.  \<open>steps\<close> states what holds of a call's result; its rules follow the
  way the calls are composed.  Shown here: at most one activation is outstanding, what becomes
  outstanding is what goes out, and which calls answer a completion.
\<close>

section \<open>Results of calls\<close>

definition steps :: "('a, 's) sstep \<Rightarrow> (RunStop \<Rightarrow> bool) \<Rightarrow> ('a \<Rightarrow> 's \<Rightarrow> World \<Rightarrow> bool) \<Rightarrow> bool" where
  "steps m E Q \<longleftrightarrow> (case m of Ok (v, r, w) \<Rightarrow> Q v r w | Err e \<Rightarrow> E e | Panic \<Rightarrow> True)"

lemma steps_simps [simp]:
  "steps (Ok (v, r, w)) E Q \<longleftrightarrow> Q v r w" "steps (Err e) E Q \<longleftrightarrow> E e" "steps Panic E Q"
  by (simp_all add: steps_def)

lemma stepsD: "steps m E Q \<Longrightarrow> m = Ok (v, r, w) \<Longrightarrow> Q v r w"
  by simp

lemma steps_mono:
  "steps m E Q \<Longrightarrow> (\<And>e. E e \<Longrightarrow> E' e) \<Longrightarrow> (\<And>v r w. m = Ok (v, r, w) \<Longrightarrow> Q v r w \<Longrightarrow> Q' v r w) \<Longrightarrow> steps m E' Q'"
  by (auto simp: steps_def split: res.splits)

lemma steps_bind:
  assumes "steps m E Q" "\<And>v r w. m = Ok (v, r, w) \<Longrightarrow> Q v r w \<Longrightarrow> steps (f (v, r, w)) E Q'"
  shows "steps (res_bind m f) E Q'"
proof (cases m)
  case (Ok p)
  then show ?thesis using assms by (cases p) auto
qed (use assms in auto)

lemma steps_cases:
  assumes "steps m E Q" "\<And>v r w. m = Ok (v, r, w) \<Longrightarrow> Q v r w \<Longrightarrow> R" "\<And>e. m = Err e \<Longrightarrow> E e \<Longrightarrow> R"
    "m = Panic \<Longrightarrow> R"
  shows R
  using assms by (cases m) (auto simp: steps_def split: prod.splits)

lemma steps_res_map: "steps (res_map f m) E Q \<longleftrightarrow> steps m E (\<lambda>v r w. case f (v, r, w) of (v, r, w) \<Rightarrow> Q v r w)"
  by (cases m) (auto simp: steps_def split: prod.split)

lemma steps_map_step [simp]: "steps (map_step f m) E Q \<longleftrightarrow> steps m E (\<lambda>v. Q (f v))"
  by (cases m) (auto simp: map_step_def)

lemma steps_try_bind:
  assumes "steps m E (\<lambda>v r w. case v of Inl e \<Rightarrow> Q' (Inl e) r w | Inr a \<Rightarrow> Q a r w)"
    "\<And>a r w. m = Ok (Inr a, r, w) \<Longrightarrow> Q a r w \<Longrightarrow> steps (f a r w) E Q'"
  shows "steps (try_bind m f) E Q'"
  unfolding try_bind_def
  by (rule steps_bind [OF assms(1)]) (auto split: sum.splits intro: assms(2))

text \<open>The calls below the manager never stop the run themselves.\<close>

abbreviation silent :: "RunStop \<Rightarrow> bool" where
  "silent \<equiv> (\<lambda>_. False)"

abbreviation bottom_only :: "RunStop \<Rightarrow> bool" where
  "bottom_only \<equiv> (\<lambda>e. e = DepthExceeded)"

lemma manager_call_silent [simp]: "manager_call env c f r w \<noteq> Err e"
  by (auto simp: manager_call_def split: res.splits)

lemma try_bind_Err:
  "try_bind m f = Err e \<longleftrightarrow> m = Err e \<or> (\<exists>a r w. m = Ok (Inr a, r, w) \<and> f a r w = Err e)"
  by (cases m) (auto simp: try_bind_def split: sum.splits)

lemma notify_all_silent [simp]: "notify_all env rs r w \<noteq> Err e"
  by (induction rs arbitrary: r w) (auto simp: try_bind_Err)

lemma sink_la_requests_silent [simp]: "sink_la_requests env reqs r w \<noteq> Err e"
  by (simp add: sink_la_requests_def case_prod_beta)

lemma mr_check_more_silent [simp]: "mr_check_more env r w \<noteq> Err e"
  by (simp add: mr_check_more_def try_bind_Err case_prod_beta Let_def)

lemma try_evict_silent [simp]: "try_evict env r w \<noteq> Err e"
  by (simp add: try_evict_def try_bind_Err Let_def split: option.split)

lemma choose_act_silent [simp]: "choose_act env a r w \<noteq> Err e"
  by (simp add: choose_act_def try_bind_Err Let_def case_prod_beta
      split: option.split ActivationOrAuto.split)

lemma act_or_wait_silent [simp]: "act_or_wait env t act r w \<noteq> Err e"
  by (simp add: act_or_wait_def Let_def case_prod_beta split: option.split)

lemma first_activation_silent [simp]: "first_activation env work r w \<noteq> Err e"
  by (simp add: first_activation_def try_bind_Err)

lemma incoming_silent [simp]: "incoming env pwft r w \<noteq> Err e"
  by (simp add: incoming_def Let_def try_bind_Err)

lemma apply_completion_silent [simp]: "apply_completion env c u r w \<noteq> Err e"
  by (simp add: apply_completion_def Let_def try_bind_Err case_prod_beta split: option.split)

lemma no_error_silent [simp]: "no_error m \<noteq> Err e"
  by (auto simp: no_error_def split: res.splits)

lemma res_map_Err [simp]: "res_map f m = Err e \<longleftrightarrow> m = Err e"
  by (cases m) auto

lemma res_bind_Err: "res_bind m f = Err e \<longleftrightarrow> m = Err e \<or> (\<exists>v. m = Ok v \<and> f v = Err e)"
  by (cases m) auto

lemma eviction_has_output_silent [simp]: "eviction_has_output d r \<noteq> Err e"
  by (auto simp: eviction_has_output_def)

lemma take_output_silent [simp]: "take_output d f r \<noteq> Err e"
  by (auto simp: take_output_def)

lemma prepare_complete_resp_silent [simp]: "prepare_complete_resp c d due r \<noteq> Err e"
  by (auto simp: prepare_complete_resp_def Let_def res_bind_Err split: prod.splits if_splits)

lemma process_completion_inner_silent [simp]: "process_completion_inner env c u r w \<noteq> Err e"
  by (auto simp: process_completion_inner_def prepare_step_def Let_def res_bind_Err
      split: prod.splits if_splits sum.splits option.splits)

section \<open>At most one activation\<close>

fun is_auto_fail :: "ActivationOrAuto \<Rightarrow> bool" where
  "is_auto_fail (AutoFail _ _) = True"
| "is_auto_fail _ = False"

text \<open>
  An outstanding activation stays and nothing else goes out.  Otherwise what becomes outstanding is
  what the call hands out; only the failure of a task goes out without becoming outstanding.
\<close>

definition handed_out :: "ManagedRun \<Rightarrow> RunUpdateAct \<Rightarrow> ManagedRun \<Rightarrow> bool" where
  "handed_out r act r' \<longleftrightarrow>
     (case mr_activation r of
        Some k \<Rightarrow> mr_activation r' = Some k \<and> (case act of Some a \<Rightarrow> is_auto_fail a | None \<Rightarrow> True)
      | None \<Rightarrow>
          (case act of
             Some a \<Rightarrow> mr_activation r' = Some (activation_kind a) \<or> (is_auto_fail a \<and> mr_activation r' = None)
           | None \<Rightarrow> mr_activation r' = None))"

text \<open>What no call takes back.\<close>

definition kept :: "ManagedRun \<Rightarrow> ManagedRun \<Rightarrow> bool" where
  "kept r r' \<longleftrightarrow> mr_config r' = mr_config r \<and> (mr_am_broken r \<longrightarrow> mr_am_broken r') \<and>
     (mr_trying_to_evict r \<noteq> None \<longrightarrow> mr_trying_to_evict r' \<noteq> None) \<and>
     (mr_activation r \<noteq> None \<longrightarrow> mr_activation r' = mr_activation r)"

lemma kept_refl [simp]: "kept r r"
  by (simp add: kept_def)

lemma kept_trans: "kept r r1 \<Longrightarrow> kept r1 r2 \<Longrightarrow> kept r r2"
  by (auto simp: kept_def)

lemma kept_frame: "frame r w r' w' \<Longrightarrow> kept r r'"
  by (simp add: frame_def kept_def)

lemma kept_upd [simp]:
  "kept r (r\<lparr>mr_wfm := a\<rparr>)" "kept r (r\<lparr>mr_waiting_on_la := b\<rparr>)" "kept r (r\<lparr>mr_wft := c\<rparr>)"
  "kept r (r\<lparr>mr_task_buffer := d\<rparr>)" "kept r (r\<lparr>mr_paginator := e\<rparr>)"
  "kept r (r\<lparr>mr_completion_waiting_on_page_fetch := f\<rparr>)" "kept r (r\<lparr>mr_am_broken := True\<rparr>)"
  "kept r (r\<lparr>mr_trying_to_evict := Some g\<rparr>)"
  by (simp_all add: kept_def)

lemma mr_check_more_free:
  "mr_check_more env r w = Ok (Inr (Some a), r', w') \<Longrightarrow> mr_activation r = None"
  by (auto simp: mr_check_more_def split: if_splits)

lemma try_evict_free: "try_evict env r w = Ok (Inr (Some a), r', w') \<Longrightarrow> mr_activation r = None"
  by (auto simp: try_evict_def split: option.splits if_splits)

lemma choose_act_free:
  assumes "choose_act env a r w = Ok (Inr (Some b), r', w')" "a \<noteq> None \<Longrightarrow> mr_activation r = None"
  shows "mr_activation r = None"
proof -
  obtain a1 r1 w1 where c: "(if more_pending_work r \<and> a = None then mr_check_more env r w
      else Ok (Inr a, r, w)) = Ok (Inr a1, r1, w1)"
    and rest: "a1 = None \<longrightarrow> try_evict env r1 w1 = Ok (Inr (Some b), r', w')"
    using assms(1) unfolding choose_act_def Let_def try_bind_Ok
    by (elim disjE exE conjE) (auto split: option.splits)
  show ?thesis
  proof (cases a1)
    case None
    have "framed r w (if more_pending_work r \<and> a = None then mr_check_more env r w
        else Ok (Inr a, r, w))" by (simp add: framed_mr_check_more)
    with c have "frame r w r1 w1" by simp
    with try_evict_free [OF rest [rule_format, OF None]] show ?thesis by (simp add: frame_def)
  next
    case (Some x)
    with c assms(2) mr_check_more_free show ?thesis by (fastforce split: if_splits)
  qed
qed

text \<open>Before an activation is handed on to \<open>mr_update_ok\<close>, none is outstanding.\<close>

fun free_for :: "ActOrFulfill \<Rightarrow> ManagedRun \<Rightarrow> bool" where
  "free_for (OutgoingAct (Some a)) r \<longleftrightarrow> mr_activation r = None"
| "free_for _ r \<longleftrightarrow> True"

fun fulfilled :: "RunEnv \<Rightarrow> ActOrFulfill \<Rightarrow> World \<Rightarrow> World" where
  "fulfilled env (OutgoingAct a) w = w"
| "fulfilled env (FulfillableComplete c) w = fulfill env c w"

lemma has_pending_activation: "mr_activation r \<noteq> None \<Longrightarrow> has_any_pending_work r False b"
  by (simp add: has_any_pending_work_def)

text \<open>
  A call that settles an update stays within the frame but for the buffer, the activation and the
  answer it sends.
\<close>

definition settled :: "ManagedRun \<Rightarrow> World \<Rightarrow> ManagedRun \<Rightarrow> World \<Rightarrow> bool" where
  "settled r w r' w' \<longleftrightarrow> kept r r' \<and> mr_trying_to_evict r' = mr_trying_to_evict r \<and>
     mr_completion_waiting_on_page_fetch r' = mr_completion_waiting_on_page_fetch r"

lemma settled_frame: "frame r w r' w' \<Longrightarrow> settled r w r' w'"
  by (simp add: settled_def kept_frame) (simp add: frame_def)

lemma settled_trans: "settled r w r1 w1 \<Longrightarrow> settled r1 w1 r2 w2 \<Longrightarrow> settled r w r2 w2"
  by (auto simp: settled_def intro: kept_trans)

lemma conclude_contract:
  assumes "act \<noteq> None \<Longrightarrow> mr_activation r = None"
  shows "steps (conclude env f act r w) silent (\<lambda>out r' w'.
    settled r w r' w' \<and> wo_replies w' = wo_replies (fulfill env f w) \<and>
    (case snd out of
       None \<Rightarrow> handed_out r (fst out) r' | Some t \<Rightarrow> mr_activation r = None \<and> mr_activation r' = None))"
proof (cases "may_take_buffered act \<and> \<not> has_any_pending_work r False True")
  case True
  obtain t b where "get_next_wft (mr_task_buffer r) = (t, b)" by (cases "get_next_wft (mr_task_buffer r)")
  with True show ?thesis
    by (cases t) (simp_all add: conclude_def settled_def handed_out_def has_any_pending_work_def)
next
  case False
  with assms show ?thesis
    by (cases act; cases "mr_activation r")
      (auto simp: conclude_def settled_def handed_out_def insert_outstanding_activation_def kept_def)
qed

lemma settle_contract:
  assumes "free_for f r"
  shows "steps (settle env f r w) silent (\<lambda>out r' w'.
    settled r w r' w' \<and>
    (case snd out of
       None \<Rightarrow> handed_out r (fst out) r' | Some t \<Rightarrow> mr_activation r = None \<and> mr_activation r' = None))"
proof -
  obtain a c where f: "(case f of OutgoingAct a \<Rightarrow> (a, None) | FulfillableComplete c \<Rightarrow> (None, c)) = (a, c)"
    by (cases "case f of OutgoingAct a \<Rightarrow> (a, None) | FulfillableComplete c \<Rightarrow> (None, c)")
  with assms have a: "a \<noteq> None \<Longrightarrow> mr_activation r = None"
    by (auto split: ActOrFulfill.splits elim: free_for.elims)
  show ?thesis unfolding settle_def f Let_def prod.case
  proof (rule steps_bind)
    show "steps (choose_act env a r w) silent (\<lambda>v r' w'. choose_act env a r w = Ok (v, r', w'))"
      by (cases "choose_act env a r w") auto
  next
    fix v r1 w1
    assume c1: "choose_act env a r w = Ok (v, r1, w1)"
    from framedD [OF framed_choose_act c1] have fr: "frame r w r1 w1" .
    then have act1: "mr_activation r1 = mr_activation r" by (simp add: frame_def)
    show "steps (case (v, r1, w1) of (v, r, w) \<Rightarrow>
        (case v of Inl e \<Rightarrow> res_map (\<lambda>(act, r, w). ((act, None), r, w)) (auto_fail e r w)
         | Inr act \<Rightarrow> conclude env c act r w)) silent (\<lambda>out r' w'. settled r w r' w' \<and>
        (case snd out of
           None \<Rightarrow> handed_out r (fst out) r' | Some t \<Rightarrow> mr_activation r = None \<and> mr_activation r' = None))"
    proof (cases v)
      case (Inl e)
      from fr have "settled r w (r1\<lparr>mr_am_broken := True\<rparr>) w1" by (auto simp: frame_def settled_def kept_def)
      with Inl act1 show ?thesis by (auto simp: auto_fail_def handed_out_def split: option.split)
    next
      case (Inr b)
      have "b \<noteq> None \<Longrightarrow> mr_activation r1 = None"
        using choose_act_free [of env a r w _ r1 w1] c1 Inr a act1 by auto
      from conclude_contract [OF this] have "steps (conclude env c b r1 w1) silent (\<lambda>out r' w'. settled r w r' w' \<and>
          (case snd out of
             None \<Rightarrow> handed_out r (fst out) r' | Some t \<Rightarrow> mr_activation r = None \<and> mr_activation r' = None))"
        by (rule steps_mono)
          (auto intro: settled_trans [OF settled_frame [OF fr]] simp: handed_out_def act1 split: option.splits)
      with Inr show ?thesis by simp
    qed
  qed
qed

lemma incoming_or_fail_contract:
  assumes "mr_activation r = None"
  shows "steps (incoming_or_fail env t (r, w)) silent (\<lambda>v r' w'. settled r w r' w' \<and> mr_activation r' = None \<and>
    (case v of Inl act \<Rightarrow> \<exists>a. act = Some a \<and> is_auto_fail a | Inr _ \<Rightarrow> True))"
  unfolding incoming_or_fail_def fst_conv snd_conv
proof (rule steps_bind)
  show "steps (incoming env t r w) silent (\<lambda>v r' w'. frame r w r' w')"
    using framed_incoming [of r w env t] by (cases "incoming env t r w") auto
next
  fix v r1 w1
  assume "frame r w r1 w1"
  with assms show "steps (case (v, r1, w1) of (v, r, w) \<Rightarrow>
      (case v of Inl e \<Rightarrow> res_map (\<lambda>(act, r, w). (Inl act, r, w)) (auto_fail e r w)
       | Inr act \<Rightarrow> Ok (Inr act, r, w))) silent (\<lambda>v r' w'. settled r w r' w' \<and> mr_activation r' = None \<and>
    (case v of Inl act \<Rightarrow> \<exists>a. act = Some a \<and> is_auto_fail a | Inr _ \<Rightarrow> True))"
    by (cases v) (auto simp: auto_fail_def settled_def kept_def frame_def)
qed

lemma mr_update_ok_contract:
  "free_for f (fst rw) \<Longrightarrow> steps (mr_update_ok env f rw) silent
     (\<lambda>act r' w'. settled (fst rw) (snd rw) r' w' \<and> handed_out (fst rw) act r')"
proof (induction env f rw rule: mr_update_ok.induct)
  case (1 env f rw)
  let ?Q = "\<lambda>act r' w'. settled (fst rw) (snd rw) r' w' \<and> handed_out (fst rw) act r'"
  show ?case
  proof (subst mr_update_ok.simps, rule steps_bind [OF settle_contract [OF 1(2)]])
    fix out r1 w1
    assume s: "settle env f (fst rw) (snd rw) = Ok (out, r1, w1)"
      and q: "settled (fst rw) (snd rw) r1 w1 \<and> (case snd out of
        None \<Rightarrow> handed_out (fst rw) (fst out) r1
      | Some t \<Rightarrow> mr_activation (fst rw) = None \<and> mr_activation r1 = None)"
    show "steps (case (out, r1, w1) of (out, rw) \<Rightarrow> case snd out of None \<Rightarrow> Ok (fst out, rw)
      | Some pwft \<Rightarrow> res_bind (incoming_or_fail env pwft rw) (\<lambda>(v, rw). case v of
          Inl act \<Rightarrow> Ok (act, rw) | Inr act \<Rightarrow> mr_update_ok env (OutgoingAct act) rw)) silent ?Q"
    proof (cases "snd out")
      case None
      with q show ?thesis by simp
    next
      case (Some t)
      with q have free: "mr_activation r1 = None" "mr_activation (fst rw) = None"
        and st: "settled (fst rw) (snd rw) r1 w1" by auto
      have "steps (res_bind (incoming_or_fail env t (r1, w1)) (\<lambda>(v, rw). case v of
          Inl act \<Rightarrow> Ok (act, rw) | Inr act \<Rightarrow> mr_update_ok env (OutgoingAct act) rw)) silent ?Q"
      proof (rule steps_bind [OF incoming_or_fail_contract [OF free(1)]])
        fix v r2 w2
        assume i: "incoming_or_fail env t (r1, w1) = Ok (v, r2, w2)"
          and q2: "settled r1 w1 r2 w2 \<and> mr_activation r2 = None \<and>
            (case v of Inl act \<Rightarrow> \<exists>a. act = Some a \<and> is_auto_fail a | Inr _ \<Rightarrow> True)"
        from q2 st have st2: "settled (fst rw) (snd rw) r2 w2" by (auto intro: settled_trans)
        show "steps (case (v, r2, w2) of (v, rw) \<Rightarrow> case v of
            Inl act \<Rightarrow> Ok (act, rw) | Inr act \<Rightarrow> mr_update_ok env (OutgoingAct act) rw) silent ?Q"
        proof (cases v)
          case (Inl act)
          with q2 st2 free show ?thesis by (auto simp: handed_out_def)
        next
          case (Inr act)
          have ff: "free_for (OutgoingAct act) (fst (r2, w2))" using q2 by (cases act) auto
          from 1(1) [OF s refl Some i refl Inr ff]
          have "steps (mr_update_ok env (OutgoingAct act) (r2, w2)) silent ?Q"
            by (rule steps_mono)
              (use q2 st2 free in \<open>auto simp: handed_out_def intro: settled_trans split: option.splits\<close>)
          with Inr show ?thesis by simp
        qed
      qed
      with Some show ?thesis by simp
    qed
  qed
qed

section \<open>Answers\<close>

text \<open>While an activation is outstanding an update does nothing but send the answer.\<close>

lemma mr_update_ok_busy:
  assumes "mr_activation r \<noteq> None"
  shows "mr_update_ok env (FulfillableComplete c) (r, w) = Ok (None, r, fulfill env c w)"
    "mr_update_ok env (OutgoingAct None) (r, w) = Ok (None, r, w)"
  using assms
  by (auto simp: mr_update_ok.simps settle_def choose_act_def mr_check_more_def try_evict_def conclude_def
      has_any_pending_work_def try_bind_def fulfill_def split: option.split)

lemma fulfill_replies: "wo_replies w' = wo_replies w \<Longrightarrow> wo_replies (fulfill env f w') = wo_replies (fulfill env f w)"
  by (simp add: fulfill_def send_reply_def split: option.split)

lemma conclude_replies:
  "steps (conclude env f act r w) (\<lambda>_. True) (\<lambda>_ _ w'. wo_replies w' = wo_replies (fulfill env f w))"
  by (auto simp: conclude_def Let_def insert_outstanding_activation_def split: option.split prod.split)

lemma mr_update_ok_replies:
  "steps (mr_update_ok env f rw) (\<lambda>_. True) (\<lambda>_ r' w'.
     wo_replies w' = wo_replies (snd rw) \<or> wo_replies w' = wo_replies (fulfilled env f (snd rw)))"
proof (induction env f rw rule: mr_update_ok.induct)
  case (1 env f rw)
  let ?Q = "\<lambda>w'. wo_replies w' = wo_replies (snd rw) \<or> wo_replies w' = wo_replies (fulfilled env f (snd rw))"
  have s: "steps (settle env f (fst rw) (snd rw)) (\<lambda>_. True) (\<lambda>_ r' w'. ?Q w')"
  proof -
    obtain a c where f: "(case f of OutgoingAct a \<Rightarrow> (a, None) | FulfillableComplete c \<Rightarrow> (None, c)) = (a, c)"
      by (cases "case f of OutgoingAct a \<Rightarrow> (a, None) | FulfillableComplete c \<Rightarrow> (None, c)")
    then have fc: "fulfill env c w = fulfilled env f w" for w
      by (auto simp: fulfill_def split: ActOrFulfill.splits)
    have ch: "steps (choose_act env a (fst rw) (snd rw)) (\<lambda>_. True) (\<lambda>_ _ w'. wo_replies w' = wo_replies (snd rw))"
      using framed_choose_act [of "fst rw" "snd rw" env a]
      by (auto simp: framed_def steps_def frame_def split: res.splits)
    show ?thesis unfolding settle_def f Let_def prod.case
    proof (rule steps_bind [OF ch])
      fix v r1 and w1 :: World
      assume w1: "wo_replies w1 = wo_replies (snd rw)"
      have "steps (conclude env c b r1 w1) (\<lambda>_. True) (\<lambda>_ r' w'. ?Q w')" for b
        using conclude_replies by (rule steps_mono) (simp_all add: fulfill_replies [OF w1] fc [symmetric])
      with w1 show "steps (case (v, r1, w1) of (v, r, w) \<Rightarrow>
          (case v of Inl e \<Rightarrow> res_map (\<lambda>(act, r, w). ((act, None), r, w)) (auto_fail e r w)
           | Inr act \<Rightarrow> conclude env c act r w)) (\<lambda>_. True) (\<lambda>_ r' w'. ?Q w')"
        by (cases v) (auto simp: auto_fail_def)
    qed
  qed
  show ?case
  proof (subst mr_update_ok.simps, rule steps_bind [OF s])
    fix out r1 w1
    assume s: "settle env f (fst rw) (snd rw) = Ok (out, r1, w1)" and q: "?Q w1"
    have inc: "steps (incoming_or_fail env t (r1, w1)) (\<lambda>_. True) (\<lambda>_ r' w'. wo_replies w' = wo_replies w1)" for t
      using framed_incoming [of r1 w1 env t]
      by (cases "incoming env t r1 w1")
        (auto simp: incoming_or_fail_def frame_def auto_fail_def split: sum.split)
    have "steps (res_bind (incoming_or_fail env t (r1, w1)) (\<lambda>(v, rw). case v of
        Inl act \<Rightarrow> Ok (act, rw) | Inr act \<Rightarrow> mr_update_ok env (OutgoingAct act) rw)) (\<lambda>_. True) (\<lambda>_ r' w'. ?Q w')"
      if t: "snd out = Some t" for t
    proof (rule steps_bind [OF inc])
      fix v r2 w2
      assume i: "incoming_or_fail env t (r1, w1) = Ok (v, r2, w2)" and w2: "wo_replies w2 = wo_replies w1"
      show "steps (case (v, r2, w2) of (v, rw) \<Rightarrow> case v of
          Inl act \<Rightarrow> Ok (act, rw) | Inr act \<Rightarrow> mr_update_ok env (OutgoingAct act) rw) (\<lambda>_. True) (\<lambda>_ r' w'. ?Q w')"
      proof (cases v)
        case (Inr act)
        from 1 [OF s refl t i refl Inr] have "steps (mr_update_ok env (OutgoingAct act) (r2, w2))
            (\<lambda>_. True) (\<lambda>_ r' w'. ?Q w')"
          by (rule steps_mono) (use q w2 in auto)
        with Inr show ?thesis by simp
      qed (use q w2 in auto)
    qed
    with q show "steps (case (out, r1, w1) of (out, rw) \<Rightarrow> case snd out of None \<Rightarrow> Ok (fst out, rw)
      | Some pwft \<Rightarrow> res_bind (incoming_or_fail env pwft rw) (\<lambda>(v, rw). case v of
          Inl act \<Rightarrow> Ok (act, rw) | Inr act \<Rightarrow> mr_update_ok env (OutgoingAct act) rw)) (\<lambda>_. True) (\<lambda>_ r' w'. ?Q w')"
      by (cases "snd out") auto
  qed
qed

text \<open>Calls that answer nobody: what they promise, in one word.\<close>

definition quiet_update :: "ManagedRun \<Rightarrow> World \<Rightarrow> RunUpdateAct \<Rightarrow> ManagedRun \<Rightarrow> World \<Rightarrow> bool" where
  "quiet_update r w act r' w' \<longleftrightarrow> kept r r' \<and> handed_out r act r' \<and> wo_replies w' = wo_replies w \<and>
     mr_completion_waiting_on_page_fetch r' = mr_completion_waiting_on_page_fetch r"

lemma steps_conj: "steps m E Q \<Longrightarrow> steps m E' Q' \<Longrightarrow> steps m E (\<lambda>v r w. Q v r w \<and> Q' v r w)"
  by (cases m) auto

lemma mr_update_ok_quiet:
  assumes "free_for (OutgoingAct a) r"
  shows "steps (mr_update_ok env (OutgoingAct a) (r, w)) silent (\<lambda>act r' w'. quiet_update r w act r' w' \<and>
    mr_trying_to_evict r' = mr_trying_to_evict r)"
proof -
  have "free_for (OutgoingAct a) (fst (r, w))" using assms by simp
  from steps_conj [OF mr_update_ok_contract [OF this] mr_update_ok_replies] show ?thesis
    by (rule steps_mono) (auto simp: quiet_update_def settled_def)
qed

lemma auto_fail_quiet:
  "frame r0 w0 r w \<Longrightarrow> steps (auto_fail e r w) silent (\<lambda>act r' w'. quiet_update r0 w0 act r' w' \<and>
    mr_trying_to_evict r' = mr_trying_to_evict r0)"
  by (auto simp: auto_fail_def quiet_update_def frame_def kept_def handed_out_def split: option.split)

text \<open>An update whose outcome stays in the frame, and hands out nothing while an activation is outstanding.\<close>

lemma update_plain_quiet:
  assumes "framed r w m" "\<And>e. m \<noteq> Err e"
    "\<And>a r1 w1. m = Ok (Inr (Some a), r1, w1) \<Longrightarrow> mr_activation r = None"
  shows "steps (update_plain env m) silent (\<lambda>act r' w'. quiet_update r w act r' w' \<and>
    mr_trying_to_evict r' = mr_trying_to_evict r)"
proof (cases m)
  case (Ok p)
  obtain v r1 w1 where p: "p = (v, r1, w1)" by (cases p)
  with assms Ok have fr: "frame r w r1 w1" by simp
  show ?thesis
  proof (cases v)
    case (Inl e)
    with Ok p auto_fail_quiet [OF fr, of e] show ?thesis by (simp add: update_plain_def)
  next
    case (Inr act)
    from fr assms(3) Ok p Inr have ff: "free_for (OutgoingAct act) r1"
      by (cases act) (auto simp: frame_def)
    from mr_update_ok_quiet [OF ff] have "steps (mr_update_ok env (OutgoingAct act) (r1, w1)) silent
        (\<lambda>act r' w'. quiet_update r w act r' w' \<and> mr_trying_to_evict r' = mr_trying_to_evict r)"
      by (rule steps_mono)
        (use fr in \<open>auto simp: quiet_update_def frame_def kept_def handed_out_def split: option.splits\<close>)
    with Ok p Inr show ?thesis by (simp add: update_plain_def)
  qed
qed (use assms(2) in \<open>auto simp: update_plain_def\<close>)

lemma check_more_quiet:
  "steps (check_more_activations env r w) silent (\<lambda>act r' w'. quiet_update r w act r' w' \<and>
    mr_trying_to_evict r' = mr_trying_to_evict r)"
  unfolding check_more_activations_def
  by (rule update_plain_quiet [OF framed_mr_check_more]) (auto dest: mr_check_more_free)

lemma incoming_wft_quiet:
  "mr_activation r = None \<Longrightarrow> steps (incoming_wft env t r w) silent (\<lambda>act r' w'. quiet_update r w act r' w' \<and>
    mr_trying_to_evict r' = mr_trying_to_evict r)"
  unfolding incoming_wft_def by (rule update_plain_quiet [OF framed_incoming]) auto

lemma note_eviction_quiet:
  "steps (note_eviction env info r w) silent (\<lambda>e r' w'. quiet_update r w (into_run_update_resp e) r' w' \<and>
     mr_trying_to_evict r' = Some info)"
proof (cases "\<not> activation_is_eviction r \<and> mr_trying_to_evict r = None")
  case True
  define r1 where "r1 = (if rem_reason info \<notin> {ER_CacheFull, ER_WorkflowExecutionEnding} \<and>
      \<not> pending_work_is_legacy_query r
    then r\<lparr>mr_wft := map_option (\<lambda>wft. wft\<lparr>ot_pending_queries := []\<rparr>) (mr_wft r)\<rparr> else r)
      \<lparr>mr_trying_to_evict := Some info\<rparr>"
  then have r1: "kept r r1" "mr_activation r1 = mr_activation r" "mr_trying_to_evict r1 = Some info"
    "mr_completion_waiting_on_page_fetch r1 = mr_completion_waiting_on_page_fetch r"
    by (simp_all add: kept_def)
  have "steps (check_more_activations env r1 w) silent (\<lambda>act r' w'. quiet_update r w act r' w' \<and>
      mr_trying_to_evict r' = Some info)"
    using check_more_quiet
    by (rule steps_mono) (use r1 in \<open>auto simp: quiet_update_def handed_out_def intro: kept_trans\<close>)
  with True show ?thesis
    unfolding note_eviction_def Let_def if_P [OF True] r1_def [symmetric]
    by (cases "check_more_activations env r1 w") auto
next
  case False
  then show ?thesis by (auto simp: note_eviction_def quiet_update_def handed_out_def split: option.split)
qed

lemma reply_to_complete_contract:
  "steps (reply_to_complete env outcome chan r w) silent (\<lambda>_ r' w'. kept r r' \<and>
     mr_completion_waiting_on_page_fetch r' = mr_completion_waiting_on_page_fetch r)"
proof (cases chan)
  case (Some c)
  let ?m = "\<lparr>rem_run_id = mr_run_id r,
     rem_message = ''The workflow task completer went missing! This likely indicates an SDK bug, please report.'',
     rem_reason = ER_Fatal, rem_auto_reply_fail = None\<rparr>"
  from note_eviction_quiet [of env ?m r w] Some show ?thesis
    by (cases "note_eviction env ?m r w") (auto simp: reply_to_complete_def quiet_update_def)
qed (simp add: reply_to_complete_def)

lemma reply_to_complete_present:
  "\<not> env_receiver_gone env c \<Longrightarrow>
     reply_to_complete env outcome (Some c) r w = Ok ((), r, w\<lparr>wo_replies := wo_replies w @
       [(c, \<lparr>acr_replaying = wm_replaying (mr_machines r), acr_outcome = outcome\<rparr>)]\<rparr>)"
  by (simp add: reply_to_complete_def send_reply_def)

lemma frame_with_machines [simp]: "frame r w (with_machines r s) w"
  by (simp add: with_machines_def)

lemma framed_apply_completion: "framed r w (apply_completion env c u r w)"
  unfolding apply_completion_def Let_def
proof (intro framed_try_bind framed_manager_call)
  fix r1 w1
  show "framed r1 w1 (case u of
      Some update \<Rightarrow> manager_call env MC_Feed (unit_call (\<lambda>m. feed_history_from_new_page (env_x env) m update)) r1 w1
    | None \<Rightarrow> Ok (Inr (), r1, w1))"
    by (simp add: framed_manager_call split: option.split)
next
  fix r1 w1
  show "framed r1 w1 (if \<not> rac_activation_was_eviction c \<and> \<not> mr_am_broken r1
      then manager_call env MC_Apply (unit_call (apply_next_task_if_ready (env_x env))) r1 w1
      else Ok (Inr (), r1, w1))"
    by (simp add: framed_manager_call)
next
  fix r1 w1
  have "framed r1 w1 (try_bind (sink_la_requests env (stamp_dispatching_task env (r1\<lparr>mr_wfm := m\<rparr>) las)
        (r1\<lparr>mr_wfm := m\<rparr>) w1) (\<lambda>_ r w.
      if outstanding_local_activity_count (mr_machines r) = 0 then Ok (Inr None, r, w)
      else case Option.bind (dw_started_attrs (wm_drive_me (mr_machines r))) wsi_workflow_task_timeout of
             None \<Rightarrow> Ok (Inl (Fatal OtherReason), r, w)
           | Some wft_timeout \<Rightarrow> Ok (Inr (Some (rac_start_time c, wft_timeout)), r, w)))" for m las
    by (rule framed_from [OF frame_waiting(4) framed_try_bind [OF framed_sink_la_requests]])
      (auto split: option.split)
  then show "framed r1 w1 (case wfm_drain_queued_local_activities (env_x env) (mr_wfm r1) of (las, m) \<Rightarrow>
      try_bind (sink_la_requests env (stamp_dispatching_task env (r1\<lparr>mr_wfm := m\<rparr>) las)
        (r1\<lparr>mr_wfm := m\<rparr>) w1) (\<lambda>_ r w.
      if outstanding_local_activity_count (mr_machines r) = 0 then Ok (Inr None, r, w)
      else case Option.bind (dw_started_attrs (wm_drive_me (mr_machines r))) wsi_workflow_task_timeout of
             None \<Rightarrow> Ok (Inl (Fatal OtherReason), r, w)
           | Some wft_timeout \<Rightarrow> Ok (Inr (Some (rac_start_time c, wft_timeout)), r, w)))"
    by (simp add: case_prod_beta)
qed

lemma eviction_has_output_frame: "eviction_has_output d r = Ok (b, r') \<Longrightarrow> frame r w r' w"
  by (auto simp: eviction_has_output_def res_map_eq_Ok split: if_splits)

lemma take_output_frame: "take_output d f r = Ok (out, r') \<Longrightarrow> frame r w r' w"
  by (auto simp: take_output_def Let_def res_map_eq_Ok case_prod_beta)

lemma prepare_complete_resp_frame:
  assumes "prepare_complete_resp chan d due r = Ok (f, r')"
  shows "frame r w r' w \<and> fac_resp_chan f = chan"
proof -
  from assms obtain b r1 where e: "eviction_has_output d r = Ok (b, r1)"
    by (auto simp: prepare_complete_resp_def Let_def res_bind_eq_Ok)
  note fr = eviction_has_output_frame [OF this]
  from assms have "(r' = r1 \<or> (\<exists>out r2 g. take_output d g r1 = Ok (out, r2) \<and>
      r' = r2\<lparr>mr_wfm := wft_completion_reported (mr_wfm r2)\<rparr>)) \<and> fac_resp_chan f = chan"
    by (auto simp: prepare_complete_resp_def Let_def res_bind_eq_Ok res_map_eq_Ok e split: if_splits)
  with fr take_output_frame show ?thesis
    by (auto intro: frame_trans [OF fr frame_trans [OF _ frame_waiting(4)]])
qed

definition answers_to :: "nat option \<Rightarrow> RunUpdateErr + FulfillableActivationComplete option \<Rightarrow> bool" where
  "answers_to chan v \<longleftrightarrow>
     (case v of Inl e \<Rightarrow> rue_complete_resp_chan e = chan
      | Inr f \<Rightarrow> (\<exists>g. f = Some g \<and> fac_resp_chan g = chan))"

lemma answers_to_simps [simp]:
  "answers_to chan (Inl e) \<longleftrightarrow> rue_complete_resp_chan e = chan"
  "answers_to chan (Inr (Some g)) \<longleftrightarrow> fac_resp_chan g = chan"
  by (simp_all add: answers_to_def)

lemma prepare_step_contract:
  assumes "frame r0 w0 r w"
  shows "steps (prepare_step chan d due r w) silent (\<lambda>v r' w'. frame r0 w0 r' w' \<and> answers_to chan v)"
proof (cases "prepare_complete_resp chan d due r")
  case (Ok p)
  obtain f r' where "p = (f, r')" by (cases p)
  with Ok have p: "prepare_complete_resp chan d due r = Ok (f, r')" by simp
  with prepare_complete_resp_frame [OF p, of w] assms show ?thesis
    by (auto simp: prepare_step_def intro: frame_trans)
qed (auto simp: prepare_step_def)

lemma frame_abort_heartbeat [simp]: "frame r w r (abort_heartbeat h w)"
  by (simp add: frame_def abort_heartbeat_def)

lemma process_completion_inner_contract:
  "steps (process_completion_inner env c u r w) silent (\<lambda>v r' w'.
     frame r w r' w' \<and> answers_to (rac_resp_chan c) v)"
proof -
  define r1 where "r1 = with_machines r (add_lang_used_flags (mr_machines r) (rac_used_flags c))"
  have r1: "frame r w r1 w" by (simp add: r1_def)
  let ?Q = "\<lambda>v r' w'. frame r w r' w' \<and> answers_to (rac_resp_chan c) v"
  note defs = process_completion_inner_def Let_def r1_def [symmetric]
  show ?thesis
  proof (cases "rac_activation_was_eviction c")
    case True
    with prepare_step_contract [OF r1] show ?thesis by (simp add: defs)
  next
    case False
    show ?thesis
    proof (cases "apply_completion env c u r1 w")
      case (Ok p)
      obtain v r2 w2 where p: "p = (v, r2, w2)" by (cases p)
      with framed_apply_completion [of r1 w env c u] Ok have fr: "frame r w r2 w2"
        by (auto intro: frame_trans [OF r1])
      show ?thesis
      proof (cases v)
        case (Inl e)
        with False Ok p fr show ?thesis by (simp add: defs)
      next
        case (Inr a)
        show ?thesis
        proof (cases a)
          case None
          have "frame r w (r2\<lparr>mr_waiting_on_la := None\<rparr>) (abort_waiting r2 w2)"
            using fr by (rule frame_trans) simp
          with False Ok p Inr None show ?thesis by (simp add: defs prepare_step_contract)
        next
          case (Some td)
          obtain t d where td: "td = (t, d)" by (cases td)
          obtain h w3 where h: "sink_heartbeat_timeout_start env (mr_run_id r2) t d (abort_waiting r2 w2) = (h, w3)"
            by (cases "sink_heartbeat_timeout_start env (mr_run_id r2) t d (abort_waiting r2 w2)")
          have fr3: "frame r w (r2\<lparr>mr_waiting_on_la := wa\<rparr>) w3" for wa
            using fr frame_trans [OF frame_waiting(2) frame_heartbeat_start [OF h]] by (rule frame_trans)
          have "frame r w (r2\<lparr>mr_waiting_on_la := wa\<rparr>) (abort_heartbeat h w3)" for wa
            using fr3 frame_abort_heartbeat by (rule frame_trans)
          with False Ok p Inr Some td h fr3 show ?thesis
            by (simp add: defs prepare_step_contract)
        qed
      qed
    qed (simp_all add: defs False)
  qed
qed

text \<open>While an activation is outstanding, a call hands out nothing but the failure of a task.\<close>

definition calm :: "ManagedRun \<Rightarrow> RunUpdateAct \<Rightarrow> ManagedRun \<Rightarrow> bool" where
  "calm r act r' \<longleftrightarrow> kept r r' \<and>
     (mr_activation r \<noteq> None \<longrightarrow> (case act of Some a \<Rightarrow> is_auto_fail a | None \<Rightarrow> True))"

lemma calm_None [simp]: "calm r None r' \<longleftrightarrow> kept r r'"
  by (simp add: calm_def)

lemma calm_trans: "kept r r1 \<Longrightarrow> calm r1 act r2 \<Longrightarrow> calm r act r2"
  by (auto simp: calm_def kept_def)

lemma calm_then: "calm r act r1 \<Longrightarrow> kept r1 r2 \<Longrightarrow> calm r act r2"
  by (auto simp: calm_def intro: kept_trans)

lemma handed_out_calm: "kept r r' \<Longrightarrow> handed_out r act r' \<Longrightarrow> calm r act r'"
  by (auto simp: calm_def handed_out_def)

end
