(* ===== verification/CompletionContracts.thy ===== *)
theory CompletionContracts
  imports RunContracts
begin

text \<open>
  The handling of completions.  \<open>fail_handling\<close> is the interface between it and the handler of failed
  completions, which call each other: what holds of the calls that use a handler is proved once from
  its contract.  \<open>failed_completion\<close> meets the contract at every depth, with a weak answer; for a worker
  that never turns a failure of a task into one of the workflow it meets it with the strong answer
  and from depth 2 on never reaches the bottom.
\<close>

section \<open>The handler of failed completions\<close>

text \<open>A completion with a response channel is answered exactly once.\<close>

definition replied :: "nat \<Rightarrow> World \<Rightarrow> ManagedRun \<Rightarrow> World \<Rightarrow> bool" where
  "replied c w r' w' \<longleftrightarrow> mr_completion_waiting_on_page_fetch r' = None \<and>
     (\<exists>res. wo_replies w' = wo_replies w @ [(c, res)])"

text \<open>Or it waits for a page of the history and keeps its channel.\<close>

definition parked :: "nat \<Rightarrow> World \<Rightarrow> ManagedRun \<Rightarrow> World \<Rightarrow> bool" where
  "parked c w r' w' \<longleftrightarrow> wo_replies w' = wo_replies w \<and>
     (\<exists>d. mr_completion_waiting_on_page_fetch r' = Some d \<and> rac_resp_chan d = Some c)"

definition answered :: "nat \<Rightarrow> World \<Rightarrow> ManagedRun \<Rightarrow> World \<Rightarrow> bool" where
  "answered c w r' w' \<longleftrightarrow> replied c w r' w' \<or> parked c w r' w'"

lemma replied_world: "replied c w r' w' \<Longrightarrow> wo_replies w = wo_replies w0 \<Longrightarrow> replied c w0 r' w'"
  by (simp add: replied_def)

lemma answered_world: "answered c w r' w' \<Longrightarrow> wo_replies w = wo_replies w0 \<Longrightarrow> answered c w0 r' w'"
  by (simp add: answered_def replied_def parked_def)

lemma parked_world: "parked c w r' w' \<Longrightarrow> wo_replies w = wo_replies w0 \<Longrightarrow> parked c w0 r' w'"
  by (simp add: parked_def)

text \<open>
  \<open>ok\<close> are the configurations the contract is for, \<open>stops\<close> the ways in which the handler may stop the
  run, \<open>ans\<close> is the answer it gives to a completion whose caller waits.
\<close>

locale fail_handling =
  fixes on_fail :: fail_handler
    and ok :: "RunConfig \<Rightarrow> bool"
    and stops :: "RunStop \<Rightarrow> bool"
    and ans :: "nat \<Rightarrow> World \<Rightarrow> ManagedRun \<Rightarrow> World \<Rightarrow> bool"
  assumes fail_calm: "ok (mr_config r) \<Longrightarrow>
      steps (on_fail env cause reason failure auto chan r w) stops (\<lambda>act r' w'. calm r act r')"
    and fail_answers: "\<lbrakk>ok (mr_config r); mr_activation r \<noteq> None; mr_completion_waiting_on_page_fetch r = None;
        \<not> env_receiver_gone env c\<rbrakk> \<Longrightarrow>
      steps (on_fail env cause reason failure auto (Some c) r w) (\<lambda>_. True) (\<lambda>_ r' w'. ans c w r' w')"
    and ans_replied: "replied c w r' w' \<Longrightarrow> ans c w r' w'"
    and ans_world: "ans c w r' w' \<Longrightarrow> wo_replies w = wo_replies w0 \<Longrightarrow> ans c w0 r' w'"
begin

lemma update_to_acts_calm:
  assumes "steps m stops (\<lambda>v r' w'. frame r w r' w' \<and> (\<forall>f. v = Inr f \<longrightarrow> free_for f r'))" "ok (mr_config r)"
  shows "steps (update_to_acts on_fail env m) stops (\<lambda>act r' w'. calm r act r')"
proof (rule steps_cases [OF assms(1)])
  fix v r1 w1
  assume m: "m = Ok (v, r1, w1)" and a: "frame r w r1 w1 \<and> (\<forall>f. v = Inr f \<longrightarrow> free_for f r1)"
  then have k: "kept r r1" by (auto intro: kept_frame)
  have going: "steps (mr_update_ok env f (r1, w1)) stops (\<lambda>act r' w'. calm r act r')" if "v = Inr f" for f
    using mr_update_ok_contract [of f "(r1, w1)" env] a that
    by (auto elim!: steps_mono simp: settled_def intro: calm_trans [OF k] handed_out_calm)
  have broken: "kept r (r1\<lparr>mr_am_broken := True\<rparr>)" using k kept_upd(7) by (rule kept_trans)
  have cfg: "ok (mr_config (r1\<lparr>mr_am_broken := True\<rparr>))" using k assms(2) by (simp add: kept_def)
  have failing: "steps (on_fail env cause reason failure auto chan (r1\<lparr>mr_am_broken := True\<rparr>) w1) stops
      (\<lambda>act r' w'. calm r act r')" for cause reason failure auto chan
    using fail_calm [OF cfg] by (rule steps_mono) (auto intro: calm_trans [OF broken])
  have plain: "calm r (Some (AutoFail i e)) (r1\<lparr>mr_am_broken := True\<rparr>)" for i e
    using broken by (simp add: calm_def)
  show "steps (update_to_acts on_fail env m) stops (\<lambda>act r' w'. calm r act r')"
    using going failing plain unfolding m
    by (auto simp: update_to_acts_def Let_def auto_fail_def split: sum.split option.split)
qed (simp_all add: update_to_acts_def)

lemma update_to_acts_answers:
  assumes "steps m (\<lambda>_. True) (\<lambda>v r' w'. frame r w r' w' \<and>
      (case v of Inl e \<Rightarrow> rue_complete_resp_chan e = Some c
       | Inr f \<Rightarrow> \<exists>g. f = FulfillableComplete (Some g) \<and> fac_resp_chan g = Some c))"
    and busy: "ok (mr_config r)" "mr_activation r \<noteq> None" "mr_completion_waiting_on_page_fetch r = None"
      "\<not> env_receiver_gone env c"
  shows "steps (update_to_acts on_fail env m) (\<lambda>_. True) (\<lambda>_ r' w'. ans c w r' w')"
proof (rule steps_cases [OF assms(1)])
  fix v r1 w1
  assume m: "m = Ok (v, r1, w1)" and a: "frame r w r1 w1 \<and> (case v of Inl e \<Rightarrow> rue_complete_resp_chan e = Some c
       | Inr f \<Rightarrow> \<exists>g. f = FulfillableComplete (Some g) \<and> fac_resp_chan g = Some c)"
  with busy have b: "mr_activation r1 \<noteq> None" "mr_completion_waiting_on_page_fetch r1 = None"
    "wo_replies w1 = wo_replies w" "mr_config r1 = mr_config r" by (auto simp: frame_def)
  have failing: "steps (on_fail env cause reason failure auto (Some c) (r1\<lparr>mr_am_broken := True\<rparr>) w1)
      (\<lambda>_. True) (\<lambda>_ r' w'. ans c w r' w')" for cause reason failure auto
    by (rule steps_mono [OF fail_answers]) (use b busy in \<open>auto intro: ans_world\<close>)
  have sent: "ans c w r1 (w1\<lparr>wo_replies := wo_replies w @ [(c, res)]\<rparr>)" for res
    by (rule ans_replied) (simp add: replied_def b)
  show "steps (update_to_acts on_fail env m) (\<lambda>_. True) (\<lambda>_ r' w'. ans c w r' w')"
    using a b failing busy(4) sent unfolding m
    by (auto simp: update_to_acts_def Let_def mr_update_ok_busy fulfill_def send_reply_def split: sum.splits)
qed (simp_all add: update_to_acts_def)

lemma process_completion_calm:
  assumes "ok (mr_config r)"
  shows "steps (process_completion on_fail env d u r w) stops (\<lambda>act r' w'. calm r act r')"
  unfolding process_completion_def
proof (rule update_to_acts_calm [OF _ assms], simp only: steps_map_step,
    rule steps_mono [OF process_completion_inner_contract])
  fix v r1 w1
  assume "frame r w r1 w1 \<and> answers_to (rac_resp_chan d) v"
  then show "frame r w r1 w1 \<and> (\<forall>f. map_sum (\<lambda>e. e) FulfillableComplete v = Inr f \<longrightarrow> free_for f r1)"
    by (cases v) auto
qed simp

lemma process_completion_answers:
  assumes "rac_resp_chan d = Some c" "ok (mr_config r)" "mr_activation r \<noteq> None"
    "mr_completion_waiting_on_page_fetch r = None" "\<not> env_receiver_gone env c"
  shows "steps (process_completion on_fail env d u r w) (\<lambda>_. True) (\<lambda>_ r' w'. ans c w r' w')"
  unfolding process_completion_def
proof (rule update_to_acts_answers [OF _ assms(2-5)], simp only: steps_map_step,
    rule steps_mono [OF process_completion_inner_contract])
  fix v r1 w1
  assume "frame r w r1 w1 \<and> answers_to (rac_resp_chan d) v"
  then show "frame r w r1 w1 \<and> (case map_sum (\<lambda>e. e) FulfillableComplete v of
      Inl e \<Rightarrow> rue_complete_resp_chan e = Some c
    | Inr f \<Rightarrow> \<exists>g. f = FulfillableComplete (Some g) \<and> fac_resp_chan g = Some c)"
    using assms(1) by (cases v) (auto simp: answers_to_def)
qed simp

end

section \<open>Replies\<close>

lemma reply_kept: "steps (reply_to_complete env outcome chan r w) E (\<lambda>_ r' w'. kept r r')"
  using reply_to_complete_contract by (rule steps_mono) auto

lemma reply_and_return_calm:
  "calm r0 v r \<Longrightarrow> steps (reply_and_return env outcome chan v r w) E (\<lambda>act r' w'. calm r0 act r')"
  using reply_kept [of env outcome chan r w E]
  by (cases "reply_to_complete env outcome chan r w") (auto simp: reply_and_return_def intro: calm_then)

lemma reply_and_return_kept:
  "steps (reply_and_return env outcome chan v r w) E (\<lambda>a r' w'. a = v \<and> kept r r')"
  using reply_kept [of env outcome chan r w E]
  by (cases "reply_to_complete env outcome chan r w") (auto simp: reply_and_return_def)

lemma reply_and_return_replies:
  assumes "\<not> env_receiver_gone env c" "mr_completion_waiting_on_page_fetch r = None" "wo_replies w = wo_replies w0"
  shows "steps (reply_and_return env outcome (Some c) v r w) E (\<lambda>_ r' w'. replied c w0 r' w')"
  using assms by (simp add: reply_and_return_def reply_to_complete_present replied_def)

lemma complete_without_task_kept: "steps (complete_without_task env chan r w) E (\<lambda>_ r' w'. kept r r')"
proof -
  have "steps (reply_to_complete env outcome chan (r\<lparr>mr_trying_to_evict := Some te\<rparr>) w) E
      (\<lambda>_ r' w'. kept r r')" for outcome te
    using reply_kept by (rule steps_mono) (auto intro: kept_trans [OF kept_upd(8)])
  then show ?thesis by (auto simp: complete_without_task_def reply_kept split: option.split)
qed

lemma complete_without_task_replies:
  "\<not> env_receiver_gone env c \<Longrightarrow> mr_completion_waiting_on_page_fetch r = None \<Longrightarrow>
    steps (complete_without_task env (Some c) r w) E (\<lambda>_ r' w'. replied c w r' w')"
  by (auto simp: complete_without_task_def reply_to_complete_present replied_def split: option.split)

lemma note_eviction_calm:
  "steps (note_eviction env info r w) E (\<lambda>e r' w'. calm r (into_run_update_resp e) r')"
  using note_eviction_quiet by (rule steps_mono) (auto simp: quiet_update_def intro: handed_out_calm)

context fail_handling begin

lemma successful_calm:
  assumes "ok (mr_config r)"
  shows "steps (successful_completion_with on_fail env commands flags vb chan forced r w) stops
     (\<lambda>v r' w'. case v of Inl _ \<Rightarrow> kept r r' | Inr act \<Rightarrow> calm r act r')"
proof -
  have page: "kept r (r\<lparr>mr_paginator := None, mr_completion_waiting_on_page_fetch := d\<rparr>)" for d
    by (simp add: kept_def)
  have fatal: "steps (update_to_acts on_fail env (Ok (Inl e, r, w))) stops (\<lambda>act r' w'. calm r act r')" for e
    by (rule update_to_acts_calm [where w = w]) (simp_all add: assms)
  have reply: "steps (reply_and_return env outcome chan (Inr None) r w) stops
      (\<lambda>v r' w'. case v of Inl _ \<Rightarrow> kept r r' | Inr act \<Rightarrow> calm r act r')" for outcome
    using reply_and_return_kept [where E = stops] by (rule steps_mono) auto
  show ?thesis
    using page fatal reply complete_without_task_kept process_completion_calm [OF assms]
    by (auto simp: successful_completion_with_def Let_def case_prod_beta split: option.split)
qed

lemma successful_answers:
  assumes "ok (mr_config r)" "mr_activation r \<noteq> None" "mr_completion_waiting_on_page_fetch r = None"
    "\<not> env_receiver_gone env c"
  shows "steps (successful_completion_with on_fail env commands flags vb (Some c) forced r w) (\<lambda>_. True)
     (\<lambda>v r' w'. case v of Inl _ \<Rightarrow> parked c w r' w' | Inr _ \<Rightarrow> ans c w r' w')"
proof -
  have fatal: "steps (update_to_acts on_fail env (Ok (Inl \<lparr>rue_source = e, rue_complete_resp_chan = Some c\<rparr>, r, w)))
      (\<lambda>_. True) (\<lambda>_ r' w'. ans c w r' w')" for e
    by (rule update_to_acts_answers [OF _ assms]) simp
  have page: "rac_resp_chan d = Some c \<Longrightarrow>
      parked c w (r\<lparr>mr_paginator := None, mr_completion_waiting_on_page_fetch := Some d\<rparr>) w" for d
    by (simp add: parked_def)
  have reply: "steps (reply_and_return env outcome (Some c) (Inr None) r w) (\<lambda>_. True)
      (\<lambda>v r' w'. case v of Inl _ \<Rightarrow> parked c w r' w' | Inr _ \<Rightarrow> ans c w r' w')" for outcome
    using steps_conj [OF reply_and_return_replies [OF assms(4,3) refl] reply_and_return_kept]
    by (rule steps_mono) (auto intro: ans_replied)
  have taskless: "steps (complete_without_task env (Some c) r w) (\<lambda>_. True) (\<lambda>_ r' w'. ans c w r' w')"
    using complete_without_task_replies [OF assms(4,3)] by (rule steps_mono) (auto intro: ans_replied)
  note process = process_completion_answers [OF _ assms]
  show ?thesis
    using assms fatal reply taskless
    by (auto simp: successful_completion_with_def Let_def case_prod_beta page process split: option.split)
qed

lemma request_eviction_calm:
  assumes "ok (mr_config r)"
  shows "steps (request_eviction_with on_fail env info r w) stops (\<lambda>e r' w'. calm r (into_run_update_resp e) r')"
proof -
  have failing: "steps (on_fail env cause reason failure auto chan
        (r\<lparr>mr_completion_waiting_on_page_fetch := None\<rparr>) w) stops (\<lambda>act r' w'. calm r act r')"
    for cause reason failure auto chan
    by (rule steps_mono [OF fail_calm]) (auto simp: assms intro: calm_trans [OF kept_upd(6)])
  show ?thesis
    using note_eviction_calm failing by (auto simp: request_eviction_with_def split: option.split)
qed

lemma fetched_calm:
  assumes "ok (mr_config r)"
  shows "steps (case mr_completion_waiting_on_page_fetch r of
      Some d \<Rightarrow> process_completion on_fail env d (Some u)
        (r\<lparr>mr_paginator := p, mr_completion_waiting_on_page_fetch := None\<rparr>) w
    | None \<Rightarrow> auto_fail e (r\<lparr>mr_paginator := p\<rparr>) w) stops (\<lambda>act r' w'. calm r act r')"
proof -
  have k: "kept r (r\<lparr>mr_paginator := p, mr_completion_waiting_on_page_fetch := None\<rparr>)" by (simp add: kept_def)
  have "steps (process_completion on_fail env d (Some u)
      (r\<lparr>mr_paginator := p, mr_completion_waiting_on_page_fetch := None\<rparr>) w) stops (\<lambda>act r' w'. calm r act r')" for d
    by (rule steps_mono [OF process_completion_calm]) (auto simp: assms intro: calm_trans [OF k])
  then show ?thesis by (auto simp: auto_fail_def calm_def kept_def split: option.split)
qed

end

section \<open>The handler meets its contract\<close>

text \<open>What every failed completion does after it asked for the eviction of the run.\<close>

lemma failed_completion_after:
  assumes "mr_wft r = Some t"
    and "\<And>info. steps (map_step into_run_update_resp
        (request_eviction_with (failed_completion n) env info r w)) E (\<lambda>rur r1 w1. Q rur r1 w1)"
    and "Q None r w"
    and "\<And>cs rur r1 w1. Q rur r1 w1 \<Longrightarrow> should_fail_workflow (mr_config r1) (wm_workflow_type (mr_machines r1)) WET_Nondeterminism \<Longrightarrow>
      steps (map_step (\<lambda>res. case res of Inr act \<Rightarrow> act | Inl _ \<Rightarrow> None)
        (successful_completion_with (failed_completion n) env cs [] VB_Unspecified chan True r1 w1)) E R"
    and "\<And>outcome rur r1 w1. Q rur r1 w1 \<Longrightarrow> steps (reply_and_return env outcome chan rur r1 w1) E R"
  shows "steps (failed_completion (Suc n) env cause reason failure auto chan r w) E R"
  unfolding failed_completion.simps assms(1) option.case Let_def
  by (rule steps_bind [where Q = Q]) (auto simp del: steps_map_step simp: assms(2,3) intro: assms(4,5))

lemma failed_Suc_calm:
  assumes "fail_handling (failed_completion n) ok stops ans" "ok (mr_config r)"
  shows "steps (failed_completion (Suc n) env cause reason failure auto chan r w) stops (\<lambda>act r' w'. calm r act r')"
proof (cases "mr_wft r")
  case None
  with reply_and_return_calm [of r None r] show ?thesis by simp
next
  case (Some t)
  show ?thesis
  proof (rule failed_completion_after [OF Some, where Q = "\<lambda>rur r1 w1. calm r rur r1"])
    show "steps (map_step into_run_update_resp (request_eviction_with (failed_completion n) env info r w)) stops
        (\<lambda>rur r1 w1. calm r rur r1)" for info
      using fail_handling.request_eviction_calm [OF assms] by simp
  next
    fix cs rur r1 w1
    assume c: "calm r rur r1"
    then have cfg: "ok (mr_config r1)" and k: "kept r r1" using assms(2) by (auto simp: calm_def kept_def)
    show "steps (map_step (\<lambda>res. case res of Inr act \<Rightarrow> act | Inl _ \<Rightarrow> None)
        (successful_completion_with (failed_completion n) env cs [] VB_Unspecified chan True r1 w1)) stops
        (\<lambda>act r' w'. calm r act r')"
      unfolding steps_map_step using fail_handling.successful_calm [OF assms(1) cfg]
      by (rule steps_mono) (use k in \<open>auto split: sum.splits intro: kept_trans calm_trans\<close>)
  qed (auto intro: reply_and_return_calm)
qed

lemma failed_Suc_answers:
  assumes "fail_handling (failed_completion n) (\<lambda>_. True) stops answered"
    and busy: "mr_activation r \<noteq> None" "mr_completion_waiting_on_page_fetch r = None" "\<not> env_receiver_gone env c"
  shows "steps (failed_completion (Suc n) env cause reason failure auto (Some c) r w) (\<lambda>_. True)
     (\<lambda>_ r' w'. answered c w r' w')"
proof (cases "mr_wft r")
  case None
  from reply_and_return_replies [OF busy(3,2) refl] have "steps (reply_and_return env DoNothing (Some c) None r w)
      (\<lambda>_. True) (\<lambda>_ r' w'. answered c w r' w')"
    by (rule steps_mono) (auto simp: answered_def)
  with None show ?thesis by simp
next
  case (Some t)
  let ?Q = "\<lambda>rur r1 w1. mr_activation r1 \<noteq> None \<and> mr_completion_waiting_on_page_fetch r1 = None \<and>
    wo_replies w1 = wo_replies w"
  show ?thesis
  proof (rule failed_completion_after [OF Some, where Q = ?Q])
    show "steps (map_step into_run_update_resp (request_eviction_with (failed_completion n) env info r w))
        (\<lambda>_. True) ?Q" for info
      unfolding steps_map_step request_eviction_with_def busy(2) option.case using note_eviction_quiet
      by (rule steps_mono) (use busy in \<open>auto simp: quiet_update_def kept_def\<close>)
  next
    fix cs rur and r1 :: ManagedRun and w1 :: World
    assume q: "?Q rur r1 w1"
    show "steps (map_step (\<lambda>res. case res of Inr act \<Rightarrow> act | Inl _ \<Rightarrow> None)
        (successful_completion_with (failed_completion n) env cs [] VB_Unspecified (Some c) True r1 w1)) (\<lambda>_. True)
        (\<lambda>_ r' w'. answered c w r' w')"
      unfolding steps_map_step
      by (rule steps_mono [OF fail_handling.successful_answers [OF assms(1)]])
        (use q busy(3) in \<open>auto simp: answered_def split: sum.splits intro: parked_world replied_world\<close>)
  next
    fix outcome rur and r1 :: ManagedRun and w1 :: World
    assume q: "?Q rur r1 w1"
    show "steps (reply_and_return env outcome (Some c) rur r1 w1) (\<lambda>_. True) (\<lambda>_ r' w'. answered c w r' w')"
      by (rule steps_mono [OF reply_and_return_replies]) (use q busy(3) in \<open>auto simp: answered_def\<close>)
  qed (use busy in auto)
qed

lemma failed_completion_handles: "fail_handling (failed_completion n) (\<lambda>_. True) bottom_only answered"
proof (induction n)
  case 0
  show ?case by unfold_locales (simp_all add: answered_def replied_def parked_def)
next
  case (Suc n)
  show ?case
  proof (unfold_locales, rule failed_Suc_calm [OF Suc])
    show "replied c w r' w' \<Longrightarrow> answered c w r' w'" for c w r' w' by (simp add: answered_def)
  qed (auto intro: failed_Suc_answers [OF Suc] answered_world simp del: failed_completion.simps)
qed

interpretation failing: fail_handling "failed_completion n" "\<lambda>_. True" bottom_only answered for n
  by (rule failed_completion_handles)

text \<open>Workers that never turn the failure of a task into a failure of the workflow.\<close>

definition never_forces :: "RunConfig \<Rightarrow> bool" where
  "never_forces cfg \<longleftrightarrow> (\<forall>wt. \<not> should_fail_workflow cfg wt WET_Nondeterminism)"

lemma failed_unforced:
  assumes "never_forces (mr_config r)"
    and "\<And>info. steps (map_step into_run_update_resp
        (request_eviction_with (failed_completion n) env info r w)) E (\<lambda>rur r1 w1. Q rur r1 w1 \<and> kept r r1)"
    and "Q None r w"
    and "\<And>outcome rur r1 w1. Q rur r1 w1 \<Longrightarrow> steps (reply_and_return env outcome chan rur r1 w1) E R"
  shows "steps (failed_completion (Suc n) env cause reason failure auto chan r w) E R"
proof (cases "mr_wft r")
  case None
  with assms(3,4) show ?thesis by simp
next
  case (Some t)
  show ?thesis
    by (rule failed_completion_after [OF Some assms(2)])
      (use assms in \<open>auto simp: kept_def never_forces_def simp del: steps_map_step\<close>)
qed

lemma unforced_calm:
  assumes "never_forces (mr_config r)"
    and "\<And>info. steps (map_step into_run_update_resp
        (request_eviction_with (failed_completion n) env info r w)) silent (\<lambda>rur r1 w1. calm r rur r1)"
  shows "steps (failed_completion (Suc n) env cause reason failure auto chan r w) silent (\<lambda>act r' w'. calm r act r')"
proof (rule failed_unforced [OF assms(1), where Q = "\<lambda>rur r1 w1. calm r rur r1"])
  show "steps (map_step into_run_update_resp (request_eviction_with (failed_completion n) env info r w)) silent
      (\<lambda>rur r1 w1. calm r rur r1 \<and> kept r r1)" for info
    using assms(2) by (rule steps_mono) (auto simp: calm_def)
qed (auto intro: reply_and_return_calm)

lemma request_eviction_idle:
  "mr_completion_waiting_on_page_fetch r = None \<Longrightarrow> request_eviction_with h env info r w = note_eviction env info r w"
  by (simp add: request_eviction_with_def)

lemma unforced_silent:
  assumes "never_forces (mr_config r)"
  shows "steps (failed_completion (Suc (Suc n)) env cause reason failure auto chan r w) silent
     (\<lambda>act r' w'. calm r act r')"
proof (rule unforced_calm [OF assms])
  fix info
  have parked: "steps (failed_completion (Suc n) env cause reason failure auto chan
      (r\<lparr>mr_completion_waiting_on_page_fetch := None\<rparr>) w) silent (\<lambda>act r' w'. calm r act r')"
    for cause reason failure auto chan
  proof (rule steps_mono [OF unforced_calm])
    show "never_forces (mr_config (r\<lparr>mr_completion_waiting_on_page_fetch := None\<rparr>))" using assms by simp
  next
    fix info'
    show "steps (map_step into_run_update_resp (request_eviction_with (failed_completion n) env info'
        (r\<lparr>mr_completion_waiting_on_page_fetch := None\<rparr>) w)) silent
        (\<lambda>rur r1 w1. calm (r\<lparr>mr_completion_waiting_on_page_fetch := None\<rparr>) rur r1)"
      by (simp add: request_eviction_idle note_eviction_calm)
  qed (auto intro: calm_trans [OF kept_upd(6)])
  then show "steps (map_step into_run_update_resp (request_eviction_with (failed_completion (Suc n)) env info r w))
      silent (\<lambda>rur r1 w1. calm r rur r1)"
    by (auto simp: request_eviction_with_def note_eviction_calm simp del: failed_completion.simps split: option.split)
qed

lemma unforced_replies:
  assumes "never_forces (mr_config r)" "mr_activation r \<noteq> None" "mr_completion_waiting_on_page_fetch r = None"
    "\<not> env_receiver_gone env c"
  shows "steps (failed_completion (Suc n) env cause reason failure auto (Some c) r w) (\<lambda>_. True)
     (\<lambda>_ r' w'. replied c w r' w')"
proof (rule failed_unforced [OF assms(1), where Q = "\<lambda>rur r1 w1.
    mr_completion_waiting_on_page_fetch r1 = None \<and> wo_replies w1 = wo_replies w"])
  show "steps (map_step into_run_update_resp (request_eviction_with (failed_completion n) env info r w)) (\<lambda>_. True)
      (\<lambda>rur r1 w1. (mr_completion_waiting_on_page_fetch r1 = None \<and> wo_replies w1 = wo_replies w) \<and> kept r r1)" for info
    unfolding steps_map_step request_eviction_idle [OF assms(3)] using note_eviction_quiet
    by (rule steps_mono) (use assms in \<open>auto simp: quiet_update_def\<close>)
qed (use assms in \<open>auto intro: reply_and_return_replies\<close>)

interpretation unforced: fail_handling "failed_completion (Suc (Suc n))" never_forces silent replied for n
  by unfold_locales (use unforced_silent unforced_replies in \<open>auto intro: replied_world simp del: failed_completion.simps\<close>)

end
