(* ===== verification/Evictions.thy ===== *)
theory Evictions
  imports CompletionContracts LocalActivityRuns
begin

text \<open>
  Evictions and local activities.  Before a run is evicted, all its local activities are cancelled,
  and the eviction is withheld until the cancellations were polled.  Shown here: what the request to
  cancel all activities of a run leaves in flight, that asking again queues nothing new, and what an
  idle run does that is to be evicted.
\<close>

section \<open>Cancelling all activities of a run\<close>

abbreviation info_run :: "LocalInFlightActInfo \<Rightarrow> string" where
  "info_run info \<equiv> we_run_id (nla_workflow_exec_info (ifl_la_info info))"

text \<open>Every attempt of the run that is in flight was asked to cancel.\<close>

definition asked :: "string \<Rightarrow> LocalActivityManager \<Rightarrow> bool" where
  "asked rid s \<longleftrightarrow> (\<forall>tt info. map_of (lmg_outstanding s) tt = Some info \<longrightarrow> info_run info = rid \<longrightarrow>
     ifl_cancel info \<noteq> NotRequested)"

text \<open>An attempt in flight after some cancellations was in flight before; at most its cancellation is new.\<close>

definition cancel_only :: "LocalInFlightActInfo \<Rightarrow> LocalInFlightActInfo \<Rightarrow> bool" where
  "cancel_only old info \<longleftrightarrow> ifl_la_info info = ifl_la_info old \<and>
     (ifl_cancel old \<noteq> NotRequested \<longrightarrow> ifl_cancel info = ifl_cancel old)"

lemma cancel_only_refl [simp]: "cancel_only i i"
  by (simp add: cancel_only_def)

lemma cancel_only_trans: "cancel_only i j \<Longrightarrow> cancel_only j k \<Longrightarrow> cancel_only i k"
  by (auto simp: cancel_only_def)

lemma cancel_and_update_outstanding:
  assumes "map_of (lmg_outstanding (snd (cancel_and_update i lai s))) tt = Some info"
  shows "\<exists>old. map_of (lmg_outstanding s) tt = Some old \<and> cancel_only old info \<and>
    (lai_backing_off_task lai = None \<and> lai_task_token lai = tt \<longrightarrow> ifl_cancel info \<noteq> NotRequested)"
  using assms
  by (auto simp: cancel_and_update_def cancel_one_la_def remove_la_info_def drop_timeout_bag_def abort_def
      update_conv' cancel_only_def Let_def simp del: map_of_eq_Some_iff split: option.splits if_splits)

lemma cancel_fold_outstanding:
  assumes "map_of (lmg_outstanding (fold (\<lambda>(i, lai) s.
      if ela_run_id i = rid then snd (cancel_and_update i lai s) else s) las s)) tt = Some info"
  shows "\<exists>old. map_of (lmg_outstanding s) tt = Some old \<and> cancel_only old info \<and>
    ((\<exists>(i, lai) \<in> set las. ela_run_id i = rid \<and> lai_backing_off_task lai = None \<and> lai_task_token lai = tt) \<longrightarrow>
     ifl_cancel info \<noteq> NotRequested)"
  using assms
proof (induction las arbitrary: s)
  case (Cons p las)
  obtain i lai where p: "p = (i, lai)" by (cases p)
  let ?s = "if ela_run_id i = rid then snd (cancel_and_update i lai s) else s"
  from Cons obtain mid where mid: "map_of (lmg_outstanding ?s) tt = Some mid" "cancel_only mid info"
    "(\<exists>(i, lai) \<in> set las. ela_run_id i = rid \<and> lai_backing_off_task lai = None \<and> lai_task_token lai = tt) \<Longrightarrow>
      ifl_cancel info \<noteq> NotRequested"
    by (auto simp: p simp del: map_of_eq_Some_iff)
  show ?case
  proof (cases "ela_run_id i = rid")
    case True
    with mid(1) cancel_and_update_outstanding [of i lai s tt mid] obtain old where
      "map_of (lmg_outstanding s) tt = Some old" "cancel_only old mid"
      "lai_backing_off_task lai = None \<and> lai_task_token lai = tt \<longrightarrow> ifl_cancel mid \<noteq> NotRequested" by auto
    with mid(2,3) show ?thesis
      by (auto simp: p simp del: map_of_eq_Some_iff intro: cancel_only_trans) (auto simp: cancel_only_def)
  next
    case False
    with mid show ?thesis by (auto simp: p)
  qed
qed auto

lemma cancel_all_outstanding:
  assumes "map_of (lmg_outstanding (snd (enqueue_one clk s (LAR_CancelAllInRun rid)))) tt = Some info"
  shows "\<exists>old. map_of (lmg_outstanding s) tt = Some old \<and> cancel_only old info \<and>
    ((\<exists>(i, lai) \<in> set (lmg_la_info s). ela_run_id i = rid \<and> lai_backing_off_task lai = None \<and> lai_task_token lai = tt) \<longrightarrow>
     ifl_cancel info \<noteq> NotRequested)"
  by (rule cancel_fold_outstanding)
    (use assms in \<open>auto simp: Let_def shutdown_check_and_notify_def notify_one_def set_shutdown_complete_if_ready_def
      simp del: map_of_eq_Some_iff split: if_splits\<close>)

lemma cancel_all_asks:
  assumes "lam_inv s"
  shows "asked rid (snd (enqueue_one clk s (LAR_CancelAllInRun rid)))"
  unfolding asked_def
proof (intro allI impI)
  fix tt info
  assume i: "map_of (lmg_outstanding (snd (enqueue_one clk s (LAR_CancelAllInRun rid)))) tt = Some info"
    and rid: "info_run info = rid"
  from cancel_all_outstanding [OF i] obtain old where old: "map_of (lmg_outstanding s) tt = Some old"
    "cancel_only old info" and asks: "(\<exists>(i, lai) \<in> set (lmg_la_info s). ela_run_id i = rid \<and>
      lai_backing_off_task lai = None \<and> lai_task_token lai = tt) \<longrightarrow> ifl_cancel info \<noteq> NotRequested" by blast
  from assms old(1) have "tracks s tt old" by (auto simp: lam_inv_def tracked_def simp del: map_of_eq_Some_iff)
  then obtain lai where "map_of (lmg_la_info s) (la_id (ifl_la_info old)) = Some lai"
    "lai_task_token lai = tt" "lai_backing_off_task lai = None" by (auto simp: tracks_def split: option.splits)
  moreover have "ela_run_id (la_id (ifl_la_info old)) = rid"
    using old(2) rid by (simp add: la_id_def cancel_only_def)
  ultimately show "ifl_cancel info \<noteq> NotRequested" using asks by (auto dest!: map_of_SomeD)
qed

lemma undelivered_iff:
  "distinct (map fst (lmg_outstanding s)) \<Longrightarrow> has_undelivered_cancels s rid \<longleftrightarrow>
     (\<exists>tt info. map_of (lmg_outstanding s) tt = Some info \<and> info_run info = rid \<and> ifl_cancel info = Queued)"
  by (auto simp: has_undelivered_cancels_def has_undelivered_cancel_def list_ex_iff)

text \<open>One cancellation per attempt is enough: asking again queues nothing.\<close>

lemma cancel_all_again:
  assumes "lam_inv s" "asked rid s" "\<not> has_undelivered_cancels s rid" "\<not> lmg_workflows_have_shut_down s"
  shows "\<not> has_undelivered_cancels (snd (enqueue_one clk s (LAR_CancelAllInRun rid))) rid"
proof -
  let ?s = "snd (enqueue_one clk s (LAR_CancelAllInRun rid))"
  have "\<not> lmg_shutdown_complete_tok s" using assms(1,4) by (auto simp: lam_inv_def nothing_dropped_def)
  from lam_inv_enqueue_one [OF assms(1) this] have inv: "lam_inv ?s" .
  show ?thesis
  proof
    assume "has_undelivered_cancels ?s rid"
    with inv obtain tt info where i: "map_of (lmg_outstanding ?s) tt = Some info" "info_run info = rid"
      "ifl_cancel info = Queued" by (auto simp: undelivered_iff lam_inv_def tracked_def simp del: map_of_eq_Some_iff)
    from cancel_all_outstanding [OF i(1)] obtain old where
      old: "map_of (lmg_outstanding s) tt = Some old" "cancel_only old info" by blast
    with i assms(2) have "info_run old = rid" "ifl_cancel old = Queued" by (auto simp: asked_def cancel_only_def)
    with old(1) assms(1,3) show False
      by (auto simp: undelivered_iff lam_inv_def tracked_def simp del: map_of_eq_Some_iff)
  qed
qed

text \<open>A poll takes attempts out of flight or delivers their cancellations.\<close>

lemma asked_poll:
  assumes "asked rid s" "poll_cancel x clk s = Ok (action, s')"
  shows "asked rid s'"
proof (cases "lmg_cancels_req s = [] \<or> lmg_shutdown_complete_tok s")
  case True
  with assms show ?thesis by (auto simp: poll_cancel_def split: list.splits)
next
  case False
  then obtain c cs where cs: "lmg_cancels_req s = c # cs" "\<not> lmg_shutdown_complete_tok s"
    by (cases "lmg_cancels_req s") auto
  show ?thesis
  proof (cases c)
    case (CoT_Cancel task)
    with assms cs show ?thesis
      by (auto simp: poll_cancel_def next_cancel_def asked_def update_conv' simp del: map_of_eq_Some_iff
          split: option.splits if_splits)
  next
    case (CoT_Timeout run_id resolution)
    let ?i = "\<lparr>ela_run_id = run_id, ela_seq_num = lar_seq resolution\<rparr>"
    show ?thesis
    proof (cases "map_of (lmg_la_info s) ?i")
      case None
      with assms cs CoT_Timeout show ?thesis by (auto simp: poll_cancel_def next_cancel_def asked_def)
    next
      case (Some lai)
      let ?s = "s\<lparr>lmg_cancels_req := cs\<rparr>"
      from assms(2) cs CoT_Timeout Some obtain a where
        c: "la_complete x clk ?s (lai_task_token lai) (lar_result resolution) = Ok (a, s')"
        by (auto simp: poll_cancel_def next_cancel_def res_map_eq_Ok)
      show ?thesis
      proof (cases "map_of (lmg_outstanding ?s) (lai_task_token lai)")
        case None
        with c assms(1) show ?thesis by (auto simp: la_complete_def asked_def)
      next
        case (Some info)
        have "lmg_outstanding (taken_out ?s (lai_task_token lai) info) =
            AList.delete (lai_task_token lai) (lmg_outstanding s)"
          by (simp add: taken_out_def without_def Let_def set_shutdown_complete_if_ready_def)
        then have "lmg_outstanding s' = AList.delete (lai_task_token lai) (lmg_outstanding s)"
          by (cases rule: la_complete_view [OF c Some]) (simp_all add: same_view_def)
        with assms(1) show ?thesis
          by (auto simp: asked_def delete_conv' simp del: map_of_eq_Some_iff split: if_splits)
      qed
    qed
  qed
qed

lemma poll_cancel_flag:
  assumes "poll_cancel x clk s = Ok (action, s')"
  shows "lmg_workflows_have_shut_down s' = lmg_workflows_have_shut_down s"
proof -
  have flag: "lmg_workflows_have_shut_down s' = lmg_workflows_have_shut_down t"
    if "la_complete x clk t tt status = Ok (a, s')" for t tt status a
  proof (cases "map_of (lmg_outstanding t) tt")
    case (Some info)
    have "lmg_workflows_have_shut_down (taken_out t tt info) = lmg_workflows_have_shut_down t"
      by (simp add: taken_out_def without_def Let_def set_shutdown_complete_if_ready_def)
    then show ?thesis by (cases rule: la_complete_view [OF that Some]) (simp_all add: same_view_def)
  qed (use that in \<open>auto simp: la_complete_def\<close>)
  from assms show ?thesis
    by (auto simp: poll_cancel_def next_cancel_def res_map_eq_Ok split: list.splits if_splits option.splits
        CancelOrTimeout.splits dest!: flag)
qed

lemma asked_polls:
  assumes "asked rid s" "lam_run x s (replicate n (clk, LAM_PollCancel)) = Ok s'"
  shows "asked rid s'"
  using assms
  by (induction n arbitrary: s) (auto simp: res_bind_eq_Ok res_map_eq_Ok intro: asked_poll)

lemma same_flags_polls:
  assumes "lam_run x s (replicate n (clk, LAM_PollCancel)) = Ok s'"
  shows "lmg_workflows_have_shut_down s' = lmg_workflows_have_shut_down s"
  using assms
proof (induction n arbitrary: s)
  case (Suc n)
  then obtain a s1 where p: "poll_cancel x clk s = Ok (a, s1)"
    and rest: "lam_run x s1 (replicate n (clk, LAM_PollCancel)) = Ok s'"
    by (auto simp: res_bind_eq_Ok res_map_eq_Ok)
  have "lmg_workflows_have_shut_down s1 = lmg_workflows_have_shut_down s" by (rule poll_cancel_flag [OF p])
  with Suc.IH [OF rest] show ?case by simp
qed simp

text \<open>Once everything was delivered, asking once more queues nothing.\<close>

lemma cancel_all_stays_delivered:
  assumes "lam_inv s" "asked rid s \<or> lmg_workflows_have_shut_down s"
    and "lam_run x s (replicate n (clk, LAM_PollCancel)) = Ok s'" "\<not> has_undelivered_cancels s' rid"
  shows "\<not> has_undelivered_cancels (snd (enqueue clk' s' [LAR_CancelAllInRun rid])) rid"
proof (cases "lmg_workflows_have_shut_down s'")
  case True
  with assms(4) show ?thesis by (simp add: enqueue_def)
next
  case False
  with same_flags_polls [OF assms(3)] assms(2) have "asked rid s" by simp
  from asked_polls [OF this assms(3)] have asks: "asked rid s'" .
  have inv: "lam_inv s'" by (rule agree.run_from [OF assms(1) _ assms(3)]) (simp add: list_all_iff)
  have "enqueue clk' s' [LAR_CancelAllInRun rid] =
      (fst (enqueue_one clk' s' (LAR_CancelAllInRun rid)), snd (enqueue_one clk' s' (LAR_CancelAllInRun rid)))"
    using False by (simp add: enqueue_def case_prod_beta del: enqueue_one.simps)
  with cancel_all_again [OF inv asks assms(4) False, of clk'] show ?thesis by simp
qed

section \<open>A run that is to be evicted\<close>

text \<open>The run has nothing outstanding, neither a task nor an activation.\<close>

definition idle_evicting :: "RequestEvictMsg \<Rightarrow> ManagedRun \<Rightarrow> bool" where
  "idle_evicting reason r \<longleftrightarrow> mr_activation r = None \<and> mr_wft r = None \<and> mr_trying_to_evict r = Some reason"

lemma cancel_all_no_resolutions:
  "sink_reqs env [LAR_CancelAllInRun rid] w = ([], snd (sink_reqs env [LAR_CancelAllInRun rid] w))"
  by (auto simp: sink_reqs_def enqueue_def Let_def split: option.split)

lemma check_more_idle:
  assumes "idle_evicting reason r"
  shows "check_more_activations env r w =
    (let w' = snd (sink_reqs env [LAR_CancelAllInRun (mr_run_id r)] (abort_waiting r w));
         r' = r\<lparr>mr_waiting_on_la := None\<rparr>
     in if sink_has_undelivered_cancels w' (mr_run_id r) then Ok (None, r', w')
        else Ok (Some (LangActivation (evict_activation r reason)), r'\<lparr>mr_activation := Some OA_Eviction\<rparr>, w'))"
proof -
  let ?r = "r\<lparr>mr_waiting_on_la := None\<rparr>"
  have [simp]: "mr_run_id ?r = mr_run_id r" by (simp add: mr_run_id_def)
  have [simp]: "evict_activation ?r reason = evict_activation r reason" by (simp add: evict_activation_def)
  have kind: "activation_kind (LangActivation (evict_activation r reason)) = OA_Eviction"
    by (simp add: activation_kind_def is_only_eviction_def evict_activation_def)
  let ?w = "snd (sink_reqs env [LAR_CancelAllInRun (mr_run_id r)] (abort_waiting r w))"
  have sunk: "sink_la_requests env [LAR_CancelAllInRun (mr_run_id r)] ?r (abort_waiting r w) = Ok (Inr (), ?r, ?w)"
    unfolding sink_la_requests_def by (subst cancel_all_no_resolutions) simp
  from assms have idle: "mr_activation r = None" "mr_wft r = None" "mr_trying_to_evict r = Some reason"
    by (simp_all add: idle_evicting_def)
  have evict: "try_evict env r w = Ok (Inr (if sink_has_undelivered_cancels ?w (mr_run_id r) then None
      else Some (LangActivation (evict_activation r reason))), ?r, ?w)"
    by (simp add: try_evict_def Let_def idle sunk more_pending_work_def try_bind_def has_undelivered_la_cancels_def)
  show ?thesis
    unfolding check_more_activations_def update_plain_def
    by (simp add: mr_check_more_def idle mr_update_ok.simps settle_def choose_act_def evict more_pending_work_def
        try_bind_def conclude_def fulfill_def has_any_pending_work_def insert_outstanding_activation_def kind Let_def)
qed

end
