(* ===== verification/ManagedRunProperties.thy ===== *)
theory ManagedRunProperties
  imports Evictions LocalActivityProperties
begin

text \<open>
  Properties of a run: at most one activation is outstanding, completions are answered once,
  evictions wait for cancellations and then go out; and four behaviours of the code that its
  documentation excludes.
\<close>

section \<open>Calls on a run\<close>

text \<open>The calls of the stream on a run that may hand out an activation.\<close>

datatype RunOp =
    RO_Task PermittedWFT
  | RO_Completion NewOrFetchedComplete
  | RO_Evict RequestEvictMsg
  | RO_Resolution LocalActivityResolution
  | RO_Heartbeat
  | RO_CheckMore

fun run_call :: "nat \<Rightarrow> RunEnv \<Rightarrow> RunOp \<Rightarrow> ManagedRun \<Rightarrow> World \<Rightarrow> RunUpdateAct step" where
  "run_call depth env (RO_Task t) r w =
     (case buffer_wft_if_outstanding_work t r of
        (None, r) \<Rightarrow> Ok (None, r, w) | (Some t, r) \<Rightarrow> incoming_wft env t r w)"
| "run_call depth env (RO_Completion c) r w =
     map_step (\<lambda>v. case v of Inl _ \<Rightarrow> None | Inr act \<Rightarrow> act) (complete_on_run depth env c r w)"
| "run_call depth env (RO_Evict info) r w =
     map_step into_run_update_resp (request_eviction depth env info r w)"
| "run_call depth env (RO_Resolution res) r w = mr_local_resolution env res r w"
| "run_call depth env RO_Heartbeat r w = heartbeat_timeout env r w"
| "run_call depth env RO_CheckMore r w = check_more_activations env r w"

lemma complete_on_run_calm:
  assumes "fail_handling (failed_completion d) ok stops ans" "ok (mr_config r)"
  shows "steps (complete_on_run d env c r w) stops
    (\<lambda>v r' w'. case v of Inl _ \<Rightarrow> kept r r' | Inr act \<Rightarrow> calm r act r')"
proof (cases c)
  case (NC_New vc tx)
  then show ?thesis
    using fail_handling.successful_calm [OF assms] fail_handling.fail_calm [OF assms]
    by (cases vc) (simp_all add: successful_completion_def)
next
  case (NC_Fetched u p)
  then show ?thesis
    using fail_handling.fetched_calm [OF assms, where p = "Some p"]
    by (simp add: fetched_page_completion_def Let_def)
qed

lemma local_resolution_quiet:
  "steps (mr_local_resolution env res r w) silent (\<lambda>act r' w'. quiet_update r w act r' w' \<and>
     mr_trying_to_evict r' = mr_trying_to_evict r)"
proof -
  let ?n = "manager_call env MC_Notify (unit_call (\<lambda>m. notify_of_local_result (env_x env) m res)) r w"
  let ?m = "try_bind ?n (\<lambda>_ r w. if mr_activation r = None then mr_check_more env r w else Ok (Inr None, r, w))"
  have fr: "framed r w ?m"
    by (rule framed_try_bind [OF framed_manager_call]) (simp add: framed_mr_check_more)
  have same: "?n = Ok (v, r1, w1) \<Longrightarrow> mr_activation r1 = mr_activation r" for v r1 w1
    by (drule framedD [OF framed_manager_call]) (simp add: frame_def)
  have free: "?m = Ok (Inr (Some a), r1, w1) \<Longrightarrow> mr_activation r = None" for a r1 w1
    by (auto simp: try_bind_Ok dest!: same split: if_splits)
  have "steps (update_plain env ?m) silent (\<lambda>act r' w'. quiet_update r w act r' w' \<and>
      mr_trying_to_evict r' = mr_trying_to_evict r)"
    by (rule update_plain_quiet [OF fr _ free]) (auto simp: try_bind_Err)
  moreover have "steps (update_plain env (mr_check_more env r w)) silent (\<lambda>act r' w'. quiet_update r w act r' w' \<and>
      mr_trying_to_evict r' = mr_trying_to_evict r)"
    using check_more_quiet by (simp add: check_more_activations_def)
  ultimately show ?thesis by (simp add: mr_local_resolution_def)
qed

lemma heartbeat_quiet:
  "steps (heartbeat_timeout env r w) silent (\<lambda>act r' w'. quiet_update r w act r' w' \<and>
     mr_trying_to_evict r' = mr_trying_to_evict r)"
proof (cases "mr_waiting_on_la r")
  case (Some wa)
  let ?r = "r\<lparr>mr_waiting_on_la := Some (wa\<lparr>wol_heartbeat_timeout_pending := True\<rparr>)\<rparr>"
  have ff: "free_for (OutgoingAct (if mr_activation r = None then Some (Autocomplete (mr_run_id r)) else None)) ?r"
    by simp
  have "steps (mr_update_ok env (OutgoingAct (if mr_activation r = None then Some (Autocomplete (mr_run_id r)) else None))
      (?r, abort_waiting r w)) silent (\<lambda>act r' w'. quiet_update r w act r' w' \<and>
      mr_trying_to_evict r' = mr_trying_to_evict r)"
    using mr_update_ok_quiet [OF ff]
    by (rule steps_mono)
      (auto simp: quiet_update_def kept_def handed_out_def abort_waiting_def abort_heartbeat_def split: option.splits)
  with Some show ?thesis by (simp add: heartbeat_timeout_def)
next
  case None
  have "free_for (OutgoingAct None) r" by simp
  from mr_update_ok_quiet [OF this] None show ?thesis by (simp add: heartbeat_timeout_def)
qed

text \<open>The calls other than completions keep the answers, and hand out what becomes outstanding.\<close>

lemma run_call_quiet:
  assumes "case op of RO_Completion _ \<Rightarrow> False | RO_Evict _ \<Rightarrow> mr_completion_waiting_on_page_fetch r = None | _ \<Rightarrow> True"
  shows "steps (run_call d env op r w) silent (\<lambda>act r' w'. quiet_update r w act r' w')"
proof (cases op)
  case (RO_Task t)
  show ?thesis
  proof (cases "mr_activation r = None")
    case True
    have "steps (incoming_wft env t r w) silent (\<lambda>act r' w'. quiet_update r w act r' w')"
      using incoming_wft_quiet [OF True] by (rule steps_mono) auto
    with RO_Task True show ?thesis
      by (auto simp: buffer_wft_if_outstanding_work_def quiet_update_def kept_def handed_out_def split: if_splits)
  qed (use RO_Task in \<open>auto simp: buffer_wft_if_outstanding_work_def quiet_update_def kept_def handed_out_def
    split: option.split\<close>)
next
  case (RO_Evict info)
  with assms have "run_call d env op r w = map_step into_run_update_resp (note_eviction env info r w)"
    by (simp add: request_eviction_def request_eviction_idle)
  moreover have "steps (note_eviction env info r w) silent (\<lambda>e r' w'. quiet_update r w (into_run_update_resp e) r' w')"
    using note_eviction_quiet by (rule steps_mono) auto
  ultimately show ?thesis by simp
next
  case (RO_Resolution res)
  have "steps (mr_local_resolution env res r w) silent (\<lambda>act r' w'. quiet_update r w act r' w')"
    using local_resolution_quiet by (rule steps_mono) auto
  with RO_Resolution show ?thesis by simp
next
  case RO_Heartbeat
  have "steps (heartbeat_timeout env r w) silent (\<lambda>act r' w'. quiet_update r w act r' w')"
    using heartbeat_quiet by (rule steps_mono) auto
  with RO_Heartbeat show ?thesis by simp
next
  case RO_CheckMore
  have "steps (check_more_activations env r w) silent (\<lambda>act r' w'. quiet_update r w act r' w')"
    using check_more_quiet by (rule steps_mono) auto
  with RO_CheckMore show ?thesis by simp
qed (use assms in simp)

lemma run_call_calm:
  assumes "fail_handling (failed_completion d) ok stops ans" "ok (mr_config r)"
  shows "steps (run_call d env op r w) stops (\<lambda>act r' w'. calm r act r')"
proof (cases "case op of RO_Completion _ \<Rightarrow> False | RO_Evict _ \<Rightarrow> mr_completion_waiting_on_page_fetch r = None | _ \<Rightarrow> True")
  case True
  show ?thesis
    using run_call_quiet [OF True] by (rule steps_mono) (auto simp: quiet_update_def intro: handed_out_calm)
next
  case False
  show ?thesis
  proof (cases op)
    case (RO_Completion c)
    have "steps (complete_on_run d env c r w) stops
        (\<lambda>v r' w'. calm r (case v of Inl _ \<Rightarrow> None | Inr act \<Rightarrow> act) r')"
      using complete_on_run_calm [OF assms] by (rule steps_mono) (auto split: sum.splits)
    with RO_Completion show ?thesis by simp
  next
    case (RO_Evict info)
    with fail_handling.request_eviction_calm [OF assms] show ?thesis by (simp add: request_eviction_def)
  qed (use False in simp_all)
qed

section \<open>Properties\<close>

text \<open>C5: a run never has two activations: no call stops because an activation was about to be
  overwritten, and while one is outstanding it stays outstanding and a call hands out nothing but the
  failure of a task.\<close>

theorem one_activation_at_a_time:
  assumes "mr_activation r = Some k"
  shows "run_call depth env op r w \<noteq> Err ActivationOverwritten \<and>
    (\<forall>act r' w'. run_call depth env op r w = Ok (act, r', w') \<longrightarrow>
       mr_activation r' = Some k \<and> (\<forall>a. act = Some a \<longrightarrow> is_auto_fail a))"
proof -
  have "steps (run_call depth env op r w) bottom_only (\<lambda>act r' w'. calm r act r')"
    by (rule run_call_calm [OF failed_completion_handles]) simp
  with assms show ?thesis
    by (cases "run_call depth env op r w") (auto simp: calm_def kept_def split: option.splits)
qed

text \<open>C27: an activation that a call other than a completion hands out is the one that becomes
  outstanding, and none was outstanding before; and nothing becomes outstanding that is not handed
  out.\<close>

theorem handed_out_activation_is_outstanding:
  assumes "run_call depth env op r w = Ok (act, r', w')"
    and "case op of RO_Completion _ \<Rightarrow> False | RO_Evict _ \<Rightarrow> mr_completion_waiting_on_page_fetch r = None | _ \<Rightarrow> True"
  shows "(\<forall>a. act = Some a \<and> \<not> is_auto_fail a \<longrightarrow>
      mr_activation r = None \<and> mr_activation r' = Some (activation_kind a)) \<and>
    (act = None \<longrightarrow> mr_activation r' = mr_activation r)"
  using run_call_quiet [OF assms(2), of depth env w] assms(1)
  by (auto simp: quiet_update_def handed_out_def split: option.splits)


text \<open>The handling of failed completions comes to an end: for a worker that does not turn failures
  of tasks into failures of workflows, no call on a run reaches the bottom of the recursion from depth
  2 on, and none stops for another reason.\<close>

theorem unforced_calls_end:
  assumes "never_forces (mr_config r)"
  shows "run_call (Suc (Suc d)) env op r w \<noteq> Err e"
  using run_call_calm [OF unforced.fail_handling_axioms assms] by (metis steps_simps(2))


lemma until_terminal_True: "until_terminal True cs = ([], List.map_filter query_result cs)"
  by (induction cs) (auto simp: List.map_filter_simps simp del: query_result.simps split: option.split)

lemma until_terminal_False:
  "until_terminal False cs =
     (let rest = filter (\<lambda>c. query_result c = None) cs
      in (takeWhile (\<lambda>c. \<not> is_terminal (wfc_variant c)) rest @
          take 1 (dropWhile (\<lambda>c. \<not> is_terminal (wfc_variant c)) rest), List.map_filter query_result cs))"
  by (induction cs) (auto simp: Let_def until_terminal_True List.map_filter_simps simp del: query_result.simps split: option.split)

lemma split_at_terminal:
  fixes P :: "'a \<Rightarrow> bool"
  shows "takeWhile (\<lambda>c. \<not> P c) xs @ take 1 (dropWhile (\<lambda>c. \<not> P c) xs) =
     filter (\<lambda>c. \<not> P c) xs @ take 1 (filter P xs) \<longleftrightarrow> list_all P (dropWhile (\<lambda>c. \<not> P c) xs)"
proof (induction xs)
  case (Cons x xs)
  show ?case
  proof (cases "P x")
    case True
    have "x # ys = filter (\<lambda>c. \<not> P c) xs @ [x] \<longleftrightarrow> ys = [] \<and> filter (\<lambda>c. \<not> P c) xs = []" if "ys = []" for ys
      using that True by (cases "filter (\<lambda>c. \<not> P c) xs") (auto dest: filter_eq_ConsD)
    with True show ?thesis by (auto simp: filter_empty_conv list_all_iff)
  qed (use Cons in auto)
qed simp

text \<open>C28: what is left of the commands of a completion contains no answer to a query, as the machines
  require, in the old and in the current way to prepare them; and the two ways agree exactly when no
  command follows the first one that ends the workflow, other commands that end it and answers to
  queries aside.\<close>

theorem preprocessing_agrees:
  "no_query_responses (fst (preprocess_command_sequence cs)) \<and>
   no_query_responses (fst (preprocess_command_sequence_old_behavior cs)) \<and>
   (preprocess_command_sequence_old_behavior cs = preprocess_command_sequence cs \<longleftrightarrow>
    list_all (\<lambda>c. is_terminal (wfc_variant c))
      (dropWhile (\<lambda>c. \<not> is_terminal (wfc_variant c)) (filter (\<lambda>c. query_result c = None) cs)))"
  (is "?new \<and> ?old \<and> ?agree")
proof (intro conjI)
  let ?rest = "filter (\<lambda>c. query_result c = None) cs"
  have plain: "c \<in> set ?rest \<Longrightarrow> (case wfc_variant c of QueryResponse _ \<Rightarrow> False | _ \<Rightarrow> True)" for c
    by (auto split: WFCommandVariant.splits)
  show ?new
    using plain
    by (auto simp: preprocess_command_sequence_def no_query_responses_def list_all_iff Let_def
        simp del: query_result.simps dest!: in_set_takeD)
  show ?old
    using plain
    by (auto simp: preprocess_command_sequence_old_behavior_def until_terminal_False no_query_responses_def list_all_iff
        Let_def simp del: query_result.simps dest!: in_set_takeD set_takeWhileD set_dropWhileD)
  show ?agree
    using split_at_terminal [of "\<lambda>c. is_terminal (wfc_variant c)" ?rest]
    by (simp add: preprocess_command_sequence_def preprocess_command_sequence_old_behavior_def until_terminal_False
        Let_def del: query_result.simps)
qed



text \<open>A run that is broken answers the completion of its eviction with nothing to do.\<close>

lemma complete_broken_eviction:
  assumes "mr_am_broken r" "mr_activation r = Some OA_Eviction" "mr_wft r = Some t"
    and "wfm_ready_to_apply_next_wft (mr_wfm r)" "\<not> env_receiver_gone env c"
  shows "\<exists>r' res. successful_completion_with on_fail env cs [] vb (Some c) forced r w =
      Ok (Inr None, r', w\<lparr>wo_replies := wo_replies w @ [(c, res)]\<rparr>) \<and> acr_outcome res = DoNothing \<and>
    mr_activation r' = Some OA_Eviction"
proof -
  have no_commands: "mr_preprocess_command_sequence r [] = ([], [])"
    by (simp add: mr_preprocess_command_sequence_def preprocess_command_sequence_def
        preprocess_command_sequence_old_behavior_def List.map_filter_simps)
  define r' where "r' = with_machines r (add_lang_used_flags (mr_machines r) [])"
  have r': "mr_activation r' = Some OA_Eviction" by (simp add: r'_def with_machines_def assms)
  have prep: "prepare_complete_resp chan data False r' = Ok (\<lparr>fac_result =
      \<lparr>acr_replaying = wm_replaying (mr_machines r'), acr_outcome = DoNothing\<rparr>, fac_resp_chan = chan\<rparr>, r')"
    if "cd_activation_was_eviction data" "cd_query_responses data = []" for chan data
    using that by (simp add: prepare_complete_resp_def eviction_has_output_def should_respond_def Let_def r'_def
        with_machines_def assms)
  have "activation_is_eviction r" using assms by (simp add: activation_is_eviction_def)
  then have "successful_completion_with on_fail env cs [] vb (Some c) forced r w =
      Ok (Inr None, r', w\<lparr>wo_replies := wo_replies w @ [(c, \<lparr>acr_replaying = wm_replaying (mr_machines r'),
        acr_outcome = DoNothing\<rparr>)]\<rparr>)"
    using assms
    by (simp add: successful_completion_with_def no_commands process_completion_def process_completion_inner_def
        update_to_acts_def prepare_step_def prep r'_def [symmetric] map_step_def Let_def r'
        mr_update_ok_busy fulfill_def send_reply_def)
  with r' show ?thesis by auto
qed

text \<open>The request to evict a broken run hands out the eviction.\<close>

lemma evict_broken_run:
  assumes "mr_am_broken r" "mr_activation r = None" "mr_trying_to_evict r = None" "mr_wft r = Some t"
    and "\<not> pending_work_is_legacy_query r" "rem_reason info \<notin> {ER_CacheFull, ER_WorkflowExecutionEnding}"
    and "mr_waiting_on_la r = None" "wo_lam w = None"
  shows "\<exists>act. note_eviction env info r w = Ok (EvictionRequested (Some act),
    r\<lparr>mr_wft := Some (t\<lparr>ot_pending_queries := []\<rparr>), mr_trying_to_evict := Some info,
      mr_activation := Some OA_Eviction\<rparr>, w)"
proof -
  define r1 where "r1 = r\<lparr>mr_wft := Some (t\<lparr>ot_pending_queries := []\<rparr>), mr_trying_to_evict := Some info\<rparr>"
  have r1: "mr_am_broken r1" "mr_activation r1 = None" "mr_wft r1 = Some (t\<lparr>ot_pending_queries := []\<rparr>)"
    "mr_trying_to_evict r1 = Some info" "mr_waiting_on_la r1 = None" "r1\<lparr>mr_waiting_on_la := None\<rparr> = r1"
    using assms by (simp_all add: r1_def)
  have check: "mr_check_more env r1 w = Ok (Inr None, r1, w)"
    by (simp add: mr_check_more_def r1 heartbeat_timeout_pending_def)
  have kind: "activation_kind (LangActivation (evict_activation r1 info)) = OA_Eviction"
    by (simp add: activation_kind_def is_only_eviction_def evict_activation_def)
  have evict: "try_evict env r1 w = Ok (Inr (Some (LangActivation (evict_activation r1 info))), r1, w)"
    by (simp add: try_evict_def r1 abort_waiting_def sink_la_requests_def sink_reqs_def assms(8) try_bind_def
        has_undelivered_la_cancels_def sink_has_undelivered_cancels_def Let_def)
  have "mr_update_ok env (OutgoingAct None) (r1, w) =
      Ok (Some (LangActivation (evict_activation r1 info)), r1\<lparr>mr_activation := Some OA_Eviction\<rparr>, w)"
    by (simp add: mr_update_ok.simps settle_def choose_act_def check evict try_bind_def conclude_def fulfill_def
        insert_outstanding_activation_def r1(2) kind Let_def)
  then show ?thesis
    using assms(2-6)
    by (simp add: note_eviction_def activation_is_eviction_def Let_def check_more_activations_def update_plain_def
        check r1_def [symmetric])
qed

text \<open>C31: when the update of a run fails for nondeterminism and no completion is at hand, the task is
  failed by the worker itself.  On a worker that fails workflows for nondeterminism this strands the
  run: it believes its eviction is outstanding, which was thrown away and never reaches the language
  side; the command that fails the workflow is dropped and nothing is reported; the message that ends
  the handling of the failure does not release the run; and every later task is buffered.\<close>

theorem auto_failed_run_stranded:
  assumes "mr_am_broken r" "mr_activation r = None" "mr_trying_to_evict r = None"
    and "mr_wft r = Some t" "wti_attempt (ot_info t) \<le> 1" "\<not> pending_work_is_legacy_query r"
    and "should_fail_workflow (mr_config r) (wm_workflow_type (mr_machines r)) WET_Nondeterminism"
    and "mr_completion_waiting_on_page_fetch r = None" "mr_waiting_on_la r = None" "wo_lam w = None"
    and "wfm_ready_to_apply_next_wft (mr_wfm r)" "\<not> env_receiver_gone env c"
  shows "\<exists>r' res. failed_completion (Suc d) env WTFC_NonDeterministicError ER_Unspecified failure True (Some c) r w =
      Ok (None, r', w\<lparr>wo_replies := wo_replies w @ [(c, res)]\<rparr>) \<and> acr_outcome res = DoNothing \<and>
    mr_activation r' = Some OA_Eviction \<and>
    finish_activation env (\<lambda>act. act = OA_Autocomplete) r' w' = ((False, BufferedTasks_default), r', w') \<and>
    (\<forall>task. fst (buffer_wft_if_outstanding_work task r') = None)"
proof -
  let ?info = "\<lparr>rem_run_id = mr_run_id r, rem_message = ''Workflow activation completion failed: '',
    rem_reason = ER_Unspecified, rem_auto_reply_fail = None\<rparr>"
  define r1 where "r1 = r\<lparr>mr_wft := Some (t\<lparr>ot_pending_queries := []\<rparr>), mr_trying_to_evict := Some ?info,
    mr_activation := Some OA_Eviction\<rparr>"
  obtain act where "note_eviction env ?info r w = Ok (EvictionRequested (Some act), r1, w)"
    using evict_broken_run [OF assms(1-4,6) _ assms(9,10), of ?info env] by (auto simp: r1_def)
  then have lost: "map_step into_run_update_resp (request_eviction_with (failed_completion d) env ?info r w) =
      Ok (Some act, r1, w)" by (simp add: request_eviction_idle assms(8) map_step_def)
  have r1: "mr_activation r1 = Some OA_Eviction" "mr_wft r1 = Some (t\<lparr>ot_pending_queries := []\<rparr>)" "mr_am_broken r1"
    "mr_wfm r1 = mr_wfm r" "mr_config r1 = mr_config r" "\<not> pending_work_is_legacy_query r1"
    using assms(1) by (simp_all add: r1_def pending_work_is_legacy_query_def has_pending_legacy_query_def)
  have ready: "wfm_ready_to_apply_next_wft (mr_wfm r1)" using assms(11) r1 by simp
  obtain r' res where completed: "successful_completion_with (failed_completion d) env
      [\<lparr>wfc_variant = FailWorkflow (wcf_failure failure), wfc_annotations = CommandAnnotations_default\<rparr>] []
      VB_Unspecified (Some c) True r1 w = Ok (Inr None, r', w\<lparr>wo_replies := wo_replies w @ [(c, res)]\<rparr>)"
    "acr_outcome res = DoNothing" "mr_activation r' = Some OA_Eviction"
    using complete_broken_eviction [OF r1(3,1,2) ready assms(12)] by blast
  have "failed_completion (Suc d) env WTFC_NonDeterministicError ER_Unspecified failure True (Some c) r w =
      Ok (None, r', w\<lparr>wo_replies := wo_replies w @ [(c, res)]\<rparr>)"
    using lost completed assms(4,5,6,7) r1 by (simp add: Let_def map_step_def)
  with completed show ?thesis by (auto simp: finish_activation_def buffer_wft_if_outstanding_work_def)
qed

section \<open>Concrete runs\<close>

definition run_basics_with :: "HistoryUpdate \<Rightarrow> RunBasics" where
  "run_basics_with h = \<lparr>rb_history = h, rb_workflow_id = ''w'', rb_workflow_type = ''t'', rb_run_id = ''r'',
     rb_sdk_metadata_capability = True, rb_sdk_name = ''s'', rb_sdk_version = ''1'',
     rb_worker_config = \<lparr>cfg_namespace = ''n'', cfg_task_queue = ''q'', cfg_versioning_strategy = VS_None []\<rparr>\<rparr>"

definition config_with :: "WorkflowErrorType list \<Rightarrow> RunConfig" where
  "config_with errors = \<lparr>rc_max_cached_workflows = 1, rc_workflow_failure_errors = errors,
     rc_workflow_types_to_failure_errors = Map.empty\<rparr>"

definition sample_env :: RunEnv where
  "sample_env = \<lparr>env_x = sample_externals, env_clk = clock_at 0, env_receiver_gone = (\<lambda>_. False),
     env_error_text = (\<lambda>_. ''''), env_left = (\<lambda>_ _ m. m)\<rparr>"

definition sample_wft :: OutstandingTask where
  "sample_wft = \<lparr>ot_info = \<lparr>wti_task_token = ''tt'', wti_attempt = 1, wti_started_event_id = 3,
     wti_started_time = None, wti_previous_started_event_id = 0, wti_wf_id = ''w''\<rparr>,
     ot_pending_queries = [], ot_start_time = 0\<rparr>"

definition sample_evict :: RequestEvictMsg where
  "sample_evict = \<lparr>rem_run_id = ''r'', rem_message = ''m'', rem_reason = ER_LangRequested, rem_auto_reply_fail = None\<rparr>"

definition run_with ::
    "HistoryUpdate \<Rightarrow> WorkflowErrorType list \<Rightarrow> OutstandingTask option \<Rightarrow> OutstandingActivation option \<Rightarrow>
     RequestEvictMsg option \<Rightarrow> ManagedRun" where
  "run_with h errors t act e =
     \<lparr>mr_wfm = wfm_new (run_basics_with h), mr_waiting_on_la = None, mr_am_broken = False, mr_wft = t,
      mr_activation = act, mr_task_buffer = BufferedTasks_default, mr_trying_to_evict = e,
      mr_paginator = Some (paginator_new [] 0 3 ''w'' ''r'' FetchFromStart),
      mr_completion_waiting_on_page_fetch = None, mr_config = config_with errors\<rparr>"

definition no_world :: "LocalActivityManager option \<Rightarrow> World" where
  "no_world lam = \<lparr>wo_lam = lam, wo_next_abort = 0, wo_replies = []\<rparr>"

definition sample_query :: "bool \<Rightarrow> PermittedWFT" where
  "sample_query query = \<lparr>pwf_work = \<lparr>prep_task_token = ''tt'', prep_attempt = 1, prep_started_time = None,
     prep_execution = \<lparr>we_workflow_id = ''w'', we_run_id = ''r''\<rparr>, prep_workflow_type = ''t'',
     prep_legacy_query = (if query then Some ''q'' else None), prep_query_requests = [],
     prep_update = \<lparr>hu_events = [], hu_previous_wft_started_id = 3, hu_wft_started_id = (if query then 0 else 7),
       hu_has_last_wft = True, hu_wft_count = 0\<rparr>, prep_messages = []\<rparr>,
     pwf_paginator = paginator_new [] 3 7 ''w'' ''r'' FetchFromStart\<rparr>"

lemma run_with_simps [simp]:
  "mr_waiting_on_la (run_with h errors t act e) = None" "\<not> mr_am_broken (run_with h errors t act e)"
  "mr_wft (run_with h errors t act e) = t" "mr_activation (run_with h errors t act e) = act"
  "mr_trying_to_evict (run_with h errors t act e) = e" "mr_completion_waiting_on_page_fetch (run_with h errors t act e) = None"
  "mr_config (run_with h errors t act e) = config_with errors" "mr_run_id (run_with h errors t act e) = ''r''"
  "\<exists>p. mr_paginator (run_with h errors t act e) = Some p" "mr_wfm (run_with h errors t act e) = wfm_new (run_basics_with h)"
  by (simp_all add: run_with_def mr_run_id_def wfm_new_def wm_new_def run_basics_with_def Let_def)

lemma config_with_simps [simp]:
  "never_forces (config_with [])" "should_fail_workflow (config_with [WET_Nondeterminism]) wt WET_Nondeterminism"
  by (simp_all add: never_forces_def config_with_def should_fail_workflow_def)

lemma ready_run_with:
  "wfm_ready_to_apply_next_wft (wfm_new (run_basics_with (hu_dummy\<lparr>hu_has_last_wft := True\<rparr>)))"
  "\<not> wfm_ready_to_apply_next_wft (wfm_new (run_basics_with hu_dummy))"
  by (simp_all add: wfm_ready_to_apply_next_wft_def ready_to_apply_next_wft_def can_take_next_wft_sequence_def
      find_end_index_of_next_wft_seq_def wfm_new_def wm_new_def run_basics_with_def hu_dummy_def Let_def)

lemma no_legacy_query [simp]: "act \<noteq> Some OA_LegacyQuery \<Longrightarrow> \<not> pending_work_is_legacy_query (run_with h errors (Some sample_wft) act e)"
  by (simp add: pending_work_is_legacy_query_def has_pending_legacy_query_def sample_wft_def)

theorem one_activation_at_a_time_witness:
  "mr_activation (run_with hu_dummy [] (Some sample_wft) (Some OA_Normal) None) = Some OA_Normal \<and>
   run_call 2 sample_env RO_CheckMore (run_with hu_dummy [] (Some sample_wft) (Some OA_Normal) None) (no_world None)
     \<noteq> Err ActivationOverwritten"
  using one_activation_at_a_time [of "run_with hu_dummy [] (Some sample_wft) (Some OA_Normal) None" OA_Normal 2 sample_env
    RO_CheckMore "no_world None"] by simp

theorem handed_out_activation_is_outstanding_witness:
  "\<exists>act r' w'. run_call 2 sample_env RO_CheckMore (run_with hu_dummy [] None None (Some sample_evict)) (no_world None) =
     Ok (Some act, r', w') \<and> \<not> is_auto_fail act \<and> mr_activation r' = Some (activation_kind act)"
proof -
  let ?r = "run_with hu_dummy [] None None (Some sample_evict)"
  have "idle_evicting sample_evict ?r" by (simp add: idle_evicting_def)
  from check_more_idle [OF this] obtain act r' w' where
    e: "run_call 2 sample_env RO_CheckMore ?r (no_world None) = Ok (Some act, r', w')" "\<not> is_auto_fail act"
    by (auto simp: no_world_def abort_waiting_def sink_reqs_def sink_has_undelivered_cancels_def)
  from handed_out_activation_is_outstanding [OF e(1)] e show ?thesis by auto
qed


theorem unforced_calls_end_witness:
  "never_forces (config_with []) \<and>
   run_call (Suc (Suc 0)) sample_env RO_Heartbeat (run_with hu_dummy [] None None None) (no_world None) \<noteq> Err DepthExceeded"
  using unforced_calls_end [of "run_with hu_dummy [] None None None" 0 sample_env RO_Heartbeat "no_world None" DepthExceeded]
  by simp




theorem auto_failed_run_stranded_witness:
  "\<exists>r' w'. failed_completion (Suc 0) sample_env WTFC_NonDeterministicError ER_Unspecified
      \<lparr>wcf_failure = None, wcf_force_cause = WTFC_NonDeterministicError\<rparr> True (Some 7)
      ((run_with (hu_dummy\<lparr>hu_has_last_wft := True\<rparr>) [WET_Nondeterminism] (Some sample_wft) None None)\<lparr>mr_am_broken := True\<rparr>)
      (no_world None) = Ok (None, r', w') \<and> mr_activation r' = Some OA_Eviction"
proof -
  let ?r0 = "run_with (hu_dummy\<lparr>hu_has_last_wft := True\<rparr>) [WET_Nondeterminism] (Some sample_wft) None None"
  let ?r = "?r0\<lparr>mr_am_broken := True\<rparr>"
  have legacy: "\<not> pending_work_is_legacy_query ?r"
    by (simp add: pending_work_is_legacy_query_def has_pending_legacy_query_def sample_wft_def)
  note stranded = auto_failed_run_stranded [of ?r sample_wft "no_world None" sample_env 7 0
      "\<lparr>wcf_failure = None, wcf_force_cause = WTFC_NonDeterministicError\<rparr>" "no_world None", OF _ _ _ _ _ legacy]
  have "wti_attempt (ot_info sample_wft) \<le> 1" "wo_lam (no_world None) = None" "\<not> env_receiver_gone sample_env 7"
    by (simp_all add: sample_wft_def no_world_def sample_env_def)
  with stranded show ?thesis by (auto simp: ready_run_with simp del: failed_completion.simps)
qed

end
