(* ===== verification/StreamContracts.thy ===== *)
theory StreamContracts
  imports ManagedRunProperties
begin

text \<open>
  What the inputs of the stream keep: the cache holds no key twice and never more runs than it has
  room for, and every run has the configuration of the worker.  From it follows that no input stops
  the worker because the cache overflows or an activation is overwritten.
\<close>

section \<open>The cache\<close>

abbreviation runs :: "'c LruCache \<Rightarrow> 'c RunCache \<Rightarrow> string \<Rightarrow> ManagedRun option" where
  "runs L rc \<equiv> map_of (lru_iter L (rca_runs rc))"

definition cache_ok :: "'c LruCache \<Rightarrow> RunConfig \<Rightarrow> 'c RunCache \<Rightarrow> bool" where
  "cache_ok L cfg rc \<longleftrightarrow> rca_config rc = cfg \<and> distinct (map fst (lru_iter L (rca_runs rc))) \<and>
     lru_cap L (rca_runs rc) = (if rc_max_cached_workflows cfg > 0 then rc_max_cached_workflows cfg else 1) \<and>
     length (lru_iter L (rca_runs rc)) \<le> lru_cap L (rca_runs rc) \<and>
     (\<forall>k r. runs L rc k = Some r \<longrightarrow> mr_config r = cfg)"

text \<open>What the calls on a run keep, the end of an activation included.\<close>

definition lasting :: "ManagedRun \<Rightarrow> ManagedRun \<Rightarrow> bool" where
  "lasting r r' \<longleftrightarrow> mr_config r' = mr_config r \<and> (mr_trying_to_evict r \<noteq> None \<longrightarrow> mr_trying_to_evict r' \<noteq> None)"

lemma lasting_refl [simp]: "lasting r r"
  by (simp add: lasting_def)

lemma kept_lasting: "kept r r' \<Longrightarrow> lasting r r'"
  by (auto simp: kept_def lasting_def)

text \<open>The same runs, each of them kept.\<close>

definition cache_kept :: "'c LruCache \<Rightarrow> 'c RunCache \<Rightarrow> 'c RunCache \<Rightarrow> bool" where
  "cache_kept L rc rc' \<longleftrightarrow> (\<forall>k. rel_option lasting (runs L rc k) (runs L rc' k))"

lemma cache_kept_refl [simp]: "cache_kept L rc rc"
  by (simp add: cache_kept_def option.rel_refl)

lemma rel_lasting_trans:
  "rel_option lasting a b \<Longrightarrow> rel_option lasting b c \<Longrightarrow> rel_option lasting a c"
  by (cases a; cases b; cases c) (auto simp: lasting_def)

lemma cache_kept_trans: "cache_kept L rc rc1 \<Longrightarrow> cache_kept L rc1 rc2 \<Longrightarrow> cache_kept L rc rc2"
  unfolding cache_kept_def using rel_lasting_trans by blast

lemma map_of_filter_other: "map_of (filter (\<lambda>e. fst e \<noteq> k) al) j = (if j = k then None else map_of al j)"
  by (induction al) auto

lemma length_filter_key:
  "distinct (map fst al) \<Longrightarrow> map_of al k = Some v \<Longrightarrow> Suc (length (filter (\<lambda>e. fst e \<noteq> k) al)) = length al"
proof (induction al)
  case (Cons p al)
  have "filter (\<lambda>e. fst e \<noteq> k) al = al" if "k \<notin> fst ` set al" using that by (auto simp: filter_id_conv)
  with Cons show ?case by (cases "fst p = k") auto
qed simp

lemma map_of_map_value:
  "map_of (map (\<lambda>(k', v'). (k', if k' = k then v else v')) al) j =
     (case map_of al j of Some v' \<Rightarrow> Some (if j = k then v else v') | None \<Rightarrow> None)"
  by (induction al) auto

lemma get_mut_view:
  assumes "lru_laws L" "distinct (map fst (lru_iter L c))" "lru_get_mut L k c = (v, c')"
  shows "v = map_of (lru_iter L c) k" "map_of (lru_iter L c') = map_of (lru_iter L c)"
    "distinct (map fst (lru_iter L c'))" "length (lru_iter L c') = length (lru_iter L c)" "lru_cap L c' = lru_cap L c"
proof -
  from assms(1) have "fst (lru_get_mut L k c) = map_of (lru_iter L c) k \<and>
      lru_cap L (snd (lru_get_mut L k c)) = lru_cap L c \<and>
      lru_iter L (snd (lru_get_mut L k c)) = (case map_of (lru_iter L c) k of
        Some v \<Rightarrow> (k, v) # filter (\<lambda>e. fst e \<noteq> k) (lru_iter L c) | None \<Rightarrow> lru_iter L c)"
    unfolding lru_laws_def by blast
  with assms(3) have it: "v = map_of (lru_iter L c) k" "lru_cap L c' = lru_cap L c"
    "lru_iter L c' = (case map_of (lru_iter L c) k of
      Some v \<Rightarrow> (k, v) # filter (\<lambda>e. fst e \<noteq> k) (lru_iter L c) | None \<Rightarrow> lru_iter L c)"
    by simp_all
  show "v = map_of (lru_iter L c) k" "lru_cap L c' = lru_cap L c" by (fact it)+
  show "map_of (lru_iter L c') = map_of (lru_iter L c)"
    by (rule ext) (auto simp: it(3) map_of_filter_other split: option.split)
  show "length (lru_iter L c') = length (lru_iter L c)"
    using length_filter_key [OF assms(2)] by (auto simp: it(3) split: option.split)
  show "distinct (map fst (lru_iter L c'))"
    using assms(2) by (auto simp: it(3) distinct_map inj_on_def split: option.split)
qed

lemma set_view:
  assumes "lru_laws L"
  shows "map_of (lru_iter L (lru_set L k v c)) j =
      (case map_of (lru_iter L c) j of Some v' \<Rightarrow> Some (if j = k then v else v') | None \<Rightarrow> None)"
    "map fst (lru_iter L (lru_set L k v c)) = map fst (lru_iter L c)"
    "length (lru_iter L (lru_set L k v c)) = length (lru_iter L c)" "lru_cap L (lru_set L k v c) = lru_cap L c"
proof -
  from assms have it: "lru_iter L (lru_set L k v c) = map (\<lambda>(k', v'). (k', if k' = k then v else v')) (lru_iter L c)"
    "lru_cap L (lru_set L k v c) = lru_cap L c" by (simp_all add: lru_laws_def)
  then show "map_of (lru_iter L (lru_set L k v c)) j =
      (case map_of (lru_iter L c) j of Some v' \<Rightarrow> Some (if j = k then v else v') | None \<Rightarrow> None)"
    "map fst (lru_iter L (lru_set L k v c)) = map fst (lru_iter L c)"
    "length (lru_iter L (lru_set L k v c)) = length (lru_iter L c)" "lru_cap L (lru_set L k v c) = lru_cap L c"
    by (auto simp: map_of_map_value)
qed

lemma push_view:
  assumes "lru_laws L" "map_of (lru_iter L c) k = None" "length (lru_iter L c) < lru_cap L c"
  shows "\<exists>c'. lru_push L k v c = (None, c') \<and> lru_iter L c' = (k, v) # lru_iter L c \<and> lru_cap L c' = lru_cap L c"
proof -
  from assms(1) have "lru_cap L (snd (lru_push L k v c)) = lru_cap L c \<and>
      (map_of (lru_iter L c) k = None \<and> length (lru_iter L c) < lru_cap L c \<longrightarrow>
         fst (lru_push L k v c) = None \<and> lru_iter L (snd (lru_push L k v c)) = (k, v) # lru_iter L c)"
    unfolding lru_laws_def by blast
  with assms(2,3) show ?thesis by (cases "lru_push L k v c") simp
qed

text \<open>A call on a run of the cache.\<close>

lemma with_run_contract:
  assumes "lru_laws L" "cache_ok L cfg rc"
    and "\<And>r. runs L rc k = Some r \<Longrightarrow> mr_config r = cfg \<Longrightarrow> steps (f r w) E (\<lambda>v r' w'. lasting r r' \<and> P v r')"
  shows "steps (with_run L k absent f rc w) E (\<lambda>v rc' w'. cache_ok L cfg rc' \<and> cache_kept L rc rc' \<and>
    (case runs L rc k of None \<Rightarrow> v = absent | Some _ \<Rightarrow> \<exists>r'. runs L rc' k = Some r' \<and> P v r'))"
proof -
  obtain v c where g: "lru_get_mut L k (rca_runs rc) = (v, c)" by (cases "lru_get_mut L k (rca_runs rc)")
  note view = get_mut_view [OF assms(1) _ g]
  from assms(2) have d: "distinct (map fst (lru_iter L (rca_runs rc)))" by (simp add: cache_ok_def)
  show ?thesis
  proof (cases v)
    case None
    with view(1) [OF d] have absent: "runs L rc k = None" by simp
    from None assms(2) view [OF d] show ?thesis
      by (simp add: with_run_def g absent cache_ok_def cache_kept_def option.rel_refl)
  next
    case (Some r)
    with view(1) [OF d] have r: "runs L rc k = Some r" by simp
    with assms(2) have cfg: "mr_config r = cfg" by (simp add: cache_ok_def)
    have "cache_ok L cfg (rc\<lparr>rca_runs := lru_set L k r' c\<rparr>) \<and> cache_kept L rc (rc\<lparr>rca_runs := lru_set L k r' c\<rparr>) \<and>
        runs L (rc\<lparr>rca_runs := lru_set L k r' c\<rparr>) k = Some r'" if "lasting r r'" for r'
    proof -
      have "mr_config r' = cfg" using that cfg by (simp add: lasting_def)
      with that assms(2) r show ?thesis
        by (auto simp: cache_ok_def cache_kept_def set_view [OF assms(1)] view [OF d] option.rel_refl
            simp del: map_of_eq_Some_iff split: option.splits if_splits)
    qed
    with assms(3) [OF r cfg] Some r show ?thesis
      by (cases "f r w") (auto simp: with_run_def g)
  qed
qed

lemma with_run_cached:
  "lru_get_mut L k (rca_runs rc) = (Some r, c) \<Longrightarrow> with_run L k absent f rc w =
     res_map (\<lambda>(v, r, w). (v, rc\<lparr>rca_runs := lru_set L k r c\<rparr>, w)) (f r w)"
  by (simp add: with_run_def)

lemma steps_on_cache [simp]:
  "steps (on_cache f s w) E Q \<longleftrightarrow> steps (f (ws_runs s) w) E (\<lambda>v rc w'. Q v (s\<lparr>ws_runs := rc\<rparr>) w')"
  by (simp add: on_cache_def steps_res_map)

section \<open>New tasks\<close>

lemma mr_new_contract:
  "steps (mr_new env basics config t w) silent (\<lambda>act r w'. mr_config r = config)"
  unfolding mr_new_def
  by (rule steps_mono [OF incoming_wft_quiet]) (auto simp: quiet_update_def kept_def)

lemma rc_instantiate_contract:
  assumes "lru_laws L" "cache_ok L cfg rc"
    and "\<And>r. runs L rc (run_key t) = Some r \<Longrightarrow> mr_activation r = None"
    and "runs L rc (run_key t) = None \<Longrightarrow> length (lru_iter L (rca_runs rc)) < lru_cap L (rca_runs rc)"
  shows "steps (rc_instantiate_or_update L env t rc w) silent (\<lambda>_ rc' w'. cache_ok L cfg rc')"
proof -
  obtain v c where g: "lru_get_mut L (run_key t) (rca_runs rc) = (v, c)"
    by (cases "lru_get_mut L (run_key t) (rca_runs rc)")
  from assms(2) have d: "distinct (map fst (lru_iter L (rca_runs rc)))" by (simp add: cache_ok_def)
  note view = get_mut_view [OF assms(1) d g]
  show ?thesis
  proof (cases v)
    case (Some r)
    with view(1) assms(3) have free: "mr_activation r = None" by simp
    have "steps (incoming_wft env t r' w) silent (\<lambda>v r'' w'. lasting r' r'' \<and> True)" if "mr_activation r' = None" for r'
      using incoming_wft_quiet [OF that] by (rule steps_mono) (auto simp: quiet_update_def intro: kept_lasting)
    then have "steps (with_run L (run_key t) None (incoming_wft env t) rc w) silent (\<lambda>_ rc' w'. cache_ok L cfg rc')"
      by (rule steps_mono [OF with_run_contract [OF assms(1,2)]]) (use assms(3) in auto)
    with g Some show ?thesis by (simp add: rc_instantiate_or_update_def with_run_cached Let_def)
  next
    case None
    with view have new: "map_of (lru_iter L c) (run_key t) = None" "length (lru_iter L c) < lru_cap L c"
      using assms(4) by auto
    have "steps (case lru_push L (run_key t) r c of (None, c) \<Rightarrow> Ok (rur, rc\<lparr>rca_runs := c\<rparr>, w')
        | (Some _, _) \<Rightarrow> Err CacheOverflow) silent (\<lambda>_ rc' w'. cache_ok L cfg rc')" if "mr_config r = cfg" for rur r w'
    proof -
      obtain c' where c': "lru_push L (run_key t) r c = (None, c')" "lru_iter L c' = (run_key t, r) # lru_iter L c"
        "lru_cap L c' = lru_cap L c" using push_view [OF assms(1) new] by blast
      moreover have "run_key t \<notin> fst ` set (lru_iter L c)" using new(1) by (simp add: map_of_eq_None_iff)
      ultimately show ?thesis
        using that assms(2) view new by (simp add: cache_ok_def del: map_of_eq_Some_iff)
    qed
    moreover have "rca_config rc = cfg" using assms(2) by (simp add: cache_ok_def)
    ultimately show ?thesis
      using None g mr_new_contract [of env "run_basics rc t" "rca_config rc" t w]
      by (cases "mr_new env (run_basics rc t) (rca_config rc) t w") (auto simp: rc_instantiate_or_update_def Let_def)
  qed
qed

lemma instantiate_contract:
  assumes "lru_laws L" "cache_ok L cfg (ws_runs s)"
  shows "steps (ws_instantiate_or_update L env t s w) silent (\<lambda>_ s' w'. cache_ok L cfg (ws_runs s'))"
proof -
  let ?buffer = "\<lambda>r w. case buffer_wft_if_outstanding_work t r of (v, r) \<Rightarrow> Ok (v, r, w)"
  let ?P = "\<lambda>v r'. v = None \<or> v = Some t \<and> mr_activation r' = None"
  have "steps (?buffer r w) silent (\<lambda>v r' w'. lasting r r' \<and> ?P v r')" for r
    by (auto simp: buffer_wft_if_outstanding_work_def lasting_def)
  from with_run_contract [OF assms, of "run_key t" ?buffer w silent ?P "Some t", OF this]
  have buffered: "steps (on_cache (with_run L (run_key t) (Some t) ?buffer) s w) silent (\<lambda>v s1 w1.
      cache_ok L cfg (ws_runs s1) \<and> (v \<noteq> None \<longrightarrow> v = Some t \<and>
        (\<forall>r. runs L (ws_runs s1) (run_key t) = Some r \<longrightarrow> mr_activation r = None)))"
    unfolding steps_on_cache
    by (rule steps_mono) (auto simp: cache_kept_def rel_option_iff simp del: map_of_eq_Some_iff
        split: option.splits dest: spec [of _ "run_key t"])
  have rest: "steps (rc_instantiate_or_update L env t (ws_runs s1) w1) silent (\<lambda>_ rc' w'. cache_ok L cfg rc')"
    if "cache_ok L cfg (ws_runs s1)" "has_run L (ws_runs s1) (run_key t) \<or> \<not> is_full L (ws_runs s1)"
      "\<forall>r. runs L (ws_runs s1) (run_key t) = Some r \<longrightarrow> mr_activation r = None" for s1 :: "'a WFStream" and w1
    by (rule rc_instantiate_contract [OF assms(1)])
      (use that in \<open>auto simp: has_run_def is_full_def cache_ok_def simp del: map_of_eq_Some_iff\<close>)
  have "steps (try_instantiate_or_update L env t s w) silent (\<lambda>_ s' w'. cache_ok L cfg (ws_runs s'))"
    unfolding try_instantiate_or_update_def
    by (rule steps_bind [OF buffered])
      (auto simp: Let_def steps_res_map case_prod_beta rest split: option.splits)
  then show ?thesis
    by (auto simp: ws_instantiate_or_update_def steps_res_map elim!: steps_mono split: sum.splits)
qed

section \<open>Calls on cached runs\<close>

lemma with_run_lasting:
  assumes "lru_laws L" "cache_ok L cfg rc"
    and "\<And>r. mr_config r = cfg \<Longrightarrow> steps (f r w) E (\<lambda>v r' w'. lasting r r')"
  shows "steps (with_run L k absent f rc w) E (\<lambda>v rc' w'. cache_ok L cfg rc' \<and> cache_kept L rc rc')"
proof -
  have "steps (f r w) E (\<lambda>v r' w'. lasting r r' \<and> True)" if "mr_config r = cfg" for r
    using assms(3) [OF that] by simp
  with with_run_contract [OF assms(1,2), where f = f and P = "\<lambda>_ _. True" and k = k and absent = absent and w = w and E = E]
  show ?thesis by (auto elim!: steps_mono)
qed

lemma touch_view:
  assumes "lru_laws L" "cache_ok L cfg rc"
  shows "fst (rc_touch L k rc) = runs L rc k" "cache_ok L cfg (snd (rc_touch L k rc))"
    "cache_kept L rc (snd (rc_touch L k rc))"
  using assms get_mut_view [OF assms(1), of "rca_runs rc" k]
  by (auto simp: rc_touch_def cache_ok_def cache_kept_def option.rel_refl simp del: map_of_eq_Some_iff
      split: prod.split)

lemma pop_view:
  assumes "lru_laws L"
  shows "lru_iter L (snd (lru_pop L k c)) = filter (\<lambda>e. fst e \<noteq> k) (lru_iter L c)"
    "lru_cap L (snd (lru_pop L k c)) = lru_cap L c"
  using assms by (simp_all add: lru_laws_def)

lemma remove_ok:
  assumes "lru_laws L" "cache_ok L cfg rc"
  shows "cache_ok L cfg (rc_remove L k rc)"
proof -
  have "length (lru_iter L (rca_runs rc)) \<le> lru_cap L (rca_runs rc)" using assms(2) by (simp add: cache_ok_def)
  then have "length (filter (\<lambda>e. fst e \<noteq> k) (lru_iter L (rca_runs rc))) \<le> lru_cap L (rca_runs rc)"
    using length_filter_le le_trans by blast
  with assms show ?thesis
    by (auto simp: cache_ok_def rc_remove_def pop_view [OF assms(1)] map_of_filter_other distinct_map inj_on_def
        simp del: map_of_eq_Some_iff)
qed

text \<open>The calls on a run keep its configuration and that it is being evicted.\<close>

lemma quiet_lasting: "quiet_update r w act r' w' \<Longrightarrow> lasting r r'"
  by (simp add: quiet_update_def kept_lasting)

lemma calm_lasting: "calm r act r' \<Longrightarrow> lasting r r'"
  by (simp add: calm_def kept_lasting)

lemma check_more_lasting: "steps (check_more_activations env r w) E (\<lambda>_ r' w'. lasting r r')"
  using check_more_quiet by (rule steps_mono) (auto intro: quiet_lasting)

lemma local_resolution_lasting: "steps (mr_local_resolution env res r w) E (\<lambda>_ r' w'. lasting r r')"
  using local_resolution_quiet by (rule steps_mono) (auto intro: quiet_lasting)

lemma heartbeat_lasting: "steps (heartbeat_timeout env r w) E (\<lambda>_ r' w'. lasting r r')"
  using heartbeat_quiet by (rule steps_mono) (auto intro: quiet_lasting)

lemma finish_lasting: "steps (Ok (finish_activation env pred r w)) E (\<lambda>_ r' w'. lasting r r')"
  by (auto simp: finish_activation_def lasting_def Let_def split: option.split)

lemma mark_complete_lasting: "steps (Ok (mark_wft_complete env st r w)) E (\<lambda>_ r' w'. lasting r r')"
  by (auto simp: mark_wft_complete_def lasting_def Let_def with_machines_def split: WFTReportStatus.split option.split)

lemma request_eviction_lasting:
  assumes "fail_handling (failed_completion d) ok stops ans" "ok (mr_config r)"
  shows "steps (request_eviction d env info r w) stops (\<lambda>_ r' w'. lasting r r')"
  unfolding request_eviction_def
  by (rule steps_mono [OF fail_handling.request_eviction_calm [OF assms]]) (auto intro: calm_lasting)

lemma complete_on_run_lasting:
  assumes "fail_handling (failed_completion d) ok stops ans" "ok (mr_config r)"
  shows "steps (complete_on_run d env c r w) stops (\<lambda>_ r' w'. lasting r r')"
  by (rule steps_mono [OF complete_on_run_calm [OF assms]])
    (auto intro: calm_lasting kept_lasting split: sum.splits)

lemma more_or_evict_lasting:
  assumes "fail_handling (failed_completion d) ok stops ans" "ok (mr_config r)"
  shows "steps (more_or_evict d env report r w) stops (\<lambda>_ r' w'. lasting r r')"
  unfolding more_or_evict_def
proof (rule steps_bind [OF check_more_lasting])
  fix v r1 w1
  assume l: "lasting r r1"
  then have "ok (mr_config r1)" using assms(2) by (simp add: lasting_def)
  from request_eviction_lasting [OF assms(1) this]
  have "steps (request_eviction d env info r1 w1) stops (\<lambda>_ r' w'. lasting r r')" for info
    by (rule steps_mono) (use l in \<open>auto simp: lasting_def\<close>)
  with l show "steps (case (v, r1, w1) of (res, r, w) \<Rightarrow>
       if res = None \<and> workflow_is_finished (mr_machines r) \<and> is_reported (pam_wft_report_status report) then
         map_step into_run_update_resp (request_eviction d env
           \<lparr>rem_run_id = pam_run_id report, rem_message = ''Workflow completed'',
            rem_reason = ER_WorkflowExecutionEnding, rem_auto_reply_fail = None\<rparr> r w)
       else Ok (res, r, w)) stops (\<lambda>_ r' w'. lasting r r')" by simp
qed

section \<open>The inputs of the stream\<close>

lemma on_run_ok:
  assumes "lru_laws L" "cache_ok L cfg (ws_runs s)"
    and "\<And>r. mr_config r = cfg \<Longrightarrow> steps (f r w) E (\<lambda>v r' w'. lasting r r')"
  shows "steps (on_cache (with_run L k absent f) s w) E (\<lambda>_ s' w'.
    cache_ok L cfg (ws_runs s') \<and> cache_kept L (ws_runs s) (ws_runs s') \<and>
    ws_buffered_polls_need_cache_slot s' = ws_buffered_polls_need_cache_slot s)"
  using with_run_lasting [where f = f and w = w and E = E, OF assms(1,2) assms(3)] by (auto elim: steps_mono)

lemma eviction_ok:
  assumes "fail_handling (failed_completion d) ok stops ans" "ok cfg" "lru_laws L" "cache_ok L cfg (ws_runs s)"
  shows "steps (ws_request_eviction L d env info s w) stops (\<lambda>_ s' w'.
    cache_ok L cfg (ws_runs s') \<and> cache_kept L (ws_runs s) (ws_runs s') \<and>
    ws_buffered_polls_need_cache_slot s' = ws_buffered_polls_need_cache_slot s)"
  unfolding ws_request_eviction_def
  by (rule on_run_ok [OF assms(3,4)]) (use request_eviction_lasting [OF assms(1)] assms(2) in auto)

lemma eviction_cache_ok:
  assumes "fail_handling (failed_completion d) ok stops ans" "ok cfg" "lru_laws L" "cache_ok L cfg (ws_runs s)"
  shows "steps (ws_request_eviction L d env info s w) stops (\<lambda>_ s' w'. cache_ok L cfg (ws_runs s'))"
  using eviction_ok [OF assms] by (rule steps_mono) auto

lemma instantiate_ok:
  assumes "lru_laws L" "cache_ok L cfg (ws_runs s)"
  shows "steps (ws_instantiate_or_update L env t s w) E (\<lambda>_ s' w'. cache_ok L cfg (ws_runs s'))"
  using instantiate_contract [OF assms] by (rule steps_mono) auto

lemma completion_ok:
  fixes s :: "'c WFStream"
  assumes "fail_handling (failed_completion d) ok stops ans" "ok cfg" "lru_laws L" "cache_ok L cfg (ws_runs s)"
  shows "steps (ws_process_completion L d env c s w) stops (\<lambda>_ s' w'. cache_ok L cfg (ws_runs s'))"
proof -
  let ?f = "\<lambda>r w. res_map (\<lambda>(v, r, w). (Some (v, may_make_room r), r, w)) (complete_on_run d env c r w)"
  have run: "steps (?f r w) stops (\<lambda>_ r' w'. lasting r r')" if "mr_config r = cfg" for r
    using complete_on_run_lasting [OF assms(1), of r] that assms(2) by (simp add: steps_res_map)
  have room: "steps (request_eviction_of_lru_run L d env s1 w1) stops (\<lambda>_ s' w'. cache_ok L cfg (ws_runs s'))"
    if "cache_ok L cfg (ws_runs s1)" for s1 :: "'c WFStream" and w1
    using eviction_cache_ok [OF assms(1-3) that] that
    by (simp add: request_eviction_of_lru_run_def split: option.split)
  show ?thesis
    unfolding ws_process_completion_def
    by (rule steps_bind [OF on_run_ok [where f = ?f and w = w, OF assms(3,4) run]])
      (auto simp: steps_res_map case_prod_beta room split: option.split sum.split)
qed

lemma complete_wft_ok:
  assumes "lru_laws L" "cache_ok L cfg (ws_runs s)"
  shows "steps (complete_wft L env k st s w) E (\<lambda>_ s' w'. cache_ok L cfg (ws_runs s'))"
proof -
  let ?s = "s\<lparr>ws_runs := snd (rc_touch L k (ws_runs s))\<rparr>"
  let ?f = "\<lambda>r w. if (case mr_wft r of Some wft \<Rightarrow> ot_pending_queries wft \<noteq> [] | None \<Rightarrow> False) then Ok (None, r, w)
    else Ok (mark_wft_complete env st r w)"
  have c: "cache_ok L cfg (ws_runs ?s)" using touch_view(2) [OF assms] by simp
  have "steps (?f r w) E (\<lambda>_ r' w'. lasting r r')" for r
    using mark_complete_lasting by simp
  from on_run_ok [where f = ?f and w = w, OF assms(1) c this]
  have "steps (on_cache (with_run L k None ?f) ?s w) E (\<lambda>_ s' w'. cache_ok L cfg (ws_runs s'))"
    by (rule steps_mono) auto
  with c show ?thesis unfolding complete_wft_def by (simp add: case_prod_beta Let_def)
qed

lemma instantiate_rest_ok:
  assumes "lru_laws L"
  shows "cache_ok L cfg (ws_runs s) \<Longrightarrow>
    steps (instantiate_rest L env ts res s w) E (\<lambda>_ s' w'. cache_ok L cfg (ws_runs s'))"
proof (induction ts arbitrary: res s w)
  case (Cons t ts)
  show ?case
    unfolding instantiate_rest.simps
    by (rule steps_bind [OF instantiate_ok [OF assms Cons.prems]]) (use Cons.IH in auto)
qed simp

lemma resume_ok:
  fixes s :: "'c WFStream"
  assumes "lru_laws L" "cache_ok L cfg (ws_runs s)"
  shows "steps (resume_buffered L env should_evict buffered compl s w) E (\<lambda>_ s' w'. cache_ok L cfg (ws_runs s'))"
proof -
  have "steps (res_bind (if ts = [] then Ok (None, s1, w) else ws_instantiate_or_update L env (last ts) s1 w)
      (\<lambda>(res, s, w). instantiate_rest L env ts' res s w)) E (\<lambda>_ s' w'. cache_ok L cfg (ws_runs s'))"
    if "ws_runs s1 = ws_runs s" for ts ts' and s1 :: "'c WFStream"
  proof -
    have c: "cache_ok L cfg (ws_runs s1)" using assms(2) that by simp
    have "steps (if ts = [] then Ok (None, s1, w) else ws_instantiate_or_update L env (last ts) s1 w) E
        (\<lambda>_ s' w'. cache_ok L cfg (ws_runs s'))"
      using instantiate_ok [OF assms(1) c] c by simp
    then show ?thesis by (rule steps_bind) (use instantiate_rest_ok [OF assms(1)] in auto)
  qed
  then show ?thesis
    by (simp add: resume_buffered_def Let_def case_prod_beta split: option.split list.split)
qed

lemma finish_ok:
  assumes "lru_laws L" "cache_ok L cfg (ws_runs s)"
  shows "steps (finish_and_resume L env report compl s w) E (\<lambda>_ s' w'. cache_ok L cfg (ws_runs s'))"
proof -
  let ?f = "\<lambda>r w. res_map (\<lambda>(v, r, w). (Some v, r, w)) (Ok (finish_activation env
    (\<lambda>act. \<not> pam_is_autocomplete report \<or> act = OA_Autocomplete) r w))"
  have run: "steps (?f r w) E (\<lambda>_ r' w'. lasting r r')" for r
    unfolding steps_res_map using finish_lasting by (simp add: case_prod_beta)
  show ?thesis
    unfolding finish_and_resume_def
    by (rule steps_bind [OF on_run_ok [where f = ?f and w = w, OF assms run]])
      (auto intro!: resume_ok assms(1) remove_ok split: option.split)
qed

lemma post_activation_ok:
  fixes s :: "'c WFStream"
  assumes "fail_handling (failed_completion d) ok stops ans" "ok cfg" "lru_laws L" "cache_ok L cfg (ws_runs s)"
  shows "steps (process_post_activation L d env report s w) stops (\<lambda>_ s' w'. cache_ok L cfg (ws_runs s'))"
proof -
  have run: "steps (more_or_evict d env report r w) stops (\<lambda>_ r' w'. lasting r r')" if "mr_config r = cfg" for r w
    using more_or_evict_lasting [OF assms(1)] that assms(2) by blast
  have more: "steps (on_cache (with_run L k None (more_or_evict d env report)) s1 w1) stops
      (\<lambda>_ s' w'. cache_ok L cfg (ws_runs s'))" if "cache_ok L cfg (ws_runs s1)" for s1 :: "'c WFStream" and w1 k
    by (rule steps_mono [OF on_run_ok [where f = "more_or_evict d env report" and w = w1, OF assms(3) that run]]) auto
  have "steps (res_bind (finish_and_resume L env report compl s1 w1) (\<lambda>(res, s, w).
        if res = None then on_cache (with_run L (pam_run_id report) None (more_or_evict d env report)) s w
        else Ok (res, s, w))) stops (\<lambda>_ s' w'. cache_ok L cfg (ws_runs s'))"
    if "cache_ok L cfg (ws_runs s1)" for s1 :: "'c WFStream" and w1 compl
    by (rule steps_bind [OF finish_ok [OF assms(3) that]]) (auto intro: more simp del: steps_on_cache)
  then show ?thesis
    unfolding process_post_activation_def Let_def
    by (intro steps_bind [OF complete_wft_ok [OF assms(3,4)]]) auto
qed

lemma steps_opt_list [simp]:
  "steps (opt_list m) E Q \<longleftrightarrow> steps m E (\<lambda>v. Q (case v of Some a \<Rightarrow> [a] | None \<Rightarrow> []))"
  by (simp add: opt_list_def steps_res_map)

lemma process_local_ok:
  assumes "fail_handling (failed_completion d) ok stops ans" "ok cfg" "lru_laws L" "cache_ok L cfg (ws_runs s)"
  shows "steps (process_local L d env i s w) stops (\<lambda>_ s' w'. cache_ok L cfg (ws_runs s'))"
proof -
  have run: "steps (on_cache (with_run L k None f) s w) stops (\<lambda>_ s' w'. cache_ok L cfg (ws_runs s'))"
    if "\<And>r. steps (f r w) stops (\<lambda>_ r' w'. lasting r r')" for f :: "ManagedRun \<Rightarrow> World \<Rightarrow> RunUpdateAct step" and k
    by (rule steps_mono [OF on_run_ok [where f = f and w = w, OF assms(3,4) that]]) auto
  show ?thesis
    using completion_ok [OF assms] post_activation_ok [OF assms] eviction_cache_ok [OF assms] assms(4)
      run [OF local_resolution_lasting] run [OF heartbeat_lasting] run [OF check_more_lasting]
    by (cases i) (simp_all add: steps_res_map case_prod_beta)
qed

lemma record_span_ok:
  "lru_laws L \<Longrightarrow> cache_ok L cfg (ws_runs s) \<Longrightarrow> cache_ok L cfg (ws_runs (record_span_fields L i s))"
  using touch_view(2) by (auto simp: record_span_fields_def split: option.split)

lemma handle_input_ok:
  assumes "fail_handling (failed_completion d) ok stops ans" "ok cfg" "lru_laws L" "cache_ok L cfg (ws_runs s)"
  shows "steps (handle_input L d env i s w) stops (\<lambda>_ s' w'. cache_ok L cfg (ws_runs s'))"
  using instantiate_ok [OF assms(3,4), where E = stops] eviction_cache_ok [OF assms] assms(4)
    process_local_ok [OF assms(1-3) record_span_ok [OF assms(3,4)]]
  by (cases i) (simp_all add: failed_fetch_def Let_def steps_res_map case_prod_beta split: option.split bool.split)

section \<open>Evictions for the sake of a slot\<close>

definition being_evicted :: "ManagedRun option \<Rightarrow> bool" where
  "being_evicted r \<longleftrightarrow> (case r of Some r \<Rightarrow> mr_trying_to_evict r \<noteq> None | None \<Rightarrow> False)"

lemma being_evicted_kept:
  "cache_kept L rc rc' \<Longrightarrow> being_evicted (runs L rc k) \<Longrightarrow> being_evicted (runs L rc' k)"
  unfolding cache_kept_def
  by (drule spec [of _ k]) (auto simp: being_evicted_def lasting_def option_rel_Some1 simp del: map_of_eq_Some_iff
      split: option.splits)

lemma cached_kept: "cache_kept L rc rc' \<Longrightarrow> (runs L rc k \<noteq> None) = (runs L rc' k \<noteq> None)"
  unfolding cache_kept_def by (drule spec [of _ k]) (auto simp: rel_option_iff split: option.splits)

lemma slot_eviction:
  assumes "lru_laws L" "cache_ok L cfg (ws_runs s)"
  shows "steps (ws_request_eviction L d env (cache_full_msg k) s w) E (\<lambda>_ s' w'.
    cache_ok L cfg (ws_runs s') \<and> cache_kept L (ws_runs s) (ws_runs s') \<and>
    ws_buffered_polls_need_cache_slot s' = ws_buffered_polls_need_cache_slot s \<and>
    (runs L (ws_runs s) k \<noteq> None \<longrightarrow> being_evicted (runs L (ws_runs s') k)))"
proof -
  let ?f = "request_eviction d env (cache_full_msg k)"
  have "?f r w = note_eviction env (cache_full_msg k) r w" for r
    by (simp add: request_eviction_def request_eviction_with_def cache_full_msg_def split: option.split)
  moreover have "steps (note_eviction env (cache_full_msg k) r w) E
      (\<lambda>_ r' w'. lasting r r' \<and> mr_trying_to_evict r' \<noteq> None)" for r
    by (rule steps_mono [OF note_eviction_quiet]) (auto intro: quiet_lasting)
  ultimately have run: "steps (?f r w) E (\<lambda>_ r' w'. lasting r r' \<and> mr_trying_to_evict r' \<noteq> None)" for r
    by simp
  from with_run_contract [where f = ?f and w = w and k = k and absent = NotFound
      and P = "\<lambda>_ r'. mr_trying_to_evict r' \<noteq> None", OF assms run]
  show ?thesis
    unfolding ws_request_eviction_def steps_on_cache
    by (subst (1) cache_full_msg_def, simp only: RequestEvictMsg.simps, elim steps_mono)
      (auto simp: being_evicted_def simp del: map_of_eq_Some_iff split: option.splits)
qed

lemma evict_each_ok:
  fixes s :: "'c WFStream"
  assumes "lru_laws L"
  shows "cache_ok L cfg (ws_runs s) \<Longrightarrow> steps (evict_each L d env ks s w) E (\<lambda>_ s' w'.
    cache_ok L cfg (ws_runs s') \<and> cache_kept L (ws_runs s) (ws_runs s') \<and>
    ws_buffered_polls_need_cache_slot s' = ws_buffered_polls_need_cache_slot s \<and>
    (\<forall>k\<in>set ks. runs L (ws_runs s) k \<noteq> None \<longrightarrow> being_evicted (runs L (ws_runs s') k)))"
proof (induction ks arbitrary: s w)
  case (Cons k ks)
  let ?Q = "\<lambda>s'. cache_ok L cfg (ws_runs s') \<and> cache_kept L (ws_runs s) (ws_runs s') \<and>
    ws_buffered_polls_need_cache_slot s' = ws_buffered_polls_need_cache_slot s \<and>
    (\<forall>j\<in>set (k # ks). runs L (ws_runs s) j \<noteq> None \<longrightarrow> being_evicted (runs L (ws_runs s') j))"
  have rest: "steps (evict_each L d env ks s1 w1) E (\<lambda>_ s' w'. ?Q s')"
    if one: "cache_ok L cfg (ws_runs s1) \<and> cache_kept L (ws_runs s) (ws_runs s1) \<and>
      ws_buffered_polls_need_cache_slot s1 = ws_buffered_polls_need_cache_slot s \<and>
      (runs L (ws_runs s) k \<noteq> None \<longrightarrow> being_evicted (runs L (ws_runs s1) k))" for s1 w1
  proof -
    from one have still: "runs L (ws_runs s1) j \<noteq> None" if "runs L (ws_runs s) j \<noteq> None" for j
      using that cached_kept by blast
    from one have "cache_ok L cfg (ws_runs s1)" by simp
    from Cons.IH [OF this] show ?thesis
      by (rule steps_mono) (use one still in \<open>auto intro: cache_kept_trans being_evicted_kept simp del: not_None_eq\<close>)
  qed
  show ?case
    unfolding evict_each.simps
    by (rule steps_bind [OF slot_eviction [OF assms Cons.prems, where k = k]])
      (simp only: prod.case steps_res_map, rule rest)
qed simp

text \<open>
  Tasks that wait for a slot have a run being evicted, or only runs that have tasks of their own
  waiting.
\<close>

definition slot_coming :: "'c LruCache \<Rightarrow> 'c WFStream \<Rightarrow> bool" where
  "slot_coming L s \<longleftrightarrow> ws_buffered_polls_need_cache_slot s = [] \<or>
     (\<exists>(k, r) \<in> set (lru_iter L (rca_runs (ws_runs s))). mr_trying_to_evict r \<noteq> None) \<or>
     (\<forall>(k, r) \<in> set (lru_iter L (rca_runs (ws_runs s))). has_tasks (mr_task_buffer r))"

lemma being_evicted_in: "being_evicted (map_of xs k) \<Longrightarrow> \<exists>(k, r) \<in> set xs. mr_trying_to_evict r \<noteq> None"
  by (auto simp: being_evicted_def dest: map_of_SomeD split: option.splits)

lemma slot_coming_evicted: "being_evicted (runs L (ws_runs s) k) \<Longrightarrow> slot_coming L s"
  unfolding slot_coming_def by (drule being_evicted_in) simp

lemma in_being_evicted:
  "distinct (map fst xs) \<Longrightarrow> (k, r) \<in> set xs \<Longrightarrow> mr_trying_to_evict r \<noteq> None \<Longrightarrow> being_evicted (map_of xs k)"
  by (simp add: being_evicted_def)

lemma evictions_for_in: "set (evictions_for xs n) \<subseteq> fst ` set xs"
  by (induction xs n rule: evictions_for.induct) auto

lemma evictions_for_none:
  "evictions_for xs n = [] \<Longrightarrow> n \<noteq> 0 \<Longrightarrow> \<forall>(k, r) \<in> set xs. has_tasks (mr_task_buffer r)"
  by (induction xs n rule: evictions_for.induct) (auto split: if_splits)

lemma pending_evictions_in:
  "pending_evictions L rc \<noteq> 0 \<Longrightarrow> \<exists>(k, r) \<in> set (lru_iter L (rca_runs rc)). mr_trying_to_evict r \<noteq> None"
  by (auto simp: pending_evictions_def runs_lru_order_def filter_empty_conv)

lemma reconcile_ok:
  assumes "lru_laws L" "cache_ok L cfg (ws_runs s)"
  shows "steps (reconcile_buffered L d env s w) E (\<lambda>_ s' w'. cache_ok L cfg (ws_runs s') \<and> slot_coming L s')"
proof (cases "ws_buffered_polls_need_cache_slot s = []")
  case False
  let ?n = "length (ws_buffered_polls_need_cache_slot s) - pending_evictions L (ws_runs s)"
  let ?ks = "evictions_for (runs_lru_order L (ws_runs s)) ?n"
  have dist: "distinct (map fst (lru_iter L (rca_runs (ws_runs s))))" using assms(2) by (simp add: cache_ok_def)
  have cached: "runs L (ws_runs s) k \<noteq> None" if "k \<in> set ?ks" for k
    using that evictions_for_in [of "runs_lru_order L (ws_runs s)" ?n]
    by (auto simp: runs_lru_order_def map_of_eq_None_iff simp del: not_None_eq)
  consider (pending) "pending_evictions L (ws_runs s) \<noteq> 0" | (some) k where "k \<in> set ?ks"
    | (tasks) "?ks = []" "?n \<noteq> 0"
    using False by (cases "pending_evictions L (ws_runs s) = 0"; cases ?ks) auto
  then have "steps (evict_each L d env ?ks s w) E (\<lambda>_ s' w'. cache_ok L cfg (ws_runs s') \<and> slot_coming L s')"
  proof cases
    case pending
    from pending_evictions_in [OF this] obtain k r where "(k, r) \<in> set (lru_iter L (rca_runs (ws_runs s)))" "mr_trying_to_evict r \<noteq> None"
      by (auto simp del: not_None_eq)
    from in_being_evicted [OF dist this] have b: "being_evicted (runs L (ws_runs s) k)" .
    show ?thesis
      by (rule steps_mono [OF evict_each_ok [OF assms]])
        (assumption, simp add: slot_coming_evicted [of L _ k] being_evicted_kept [OF _ b])
  next
    case some
    with cached have "runs L (ws_runs s) k \<noteq> None" by blast
    with some show ?thesis
      by (intro steps_mono [OF evict_each_ok [OF assms]])
        (assumption, simp add: slot_coming_evicted [of L _ k])
  next
    case tasks
    from evictions_for_none [OF this] tasks(1) assms(2) show ?thesis
      by (auto simp: slot_coming_def runs_lru_order_def)
  qed
  with False show ?thesis by (simp add: reconcile_buffered_def)
qed (use assms(2) in \<open>simp add: reconcile_buffered_def slot_coming_def\<close>)

lemma stream_step_ok:
  assumes "fail_handling (failed_completion d) ok stops ans" "ok cfg" "lru_laws L" "cache_ok L cfg (ws_runs s)"
  shows "steps (stream_step L d env i s w) stops (\<lambda>out s' w'. cache_ok L cfg (ws_runs s') \<and>
    ((\<exists>e. out = Inl (TonicError e)) \<or> slot_coming L s') \<and> (out = Inl ShutDown \<longrightarrow> shutdown_done L env s'))"
proof -
  let ?m = "res_bind (handle_input L d (se_run env) i s w) (\<lambda>(actions, s, w).
          res_map (\<lambda>(acts, s, w).
              if shutdown_done L env s then (Inl ShutDown, s, w)
              else (Inr \<lparr>wso_actions = actions @ map WSA_Activation acts,
                         wso_fetch_histories = ws_runs_needing_fetching s\<rparr>,
                    s\<lparr>ws_runs_needing_fetching := []\<rparr>, w))
            (reconcile_buffered L d (se_run env) s w))"
  have "steps ?m stops (\<lambda>out s' w'. cache_ok L cfg (ws_runs s') \<and>
      slot_coming L s' \<and> (out = Inl ShutDown \<longrightarrow> shutdown_done L env s'))"
    by (rule steps_bind [OF handle_input_ok [OF assms]], simp only: prod.case steps_res_map,
        rule steps_mono [OF reconcile_ok [OF assms(3)]]) (auto simp: slot_coming_def)
  then have "steps ?m stops (\<lambda>out s' w'. cache_ok L cfg (ws_runs s') \<and>
      ((\<exists>e. out = Inl (TonicError e)) \<or> slot_coming L s') \<and> (out = Inl ShutDown \<longrightarrow> shutdown_done L env s'))"
    by (rule steps_mono) auto
  then show ?thesis using assms(4) by (cases i) (simp_all add: stream_step_def)
qed

lemma stream_outputs_ok:
  assumes "fail_handling (failed_completion d) ok stops ans" "ok cfg" "lru_laws L"
  shows "cache_ok L cfg (ws_runs s) \<Longrightarrow>
    steps (stream_outputs L d inputs s w) stops (\<lambda>_ s' w'. cache_ok L cfg (ws_runs s'))"
proof (induction inputs arbitrary: s w)
  case (Cons p inputs)
  show ?case
    by (cases p, simp only: stream_outputs.simps, rule steps_bind [OF stream_step_ok [OF assms Cons.prems]])
      (use Cons.IH in \<open>auto simp: steps_res_map case_prod_beta\<close>)
qed simp

lemma new_cache_ok:
  "lru_laws L \<Longrightarrow> cache_ok L cfg (RunCache_new L worker_config cfg sdk capabilities)"
  by (simp add: cache_ok_def RunCache_new_def lru_laws_def)

end
