(* ===== verification/StreamProperties.thy ===== *)
theory StreamProperties
  imports StreamContracts
begin

text \<open>
  Properties of the stream: what it may stop on, the slots that waiting tasks get, and the state it
  is in when the shutdown ends; and a slot that stays empty while tasks wait for it.
\<close>

text \<open>C3: Whatever inputs arrive, in whatever order, the worker never stops because a run is pushed into a full cache or
  because an activation is handed out over one that is outstanding.  The cache never holds a run twice, nor more
  runs than the configuration allows (one when caching is off).\<close>

theorem stream_never_overflows:
  assumes "lru_laws L"
  shows "case stream_outputs L d inputs (ws_new (RunCache_new L worker_config cfg sdk capabilities) ignore_evicts) w of
      Ok (outs, s, w') \<Rightarrow> distinct (map fst (lru_iter L (rca_runs (ws_runs s)))) \<and>
        length (lru_iter L (rca_runs (ws_runs s))) \<le> max 1 (rc_max_cached_workflows cfg)
    | Err e \<Rightarrow> e = DepthExceeded
    | Panic \<Rightarrow> True"
proof -
  let ?s = "ws_new (RunCache_new L worker_config cfg sdk capabilities) ignore_evicts"
  have "cache_ok L cfg (ws_runs ?s)" using new_cache_ok [OF assms] by (simp add: ws_new_def)
  from stream_outputs_ok [OF failed_completion_handles [of d] TrueI assms this, of inputs w]
  show ?thesis by (auto simp: steps_def cache_ok_def split: res.split prod.split if_splits)
qed


text \<open>C7: After every input, tasks that wait for a cache slot have one coming: a cached run is being evicted, unless
  every cached run has tasks of its own waiting.\<close>

theorem waiting_tasks_get_a_slot:
  assumes "lru_laws L" "cache_ok L cfg (ws_runs s)"
    and "stream_step L d env input s w = Ok (Inr out, s', w')"
    and "ws_buffered_polls_need_cache_slot s' \<noteq> []"
  shows "(\<exists>(k, r) \<in> set (lru_iter L (rca_runs (ws_runs s'))). mr_trying_to_evict r \<noteq> None) \<or>
    (\<forall>(k, r) \<in> set (lru_iter L (rca_runs (ws_runs s'))). has_tasks (mr_task_buffer r))"
  using stepsD [OF stream_step_ok [OF failed_completion_handles TrueI assms(1,2)] assms(3)] assms(4)
  by (simp add: slot_coming_def)

text \<open>C26: When the stream ends by shutdown, no history is left to fetch and no cached run has a task, an activation or a
  buffered task; and unless evictions are ignored, no run is being evicted and, if anything is cached, no task waits
  for a slot.\<close>

theorem shutdown_leaves_no_work:
  assumes "lru_laws L" "cache_ok L cfg (ws_runs s)"
    and "stream_step L d env input s w = Ok (Inl ShutDown, s', w')"
  shows "ws_runs_needing_fetching s' = [] \<and>
    (\<forall>(k, r) \<in> set (lru_iter L (rca_runs (ws_runs s'))). mr_wft r = None \<and> \<not> has_tasks (mr_task_buffer r) \<and>
       mr_activation r \<in> {None, Some OA_Eviction}) \<and>
    (ws_ignore_evicts_on_shutdown s' \<or>
      (\<forall>(k, r) \<in> set (lru_iter L (rca_runs (ws_runs s'))). mr_activation r = None \<and> mr_trying_to_evict r = None) \<and>
      (ws_buffered_polls_need_cache_slot s' = [] \<or> lru_iter L (rca_runs (ws_runs s')) = []))"
proof -
  let ?it = "set (lru_iter L (rca_runs (ws_runs s')))"
  from stepsD [OF stream_step_ok [OF failed_completion_handles TrueI assms(1,2)] assms(3)]
  have slot: "slot_coming L s'" and ended: "shutdown_done L env s'" by auto
  then have idle: "\<forall>(k, r) \<in> ?it. \<not> has_any_pending_work r (ws_ignore_evicts_on_shutdown s') False"
    by (auto simp: shutdown_done_def rc_handles_def list_all_iff)
  then have "\<forall>(k, r) \<in> ?it. mr_wft r = None \<and> \<not> has_tasks (mr_task_buffer r) \<and>
      mr_activation r \<in> {None, Some OA_Eviction}"
    by (fastforce simp: has_any_pending_work_def split: if_splits)
  moreover have "(\<forall>(k, r) \<in> ?it. mr_activation r = None \<and> mr_trying_to_evict r = None) \<and>
      (ws_buffered_polls_need_cache_slot s' = [] \<or> lru_iter L (rca_runs (ws_runs s')) = [])"
    if "\<not> ws_ignore_evicts_on_shutdown s'"
  proof -
    from idle that have none: "\<forall>(k, r) \<in> ?it. mr_activation r = None \<and> mr_trying_to_evict r = None \<and>
        \<not> has_tasks (mr_task_buffer r)"
      by (fastforce simp: has_any_pending_work_def)
    with slot show ?thesis by (cases "lru_iter L (rca_runs (ws_runs s'))") (auto simp: slot_coming_def)
  qed
  ultimately show ?thesis using ended by (auto simp: shutdown_done_def)
qed

section \<open>A cache of one run\<close>

definition list_lru :: "(nat \<times> (string \<times> ManagedRun) list) LruCache" where
  "list_lru =
     \<lparr>lru_new = (\<lambda>n. (n, [])), lru_iter = snd, lru_cap = fst,
      lru_get_mut = (\<lambda>k (n, al). case map_of al k of
          Some v \<Rightarrow> (Some v, n, (k, v) # filter (\<lambda>e. fst e \<noteq> k) al) | None \<Rightarrow> (None, n, al)),
      lru_set = (\<lambda>k v (n, al). (n, map (\<lambda>(k', v'). (k', if k' = k then v else v')) al)),
      lru_push = (\<lambda>k v (n, al).
          if length al < n \<or> map_of al k \<noteq> None then
            (map_option (Pair k) (map_of al k), n, (k, v) # filter (\<lambda>e. fst e \<noteq> k) al)
          else (if al = [] then None else Some (last al), n, (k, v) # butlast al)),
      lru_pop = (\<lambda>k (n, al). (map_of al k, n, filter (\<lambda>e. fst e \<noteq> k) al))\<rparr>"

lemma list_lru_laws [simp]: "lru_laws list_lru"
proof -
  have "filter (\<lambda>e. fst e \<noteq> k) al = al" if "map_of al k = None" for k and al :: "(string \<times> ManagedRun) list"
    using that by (induction al) (auto split: if_splits)
  then show ?thesis by (auto simp: lru_laws_def list_lru_def split: option.split)
qed

definition one_run_stream :: "ManagedRun option \<Rightarrow> PermittedWFT list list \<Rightarrow> (nat \<times> (string \<times> ManagedRun) list) WFStream" where
  "one_run_stream r polls =
     \<lparr>ws_runs = \<lparr>rca_worker_config = \<lparr>cfg_namespace = ''n'', cfg_task_queue = ''q'', cfg_versioning_strategy = VS_None []\<rparr>,
        rca_config = config_with [], rca_sdk_name_and_version = (''s'', ''1''), rca_server_capabilities = True,
        rca_runs = (1, case r of Some r \<Rightarrow> [(''r'', r)] | None \<Rightarrow> [])\<rparr>,
      ws_buffered_polls_need_cache_slot = polls, ws_runs_needing_fetching = [], ws_shutdown_token = False,
      ws_ignore_evicts_on_shutdown = False\<rparr>"

definition stream_env :: "bool \<Rightarrow> StreamEnv" where
  "stream_env shutdown = \<lparr>se_run = sample_env, se_shutdown_requested = shutdown, se_fetches_held = False\<rparr>"

lemma one_run_ok:
  "(case r of Some r \<Rightarrow> mr_config r = config_with [] | None \<Rightarrow> True) \<Longrightarrow>
   cache_ok list_lru (config_with []) (ws_runs (one_run_stream r polls))"
  by (auto simp: cache_ok_def one_run_stream_def list_lru_def config_with_def split: option.split)

theorem stream_never_overflows_witness:
  "case stream_outputs list_lru 2 [(stream_env False, WSI_NewWft (sample_query False))]
        (ws_new (RunCache_new list_lru \<lparr>cfg_namespace = ''n'', cfg_task_queue = ''q'', cfg_versioning_strategy = VS_None []\<rparr>
          (config_with []) (''s'', ''1'') True) False) (no_world None) of
      Ok (outs, s, w') \<Rightarrow> distinct (map fst (lru_iter list_lru (rca_runs (ws_runs s)))) \<and>
        length (lru_iter list_lru (rca_runs (ws_runs s))) \<le> max 1 (rc_max_cached_workflows (config_with []))
    | Err e \<Rightarrow> e = DepthExceeded
    | Panic \<Rightarrow> True"
  by (rule stream_never_overflows [OF list_lru_laws])


section \<open>A slot that stays empty\<close>

lemma get_mut_single:
  assumes "lru_laws L" "lru_iter L c = [(k, r)]"
  shows "\<exists>c'. lru_get_mut L k c = (Some r, c') \<and> lru_iter L c' = [(k, r)] \<and> lru_cap L c' = lru_cap L c"
proof -
  from assms(1) have "fst (lru_get_mut L k c) = map_of (lru_iter L c) k \<and>
      lru_cap L (snd (lru_get_mut L k c)) = lru_cap L c \<and>
      lru_iter L (snd (lru_get_mut L k c)) = (case map_of (lru_iter L c) k of
        Some v \<Rightarrow> (k, v) # filter (\<lambda>e. fst e \<noteq> k) (lru_iter L c) | None \<Rightarrow> lru_iter L c)"
    unfolding lru_laws_def by blast
  with assms(2) show ?thesis by (cases "lru_get_mut L k c") simp
qed

lemma get_mut_empty:
  assumes "lru_laws L" "lru_iter L c = []"
  shows "\<exists>c'. lru_get_mut L k c = (None, c') \<and> lru_iter L c' = [] \<and> lru_cap L c' = lru_cap L c"
proof -
  from assms(1) have "fst (lru_get_mut L k c) = map_of (lru_iter L c) k \<and>
      lru_cap L (snd (lru_get_mut L k c)) = lru_cap L c \<and>
      lru_iter L (snd (lru_get_mut L k c)) = (case map_of (lru_iter L c) k of
        Some v \<Rightarrow> (k, v) # filter (\<lambda>e. fst e \<noteq> k) (lru_iter L c) | None \<Rightarrow> lru_iter L c)"
    unfolding lru_laws_def by blast
  with assms(2) show ?thesis by (cases "lru_get_mut L k c") simp
qed

lemma reconcile_empty:
  "lru_iter L (rca_runs (ws_runs s)) = [] \<Longrightarrow> reconcile_buffered L d env s w = Ok ([], s, w)"
  by (simp add: reconcile_buffered_def runs_lru_order_def)

text \<open>The run is evicted, and its own task, which does not start at the first event, needs its history fetched.\<close>

definition evicted_with_task :: "'c LruCache \<Rightarrow> string \<Rightarrow> PermittedWFT \<Rightarrow> PostActivationMsg \<Rightarrow> 'c WFStream \<Rightarrow> bool" where
  "evicted_with_task L k t report s \<longleftrightarrow>
     (\<exists>r. lru_iter L (rca_runs (ws_runs s)) = [(k, r)] \<and> mr_activation r = Some OA_Eviction \<and>
        mr_task_buffer r = BufferedTasks_default\<lparr>bt_wft := Some t\<rparr> \<and>
        \<not> wm_have_seen_terminal_event (mr_machines r)) \<and>
     lru_cap L (rca_runs (ws_runs s)) \<noteq> 0 \<and> run_key t = k \<and> is_incremental (pwf_work t) \<and>
     report = \<lparr>pam_run_id = k, pam_wft_report_status = NotReported, pam_wft_from_complete = None,
       pam_is_autocomplete = False\<rparr> \<and>
     ws_runs_needing_fetching s = [] \<and> \<not> ws_shutdown_token s"

lemma instantiate_incremental:
  assumes "lru_laws L" "lru_iter L (rca_runs (ws_runs s)) = []" "lru_cap L (rca_runs (ws_runs s)) \<noteq> 0"
    "is_incremental (pwf_work t)"
  shows "\<exists>c. ws_instantiate_or_update L env t s w = Ok (None, s\<lparr>ws_runs := (ws_runs s)\<lparr>rca_runs := c\<rparr>,
      ws_runs_needing_fetching := ws_runs_needing_fetching s @ [HF_Full t]\<rparr>, w) \<and> lru_iter L c = []"
proof -
  obtain c where c: "lru_get_mut L (run_key t) (rca_runs (ws_runs s)) = (None, c)" "lru_iter L c = []"
    "lru_cap L c = lru_cap L (rca_runs (ws_runs s))" using get_mut_empty [OF assms(1,2)] by blast
  with assms(3,4) show ?thesis
    by (intro exI [of _ c]) (simp add: ws_instantiate_or_update_def try_instantiate_or_update_def on_cache_def with_run_def Let_def
        has_run_def is_full_def)
qed

lemma evicted_post_activation:
  assumes "lru_laws L" "evicted_with_task L k t report s"
  shows "\<exists>s' w'. process_post_activation L d env report s w = Ok (None, s', w') \<and>
    lru_iter L (rca_runs (ws_runs s')) = [] \<and> ws_runs_needing_fetching s' = [HF_Full t] \<and>
    ws_buffered_polls_need_cache_slot s' = ws_buffered_polls_need_cache_slot s \<and> \<not> ws_shutdown_token s'"
proof -
  from assms(2) obtain r where r: "lru_iter L (rca_runs (ws_runs s)) = [(k, r)]" "mr_activation r = Some OA_Eviction"
      "mr_task_buffer r = BufferedTasks_default\<lparr>bt_wft := Some t\<rparr>" "\<not> wm_have_seen_terminal_event (mr_machines r)"
      "lru_cap L (rca_runs (ws_runs s)) \<noteq> 0" "run_key t = k" "is_incremental (pwf_work t)"
    and report: "report = \<lparr>pam_run_id = k, pam_wft_report_status = NotReported, pam_wft_from_complete = None,
       pam_is_autocomplete = False\<rparr>" and s: "ws_runs_needing_fetching s = []" "\<not> ws_shutdown_token s"
    by (auto simp: evicted_with_task_def)
  obtain c1 where c1: "lru_get_mut L k (rca_runs (ws_runs s)) = (Some r, c1)" "lru_iter L c1 = [(k, r)]"
    "lru_cap L c1 = lru_cap L (rca_runs (ws_runs s))" using get_mut_single [OF assms(1) r(1)] by blast
  obtain c2 where c2: "lru_get_mut L k c1 = (Some r, c2)" "lru_iter L c2 = [(k, r)]"
    "lru_cap L c2 = lru_cap L c1" using get_mut_single [OF assms(1) c1(2)] by blast
  obtain r' w' where fin: "finish_activation env (\<lambda>act. True) r w =
      ((True, BufferedTasks_default\<lparr>bt_wft := Some t\<rparr>), r', w')"
    using r(2,3) by (auto simp: finish_activation_def Let_def)
  define c3 where "c3 = snd (lru_pop L k (lru_set L k r' c2))"
  have c3: "lru_iter L c3 = []" "lru_cap L c3 \<noteq> 0"
    using set_view(2) [OF assms(1), of k r' c2] c1 c2 r(5)
    by (auto simp: c3_def pop_view [OF assms(1)] set_view(4) [OF assms(1)] map_eq_Cons_conv)
  let ?s3 = "s\<lparr>ws_runs := (ws_runs s)\<lparr>rca_runs := c3\<rparr>\<rparr>"
  obtain c4 where c4: "ws_instantiate_or_update L env t ?s3 w' = Ok (None, ?s3\<lparr>ws_runs := (ws_runs s)\<lparr>rca_runs := c4\<rparr>,
      ws_runs_needing_fetching := [HF_Full t]\<rparr>, w')" "lru_iter L c4 = []"
    using instantiate_incremental [OF assms(1) _ _ r(7), of ?s3 env w'] c3 s(1) by auto
  obtain c5 where c5: "lru_get_mut L k c4 = (None, c5)" "lru_iter L c5 = []"
    using get_mut_empty [OF assms(1) c4(2)] by blast
  have "complete_wft L env k NotReported s w = Ok (None, s\<lparr>ws_runs := (ws_runs s)\<lparr>rca_runs := c1\<rparr>\<rparr>, w)"
    using c1 r(4) by (simp add: complete_wft_def rc_touch_def)
  moreover have "finish_and_resume L env report None (s\<lparr>ws_runs := (ws_runs s)\<lparr>rca_runs := c1\<rparr>\<rparr>) w =
      Ok (None, ?s3\<lparr>ws_runs := (ws_runs s)\<lparr>rca_runs := c4\<rparr>, ws_runs_needing_fetching := [HF_Full t]\<rparr>, w')"
    using c2(1) c4(1) fin
    by (simp add: finish_and_resume_def report on_cache_def with_run_def rc_remove_def c3_def [symmetric]
        resume_buffered_def get_next_wft_def into_buffer_order_def BufferedTasks_default_def)
  ultimately show ?thesis
    using c5 s by (simp add: process_post_activation_def report on_cache_def with_run_def)
qed

text \<open>C29: A slot that an eviction frees can stay empty while tasks wait for it.  The stream gives it to the evicted run's own
  buffered task, which is sent away to have its history fetched; when that fetch fails, the cache is empty, no
  eviction can come, and the tasks that waited for the slot are neither started nor failed.  A shutdown then ends with
  them still waiting.\<close>

theorem freed_slot_stays_empty:
  assumes "lru_laws L" "evicted_with_task L k t report s" "\<not> se_shutdown_requested env" "\<not> se_fetches_held env"
  shows "\<exists>outs s' w'.
    stream_outputs L d [(env, WSI_Local (LI_PostActivation report)), (env, WSI_FailedFetch k err (Some info))] s w =
      Ok (outs, s', w') \<and>
    lru_iter L (rca_runs (ws_runs s')) = [] \<and>
    ws_buffered_polls_need_cache_slot s' = ws_buffered_polls_need_cache_slot s \<and>
    stream_step L d (env\<lparr>se_shutdown_requested := True\<rparr>) (WSI_Local LI_BumpStream) s' w' = Ok (Inl ShutDown, s', w')"
proof -
  let ?s = "record_span_fields L (LI_PostActivation report) s"
  have "evicted_with_task L k t report ?s"
    using assms(2) get_mut_single [OF assms(1), of "rca_runs (ws_runs s)" k]
    by (fastforce simp: evicted_with_task_def record_span_fields_def rc_touch_def)
  from evicted_post_activation [OF assms(1) this, of d "se_run env" w] obtain s1 w1 where
    one: "process_post_activation L d (se_run env) report ?s w = Ok (None, s1, w1)"
      "lru_iter L (rca_runs (ws_runs s1)) = []" "ws_runs_needing_fetching s1 = [HF_Full t]" "\<not> ws_shutdown_token s1"
      "ws_buffered_polls_need_cache_slot s1 = ws_buffered_polls_need_cache_slot s"
    by (auto simp: record_span_fields_def split: option.splits)
  then have "stream_step L d env (WSI_Local (LI_PostActivation report)) s w =
      Ok (Inr \<lparr>wso_actions = [], wso_fetch_histories = [HF_Full t]\<rparr>, s1\<lparr>ws_runs_needing_fetching := []\<rparr>, w1)"
    using assms(3) by (simp add: stream_step_def opt_list_def reconcile_empty shutdown_done_def)
  with one show ?thesis
    using assms(3,4)
    by (simp add: stream_step_def failed_fetch_def has_run_def Let_def reconcile_empty shutdown_done_def rc_handles_def
        record_span_fields_def opt_list_def)
qed

definition other_task :: PermittedWFT where
  "other_task = \<lparr>pwf_work = (pwf_work (sample_query False))\<lparr>prep_execution := \<lparr>we_workflow_id = ''o'', we_run_id = ''o''\<rparr>\<rparr>,
     pwf_paginator = paginator_new [] 3 7 ''o'' ''o'' FetchFromStart\<rparr>"

theorem waiting_tasks_get_a_slot_witness:
  "\<exists>out s' w'. stream_step list_lru 2 (stream_env False) (WSI_Local LI_BumpStream)
       (one_run_stream (Some (run_with hu_dummy [] (Some sample_wft) (Some OA_Normal) None)) [[other_task]]) (no_world None) =
         Ok (Inr out, s', w') \<and>
     ((\<exists>(k, r) \<in> set (lru_iter list_lru (rca_runs (ws_runs s'))). mr_trying_to_evict r \<noteq> None) \<or>
      (\<forall>(k, r) \<in> set (lru_iter list_lru (rca_runs (ws_runs s'))). has_tasks (mr_task_buffer r)))"
proof -
  let ?r = "run_with hu_dummy [] (Some sample_wft) (Some OA_Normal) None"
  let ?s = "one_run_stream (Some ?r) [[other_task]]"
  obtain out s' w' where e: "stream_step list_lru 2 (stream_env False) (WSI_Local LI_BumpStream) ?s (no_world None) =
      Ok (Inr out, s', w')" "ws_buffered_polls_need_cache_slot s' \<noteq> []"
    by (simp add: stream_step_def record_span_fields_def reconcile_buffered_def one_run_stream_def runs_lru_order_def
        pending_evictions_def list_lru_def run_with_def has_tasks_def BufferedTasks_default_def ws_request_eviction_def
        on_cache_def with_run_def cache_full_msg_def request_eviction_def request_eviction_with_def note_eviction_def
        activation_is_eviction_def check_more_activations_def mr_check_more_def update_plain_def mr_update_ok_busy
        shutdown_done_def stream_env_def)
  have "cache_ok list_lru (config_with []) (ws_runs ?s)" by (rule one_run_ok) simp
  from waiting_tasks_get_a_slot [OF list_lru_laws this e] e(1) show ?thesis by blast
qed

theorem shutdown_leaves_no_work_witness:
  "\<exists>s' w'. stream_step list_lru 2 (stream_env True) (WSI_Local LI_BumpStream)
       (one_run_stream (Some (run_with hu_dummy [] None None None)) []) (no_world None) = Ok (Inl ShutDown, s', w') \<and>
     lru_iter list_lru (rca_runs (ws_runs s')) \<noteq> [] \<and>
     ws_runs_needing_fetching s' = [] \<and>
     (\<forall>(k, r) \<in> set (lru_iter list_lru (rca_runs (ws_runs s'))). mr_wft r = None \<and> \<not> has_tasks (mr_task_buffer r) \<and>
       mr_activation r \<in> {None, Some OA_Eviction})"
proof -
  let ?s = "one_run_stream (Some (run_with hu_dummy [] None None None)) []"
  have e: "stream_step list_lru 2 (stream_env True) (WSI_Local LI_BumpStream) ?s (no_world None) =
      Ok (Inl ShutDown, ?s, no_world None)"
    by (simp add: stream_step_def record_span_fields_def reconcile_buffered_def one_run_stream_def shutdown_done_def
        stream_env_def rc_handles_def list_lru_def has_any_pending_work_def more_pending_work_def)
      (simp add: run_with_def BufferedTasks_default_def has_tasks_def)
  have "cache_ok list_lru (config_with []) (ws_runs ?s)" by (rule one_run_ok) simp
  from shutdown_leaves_no_work [OF list_lru_laws this e] have
    "ws_runs_needing_fetching ?s = [] \<and>
     (\<forall>(k, r) \<in> set (lru_iter list_lru (rca_runs (ws_runs ?s))). mr_wft r = None \<and> \<not> has_tasks (mr_task_buffer r) \<and>
       mr_activation r \<in> {None, Some OA_Eviction})" by blast
  moreover have "lru_iter list_lru (rca_runs (ws_runs ?s)) \<noteq> []" by (simp add: one_run_stream_def list_lru_def)
  ultimately show ?thesis using e by blast
qed

theorem freed_slot_stays_empty_witness:
  "let t = sample_query False;
       r = (run_with hu_dummy [] None (Some OA_Eviction) (Some sample_evict))
             \<lparr>mr_task_buffer := BufferedTasks_default\<lparr>bt_wft := Some t\<rparr>\<rparr>;
       report = \<lparr>pam_run_id = ''r'', pam_wft_report_status = NotReported, pam_wft_from_complete = None,
                 pam_is_autocomplete = False\<rparr>
   in \<exists>outs s' w'.
     stream_outputs list_lru 2 [(stream_env False, WSI_Local (LI_PostActivation report)),
         (stream_env False, WSI_FailedFetch ''r'' ''timeout'' (Some \<lparr>uwf_task_token = ''tt'', uwf_attempt = 1, uwf_workflow_type = ''t''\<rparr>))]
       (one_run_stream (Some r) [[other_task]]) (no_world None) = Ok (outs, s', w') \<and>
     lru_iter list_lru (rca_runs (ws_runs s')) = [] \<and> ws_buffered_polls_need_cache_slot s' = [[other_task]]"
proof -
  define r where "r = (run_with hu_dummy [] None (Some OA_Eviction) (Some sample_evict))
    \<lparr>mr_task_buffer := BufferedTasks_default\<lparr>bt_wft := Some (sample_query False)\<rparr>\<rparr>"
  let ?report = "\<lparr>pam_run_id = ''r'', pam_wft_report_status = NotReported, pam_wft_from_complete = None,
    pam_is_autocomplete = False\<rparr>"
  have "mr_activation r = Some OA_Eviction" "mr_task_buffer r = BufferedTasks_default\<lparr>bt_wft := Some (sample_query False)\<rparr>"
    "\<not> wm_have_seen_terminal_event (mr_machines r)"
    by (simp_all add: r_def wfm_new_def wm_new_def Let_def)
  moreover have "is_incremental (pwf_work (sample_query False))" "run_key (sample_query False) = ''r''"
    by (simp_all add: is_incremental_def sample_query_def hu_first_event_id_def)
  ultimately have ev: "evicted_with_task list_lru ''r'' (sample_query False) ?report (one_run_stream (Some r) [[other_task]])"
    by (simp add: evicted_with_task_def one_run_stream_def list_lru_def)
  have env: "\<not> se_shutdown_requested (stream_env False)" "\<not> se_fetches_held (stream_env False)"
    by (simp_all add: stream_env_def)
  have polls: "ws_buffered_polls_need_cache_slot (one_run_stream (Some r) [[other_task]]) = [[other_task]]"
    by (simp add: one_run_stream_def)
  from freed_slot_stays_empty [OF list_lru_laws ev env, of 2 "''timeout''" "\<lparr>uwf_task_token = ''tt'', uwf_attempt = 1, uwf_workflow_type = ''t''\<rparr>"
      "no_world None"]
  show ?thesis unfolding Let_def r_def [symmetric] polls by blast
qed

end
