(* ===== verification/Spec2Isabelle.thy ===== *)
theory Spec2Isabelle
  imports RetryLogic TimerMachine ActivityMachine ChildWorkflowMachine SignalExternalMachine
    UpdateMachine NexusOperationMachine LocalActivityMachine TerminalMachines PropertyMachines
    PatchMachine WorkflowTaskMachine Pagination RunProperties LocalActivityProperties
    ManagedRunProperties StreamProperties
begin

text \<open>
  A verification of the workflow side of the Temporal core SDK: from one state machine per command up
  to the stream that feeds the whole worker.  Paths are those under \<^verbatim>\<open>src/crates/\<close>; where no directory
  is given, it is \<^verbatim>\<open>sdk-core/src/worker/workflow/\<close>.

  \<^bold>\<open>The program.\<close>  A worker polls workflow tasks.  The stream (\<^verbatim>\<open>workflow_stream.rs\<close>) takes one input
  after the other (a task, a completion, the report that a completion was sent, a resolved local
  activity, a request to evict) and directs it to its run in the cache (\<^verbatim>\<open>run_cache.rs\<close>).  A run
  (\<^verbatim>\<open>managed_run.rs\<close>) keeps the protocol with the language side: one activation at a time, one answer to
  each completion, evictions, queries and heartbeats.  It drives a workflow manager (same file), which
  feeds history (\<^verbatim>\<open>history_update.rs\<close>) and commands to the machines of the workflow
  (\<^verbatim>\<open>machines/workflow_machines.rs\<close>): one state machine for every timer, activity, child workflow and so
  on, made by the macro \<^verbatim>\<open>fsm!\<close>.  Local activities are run by a manager of their own
  (\<^verbatim>\<open>sdk-core/src/worker/activities/local_activities.rs\<close>), to which the runs send requests.

  \<^bold>\<open>Conventions.\<close>  Structs are records, enums datatypes, with the names of the source and a prefix where a
  name occurs twice.  Code that can fail returns \<open>res\<close>: a value, an error, or a panic, so that every
  \<^verbatim>\<open>unwrap\<close>, \<^verbatim>\<open>expect\<close> and \<^verbatim>\<open>panic!\<close> is a branch; \<^verbatim>\<open>dbg_panic!\<close> is what it is in a release build, a report
  after which the code goes on.  Unsigned counters are words of their width; event ids and times are
  integers.  Code of other packages is a parameter: \<open>externals\<close> holds conversions of times and
  durations, JSON and protobuf codecs and the hash for random seeds; \<open>LruCache\<close> the LRU cache, with
  its documented behaviour as the hypothesis \<open>lru_laws\<close>; \<open>RunEnv\<close> and \<open>StreamEnv\<close> what the surroundings
  decide (clocks, receivers that went away, the state of the shutdown).

  \<^bold>\<open>Theories, from the bottom.\<close>

  \<^item> \<open>Prelude\<close>, \<open>Protos\<close>, \<open>Commands\<close>, \<open>Activation\<close>: results, words, lists; the messages of \<^verbatim>\<open>protos/\<close>
    restricted to the fields the code reads or writes; the commands of \<^verbatim>\<open>mod.rs\<close>; activations and jobs.
  \<^item> \<open>RetryLogic\<close> (\<^verbatim>\<open>sdk-core/src/retry_logic.rs\<close>) and \<open>InternalFlags\<close> (\<^verbatim>\<open>sdk-core/src/internal_flags.rs\<close>):
    bounds of retry delays; that the flags used live are the flags read on replay.
  \<^item> \<open>Fsm\<close>: the code \<^verbatim>\<open>fsm!\<close> generates, \<^verbatim>\<open>TemporalStateMachine\<close> and \<^verbatim>\<open>Cancellable\<close>.  A machine is a table of
    \<open>arms\<close>.  Its locales are the contracts of machines: final states, an invariant kept without
    panics, and a budget that bounds (\<open>driven_spender\<close>) or fixes (\<open>driven_accountant\<close>) how often a
    machine reports something along any run of events, commands and cancellations.
  \<^item> \<open>TimerMachine\<close>, \<open>ActivityMachine\<close>, \<open>ChildWorkflowMachine\<close>, \<open>SignalExternalMachine\<close> (with external
    cancellations), \<open>UpdateMachine\<close>, \<open>NexusOperationMachine\<close>, \<open>LocalActivityMachine\<close>, \<open>TerminalMachines\<close>
    (complete, fail, cancel, continue as new), \<open>PropertyMachines\<close> (search attributes and memo),
    \<open>PatchMachine\<close>, \<open>WorkflowTaskMachine\<close>: the files of \<^verbatim>\<open>machines/\<close>, each interpreting those locales;
    from them follow the properties on resolving once, firing once and answering once.  \<open>Markers\<close>
    (\<^verbatim>\<open>sdk-core/src/protosext/mod.rs\<close>) has the markers, with their round trips.
  \<^item> \<open>HistoryUpdate\<close>, \<open>Pagination\<close> (\<^verbatim>\<open>history_update.rs\<close>): the scan for the end of a task, proved equal to a
    declarative reference; taking sequences; the paginator, whose updates contain every event once.
  \<^item> \<open>LocalActs\<close>, \<open>DrivenWorkflow\<close>, \<open>Machines\<close>, \<open>MachineContracts\<close>, \<open>WorkflowMachines\<close>, \<open>ApplyHistory\<close>:
    the machines of one workflow and all operations of \<^verbatim>\<open>workflow_machines.rs\<close>.
  \<^item> \<open>RunInvariant\<close>, \<open>RunFrame\<close>, \<open>RunSafety\<close>, \<open>WorkflowManager\<close>, \<open>HistoryFeed\<close>, \<open>ManagerRuns\<close>,
    \<open>RunProperties\<close>: the invariant of the tables, the fields the operations leave alone (locale
    \<open>run_relation\<close> and its extensions), the manager, and its runs as any sequence of calls its caller may
    make: no call panics, tables are typed, the clock does not go back, and applying history refines
    moving a cursor over it.
  \<^item> \<open>LocalActivityManager\<close>, \<open>LocalActivityRuns\<close>, \<open>LocalActivityProperties\<close>: the manager of local activities
    and its runs over requests, polls, completions and elapsed timers, in any order.
  \<^item> \<open>WorkflowTasks\<close> (types of \<^verbatim>\<open>mod.rs\<close>), \<open>ManagedRun\<close>, \<open>WorkflowStream\<close>: the runs, the cache and the
    stream.  \<open>ManagedRun\<close> is the record of the source's fields; \<open>World\<close> holds what the calls change outside
    the run (the local activity manager, the answers sent, the next abort handle); a call is a \<open>step\<close>.
  \<^item> \<open>RunContracts\<close>, \<open>CompletionContracts\<close>, \<open>Evictions\<close>, \<open>StreamContracts\<close>: what the calls promise, in the
    form \<open>steps m E Q\<close> (the result satisfies \<open>Q\<close>, the reason to stop \<open>E\<close>).  The locale \<open>fail_handling\<close>
    is the interface between completions and the handling of failed ones, interpreted on the code
    twice: for every configuration, and for those that never turn nondeterminism into a workflow failure.
  \<^item> \<open>ManagedRunProperties\<close>, \<open>StreamProperties\<close>: activations, answers, evictions, slots of the cache, shutdown,
    and the behaviours in which the code differs from its documentation.

  \<^bold>\<open>Termination and fuel.\<close>  Loops over histories and tasks are total functions with a measure.  The
  paginator reads the answers of the server from a list, which may end before the loop does; that it
  returns once a last page or an error is among them is proved.
  \<^verbatim>\<open>failed_completion\<close>, \<^verbatim>\<open>request_eviction\<close> and \<^verbatim>\<open>successful_completion\<close> call each other; the model
  counts the levels with \<open>depth\<close>, and reaching the bottom is the outcome \<open>DepthExceeded\<close>, which is no
  outcome of the code.  Two levels are enough for every sequence of inputs when the worker does not turn
  nondeterminism into workflow failures, as is proved; for the others the properties hold at every depth
  for the calls that do not reach the bottom.  When a call of the manager fails, the state it leaves in
  the machines is not modelled: it is \<open>env_left\<close>, an arbitrary function, so that what is proved
  holds for every such state.

  \<^bold>\<open>Not modelled.\<close>  The worker, its pollers, the fetching of histories (\<^verbatim>\<open>wft_extraction.rs\<close>,
  \<^verbatim>\<open>wft_poller.rs\<close>) and the asynchronous part of \<^verbatim>\<open>mod.rs\<close>: they are tasks around RPC calls and channels, and
  their results, in any order, are the inputs of the stream.  The manager of remote activities, slot
  suppliers and tuners: permits, timers and readings of the operating system.  Clients, telemetry, the C
  interface, replay and test servers, macros other than \<^verbatim>\<open>fsm!\<close>: input and output, or code
  generation.  The language SDK (\<^verbatim>\<open>sdk/\<close>, \<^verbatim>\<open>workflow/\<close>): futures that run user code.  Metrics, logging and
  tracing spans are left out of the functions that are modelled, except that recording a span
  looks up the run and so makes it the most recent one in the cache.  \<^verbatim>\<open>cancel_nexus_op_state_machine.rs\<close> is
  not compiled.
\<close>

end
